(* ===== verification/Py_Base.thy ===== *)
theory Py_Base
  imports Complex_Main "HOL-Library.AList" "HOL-Library.Sublist"
    "HOL-Library.Char_ord" "HOL-Library.List_Lexorder"
begin

text \<open>
  The prelude of the development: what the modelled Python modules use of the language.

  \<^item> Exceptions are values: \<open>py_error\<close> has one constructor per exception class the modelled
    code raises, and a fallible function returns \<open>'a res\<close> (\<open>Inl\<close> the exception).
  \<^item> \<open>str\<close> methods (\<open>strip\<close>, \<open>upper\<close>, \<open>lower\<close>, \<open>title\<close>, \<open>isalnum\<close>, \<open>replace\<close>,
    \<open>startswith\<close>, \<open>str(int)\<close>, \<open>int(str)\<close>) over ASCII text: a \<open>string\<close> is a list of
    characters with codes below 128. Code points above ASCII are outside the model.
  \<^item> A dict with string keys is an association list in insertion order; \<open>AList.update\<close> is
    Python's \<open>d[k] = v\<close> (in place for a known key, at the end for a new one).
\<close>

named_theorems res_simps \<open>inversion of the result monad\<close>
named_theorems str_simps \<open>Python string methods on canonical text\<close>
named_theorems dict_simps \<open>Python dictionaries as association lists\<close>

section \<open>Exceptions as values\<close>

datatype py_error =
    ValueError string
  | RuntimeError string
  | TypeError string
  | KeyError string
  | OverflowError string
  | DecimalSignal string
  | ZeroDivisionError
  | VersionConflict
  | DuplicateExecutionBlocked string
  | BybitRejectedOrder string int
  | AttributeError string
  | HttpError string
  | CustomError string string

text \<open>\<open>type(exc).__name__\<close>; a transport failure and an exception class of a
  component carry the name of their class.\<close>

fun error_name :: "py_error \<Rightarrow> string" where
  "error_name (ValueError m) = ''ValueError''"
| "error_name (RuntimeError m) = ''RuntimeError''"
| "error_name (TypeError m) = ''TypeError''"
| "error_name (KeyError m) = ''KeyError''"
| "error_name (OverflowError m) = ''OverflowError''"
| "error_name (DecimalSignal m) = m"
| "error_name ZeroDivisionError = ''ZeroDivisionError''"
| "error_name VersionConflict = ''VersionConflict''"
| "error_name (DuplicateExecutionBlocked m) = ''DuplicateExecutionBlocked''"
| "error_name (BybitRejectedOrder m c) = ''BybitRejectedOrder''"
| "error_name (AttributeError m) = ''AttributeError''"
| "error_name (HttpError n) = n"
| "error_name (CustomError n m) = n"

type_synonym 'a res = "py_error + 'a"

fun rbind :: "'a res \<Rightarrow> ('a \<Rightarrow> 'b res) \<Rightarrow> 'b res" where
  "rbind (Inl e) f = Inl e"
| "rbind (Inr x) f = f x"

text \<open>A list comprehension whose body may raise: elements are evaluated left to right.\<close>

fun rmapM :: "('a \<Rightarrow> 'b res) \<Rightarrow> 'a list \<Rightarrow> 'b list res" where
  "rmapM f [] = Inr []"
| "rmapM f (x # xs) = rbind (f x) (\<lambda>y. rbind (rmapM f xs) (\<lambda>ys. Inr (y # ys)))"

text \<open>A \<open>for\<close> loop over a list whose body updates a state and may raise.\<close>

fun rfold :: "('s \<Rightarrow> 'a \<Rightarrow> 's res) \<Rightarrow> 's \<Rightarrow> 'a list \<Rightarrow> 's res" where
  "rfold f s [] = Inr s"
| "rfold f s (x # xs) = rbind (f s x) (\<lambda>s'. rfold f s' xs)"

section \<open>Strings\<close>

definition ccode :: "char \<Rightarrow> int" where
  "ccode c = of_char c"

definition is_space :: "char \<Rightarrow> bool" where
  "is_space c = (ccode c = 32 \<or> (9 \<le> ccode c \<and> ccode c \<le> 13) \<or> (28 \<le> ccode c \<and> ccode c \<le> 31))"

definition is_upper :: "char \<Rightarrow> bool" where
  "is_upper c = (65 \<le> ccode c \<and> ccode c \<le> 90)"

definition is_lower :: "char \<Rightarrow> bool" where
  "is_lower c = (97 \<le> ccode c \<and> ccode c \<le> 122)"

definition is_digit :: "char \<Rightarrow> bool" where
  "is_digit c = (48 \<le> ccode c \<and> ccode c \<le> 57)"

definition is_alnum :: "char \<Rightarrow> bool" where
  "is_alnum c = (is_upper c \<or> is_lower c \<or> is_digit c)"

definition char_upper :: "char \<Rightarrow> char" where
  "char_upper c = (if is_lower c then char_of (ccode c - 32) else c)"

definition char_lower :: "char \<Rightarrow> char" where
  "char_lower c = (if is_upper c then char_of (ccode c + 32) else c)"

definition strip :: "string \<Rightarrow> string" where
  "strip s = rev (dropWhile is_space (rev (dropWhile is_space s)))"

definition upper :: "string \<Rightarrow> string" where
  "upper s = map char_upper s"

definition lower :: "string \<Rightarrow> string" where
  "lower s = map char_lower s"

text \<open>\<open>str.title\<close>: a cased character is upper-cased iff the character before it is not cased.\<close>

fun title_from :: "bool \<Rightarrow> string \<Rightarrow> string" where
  "title_from prev [] = []"
| "title_from prev (c # cs) =
     (if prev then char_lower c else char_upper c) # title_from (is_upper c \<or> is_lower c) cs"

definition title :: "string \<Rightarrow> string" where
  "title s = title_from False s"

definition isalnum :: "string \<Rightarrow> bool" where
  "isalnum s = (s \<noteq> [] \<and> list_all is_alnum s)"

text \<open>\<open>s.replace(c, "")\<close> for a single character.\<close>

definition remove_char :: "char \<Rightarrow> string \<Rightarrow> string" where
  "remove_char c s = filter (\<lambda>d. d \<noteq> c) s"

definition startswith :: "string \<Rightarrow> string \<Rightarrow> bool" where
  "startswith s p = (take (length p) s = p)"

definition is_hex :: "char \<Rightarrow> bool" where
  "is_hex c = (c \<in> set ''0123456789abcdef'')"

subsection \<open>Decimal digits\<close>

definition digit_char :: "nat \<Rightarrow> char" where
  "digit_char d = char_of (48 + d)"

fun digits :: "nat \<Rightarrow> nat list" where
  "digits n = (if n < 10 then [n] else digits (n div 10) @ [n mod 10])"

declare digits.simps [simp del]

definition nat_str :: "nat \<Rightarrow> string" where
  "nat_str n = map digit_char (digits n)"

definition int_str :: "int \<Rightarrow> string" where
  "int_str i = (if i < 0 then CHR ''-'' # nat_str (nat (- i)) else nat_str (nat i))"

definition digit_val :: "char \<Rightarrow> nat" where
  "digit_val c = nat (ccode c - 48)"

definition nat_of_digits :: "string \<Rightarrow> nat" where
  "nat_of_digits s = foldl (\<lambda>n c. 10 * n + digit_val c) 0 s"

text \<open>
  Digit groups as \<open>int()\<close>, \<open>float()\<close> and \<open>Decimal()\<close> read them: single underscores are
  allowed between digits. \<open>ungroup\<close> returns the digits without underscores.
\<close>

fun ungroup :: "string \<Rightarrow> string option" where
  "ungroup [] = Some []"
| "ungroup [c] = (if is_digit c then Some [c] else None)"
| "ungroup (c # d # cs) =
     (if \<not> is_digit c then None
      else if d = CHR ''_'' then
        (case cs of [] \<Rightarrow> None | _ # _ \<Rightarrow> map_option (Cons c) (ungroup cs))
      else map_option (Cons c) (ungroup (d # cs)))"

definition split_sign :: "string \<Rightarrow> bool \<times> string" where
  "split_sign s =
     (case s of [] \<Rightarrow> (False, [])
      | c # cs \<Rightarrow> if c = CHR ''-'' then (True, cs)
                  else if c = CHR ''+'' then (False, cs) else (False, s))"

definition int_of_string :: "string \<Rightarrow> int option" where
  "int_of_string s =
     (let (neg, body) = split_sign (strip s)
      in case ungroup body of
           Some (c # cs) \<Rightarrow> Some ((if neg then -1 else 1) * int (nat_of_digits (c # cs)))
         | _ \<Rightarrow> None)"

section \<open>Dictionaries\<close>

type_synonym 'v dict = "(string \<times> 'v) list"

text \<open>\<open>d1 == d2\<close> ignores the insertion order.\<close>

definition dict_eq :: "'v dict \<Rightarrow> 'v dict \<Rightarrow> bool" where
  "dict_eq a b =
     (list_all (\<lambda>(k, v). map_of b k = map_of a k) a \<and>
      list_all (\<lambda>(k, v). map_of a k = map_of b k) b)"

text \<open>\<open>sorted(set(xs))\<close>.\<close>

definition sorted_set :: "string list \<Rightarrow> string list" where
  "sorted_set xs = sort (remdups xs)"

text \<open>\<open>dict.fromkeys\<close>: the first occurrence of each element.\<close>

definition first_occurrences :: "'a list \<Rightarrow> 'a list" where
  "first_occurrences xs = rev (remdups (rev xs))"

text \<open>\<open>", ".join(xs)\<close> and the like.\<close>

fun join :: "string \<Rightarrow> string list \<Rightarrow> string" where
  "join sep [] = []"
| "join sep [x] = x"
| "join sep (x # y # ys) = x @ sep @ join sep (y # ys)"

section \<open>Environment variables\<close>

type_synonym os_env = "string \<Rightarrow> string option"

text \<open>\<open>os.getenv(name, default)\<close> and the words the code reads as true.\<close>

definition getenv :: "os_env \<Rightarrow> string \<Rightarrow> string \<Rightarrow> string" where
  "getenv env name dflt = (case env name of None \<Rightarrow> dflt | Some v \<Rightarrow> v)"

definition true_words :: "string list" where
  "true_words = [''1'', ''true'', ''yes'', ''on'']"

section \<open>Lemmas on results\<close>

text \<open>Evaluation decides the outcome of the first operation before it unfolds the rest.\<close>

lemma rbind_case [code_unfold]: "rbind m f = (case m of Inl e \<Rightarrow> Inl e | Inr a \<Rightarrow> f a)"
  by (cases m) auto

lemma rbind_Inr_iff [res_simps]:
  "rbind m f = Inr y \<longleftrightarrow> (\<exists>x. m = Inr x \<and> f x = Inr y)"
  by (cases m) auto

lemma rbind_Inl_iff [res_simps]:
  "rbind m f = Inl e \<longleftrightarrow> m = Inl e \<or> (\<exists>x. m = Inr x \<and> f x = Inl e)"
  by (cases m) auto

text \<open>A guard that raises: linear inversion, without case splits.\<close>

lemma guard_Inr_iff [res_simps]:
  "(if b then Inl e else m) = Inr y \<longleftrightarrow> \<not> b \<and> m = Inr y"
  "(if b then m else Inl e) = Inr y \<longleftrightarrow> b \<and> m = Inr y"
  by auto

lemma rbind_cong [fundef_cong]:
  "m = m' \<Longrightarrow> (\<And>x. m' = Inr x \<Longrightarrow> f x = f' x) \<Longrightarrow> rbind m f = rbind m' f'"
  by (cases m') auto

lemma rmapM_Inr_length: "rmapM f xs = Inr ys \<Longrightarrow> length ys = length xs"
  by (induction xs arbitrary: ys) (auto simp: res_simps)

lemma rmapM_Inr_set:
  "rmapM f xs = Inr ys \<Longrightarrow> y \<in> set ys \<Longrightarrow> \<exists>x \<in> set xs. f x = Inr y"
  by (induction xs arbitrary: ys) (auto simp: res_simps)

text \<open>The Hoare rule of a raising loop.\<close>

lemma rfold_invariant:
  assumes "rfold f s xs = Inr s'" "I s"
    and "\<And>t x t'. x \<in> set xs \<Longrightarrow> I t \<Longrightarrow> f t x = Inr t' \<Longrightarrow> I t'"
  shows "I s'"
  using assms by (induction xs arbitrary: s) (auto simp: res_simps)

section \<open>Lemmas on dictionaries\<close>

lemma dict_eq_iff: "dict_eq a b \<longleftrightarrow> map_of a = map_of b"
proof
  assume eq: "dict_eq a b"
  show "map_of a = map_of b"
  proof
    fix k
    show "map_of a k = map_of b k"
    proof (cases "k \<in> fst ` set a \<union> fst ` set b")
      case True
      with eq show ?thesis by (auto simp: dict_eq_def list_all_iff)
    next
      case False
      then show ?thesis by (simp add: map_of_eq_None_iff [THEN iffD2])
    qed
  qed
qed (simp add: dict_eq_def list_all_iff split_beta)

lemma dict_eq_refl [simp]: "dict_eq a a"
  by (simp add: dict_eq_iff)

lemmas dict_update [dict_simps] = update_conv distinct_update dom_update

lemma set_update_subset: "set (AList.update k v al) \<subseteq> insert (k, v) (set al)"
  by (induction al) auto

lemma update_fresh: "map_of al k = None \<Longrightarrow> AList.update k v al = al @ [(k, v)]"
  by (induction al) (auto split: if_splits)

lemma map_of_in_set_distinct:
  "distinct (map fst al) \<Longrightarrow> (k, v) \<in> set al \<longleftrightarrow> map_of al k = Some v"
  by (auto dest: map_of_SomeD)

section \<open>Lemmas on strings\<close>

lemma dropWhile_none: "list_all (\<lambda>c. \<not> P c) s \<Longrightarrow> dropWhile P s = s"
  by (cases s) auto

lemma strip_no_space [str_simps]: "list_all (\<lambda>c. \<not> is_space c) s \<Longrightarrow> strip s = s"
  by (simp add: strip_def dropWhile_none list.pred_set)

lemma hd_dropWhile_not: "dropWhile P s \<noteq> [] \<Longrightarrow> \<not> P (hd (dropWhile P s))"
  by (induction s) auto

lemma strip_ends:
  assumes "strip s \<noteq> []"
  shows "\<not> is_space (hd (strip s))" "\<not> is_space (last (strip s))"
proof -
  let ?t = "dropWhile is_space s"
  let ?u = "dropWhile is_space (rev ?t)"
  from assms have u: "?u \<noteq> []" and eq: "strip s = rev ?u" by (auto simp: strip_def)
  from u have "\<not> is_space (hd ?u)" by (rule hd_dropWhile_not)
  with u show "\<not> is_space (last (strip s))" by (simp add: eq last_rev)
  have suf: "suffix ?u (rev ?t)" by (rule suffix_dropWhile)
  then obtain v where v: "rev ?t = v @ ?u" by (auto simp: suffix_def)
  then have t: "?t = rev ?u @ rev v" by (metis rev_append rev_rev_ident)
  from t u have "?t \<noteq> []" by (metis Nil_is_append_conv rev_is_Nil_conv)
  moreover from t u have "hd ?t = hd (rev ?u)" by (metis hd_append2 rev_is_Nil_conv)
  ultimately have "\<not> is_space (hd (rev ?u))" using hd_dropWhile_not [of is_space s] by metis
  then show "\<not> is_space (hd (strip s))" unfolding eq .
qed

lemma dropWhile_id: "s = [] \<or> \<not> P (hd s) \<Longrightarrow> dropWhile P s = s"
  by (cases s) auto

lemma strip_strip [simp]: "strip (strip s) = strip s"
proof (cases "strip s = []")
  case True
  show ?thesis unfolding True by (simp add: strip_def)
next
  case False
  from strip_ends [OF False] False show ?thesis
    by (simp add: strip_def [of "strip s"] dropWhile_id hd_rev)
qed

lemma strip_Nil_iff: "strip s = [] \<longleftrightarrow> list_all is_space s"
proof
  assume "strip s = []"
  then have all: "\<forall>c \<in> set (dropWhile is_space s). is_space c" by (simp add: strip_def)
  have "dropWhile is_space s = []"
    using all hd_dropWhile_not [of is_space s] by (cases "dropWhile is_space s") auto
  then show "list_all is_space s" by (simp add: list_all_iff)
qed (auto simp: strip_def list_all_iff dest: set_dropWhileD)

lemma strip_not_Nil: "\<not> is_space c \<Longrightarrow> strip (c # s) \<noteq> []"
  by (simp add: strip_Nil_iff)

lemma is_hex_alnum: "is_hex c \<Longrightarrow> is_alnum c"
  by (auto simp: is_hex_def is_alnum_def is_digit_def is_lower_def is_upper_def ccode_def)

lemma is_alnum_not_space: "is_alnum c \<Longrightarrow> \<not> is_space c"
  by (auto simp: is_alnum_def is_digit_def is_lower_def is_upper_def is_space_def)

lemma rmapM_Inr_all:
  assumes "\<And>x. x \<in> set xs \<Longrightarrow> f x = Inr (g x)"
  shows "rmapM f xs = Inr (map g xs)"
  using assms by (induction xs) auto

lemma sort_key_decorate: "sort_key fst (map (\<lambda>r. (f r, r)) xs) = map (\<lambda>r. (f r, r)) (sort_key f xs)"
proof -
  have "insort_key fst (f x, x) (map (\<lambda>r. (f r, r)) ys) = map (\<lambda>r. (f r, r)) (insort_key f x ys)" for x ys
    by (induction ys) auto
  then show ?thesis by (induction xs) simp_all
qed

lemma map_fst_sort_key: "map fst (sort_key fst xs) = sort (map fst xs)"
proof -
  have "map fst (insort_key fst x ys) = insort (fst x) (map fst ys)" for x and ys :: "('a \<times> 'b) list"
    by (induction ys) auto
  then show ?thesis by (induction xs) simp_all
qed

lemma set_sorted_set [simp]: "set (sorted_set xs) = set xs"
  by (simp add: sorted_set_def)

lemma sorted_set_Nil [simp]: "sorted_set xs = [] \<longleftrightarrow> xs = []"
  by (metis set_empty set_sorted_set)

lemma rfold_unit_Inr:
  "rfold f () xs = Inr () \<longleftrightarrow> (\<forall>x \<in> set xs. f () x = Inr ())"
  by (induction xs) (auto simp: res_simps)

end
