(* ===== verification/Py_Float.thy ===== *)
theory Py_Float
  imports Py_Base "HOL-Library.Log_Nat"
begin

text \<open>
  Python's \<open>float\<close>: IEEE 754 binary64. A float is a NaN, an infinity or a finite value, and a
  finite value is the rational it denotes; every arithmetic result is rounded to the nearest
  binary64 value, ties to even (\<open>rnd64\<close>). The two zeros are one value: no modelled
  operation tells them apart. Comparisons with NaN are false, a division by zero raises.
  \<open>float_of_string\<close> is \<open>float(s)\<close>, \<open>float_repr\<close> is \<open>repr(x)\<close> (the shortest decimal that
  reads back as \<open>x\<close>), \<open>py_sum\<close> is the compensated \<open>sum\<close> of Python 3.12, the version the
  repository pins.
\<close>

datatype pyfloat = FNaN | FInf bool | Fin rat

section \<open>Rounding to binary64\<close>

definition rhe :: "rat \<Rightarrow> int" where
  "rhe x = (let f = \<lfloor>x\<rfloor>; d = x - of_int f
            in if d < 1 / 2 then f else if 1 / 2 < d then f + 1 else if even f then f else f + 1)"

definition pow2 :: "int \<Rightarrow> rat" where
  "pow2 k = (if 0 \<le> k then of_int (2 ^ nat k) else 1 / of_int (2 ^ nat (- k)))"

definition pow10 :: "int \<Rightarrow> rat" where
  "pow10 k = (if 0 \<le> k then of_int (10 ^ nat k) else 1 / of_int (10 ^ nat (- k)))"

text \<open>The exponent of the binade of a positive rational.\<close>

definition ilog2 :: "rat \<Rightarrow> int" where
  "ilog2 x = (let (a, b) = quotient_of x; k = bitlen a - bitlen b
              in if pow2 k \<le> x then k else k - 1)"

definition rnd64 :: "rat \<Rightarrow> pyfloat" where
  "rnd64 x =
     (if x = 0 then Fin 0
      else let q = max (ilog2 \<bar>x\<bar> - 52) (- 1074);
               y = of_int (rhe (x / pow2 q)) * pow2 q
           in if pow2 1024 \<le> \<bar>y\<bar> then FInf (x < 0) else Fin y)"

section \<open>Operations\<close>

fun isfinite :: "pyfloat \<Rightarrow> bool" where
  "isfinite (Fin x) = True"
| "isfinite _ = False"

fun flt :: "pyfloat \<Rightarrow> pyfloat \<Rightarrow> bool" where
  "flt (Fin x) (Fin y) = (x < y)"
| "flt (Fin x) (FInf s) = (\<not> s)"
| "flt (FInf s) (Fin y) = s"
| "flt (FInf s) (FInf t) = (s \<and> \<not> t)"
| "flt _ _ = False"

fun feq :: "pyfloat \<Rightarrow> pyfloat \<Rightarrow> bool" where
  "feq (Fin x) (Fin y) = (x = y)"
| "feq (FInf s) (FInf t) = (s = t)"
| "feq _ _ = False"

definition fle :: "pyfloat \<Rightarrow> pyfloat \<Rightarrow> bool" where
  "fle x y = (flt x y \<or> feq x y)"

fun fneg :: "pyfloat \<Rightarrow> pyfloat" where
  "fneg (Fin x) = Fin (- x)"
| "fneg (FInf s) = FInf (\<not> s)"
| "fneg FNaN = FNaN"

fun fabs :: "pyfloat \<Rightarrow> pyfloat" where
  "fabs (Fin x) = Fin \<bar>x\<bar>"
| "fabs (FInf s) = FInf False"
| "fabs FNaN = FNaN"

fun fadd :: "pyfloat \<Rightarrow> pyfloat \<Rightarrow> pyfloat" where
  "fadd (Fin x) (Fin y) = rnd64 (x + y)"
| "fadd (FInf s) (FInf t) = (if s = t then FInf s else FNaN)"
| "fadd (FInf s) (Fin y) = FInf s"
| "fadd (Fin x) (FInf t) = FInf t"
| "fadd _ _ = FNaN"

definition fsub :: "pyfloat \<Rightarrow> pyfloat \<Rightarrow> pyfloat" where
  "fsub x y = fadd x (fneg y)"

fun fmul :: "pyfloat \<Rightarrow> pyfloat \<Rightarrow> pyfloat" where
  "fmul (Fin x) (Fin y) = rnd64 (x * y)"
| "fmul (FInf s) (FInf t) = FInf (s \<noteq> t)"
| "fmul (FInf s) (Fin y) = (if y = 0 then FNaN else FInf (s \<noteq> (y < 0)))"
| "fmul (Fin x) (FInf t) = (if x = 0 then FNaN else FInf ((x < 0) \<noteq> t))"
| "fmul _ _ = FNaN"

fun fdiv :: "pyfloat \<Rightarrow> pyfloat \<Rightarrow> pyfloat res" where
  "fdiv x (Fin y) =
     (if y = 0 then Inl ZeroDivisionError
      else Inr (case x of Fin a \<Rightarrow> rnd64 (a / y) | FInf s \<Rightarrow> FInf (s \<noteq> (y < 0)) | FNaN \<Rightarrow> FNaN))"
| "fdiv x (FInf t) = Inr (case x of Fin a \<Rightarrow> Fin 0 | _ \<Rightarrow> FNaN)"
| "fdiv x FNaN = Inr FNaN"

text \<open>Division by a literal that is not zero.\<close>

definition fdiv_by :: "pyfloat \<Rightarrow> rat \<Rightarrow> pyfloat" where
  "fdiv_by x c = (case x of Fin a \<Rightarrow> rnd64 (a / c) | FInf s \<Rightarrow> FInf (s \<noteq> (c < 0)) | FNaN \<Rightarrow> FNaN)"

text \<open>\<open>max(a, b)\<close> and \<open>min(a, b)\<close> keep the first argument unless the second is strictly better.\<close>

definition py_max :: "pyfloat \<Rightarrow> pyfloat \<Rightarrow> pyfloat" where
  "py_max a b = (if flt a b then b else a)"

definition py_min :: "pyfloat \<Rightarrow> pyfloat \<Rightarrow> pyfloat" where
  "py_min a b = (if flt b a then b else a)"

definition float_of_int :: "int \<Rightarrow> pyfloat res" where
  "float_of_int i =
     (case rnd64 (of_int i) of Fin x \<Rightarrow> Inr (Fin x)
      | _ \<Rightarrow> Inl (OverflowError ''int too large to convert to float''))"

text \<open>\<open>int(x)\<close> truncates towards zero.\<close>

fun int_of_float :: "pyfloat \<Rightarrow> int res" where
  "int_of_float (Fin x) = Inr (if 0 \<le> x then \<lfloor>x\<rfloor> else \<lceil>x\<rceil>)"
| "int_of_float (FInf s) = Inl (OverflowError ''cannot convert float infinity to integer'')"
| "int_of_float FNaN = Inl (ValueError ''cannot convert float NaN to integer'')"

text \<open>\<open>round(x, n)\<close>: the decimal nearest to the exact value, read back as a float.\<close>

fun round_to :: "nat \<Rightarrow> pyfloat \<Rightarrow> pyfloat" where
  "round_to n (Fin x) = rnd64 (of_int (rhe (x * 10 ^ n)) / 10 ^ n)"
| "round_to n x = x"

text \<open>
  \<open>sum\<close> over floats: the running total starts as the first item; the Neumaier
  compensation is added at the end when it is finite and not zero.
\<close>

fun sum_loop :: "pyfloat \<Rightarrow> pyfloat \<Rightarrow> pyfloat list \<Rightarrow> pyfloat" where
  "sum_loop t c [] = (if isfinite c \<and> \<not> feq c (Fin 0) then fadd t c else t)"
| "sum_loop t c (x # xs) =
     (let t' = fadd t x
      in sum_loop t' (fadd c (if fle (fabs x) (fabs t) then fadd (fsub t t') x
                              else fadd (fsub x t') t)) xs)"

definition py_sum :: "pyfloat list \<Rightarrow> pyfloat" where
  "py_sum xs = (case xs of [] \<Rightarrow> Fin 0 | y # ys \<Rightarrow> sum_loop y (Fin 0) ys)"

section \<open>Text to float and back\<close>

definition parse_exponent :: "string \<Rightarrow> int option" where
  "parse_exponent s =
     (case s of [] \<Rightarrow> Some 0
      | _ # cs \<Rightarrow> let (neg, body) = split_sign cs
          in case ungroup body of
               Some (d # ds) \<Rightarrow> Some ((if neg then - 1 else 1) * int (nat_of_digits (d # ds)))
             | _ \<Rightarrow> None)"

text \<open>A decimal literal: sign, coefficient and exponent.\<close>

definition parse_number :: "string \<Rightarrow> (bool \<times> nat \<times> int) option" where
  "parse_number s =
     (let (neg, body) = split_sign s;
          mant = takeWhile (\<lambda>c. c \<noteq> CHR ''e'' \<and> c \<noteq> CHR ''E'') body;
          ip = takeWhile (\<lambda>c. c \<noteq> CHR ''.'') mant
      in case ungroup ip of None \<Rightarrow> None
         | Some i \<Rightarrow>
           (case ungroup (drop (Suc (length ip)) mant) of None \<Rightarrow> None
            | Some f \<Rightarrow>
              (case parse_exponent (drop (length mant) body) of None \<Rightarrow> None
               | Some e \<Rightarrow> if i @ f = [] then None
                   else Some (neg, nat_of_digits (i @ f), e - int (length f)))))"

definition float_of_string :: "string \<Rightarrow> pyfloat option" where
  "float_of_string s =
     (let t = strip s
      in case parse_number t of
           Some (neg, c, e) \<Rightarrow> Some (rnd64 ((if neg then - 1 else 1) * of_nat c * pow10 e))
         | None \<Rightarrow>
             (let (neg, body) = split_sign t; w = lower body
              in if w = ''inf'' \<or> w = ''infinity'' then Some (FInf neg)
                 else if w = ''nan'' then Some FNaN else None))"

text \<open>The exponent of the decade of a positive rational.\<close>

definition ilog10 :: "rat \<Rightarrow> int" where
  "ilog10 x = (let (a, b) = quotient_of x;
                   k = int (length (digits (nat a))) - int (length (digits (nat b)))
               in if pow10 k \<le> x then k else k - 1)"

text \<open>Candidates with \<open>n\<close> significant digits: the nearest, then the neighbours on both sides.\<close>

definition repr_candidates :: "rat \<Rightarrow> nat \<Rightarrow> (int \<times> int) list" where
  "repr_candidates x n =
     (let s = ilog10 x - int n + 1; y = x / pow10 s
      in [(rhe y, s), (\<lfloor>y\<rfloor>, s), (\<lfloor>y\<rfloor> + 1, s)])"

text \<open>The first candidate that reads back, trying the lengths in turn.\<close>

fun repr_search :: "rat \<Rightarrow> nat list \<Rightarrow> (int \<times> int) option" where
  "repr_search x [] = None"
| "repr_search x (n # ns) =
     (case find (\<lambda>(d, s). rnd64 (of_int d * pow10 s) = Fin x) (repr_candidates x n) of
        Some p \<Rightarrow> Some p
      | None \<Rightarrow> repr_search x ns)"

definition repr_digits :: "rat \<Rightarrow> int \<times> int" where
  "repr_digits x =
     (case repr_search x [1..<18] of Some p \<Rightarrow> p | None \<Rightarrow> hd (repr_candidates x 17))"

definition repr_layout :: "string \<Rightarrow> int \<Rightarrow> string" where
  "repr_layout ds e =
     (if - 4 \<le> e \<and> e < 16 then
        (if int (length ds) - 1 \<le> e
         then ds @ replicate (nat (e + 1 - int (length ds))) (CHR ''0'') @ ''.0''
         else if 0 \<le> e then take (nat (e + 1)) ds @ ''.'' @ drop (nat (e + 1)) ds
         else ''0.'' @ replicate (nat (- e - 1)) (CHR ''0'') @ ds)
      else take 1 ds @ (if length ds = 1 then [] else ''.'' @ drop 1 ds) @
           (if e < 0 then ''e-'' else ''e+'') @
           (if \<bar>e\<bar> < 10 then ''0'' else []) @ nat_str (nat \<bar>e\<bar>))"

definition repr_positive :: "rat \<Rightarrow> string" where
  "repr_positive x =
     (let (d, s) = repr_digits x;
          ds = nat_str (nat d);
          short = rev (dropWhile (\<lambda>c. c = CHR ''0'') (rev ds))
      in repr_layout short (int (length ds) + s - 1))"

fun float_repr :: "pyfloat \<Rightarrow> string" where
  "float_repr FNaN = ''nan''"
| "float_repr (FInf s) = (if s then ''-inf'' else ''inf'')"
| "float_repr (Fin x) =
     (if x = 0 then ''0.0'' else if x < 0 then CHR ''-'' # repr_positive (- x)
      else repr_positive x)"

section \<open>Comparisons\<close>

lemma flt_trans: "flt x y \<Longrightarrow> flt y z \<Longrightarrow> flt x z"
  by (cases x; cases y; cases z) auto

lemma fle_trans: "fle x y \<Longrightarrow> fle y z \<Longrightarrow> fle x z"
  by (cases x; cases y; cases z) (auto simp: fle_def)

lemma fle_Fin [simp]: "fle (Fin x) (Fin y) \<longleftrightarrow> x \<le> y"
  by (auto simp: fle_def)

lemma isfinite_iff: "isfinite x \<longleftrightarrow> (\<exists>r. x = Fin r)"
  by (cases x) auto

section \<open>Rounding\<close>

lemma rhe_floor: "\<lfloor>x\<rfloor> \<le> rhe x" "rhe x \<le> \<lfloor>x\<rfloor> + 1"
  by (auto simp: rhe_def Let_def)

lemma rhe_of_int [simp]: "rhe (of_int n) = n"
  by (simp add: rhe_def)

lemma rhe_mono: "x \<le> y \<Longrightarrow> rhe x \<le> rhe y"
proof (cases "\<lfloor>x\<rfloor> = \<lfloor>y\<rfloor>")
  case True
  then show "x \<le> y \<Longrightarrow> rhe x \<le> rhe y" by (auto simp: rhe_def Let_def)
next
  case False
  assume "x \<le> y"
  with False have "\<lfloor>x\<rfloor> + 1 \<le> \<lfloor>y\<rfloor>" using floor_mono [OF \<open>x \<le> y\<close>] by linarith
  then show ?thesis using rhe_floor(2) [of x] rhe_floor(1) [of y] by linarith
qed

lemma rhe_le_int: "x \<le> of_int n \<Longrightarrow> rhe x \<le> n"
  using rhe_mono [of x "of_int n"] by simp

lemma rhe_ge_int: "of_int n \<le> x \<Longrightarrow> n \<le> rhe x"
  using rhe_mono [of "of_int n" x] by simp

lemma pow2_pos [simp]: "0 < pow2 k"
  by (simp add: pow2_def)

lemma pow2_power_int: "pow2 k = 2 powi k"
  by (simp add: pow2_def power_int_def field_simps)

lemma pow2_add: "pow2 (i + j) = pow2 i * pow2 j"
  by (simp add: pow2_power_int power_int_add)

lemma pow2_less: "i < j \<Longrightarrow> pow2 i < pow2 j"
  by (simp add: pow2_power_int power_int_strict_increasing)

lemma pow2_le_iff [simp]: "pow2 i \<le> pow2 j \<longleftrightarrow> i \<le> j"
  using pow2_less [of i j] pow2_less [of j i] by (cases i j rule: linorder_cases) simp_all

lemma pow2_less_iff [simp]: "pow2 i < pow2 j \<longleftrightarrow> i < j"
  using pow2_less [of i j] pow2_less [of j i] by (cases i j rule: linorder_cases) simp_all

lemma pow2_nonneg_int: "0 \<le> k \<Longrightarrow> pow2 k = of_int (2 ^ nat k)"
  by (simp add: pow2_def)

lemma pow2_minus: "pow2 (- k) = 1 / pow2 k"
  by (simp add: pow2_power_int power_int_minus divide_inverse)

text \<open>The binade of a positive rational.\<close>

lemma bitlen_pow2:
  assumes "0 < a"
  shows "pow2 (bitlen a - 1) \<le> of_int a" "of_int a < pow2 (bitlen a)"
proof -
  have "1 \<le> bitlen a" using assms bitlen_nonneg [of a] bitlen_eq_zero_iff [of a] by linarith
  then show "pow2 (bitlen a - 1) \<le> of_int a" "of_int a < pow2 (bitlen a)"
    using bitlen_bounds [OF assms] by (simp_all only: pow2_nonneg_int of_int_le_iff of_int_less_iff)
qed

lemma ilog2_bounds:
  assumes "0 < x"
  shows "pow2 (ilog2 x) \<le> x" "x < pow2 (ilog2 x + 1)"
proof -
  obtain a b where ab: "quotient_of x = (a, b)" by (cases "quotient_of x")
  then have b: "0 < b" and x: "x = of_int a / of_int b" by (auto dest: quotient_of_denom_pos quotient_of_div)
  with assms have a: "0 < a" by (simp add: zero_less_divide_iff)
  define k where "k = bitlen a - bitlen b"
  have up: "x < pow2 (k + 1)"
  proof -
    have "pow2 (bitlen a) = pow2 (k + 1) * pow2 (bitlen b - 1)"
      by (simp add: k_def flip: pow2_add)
    also have "\<dots> \<le> pow2 (k + 1) * of_int b" using bitlen_pow2 [OF b] by simp
    finally have "of_int a < pow2 (k + 1) * of_int b" using bitlen_pow2 [OF a] by linarith
    then show ?thesis using b by (simp add: x field_simps)
  qed
  have low: "pow2 (k - 1) < x"
  proof -
    have "pow2 (k - 1) * of_int b < pow2 (k - 1) * pow2 (bitlen b)" using bitlen_pow2 [OF b] by simp
    also have "\<dots> = pow2 (bitlen a - 1)" by (simp add: k_def flip: pow2_add)
    finally have "pow2 (k - 1) * of_int b < of_int a" using bitlen_pow2 [OF a] by linarith
    then show ?thesis using b by (simp add: x field_simps)
  qed
  have i: "ilog2 x = (if pow2 k \<le> x then k else k - 1)"
    using ab by (simp add: ilog2_def k_def Let_def)
  show "pow2 (ilog2 x) \<le> x" "x < pow2 (ilog2 x + 1)" using up low by (simp_all add: i)
qed

lemma ilog2_less:
  assumes "0 < x" "x < pow2 k"
  shows "ilog2 x < k"
  using ilog2_bounds(1) [OF assms(1)] assms(2) pow2_less_iff [of "ilog2 x" k] by (metis order_le_less_trans)

text \<open>
  Below \<open>2 ^ 53\<close> the spacing of the floats divides 1, so rounding never crosses an integer.
\<close>

lemma rnd64_small:
  assumes "\<bar>x\<bar> < pow2 53"
  obtains y where "rnd64 x = Fin y" "\<And>n. x \<le> of_int n \<Longrightarrow> y \<le> of_int n" "\<And>n. of_int n \<le> x \<Longrightarrow> of_int n \<le> y"
proof (cases "x = 0")
  case True
  then show thesis by (intro that [of 0]) (simp_all add: rnd64_def)
next
  case False
  define q where "q = max (ilog2 \<bar>x\<bar> - 52) (- 1074)"
  define y where "y = of_int (rhe (x / pow2 q)) * pow2 q"
  have q: "q \<le> 0" using ilog2_less [of "\<bar>x\<bar>" 53] assms False by (simp add: q_def)
  define m :: int where "m = 2 ^ nat (- q)"
  have pm: "pow2 q = 1 / of_int m" using q pow2_minus [of "- q"] by (simp add: m_def pow2_nonneg_int)
  have m: "0 < m" by (simp add: m_def)
  have up: "y \<le> of_int n" if "x \<le> of_int n" for n
  proof -
    have "x / pow2 q \<le> of_int (n * m)" using that m by (simp add: pm)
    then have "rhe (x / pow2 q) \<le> n * m" by (rule rhe_le_int)
    then show ?thesis using m by (simp add: y_def pm divide_le_eq flip: of_int_mult)
  qed
  have low: "of_int n \<le> y" if "of_int n \<le> x" for n
  proof -
    have "of_int (n * m) \<le> x / pow2 q" using that m by (simp add: pm)
    then have "n * m \<le> rhe (x / pow2 q)" by (rule rhe_ge_int)
    then show ?thesis using m by (simp add: y_def pm le_divide_eq flip: of_int_mult)
  qed
  have "x \<le> of_int (2 ^ 53)" "of_int (- (2 ^ 53)) \<le> x"
    using assms by (simp_all add: pow2_def abs_less_iff)
  then have "y \<le> of_int (2 ^ 53)" "of_int (- (2 ^ 53)) \<le> y" by (blast intro: up low)+
  then have "\<bar>y\<bar> \<le> pow2 53" by (simp add: pow2_def)
  also have "pow2 53 < pow2 1024" by simp
  finally have "rnd64 x = Fin y" using False by (simp add: rnd64_def Let_def flip: q_def y_def)
  then show thesis using up low by (rule that)
qed

lemma rnd64_of_int:
  assumes "\<bar>n\<bar> < 2 ^ 53"
  shows "rnd64 (of_int n) = Fin (of_int n)"
proof -
  have "\<bar>of_int n :: rat\<bar> < pow2 53"
    using assms by (simp add: pow2_def flip: of_int_abs)
  then show ?thesis
    by (rule rnd64_small) (metis order_antisym order_refl)
qed

lemma rnd64_between:
  assumes "of_int a \<le> x" "x \<le> of_int b" "- (2 ^ 53) < a" "b < 2 ^ 53"
  shows "\<exists>y. rnd64 x = Fin y \<and> of_int a \<le> y \<and> y \<le> of_int b"
proof -
  have "of_int (- (2 ^ 53)) < x" "x < of_int (2 ^ 53)"
    using assms by (meson of_int_less_iff order_less_le_trans order_le_less_trans)+
  then have "\<bar>x\<bar> < pow2 53" by (simp add: pow2_def abs_less_iff)
  then show ?thesis by (rule rnd64_small) (use assms in blast)
qed

section \<open>Monotonicity of rounding\<close>

text \<open>The exponent of the last place and the rounded value, before the overflow check.\<close>

definition ulp_exp :: "rat \<Rightarrow> int" where
  "ulp_exp x = max (ilog2 \<bar>x\<bar> - 52) (- 1074)"

definition rnd_val :: "rat \<Rightarrow> rat" where
  "rnd_val x = of_int (rhe (x / pow2 (ulp_exp x))) * pow2 (ulp_exp x)"

lemma pow2_neq_0 [simp]: "pow2 k \<noteq> 0"
  using pow2_pos [of k] by linarith

lemma rnd64_val:
  "rnd64 x = (if pow2 1024 \<le> \<bar>rnd_val x\<bar> then FInf (x < 0) else Fin (rnd_val x))"
proof (cases "x = 0")
  case True
  have "rhe 0 = 0" using rhe_of_int [of 0] by simp
  then show ?thesis using True pow2_pos [of 1024] by (simp add: rnd64_def rnd_val_def not_le)
qed (simp add: rnd64_def rnd_val_def ulp_exp_def Let_def)

lemma rhe_minus [simp]: "rhe (- x) = - rhe x"
proof (cases "x \<in> \<int>")
  case True
  then obtain n where "x = of_int n" by (rule Ints_cases)
  then show ?thesis using rhe_of_int [of n] rhe_of_int [of "- n"] by simp
next
  case False
  then have "\<lfloor>- x\<rfloor> = - \<lfloor>x\<rfloor> - 1"
    by (metis add.inverse_inverse ceiling_def ceiling_altdef frac_eq_0_iff diff_minus_eq_add minus_add_distrib minus_diff_eq add.commute Ints_of_int)
  then show ?thesis by (auto simp: rhe_def Let_def)
qed

lemma rnd_val_minus [simp]: "rnd_val (- x) = - rnd_val x"
  by (simp add: rnd_val_def ulp_exp_def)

lemma pow2_multiple:
  assumes "q \<le> k"
  obtains n :: int where "pow2 k = of_int n * pow2 q"
proof
  show "pow2 k = of_int (2 ^ nat (k - q)) * pow2 q"
    using assms pow2_add [of "k - q" q] by (simp add: pow2_nonneg_int)
qed

text \<open>Rounding never crosses a multiple of the last place.\<close>

lemma rnd_val_le_multiple:
  assumes "x \<le> of_int n * pow2 (ulp_exp x)"
  shows "rnd_val x \<le> of_int n * pow2 (ulp_exp x)"
proof -
  have "x / pow2 (ulp_exp x) \<le> of_int n" using assms by (simp add: divide_le_eq)
  from rhe_le_int [OF this] show ?thesis by (simp add: rnd_val_def)
qed

lemma rnd_val_ge_multiple:
  assumes "of_int n * pow2 (ulp_exp x) \<le> x"
  shows "of_int n * pow2 (ulp_exp x) \<le> rnd_val x"
proof -
  have "of_int n \<le> x / pow2 (ulp_exp x)" using assms by (simp add: le_divide_eq)
  from rhe_ge_int [OF this] show ?thesis by (simp add: rnd_val_def)
qed

lemma ilog2_mono: "0 < x \<Longrightarrow> x \<le> y \<Longrightarrow> ilog2 x \<le> ilog2 y"
  using ilog2_less [of x "ilog2 y + 1"] ilog2_bounds(2) [of y] by linarith

lemma rnd_val_mono_pos:
  assumes "0 < x" "x \<le> y"
  shows "rnd_val x \<le> rnd_val y"
proof (cases "ulp_exp x = ulp_exp y")
  case True
  have "x / pow2 (ulp_exp y) \<le> y / pow2 (ulp_exp y)"
    using assms(2) by (simp add: divide_right_mono less_imp_le)
  then show ?thesis unfolding rnd_val_def True using rhe_mono by simp
next
  case False
  let ?k = "ilog2 y"
  have k: "ilog2 x \<le> ?k" using ilog2_mono [OF assms] .
  with False assms have qy: "ulp_exp y = ?k - 52" "- 1074 < ?k - 52" "ilog2 x < ?k"
    by (auto simp: ulp_exp_def max_def split: if_splits)
  have "ulp_exp x \<le> ?k" "ulp_exp y \<le> ?k" using qy k assms by (auto simp: ulp_exp_def)
  then obtain m n :: int where m: "pow2 ?k = of_int m * pow2 (ulp_exp x)" and n: "pow2 ?k = of_int n * pow2 (ulp_exp y)"
    by (metis pow2_multiple)
  have "x < pow2 (ilog2 x + 1)" using ilog2_bounds [OF assms(1)] by simp
  also have "\<dots> \<le> pow2 ?k" using qy by simp
  finally have "rnd_val x \<le> pow2 ?k" using rnd_val_le_multiple [of x m] m by simp
  also have "pow2 ?k \<le> rnd_val y"
    using rnd_val_ge_multiple [of n y] n ilog2_bounds(1) [of y] assms by simp
  finally show ?thesis .
qed

lemma rnd_val_0 [simp]: "rnd_val 0 = 0"
  using rhe_of_int [of 0] by (simp add: rnd_val_def)

lemma rnd_val_nonneg: "0 \<le> x \<Longrightarrow> 0 \<le> rnd_val x"
  using rnd_val_ge_multiple [of 0 x] by simp

lemma rnd_val_mono: "x \<le> y \<Longrightarrow> rnd_val x \<le> rnd_val y"
proof -
  assume le: "x \<le> y"
  consider "0 < x" | "x \<le> 0" "0 \<le> y" | "y < 0" using le by linarith
  then show ?thesis
  proof cases
    case 1 then show ?thesis using le by (rule rnd_val_mono_pos)
  next
    case 2 then show ?thesis using rnd_val_nonneg [of "- x"] rnd_val_nonneg [of y] by simp
  next
    case 3 then show ?thesis using rnd_val_mono_pos [of "- y" "- x"] le by simp
  qed
qed

lemma rnd64_mono:
  assumes "x \<le> y"
  shows "fle (rnd64 x) (rnd64 y)"
proof -
  have mono: "rnd_val x \<le> rnd_val y" using assms by (rule rnd_val_mono)
  have y: "x \<le> 0 \<Longrightarrow> rnd_val x \<le> 0" "0 \<le> x \<Longrightarrow> 0 \<le> rnd_val x" "y \<le> 0 \<Longrightarrow> rnd_val y \<le> 0" "0 \<le> y \<Longrightarrow> 0 \<le> rnd_val y"
    using rnd_val_nonneg [of x] rnd_val_nonneg [of "- x"] rnd_val_nonneg [of y] rnd_val_nonneg [of "- y"] by simp_all
  consider "0 \<le> x" | "x < 0" "0 \<le> y" | "y < 0" using assms by linarith
  then show ?thesis
    using mono y assms pow2_pos [of 1024] by cases (auto simp: rnd64_val fle_def abs_if split: if_splits)
qed

text \<open>A value that is its own rounding is a bound of every rounding below it.\<close>

lemma rnd64_upper:
  assumes "x \<le> z" "rnd64 z = Fin z"
  shows "fle (rnd64 x) (Fin z)"
  using rnd64_mono [OF assms(1)] assms(2) by simp

lemma rnd64_lower:
  assumes "z \<le> x" "rnd64 z = Fin z"
  shows "fle (Fin z) (rnd64 x)"
  using rnd64_mono [OF assms(1)] assms(2) by simp

text \<open>Rounding picks a nearest value.\<close>

lemma rhe_nearest: "\<bar>of_int (rhe t) - t\<bar> \<le> \<bar>of_int n - t\<bar>"
proof -
  have f: "of_int \<lfloor>t\<rfloor> \<le> t" "t < of_int \<lfloor>t\<rfloor> + 1" by (simp, linarith)
  have "of_int n \<le> (of_int \<lfloor>t\<rfloor> :: rat) \<or> of_int \<lfloor>t\<rfloor> + 1 \<le> (of_int n :: rat)"
    by (metis of_int_1 of_int_add of_int_le_iff linorder_not_le zless_imp_add1_zle)
  moreover have "rhe t = \<lfloor>t\<rfloor> \<and> t - of_int \<lfloor>t\<rfloor> \<le> 1 / 2 \<or> rhe t = \<lfloor>t\<rfloor> + 1 \<and> 1 / 2 \<le> t - of_int \<lfloor>t\<rfloor>"
    by (auto simp: rhe_def Let_def)
  ultimately show ?thesis using f by (elim disjE conjE) (simp only: of_int_add of_int_1, linarith)+
qed

lemma rnd_val_nearest_multiple: "\<bar>rnd_val y - y\<bar> \<le> \<bar>of_int n * pow2 (ulp_exp y) - y\<bar>"
proof -
  let ?u = "pow2 (ulp_exp y)"
  have "\<bar>of_int (rhe (y / ?u)) - y / ?u\<bar> * ?u \<le> \<bar>of_int n - y / ?u\<bar> * ?u"
    by (intro mult_right_mono rhe_nearest) (simp add: less_imp_le)
  moreover have "\<bar>a - y / ?u\<bar> * ?u = \<bar>a * ?u - y\<bar>" for a
  proof -
    have "\<bar>a - y / ?u\<bar> * ?u = \<bar>(a - y / ?u) * ?u\<bar>" by (simp add: abs_mult abs_of_pos)
    also have "(a - y / ?u) * ?u = a * ?u - y" by (simp add: left_diff_distrib)
    finally show ?thesis .
  qed
  ultimately show ?thesis by (simp add: rnd_val_def)
qed

lemma rnd_val_nearest_above:
  assumes "rnd_val c = c" "c \<le> y"
  shows "\<bar>rnd_val y - y\<bar> \<le> y - c"
proof -
  have near: "\<bar>rnd_val y - y\<bar> \<le> y - z" if "z = of_int n * pow2 (ulp_exp y)" "c \<le> z" "z \<le> y" for z n
    using rnd_val_nearest_multiple [of y n] that by simp
  have c: "c = of_int (rhe (c / pow2 (ulp_exp c))) * pow2 (ulp_exp c)" using assms(1) by (simp add: rnd_val_def)
  have same: "\<bar>rnd_val y - y\<bar> \<le> y - c" if "ulp_exp y \<le> ulp_exp c"
  proof -
    from that obtain m :: int where "pow2 (ulp_exp c) = of_int m * pow2 (ulp_exp y)" by (rule pow2_multiple)
    with c have "c = of_int (rhe (c / pow2 (ulp_exp c)) * m) * pow2 (ulp_exp y)" by simp
    from near [OF this] show ?thesis using assms(2) by simp
  qed
  consider "c \<le> 0" "0 \<le> y" | "0 < c" | "y < 0" using assms(2) by linarith
  then show ?thesis
  proof cases
    case 1 then show ?thesis using near [of 0 0] by simp
  next
    case 2
    show ?thesis
    proof (cases "ulp_exp y \<le> ulp_exp c")
      case False
      then have k: "ulp_exp y \<le> ilog2 y" "ilog2 c < ilog2 y"
        using 2 assms(2) by (auto simp: ulp_exp_def max_def split: if_splits)
      from k(1) obtain m :: int where m: "pow2 (ilog2 y) = of_int m * pow2 (ulp_exp y)" by (rule pow2_multiple)
      have "c < pow2 (ilog2 c + 1)" using ilog2_bounds(2) [OF 2] .
      also have "\<dots> \<le> pow2 (ilog2 y)" using k(2) by simp
      finally have "c \<le> pow2 (ilog2 y)" by simp
      from near [OF m this] show ?thesis using ilog2_bounds(1) [of y] 2 assms(2) \<open>c \<le> pow2 (ilog2 y)\<close> by linarith
    qed (rule same)
  next
    case 3
    then have "ilog2 \<bar>y\<bar> \<le> ilog2 \<bar>c\<bar>" using ilog2_mono [of "\<bar>y\<bar>" "\<bar>c\<bar>"] assms(2) by simp
    then show ?thesis by (intro same) (auto simp: ulp_exp_def)
  qed
qed

section \<open>Monotonicity of the operations on nonnegative floats\<close>

lemma fle_infinite [simp]:
  "fle (Fin x) (FInf s) \<longleftrightarrow> \<not> s" "fle (FInf s) (Fin x) \<longleftrightarrow> s" "fle (FInf s) (FInf t) \<longleftrightarrow> s \<or> \<not> t"
  "\<not> fle FNaN a" "\<not> fle a FNaN"
  by (auto simp: fle_def)

lemma rnd64_le_infinity [simp]: "fle (rnd64 x) (FInf False)"
  by (simp add: rnd64_val)

lemma rnd64_nonneg: "0 \<le> x \<Longrightarrow> fle (Fin 0) (rnd64 x)"
  using rnd64_mono [of 0 x] by (simp add: rnd64_def)

lemma fadd_nonneg: "fle (Fin 0) a \<Longrightarrow> fle (Fin 0) b \<Longrightarrow> fle (Fin 0) (fadd a b)"
  by (cases a; cases b) (auto simp: rnd64_nonneg)

lemma fadd_mono:
  assumes "fle (Fin 0) a" "fle a b" "fle (Fin 0) c" "fle c d"
  shows "fle (fadd a c) (fadd b d)"
  using assms by (cases a; cases b; cases c; cases d) (auto simp: rnd64_mono add_mono)

lemma fmul_mono:
  assumes "0 \<le> x" "x \<le> y" "fle (Fin 0) w" "isfinite w"
  shows "fle (fmul (Fin x) w) (fmul (Fin y) w)" "fle (Fin 0) (fmul (Fin x) w)"
  using assms by (cases w; auto intro!: rnd64_mono rnd64_nonneg mult_right_mono)+

lemma round_to_mono: "x \<le> y \<Longrightarrow> fle (round_to n (Fin x)) (round_to n (Fin y))"
proof -
  assume "x \<le> y"
  then have "rhe (x * 10 ^ n) \<le> rhe (y * 10 ^ n)" by (intro rhe_mono) simp
  then show ?thesis by (simp add: rnd64_mono divide_right_mono)
qed

text \<open>Rounded values are their own rounding.\<close>

lemma rnd_val_multiple_fixed:
  assumes "y = of_int n * pow2 (ulp_exp y)"
  shows "rnd_val y = y"
proof -
  have "y / pow2 (ulp_exp y) = of_int n" using assms by (metis pow2_neq_0 nonzero_mult_div_cancel_right)
  then show ?thesis using assms by (simp add: rnd_val_def)
qed

lemma rnd_val_idem_pos:
  assumes "0 < x"
  shows "rnd_val (rnd_val x) = rnd_val x"
proof -
  define y k q where "y = rnd_val x" and "k = ilog2 x" and "q = ulp_exp x"
  have q: "q = max (k - 52) (- 1074)" using assms by (simp add: q_def k_def ulp_exp_def)
  obtain n where n: "y = of_int n * pow2 q" by (auto simp: y_def rnd_val_def q_def)
  have nonneg: "0 \<le> y" using rnd_val_nonneg [of x] assms by (simp add: y_def)
  have fixed: "rnd_val y = y" if "ulp_exp y \<le> q"
  proof -
    from that obtain m :: int where "pow2 q = of_int m * pow2 (ulp_exp y)" by (rule pow2_multiple)
    with n have "y = of_int (n * m) * pow2 (ulp_exp y)" by simp
    then show ?thesis by (rule rnd_val_multiple_fixed)
  qed
  have x: "x < pow2 (k + 1)" using ilog2_bounds [OF assms] by (simp add: k_def)
  show ?thesis
  proof (cases "y = 0")
    case False
    then have y: "0 < y" using nonneg by simp
    show ?thesis
    proof (cases "q \<le> k + 1")
      case True
      then obtain m :: int where m: "pow2 (k + 1) = of_int m * pow2 q" by (rule pow2_multiple)
      then have "y \<le> pow2 (k + 1)" using rnd_val_le_multiple [of x m] x by (simp add: y_def q_def)
      then consider "y < pow2 (k + 1)" | "y = pow2 (k + 1)" by linarith
      then show ?thesis
      proof cases
        case 1
        then have "ilog2 y \<le> k" using ilog2_less [OF y] by (metis zless_add1_eq le_less)
        then show ?thesis using fixed y q by (simp add: ulp_exp_def y_def)
      next
        case 2
        then have "ilog2 y \<le> k + 1" using ilog2_less [OF y, of "k + 2"] by simp
        then have "ulp_exp y \<le> k + 1" using True q y by (simp add: ulp_exp_def)
        then obtain m :: int where "pow2 (k + 1) = of_int m * pow2 (ulp_exp y)" by (rule pow2_multiple)
        then show ?thesis using rnd_val_multiple_fixed [of y m] 2 by (simp add: y_def)
      qed
    next
      case False
      then have q': "q = - 1074" "k + 1 < q" using q by (auto simp: max_def split: if_splits)
      then have "x \<le> of_int 1 * pow2 q" using less_trans [OF x pow2_less [OF q'(2)]] by simp
      then have "y \<le> pow2 q" using rnd_val_le_multiple [of x 1] by (simp add: y_def q_def)
      then have "ilog2 y < q + 1" by (intro ilog2_less [OF y] le_less_trans [OF _ pow2_less [of q "q + 1"]]) simp_all
      then show ?thesis using fixed q' y by (simp add: ulp_exp_def y_def)
    qed
  qed (simp add: y_def)
qed

lemma rnd_val_idem [simp]: "rnd_val (rnd_val x) = rnd_val x"
proof -
  consider "0 < x" | "x = 0" | "0 < - x" by linarith
  then show ?thesis using rnd_val_idem_pos [of x] rnd_val_idem_pos [of "- x"] by cases simp_all
qed

text \<open>The values a Python float can hold.\<close>

fun representable :: "pyfloat \<Rightarrow> bool" where
  "representable (Fin x) = (rnd64 x = Fin x)"
| "representable _ = True"

lemma rnd64_representable [simp]: "representable (rnd64 x)"
  by (auto simp: rnd64_val)

lemma representable_minus: "rnd64 x = Fin x \<Longrightarrow> rnd64 (- x) = Fin (- x)"
  by (auto simp: rnd64_val split: if_splits)

lemma representable_fadd [simp]: "representable (fadd a b)"
  by (cases a; cases b) auto

lemma representable_fsub [simp]: "representable (fsub a b)"
  by (simp add: fsub_def)

lemma representable_fmul [simp]: "representable (fmul a b)"
  by (cases a; cases b) auto

lemma representable_val: "rnd64 x = Fin x \<Longrightarrow> rnd_val x = x"
  by (auto simp: rnd64_val split: if_splits)

section \<open>Error bounds\<close>

lemma rnd_val_error:
  assumes "\<bar>x\<bar> \<le> pow2 k" "- 1000 \<le> k"
  shows "\<bar>rnd_val x - x\<bar> \<le> pow2 (k - 53)"
proof (cases "x = 0")
  case False
  have "ilog2 \<bar>x\<bar> \<le> k"
    using ilog2_bounds(1) [of "\<bar>x\<bar>"] assms(1) False pow2_le_iff [of "ilog2 \<bar>x\<bar>" k] by (metis order_trans zero_less_abs_iff)
  then have u: "ulp_exp x \<le> k - 52" using assms(2) by (simp add: ulp_exp_def)
  let ?u = "pow2 (ulp_exp x)"
  have "\<bar>of_int (rhe (x / ?u)) - x / ?u\<bar> \<le> 1 / 2"
  proof -
    have f: "of_int \<lfloor>x / ?u\<rfloor> \<le> x / ?u" "x / ?u < of_int \<lfloor>x / ?u\<rfloor> + 1" by (simp, linarith)
    show ?thesis using f by (auto simp: rhe_def Let_def)
  qed
  then have "\<bar>of_int (rhe (x / ?u)) - x / ?u\<bar> * ?u \<le> 1 / 2 * ?u" by (intro mult_right_mono) (simp_all add: less_imp_le)
  moreover have "\<bar>of_int (rhe (x / ?u)) - x / ?u\<bar> * ?u = \<bar>rnd_val x - x\<bar>"
  proof -
    have "(of_int (rhe (x / ?u)) - x / ?u) * ?u = rnd_val x - x" by (simp add: rnd_val_def algebra_simps)
    then show ?thesis by (metis abs_mult abs_of_pos pow2_pos)
  qed
  moreover have "1 / 2 * ?u = pow2 (ulp_exp x - 1)"
    using pow2_add [of "ulp_exp x" "- 1"] by (simp add: pow2_minus) (simp add: pow2_def)
  moreover have "pow2 (ulp_exp x - 1) \<le> pow2 (k - 53)" using u by simp
  ultimately show ?thesis by linarith
qed (simp add: less_imp_le)

lemma rnd64_error:
  assumes "\<bar>x\<bar> \<le> pow2 k" "- 1000 \<le> k" "k \<le> 1000"
  obtains y where "rnd64 x = Fin y" "\<bar>y - x\<bar> \<le> pow2 (k - 53)"
proof -
  note e = rnd_val_error [OF assms(1,2)]
  have "pow2 (k - 53) \<le> pow2 k" by simp
  then have "\<bar>rnd_val x\<bar> \<le> 2 * pow2 k" using e assms(1) by linarith
  moreover have "2 * pow2 k = pow2 (k + 1)" using pow2_add [of k 1] by (simp add: pow2_def)
  moreover have lt: "pow2 (k + 1) < pow2 1024" using assms(3) by simp
  ultimately have "\<not> pow2 1024 \<le> \<bar>rnd_val x\<bar>" by linarith
  then have "rnd64 x = Fin (rnd_val x)" by (simp add: rnd64_val)
  then show ?thesis using that e by blast
qed

text \<open>Amounts up to about a trillion, to a ten-thousandth.\<close>

lemma rnd64_money:
  assumes "\<bar>x\<bar> \<le> 2 ^ 40"
  obtains y where "rnd64 x = Fin y" "\<bar>y - x\<bar> \<le> 1 / 8192"
proof -
  have p: "pow2 40 = 2 ^ 40" "pow2 (40 - 53) = 1 / 8192" by code_simp+
  obtain y where "rnd64 x = Fin y" "\<bar>y - x\<bar> \<le> pow2 (40 - 53)"
    using rnd64_error [of x 40] assms unfolding p(1) by auto
  then show ?thesis using that unfolding p(2) by blast
qed

lemma rhe_error: "\<bar>of_int (rhe x) - x\<bar> \<le> 1 / 2"
proof -
  have f: "of_int \<lfloor>x\<rfloor> \<le> x" "x < of_int \<lfloor>x\<rfloor> + 1" by (simp, linarith)
  show ?thesis using f by (auto simp: rhe_def Let_def)
qed

lemma round_to_money:
  assumes "\<bar>x\<bar> \<le> 2 ^ 39"
  obtains y where "round_to n (Fin x) = Fin y" "\<bar>y - x\<bar> \<le> 1 / (2 * 10 ^ n) + 1 / 8192"
proof -
  let ?z = "of_int (rhe (x * 10 ^ n)) / 10 ^ n :: rat"
  have p: "(0 :: rat) < 10 ^ n" "(1 :: rat) \<le> 10 ^ n" by simp_all
  have "?z - x = (of_int (rhe (x * 10 ^ n)) - x * 10 ^ n) / 10 ^ n" by (simp add: field_simps)
  then have "\<bar>?z - x\<bar> = \<bar>of_int (rhe (x * 10 ^ n)) - x * 10 ^ n\<bar> / 10 ^ n" by (simp add: abs_divide)
  then have z: "\<bar>?z - x\<bar> \<le> 1 / 2 / 10 ^ n" using divide_right_mono [OF rhe_error, of "10 ^ n"] p(1) by simp
  have "1 / 2 / (10 ^ n :: rat) \<le> 1 / 2" using p by (simp add: field_simps)
  moreover have "(2 :: rat) ^ 39 + 1 / 2 \<le> 2 ^ 40" by simp
  ultimately have "\<bar>?z\<bar> \<le> 2 ^ 40" using z assms abs_triangle_ineq2 [of ?z x] by linarith
  then obtain y where y: "rnd64 ?z = Fin y" "\<bar>y - ?z\<bar> \<le> 1 / 8192" by (rule rnd64_money)
  have "1 / 2 / 10 ^ n = 1 / (2 * 10 ^ n :: rat)" by simp
  then have "\<bar>y - x\<bar> \<le> 1 / (2 * 10 ^ n) + 1 / 8192" using y(2) z by linarith
  then show ?thesis using that [of y] y(1) by simp
qed

lemma flt_le_asym: "flt a b \<Longrightarrow> fle b c \<Longrightarrow> \<not> flt c a"
  by (cases a; cases b; cases c) auto

lemma flt_fle_trans: "flt a b \<Longrightarrow> fle b c \<Longrightarrow> flt a c"
  by (cases a; cases b; cases c) auto

end
