(* ===== verification/Py_Decimal.thy ===== *)
theory Py_Decimal
  imports Py_Float
begin

text \<open>
  Python's \<open>decimal.Decimal\<close> under the default context: 28 significant digits, ties to even,
  exponents up to 999999, traps on InvalidOperation, DivisionByZero and Overflow. A finite
  decimal keeps its sign, coefficient and exponent, since formatting depends on them.
  \<open>dec_of_string\<close> is the exact constructor, \<open>dec_fix\<close> the rounding of a result,
  \<open>dec_normalize\<close>, \<open>dec_format_f\<close> and \<open>dec_str\<close> are \<open>d.normalize()\<close>, \<open>format(d, "f")\<close> and
  \<open>str(d)\<close>. The main result is that normalised text is a fixed point: reading it back and
  normalising again gives the same text.
\<close>

datatype pydec = DNaN | DInf bool | DFin bool nat int

definition dec_prec :: int where "dec_prec = 28"
definition dec_emax :: int where "dec_emax = 999999"
definition dec_etiny :: int where "dec_etiny = - 1000026"
definition dec_etop :: int where "dec_etop = 999972"

fun dec_is_finite :: "pydec \<Rightarrow> bool" where
  "dec_is_finite (DFin s c e) = True"
| "dec_is_finite _ = False"

text \<open>The exact value of a finite decimal.\<close>

fun dec_val :: "pydec \<Rightarrow> rat" where
  "dec_val (DFin s c e) = (if s then - 1 else 1) * of_nat c * pow10 e"
| "dec_val _ = 0"

definition ndigits :: "nat \<Rightarrow> int" where
  "ndigits c = int (length (digits c))"

definition dec_of_string :: "string \<Rightarrow> pydec res" where
  "dec_of_string s =
     (let t = remove_char (CHR ''_'') (strip s)
      in case parse_number t of
           Some (neg, c, e) \<Rightarrow> Inr (DFin neg c e)
         | None \<Rightarrow>
             (let (neg, body) = split_sign t; w = lower body
              in if w = ''inf'' \<or> w = ''infinity'' then Inr (DInf neg)
                 else if startswith w ''nan'' \<and> list_all is_digit (drop 3 w) then Inr DNaN
                 else if startswith w ''snan'' \<and> list_all is_digit (drop 4 w) then Inr DNaN
                 else Inl (DecimalSignal ''InvalidOperation'')))"

text \<open>Rounding of a coefficient that loses \<open>k\<close> digits, ties to even.\<close>

definition drop_digits :: "nat \<Rightarrow> nat \<Rightarrow> nat" where
  "drop_digits k c =
     (let q = c div 10 ^ k; r = c mod 10 ^ k
      in if 2 * r < 10 ^ k then q else if 10 ^ k < 2 * r then q + 1
         else if even q then q else q + 1)"

definition dec_fix :: "bool \<Rightarrow> nat \<Rightarrow> int \<Rightarrow> pydec res" where
  "dec_fix s c e =
     (if c = 0 then Inr (DFin s 0 (min (max e dec_etiny) dec_emax))
      else let m = max (ndigits c + e - dec_prec) dec_etiny
           in if dec_etop < ndigits c + e - dec_prec then Inl (DecimalSignal ''Overflow'')
              else if m \<le> e then Inr (DFin s c e)
              else let d = drop_digits (nat (m - e)) c;
                       (c', e') = (if dec_prec < ndigits d then (d div 10, m + 1) else (d, m))
                   in if dec_etop < e' then Inl (DecimalSignal ''Overflow'')
                      else Inr (DFin s c' e'))"

fun dec_mul :: "pydec \<Rightarrow> pydec \<Rightarrow> pydec res" where
  "dec_mul (DFin s c e) (DFin t d f) = dec_fix (s \<noteq> t) (c * d) (e + f)"
| "dec_mul (DInf s) (DInf t) = Inr (DInf (s \<noteq> t))"
| "dec_mul (DInf s) (DFin t d f) =
     (if d = 0 then Inl (DecimalSignal ''InvalidOperation'') else Inr (DInf (s \<noteq> t)))"
| "dec_mul (DFin s c e) (DInf t) =
     (if c = 0 then Inl (DecimalSignal ''InvalidOperation'') else Inr (DInf (s \<noteq> t)))"
| "dec_mul _ _ = Inr DNaN"

fun strip_zeros :: "nat \<Rightarrow> int \<Rightarrow> nat \<times> int" where
  "strip_zeros c e =
     (if c \<noteq> 0 \<and> c mod 10 = 0 then strip_zeros (c div 10) (e + 1) else (c, e))"

declare strip_zeros.simps [simp del]

definition dec_normalize :: "pydec \<Rightarrow> pydec res" where
  "dec_normalize d =
     (case d of
        DFin s c e \<Rightarrow>
          rbind (dec_fix s c e) (\<lambda>r. case r of
             DFin s' c' e' \<Rightarrow>
               Inr (if c' = 0 then DFin s' 0 0
                    else case strip_zeros c' e' of (c'', e'') \<Rightarrow> DFin s' c'' e'')
           | r' \<Rightarrow> Inr r')
      | d' \<Rightarrow> Inr d')"

text \<open>\<open>format(d, "f")\<close> of a finite decimal.\<close>

definition format_f :: "bool \<Rightarrow> nat \<Rightarrow> int \<Rightarrow> string" where
  "format_f s c e =
     (if s then ''-'' else []) @
     (let ds = nat_str c
      in if 0 \<le> e then (if c = 0 then ds else ds @ replicate (nat e) (CHR ''0''))
         else let n = nat (- e);
                  full = replicate (Suc n - length ds) (CHR ''0'') @ ds
              in take (length full - n) full @ ''.'' @ drop (length full - n) full)"

fun dec_format_f :: "pydec \<Rightarrow> string" where
  "dec_format_f (DFin s c e) = format_f s c e"
| "dec_format_f (DInf s) = (if s then ''-Infinity'' else ''Infinity'')"
| "dec_format_f DNaN = ''NaN''"

text \<open>\<open>str(d)\<close>: scientific notation for a positive exponent or a small adjusted exponent.\<close>

fun dec_str :: "pydec \<Rightarrow> string" where
  "dec_str (DFin s c e) =
     (let adj = ndigits c + e - 1; ds = nat_str c
      in if e \<le> 0 \<and> - 6 \<le> adj then format_f s c e
         else (if s then ''-'' else []) @ take 1 ds @
              (if length ds = 1 then [] else ''.'' @ drop 1 ds) @ ''E'' @
              (if adj < 0 then [] else ''+'') @ int_str adj)"
| "dec_str (DInf s) = (if s then ''-Infinity'' else ''Infinity'')"
| "dec_str DNaN = ''NaN''"

text \<open>\<open>f"{x:.2f}"\<close> and \<open>f"{x:.ng}"\<close> of a float.\<close>

fun fixed2 :: "pyfloat \<Rightarrow> string" where
  "fixed2 (Fin x) = format_f (x < 0) (nat \<bar>rhe (x * 100)\<bar>) (- 2)"
| "fixed2 (FInf s) = (if s then ''-inf'' else ''inf'')"
| "fixed2 FNaN = ''nan''"

definition format_g_positive :: "nat \<Rightarrow> rat \<Rightarrow> string" where
  "format_g_positive n x =
     (let e0 = ilog10 x; m0 = rhe (x / pow10 (e0 - int n + 1));
          (m, e) = (if 10 ^ n \<le> m0 then (m0 div 10, e0 + 1) else (m0, e0));
          ds = rev (dropWhile (\<lambda>c. c = CHR ''0'') (rev (nat_str (nat m))))
      in if - 4 \<le> e \<and> e < int n then
           (if int (length ds) \<le> e + 1 then ds @ replicate (nat (e + 1) - length ds) (CHR ''0'')
            else if 0 \<le> e then take (nat (e + 1)) ds @ ''.'' @ drop (nat (e + 1)) ds
            else ''0.'' @ replicate (nat (- e - 1)) (CHR ''0'') @ ds)
         else take 1 ds @ (if length ds = 1 then [] else ''.'' @ drop 1 ds) @
              (if e < 0 then ''e-'' else ''e+'') @ (if \<bar>e\<bar> < 10 then ''0'' else []) @ nat_str (nat \<bar>e\<bar>))"

fun format_g :: "nat \<Rightarrow> pyfloat \<Rightarrow> string" where
  "format_g n (Fin x) =
     (if x = 0 then ''0'' else if x < 0 then ''-'' @ format_g_positive n (- x) else format_g_positive n x)"
| "format_g n (FInf s) = (if s then ''-inf'' else ''inf'')"
| "format_g n FNaN = ''nan''"

text \<open>Comparison of finite decimals is exact.\<close>

definition dec_less :: "pydec \<Rightarrow> pydec \<Rightarrow> bool" where
  "dec_less a b = (dec_val a < dec_val b)"

definition dec_le :: "pydec \<Rightarrow> pydec \<Rightarrow> bool" where
  "dec_le a b = (dec_val a \<le> dec_val b)"

text \<open>
  \<open>a % b\<close> of finite decimals: the sign of \<open>a\<close>, exponent the smaller one, InvalidOperation for a
  zero divisor or a quotient of more than 28 digits, and the result rounded.
\<close>

fun dec_rem :: "pydec \<Rightarrow> pydec \<Rightarrow> pydec res" where
  "dec_rem (DFin s c e) (DFin t d f) =
     (if d = 0 then Inl (DecimalSignal ''InvalidOperation'')
      else let m = min e f; a = c * 10 ^ nat (e - m); b = d * 10 ^ nat (f - m)
           in if 10 ^ 28 \<le> a div b then Inl (DecimalSignal ''InvalidOperation'')
              else dec_fix s (a mod b) m)"
| "dec_rem (DFin s c e) (DInf t) = dec_fix s c e"
| "dec_rem (DInf s) (DNaN) = Inr DNaN"
| "dec_rem (DInf s) _ = Inl (DecimalSignal ''InvalidOperation'')"
| "dec_rem _ _ = Inr DNaN"

text \<open>The decimals the context can hold exactly.\<close>

definition dec_fits :: "nat \<Rightarrow> int \<Rightarrow> bool" where
  "dec_fits c e =
     (0 < c \<and> ndigits c \<le> dec_prec \<and> dec_etiny \<le> e \<and> ndigits c + e - dec_prec \<le> dec_etop)"

section \<open>Digits\<close>

lemma digits_small [simp]: "n < 10 \<Longrightarrow> digits n = [n]"
  by (simp add: digits.simps)

lemma digits_big: "10 \<le> n \<Longrightarrow> digits n = digits (n div 10) @ [n mod 10]"
  by (simp add: digits.simps [of n])

lemma digits_not_Nil [simp]: "digits n \<noteq> []"
  by (cases "n < 10") (simp_all add: digits_big)

lemma digits_lt: "d \<in> set (digits n) \<Longrightarrow> d < 10"
  by (induction n rule: digits.induct) (subst (asm) (2) digits.simps, auto split: if_splits)

lemma ccode_nat: "ccode c = int (of_char c)"
  by (simp add: ccode_def of_nat_of_char)

lemma ccode_digit_char: "d < 10 \<Longrightarrow> ccode (digit_char d) = 48 + int d"
  by (simp add: ccode_nat digit_char_def)

lemma digit_val_char: "d < 10 \<Longrightarrow> digit_val (digit_char d) = d"
  by (simp add: digit_val_def ccode_digit_char)

lemma digit_char_digit: "d < 10 \<Longrightarrow> is_digit (digit_char d)"
  by (simp add: is_digit_def ccode_digit_char)

lemma nat_of_digits_snoc: "nat_of_digits (s @ [c]) = 10 * nat_of_digits s + digit_val c"
  by (simp add: nat_of_digits_def)

lemma nat_of_digits_nat_str [simp]: "nat_of_digits (nat_str n) = n"
proof (induction n rule: digits.induct)
  case (1 n)
  show ?case
  proof (cases "n < 10")
    case True
    then show ?thesis by (simp add: nat_str_def nat_of_digits_def digit_val_char)
  next
    case False
    with 1 show ?thesis
      by (simp add: nat_str_def digits_big nat_of_digits_snoc digit_val_char)
  qed
qed

lemma nat_str_digits: "list_all is_digit (nat_str n)"
  by (auto simp: nat_str_def list_all_iff digit_char_digit dest: digits_lt)

lemma nat_str_not_Nil [simp]: "nat_str n \<noteq> []"
  by (simp add: nat_str_def)

lemma length_nat_str: "int (length (nat_str n)) = ndigits n"
  by (simp add: nat_str_def ndigits_def)

lemma ndigits_pos: "0 < ndigits c"
  by (simp add: ndigits_def)

text \<open>The number of digits by bounds.\<close>

lemma digits_bounds: "0 < n \<Longrightarrow> 10 ^ (length (digits n) - 1) \<le> n \<and> n < 10 ^ length (digits n)"
proof (induction n rule: digits.induct)
  case (1 n)
  show ?case
  proof (cases "n < 10")
    case True
    with 1 show ?thesis by simp
  next
    case False
    let ?k = "length (digits (n div 10))"
    from False 1 have ih: "10 ^ (?k - 1) \<le> n div 10" "n div 10 < 10 ^ ?k" by auto
    have k: "0 < ?k" by simp
    have "10 ^ ?k = 10 * 10 ^ (?k - 1)" using k by (cases ?k) auto
    also have "\<dots> \<le> n" using ih(1) by linarith
    finally have lo: "10 ^ ?k \<le> n" .
    have hi: "n < 10 * 10 ^ ?k" using ih(2) by linarith
    from False lo hi show ?thesis by (simp add: digits_big)
  qed
qed

lemma length_digits_unique:
  assumes "10 ^ k \<le> n" "n < 10 ^ Suc k"
  shows "length (digits n) = Suc k"
proof -
  let ?l = "length (digits n)"
  have n: "0 < n" using assms(1) by (metis le_zero_eq not_gr_zero power_not_zero zero_neq_numeral)
  from digits_bounds [OF n] have b: "10 ^ (?l - 1) \<le> n" "n < 10 ^ ?l" by auto
  have "(10::nat) ^ (?l - 1) < 10 ^ Suc k" "(10::nat) ^ k < 10 ^ ?l" using b assms by linarith+
  then have "?l - 1 < Suc k" "k < ?l" by (simp_all only: power_strict_increasing_iff one_less_numeral_iff semiring_norm)
  then show ?thesis by linarith
qed

lemma length_digits_pow10: "0 < c \<Longrightarrow> length (digits (c * 10 ^ k)) = length (digits c) + k"
proof -
  assume c: "0 < c"
  let ?l = "length (digits c)"
  from digits_bounds [OF c] have b: "10 ^ (?l - 1) \<le> c" "c < 10 ^ ?l" by auto
  have l: "0 < ?l" by simp
  have "length (digits (c * 10 ^ k)) = Suc (?l - 1 + k)"
  proof (rule length_digits_unique)
    show "10 ^ (?l - 1 + k) \<le> c * 10 ^ k" using b(1) by (simp add: power_add)
    have "c * 10 ^ k < 10 ^ ?l * 10 ^ k" using b(2) by simp
    also have "10 ^ ?l * 10 ^ k = (10::nat) ^ Suc (?l - 1 + k)"
      using l by (cases ?l) (simp_all add: power_add)
    finally show "c * 10 ^ k < 10 ^ Suc (?l - 1 + k)" .
  qed
  with l show ?thesis by simp
qed

lemma ndigits_pow10: "0 < c \<Longrightarrow> ndigits (c * 10 ^ k) = ndigits c + int k"
  by (simp add: ndigits_def length_digits_pow10)

lemma ndigits_le: "0 < c \<Longrightarrow> ndigits c \<le> int k \<longleftrightarrow> c < 10 ^ k"
proof -
  assume c: "0 < c"
  let ?l = "length (digits c)"
  from digits_bounds [OF c] have b: "10 ^ (?l - 1) \<le> c" "c < 10 ^ ?l" by auto
  have l: "0 < ?l" by simp
  show ?thesis
  proof
    assume "ndigits c \<le> int k"
    then have "(10::nat) ^ ?l \<le> 10 ^ k" by (simp add: ndigits_def)
    with b(2) show "c < 10 ^ k" by linarith
  next
    assume "c < 10 ^ k"
    with b(1) have "(10::nat) ^ (?l - 1) < 10 ^ k" by linarith
    then have "?l - 1 < k" by (simp only: power_strict_increasing_iff one_less_numeral_iff semiring_norm)
    with l show "ndigits c \<le> int k" by (simp add: ndigits_def)
  qed
qed

section \<open>Normal form\<close>

lemma strip_zeros_pow10:
  assumes "c mod 10 \<noteq> 0"
  shows "strip_zeros (c * 10 ^ k) e = (c, e + int k)"
proof (induction k arbitrary: e)
  case 0
  with assms show ?case by (simp add: strip_zeros.simps)
next
  case (Suc k)
  have "c * 10 ^ Suc k \<noteq> 0" using assms by (cases c) auto
  moreover have "c * 10 ^ Suc k div 10 = c * 10 ^ k" by simp
  ultimately have "strip_zeros (c * 10 ^ Suc k) e = strip_zeros (c * 10 ^ k) (e + 1)"
    by (subst strip_zeros.simps) simp
  with Suc.IH show ?case by simp
qed

lemma strip_zeros_cases:
  assumes "0 < c" "strip_zeros c e = (c', e')"
  obtains k where "c = c' * 10 ^ k" "e' = e + int k" "c' mod 10 \<noteq> 0"
  using assms
proof (induction c arbitrary: e thesis rule: less_induct)
  case (less c)
  show ?case
  proof (cases "c mod 10 = 0")
    case True
    with less.prems(2,3) have "strip_zeros (c div 10) (e + 1) = (c', e')"
      by (subst (asm) strip_zeros.simps) simp
    moreover have "10 \<le> c" using True less.prems(2) by (metis dvd_imp_le mod_0_imp_dvd)
    then have "c div 10 < c" "0 < c div 10" by (simp_all add: div_greater_zero_iff)
    ultimately obtain k where k: "c div 10 = c' * 10 ^ k" "e' = e + 1 + int k" "c' mod 10 \<noteq> 0"
      using less.IH by blast
    have "c = c' * 10 ^ Suc k" using True k(1) by (metis dvd_div_mult_self mod_0_imp_dvd mult.assoc mult.commute power_Suc)
    with k show ?thesis by (intro less.prems(1) [of "Suc k"]) auto
  next
    case False
    with less.prems(3) have "c' = c" "e' = e" by (subst (asm) strip_zeros.simps, simp)+
    with False show ?thesis by (intro less.prems(1) [of 0]) auto
  qed
qed

lemma dec_fix_fits: "dec_fits c e \<Longrightarrow> dec_fix s c e = Inr (DFin s c e)"
  by (auto simp: dec_fits_def dec_fix_def Let_def)

lemma drop_digits_le: "c < 10 ^ (n + k) \<Longrightarrow> drop_digits k c \<le> 10 ^ n"
proof -
  assume "c < 10 ^ (n + k)"
  then have "c div 10 ^ k < 10 ^ n" by (simp add: less_mult_imp_div_less power_add)
  then show ?thesis by (auto simp: drop_digits_def Let_def)
qed

lemma drop_digits_exact: "drop_digits k (c * 10 ^ k) = c"
  by (simp add: drop_digits_def)

lemma dec_fix_normal:
  assumes "dec_fix s c e = Inr (DFin s' c' e')" "0 < c'"
  shows "s' = s \<and> dec_fits c' e'"
proof -
  from assms have c: "0 < c" by (cases "c = 0") (auto simp: dec_fix_def)
  define m where "m = max (ndigits c + e - dec_prec) dec_etiny"
  from assms(1) c have top: "ndigits c + e - dec_prec \<le> dec_etop"
    by (auto simp: dec_fix_def Let_def split: if_splits)
  show ?thesis
  proof (cases "m \<le> e")
    case True
    with assms c top show ?thesis by (auto simp: dec_fix_def Let_def m_def dec_fits_def)
  next
    case False
    define k where "k = nat (m - e)"
    define d where "d = drop_digits k c"
    have "ndigits c \<le> int (28 + k)" using False by (auto simp: k_def m_def dec_prec_def)
    with ndigits_le [OF c, of "28 + k"] have "c < 10 ^ (28 + k)" by blast
    then have d: "d \<le> 10 ^ 28" unfolding d_def by (rule drop_digits_le)
    show ?thesis
    proof (cases "dec_prec < ndigits d")
      case True
      then have "0 < d" by (cases d) (auto simp: ndigits_def dec_prec_def)
      with True d have "d = 10 ^ 28" using ndigits_le [of d 28] by (simp add: dec_prec_def)
      then have "d div 10 = 10 ^ 27" by simp
      moreover have "ndigits (10 ^ 27) = 28"
        using ndigits_pow10 [of 1 27] by (simp add: ndigits_def)
      moreover from assms c top False True
      have "s' = s" "c' = d div 10" "e' = m + 1" "m + 1 \<le> dec_etop"
        by (auto simp: dec_fix_def Let_def m_def k_def d_def split: if_splits)
      ultimately show ?thesis
        by (simp add: dec_fits_def dec_prec_def m_def dec_etiny_def)
    next
      case small: False
      from assms c top False small
      have "s' = s" "c' = d" "e' = m" "m \<le> dec_etop"
        by (auto simp: dec_fix_def Let_def m_def k_def d_def split: if_splits)
      moreover have "dec_etiny \<le> m" by (simp add: m_def)
      ultimately show ?thesis using small assms(2) by (simp add: dec_fits_def)
    qed
  qed
qed

lemma dec_normalize_fits:
  assumes "dec_fits c e" "c mod 10 \<noteq> 0"
  shows "dec_normalize (DFin s c e) = Inr (DFin s c e)"
  using assms strip_zeros_pow10 [of c 0 e]
  by (simp add: dec_normalize_def dec_fix_fits dec_fits_def)

text \<open>The same value written without an exponent normalises to the same decimal.\<close>

lemma dec_normalize_expanded:
  assumes "dec_fits c e" "c mod 10 \<noteq> 0" "0 \<le> e"
  shows "dec_normalize (DFin s (c * 10 ^ nat e) 0) = Inr (DFin s c e)"
proof -
  from assms(1) have c: "0 < c" "ndigits c \<le> 28" "ndigits c + e - 28 \<le> dec_etop"
    by (auto simp: dec_fits_def dec_prec_def)
  have nd: "ndigits (c * 10 ^ nat e) = ndigits c + e" using c(1) assms(3) by (simp add: ndigits_pow10)
  show ?thesis
  proof (cases "ndigits c + e \<le> 28")
    case True
    have "dec_fits (c * 10 ^ nat e) 0"
      using True c nd by (simp add: dec_fits_def dec_prec_def dec_etiny_def dec_etop_def)
    with c(1) assms(2,3) strip_zeros_pow10 [of c "nat e" 0] show ?thesis
      by (simp add: dec_normalize_def dec_fix_fits)
  next
    case False
    define k where "k = nat (ndigits c + e - 28)"
    define j where "j = nat (28 - ndigits c)"
    have jk: "nat e = j + k" using False c(2) assms(3) by (simp add: j_def k_def)
    have nj: "ndigits (c * 10 ^ j) = 28" using c(1,2) by (simp add: ndigits_pow10 j_def)
    have ct: "c * 10 ^ nat e = (c * 10 ^ j) * 10 ^ k" by (simp add: jk power_add)
    have "dec_fix s (c * 10 ^ nat e) 0 = Inr (DFin s (c * 10 ^ j) (int k))"
      using False c nd nj
      by (simp add: dec_fix_def Let_def dec_prec_def dec_etiny_def ct drop_digits_exact k_def [symmetric])
        (simp add: k_def)
    with c(1) assms(2,3) strip_zeros_pow10 [of c j "int k"] jk show ?thesis
      by (simp add: dec_normalize_def)
  qed
qed

lemma dec_normalize_Inr:
  assumes "dec_normalize (DFin s c e) = Inr n"
  obtains (zero) "n = DFin s 0 0" | (nonzero) c' e' where "n = DFin s c' e'" "dec_fits c' e'" "c' mod 10 \<noteq> 0"
proof -
  obtain r where r: "dec_fix s c e = Inr r"
    using assms by (cases "dec_fix s c e") (auto simp: dec_normalize_def)
  from r obtain s1 c1 e1 where r1: "r = DFin s1 c1 e1" and s1: "s1 = s"
    by (auto simp: dec_fix_def Let_def split: if_splits)
  show ?thesis
  proof (cases "c1 = 0")
    case True
    with assms r r1 s1 show ?thesis by (intro zero) (simp add: dec_normalize_def)
  next
    case False
    obtain c2 e2 where st: "strip_zeros c1 e1 = (c2, e2)" by fastforce
    from False r r1 have fits: "dec_fits c1 e1" using dec_fix_normal by blast
    from False st obtain k where k: "c1 = c2 * 10 ^ k" "e2 = e1 + int k" "c2 mod 10 \<noteq> 0"
      by (metis strip_zeros_cases neq0_conv)
    from k False have "0 < c2" by (cases c2) auto
    with fits k have "dec_fits c2 e2" by (auto simp: dec_fits_def ndigits_pow10)
    with False assms r r1 s1 st k(3) show ?thesis by (intro nonzero) (auto simp: dec_normalize_def)
  qed
qed

section \<open>Reading plain numbers\<close>

lemma ungroup_digits: "list_all is_digit s \<Longrightarrow> ungroup s = Some s"
proof (induction s rule: ungroup.induct)
  case (3 c d cs)
  then have "d \<noteq> CHR ''_''" by (auto simp: is_digit_def ccode_def)
  with 3 show ?case by simp
qed auto

lemma split_sign_body:
  assumes "list_all is_digit i" "i \<noteq> []"
  shows "split_sign ((if s then ''-'' else []) @ i @ rest) = (s, i @ rest)"
  using assms by (cases i) (auto simp: split_sign_def is_digit_def ccode_def)

lemma takeWhile_digits:
  assumes "list_all is_digit i" "\<not> is_digit c"
  shows "takeWhile (\<lambda>x. x \<noteq> c) i = i"
  using assms by (auto simp: list_all_iff takeWhile_eq_all_conv)

lemma digit_not: "is_digit x \<Longrightarrow> x \<noteq> CHR ''e'' \<and> x \<noteq> CHR ''E'' \<and> x \<noteq> CHR ''.'' \<and> x \<noteq> CHR ''_'' \<and> \<not> is_space x"
  by (auto simp: is_digit_def is_space_def ccode_def)

lemma parse_number_int:
  assumes "list_all is_digit i" "i \<noteq> []"
  shows "parse_number ((if s then ''-'' else []) @ i) = Some (s, nat_of_digits i, 0)"
proof -
  have 1: "takeWhile (\<lambda>c. c \<noteq> CHR ''e'' \<and> c \<noteq> CHR ''E'') i = i" "takeWhile (\<lambda>c. c \<noteq> CHR ''.'') i = i"
    using assms(1) by (auto simp: list_all_iff takeWhile_eq_all_conv dest: digit_not)
  from split_sign_body [OF assms, of s "[]"] assms(2) show ?thesis
    by (simp add: parse_number_def 1 ungroup_digits [OF assms(1)] parse_exponent_def)
qed

lemma parse_number_point:
  assumes "list_all is_digit i" "i \<noteq> []" "list_all is_digit f"
  shows "parse_number ((if s then ''-'' else []) @ i @ ''.'' @ f) = Some (s, nat_of_digits (i @ f), - int (length f))"
proof -
  have tf: "takeWhile (\<lambda>c. c \<noteq> CHR ''e'' \<and> c \<noteq> CHR ''E'') f = f"
    using assms(3) by (auto simp: list_all_iff takeWhile_eq_all_conv dest: digit_not)
  have "takeWhile (\<lambda>c. c \<noteq> CHR ''e'' \<and> c \<noteq> CHR ''E'') (i @ ''.'' @ f) = i @ ''.'' @ f"
    using assms(1,3) by (auto simp: list_all_iff takeWhile_eq_all_conv dest: digit_not)
  moreover have "takeWhile (\<lambda>c. c \<noteq> CHR ''.'') (i @ ''.'' @ f) = i"
    using assms(1) by (subst takeWhile_append2) (auto simp: list_all_iff dest: digit_not)
  ultimately show ?thesis
    using split_sign_body [OF assms(1,2), of s "''.'' @ f"] assms(2)
    by (simp add: parse_number_def ungroup_digits assms(1,3) parse_exponent_def tf Let_def)
qed

lemma nat_of_digits_append: "nat_of_digits (a @ b) = nat_of_digits a * 10 ^ length b + nat_of_digits b"
proof (induction b rule: rev_induct)
  case (snoc x b)
  show ?case unfolding append_assoc [symmetric] nat_of_digits_snoc by (simp add: snoc.IH)
qed (simp add: nat_of_digits_def)

lemma nat_of_digits_zeros [simp]: "nat_of_digits (replicate n (CHR ''0'')) = 0"
  by (induction n) (simp_all add: nat_of_digits_def digit_val_def ccode_def)

lemma zero_digits: "list_all is_digit (replicate n (CHR ''0''))"
  by (simp add: list_all_iff is_digit_def ccode_def)

lemma list_all_take_drop: "list_all P s \<Longrightarrow> list_all P (take n s) \<and> list_all P (drop n s)"
  by (auto simp: list_all_iff dest: in_set_takeD in_set_dropD)

lemma parse_format_f:
  "parse_number (format_f s c e) =
     (if 0 \<le> e then Some (s, c * (if c = 0 then 1 else 10 ^ nat e), 0) else Some (s, c, e))"
proof (cases "0 \<le> e")
  case True
  show ?thesis
  proof (cases "c = 0")
    case c: True
    with True parse_number_int [OF nat_str_digits [of 0] nat_str_not_Nil, of s] show ?thesis
      by (simp add: format_f_def Let_def)
  next
    case False
    have "list_all is_digit (nat_str c @ replicate (nat e) (CHR ''0''))"
      by (simp add: nat_str_digits zero_digits)
    from parse_number_int [OF this, of s] True False show ?thesis
      by (simp add: format_f_def Let_def nat_of_digits_append)
  qed
next
  case False
  define n where "n = nat (- e)"
  define full where "full = replicate (Suc n - length (nat_str c)) (CHR ''0'') @ nat_str c"
  have len: "n < length full" by (auto simp: full_def)
  have dig: "list_all is_digit full" by (simp add: full_def nat_str_digits zero_digits)
  have val: "nat_of_digits full = c" by (simp add: full_def nat_of_digits_append)
  let ?i = "take (length full - n) full" and ?f = "drop (length full - n) full"
  have "?i \<noteq> []" using len by auto
  with parse_number_point [of ?i ?f s] list_all_take_drop [OF dig] val len False
  have "parse_number ((if s then ''-'' else []) @ ?i @ ''.'' @ ?f) = Some (s, c, e)" by (simp add: n_def)
  moreover have "format_f s c e = (if s then ''-'' else []) @ ?i @ ''.'' @ ?f"
    by (simp only: format_f_def Let_def if_False False n_def full_def)
  ultimately show ?thesis using False by simp
qed

lemma format_f_chars: "list_all (\<lambda>c. is_digit c \<or> c = CHR ''-'' \<or> c = CHR ''.'') (format_f s c e)"
proof -
  have "list_all is_digit (replicate k (CHR ''0'') @ nat_str c)" for k
    by (simp add: nat_str_digits zero_digits)
  then show ?thesis
    using list_all_take_drop nat_str_digits [of c] zero_digits
    by (auto simp: format_f_def Let_def list_all_iff dest!: in_set_takeD in_set_dropD)
qed

lemma dec_of_string_plain:
  assumes "parse_number (format_f s c e) = Some (s', c', e')"
  shows "dec_of_string (format_f s c e) = Inr (DFin s' c' e')"
proof -
  have "list_all (\<lambda>x. \<not> is_space x) (format_f s c e)"
    using format_f_chars [of s c e] by (auto simp: list_all_iff is_space_def ccode_def dest!: bspec digit_not)
  moreover have "remove_char (CHR ''_'') (format_f s c e) = format_f s c e"
    using format_f_chars [of s c e] by (auto simp: list_all_iff remove_char_def filter_id_conv dest!: bspec digit_not)
  ultimately show ?thesis using assms by (simp add: dec_of_string_def strip_no_space)
qed

text \<open>The fixed point: canonical text is read back as a decimal that normalises to the same text.\<close>

lemma dec_text_fixed_point:
  assumes "dec_fits c e" "c mod 10 \<noteq> 0"
  shows "\<exists>d. dec_of_string (format_f s c e) = Inr d \<and> dec_is_finite d \<and> dec_normalize d = Inr (DFin s c e) \<and>
             dec_val d = dec_val (DFin s c e)"
proof (cases "0 \<le> e")
  case True
  with assms have "dec_of_string (format_f s c e) = Inr (DFin s (c * 10 ^ nat e) 0)"
    by (intro dec_of_string_plain) (simp add: parse_format_f dec_fits_def)
  moreover have "dec_normalize (DFin s (c * 10 ^ nat e) 0) = Inr (DFin s c e)"
    using assms True by (rule dec_normalize_expanded)
  ultimately show ?thesis using True by (simp add: pow10_def)
next
  case False
  then have "dec_of_string (format_f s c e) = Inr (DFin s c e)"
    by (intro dec_of_string_plain) (simp add: parse_format_f)
  with dec_normalize_fits [OF assms] show ?thesis by simp
qed

end
