(* ===== verification/Py_Value.thy ===== *)
theory Py_Value
  imports Py_Decimal
begin

text \<open>
  Dynamically typed values: what \<open>json.loads\<close> returns and what the exchange sends. \<open>py_str\<close>,
  \<open>py_int\<close> and \<open>py_float\<close> are the conversions \<open>str(v)\<close>, \<open>int(v)\<close> and \<open>float(v)\<close> with their
  exceptions, \<open>truthy\<close> is \<open>bool(v)\<close>, \<open>py_eq\<close> is \<open>==\<close>. \<open>json_dumps\<close> is \<open>json.dumps\<close> with sorted
  keys and compact separators; its flag is \<open>ensure_ascii\<close>.
\<close>

datatype pyval =
    PyNone
  | PyBool bool
  | PyInt int
  | PyFloat pyfloat
  | PyStr string
  | PyList "pyval list"
  | PyDict "(string \<times> pyval) list"

fun truthy :: "pyval \<Rightarrow> bool" where
  "truthy PyNone = False"
| "truthy (PyBool b) = b"
| "truthy (PyInt i) = (i \<noteq> 0)"
| "truthy (PyFloat x) = (\<not> feq x (Fin 0))"
| "truthy (PyStr s) = (s \<noteq> [])"
| "truthy (PyList vs) = (vs \<noteq> [])"
| "truthy (PyDict kvs) = (kvs \<noteq> [])"

text \<open>\<open>a or b\<close>.\<close>

definition py_or :: "pyval \<Rightarrow> pyval \<Rightarrow> pyval" where
  "py_or a b = (if truthy a then a else b)"

text \<open>\<open>d.get(k, default)\<close>.\<close>

definition py_get :: "(string \<times> pyval) list \<Rightarrow> string \<Rightarrow> pyval \<Rightarrow> pyval" where
  "py_get d k v = (case map_of d k of None \<Rightarrow> v | Some w \<Rightarrow> w)"

section \<open>Text\<close>

definition hex_digit :: "int \<Rightarrow> char" where
  "hex_digit n = ''0123456789abcdef'' ! nat (n mod 16)"

text \<open>\<open>repr\<close> of a string: double quotes only when it holds a single quote and no double quote.\<close>

definition repr_char :: "char \<Rightarrow> char \<Rightarrow> string" where
  "repr_char q c =
     (if c = q \<or> c = CHR 92 then [CHR 92, c]
      else if ccode c = 9 then [CHR 92, CHR ''t'']
      else if ccode c = 10 then [CHR 92, CHR ''n'']
      else if ccode c = 13 then [CHR 92, CHR ''r'']
      else if ccode c < 32 \<or> ccode c = 127
      then [CHR 92, CHR ''x'', hex_digit (ccode c div 16), hex_digit (ccode c)]
      else [c])"

definition repr_string :: "string \<Rightarrow> string" where
  "repr_string s =
     (let q = (if CHR 39 \<in> set s \<and> CHR 34 \<notin> set s then CHR 34 else CHR 39)
      in [q] @ concat (map (repr_char q) s) @ [q])"

fun py_repr :: "pyval \<Rightarrow> string" where
  "py_repr PyNone = ''None''"
| "py_repr (PyBool b) = (if b then ''True'' else ''False'')"
| "py_repr (PyInt i) = int_str i"
| "py_repr (PyFloat x) = float_repr x"
| "py_repr (PyStr s) = repr_string s"
| "py_repr (PyList vs) = ''['' @ join '', '' (map py_repr vs) @ '']''"
| "py_repr (PyDict kvs) =
     ''{'' @ join '', '' (map (\<lambda>(k, v). repr_string k @ '': '' @ py_repr v) kvs) @ ''}''"

fun py_str :: "pyval \<Rightarrow> string" where
  "py_str (PyStr s) = s"
| "py_str v = py_repr v"

text \<open>\<open>str(value or "")\<close>.\<close>

definition text_or_empty :: "pyval \<Rightarrow> string" where
  "text_or_empty v = py_str (py_or v (PyStr []))"

section \<open>Numbers\<close>

fun py_int :: "pyval \<Rightarrow> int res" where
  "py_int (PyBool b) = Inr (if b then 1 else 0)"
| "py_int (PyInt i) = Inr i"
| "py_int (PyFloat x) = int_of_float x"
| "py_int (PyStr s) =
     (case int_of_string s of Some i \<Rightarrow> Inr i
      | None \<Rightarrow> Inl (ValueError ''invalid literal for int()''))"
| "py_int _ = Inl (TypeError ''int() argument must be a string or a number'')"

fun py_float :: "pyval \<Rightarrow> pyfloat res" where
  "py_float (PyBool b) = Inr (Fin (if b then 1 else 0))"
| "py_float (PyInt i) = float_of_int i"
| "py_float (PyFloat x) = Inr x"
| "py_float (PyStr s) =
     (case float_of_string s of Some x \<Rightarrow> Inr x
      | None \<Rightarrow> Inl (ValueError ''could not convert string to float''))"
| "py_float _ = Inl (TypeError ''float() argument must be a string or a real number'')"

text \<open>Numbers compare by value across \<open>bool\<close>, \<open>int\<close> and \<open>float\<close>.\<close>

fun py_num :: "pyval \<Rightarrow> pyfloat option" where
  "py_num (PyBool b) = Some (Fin (if b then 1 else 0))"
| "py_num (PyInt i) = Some (Fin (of_int i))"
| "py_num (PyFloat x) = Some x"
| "py_num _ = None"

fun py_eq :: "pyval \<Rightarrow> pyval \<Rightarrow> bool"
and py_eq_list :: "pyval list \<Rightarrow> pyval list \<Rightarrow> bool" where
  "py_eq (PyStr s) (PyStr t) = (s = t)"
| "py_eq PyNone PyNone = True"
| "py_eq (PyList vs) (PyList ws) = py_eq_list vs ws"
| "py_eq (PyDict a) (PyDict b) =
     (length a = length b \<and>
      list_all (\<lambda>(k, v). case map_of b k of None \<Rightarrow> False | Some w \<Rightarrow> py_eq v w) a)"
| "py_eq v w = (case (py_num v, py_num w) of (Some x, Some y) \<Rightarrow> feq x y | _ \<Rightarrow> False)"
| "py_eq_list [] [] = True"
| "py_eq_list (v # vs) (w # ws) = (py_eq v w \<and> py_eq_list vs ws)"
| "py_eq_list _ _ = False"

section \<open>JSON\<close>

definition json_char :: "bool \<Rightarrow> char \<Rightarrow> string" where
  "json_char ascii c =
     (let k = ccode c
      in if k = 34 \<or> k = 92 then [CHR 92, c]
         else if 32 \<le> k \<and> \<not> (ascii \<and> k = 127) then [c]
         else if k = 8 then [CHR 92, CHR ''b'']
         else if k = 9 then [CHR 92, CHR ''t'']
         else if k = 10 then [CHR 92, CHR ''n'']
         else if k = 12 then [CHR 92, CHR ''f'']
         else if k = 13 then [CHR 92, CHR ''r'']
         else [CHR 92, CHR ''u'', CHR ''0'', CHR ''0'', hex_digit (k div 16), hex_digit k])"

definition json_string :: "bool \<Rightarrow> string \<Rightarrow> string" where
  "json_string ascii s = [CHR 34] @ concat (map (json_char ascii) s) @ [CHR 34]"

fun json_float :: "pyfloat \<Rightarrow> string" where
  "json_float FNaN = ''NaN''"
| "json_float (FInf s) = (if s then ''-Infinity'' else ''Infinity'')"
| "json_float (Fin x) = float_repr (Fin x)"

definition json_members :: "(string \<times> string) list \<Rightarrow> string" where
  "json_members kvs =
     ''{'' @ join '','' (map (\<lambda>(k, v). k @ '':'' @ v) kvs) @ ''}''"

fun json_dumps :: "bool \<Rightarrow> pyval \<Rightarrow> string" where
  "json_dumps a PyNone = ''null''"
| "json_dumps a (PyBool b) = (if b then ''true'' else ''false'')"
| "json_dumps a (PyInt i) = int_str i"
| "json_dumps a (PyFloat x) = json_float x"
| "json_dumps a (PyStr s) = json_string a s"
| "json_dumps a (PyList vs) = ''['' @ join '','' (map (json_dumps a) vs) @ '']''"
| "json_dumps a (PyDict kvs) =
     json_members (map (\<lambda>(k, s). (json_string a k, s))
       (sort_key fst (map (\<lambda>(k, v). (k, json_dumps a v)) kvs)))"

section \<open>Lemmas\<close>

lemma py_float_str_Inr [res_simps]: "py_float (PyStr s) = Inr x \<longleftrightarrow> float_of_string s = Some x"
  by (auto split: option.splits)

end
