(* ===== verification/Risk_Engine.thy ===== *)
theory Risk_Engine
  imports Py_Value
begin

text \<open>
  \<open>risk_engine/risk_engine.py\<close> with the records of \<open>risk_engine/models.py\<close>: the hard limits that
  block an action, the soft score in \<open>0..100\<close> computed in binary64, the level and the position
  multiplier it implies; and \<open>risk_engine/paper_reentry.py\<close>: the quarantine of a symbol after a
  stopped trade. The fields of the records are typed, so the checks that a score is not a
  \<open>bool\<close> and a flag is one have no counterpart; the facts of the last close are dynamic values.
\<close>

datatype risk_level = RISK_LOW | RISK_MEDIUM | RISK_HIGH | RISK_CRITICAL

text \<open>The levels in order of risk.\<close>

fun risk_rank :: "risk_level \<Rightarrow> nat" where
  "risk_rank RISK_LOW = 0"
| "risk_rank RISK_MEDIUM = 1"
| "risk_rank RISK_HIGH = 2"
| "risk_rank RISK_CRITICAL = 3"

lemma risk_rank_inject: "risk_rank k = risk_rank l \<Longrightarrow> k = l"
  by (cases k; cases l) simp_all

instantiation risk_level :: linorder
begin

definition less_eq_risk_level :: "risk_level \<Rightarrow> risk_level \<Rightarrow> bool" where
  "less_eq_risk_level k l = (risk_rank k \<le> risk_rank l)"

definition less_risk_level :: "risk_level \<Rightarrow> risk_level \<Rightarrow> bool" where
  "less_risk_level k l = (risk_rank k < risk_rank l)"

instance
  by standard (auto simp: less_eq_risk_level_def less_risk_level_def dest: risk_rank_inject)

end

fun risk_level_value :: "risk_level \<Rightarrow> string" where
  "risk_level_value RISK_LOW = ''LOW''"
| "risk_level_value RISK_MEDIUM = ''MEDIUM''"
| "risk_level_value RISK_HIGH = ''HIGH''"
| "risk_level_value RISK_CRITICAL = ''CRITICAL''"

record risk_limits =
  rl_max_portfolio_drawdown_percent :: pyfloat
  rl_max_daily_loss_percent :: pyfloat
  rl_max_weekly_drawdown_percent :: pyfloat
  rl_max_portfolio_exposure_percent :: pyfloat
  rl_max_asset_exposure_percent :: pyfloat
  rl_max_correlated_exposure_percent :: pyfloat
  rl_minimum_liquidity_score :: pyfloat
  rl_max_open_positions :: int

definition default_limits :: risk_limits where
  "default_limits = \<lparr>rl_max_portfolio_drawdown_percent = Fin 10, rl_max_daily_loss_percent = Fin 2,
     rl_max_weekly_drawdown_percent = Fin 5, rl_max_portfolio_exposure_percent = Fin 80,
     rl_max_asset_exposure_percent = Fin 25, rl_max_correlated_exposure_percent = Fin 35,
     rl_minimum_liquidity_score = Fin 20, rl_max_open_positions = 5\<rparr>"

record risk_input =
  ri_portfolio_drawdown :: pyfloat
  ri_portfolio_exposure :: pyfloat
  ri_asset_exposure :: pyfloat
  ri_volatility_score :: pyfloat
  ri_liquidity_score :: pyfloat
  ri_correlation_score :: pyfloat
  ri_daily_loss_percent :: pyfloat
  ri_weekly_drawdown_percent :: pyfloat
  ri_correlated_exposure :: pyfloat
  ri_open_positions :: int
  ri_max_open_positions :: int
  ri_stale_data :: bool
  ri_kill_switch_active :: bool
  ri_instrument_valid :: bool

record risk_output =
  ro_risk_score :: pyfloat
  ro_risk_level :: risk_level
  ro_allowed :: bool
  ro_reason :: string
  ro_warnings :: "string list"
  ro_hard_blocks :: "string list"
  ro_position_size_multiplier :: pyfloat

abbreviation RiskEngineError :: "string \<Rightarrow> py_error" where
  "RiskEngineError \<equiv> CustomError ''RiskEngineError''"

section \<open>Validation\<close>

definition limit_fields :: "risk_limits \<Rightarrow> (string \<times> pyfloat) list" where
  "limit_fields l =
     [(''max_portfolio_drawdown_percent'', rl_max_portfolio_drawdown_percent l),
      (''max_daily_loss_percent'', rl_max_daily_loss_percent l),
      (''max_weekly_drawdown_percent'', rl_max_weekly_drawdown_percent l),
      (''max_portfolio_exposure_percent'', rl_max_portfolio_exposure_percent l),
      (''max_asset_exposure_percent'', rl_max_asset_exposure_percent l),
      (''max_correlated_exposure_percent'', rl_max_correlated_exposure_percent l),
      (''minimum_liquidity_score'', rl_minimum_liquidity_score l)]"

definition validate_limit :: "unit \<Rightarrow> string \<times> pyfloat \<Rightarrow> unit res" where
  "validate_limit u p =
     (case p of (name, v) \<Rightarrow>
        if \<not> isfinite v \<or> \<not> (flt (Fin 0) v \<and> fle v (Fin 100))
        then Inl (RiskEngineError (name @ '' must be within 0..100.'')) else Inr ())"

definition validate_limits :: "risk_limits \<Rightarrow> unit res" where
  "validate_limits l =
     rbind (rfold validate_limit () (limit_fields l)) (\<lambda>_.
       if rl_max_open_positions l \<le> 0 then Inl (RiskEngineError ''max_open_positions must be positive.'')
       else Inr ())"

definition score_fields :: "risk_input \<Rightarrow> (string \<times> pyfloat) list" where
  "score_fields i =
     [(''portfolio_drawdown'', ri_portfolio_drawdown i), (''portfolio_exposure'', ri_portfolio_exposure i),
      (''asset_exposure'', ri_asset_exposure i), (''volatility_score'', ri_volatility_score i),
      (''liquidity_score'', ri_liquidity_score i), (''correlation_score'', ri_correlation_score i),
      (''daily_loss_percent'', ri_daily_loss_percent i),
      (''weekly_drawdown_percent'', ri_weekly_drawdown_percent i),
      (''correlated_exposure'', ri_correlated_exposure i)]"

definition validate_score :: "unit \<Rightarrow> string \<times> pyfloat \<Rightarrow> unit res" where
  "validate_score u p =
     (case p of (name, v) \<Rightarrow>
        if \<not> isfinite v then Inl (RiskEngineError (name @ '' must be finite.''))
        else if flt v (Fin 0) then Inl (RiskEngineError (name @ '' must not be negative.''))
        else if flt (Fin 100) v then Inl (RiskEngineError (name @ '' must not be above 100.''))
        else Inr ())"

definition validate_input :: "risk_input \<Rightarrow> unit res" where
  "validate_input i =
     rbind (rfold validate_score () (score_fields i)) (\<lambda>_.
       if ri_open_positions i < 0
       then Inl (RiskEngineError ''open_positions must be a non-negative integer.'')
       else if ri_max_open_positions i \<le> 0
       then Inl (RiskEngineError ''max_open_positions must be a positive integer.'')
       else Inr ())"

section \<open>Evaluation\<close>

definition block_when :: "bool \<Rightarrow> string \<Rightarrow> string list" where
  "block_when b name = (if b then [name] else [])"

definition effective_max_positions :: "risk_limits \<Rightarrow> risk_input \<Rightarrow> int" where
  "effective_max_positions l i = min (max (ri_max_open_positions i) 1) (rl_max_open_positions l)"

definition hard_blocks :: "risk_limits \<Rightarrow> risk_input \<Rightarrow> string list" where
  "hard_blocks l i =
     block_when (ri_stale_data i) ''stale_market_data'' @
     block_when (ri_kill_switch_active i) ''execution_kill_switch'' @
     block_when (\<not> ri_instrument_valid i) ''invalid_instrument_specification'' @
     block_when (fle (rl_max_portfolio_drawdown_percent l) (ri_portfolio_drawdown i)) ''portfolio_drawdown_limit'' @
     block_when (fle (rl_max_daily_loss_percent l) (ri_daily_loss_percent i)) ''daily_loss_limit'' @
     block_when (fle (rl_max_weekly_drawdown_percent l) (ri_weekly_drawdown_percent i)) ''weekly_drawdown_limit'' @
     block_when (fle (rl_max_portfolio_exposure_percent l) (ri_portfolio_exposure i)) ''portfolio_exposure_limit'' @
     block_when (fle (rl_max_asset_exposure_percent l) (ri_asset_exposure i)) ''asset_exposure_limit'' @
     block_when (fle (rl_max_correlated_exposure_percent l) (ri_correlated_exposure i)) ''correlated_exposure_limit'' @
     block_when (effective_max_positions l i \<le> ri_open_positions i) ''open_position_limit'' @
     block_when (fle (ri_liquidity_score i) (rl_minimum_liquidity_score l)) ''liquidity_floor''"

definition risk_clamp :: "pyfloat \<Rightarrow> pyfloat" where
  "risk_clamp v = py_max (Fin 0) (py_min v (Fin 100))"

definition weighted_risk :: "risk_input \<Rightarrow> pyfloat" where
  "weighted_risk i =
     fadd (fadd (fadd (fadd (fadd
       (fmul (ri_portfolio_drawdown i) (rnd64 (30 / 100)))
       (fmul (ri_portfolio_exposure i) (rnd64 (20 / 100))))
       (fmul (ri_asset_exposure i) (rnd64 (15 / 100))))
       (fmul (ri_volatility_score i) (rnd64 (15 / 100))))
       (fmul (fsub (Fin 100) (ri_liquidity_score i)) (rnd64 (10 / 100))))
       (fmul (ri_correlation_score i) (rnd64 (10 / 100)))"

definition risk_score_of :: "risk_input \<Rightarrow> pyfloat" where
  "risk_score_of i = round_to 2 (risk_clamp (weighted_risk i))"

definition risk_level_of :: "pyfloat \<Rightarrow> risk_level" where
  "risk_level_of score =
     (if flt score (Fin 30) then RISK_LOW else if flt score (Fin 60) then RISK_MEDIUM
      else if flt score (Fin 80) then RISK_HIGH else RISK_CRITICAL)"

fun position_size_multiplier :: "risk_level \<Rightarrow> pyfloat" where
  "position_size_multiplier RISK_LOW = Fin 1"
| "position_size_multiplier RISK_MEDIUM = rnd64 (6 / 10)"
| "position_size_multiplier RISK_HIGH = Fin (1 / 4)"
| "position_size_multiplier RISK_CRITICAL = Fin 0"

definition risk_warnings :: "risk_input \<Rightarrow> string list" where
  "risk_warnings i =
     block_when (fle (Fin 8) (ri_portfolio_drawdown i))
       ''Drawdown warning: portfolio_drawdown is at least 8.'' @
     block_when (fle (Fin 70) (ri_portfolio_exposure i))
       ''Exposure warning: portfolio_exposure is at least 70.'' @
     block_when (fle (Fin 30) (ri_asset_exposure i))
       ''Asset concentration warning: asset_exposure is at least 30.'' @
     block_when (fle (Fin 70) (ri_volatility_score i))
       ''Volatility warning: volatility_score is at least 70.'' @
     block_when (fle (ri_liquidity_score i) (Fin 40))
       ''Liquidity warning: liquidity_score is at most 40.'' @
     block_when (fle (Fin 70) (ri_correlation_score i))
       ''Correlation warning: correlation_score is at least 70.''"

definition risk_reason :: "pyfloat \<Rightarrow> risk_level \<Rightarrow> string list \<Rightarrow> bool \<Rightarrow> string" where
  "risk_reason score level blocks allowed =
     ''Risk level is '' @ risk_level_value level @ '' with score '' @ fixed2 score @ ''. '' @
     (case blocks of b # _ \<Rightarrow> ''Action is blocked by hard limit: '' @ b @ ''.''
      | [] \<Rightarrow> if level = RISK_CRITICAL then ''Action is blocked because risk level is CRITICAL.''
              else ''Action is '' @ (if allowed then ''allowed'' else ''blocked'') @ '' by risk rules.'')"

definition risk_evaluate :: "risk_limits \<Rightarrow> risk_input \<Rightarrow> risk_output res" where
  "risk_evaluate l i =
     rbind (validate_input i) (\<lambda>_.
       let score = risk_score_of i; level = risk_level_of score; blocks = hard_blocks l i;
           allowed = (blocks = [] \<and> level \<noteq> RISK_CRITICAL)
       in Inr \<lparr>ro_risk_score = score, ro_risk_level = level, ro_allowed = allowed,
               ro_reason = risk_reason score level blocks allowed, ro_warnings = risk_warnings i,
               ro_hard_blocks = blocks,
               ro_position_size_multiplier =
                 (if allowed then position_size_multiplier level else Fin 0)\<rparr>)"

section \<open>Quarantine after a stop\<close>

definition post_stop_cooldown_ms :: int where
  "post_stop_cooldown_ms = 24 * 60 * 60 * 1000"

definition reentry_invalid :: string where
  "reentry_invalid = ''paper_post_stop_evidence_unavailable: verified same-symbol close facts required''"

definition stop_reasons :: "string list" where
  "stop_reasons = [''protective_stop_loss'', ''stop_loss'']"

definition known_exit :: "string \<Rightarrow> bool" where
  "known_exit reason \<longleftrightarrow>
     reason \<in> set [''protective_take_profit'', ''take_profit'', ''protective_momentum_exit''] \<or>
     startswith reason ''canonical_council_sell:''"

text \<open>A number that is not a bool, as the float \<open>isfinite\<close> and the format see.\<close>

fun close_number :: "pyval \<Rightarrow> pyfloat option res" where
  "close_number (PyInt n) = rbind (float_of_int n) (\<lambda>x. Inr (Some x))"
| "close_number (PyFloat x) = Inr (if isfinite x then Some x else None)"
| "close_number _ = Inr None"

definition post_stop_reentry_block :: "pyval \<Rightarrow> string \<Rightarrow> int \<Rightarrow> string option res" where
  "post_stop_reentry_block last_close symbol now =
     (case last_close of PyNone \<Rightarrow> Inr None
      | PyDict d \<Rightarrow>
          if py_get d ''symbol'' PyNone \<noteq> PyStr (upper symbol) \<or> py_get d ''side'' PyNone \<noteq> PyStr ''SELL'' \<or>
             strip (py_str (py_or (py_get d ''trade_id'' PyNone) (PyStr []))) = [] \<or>
             py_get d ''verified_market_data'' PyNone \<noteq> PyBool True
          then Inr (Some reentry_invalid)
          else (case py_get d ''closed_at_ms'' PyNone of
              PyInt closed_at \<Rightarrow>
                if closed_at \<le> 0 \<or> now < closed_at then Inr (Some reentry_invalid)
                else rbind (close_number (py_get d ''net_pnl'' PyNone)) (\<lambda>pnl.
                  case pnl of None \<Rightarrow> Inr (Some reentry_invalid)
                  | Some x \<Rightarrow>
                      let reason = py_str (py_or (py_get d ''reason'' PyNone) (PyStr []));
                          stopped = (reason \<in> set stop_reasons);
                          eligible_at = closed_at + post_stop_cooldown_ms
                      in if \<not> stopped \<and> \<not> known_exit reason then Inr (Some reentry_invalid)
                         else if stopped \<and> now < eligible_at
                         then Inr (Some (''paper_post_stop_cooldown: '' @ symbol @ '' stopped trade '' @
                                py_str (py_get d ''trade_id'' PyNone) @ ''; net_pnl='' @ format_g 12 x @
                                ''; eligible_at_ms='' @ int_str eligible_at @ ''; policy=paper-post-stop-v1''))
                         else Inr None)
            | _ \<Rightarrow> Inr (Some reentry_invalid))
      | _ \<Rightarrow> Inr (Some reentry_invalid))"

section \<open>Hard limits\<close>

lemma block_when_Nil [simp]: "block_when b name = [] \<longleftrightarrow> \<not> b"
  by (simp add: block_when_def)

lemma validate_score_Inr: "validate_score u (n, v) = Inr w \<longleftrightarrow> (\<exists>x. v = Fin x \<and> 0 \<le> x \<and> x \<le> 100)"
  by (cases v) (auto simp: validate_score_def)

lemma validate_input_Inr:
  "validate_input i = Inr () \<longleftrightarrow>
     (\<forall>v \<in> snd ` set (score_fields i). \<exists>x. v = Fin x \<and> 0 \<le> x \<and> x \<le> 100) \<and>
     0 \<le> ri_open_positions i \<and> 0 < ri_max_open_positions i"
proof -
  have "(\<forall>p \<in> set (score_fields i). validate_score () p = Inr ()) \<longleftrightarrow>
        (\<forall>v \<in> snd ` set (score_fields i). \<exists>x. v = Fin x \<and> 0 \<le> x \<and> x \<le> 100)"
    by (auto simp: validate_score_Inr)
  then show ?thesis by (auto simp: validate_input_def res_simps rfold_unit_Inr)
qed

text \<open>
  The hard limits are hard: an evaluation allows the action exactly when no flag blocks it, every
  exposure, loss and drawdown is strictly below its limit, there is room for another position, the
  liquidity is above the floor and the score is below 80; only then is the position multiplier
  positive.
\<close>

theorem hard_limits_block:
  assumes "risk_evaluate l i = Inr out"
  shows "(ro_allowed out \<longleftrightarrow> \<not> ri_stale_data i \<and> \<not> ri_kill_switch_active i \<and> ri_instrument_valid i \<and>
      \<not> fle (rl_max_portfolio_drawdown_percent l) (ri_portfolio_drawdown i) \<and>
      \<not> fle (rl_max_daily_loss_percent l) (ri_daily_loss_percent i) \<and>
      \<not> fle (rl_max_weekly_drawdown_percent l) (ri_weekly_drawdown_percent i) \<and>
      \<not> fle (rl_max_portfolio_exposure_percent l) (ri_portfolio_exposure i) \<and>
      \<not> fle (rl_max_asset_exposure_percent l) (ri_asset_exposure i) \<and>
      \<not> fle (rl_max_correlated_exposure_percent l) (ri_correlated_exposure i) \<and>
      ri_open_positions i < min (ri_max_open_positions i) (rl_max_open_positions l) \<and>
      \<not> fle (ri_liquidity_score i) (rl_minimum_liquidity_score l) \<and> flt (ro_risk_score out) (Fin 80)) \<and>
    (ro_allowed out \<longleftrightarrow> flt (Fin 0) (ro_position_size_multiplier out))"
proof -
  from assms have valid: "validate_input i = Inr ()"
    and out: "ro_allowed out \<longleftrightarrow> hard_blocks l i = [] \<and> ro_risk_level out \<noteq> RISK_CRITICAL"
      "ro_risk_level out = risk_level_of (ro_risk_score out)"
      "ro_position_size_multiplier out =
         (if ro_allowed out then position_size_multiplier (ro_risk_level out) else Fin 0)"
    by (auto simp: risk_evaluate_def res_simps Let_def)
  have level: "ro_risk_level out \<noteq> RISK_CRITICAL \<longleftrightarrow> flt (ro_risk_score out) (Fin 80)"
    unfolding out(2) by (cases "ro_risk_score out") (auto simp: risk_level_of_def)
  have positions: "effective_max_positions l i = min (ri_max_open_positions i) (rl_max_open_positions l)"
    using valid by (simp add: validate_input_Inr effective_max_positions_def)
  have "flt (Fin 0) (position_size_multiplier k) \<longleftrightarrow> k \<noteq> RISK_CRITICAL" for k
  proof -
    have "flt (Fin 0) (rnd64 (6 / 10))" by code_simp
    then show ?thesis by (cases k) simp_all
  qed
  then show ?thesis
    using out level by (auto simp: hard_blocks_def positions not_le)
qed

definition sample_risk :: risk_input where
  "sample_risk = \<lparr>ri_portfolio_drawdown = Fin 1, ri_portfolio_exposure = Fin 20, ri_asset_exposure = Fin 10,
     ri_volatility_score = Fin 30, ri_liquidity_score = Fin 80, ri_correlation_score = Fin 20,
     ri_daily_loss_percent = Fin 1, ri_weekly_drawdown_percent = Fin 2, ri_correlated_exposure = Fin 10,
     ri_open_positions = 1, ri_max_open_positions = 5, ri_stale_data = False,
     ri_kill_switch_active = False, ri_instrument_valid = True\<rparr>"

definition sample_risk_output :: "risk_input \<Rightarrow> risk_output option" where
  "sample_risk_output i = (case risk_evaluate default_limits i of Inl e \<Rightarrow> None | Inr out \<Rightarrow> Some out)"

lemma sample_risk_allowed: "map_option ro_allowed (sample_risk_output sample_risk) = Some True"
  by code_simp

theorem hard_limits_block_witness:
  "\<exists>out. risk_evaluate default_limits sample_risk = Inr out \<and> ro_allowed out \<and>
     flt (Fin 0) (ro_position_size_multiplier out) \<and> flt (ro_risk_score out) (Fin 80)"
proof -
  from sample_risk_allowed obtain out where out: "risk_evaluate default_limits sample_risk = Inr out" "ro_allowed out"
    by (auto simp: sample_risk_output_def split: sum.splits)
  show ?thesis using hard_limits_block [OF out(1)] out by blast
qed

section \<open>The score is monotone\<close>

text \<open>The second input is at least as risky as the first, field by field.\<close>

definition riskier :: "risk_input \<Rightarrow> risk_input \<Rightarrow> bool" where
  "riskier i j \<longleftrightarrow>
     list_all2 fle
       [ri_portfolio_drawdown i, ri_portfolio_exposure i, ri_asset_exposure i, ri_volatility_score i,
        ri_liquidity_score j, ri_correlation_score i, ri_daily_loss_percent i,
        ri_weekly_drawdown_percent i, ri_correlated_exposure i]
       [ri_portfolio_drawdown j, ri_portfolio_exposure j, ri_asset_exposure j, ri_volatility_score j,
        ri_liquidity_score i, ri_correlation_score j, ri_daily_loss_percent j,
        ri_weekly_drawdown_percent j, ri_correlated_exposure j] \<and>
     ri_open_positions i \<le> ri_open_positions j \<and> ri_max_open_positions j \<le> ri_max_open_positions i \<and>
     (ri_stale_data i \<longrightarrow> ri_stale_data j) \<and> (ri_kill_switch_active i \<longrightarrow> ri_kill_switch_active j) \<and>
     (ri_instrument_valid j \<longrightarrow> ri_instrument_valid i)"

definition percent_score :: "pyfloat \<Rightarrow> bool" where
  "percent_score v \<longleftrightarrow> (\<exists>x. v = Fin x \<and> 0 \<le> x \<and> x \<le> 100)"

lemma weighted_term:
  assumes "percent_score a" "percent_score b" "fle a b" "0 \<le> w" "w \<le> 1"
  shows "fle (Fin 0) (fmul a (rnd64 w)) \<and> fle (fmul a (rnd64 w)) (fmul b (rnd64 w))"
proof -
  obtain y where y: "rnd64 w = Fin y" "0 \<le> y"
    using rnd64_between [of 0 w 1] assms(4,5) by auto
  with assms fmul_mono [of _ _ "rnd64 w"] show ?thesis by (auto simp: percent_score_def)
qed

lemma liquidity_risk:
  assumes "percent_score a" "percent_score b" "fle b a"
  shows "percent_score (fsub (Fin 100) a)" "percent_score (fsub (Fin 100) b)"
    "fle (fsub (Fin 100) a) (fsub (Fin 100) b)"
proof -
  have "percent_score (fsub (Fin 100) c)" if "percent_score c" for c
    using that rnd64_between [of 0 "100 - _" 100] by (auto simp: percent_score_def fsub_def)
  with assms show "percent_score (fsub (Fin 100) a)" "percent_score (fsub (Fin 100) b)" by blast+
  show "fle (fsub (Fin 100) a) (fsub (Fin 100) b)"
    using assms by (auto simp: percent_score_def fsub_def intro!: rnd64_mono)
qed

lemma validated_scores:
  assumes "validate_input i = Inr ()"
  shows "percent_score (ri_portfolio_drawdown i)" "percent_score (ri_portfolio_exposure i)"
    "percent_score (ri_asset_exposure i)" "percent_score (ri_volatility_score i)"
    "percent_score (ri_liquidity_score i)" "percent_score (ri_correlation_score i)"
  using assms by (auto simp: validate_input_Inr score_fields_def percent_score_def)

lemma weighted_risk_mono:
  assumes "validate_input i = Inr ()" "validate_input j = Inr ()" "riskier i j"
  shows "fle (Fin 0) (weighted_risk i) \<and> fle (weighted_risk i) (weighted_risk j)"
proof -
  note v = validated_scores [OF assms(1)] validated_scores [OF assms(2)]
  have r: "fle (ri_portfolio_drawdown i) (ri_portfolio_drawdown j)" "fle (ri_portfolio_exposure i) (ri_portfolio_exposure j)"
    "fle (ri_asset_exposure i) (ri_asset_exposure j)" "fle (ri_volatility_score i) (ri_volatility_score j)"
    "fle (ri_liquidity_score j) (ri_liquidity_score i)" "fle (ri_correlation_score i) (ri_correlation_score j)"
    using assms(3) by (simp_all add: riskier_def)
  note liq = liquidity_risk [OF v(5) v(11) r(5)]
  note terms = weighted_term [OF v(1) v(7) r(1), of "30 / 100"] weighted_term [OF v(2) v(8) r(2), of "20 / 100"]
    weighted_term [OF v(3) v(9) r(3), of "15 / 100"] weighted_term [OF v(4) v(10) r(4), of "15 / 100"]
    weighted_term [OF liq, of "10 / 100"] weighted_term [OF v(6) v(12) r(6), of "10 / 100"]
  show ?thesis unfolding weighted_risk_def
    using terms by (intro conjI fadd_mono fadd_nonneg) simp_all
qed

lemma risk_clamp_Fin: "\<exists>x. risk_clamp v = Fin x \<and> 0 \<le> x \<and> x \<le> 100"
  by (cases v) (auto simp: risk_clamp_def py_max_def py_min_def)

lemma risk_clamp_mono: "fle (Fin 0) v \<Longrightarrow> fle v w \<Longrightarrow> fle (risk_clamp v) (risk_clamp w)"
  by (cases v; cases w) (auto simp: risk_clamp_def py_max_def py_min_def)

lemma risk_score_mono:
  assumes "validate_input i = Inr ()" "validate_input j = Inr ()" "riskier i j"
  shows "fle (risk_score_of i) (risk_score_of j)"
proof -
  obtain x y where "risk_clamp (weighted_risk i) = Fin x" "risk_clamp (weighted_risk j) = Fin y"
    using risk_clamp_Fin by metis
  moreover from this have "x \<le> y"
    using risk_clamp_mono [of "weighted_risk i" "weighted_risk j"] weighted_risk_mono [OF assms] by simp
  ultimately show ?thesis by (simp only: risk_score_of_def round_to_mono)
qed

lemma risk_score_bounds: "\<exists>x. risk_score_of i = Fin x \<and> 0 \<le> x \<and> x \<le> 100"
proof -
  obtain x where x: "risk_clamp (weighted_risk i) = Fin x" "0 \<le> x" "x \<le> 100" using risk_clamp_Fin by metis
  have "0 \<le> rhe (x * 10 ^ 2)" "rhe (x * 10 ^ 2) \<le> 10000"
    using x by (auto intro: rhe_ge_int rhe_le_int)
  then have "(0 :: rat) \<le> of_int (rhe (x * 10 ^ 2)) / 10 ^ 2" "of_int (rhe (x * 10 ^ 2)) / 10 ^ 2 \<le> (100 :: rat)"
    by (simp_all add: divide_le_eq)
  with rnd64_between [of 0 _ 100] show ?thesis by (auto simp: risk_score_of_def x(1))
qed

lemma hard_blocks_mono:
  assumes "riskier i j" "hard_blocks l j = []"
  shows "hard_blocks l i = []"
  using assms by (auto simp: hard_blocks_def riskier_def effective_max_positions_def dest: fle_trans)

lemma multiplier_mono:
  assumes "fle s t"
  shows "fle (position_size_multiplier (risk_level_of t)) (position_size_multiplier (risk_level_of s))"
proof -
  have "fle (Fin (1 / 4)) (rnd64 (6 / 10))" "fle (rnd64 (6 / 10)) (Fin 1)" "fle (rnd64 (6 / 10)) (rnd64 (6 / 10))"
    "fle (Fin 0) (rnd64 (6 / 10))" by code_simp+
  with assms show ?thesis by (cases s; cases t) (auto simp: risk_level_of_def)
qed

lemma level_mono:
  assumes "fle s t"
  shows "risk_level_of s \<le> risk_level_of t"
  using assms by (cases s; cases t) (auto simp: risk_level_of_def less_eq_risk_level_def)

text \<open>
  C33. More risk never buys more room: the score is a number in \<open>0..100\<close>; when an input is replaced
  by one that is at least as risky in every field, neither the score nor the level falls, an action
  that was blocked stays blocked, and the position multiplier does not grow, with every sum and
  product rounded as the machine rounds it. The level that is reported is the level of the score.
\<close>

theorem more_risk_less_room:
  assumes "risk_evaluate l i = Inr low" "risk_evaluate l j = Inr high" "riskier i j"
  shows "(\<exists>x y. ro_risk_score low = Fin x \<and> ro_risk_score high = Fin y \<and> 0 \<le> x \<and> x \<le> y \<and> y \<le> 100) \<and>
    ro_risk_level low = risk_level_of (ro_risk_score low) \<and> ro_risk_level high = risk_level_of (ro_risk_score high) \<and>
    ro_risk_level low \<le> ro_risk_level high \<and>
    (ro_allowed high \<longrightarrow> ro_allowed low) \<and>
    fle (ro_position_size_multiplier high) (ro_position_size_multiplier low)"
proof -
  have v: "validate_input i = Inr ()" "validate_input j = Inr ()"
    using assms by (auto simp: risk_evaluate_def res_simps)
  note mono = risk_score_mono [OF v assms(3)]
  note mult = multiplier_mono [OF mono]
  have low: "ro_risk_score low = risk_score_of i" "ro_risk_level low = risk_level_of (risk_score_of i)"
    "ro_allowed low \<longleftrightarrow> hard_blocks l i = [] \<and> risk_level_of (risk_score_of i) \<noteq> RISK_CRITICAL"
    "ro_position_size_multiplier low = (if ro_allowed low then position_size_multiplier (risk_level_of (risk_score_of i)) else Fin 0)"
    using assms(1) by (auto simp: risk_evaluate_def res_simps Let_def)
  have high: "ro_risk_score high = risk_score_of j" "ro_risk_level high = risk_level_of (risk_score_of j)"
    "ro_allowed high \<longleftrightarrow> hard_blocks l j = [] \<and> risk_level_of (risk_score_of j) \<noteq> RISK_CRITICAL"
    "ro_position_size_multiplier high = (if ro_allowed high then position_size_multiplier (risk_level_of (risk_score_of j)) else Fin 0)"
    using assms(2) by (auto simp: risk_evaluate_def res_simps Let_def)
  have "risk_level_of (risk_score_of i) \<noteq> RISK_CRITICAL" if "risk_level_of (risk_score_of j) \<noteq> RISK_CRITICAL"
    using that mono risk_score_bounds [of i] risk_score_bounds [of j]
    by (auto simp: risk_level_of_def split: if_splits)
  then have allowed: "ro_allowed high \<longrightarrow> ro_allowed low"
    using hard_blocks_mono [OF assms(3)] by (simp add: low(3) high(3))
  have "fle (Fin 0) (position_size_multiplier k)" for k
  proof -
    have "fle (Fin 0) (rnd64 (6 / 10))" by code_simp
    then show ?thesis by (cases k) simp_all
  qed
  then have "fle (ro_position_size_multiplier high) (ro_position_size_multiplier low)"
    using allowed mult by (simp add: low(4) high(4))
  with allowed show ?thesis
    using mono level_mono [OF mono] risk_score_bounds [of i] risk_score_bounds [of j]
    by (auto simp: low(1,2) high(1,2))
qed

theorem more_risk_less_room_witness:
  "\<exists>low high. risk_evaluate default_limits sample_risk = Inr low \<and>
     risk_evaluate default_limits (sample_risk\<lparr>ri_volatility_score := Fin 95\<rparr>) = Inr high \<and>
     fle (ro_risk_score low) (ro_risk_score high) \<and> (ro_allowed high \<longrightarrow> ro_allowed low)"
proof -
  let ?j = "sample_risk\<lparr>ri_volatility_score := Fin 95\<rparr>"
  have "sample_risk_output sample_risk \<noteq> None" "sample_risk_output ?j \<noteq> None" by code_simp+
  then obtain low high where out: "risk_evaluate default_limits sample_risk = Inr low"
    "risk_evaluate default_limits ?j = Inr high"
    by (auto simp: sample_risk_output_def split: sum.splits)
  have "riskier sample_risk ?j" by (simp add: riskier_def sample_risk_def)
  from more_risk_less_room [OF out this] out show ?thesis by auto
qed

section \<open>The quarantine holds\<close>

text \<open>
  C34. After a stop a symbol stays closed for a day: when the gate lets a new BUY through although a
  last close is given, that close is a verified, finished SELL of the same symbol in the past, and
  if it was a protective stop, at least 24 hours have passed since.
\<close>

theorem reentry_respects_quarantine:
  assumes "post_stop_reentry_block (PyDict d) symbol now = Inr None"
  shows "map_of d ''symbol'' = Some (PyStr (upper symbol)) \<and> map_of d ''side'' = Some (PyStr ''SELL'') \<and>
    map_of d ''verified_market_data'' = Some (PyBool True) \<and>
    (\<exists>t. map_of d ''closed_at_ms'' = Some (PyInt t) \<and> 0 < t \<and> t \<le> now \<and>
       (map_of d ''reason'' \<in> {Some (PyStr ''stop_loss''), Some (PyStr ''protective_stop_loss'')} \<longrightarrow>
          t + 86400000 \<le> now))"
proof -
  have get: "py_get d k PyNone = v \<Longrightarrow> v \<noteq> PyNone \<Longrightarrow> map_of d k = Some v" for k v
    by (auto simp: py_get_def split: option.splits)
  from assms have f: "py_get d ''symbol'' PyNone = PyStr (upper symbol)" "py_get d ''side'' PyNone = PyStr ''SELL''"
    "py_get d ''verified_market_data'' PyNone = PyBool True"
    by (auto simp: post_stop_reentry_block_def split: if_splits)
  from assms obtain t where t: "py_get d ''closed_at_ms'' PyNone = PyInt t" "0 < t" "t \<le> now"
    by (auto simp: post_stop_reentry_block_def Let_def split: if_splits pyval.splits)
  have "t + 86400000 \<le> now" if r: "map_of d ''reason'' \<in> {Some (PyStr ''stop_loss''), Some (PyStr ''protective_stop_loss'')}"
  proof -
    from r have "py_str (py_or (py_get d ''reason'' PyNone) (PyStr [])) \<in> set stop_reasons"
      by (auto simp: py_get_def py_or_def stop_reasons_def)
    with assms f t show ?thesis
      by (auto simp: post_stop_reentry_block_def Let_def res_simps post_stop_cooldown_ms_def
          split: if_splits option.splits)
  qed
  with f t get show ?thesis by blast
qed

definition sample_close :: "(string \<times> pyval) list" where
  "sample_close = [(''symbol'', PyStr ''BTCUSDT''), (''side'', PyStr ''SELL''), (''trade_id'', PyStr ''t1''),
     (''verified_market_data'', PyBool True), (''closed_at_ms'', PyInt 1000), (''net_pnl'', PyFloat (Fin (- 5 / 2))),
     (''reason'', PyStr ''stop_loss'')]"

theorem reentry_respects_quarantine_witness:
  "post_stop_reentry_block (PyDict sample_close) ''btcusdt'' 86401000 = Inr None \<and>
   post_stop_reentry_block (PyDict sample_close) ''btcusdt'' 86400999 \<noteq> Inr None"
proof
  show "post_stop_reentry_block (PyDict sample_close) ''btcusdt'' 86401000 = Inr None" by code_simp
  have "map_of sample_close ''reason'' = Some (PyStr ''stop_loss'')"
    "map_of sample_close ''closed_at_ms'' = Some (PyInt 1000)" by code_simp+
  then show "post_stop_reentry_block (PyDict sample_close) ''btcusdt'' 86400999 \<noteq> Inr None"
    using reentry_respects_quarantine [of sample_close "''btcusdt''" 86400999] by auto
qed

end
