(* ===== verification/Canonical_Risk.thy ===== *)
theory Canonical_Risk
  imports Py_Value
begin

text \<open>
  \<open>risk_engine/canonical_service.py\<close>: the production policy that every decision path asks. A payload of
  untyped evidence is normalised, the market regime is read off it, and the gates of the profile
  collect hard blocks; any block ends in BLOCK, and live execution is never allowed. The messages
  for people are non-ASCII text: \<open>blockers\<close> has one message per code of \<open>hard_blocks\<close>, in the same
  order, and is represented by the codes; the two warnings are constructors, and the explanation of a
  regime is left out. \<open>to_dict\<close> is the identity on these values.
\<close>

section \<open>Evidence\<close>

definition risk_profiles :: "string list" where
  "risk_profiles = [''council'', ''market_regime'', ''trade_gate'', ''health_probe'']"

text \<open>What is not a number counts as missing; an integer too large for a float raises.\<close>

definition missing_number :: "pyval \<Rightarrow> bool" where
  "missing_number v = (case v of PyNone \<Rightarrow> True | PyBool b \<Rightarrow> True | PyStr s \<Rightarrow> s = [] | _ \<Rightarrow> False)"

definition rs_optional :: "pyval \<Rightarrow> pyfloat option res" where
  "rs_optional v =
     (if missing_number v then Inr None
      else case py_float v of
        Inr x \<Rightarrow> Inr (if isfinite x then Some x else None)
      | Inl (TypeError m) \<Rightarrow> Inr None
      | Inl (ValueError m) \<Rightarrow> Inr None
      | Inl e \<Rightarrow> Inl e)"

definition rs_finite :: "pyval \<Rightarrow> pyfloat res" where
  "rs_finite v = rbind (rs_optional v) (\<lambda>x. Inr (case x of Some y \<Rightarrow> y | None \<Rightarrow> Fin 0))"

definition rs_bounded :: "pyval \<Rightarrow> pyfloat res" where
  "rs_bounded v = rbind (rs_finite v) (\<lambda>x. Inr (py_min (py_max x (Fin 0)) (Fin 100)))"

definition rs_nonnegative :: "pyval \<Rightarrow> pyfloat res" where
  "rs_nonnegative v = rbind (rs_finite v) (\<lambda>x. Inr (py_max (Fin 0) x))"

text \<open>\<open>values.get(key, default)\<close> with a float default.\<close>

definition number_or :: "(string \<times> pyval) list \<Rightarrow> string \<Rightarrow> pyfloat \<Rightarrow> pyval" where
  "number_or d k x = py_get d k (PyFloat x)"

definition flag :: "(string \<times> pyval) list \<Rightarrow> string \<Rightarrow> bool" where
  "flag d k = truthy (py_get d k (PyBool False))"

record risk_context =
  rx_market_verified :: bool
  rx_exchange_ok :: bool
  rx_change :: pyfloat
  rx_volatility :: pyfloat
  rx_trend :: pyfloat
  rx_spread :: pyfloat
  rx_liquidity :: pyfloat
  rx_news_shock :: pyfloat
  rx_news_credibility :: pyfloat
  rx_ai_consensus :: pyfloat
  rx_risk_per_trade :: pyfloat
  rx_drawdown :: pyfloat
  rx_deviation :: pyfloat
  rx_turnover :: "pyfloat option"
  rx_live_requested :: bool
  rx_strategy_approved :: bool

definition risk_context_of :: "string \<Rightarrow> (string \<times> pyval) list \<Rightarrow> risk_context res" where
  "risk_context_of profile d =
     (let strict = (profile = ''trade_gate'') in
      rbind (rs_finite (py_get d ''price_change_24h_percent'' (number_or d ''change_24h_percent'' (Fin 0)))) (\<lambda>change.
      rbind (rs_finite (number_or d ''volatility_percent'' (fabs change))) (\<lambda>volatility.
      rbind (rs_finite (number_or d ''trend_score'' (py_max (Fin (- 1)) (py_min (Fin 1) (fdiv_by change 10))))) (\<lambda>trend.
      rbind (rs_finite (number_or d ''spread_percent'' (rnd64 (5 / 100)))) (\<lambda>spread.
      rbind (rs_bounded (number_or d ''liquidity_score'' (Fin (if strict then 0 else 75)))) (\<lambda>liquidity.
      rbind (rs_bounded (number_or d ''news_shock_score'' (Fin 0))) (\<lambda>shock.
      rbind (rs_bounded (number_or d ''news_credibility_percent'' (Fin (if strict then 0 else 100)))) (\<lambda>credibility.
      rbind (rs_bounded (number_or d ''ai_consensus_score'' (Fin (if strict then 0 else 100)))) (\<lambda>consensus.
      rbind (rs_nonnegative (number_or d ''risk_per_trade_percent'' (Fin 1))) (\<lambda>per_trade.
      rbind (rs_nonnegative (py_get d ''portfolio_drawdown_percent'' (number_or d ''drawdown_percent'' (Fin 0)))) (\<lambda>drawdown.
      rbind (rs_nonnegative (number_or d ''ws_consensus_deviation_percent'' (Fin 0))) (\<lambda>deviation.
      rbind (rs_optional (py_get d ''turnover_usdt'' (py_get d ''volume_24h'' PyNone))) (\<lambda>turnover.
        Inr \<lparr>rx_market_verified = flag d ''market_data_verified'', rx_exchange_ok = flag d ''exchange_ok'',
             rx_change = change, rx_volatility = volatility, rx_trend = trend, rx_spread = spread,
             rx_liquidity = liquidity, rx_news_shock = shock, rx_news_credibility = credibility,
             rx_ai_consensus = consensus, rx_risk_per_trade = per_trade, rx_drawdown = drawdown,
             rx_deviation = deviation, rx_turnover = turnover, rx_live_requested = flag d ''live_requested'',
             rx_strategy_approved = flag d ''strategy_approved''\<rparr>)))))))))))))"

definition open_position_count :: "(string \<times> pyval) list \<Rightarrow> int option res" where
  "open_position_count d =
     (let raw = py_get d ''open_position_count'' PyNone;
          symbols = (case py_get d ''open_symbols'' PyNone of PyList vs \<Rightarrow> Some (int (length vs)) | _ \<Rightarrow> None)
      in if missing_number raw then Inr symbols
         else case py_int raw of
           Inr n \<Rightarrow> Inr (if 0 \<le> n then Some n else symbols)
         | Inl (TypeError m) \<Rightarrow> Inr symbols
         | Inl (ValueError m) \<Rightarrow> Inr symbols
         | Inl e \<Rightarrow> Inl e)"

definition book_is_flat :: "(string \<times> pyval) list \<Rightarrow> bool res" where
  "book_is_flat d = rbind (open_position_count d) (\<lambda>n. Inr (n = Some 0))"

section \<open>Market regime\<close>

record regime_assessment =
  mr_status :: string
  mr_regime :: string
  mr_risk_level :: string
  mr_recommended_action :: string

definition market_regime_of :: "risk_context \<Rightarrow> regime_assessment" where
  "market_regime_of x =
     (let r = (\<lambda>regime risk action status. \<lparr>mr_status = status, mr_regime = regime, mr_risk_level = risk,
                mr_recommended_action = action\<rparr>)
      in if \<not> rx_market_verified x then r ''market_data_unavailable'' ''high'' ''BLOCK'' ''blocked''
         else if fle (Fin 70) (rx_news_shock x) then r ''news_shock'' ''high'' ''WAIT'' ''ok''
         else if fle (Fin 8) (rx_volatility x) then r ''panic'' ''high'' ''BLOCK'' ''ok''
         else if fle (Fin (1 / 4)) (rx_spread x) \<or> flt (rx_liquidity x) (Fin 35)
         then r ''bad_execution'' ''high'' ''WAIT'' ''ok''
         else if fle (rnd64 (65 / 100)) (fabs (rx_trend x)) \<and> flt (rx_volatility x) (Fin 6)
         then r ''trend'' ''medium'' ''VIRTUAL_ONLY'' ''ok''
         else if fle (rx_volatility x) (Fin 2) \<and> flt (fabs (rx_trend x)) (rnd64 (35 / 100))
         then r ''range_low_volatility'' ''medium'' ''WAIT'' ''ok''
         else r ''mixed'' ''medium'' ''WATCH'' ''ok'')"

section \<open>Gates\<close>

datatype risk_warning = FlatDrawdownRecovery | StrategyNotApproved

text \<open>Hard blocks and warnings collected so far; \<open>block_if\<close> is a guarded \<open>_add\<close>.\<close>

type_synonym risk_notes = "string list \<times> risk_warning list"

definition block_if :: "bool \<Rightarrow> string \<Rightarrow> risk_notes \<Rightarrow> risk_notes" where
  "block_if b code n = (if b then (fst n @ [code], snd n) else n)"

definition warn_if :: "bool \<Rightarrow> risk_warning \<Rightarrow> risk_notes \<Rightarrow> risk_notes" where
  "warn_if b w n = (if b then (fst n, snd n @ [w]) else n)"

definition source_gates :: "risk_context \<Rightarrow> risk_notes" where
  "source_gates x =
     block_if (\<not> rx_exchange_ok x) ''exchange_unavailable''
       (block_if (\<not> rx_market_verified x) ''market_data_unverified'' ([], []))"

definition portfolio_gates :: "string \<Rightarrow> (string \<times> pyval) list \<Rightarrow> risk_context \<Rightarrow> risk_notes \<Rightarrow> risk_notes res" where
  "portfolio_gates profile d x n =
     rbind (rs_finite (number_or d ''max_abs_change_percent'' (Fin 12))) (\<lambda>change_limit.
     rbind (rs_nonnegative (number_or d ''min_turnover_usdt'' (Fin 5000000))) (\<lambda>min_turnover.
     rbind (rs_finite (number_or d ''max_drawdown_percent'' (Fin 8))) (\<lambda>drawdown_limit.
     rbind (rs_nonnegative (number_or d ''max_consensus_deviation_percent'' (Fin (3 / 4)))) (\<lambda>max_deviation.
       let tenth = rnd64 (1 / 10);
           n1 = block_if (flt (py_max tenth change_limit) (fabs (rx_change x))) ''extreme_24h_volatility'' n;
           n2 = (if profile = ''council'' \<and> rx_turnover x = None
                 then block_if True ''missing_verified_liquidity'' n1
                 else block_if (case rx_turnover x of None \<Rightarrow> False | Some t \<Rightarrow> flt t min_turnover)
                        ''insufficient_verified_liquidity'' n1);
           last_gate = block_if (flt max_deviation (rx_deviation x)) ''websocket_consensus_price_divergence''
       in if flt (py_max tenth drawdown_limit) (rx_drawdown x)
          then rbind (book_is_flat d) (\<lambda>flat.
            Inr (last_gate (if flat then warn_if True FlatDrawdownRecovery n2
                            else block_if True ''paper_portfolio_drawdown_limit'' n2)))
          else Inr (last_gate n2)))))"

definition trade_gates :: "risk_context \<Rightarrow> risk_notes \<Rightarrow> risk_notes" where
  "trade_gates x n =
     warn_if (\<not> rx_strategy_approved x) StrategyNotApproved
       (block_if (flt (Fin 1) (rx_risk_per_trade x)) ''risk_per_trade_limit''
       (block_if (flt (rx_news_credibility x) (Fin 65)) ''low_news_credibility''
       (block_if (flt (rx_ai_consensus x) (Fin 70)) ''low_ai_consensus''
       (block_if (mr_recommended_action (market_regime_of x) \<in> set [''BLOCK'', ''WAIT'']) ''market_regime_gate''
       (block_if (rx_live_requested x) ''live_execution_requested'' n)))))"

definition profile_gates :: "string \<Rightarrow> (string \<times> pyval) list \<Rightarrow> risk_context \<Rightarrow> risk_notes res" where
  "profile_gates profile d x =
     (let n = source_gates x
      in if profile \<in> set [''council'', ''health_probe''] then portfolio_gates profile d x n
         else Inr (if profile = ''trade_gate'' then trade_gates x n else n))"

section \<open>Score and assessment\<close>

definition canonical_score :: "risk_context \<Rightarrow> string list \<Rightarrow> pyfloat" where
  "canonical_score x blocks =
     (if blocks \<noteq> [] then Fin 100
      else let score = fadd (fadd (fadd (Fin 15) (py_min (fmul (fabs (rx_change x)) (Fin 3)) (Fin 35)))
                        (py_min (fmul (rx_drawdown x) (Fin 4)) (Fin 35)))
                        (py_min (fmul (rx_deviation x) (Fin 20)) (Fin 15))
           in round_to 6 (py_min (py_max score (Fin 0)) (Fin 100)))"

definition canonical_level :: "pyfloat \<Rightarrow> string" where
  "canonical_level s =
     (if flt s (Fin 30) then ''LOW'' else if flt s (Fin 60) then ''MEDIUM''
      else if flt s (Fin 80) then ''HIGH'' else ''CRITICAL'')"

record canonical_assessment =
  cz_profile :: string
  cz_status :: string
  cz_decision :: string
  cz_allowed_virtual :: bool
  cz_allowed_live :: bool
  cz_risk_score :: pyfloat
  cz_risk_level :: string
  cz_hard_blocks :: "string list"
  cz_warnings :: "risk_warning list"
  cz_market_regime :: regime_assessment
  cz_inputs :: risk_context
  cz_open_positions :: "int option"

definition canonical_evaluate :: "string \<Rightarrow> (string \<times> pyval) list \<Rightarrow> canonical_assessment res" where
  "canonical_evaluate profile d =
     (let clean = lower (strip profile)
      in if clean \<notin> set risk_profiles
         then Inl (ValueError (''unsupported canonical risk profile: '' @ profile))
         else rbind (risk_context_of clean d) (\<lambda>x.
              rbind (profile_gates clean d x) (\<lambda>(blocks, warnings).
              rbind (open_position_count d) (\<lambda>count.
                let score = canonical_score x blocks;
                    decision = (if blocks \<noteq> [] then ''BLOCK'' else if warnings \<noteq> [] then ''VIRTUAL_ONLY''
                                else ''VIRTUAL_ALLOWED'')
                in Inr \<lparr>cz_profile = clean, cz_status = (if blocks \<noteq> [] then ''blocked'' else ''ok''),
                        cz_decision = decision,
                        cz_allowed_virtual = (decision \<in> set [''VIRTUAL_ONLY'', ''VIRTUAL_ALLOWED'']),
                        cz_allowed_live = False, cz_risk_score = score, cz_risk_level = canonical_level score,
                        cz_hard_blocks = first_occurrences blocks, cz_warnings = first_occurrences warnings,
                        cz_market_regime = market_regime_of x, cz_inputs = x, cz_open_positions = count\<rparr>))))"


section \<open>What the gates need\<close>

text \<open>A finite number that the payload itself states under a key.\<close>

definition stated :: "(string \<times> pyval) list \<Rightarrow> string \<Rightarrow> rat \<Rightarrow> bool" where
  "stated d k x \<longleftrightarrow> (\<exists>v. map_of d k = Some v \<and> \<not> missing_number v \<and> py_float v = Inr (Fin x))"

lemma rs_optional_Some: "rs_optional v = Inr (Some x) \<longleftrightarrow> \<not> missing_number v \<and> py_float v = Inr x \<and> isfinite x"
  by (auto simp: rs_optional_def split: if_splits sum.splits py_error.splits)

lemma rs_finite_cases:
  assumes "rs_finite v = Inr y"
  obtains "y = Fin 0" | x where "y = Fin x" "\<not> missing_number v" "py_float v = Inr (Fin x)"
  using assms by (auto simp: rs_finite_def res_simps rs_optional_Some isfinite_iff split: option.splits)

lemma rs_bounded_Fin: "rs_bounded v = Inr y \<Longrightarrow> \<exists>x. y = Fin x \<and> 0 \<le> x \<and> x \<le> 100"
  by (auto simp: rs_bounded_def res_simps py_min_def py_max_def elim!: rs_finite_cases)

lemma rs_bounded_stated:
  assumes "rs_bounded (number_or d k (Fin 0)) = Inr y" "\<not> flt y (Fin c)" "0 < c"
  shows "\<exists>x. stated d k x \<and> c \<le> x"
proof (cases "map_of d k")
  case None
  with assms show ?thesis
    by (auto simp: rs_bounded_def number_or_def py_get_def rs_finite_def rs_optional_def missing_number_def
        res_simps py_min_def py_max_def)
next
  case (Some v)
  from assms(1) Some obtain z where z: "rs_finite v = Inr z" "y = py_min (py_max z (Fin 0)) (Fin 100)"
    by (auto simp: rs_bounded_def number_or_def py_get_def res_simps)
  from z(1) show ?thesis
  proof (cases rule: rs_finite_cases)
    case 1
    with z(2) assms show ?thesis by (simp add: py_min_def py_max_def)
  next
    case (2 x)
    with z(2) assms Some show ?thesis
      by (auto simp: stated_def py_min_def py_max_def split: if_splits)
  qed
qed

lemma rs_optional_get_stated:
  assumes "rs_optional (py_get d k (py_get d l PyNone)) = Inr (Some t)"
  shows "\<exists>x. t = Fin x \<and> (stated d k x \<or> stated d l x)"
  using assms
  by (auto simp: rs_optional_Some py_get_def stated_def isfinite_iff missing_number_def split: option.splits)

lemma block_if_Nil: "fst (block_if b code n) = [] \<longleftrightarrow> \<not> b \<and> fst n = []"
  by (simp add: block_if_def)

lemma warn_if_fst [simp]: "fst (warn_if b w n) = fst n"
  by (simp add: warn_if_def)

lemma source_gates_Nil: "fst (source_gates x) = [] \<longleftrightarrow> rx_market_verified x \<and> rx_exchange_ok x"
  by (auto simp: source_gates_def block_if_Nil)

lemma trade_gates_Nil:
  "fst (trade_gates x n) = [] \<longleftrightarrow> fst n = [] \<and> \<not> rx_live_requested x \<and>
     mr_recommended_action (market_regime_of x) \<notin> set [''BLOCK'', ''WAIT''] \<and>
     \<not> flt (rx_ai_consensus x) (Fin 70) \<and> \<not> flt (rx_news_credibility x) (Fin 65) \<and>
     \<not> flt (Fin 1) (rx_risk_per_trade x)"
  by (auto simp: trade_gates_def block_if_Nil)

lemma regime_open:
  "mr_recommended_action (market_regime_of x) \<notin> set [''BLOCK'', ''WAIT''] \<longleftrightarrow>
     rx_market_verified x \<and> \<not> fle (Fin 70) (rx_news_shock x) \<and> \<not> fle (Fin 8) (rx_volatility x) \<and>
     \<not> fle (Fin (1 / 4)) (rx_spread x) \<and> \<not> flt (rx_liquidity x) (Fin 35) \<and>
     (fle (rnd64 (65 / 100)) (fabs (rx_trend x)) \<and> flt (rx_volatility x) (Fin 6) \<or>
      \<not> (fle (rx_volatility x) (Fin 2) \<and> flt (fabs (rx_trend x)) (rnd64 (35 / 100))))"
  by (cases "rx_market_verified x") (auto simp: market_regime_of_def Let_def)

lemma portfolio_gates_Nil:
  assumes "portfolio_gates ''council'' d x n = Inr m" "fst m = []"
  shows "fst n = [] \<and>
    (\<exists>c. rs_finite (number_or d ''max_abs_change_percent'' (Fin 12)) = Inr c \<and>
       \<not> flt (py_max (rnd64 (1 / 10)) c) (fabs (rx_change x))) \<and>
    (\<exists>t u. rx_turnover x = Some t \<and> rs_nonnegative (number_or d ''min_turnover_usdt'' (Fin 5000000)) = Inr u \<and>
       \<not> flt t u) \<and>
    (book_is_flat d = Inr True \<or> (\<exists>l. rs_finite (number_or d ''max_drawdown_percent'' (Fin 8)) = Inr l \<and>
       \<not> flt (py_max (rnd64 (1 / 10)) l) (rx_drawdown x))) \<and>
    (\<exists>v. rs_nonnegative (number_or d ''max_consensus_deviation_percent'' (Fin (3 / 4))) = Inr v \<and>
       \<not> flt v (rx_deviation x))"
proof -
  obtain c u l v where e: "rs_finite (number_or d ''max_abs_change_percent'' (Fin 12)) = Inr c"
    "rs_nonnegative (number_or d ''min_turnover_usdt'' (Fin 5000000)) = Inr u"
    "rs_finite (number_or d ''max_drawdown_percent'' (Fin 8)) = Inr l"
    "rs_nonnegative (number_or d ''max_consensus_deviation_percent'' (Fin (3 / 4))) = Inr v"
    using assms(1) unfolding portfolio_gates_def res_simps by blast
  define n1 where "n1 = block_if (flt (py_max (rnd64 (1 / 10)) c) (fabs (rx_change x))) ''extreme_24h_volatility'' n"
  define n2 where "n2 = (if rx_turnover x = None then block_if True ''missing_verified_liquidity'' n1
     else block_if (case rx_turnover x of None \<Rightarrow> False | Some t \<Rightarrow> flt t u) ''insufficient_verified_liquidity'' n1)"
  have m: "(if flt (py_max (rnd64 (1 / 10)) l) (rx_drawdown x)
      then rbind (book_is_flat d) (\<lambda>flat. Inr (block_if (flt v (rx_deviation x)) ''websocket_consensus_price_divergence''
         (if flat then warn_if True FlatDrawdownRecovery n2 else block_if True ''paper_portfolio_drawdown_limit'' n2)))
      else Inr (block_if (flt v (rx_deviation x)) ''websocket_consensus_price_divergence'' n2)) = Inr m"
    unfolding n2_def n1_def using assms(1) by (simp add: portfolio_gates_def e Let_def split del: if_split)
  then have "fst n2 = [] \<and> \<not> flt v (rx_deviation x) \<and>
      (book_is_flat d = Inr True \<or> \<not> flt (py_max (rnd64 (1 / 10)) l) (rx_drawdown x))"
    using assms(2) by (auto simp: res_simps block_if_Nil split: if_splits)
  with e show ?thesis by (auto simp: n1_def n2_def block_if_Nil split: if_splits option.splits)
qed

lemma canonical_evaluate_allowed:
  assumes "canonical_evaluate profile d = Inr a" "cz_allowed_virtual a"
  obtains n where "risk_context_of (cz_profile a) d = Inr (cz_inputs a)"
    "profile_gates (cz_profile a) d (cz_inputs a) = Inr n" "fst n = []" "cz_hard_blocks a = []"
    "cz_profile a \<in> set risk_profiles" "cz_decision a \<noteq> ''BLOCK''" "\<not> cz_allowed_live a"
  using assms
  by (fastforce simp: canonical_evaluate_def Let_def res_simps first_occurrences_def split: if_splits prod.splits)


lemma bounded_default:
  assumes "rs_bounded (number_or d k (Fin 0)) = Inr y"
  shows "\<exists>r. y = Fin r" and "flt y (Fin c) \<or> \<not> 0 < c \<or> (\<exists>x. stated d k x \<and> c \<le> x)"
  using rs_bounded_Fin [OF assms] rs_bounded_stated [OF assms] by blast+

lemma risk_context_facts:
  assumes "risk_context_of profile d = Inr x"
  shows "rx_market_verified x = flag d ''market_data_verified''" "rx_exchange_ok x = flag d ''exchange_ok''"
    "rx_live_requested x = flag d ''live_requested''"
    "rs_optional (py_get d ''turnover_usdt'' (py_get d ''volume_24h'' PyNone)) = Inr (rx_turnover x)"
    "rs_nonnegative (py_get d ''portfolio_drawdown_percent'' (number_or d ''drawdown_percent'' (Fin 0))) = Inr (rx_drawdown x)"
    "profile = ''trade_gate'' \<Longrightarrow> rs_bounded (number_or d ''liquidity_score'' (Fin 0)) = Inr (rx_liquidity x)"
    "profile = ''trade_gate'' \<Longrightarrow> rs_bounded (number_or d ''news_credibility_percent'' (Fin 0)) = Inr (rx_news_credibility x)"
    "profile = ''trade_gate'' \<Longrightarrow> rs_bounded (number_or d ''ai_consensus_score'' (Fin 0)) = Inr (rx_ai_consensus x)"
  using assms unfolding risk_context_of_def Let_def res_simps by (elim exE conjE, force)+

lemma portfolio_gates_fst:
  assumes "portfolio_gates profile d x n = Inr m" "fst m = []"
  shows "fst n = []"
  using assms
  by (auto simp: portfolio_gates_def Let_def res_simps block_if_Nil split: if_splits)

text \<open>The drawdown a payload states: the portfolio drawdown, or the plain one when that key is absent.\<close>

definition stated_drawdown :: "(string \<times> pyval) list \<Rightarrow> rat \<Rightarrow> bool" where
  "stated_drawdown d x \<longleftrightarrow> stated d ''portfolio_drawdown_percent'' x \<or>
     map_of d ''portfolio_drawdown_percent'' = None \<and> stated d ''drawdown_percent'' x"

lemma rs_finite_Fin: "rs_finite v = Inr y \<Longrightarrow> \<exists>x. y = Fin x"
  by (erule rs_finite_cases) auto

lemma rs_nonnegative_bounds:
  assumes "rs_nonnegative v = Inr y" "\<not> missing_number v" "py_float v = Inr (Fin x)"
  shows "\<exists>z. y = Fin z \<and> x \<le> z"
  using assms
  by (auto simp: rs_nonnegative_def rs_finite_def rs_optional_def res_simps py_max_def)

lemma stated_drawdown_read:
  assumes "rs_nonnegative (py_get d ''portfolio_drawdown_percent'' (number_or d ''drawdown_percent'' (Fin 0))) = Inr y"
    and "stated_drawdown d x" "\<not> flt l y"
  shows "\<not> flt l (Fin x)"
proof -
  let ?v = "py_get d ''portfolio_drawdown_percent'' (number_or d ''drawdown_percent'' (Fin 0))"
  have "\<not> missing_number ?v \<and> py_float ?v = Inr (Fin x)"
    using assms(2) by (auto simp: stated_drawdown_def stated_def py_get_def number_or_def)
  with rs_nonnegative_bounds [OF assms(1)] obtain z where "y = Fin z" "x \<le> z" by blast
  with assms(3) show ?thesis by (cases l) auto
qed

text \<open>A payload without a drawdown is taken to have none.\<close>

lemma missing_drawdown_counts_as_zero:
  assumes "map_of d ''portfolio_drawdown_percent'' = None" "map_of d ''drawdown_percent'' = None"
    and "risk_context_of profile d = Inr x"
  shows "rx_drawdown x = Fin 0"
proof -
  have "rs_nonnegative (PyFloat (Fin 0)) = Inr (Fin 0)" by code_simp
  with risk_context_facts(5) [OF assms(3)] assms(1,2) show ?thesis by (simp add: py_get_def number_or_def)
qed

text \<open>
  C6. The risk policy fails closed: an assessment that allows anything has no hard block, never allows
  live execution, and rests on a payload that affirms the market data and the exchange. For the trade
  gate the payload itself states a consensus of at least 70, a news credibility of at least 65 and a
  liquidity of at least 35, asks for no live execution, and the regime neither blocks nor waits; for
  the council it states a turnover of at least the minimum and, unless it proves that the book is
  flat, no drawdown above its limit. A drawdown it does not state is no obstacle: it counts as zero
  (\<open>missing_drawdown_counts_as_zero\<close>).
\<close>

theorem risk_policy_fails_closed:
  assumes "canonical_evaluate profile d = Inr a" "cz_allowed_virtual a"
  shows "cz_hard_blocks a = [] \<and> \<not> cz_allowed_live a \<and> flag d ''market_data_verified'' \<and> flag d ''exchange_ok'' \<and>
    (cz_profile a = ''trade_gate'' \<longrightarrow>
       (\<exists>x \<ge> 70. stated d ''ai_consensus_score'' x) \<and> (\<exists>x \<ge> 65. stated d ''news_credibility_percent'' x) \<and>
       (\<exists>x \<ge> 35. stated d ''liquidity_score'' x) \<and> \<not> flag d ''live_requested'' \<and>
       mr_recommended_action (cz_market_regime a) \<in> set [''VIRTUAL_ONLY'', ''WATCH'']) \<and>
    (cz_profile a = ''council'' \<longrightarrow>
       (\<exists>x m. (stated d ''turnover_usdt'' x \<or> stated d ''volume_24h'' x) \<and>
          rs_nonnegative (number_or d ''min_turnover_usdt'' (Fin 5000000)) = Inr m \<and> \<not> flt (Fin x) m) \<and>
       (open_position_count d = Inr (Some 0) \<or>
        (\<exists>l. rs_finite (number_or d ''max_drawdown_percent'' (Fin 8)) = Inr l \<and>
             \<not> flt (py_max (rnd64 (1 / 10)) l) (rx_drawdown (cz_inputs a)) \<and>
             (\<forall>x. stated_drawdown d x \<longrightarrow> \<not> flt (py_max (rnd64 (1 / 10)) l) (Fin x)))))"
proof -
  let ?x = "cz_inputs a"
  from assms obtain n where c: "risk_context_of (cz_profile a) d = Inr ?x"
    "profile_gates (cz_profile a) d ?x = Inr n" "fst n = []" "cz_hard_blocks a = []" "\<not> cz_allowed_live a"
    by (rule canonical_evaluate_allowed)
  have regime: "cz_market_regime a = market_regime_of ?x"
    using assms(1) by (auto simp: canonical_evaluate_def Let_def res_simps split: if_splits prod.splits)
  note f = risk_context_facts [OF c(1)]
  have open_gates: "fst (source_gates ?x) = []"
    "cz_profile a = ''trade_gate'' \<Longrightarrow> fst (trade_gates ?x (source_gates ?x)) = []"
    "cz_profile a = ''council'' \<Longrightarrow> \<exists>m. portfolio_gates ''council'' d ?x (source_gates ?x) = Inr m \<and> fst m = []"
    using c(2,3) portfolio_gates_fst [of "cz_profile a" d ?x "source_gates ?x" n]
    by (auto simp: profile_gates_def Let_def trade_gates_Nil split: if_splits)
  have sources: "flag d ''market_data_verified''" "flag d ''exchange_ok''"
    using open_gates(1) f(1,2) by (simp_all add: source_gates_Nil)
  have gate: "(\<exists>x \<ge> 70. stated d ''ai_consensus_score'' x) \<and> (\<exists>x \<ge> 65. stated d ''news_credibility_percent'' x) \<and>
       (\<exists>x \<ge> 35. stated d ''liquidity_score'' x) \<and> \<not> flag d ''live_requested'' \<and>
       mr_recommended_action (cz_market_regime a) \<in> set [''VIRTUAL_ONLY'', ''WATCH'']"
    if t: "cz_profile a = ''trade_gate''"
  proof -
    note g = open_gates(2) [OF t, unfolded trade_gates_Nil regime_open]
    have "mr_recommended_action (market_regime_of ?x) \<in> set [''BLOCK'', ''WAIT'', ''VIRTUAL_ONLY'', ''WATCH'']"
      by (simp add: market_regime_of_def Let_def)
    then have "mr_recommended_action (cz_market_regime a) \<in> set [''VIRTUAL_ONLY'', ''WATCH'']"
      using open_gates(2) [OF t] regime by (simp add: trade_gates_Nil)
    moreover have "\<exists>x \<ge> 70. stated d ''ai_consensus_score'' x" "\<exists>x \<ge> 65. stated d ''news_credibility_percent'' x"
      "\<exists>x \<ge> 35. stated d ''liquidity_score'' x"
      using rs_bounded_stated [OF f(8) [OF t], of 70] rs_bounded_stated [OF f(7) [OF t], of 65]
        rs_bounded_stated [OF f(6) [OF t], of 35] g by auto
    ultimately show ?thesis using g f(3) by simp
  qed
  have council: "(\<exists>x m. (stated d ''turnover_usdt'' x \<or> stated d ''volume_24h'' x) \<and>
          rs_nonnegative (number_or d ''min_turnover_usdt'' (Fin 5000000)) = Inr m \<and> \<not> flt (Fin x) m) \<and>
       (open_position_count d = Inr (Some 0) \<or>
        (\<exists>l. rs_finite (number_or d ''max_drawdown_percent'' (Fin 8)) = Inr l \<and>
             \<not> flt (py_max (rnd64 (1 / 10)) l) (rx_drawdown ?x) \<and>
             (\<forall>x. stated_drawdown d x \<longrightarrow> \<not> flt (py_max (rnd64 (1 / 10)) l) (Fin x))))"
    if p: "cz_profile a = ''council''"
  proof -
    obtain m where "portfolio_gates ''council'' d ?x (source_gates ?x) = Inr m" "fst m = []"
      using open_gates(3) [OF p] by blast
    note g = portfolio_gates_Nil [OF this]
    obtain t where t: "rx_turnover ?x = Some t" using g by blast
    with rs_optional_get_stated f(4) obtain x where "t = Fin x" "stated d ''turnover_usdt'' x \<or> stated d ''volume_24h'' x"
      by metis
    moreover have "book_is_flat d = Inr True \<Longrightarrow> open_position_count d = Inr (Some 0)"
      by (auto simp: book_is_flat_def res_simps)
    moreover note read = stated_drawdown_read [OF f(5)]
    ultimately show ?thesis using g t by (auto dest: read)
  qed
  show ?thesis using c(4,5) sources gate council by blast
qed

definition sample_evidence :: "(string \<times> pyval) list" where
  "sample_evidence =
     [(''market_data_verified'', PyBool True), (''exchange_ok'', PyBool True), (''trend_score'', PyFloat (Fin (3 / 4))),
      (''volatility_percent'', PyInt 3), (''liquidity_score'', PyStr ''50''), (''ai_consensus_score'', PyInt 80),
      (''news_credibility_percent'', PyInt 90), (''strategy_approved'', PyBool True)]"

theorem risk_policy_fails_closed_witness:
  "(\<exists>x \<ge> 35. stated sample_evidence ''liquidity_score'' x) \<and>
   cz_decision (case canonical_evaluate '' Trade_Gate '' sample_evidence of Inr a \<Rightarrow> a) = ''VIRTUAL_ALLOWED''"
proof -
  have "case canonical_evaluate '' Trade_Gate '' sample_evidence of Inl e \<Rightarrow> False
     | Inr a \<Rightarrow> cz_allowed_virtual a \<and> cz_profile a = ''trade_gate'' \<and> cz_decision a = ''VIRTUAL_ALLOWED''"
    by code_simp
  then obtain a where a: "canonical_evaluate '' Trade_Gate '' sample_evidence = Inr a" "cz_allowed_virtual a"
    "cz_profile a = ''trade_gate''" "cz_decision a = ''VIRTUAL_ALLOWED''"
    by (auto split: sum.splits)
  then show ?thesis using risk_policy_fails_closed [OF a(1,2)] by simp
qed

end
