(* ===== verification/General_Controller.thy ===== *)
theory General_Controller
  imports Py_Value
begin

text \<open>
  \<open>autonomous_trading/general_controller_v2.py\<close>: the owner of the trading direction. Verified
  directional specialists are weighed (\<open>preliminary\<close>), the decision quality and the thresholds
  may turn the result into WAIT, and the gates may only withhold a direction (\<open>decide\<close>). The
  constructors' checks (\<open>__post_init__\<close>) are the \<open>..._post_init\<close> functions. Floats are binary64.
\<close>

datatype trading_intent = INTENT_BUY | INTENT_SELL | INTENT_WAIT

datatype gate_verdict = VERDICT_PASS | VERDICT_WAIT | VERDICT_BLOCK

fun intent_value :: "trading_intent \<Rightarrow> string" where
  "intent_value INTENT_BUY = ''BUY''"
| "intent_value INTENT_SELL = ''SELL''"
| "intent_value INTENT_WAIT = ''WAIT''"

fun verdict_value :: "gate_verdict \<Rightarrow> string" where
  "verdict_value VERDICT_PASS = ''PASS''"
| "verdict_value VERDICT_WAIT = ''WAIT''"
| "verdict_value VERDICT_BLOCK = ''BLOCK''"

definition non_directional_agents :: "string list" where
  "non_directional_agents = [''decision_quality'', ''portfolio_engine'', ''risk_engine'', ''security_guard'']"

definition required_gates :: "string list" where
  "required_gates = [''risk_engine'', ''portfolio_engine'', ''security_guard'']"

record specialist_recommendation =
  sr_agent_id :: string
  sr_intent :: trading_intent
  sr_confidence :: pyfloat
  sr_evidence_score :: pyfloat
  sr_risk_score :: pyfloat
  sr_verified :: bool
  sr_rationale :: string
  sr_evidence_ids :: "string list"

record decision_quality_signal =
  dq_blocked :: bool
  dq_quality_score :: pyfloat
  dq_agreement :: pyfloat
  dq_reason :: string

record gate_signal =
  gs_gate :: string
  gs_verdict :: gate_verdict
  gs_reasons :: "string list"
  gs_max_notional_usdt :: "pyfloat option"

record gc_decision =
  gd_preliminary_intent :: trading_intent
  gd_final_intent :: trading_intent
  gd_confidence :: pyfloat
  gd_blocked :: bool
  gd_reason :: string
  gd_buy_score :: pyfloat
  gd_sell_score :: pyfloat
  gd_contributing_agents :: "string list"
  gd_ignored_agents :: "string list"
  gd_gate_verdicts :: "(string \<times> string) list"
  gd_shadow :: bool
  gd_execution_authority :: bool

record gc_preliminary =
  gp_intent :: trading_intent
  gp_confidence :: pyfloat
  gp_reason :: string
  gp_buy_score :: pyfloat
  gp_sell_score :: pyfloat
  gp_contributing_agents :: "string list"
  gp_ignored_agents :: "string list"

record general_controller =
  gc_min_quality_score :: pyfloat
  gc_min_agreement :: pyfloat
  gc_min_directional_agents :: int
  gc_min_direction_score :: pyfloat
  gc_min_direction_margin :: pyfloat

section \<open>Construction\<close>

definition in_range :: "pyfloat \<Rightarrow> rat \<Rightarrow> rat \<Rightarrow> bool" where
  "in_range x lo hi = (fle (Fin lo) x \<and> fle x (Fin hi))"

definition percent :: "pyfloat \<Rightarrow> string \<Rightarrow> unit res" where
  "percent x field =
     (if \<not> isfinite x \<or> \<not> in_range x 0 100
      then Inl (ValueError (field @ '' must be finite and within 0..100'')) else Inr ())"

definition recommendation_post_init :: "specialist_recommendation \<Rightarrow> unit res" where
  "recommendation_post_init r =
     (if strip (sr_agent_id r) = [] then Inl (ValueError ''agent_id must not be empty'') else
      rbind (percent (sr_confidence r) ''confidence'') (\<lambda>_.
      rbind (percent (sr_evidence_score r) ''evidence_score'') (\<lambda>_.
        percent (sr_risk_score r) ''risk_score'')))"

definition quality_post_init :: "decision_quality_signal \<Rightarrow> unit res" where
  "quality_post_init q =
     rbind (percent (dq_quality_score q) ''quality_score'') (\<lambda>_. percent (dq_agreement q) ''agreement'')"

definition gate_post_init :: "gate_signal \<Rightarrow> unit res" where
  "gate_post_init g =
     (if strip (gs_gate g) = [] then Inl (ValueError ''gate must not be empty'')
      else case gs_max_notional_usdt g of None \<Rightarrow> Inr ()
           | Some x \<Rightarrow> if \<not> isfinite x \<or> flt x (Fin 0)
                        then Inl (ValueError ''max_notional_usdt must be finite and non-negative'')
                        else Inr ())"

definition controller_init ::
  "pyfloat \<Rightarrow> pyfloat \<Rightarrow> int \<Rightarrow> pyfloat \<Rightarrow> pyfloat \<Rightarrow> general_controller res" where
  "controller_init min_quality_score min_agreement min_directional_agents min_direction_score
       min_direction_margin =
     rbind (percent min_quality_score ''min_quality_score'') (\<lambda>_.
     rbind (percent min_agreement ''min_agreement'') (\<lambda>_.
       if min_directional_agents < 1 then Inl (ValueError ''min_directional_agents must be positive'')
       else if \<not> in_range min_direction_score 0 1
       then Inl (ValueError ''min_direction_score must be within 0..1'')
       else if \<not> in_range min_direction_margin 0 1
       then Inl (ValueError ''min_direction_margin must be within 0..1'')
       else Inr \<lparr>gc_min_quality_score = min_quality_score, gc_min_agreement = min_agreement,
                 gc_min_directional_agents = min_directional_agents,
                 gc_min_direction_score = min_direction_score,
                 gc_min_direction_margin = min_direction_margin\<rparr>))"

section \<open>Preliminary direction\<close>

definition weight :: "specialist_recommendation \<Rightarrow> pyfloat res" where
  "weight r =
     rbind (fdiv (sr_confidence r) (Fin 100)) (\<lambda>confidence.
     rbind (fdiv (sr_evidence_score r) (Fin 100)) (\<lambda>evidence.
     rbind (fdiv (sr_risk_score r) (Fin 100)) (\<lambda>risk.
       let residual_risk = fsub (Fin 1) risk
       in Inr (fmul (fmul confidence evidence) (py_max residual_risk (Fin 0))))))"

text \<open>The loop over the recommendations: ignored agents and weighed directional items.\<close>

definition sort_recommendation ::
  "string list \<times> (specialist_recommendation \<times> pyfloat) list \<Rightarrow> specialist_recommendation \<Rightarrow>
   (string list \<times> (specialist_recommendation \<times> pyfloat) list) res" where
  "sort_recommendation st item =
     (case st of (ignored, directional) \<Rightarrow>
       let agent = strip (sr_agent_id item)
       in if agent \<in> set non_directional_agents \<or> sr_intent item = INTENT_WAIT \<or> \<not> sr_verified item
          then Inr (ignored @ [agent], directional)
          else rbind (weight item) (\<lambda>w.
                 if fle w (Fin 0) then Inr (ignored @ [agent], directional)
                 else Inr (ignored, directional @ [(item, w)])))"

definition side_score :: "trading_intent \<Rightarrow> (specialist_recommendation \<times> pyfloat) list \<Rightarrow> pyfloat" where
  "side_score i directional = py_sum (map snd (filter (\<lambda>(r, w). sr_intent r = i) directional))"

definition preliminary ::
  "general_controller \<Rightarrow> specialist_recommendation list \<Rightarrow> decision_quality_signal \<Rightarrow> gc_preliminary res" where
  "preliminary gc recommendations quality =
     rbind (rfold sort_recommendation ([], []) recommendations) (\<lambda>(ignored, directional).
       let contributing = sorted_set (map (\<lambda>(r, w). strip (sr_agent_id r)) directional);
           ignored_agents = sorted_set ignored;
           buy_score = side_score INTENT_BUY directional;
           sell_score = side_score INTENT_SELL directional;
           result = (\<lambda>intent confidence reason.
             \<lparr>gp_intent = intent, gp_confidence = confidence, gp_reason = reason,
              gp_buy_score = buy_score, gp_sell_score = sell_score,
              gp_contributing_agents = contributing, gp_ignored_agents = ignored_agents\<rparr>)
       in if dq_blocked quality
          then Inr (result INTENT_WAIT (Fin 0) (''Decision Quality blocked evidence: '' @
                 (if dq_reason quality \<noteq> [] then dq_reason quality else ''unspecified'')))
          else if flt (dq_quality_score quality) (gc_min_quality_score gc)
          then Inr (result INTENT_WAIT (dq_quality_score quality)
                 ''Decision Quality score below General Controller threshold'')
          else if flt (dq_agreement quality) (gc_min_agreement gc)
          then Inr (result INTENT_WAIT (dq_agreement quality)
                 ''Decision Quality agreement below General Controller threshold'')
          else if int (length directional) < gc_min_directional_agents gc
          then Inr (result INTENT_WAIT (Fin 0) ''insufficient verified directional specialists'')
          else let total = fadd buy_score sell_score
               in if fle total (Fin 0)
                  then Inr (result INTENT_WAIT (Fin 0) ''verified evidence has no directional strength'')
                  else let winner = py_max buy_score sell_score;
                           loser = py_min buy_score sell_score
                       in rbind (float_of_int (int (length directional))) (\<lambda>count.
                          rbind (fdiv winner count) (\<lambda>normalized_winner.
                          rbind (fdiv (fsub winner loser) total) (\<lambda>normalized_margin.
                          rbind (fdiv (fmul (Fin 100) winner) total) (\<lambda>share.
                            let confidence = py_min (Fin 100) (py_max (Fin 0) share)
                            in if flt normalized_winner (gc_min_direction_score gc) \<or>
                                  flt normalized_margin (gc_min_direction_margin gc)
                               then Inr (result INTENT_WAIT confidence
                                      ''directional evidence is too weak or contradictory'')
                               else let intent = (if flt sell_score buy_score then INTENT_BUY else INTENT_SELL)
                                    in Inr (result intent confidence
                                         (''General Controller preliminary '' @ intent_value intent @
                                          '' from verified specialist evidence'')))))))"

section \<open>Gates and the final intent\<close>

definition add_gate :: "gate_signal dict \<Rightarrow> gate_signal \<Rightarrow> gate_signal dict res" where
  "add_gate acc g =
     (let name = strip (gs_gate g)
      in if map_of acc name \<noteq> None then Inl (ValueError (''duplicate gate: '' @ name))
         else Inr (AList.update name g acc))"

definition gate_map :: "gate_signal list \<Rightarrow> gate_signal dict res" where
  "gate_map gates = rfold add_gate [] gates"

definition gate_details :: "gate_signal list \<Rightarrow> string" where
  "gate_details gates =
     join '', '' (map (\<lambda>g.
       let reason = join ''; '' (filter (\<lambda>s. s \<noteq> []) (map strip (gs_reasons g)))
       in gs_gate g @ ''='' @ (if reason \<noteq> [] then reason else verdict_value (gs_verdict g))) gates)"

definition finish :: "gc_preliminary \<Rightarrow> trading_intent \<Rightarrow> bool \<Rightarrow> string \<Rightarrow> (string \<times> string) list \<Rightarrow> gc_decision" where
  "finish p final_intent blocked reason gate_verdicts =
     \<lparr>gd_preliminary_intent = gp_intent p, gd_final_intent = final_intent,
      gd_confidence = gp_confidence p, gd_blocked = blocked, gd_reason = reason,
      gd_buy_score = gp_buy_score p, gd_sell_score = gp_sell_score p,
      gd_contributing_agents = gp_contributing_agents p, gd_ignored_agents = gp_ignored_agents p,
      gd_gate_verdicts = gate_verdicts, gd_shadow = True, gd_execution_authority = False\<rparr>"

definition portfolio_closed :: "gate_signal dict \<Rightarrow> bool" where
  "portfolio_closed gm =
     (case map_of gm ''portfolio_engine'' of None \<Rightarrow> False
      | Some g \<Rightarrow> (case gs_max_notional_usdt g of None \<Rightarrow> False | Some x \<Rightarrow> fle x (Fin 0)))"

definition decide ::
  "general_controller \<Rightarrow> specialist_recommendation list \<Rightarrow> decision_quality_signal \<Rightarrow> gate_signal list \<Rightarrow>
   gc_decision res" where
  "decide gc recommendations quality gates =
     rbind (preliminary gc recommendations quality) (\<lambda>p.
     rbind (gate_map gates) (\<lambda>gm.
       let trace = sort_key fst (map (\<lambda>(name, g). (name, verdict_value (gs_verdict g))) gm);
           missing = filter (\<lambda>name. map_of gm name = None) required_gates;
           blocked = filter (\<lambda>g. gs_verdict g = VERDICT_BLOCK) (map snd gm);
           waiting = filter (\<lambda>g. gs_verdict g = VERDICT_WAIT) (map snd gm)
       in if missing \<noteq> []
          then Inr (finish p INTENT_WAIT True (''missing mandatory gate(s): '' @ join '', '' missing) trace)
          else if blocked \<noteq> []
          then Inr (finish p INTENT_WAIT True (''mandatory gate BLOCK: '' @ gate_details blocked) trace)
          else if waiting \<noteq> []
          then Inr (finish p INTENT_WAIT False (''mandatory gate WAIT: '' @ gate_details waiting) trace)
          else if portfolio_closed gm
          then Inr (finish p INTENT_WAIT False ''portfolio_engine permits no position notional'' trace)
          else if gp_intent p = INTENT_WAIT
          then Inr (finish p INTENT_WAIT False (gp_reason p) trace)
          else Inr (finish p (gp_intent p) False
                 (''General Controller finalized '' @ intent_value (gp_intent p) @
                  ''; all mandatory gates PASS'') trace)))"

definition gc_decision_to_dict :: "gc_decision \<Rightarrow> (string \<times> pyval) list" where
  "gc_decision_to_dict d =
     [(''preliminary_intent'', PyStr (intent_value (gd_preliminary_intent d))),
      (''final_intent'', PyStr (intent_value (gd_final_intent d))),
      (''confidence'', PyFloat (gd_confidence d)), (''blocked'', PyBool (gd_blocked d)),
      (''reason'', PyStr (gd_reason d)), (''buy_score'', PyFloat (gd_buy_score d)),
      (''sell_score'', PyFloat (gd_sell_score d)),
      (''contributing_agents'', PyList (map PyStr (gd_contributing_agents d))),
      (''ignored_agents'', PyList (map PyStr (gd_ignored_agents d))),
      (''gate_verdicts'', PyDict (map (\<lambda>(k, v). (k, PyStr v)) (gd_gate_verdicts d))),
      (''shadow'', PyBool (gd_shadow d)), (''execution_authority'', PyBool (gd_execution_authority d))]"

section \<open>What a direction needs\<close>

text \<open>A recommendation that counts: a verified directional specialist of positive weight.\<close>

definition directional_vote :: "specialist_recommendation \<Rightarrow> bool" where
  "directional_vote r \<longleftrightarrow> strip (sr_agent_id r) \<notin> set non_directional_agents \<and> sr_intent r \<noteq> INTENT_WAIT \<and>
     sr_verified r \<and> (\<exists>w. weight r = Inr w \<and> \<not> fle w (Fin 0))"

lemma sort_recommendation_votes:
  "rfold sort_recommendation (ig, ds) rs = Inr (ig', ds') \<Longrightarrow>
   map fst ds' = map fst ds @ filter directional_vote rs"
  by (induction rs arbitrary: ig ds)
    (auto simp: sort_recommendation_def directional_vote_def Let_def res_simps split: if_splits)

text \<open>The weight of a vote, and the weights of the votes for a side.\<close>

definition vote_weight :: "specialist_recommendation \<Rightarrow> pyfloat" where
  "vote_weight r = (case weight r of Inr w \<Rightarrow> w | Inl e \<Rightarrow> Fin 0)"

definition side_votes :: "trading_intent \<Rightarrow> specialist_recommendation list \<Rightarrow> pyfloat list" where
  "side_votes i rs = map vote_weight (filter (\<lambda>r. directional_vote r \<and> sr_intent r = i) rs)"

lemma sort_recommendation_weights:
  "rfold sort_recommendation (ig, ds) rs = Inr (ig', ds') \<Longrightarrow>
   ds' = ds @ map (\<lambda>r. (r, vote_weight r)) (filter directional_vote rs)"
proof (induction rs arbitrary: ig ds)
  case (Cons r rs)
  then obtain acc where acc: "sort_recommendation (ig, ds) r = Inr acc" "rfold sort_recommendation acc rs = Inr (ig', ds')"
    by (auto simp: res_simps)
  obtain ig1 ds1 where acc1: "acc = (ig1, ds1)" by (cases acc)
  have "ds1 = ds @ map (\<lambda>r. (r, vote_weight r)) (filter directional_vote [r])"
    using acc(1) acc1
    by (auto simp: sort_recommendation_def directional_vote_def vote_weight_def Let_def res_simps split: if_splits)
  moreover have "ds' = ds1 @ map (\<lambda>r. (r, vote_weight r)) (filter directional_vote rs)"
    using Cons.IH acc(2) acc1 by blast
  ultimately show ?case by simp
qed simp

lemma side_score_votes:
  "side_score i (map (\<lambda>r. (r, vote_weight r)) (filter directional_vote rs)) = py_sum (side_votes i rs)"
proof -
  have "map snd (filter (\<lambda>(r, w). sr_intent r = i) (map (\<lambda>r. (r, vote_weight r)) (filter directional_vote rs))) =
      side_votes i rs"
    by (induction rs) (simp_all add: side_votes_def)
  then show ?thesis by (simp add: side_score_def)
qed

lemma add_gate_Inr:
  "add_gate acc g = Inr acc' \<longleftrightarrow> map_of acc (strip (gs_gate g)) = None \<and> acc' = acc @ [(strip (gs_gate g), g)]"
  by (auto simp: add_gate_def Let_def update_fresh)

lemma add_gates_Inr:
  assumes "rfold add_gate acc gs = Inr gm" "distinct (map fst acc)"
  shows "gm = acc @ map (\<lambda>g. (strip (gs_gate g), g)) gs \<and> distinct (map fst gm)"
  using assms
proof (induction gs arbitrary: acc)
  case (Cons g gs)
  let ?acc = "acc @ [(strip (gs_gate g), g)]"
  from Cons.prems(1) have fresh: "map_of acc (strip (gs_gate g)) = None" and rest: "rfold add_gate ?acc gs = Inr gm"
    by (auto simp: add_gate_Inr rbind_Inr_iff)
  from fresh Cons.prems(2) have "distinct (map fst ?acc)" by (simp add: map_of_eq_None_iff)
  from Cons.IH [OF rest this] show ?case by (simp only: append_assoc append_Cons append_Nil list.map) blast
qed simp

lemma gate_map_Inr:
  assumes "gate_map gs = Inr gm"
  shows "gm = map (\<lambda>g. (strip (gs_gate g), g)) gs" "distinct (map fst gm)"
  using add_gates_Inr [OF assms [unfolded gate_map_def]] by (metis append_Nil distinct.simps(1) list.map(1))+

lemma preliminary_direction:
  assumes "preliminary gc rs q = Inr p" "gp_intent p \<noteq> INTENT_WAIT"
  shows "\<not> dq_blocked q" "\<not> flt (dq_quality_score q) (gc_min_quality_score gc)"
    "\<not> flt (dq_agreement q) (gc_min_agreement gc)"
    "gc_min_directional_agents gc \<le> int (length (filter directional_vote rs))"
    "gp_intent p = INTENT_BUY \<longleftrightarrow> flt (gp_sell_score p) (gp_buy_score p)"
proof -
  obtain ig ds where fold: "rfold sort_recommendation ([], []) rs = Inr (ig, ds)"
    using assms(1) by (auto simp: preliminary_def rbind_Inr_iff)
  from arg_cong [OF sort_recommendation_votes [OF fold], of length]
  have len: "length ds = length (filter directional_vote rs)" by simp
  show "\<not> dq_blocked q" "\<not> flt (dq_quality_score q) (gc_min_quality_score gc)"
    "\<not> flt (dq_agreement q) (gc_min_agreement gc)"
    "gc_min_directional_agents gc \<le> int (length (filter directional_vote rs))"
    "gp_intent p = INTENT_BUY \<longleftrightarrow> flt (gp_sell_score p) (gp_buy_score p)"
    using assms fold
    by (auto simp: preliminary_def rbind_Inr_iff Let_def len split: if_splits)
qed

text \<open>What the winning side shows: its mean weight and its margin reach the thresholds.\<close>

definition strong_enough :: "general_controller \<Rightarrow> nat \<Rightarrow> pyfloat \<Rightarrow> pyfloat \<Rightarrow> bool" where
  "strong_enough gc n buy sell =
     (\<exists>count strength margin. float_of_int (int n) = Inr count \<and>
        fdiv (py_max buy sell) count = Inr strength \<and> \<not> flt strength (gc_min_direction_score gc) \<and>
        fdiv (fsub (py_max buy sell) (py_min buy sell)) (fadd buy sell) = Inr margin \<and>
        \<not> flt margin (gc_min_direction_margin gc))"

lemma preliminary_scores:
  assumes "preliminary gc rs q = Inr p"
  shows "gp_buy_score p = py_sum (side_votes INTENT_BUY rs)" "gp_sell_score p = py_sum (side_votes INTENT_SELL rs)"
proof -
  obtain ig ds where fold: "rfold sort_recommendation ([], []) rs = Inr (ig, ds)"
    using assms by (auto simp: preliminary_def rbind_Inr_iff)
  have ds: "ds = map (\<lambda>r. (r, vote_weight r)) (filter directional_vote rs)"
    using sort_recommendation_weights [OF fold] by simp
  show "gp_buy_score p = py_sum (side_votes INTENT_BUY rs)" "gp_sell_score p = py_sum (side_votes INTENT_SELL rs)"
    using assms fold unfolding ds
    by (auto simp: preliminary_def rbind_Inr_iff Let_def side_score_votes split: if_splits)
qed

lemma preliminary_strength:
  assumes "preliminary gc rs q = Inr p" "gp_intent p \<noteq> INTENT_WAIT"
  shows "strong_enough gc (length (filter directional_vote rs)) (gp_buy_score p) (gp_sell_score p)"
proof -
  obtain ig ds where fold: "rfold sort_recommendation ([], []) rs = Inr (ig, ds)"
    using assms(1) by (auto simp: preliminary_def rbind_Inr_iff)
  from arg_cong [OF sort_recommendation_weights [OF fold], of length]
  have len: "length ds = length (filter directional_vote rs)" by simp
  show ?thesis
    using assms fold
    by (auto simp: preliminary_def rbind_Inr_iff Let_def len strong_enough_def split: if_splits)
qed

lemma decide_direction:
  assumes "decide gc rs q gates = Inr d" "gd_final_intent d \<noteq> INTENT_WAIT"
  obtains p where "preliminary gc rs q = Inr p" "gd_final_intent d = gp_intent p"
    "\<And>g. g \<in> set gates \<Longrightarrow> gs_verdict g = VERDICT_PASS"
    "\<And>n. n \<in> set required_gates \<Longrightarrow> \<exists>g \<in> set gates. strip (gs_gate g) = n"
    "\<And>g x. g \<in> set gates \<Longrightarrow> strip (gs_gate g) = ''portfolio_engine'' \<Longrightarrow>
       gs_max_notional_usdt g = Some x \<Longrightarrow> \<not> fle x (Fin 0)"
proof -
  obtain p gm where p: "preliminary gc rs q = Inr p" and gm: "gate_map gates = Inr gm"
    using assms(1) by (auto simp: decide_def rbind_Inr_iff)
  note gm = gm gate_map_Inr [OF gm]
  have final: "filter (\<lambda>n. map_of gm n = None) required_gates = [] \<and>
      filter (\<lambda>g. gs_verdict g = VERDICT_BLOCK) (map snd gm) = [] \<and>
      filter (\<lambda>g. gs_verdict g = VERDICT_WAIT) (map snd gm) = [] \<and>
      \<not> portfolio_closed gm \<and> gd_final_intent d = gp_intent p"
    using assms p gm(1) by (auto simp: decide_def rbind_Inr_iff Let_def finish_def split: if_splits)
  have gates: "map snd gm = gates" by (simp add: gm(2) comp_def)
  have pass: "gs_verdict g = VERDICT_PASS" if "g \<in> set gates" for g
    using final that unfolding gates filter_empty_conv by (cases "gs_verdict g") auto
  have present: "\<exists>g \<in> set gates. strip (gs_gate g) = n" if "n \<in> set required_gates" for n
    using final that unfolding filter_empty_conv gm(2) by (force simp: map_of_eq_None_iff)
  have cap: "\<not> fle x (Fin 0)"
    if "g \<in> set gates" "strip (gs_gate g) = ''portfolio_engine''" "gs_max_notional_usdt g = Some x" for g x
  proof -
    from that have "(''portfolio_engine'', g) \<in> set gm" unfolding gm(2) by force
    with gm(3) have "map_of gm ''portfolio_engine'' = Some g" by simp
    with final that(3) show ?thesis by (simp add: portfolio_closed_def)
  qed
  from final have "gd_final_intent d = gp_intent p" by simp
  then show thesis using that p pass present cap by blast
qed

text \<open>
  C31. A direction needs evidence and consent: when the controller decides BUY or SELL, every gate it
  was given passed, the three mandatory gates are among them and the portfolio gate leaves room for a
  position; the evidence was not blocked and met the thresholds; at least the required number of
  verified specialists, none of them a gate, voted for a direction with positive weight; the score
  of a side is the sum of the weights of its votes, the larger score per vote and the margin between
  the scores reach their thresholds, and BUY wins exactly when its score is larger; and the decision
  is a shadow decision without execution authority.
\<close>

theorem direction_needs_evidence:
  assumes "decide gc rs q gates = Inr d" "gd_final_intent d \<noteq> INTENT_WAIT"
  shows "(\<forall>g \<in> set gates. gs_verdict g = VERDICT_PASS \<and>
       (strip (gs_gate g) = ''portfolio_engine'' \<longrightarrow>
          (\<forall>x. gs_max_notional_usdt g = Some x \<longrightarrow> \<not> fle x (Fin 0)))) \<and>
    (\<forall>n \<in> {''risk_engine'', ''portfolio_engine'', ''security_guard''}. \<exists>g \<in> set gates. strip (gs_gate g) = n) \<and>
    \<not> dq_blocked q \<and> \<not> flt (dq_quality_score q) (gc_min_quality_score gc) \<and>
    \<not> flt (dq_agreement q) (gc_min_agreement gc) \<and>
    gc_min_directional_agents gc \<le> int (length (filter directional_vote rs)) \<and>
    gd_buy_score d = py_sum (side_votes INTENT_BUY rs) \<and> gd_sell_score d = py_sum (side_votes INTENT_SELL rs) \<and>
    strong_enough gc (length (filter directional_vote rs)) (gd_buy_score d) (gd_sell_score d) \<and>
    (gd_final_intent d = INTENT_BUY \<longleftrightarrow> flt (gd_sell_score d) (gd_buy_score d)) \<and>
    \<not> gd_blocked d \<and> gd_shadow d \<and> \<not> gd_execution_authority d"
proof -
  from decide_direction [OF assms] obtain p where p: "preliminary gc rs q = Inr p"
    "gd_final_intent d = gp_intent p"
    "\<And>g. g \<in> set gates \<Longrightarrow> gs_verdict g = VERDICT_PASS"
    "\<And>n. n \<in> set required_gates \<Longrightarrow> \<exists>g \<in> set gates. strip (gs_gate g) = n"
    "\<And>g x. g \<in> set gates \<Longrightarrow> strip (gs_gate g) = ''portfolio_engine'' \<Longrightarrow>
       gs_max_notional_usdt g = Some x \<Longrightarrow> \<not> fle x (Fin 0)" by blast
  have nw: "gp_intent p \<noteq> INTENT_WAIT" using assms(2) p(2) by simp
  have d: "gd_sell_score d = gp_sell_score p \<and> gd_buy_score d = gp_buy_score p \<and> \<not> gd_blocked d \<and>
      gd_shadow d \<and> \<not> gd_execution_authority d"
    using assms p(1) by (auto simp: decide_def rbind_Inr_iff Let_def finish_def split: if_splits)
  show ?thesis
    using preliminary_direction [OF p(1) nw] preliminary_scores [OF p(1)] preliminary_strength [OF p(1) nw]
      d p(2,3,5) p(4) [unfolded required_gates_def] by simp
qed

text \<open>Two verified specialists for BUY; the vote of a gate is ignored.\<close>

definition sample_votes :: "specialist_recommendation list" where
  "sample_votes =
     [\<lparr>sr_agent_id = ''trend'', sr_intent = INTENT_BUY, sr_confidence = Fin 90, sr_evidence_score = Fin 90,
       sr_risk_score = Fin 10, sr_verified = True, sr_rationale = [], sr_evidence_ids = []\<rparr>,
      \<lparr>sr_agent_id = ''flow'', sr_intent = INTENT_BUY, sr_confidence = Fin 80, sr_evidence_score = Fin 90,
       sr_risk_score = Fin 10, sr_verified = True, sr_rationale = [], sr_evidence_ids = []\<rparr>,
      \<lparr>sr_agent_id = ''risk_engine'', sr_intent = INTENT_SELL, sr_confidence = Fin 100, sr_evidence_score = Fin 100,
       sr_risk_score = Fin 0, sr_verified = True, sr_rationale = [], sr_evidence_ids = []\<rparr>]"

definition sample_gates :: "gate_signal list" where
  "sample_gates = map (\<lambda>n. \<lparr>gs_gate = n, gs_verdict = VERDICT_PASS, gs_reasons = [],
     gs_max_notional_usdt = None\<rparr>) required_gates"

definition sample_controller :: general_controller where
  "sample_controller = \<lparr>gc_min_quality_score = Fin 55, gc_min_agreement = Fin 55, gc_min_directional_agents = 2,
     gc_min_direction_score = rnd64 (3 / 10), gc_min_direction_margin = rnd64 (12 / 100)\<rparr>"

definition sample_quality :: decision_quality_signal where
  "sample_quality = \<lparr>dq_blocked = False, dq_quality_score = Fin 80, dq_agreement = Fin 70, dq_reason = []\<rparr>"

definition sample_decision :: "gc_decision option" where
  "sample_decision =
     (case decide sample_controller sample_votes sample_quality sample_gates of Inl e \<Rightarrow> None | Inr d \<Rightarrow> Some d)"

lemma sample_decision_buy: "map_option gd_final_intent sample_decision = Some INTENT_BUY"
  by code_simp

theorem direction_needs_evidence_witness:
  "\<exists>d. decide sample_controller sample_votes sample_quality sample_gates = Inr d \<and>
       gd_final_intent d = INTENT_BUY \<and> 2 \<le> length (filter directional_vote sample_votes) \<and>
       flt (gd_sell_score d) (gd_buy_score d)"
proof -
  from sample_decision_buy obtain d where d: "decide sample_controller sample_votes sample_quality sample_gates = Inr d"
    "gd_final_intent d = INTENT_BUY"
    by (auto simp: sample_decision_def split: sum.splits)
  have "gd_final_intent d \<noteq> INTENT_WAIT" using d(2) by simp
  note needs = direction_needs_evidence [OF d(1) this]
  then have "gc_min_directional_agents sample_controller \<le> int (length (filter directional_vote sample_votes))" by blast
  then have "2 \<le> length (filter directional_vote sample_votes)" by (simp add: sample_controller_def)
  with needs d show ?thesis by blast
qed

end
