(* ===== verification/Trading_Candidate.thy ===== *)
theory Trading_Candidate
  imports Py_Value
begin

text \<open>
  \<open>trading_candidate.py\<close>: the evidence packet of a trade and its fail-closed validation. The
  validation collects every error in the order of the code; any error forces \<open>BLOCK\<close>. Fields
  have the types the dataclass declares, so the \<open>isinstance\<close> tests of the code hold.
\<close>

datatype trading_category = SPOT | LINEAR

datatype trading_side = BUY | SELL

datatype trading_environment = PAPER | TESTNET | MAINNET

datatype market_regime = TREND | RANGE | HIGH_VOLATILITY | ILLIQUID | UNKNOWN

datatype trading_decision = ALLOW | WAIT | BLOCK

fun category_value :: "trading_category \<Rightarrow> string" where
  "category_value SPOT = ''spot''"
| "category_value LINEAR = ''linear''"

fun side_value :: "trading_side \<Rightarrow> string" where
  "side_value BUY = ''Buy''"
| "side_value SELL = ''Sell''"

fun environment_value :: "trading_environment \<Rightarrow> string" where
  "environment_value PAPER = ''paper''"
| "environment_value TESTNET = ''testnet''"
| "environment_value MAINNET = ''mainnet''"

fun regime_value :: "market_regime \<Rightarrow> string" where
  "regime_value TREND = ''trend''"
| "regime_value RANGE = ''range''"
| "regime_value HIGH_VOLATILITY = ''high_volatility''"
| "regime_value ILLIQUID = ''illiquid''"
| "regime_value UNKNOWN = ''unknown''"

fun decision_value :: "trading_decision \<Rightarrow> string" where
  "decision_value ALLOW = ''ALLOW''"
| "decision_value WAIT = ''WAIT''"
| "decision_value BLOCK = ''BLOCK''"

record trusted_security_approval =
  ap_approval_id :: string
  ap_candidate_id :: string
  ap_environment :: trading_environment
  ap_approved_by :: string
  ap_approved_at_ms :: int
  ap_expires_at_ms :: int
  ap_manual_confirmation :: bool
  ap_security_guard_approved :: bool
  ap_kill_switch_off :: bool

record trading_candidate =
  tc_candidate_id :: string
  tc_symbol :: string
  tc_category :: trading_category
  tc_side :: trading_side
  tc_environment :: trading_environment
  tc_market_timestamp_ms :: int
  tc_received_timestamp_ms :: int
  tc_reference_price :: pyfloat
  tc_data_sources :: "string list"
  tc_market_regime :: market_regime
  tc_signal_evidence :: "string list"
  tc_news_evidence :: "string list"
  tc_news_assessment_id :: string
  tc_portfolio_snapshot_id :: string
  tc_cost_snapshot_id :: string
  tc_estimated_fees :: pyfloat
  tc_estimated_slippage :: pyfloat
  tc_risk_score :: pyfloat
  tc_risk_blocks :: "string list"
  tc_confidence :: pyfloat
  tc_consensus :: pyfloat
  tc_decision :: trading_decision
  tc_expires_at_ms :: int
  tc_security_approval_id :: string

definition candidate_to_dict :: "trading_candidate \<Rightarrow> (string \<times> pyval) list" where
  "candidate_to_dict c =
     [(''candidate_id'', PyStr (tc_candidate_id c)), (''symbol'', PyStr (tc_symbol c)),
      (''category'', PyStr (category_value (tc_category c))),
      (''side'', PyStr (side_value (tc_side c))),
      (''environment'', PyStr (environment_value (tc_environment c))),
      (''market_timestamp_ms'', PyInt (tc_market_timestamp_ms c)),
      (''received_timestamp_ms'', PyInt (tc_received_timestamp_ms c)),
      (''reference_price'', PyFloat (tc_reference_price c)),
      (''data_sources'', PyList (map PyStr (tc_data_sources c))),
      (''market_regime'', PyStr (regime_value (tc_market_regime c))),
      (''signal_evidence'', PyList (map PyStr (tc_signal_evidence c))),
      (''news_evidence'', PyList (map PyStr (tc_news_evidence c))),
      (''news_assessment_id'', PyStr (tc_news_assessment_id c)),
      (''portfolio_snapshot_id'', PyStr (tc_portfolio_snapshot_id c)),
      (''cost_snapshot_id'', PyStr (tc_cost_snapshot_id c)),
      (''estimated_fees'', PyFloat (tc_estimated_fees c)),
      (''estimated_slippage'', PyFloat (tc_estimated_slippage c)),
      (''risk_score'', PyFloat (tc_risk_score c)),
      (''risk_blocks'', PyList (map PyStr (tc_risk_blocks c))),
      (''confidence'', PyFloat (tc_confidence c)), (''consensus'', PyFloat (tc_consensus c)),
      (''decision'', PyStr (decision_value (tc_decision c))),
      (''expires_at_ms'', PyInt (tc_expires_at_ms c)),
      (''security_approval_id'', PyStr (tc_security_approval_id c))]"

record candidate_validation =
  cv_valid :: bool
  cv_decision :: trading_decision
  cv_errors :: "string list"
  cv_effective_min_confidence :: pyfloat
  cv_effective_min_consensus :: pyfloat

text \<open>\<open>if bad: errors.append(msg)\<close>.\<close>

definition report :: "bool \<Rightarrow> string \<Rightarrow> string list" where
  "report bad msg = (if bad then [msg] else [])"

definition require_text :: "string \<Rightarrow> string \<Rightarrow> string list" where
  "require_text v name = report (strip v = []) (name @ '' is required'')"

definition require_positive_number :: "pyfloat \<Rightarrow> string \<Rightarrow> string list" where
  "require_positive_number x name =
     report (\<not> isfinite x \<or> fle x (Fin 0)) (name @ '' must be a positive finite number'')"

definition require_non_negative_number :: "pyfloat \<Rightarrow> string \<Rightarrow> string list" where
  "require_non_negative_number x name =
     report (\<not> isfinite x \<or> flt x (Fin 0)) (name @ '' must be a non-negative finite number'')"

definition require_range :: "pyfloat \<Rightarrow> string \<Rightarrow> pyfloat \<Rightarrow> pyfloat \<Rightarrow> string list" where
  "require_range x name lo hi =
     report (\<not> isfinite x \<or> \<not> (fle lo x \<and> fle x hi))
       (name @ '' must be between '' @ float_repr lo @ '' and '' @ float_repr hi)"

definition normalized :: "string list \<Rightarrow> string list" where
  "normalized vs = filter (\<lambda>v. v \<noteq> []) (map strip vs)"

definition require_non_empty_unique :: "string list \<Rightarrow> string \<Rightarrow> string list" where
  "require_non_empty_unique vs name =
     (let n = normalized vs
      in if n = [] then [name @ '' must contain at least one item'']
         else report (length n \<noteq> card (set n)) (name @ '' must not contain duplicates''))"

definition require_unique :: "string list \<Rightarrow> string \<Rightarrow> string list" where
  "require_unique vs name =
     (let n = normalized vs
      in report (length n \<noteq> card (set n)) (name @ '' must not contain duplicates''))"

definition validate_trusted_approval ::
  "trading_candidate \<Rightarrow> trusted_security_approval \<Rightarrow> int \<Rightarrow> string list" where
  "validate_trusted_approval c a now_ms =
     require_text (ap_approval_id a) ''approval_id'' @
     require_text (ap_approved_by a) ''approved_by'' @
     report (ap_approval_id a \<noteq> tc_security_approval_id c) ''Security Guard approval id mismatch'' @
     report (ap_candidate_id a \<noteq> tc_candidate_id c) ''Security Guard approval candidate mismatch'' @
     report (ap_environment a \<noteq> MAINNET) ''Security Guard approval environment mismatch'' @
     report (now_ms < ap_approved_at_ms a \<or> ap_expires_at_ms a \<le> now_ms)
       ''Security Guard approval is not currently valid'' @
     report (300000 < ap_expires_at_ms a - ap_approved_at_ms a)
       ''Security Guard approval lifetime exceeds five minutes'' @
     report (\<not> ap_manual_confirmation a) ''trusted approval lacks manual confirmation'' @
     report (\<not> ap_security_guard_approved a) ''trusted approval lacks Security Guard decision'' @
     report (\<not> ap_kill_switch_off a) ''trusted approval confirms that kill switch is not off''"

definition allow_errors :: "trading_candidate \<Rightarrow> pyfloat \<Rightarrow> pyfloat \<Rightarrow> string list" where
  "allow_errors c effective_confidence effective_consensus =
     (if tc_decision c = ALLOW then
        report (card (set (normalized (tc_data_sources c))) < 3)
          ''ALLOW requires at least three independent data sources'' @
        report (flt (tc_confidence c) effective_confidence) ''confidence is below required threshold'' @
        report (flt (tc_consensus c) effective_consensus) ''consensus is below required threshold'' @
        report (tc_risk_blocks c \<noteq> []) ''risk_blocks require BLOCK decision'' @
        report (tc_market_regime c = ILLIQUID \<or> tc_market_regime c = UNKNOWN)
          ''unsafe or unknown market regime cannot be ALLOW''
      else [])"

definition mainnet_errors ::
  "trading_candidate \<Rightarrow> int \<Rightarrow> trusted_security_approval dict \<Rightarrow> string list" where
  "mainnet_errors c now_ms approvals =
     (if tc_environment c = MAINNET \<and> tc_decision c = ALLOW then
        (case map_of approvals (tc_security_approval_id c) of
           None \<Rightarrow> [''mainnet ALLOW requires an external trusted Security Guard approval'']
         | Some a \<Rightarrow>
             if tc_security_approval_id c = []
             then [''mainnet ALLOW requires an external trusted Security Guard approval'']
             else validate_trusted_approval c a now_ms)
      else [])"

definition candidate_errors ::
  "trading_candidate \<Rightarrow> int \<Rightarrow> int \<Rightarrow> pyfloat \<Rightarrow> pyfloat \<Rightarrow> trusted_security_approval dict \<Rightarrow>
   string list" where
  "candidate_errors c now_ms effective_max_age effective_confidence effective_consensus approvals =
     require_text (tc_candidate_id c) ''candidate_id'' @
     require_text (tc_portfolio_snapshot_id c) ''portfolio_snapshot_id'' @
     require_text (tc_cost_snapshot_id c) ''cost_snapshot_id'' @
     require_text (tc_news_assessment_id c) ''news_assessment_id'' @
     report (tc_symbol c = [] \<or> tc_symbol c \<noteq> upper (tc_symbol c) \<or> \<not> isalnum (tc_symbol c))
       ''symbol must be uppercase alphanumeric'' @
     report (now_ms \<le> 0) ''now_ms must be positive'' @
     report (tc_market_timestamp_ms c \<le> 0) ''market_timestamp_ms must be positive'' @
     report (tc_received_timestamp_ms c < tc_market_timestamp_ms c)
       ''received_timestamp_ms must not precede market_timestamp_ms'' @
     report (now_ms + 1000 < tc_market_timestamp_ms c) ''market_timestamp_ms is too far in the future'' @
     report (now_ms + 1000 < tc_received_timestamp_ms c)
       ''received_timestamp_ms is too far in the future'' @
     report (tc_expires_at_ms c \<le> now_ms) ''candidate is expired'' @
     report (now_ms + 10000 < tc_expires_at_ms c) ''candidate lifetime exceeds hard 10 second limit'' @
     report (effective_max_age < now_ms - tc_market_timestamp_ms c) ''market data is stale'' @
     require_positive_number (tc_reference_price c) ''reference_price'' @
     require_non_negative_number (tc_estimated_fees c) ''estimated_fees'' @
     require_non_negative_number (tc_estimated_slippage c) ''estimated_slippage'' @
     require_range (tc_risk_score c) ''risk_score'' (Fin 0) (Fin 100) @
     require_range (tc_confidence c) ''confidence'' (Fin 0) (Fin 100) @
     require_range (tc_consensus c) ''consensus'' (Fin 0) (Fin 100) @
     require_non_empty_unique (tc_data_sources c) ''data_sources'' @
     require_non_empty_unique (tc_signal_evidence c) ''signal_evidence'' @
     require_unique (tc_news_evidence c) ''news_evidence'' @
     require_unique (tc_risk_blocks c) ''risk_blocks'' @
     allow_errors c effective_confidence effective_consensus @
     mainnet_errors c now_ms approvals"

definition effective_threshold :: "pyfloat \<Rightarrow> pyfloat" where
  "effective_threshold x = py_min (py_max x (Fin 70)) (Fin 100)"

definition validate_trading_candidate ::
  "trading_candidate \<Rightarrow> int \<Rightarrow> int \<Rightarrow> pyfloat \<Rightarrow> pyfloat \<Rightarrow> trusted_security_approval dict \<Rightarrow>
   candidate_validation" where
  "validate_trading_candidate c now_ms max_market_age_ms min_confidence min_consensus approvals =
     (let effective_max_age = min (max max_market_age_ms 100) 5000;
          effective_confidence = effective_threshold min_confidence;
          effective_consensus = effective_threshold min_consensus;
          errors = candidate_errors c now_ms effective_max_age effective_confidence
                     effective_consensus approvals
      in if errors \<noteq> []
         then \<lparr>cv_valid = False, cv_decision = BLOCK, cv_errors = errors,
               cv_effective_min_confidence = effective_confidence,
               cv_effective_min_consensus = effective_consensus\<rparr>
         else \<lparr>cv_valid = True, cv_decision = tc_decision c, cv_errors = [],
               cv_effective_min_confidence = effective_confidence,
               cv_effective_min_consensus = effective_consensus\<rparr>)"

section \<open>Lemmas\<close>

lemma report_Nil [simp]: "report b m = [] \<longleftrightarrow> \<not> b"
  by (simp add: report_def)

lemma length_eq_card_iff: "length xs = card (set xs) \<longleftrightarrow> distinct xs"
  using card_distinct [of xs] distinct_card [of xs] by auto

lemma require_Nil [simp]:
  "require_text v n = [] \<longleftrightarrow> strip v \<noteq> []"
  "require_positive_number x n = [] \<longleftrightarrow> isfinite x \<and> \<not> fle x (Fin 0)"
  "require_non_negative_number x n = [] \<longleftrightarrow> isfinite x \<and> \<not> flt x (Fin 0)"
  "require_range x n lo hi = [] \<longleftrightarrow> isfinite x \<and> fle lo x \<and> fle x hi"
  "require_non_empty_unique vs n = [] \<longleftrightarrow> normalized vs \<noteq> [] \<and> distinct (normalized vs)"
  "require_unique vs n = [] \<longleftrightarrow> distinct (normalized vs)"
  by (simp_all add: require_text_def require_positive_number_def require_non_negative_number_def
      require_range_def require_non_empty_unique_def require_unique_def Let_def length_eq_card_iff conj_ac)

lemma effective_threshold_bounds:
  "isfinite x \<Longrightarrow> fle (Fin 70) (effective_threshold x) \<and> fle (effective_threshold x) (Fin 100)"
  by (cases x) (auto simp: effective_threshold_def py_min_def py_max_def fle_def)

text \<open>What a validation that allows a trade has established.\<close>

lemma validate_allow_iff:
  "cv_valid (validate_trading_candidate c now age conf cons approvals) \<and>
   cv_decision (validate_trading_candidate c now age conf cons approvals) = ALLOW \<longleftrightarrow>
   tc_decision c = ALLOW \<and>
   candidate_errors c now (min (max age 100) 5000) (effective_threshold conf)
     (effective_threshold cons) approvals = []"
  by (auto simp: validate_trading_candidate_def Let_def)

lemma candidate_errors_Nil_iff:
  "candidate_errors c now age conf cons approvals = [] \<longleftrightarrow>
   strip (tc_candidate_id c) \<noteq> [] \<and> strip (tc_portfolio_snapshot_id c) \<noteq> [] \<and>
   strip (tc_cost_snapshot_id c) \<noteq> [] \<and> strip (tc_news_assessment_id c) \<noteq> [] \<and>
   tc_symbol c \<noteq> [] \<and> tc_symbol c = upper (tc_symbol c) \<and> isalnum (tc_symbol c) \<and>
   0 < now \<and> 0 < tc_market_timestamp_ms c \<and>
   tc_market_timestamp_ms c \<le> tc_received_timestamp_ms c \<and>
   tc_market_timestamp_ms c \<le> now + 1000 \<and> tc_received_timestamp_ms c \<le> now + 1000 \<and>
   now < tc_expires_at_ms c \<and> tc_expires_at_ms c \<le> now + 10000 \<and>
   now - tc_market_timestamp_ms c \<le> age \<and>
   isfinite (tc_reference_price c) \<and> \<not> fle (tc_reference_price c) (Fin 0) \<and>
   isfinite (tc_estimated_fees c) \<and> \<not> flt (tc_estimated_fees c) (Fin 0) \<and>
   isfinite (tc_estimated_slippage c) \<and> \<not> flt (tc_estimated_slippage c) (Fin 0) \<and>
   isfinite (tc_risk_score c) \<and> fle (Fin 0) (tc_risk_score c) \<and> fle (tc_risk_score c) (Fin 100) \<and>
   isfinite (tc_confidence c) \<and> fle (Fin 0) (tc_confidence c) \<and> fle (tc_confidence c) (Fin 100) \<and>
   isfinite (tc_consensus c) \<and> fle (Fin 0) (tc_consensus c) \<and> fle (tc_consensus c) (Fin 100) \<and>
   normalized (tc_data_sources c) \<noteq> [] \<and> distinct (normalized (tc_data_sources c)) \<and>
   normalized (tc_signal_evidence c) \<noteq> [] \<and> distinct (normalized (tc_signal_evidence c)) \<and>
   distinct (normalized (tc_news_evidence c)) \<and> distinct (normalized (tc_risk_blocks c)) \<and>
   allow_errors c conf cons = [] \<and> mainnet_errors c now approvals = []"
  unfolding candidate_errors_def append_is_Nil_conv report_Nil require_Nil
  by (simp only: de_Morgan_disj not_le not_less not_not conj_assoc)

lemma allow_errors_Nil_iff:
  "tc_decision c = ALLOW \<Longrightarrow> allow_errors c conf cons = [] \<longleftrightarrow>
   3 \<le> card (set (normalized (tc_data_sources c))) \<and> \<not> flt (tc_confidence c) conf \<and>
   \<not> flt (tc_consensus c) cons \<and> tc_risk_blocks c = [] \<and>
   tc_market_regime c \<in> {TREND, RANGE, HIGH_VOLATILITY}"
  by (cases "tc_market_regime c") (auto simp: allow_errors_def not_less)

text \<open>Finite thresholds keep the floor of 70.\<close>

lemma threshold_floor: "isfinite x \<Longrightarrow> \<not> flt x (effective_threshold t) \<Longrightarrow> isfinite t \<Longrightarrow> fle (Fin 70) x"
  using effective_threshold_bounds [of t] by (cases x; cases "effective_threshold t") (auto simp: fle_def)

section \<open>Properties\<close>

definition sample_candidate :: trading_candidate where
  "sample_candidate = \<lparr>tc_candidate_id = ''c1'', tc_symbol = ''BTCUSDT'', tc_category = SPOT, tc_side = SELL,
     tc_environment = TESTNET, tc_market_timestamp_ms = 900, tc_received_timestamp_ms = 950,
     tc_reference_price = Fin 20, tc_data_sources = [''a'', ''b'', ''c''], tc_market_regime = TREND,
     tc_signal_evidence = [''s''], tc_news_evidence = [], tc_news_assessment_id = ''n1'',
     tc_portfolio_snapshot_id = ''p1'', tc_cost_snapshot_id = ''k1'', tc_estimated_fees = Fin 0,
     tc_estimated_slippage = Fin 0, tc_risk_score = Fin 10, tc_risk_blocks = [], tc_confidence = Fin 80,
     tc_consensus = Fin 75, tc_decision = ALLOW, tc_expires_at_ms = 6000, tc_security_approval_id = []\<rparr>"

text \<open>
  C25. A validation that says \<open>ALLOW\<close> with finite thresholds has seen at least three distinct data
  sources, confidence and consensus of at least 70, no risk block, a known liquid regime, market
  data no older than five seconds and an expiry within ten seconds; on mainnet also an external
  approval of this very candidate, valid now, with manual confirmation and the kill switch off.
\<close>

theorem allow_is_evidenced:
  assumes "cv_valid (validate_trading_candidate c now age conf cons approvals)"
    and "cv_decision (validate_trading_candidate c now age conf cons approvals) = ALLOW"
    and "isfinite conf" "isfinite cons"
  shows "3 \<le> card (set (normalized (tc_data_sources c))) \<and> fle (Fin 70) (tc_confidence c) \<and>
    fle (Fin 70) (tc_consensus c) \<and> tc_risk_blocks c = [] \<and>
    tc_market_regime c \<in> {TREND, RANGE, HIGH_VOLATILITY} \<and> now - tc_market_timestamp_ms c \<le> 5000 \<and>
    now < tc_expires_at_ms c \<and> tc_expires_at_ms c \<le> now + 10000 \<and>
    (tc_environment c = MAINNET \<longrightarrow> (\<exists>a. map_of approvals (tc_security_approval_id c) = Some a \<and>
       ap_candidate_id a = tc_candidate_id c \<and> ap_environment a = MAINNET \<and>
       ap_approved_at_ms a \<le> now \<and> now < ap_expires_at_ms a \<and> ap_manual_confirmation a \<and>
       ap_security_guard_approved a \<and> ap_kill_switch_off a))"
proof -
  have allow: "tc_decision c = ALLOW"
    and errors: "candidate_errors c now (min (max age 100) 5000) (effective_threshold conf) (effective_threshold cons) approvals = []"
    using assms(1,2) validate_allow_iff by blast+
  note e = errors [unfolded candidate_errors_Nil_iff allow_errors_Nil_iff [OF allow]]
  have "tc_environment c = MAINNET \<longrightarrow> (\<exists>a. map_of approvals (tc_security_approval_id c) = Some a \<and>
       ap_candidate_id a = tc_candidate_id c \<and> ap_environment a = MAINNET \<and>
       ap_approved_at_ms a \<le> now \<and> now < ap_expires_at_ms a \<and> ap_manual_confirmation a \<and>
       ap_security_guard_approved a \<and> ap_kill_switch_off a)"
    using e allow by (auto simp: mainnet_errors_def validate_trusted_approval_def split: option.splits if_splits)
  with e threshold_floor [OF _ _ assms(3)] threshold_floor [OF _ _ assms(4)] show ?thesis by auto
qed

theorem allow_is_evidenced_witness:
  "fle (Fin 70) (tc_confidence sample_candidate) \<and> fle (Fin 70) (tc_consensus sample_candidate)"
proof -
  have "cv_valid (validate_trading_candidate sample_candidate 1000 5000 (Fin 0) (Fin 0) [])"
    "cv_decision (validate_trading_candidate sample_candidate 1000 5000 (Fin 0) (Fin 0) []) = ALLOW"
    by code_simp+
  from allow_is_evidenced [OF this] show ?thesis by simp
qed

text \<open>
  A threshold that is not a number disables the floor of 70: with NaN thresholds a candidate of
  confidence and consensus 0 is validated as \<open>ALLOW\<close>.
\<close>

theorem nan_threshold_disables_floor:
  "cv_decision (validate_trading_candidate (sample_candidate\<lparr>tc_confidence := Fin 0, tc_consensus := Fin 0\<rparr>)
     1000 5000 FNaN FNaN []) = ALLOW"
  by code_simp

end
