(* ===== verification/Versioned_Store.thy ===== *)
theory Versioned_Store
  imports Py_Value "HOL-Library.Product_Lexorder"
begin

text \<open>
  The key-value table of \<open>storage/project_database.py\<close>: rows under a namespace and a key, each
  with a version. \<open>put_json\<close> is the optimistic write of the code (transaction, version check,
  upsert), \<open>get_json\<close> the read, \<open>put_immutable_json_batch\<close> the all-or-nothing insertion of facts
  that are never overwritten. Stored documents are values of a type \<open>'v\<close>, one per namespace, and
  the JSON text of a document stands for the document. A row read by one process may be
  overwritten by another before it writes: the retry loop of the clients,
  \<open>optimistic_update\<close>, takes the interference of the other writers between each read and each
  write as an argument.
\<close>

record 'v kv_row =
  kv_doc :: 'v
  kv_version :: int
  kv_updated_at_ms :: int

type_synonym 'v kv = "string \<times> string \<Rightarrow> 'v kv_row option"

definition db_identifier :: "string \<Rightarrow> string \<Rightarrow> string res" where
  "db_identifier v name =
     (let clean = strip v
      in if clean = [] \<or> 200 < length clean
         then Inl (ValueError (name @ '' must contain 1..200 characters'')) else Inr clean)"

definition kv_current :: "'v kv_row option \<Rightarrow> int" where
  "kv_current row = (case row of None \<Rightarrow> 0 | Some r \<Rightarrow> kv_version r)"

definition put_json ::
  "'v kv \<Rightarrow> string \<Rightarrow> string \<Rightarrow> 'v \<Rightarrow> int option \<Rightarrow> int \<Rightarrow> (int \<times> 'v kv) res" where
  "put_json db namespace key v expected now =
     rbind (db_identifier namespace ''namespace'') (\<lambda>ns.
     rbind (db_identifier key ''key'') (\<lambda>k.
       let current = kv_current (db (ns, k))
       in if expected \<noteq> None \<and> expected \<noteq> Some current then Inl VersionConflict
          else Inr (current + 1,
                    db((ns, k) \<mapsto> \<lparr>kv_doc = v, kv_version = current + 1, kv_updated_at_ms = now\<rparr>))))"

text \<open>\<open>json.dumps(..., allow_nan=False)\<close> refuses a float that is not finite, at any depth.\<close>

fun json_compliant :: "pyval \<Rightarrow> bool" where
  "json_compliant (PyFloat x) = isfinite x"
| "json_compliant (PyList vs) = list_all json_compliant vs"
| "json_compliant (PyDict kvs) = list_all (\<lambda>(k, v). json_compliant v) kvs"
| "json_compliant _ = True"

text \<open>
  \<open>put_json\<close> of a dynamically typed document: the text is made after the identifiers are checked and
  before the row is read. A typed document that can hold a float that is not finite is checked by
  the component that stores it (\<open>Paper_Broker\<close>, \<open>Execution_State\<close>, \<open>Execution_Journal\<close>); the others hold
  none.
\<close>

definition put_document ::
  "pyval kv \<Rightarrow> string \<Rightarrow> string \<Rightarrow> pyval \<Rightarrow> int option \<Rightarrow> int \<Rightarrow> (int \<times> pyval kv) res" where
  "put_document db namespace key v expected now =
     rbind (db_identifier namespace ''namespace'') (\<lambda>_.
     rbind (db_identifier key ''key'') (\<lambda>_.
       if \<not> json_compliant v then Inl (ValueError ''Out of range float values are not JSON compliant'')
       else put_json db namespace key v expected now))"

definition get_json :: "'v kv \<Rightarrow> string \<Rightarrow> string \<Rightarrow> 'v kv_row option res" where
  "get_json db namespace key =
     rbind (db_identifier namespace ''namespace'') (\<lambda>ns.
     rbind (db_identifier key ''key'') (\<lambda>k. Inr (db (ns, k))))"

text \<open>The loop that prepares a bundle: identifiers, duplicate keys.\<close>

fun prepare_batch ::
  "(string \<times> string) list \<Rightarrow> (string \<times> string \<times> 'v) list \<Rightarrow> ((string \<times> string) \<times> 'v) list res" where
  "prepare_batch seen [] = Inr []"
| "prepare_batch seen ((namespace, key, v) # rest) =
     rbind (db_identifier namespace ''namespace'') (\<lambda>ns.
     rbind (db_identifier key ''key'') (\<lambda>k.
       if (ns, k) \<in> set seen then Inl (ValueError ''duplicate immutable evidence key'')
       else rbind (prepare_batch ((ns, k) # seen) rest) (\<lambda>ps. Inr (((ns, k), v) # ps))))"

definition insert_immutable :: "int \<Rightarrow> 'v kv \<Rightarrow> (string \<times> string) \<times> 'v \<Rightarrow> 'v kv res" where
  "insert_immutable now db p =
     (let (k, v) = p;
          db' = (if db k = None
                 then db(k \<mapsto> \<lparr>kv_doc = v, kv_version = 1, kv_updated_at_ms = now\<rparr>) else db)
      in case db' k of None \<Rightarrow> Inl (KeyError ''row'')
         | Some r \<Rightarrow> if kv_doc r \<noteq> v then Inl VersionConflict else Inr db')"

definition put_immutable_json_batch ::
  "'v kv \<Rightarrow> (string \<times> string \<times> 'v) list \<Rightarrow> int \<Rightarrow> 'v kv res" where
  "put_immutable_json_batch db entries now =
     (if \<not> (1 \<le> length entries \<and> length entries \<le> 64)
      then Inl (ValueError ''immutable evidence bundle must contain 1..64 entries'')
      else rbind (prepare_batch [] entries) (\<lambda>ps.
             rfold (insert_immutable now) db (sort_key fst ps)))"

text \<open>
  \<open>for _ in range(n): get; compute; put(expected_version)\<close>, retrying on a version conflict. Any
  other exception leaves the loop. The result is the outcome and the table it leaves behind.
\<close>

fun optimistic_update ::
  "nat \<Rightarrow> string \<Rightarrow> string \<Rightarrow> ('v kv_row option \<Rightarrow> ('v \<times> 'r) res) \<Rightarrow> string \<Rightarrow> int \<Rightarrow>
   ('v kv \<Rightarrow> 'v kv) list \<Rightarrow> 'v kv \<Rightarrow> ('r \<times> int) res \<times> 'v kv" where
  "optimistic_update 0 ns k f msg now others db = (Inl (RuntimeError msg), db)"
| "optimistic_update (Suc n) ns k f msg now others db =
     (case get_json db ns k of Inl e \<Rightarrow> (Inl e, db)
      | Inr row \<Rightarrow>
        (case f row of Inl e \<Rightarrow> (Inl e, db)
         | Inr (doc, r) \<Rightarrow>
           (let (other, others') = (case others of [] \<Rightarrow> (id, []) | g # gs \<Rightarrow> (g, gs));
                db' = other db
            in case put_json db' ns k doc (Some (kv_current row)) now of
                 Inr (v, db'') \<Rightarrow> (Inr (r, v), db'')
               | Inl VersionConflict \<Rightarrow> optimistic_update n ns k f msg now others' db'
               | Inl e \<Rightarrow> (Inl e, db'))))"

section \<open>The contract of a versioned store\<close>

text \<open>
  How a table may evolve under any writers that use the versioned write: a row never disappears
  and a changed row has a larger version.
\<close>

definition kv_evolves :: "'v kv \<Rightarrow> 'v kv \<Rightarrow> bool" where
  "kv_evolves db db' =
     (\<forall>k. db' k = db k \<or>
          (\<exists>r'. db' k = Some r' \<and> kv_current (db k) < kv_version r'))"

definition kv_positive :: "'v kv \<Rightarrow> bool" where
  "kv_positive db = (\<forall>k r. db k = Some r \<longrightarrow> 0 < kv_version r)"

text \<open>
  One cell of the store as a client sees it: the row it reads, the compare-and-set write and the
  rest of the table. A write that goes through was made against the version it names, stores the
  document, raises the version by one and leaves the rest alone. A live cell accepts every write
  made against the current version.
\<close>

locale versioned_cell =
  fixes read :: "'db \<Rightarrow> 'row option"
    and version :: "'row option \<Rightarrow> int"
    and cas :: "'db \<Rightarrow> 'v \<Rightarrow> int \<Rightarrow> 'db option"
    and doc :: "'row \<Rightarrow> 'v"
    and rest :: "'db \<Rightarrow> 'rest"
  assumes cas_refused: "version (read db) \<noteq> n \<Longrightarrow> cas db v n = None"
    and cas_doc: "cas db v n = Some db' \<Longrightarrow> map_option doc (read db') = Some v"
    and cas_version: "cas db v n = Some db' \<Longrightarrow> version (read db') = n + 1"
    and cas_rest: "cas db v n = Some db' \<Longrightarrow> rest db' = rest db"
begin

text \<open>A write that succeeds was computed from the row it replaces, if versions identify rows.\<close>

lemma cas_not_stale:
  assumes "cas db' v (version (read db)) = Some db''"
    and "read db' = read db \<or> version (read db) < version (read db')"
  shows "read db' = read db"
  using assms cas_refused [of db' "version (read db)" v] by fastforce

lemma cas_once:
  assumes "cas db v n = Some db'"
  shows "cas db' w n = None"
  using cas_version [OF assms] by (intro cas_refused) simp

end

locale live_cell = versioned_cell +
  assumes cas_made: "version (read db) = n \<Longrightarrow> \<exists>db'. cas db v n = Some db'"
begin

lemma cas_progress: "\<exists>db'. cas db v (version (read db)) = Some db'"
  by (rule cas_made) simp

lemma cas_iff: "(\<exists>db'. cas db v n = Some db') \<longleftrightarrow> version (read db) = n"
  using cas_refused [of db n v] cas_made [of db n v] by fastforce

end

text \<open>The cell a namespace and a key name, over \<open>get_json\<close> and \<open>put_json\<close>.\<close>

definition cell_read :: "string \<Rightarrow> string \<Rightarrow> 'v kv \<Rightarrow> 'v kv_row option" where
  "cell_read namespace key db = (case get_json db namespace key of Inr r \<Rightarrow> r | Inl e \<Rightarrow> None)"

definition cell_cas :: "string \<Rightarrow> string \<Rightarrow> int \<Rightarrow> 'v kv \<Rightarrow> 'v \<Rightarrow> int \<Rightarrow> 'v kv option" where
  "cell_cas namespace key now db v n =
     (case put_json db namespace key v (Some n) now of Inr (m, db') \<Rightarrow> Some db' | Inl e \<Rightarrow> None)"

definition cell_rest :: "string \<Rightarrow> string \<Rightarrow> 'v kv \<Rightarrow> 'v kv" where
  "cell_rest namespace key db = db((strip namespace, strip key) := None)"

section \<open>Lemmas\<close>

lemma db_identifier_clean:
  "strip v = v \<Longrightarrow> v \<noteq> [] \<Longrightarrow> length v \<le> 200 \<Longrightarrow> db_identifier v name = Inr v"
  by (simp add: db_identifier_def)

lemma kv_evolves_refl [simp]: "kv_evolves db db"
  by (simp add: kv_evolves_def)

lemma kv_evolves_trans:
  assumes "kv_evolves a b" "kv_evolves b c"
  shows "kv_evolves a c"
  unfolding kv_evolves_def
proof
  fix k
  from assms(1) have 1: "b k = a k \<or> (\<exists>r. b k = Some r \<and> kv_current (a k) < kv_version r)"
    unfolding kv_evolves_def by blast
  from assms(2) have 2: "c k = b k \<or> (\<exists>r. c k = Some r \<and> kv_current (b k) < kv_version r)"
    unfolding kv_evolves_def by blast
  show "c k = a k \<or> (\<exists>r. c k = Some r \<and> kv_current (a k) < kv_version r)"
    using 1 2 by (fastforce simp: kv_current_def)
qed

lemma put_document_Inr:
  "put_document db namespace key v expected now = Inr r \<longleftrightarrow>
     json_compliant v \<and> put_json db namespace key v expected now = Inr r"
  by (auto simp: put_document_def put_json_def res_simps)

lemma put_json_Inr:
  assumes "put_json db namespace key v expected now = Inr (n, db')"
  obtains ns k where "db_identifier namespace ''namespace'' = Inr ns"
    and "db_identifier key ''key'' = Inr k"
    and "n = kv_current (db (ns, k)) + 1"
    and "expected = None \<or> expected = Some (n - 1)"
    and "db' = db((ns, k) \<mapsto> \<lparr>kv_doc = v, kv_version = n, kv_updated_at_ms = now\<rparr>)"
  using assms by (auto simp: put_json_def res_simps Let_def split: if_splits)

lemma put_json_evolves:
  assumes "put_json db namespace key v expected now = Inr (n, db')"
  shows "kv_evolves db db'"
  using assms by (rule put_json_Inr) (auto simp: kv_evolves_def)

lemma put_json_positive:
  assumes "put_json db namespace key v expected now = Inr (n, db')" "kv_positive db"
  shows "kv_positive db'"
proof (rule put_json_Inr [OF assms(1)])
  fix ns k
  assume n: "n = kv_current (db (ns, k)) + 1"
    and db': "db' = db((ns, k) \<mapsto> \<lparr>kv_doc = v, kv_version = n, kv_updated_at_ms = now\<rparr>)"
  have "0 \<le> kv_current (db (ns, k))"
    using assms(2) by (auto simp: kv_current_def kv_positive_def less_imp_le split: option.splits)
  with n db' assms(2) show ?thesis by (auto simp: kv_positive_def)
qed

lemma db_identifier_Inr: "db_identifier v name = Inr c \<Longrightarrow> c = strip v"
  by (auto simp: db_identifier_def Let_def split: if_splits)

lemma get_json_clean:
  "db_identifier ns ''namespace'' = Inr ns \<Longrightarrow> db_identifier k ''key'' = Inr k \<Longrightarrow>
   get_json db ns k = Inr (db (ns, k))"
  by (simp add: get_json_def)

lemma put_json_clean:
  "db_identifier ns ''namespace'' = Inr ns \<Longrightarrow> db_identifier k ''key'' = Inr k \<Longrightarrow>
   put_json db ns k v (Some n) now =
     (if n = kv_current (db (ns, k))
      then Inr (n + 1, db((ns, k) \<mapsto> \<lparr>kv_doc = v, kv_version = n + 1, kv_updated_at_ms = now\<rparr>))
      else Inl VersionConflict)"
  by (simp add: put_json_def Let_def)

interpretation kv_cell:
  versioned_cell "cell_read ns k" kv_current "cell_cas ns k now" kv_doc "cell_rest ns k" for ns k now
proof unfold_locales
  fix db :: "'a kv" and n v db'
  show "kv_current (cell_read ns k db) \<noteq> n \<Longrightarrow> cell_cas ns k now db v n = None"
    by (auto simp: cell_read_def cell_cas_def get_json_def put_json_def res_simps Let_def
        split: sum.splits if_splits)
  assume "cell_cas ns k now db v n = Some db'"
  then obtain x y where ids: "db_identifier ns ''namespace'' = Inr x" "db_identifier k ''key'' = Inr y"
    and db': "db' = db((x, y) \<mapsto> \<lparr>kv_doc = v, kv_version = n + 1, kv_updated_at_ms = now\<rparr>)"
    by (auto simp: cell_cas_def put_json_def res_simps Let_def split: sum.splits if_splits)
  then show "map_option kv_doc (cell_read ns k db') = Some v"
    and "kv_current (cell_read ns k db') = n + 1"
    and "cell_rest ns k db' = cell_rest ns k db"
    by (simp_all add: cell_read_def cell_rest_def get_json_def kv_current_def
        db_identifier_Inr [symmetric])
qed

section \<open>The retry loop\<close>

abbreviation clean_cell :: "string \<Rightarrow> string \<Rightarrow> bool" where
  "clean_cell ns k \<equiv>
     db_identifier ns ''namespace'' = Inr ns \<and> db_identifier k ''key'' = Inr k"

text \<open>Without interference the loop is one read, one computation and one write.\<close>

lemma optimistic_update_alone:
  assumes "clean_cell ns k" "0 < n"
  shows "optimistic_update n ns k f msg now [] db =
    (case f (db (ns, k)) of Inl e \<Rightarrow> (Inl e, db)
     | Inr (doc, r) \<Rightarrow>
         (Inr (r, kv_current (db (ns, k)) + 1),
          db((ns, k) \<mapsto> \<lparr>kv_doc = doc, kv_version = kv_current (db (ns, k)) + 1,
                          kv_updated_at_ms = now\<rparr>)))"
  using assms by (cases n) (auto simp: get_json_clean put_json_clean split: sum.splits prod.splits)

text \<open>
  With interference a successful update is atomic: there is a table the others left behind, from
  which the stored document was computed and which the write changed in this cell only.
\<close>

definition well_behaved :: "('v kv \<Rightarrow> 'v kv) list \<Rightarrow> bool" where
  "well_behaved others = (\<forall>g \<in> set others. \<forall>db. kv_evolves db (g db))"

definition first_other :: "('v kv \<Rightarrow> 'v kv) list \<Rightarrow> 'v kv \<Rightarrow> 'v kv" where
  "first_other others = (case others of [] \<Rightarrow> id | g # gs \<Rightarrow> g)"

lemma optimistic_update_step:
  assumes "clean_cell ns k"
  shows "optimistic_update (Suc n) ns k f msg now others db =
    (case f (db (ns, k)) of Inl e \<Rightarrow> (Inl e, db)
     | Inr (doc, r) \<Rightarrow>
         if kv_current (first_other others db (ns, k)) = kv_current (db (ns, k))
         then (Inr (r, kv_current (db (ns, k)) + 1),
               (first_other others db)((ns, k) \<mapsto>
                  \<lparr>kv_doc = doc, kv_version = kv_current (db (ns, k)) + 1, kv_updated_at_ms = now\<rparr>))
         else optimistic_update n ns k f msg now (tl others) (first_other others db))"
  using assms
  by (cases others)
    (auto simp: get_json_clean put_json_clean first_other_def Let_def split: sum.splits prod.splits)

declare optimistic_update.simps(2) [simp del]

lemma well_behaved_first: "well_behaved others \<Longrightarrow> kv_evolves db (first_other others db)"
  by (auto simp: well_behaved_def first_other_def split: list.splits)

lemma well_behaved_tl: "well_behaved others \<Longrightarrow> well_behaved (tl others)"
  by (cases others) (auto simp: well_behaved_def)

lemma kv_evolves_same_version:
  assumes "kv_evolves db db'" "kv_current (db' k) = kv_current (db k)"
  shows "db' k = db k"
  using assms unfolding kv_evolves_def kv_current_def by (metis less_irrefl option.simps(5))

lemma kv_evolves_write:
  "kv_evolves db (db(k \<mapsto> \<lparr>kv_doc = v, kv_version = kv_current (db k) + 1, kv_updated_at_ms = now\<rparr>))"
  by (simp add: kv_evolves_def)

lemma optimistic_update_linearizes:
  assumes "clean_cell ns k" "well_behaved others"
    and "optimistic_update n ns k f msg now others db = (Inr (r, v), db')"
  shows "\<exists>db0 doc. kv_evolves db db0 \<and> f (db0 (ns, k)) = Inr (doc, r) \<and>
    v = kv_current (db0 (ns, k)) + 1 \<and>
    db' = db0((ns, k) \<mapsto> \<lparr>kv_doc = doc, kv_version = v, kv_updated_at_ms = now\<rparr>)"
  using assms(2,3)
proof (induction n arbitrary: others db)
  case 0
  then show ?case by simp
next
  case (Suc n)
  let ?db1 = "first_other others db"
  have step: "kv_evolves db ?db1" using Suc.prems(1) by (rule well_behaved_first)
  obtain doc q where f: "f (db (ns, k)) = Inr (doc, q)"
    using Suc.prems(2) by (auto simp: optimistic_update_step [OF assms(1)] split: sum.splits)
  show ?case
  proof (cases "kv_current (?db1 (ns, k)) = kv_current (db (ns, k))")
    case True
    with step have "?db1 (ns, k) = db (ns, k)" by (rule kv_evolves_same_version)
    moreover from Suc.prems(2) f True have "q = r" and "v = kv_current (?db1 (ns, k)) + 1"
      and "db' = ?db1((ns, k) \<mapsto> \<lparr>kv_doc = doc, kv_version = v, kv_updated_at_ms = now\<rparr>)"
      by (auto simp: optimistic_update_step [OF assms(1)])
    ultimately show ?thesis using f step by metis
  next
    case False
    with Suc.prems(2) f have "optimistic_update n ns k f msg now (tl others) ?db1 = (Inr (r, v), db')"
      by (simp add: optimistic_update_step [OF assms(1)])
    from Suc.IH [OF well_behaved_tl [OF Suc.prems(1)] this] show ?thesis
      using kv_evolves_trans [OF step] by blast
  qed
qed

lemma optimistic_update_evolves:
  assumes "clean_cell ns k" "well_behaved others"
    and "optimistic_update n ns k f msg now others db = (res, db')"
  shows "kv_evolves db db'"
  using assms(2,3)
proof (induction n arbitrary: others db)
  case (Suc n)
  let ?db1 = "first_other others db"
  have step: "kv_evolves db ?db1" using Suc.prems(1) by (rule well_behaved_first)
  show ?case
  proof (cases "f (db (ns, k))")
    case (Inl e)
    with Suc.prems(2) show ?thesis by (simp add: optimistic_update_step [OF assms(1)])
  next
    case (Inr p)
    obtain doc q where p: "p = (doc, q)" by (cases p)
    show ?thesis
    proof (cases "kv_current (?db1 (ns, k)) = kv_current (db (ns, k))")
      case True
      with Suc.prems(2) Inr p
      have "db' = ?db1((ns, k) \<mapsto> \<lparr>kv_doc = doc, kv_version = kv_current (?db1 (ns, k)) + 1,
                                   kv_updated_at_ms = now\<rparr>)"
        by (simp add: optimistic_update_step [OF assms(1)])
      with kv_evolves_write [of ?db1] kv_evolves_trans [OF step] show ?thesis by blast
    next
      case False
      with Suc.prems(2) Inr p
      have "optimistic_update n ns k f msg now (tl others) ?db1 = (res, db')"
        by (simp add: optimistic_update_step [OF assms(1)])
      from Suc.IH [OF well_behaved_tl [OF Suc.prems(1)] this] step show ?thesis
        by (blast intro: kv_evolves_trans)
    qed
  qed
qed simp

text \<open>
  Progress: an update whose computation never raises succeeds when fewer writers interfere than it
  has attempts.
\<close>

lemma optimistic_update_progress:
  assumes "clean_cell ns k" "\<And>row. \<exists>doc r. f row = Inr (doc, r)" "length others < n"
  shows "\<exists>r v db'. optimistic_update n ns k f msg now others db = (Inr (r, v), db')"
  using assms(3)
proof (induction n arbitrary: others db)
  case (Suc n)
  obtain doc r where f: "f (db (ns, k)) = Inr (doc, r)" using assms(2) by blast
  show ?case
  proof (cases others)
    case Nil
    with f show ?thesis by (simp add: optimistic_update_step [OF assms(1)] first_other_def)
  next
    case (Cons g gs)
    with Suc.prems Suc.IH [of "tl others" "first_other others db"] f show ?thesis
      by (simp add: optimistic_update_step [OF assms(1)])
  qed
qed simp

section \<open>Immutable bundles\<close>

lemma insert_immutable_Inr:
  assumes "insert_immutable now db (k, v) = Inr db'"
  shows "\<exists>r. db' k = Some r \<and> kv_doc r = v" "\<forall>k' r. db k' = Some r \<longrightarrow> db' k' = Some r"
    "\<forall>k'. k' \<noteq> k \<longrightarrow> db' k' = db k'"
  using assms by (auto simp: insert_immutable_def Let_def split: option.splits if_splits)

lemma rfold_insert_Inr:
  assumes "rfold (insert_immutable now) db ps = Inr db'"
  shows "\<forall>(k, v) \<in> set ps. \<exists>r. db' k = Some r \<and> kv_doc r = v"
    "\<forall>k r. db k = Some r \<longrightarrow> db' k = Some r" "\<forall>k. k \<notin> fst ` set ps \<longrightarrow> db' k = db k"
proof -
  have "(\<forall>(k, v) \<in> set ps. \<exists>r. db' k = Some r \<and> kv_doc r = v) \<and>
    (\<forall>k r. db k = Some r \<longrightarrow> db' k = Some r) \<and> (\<forall>k. k \<notin> fst ` set ps \<longrightarrow> db' k = db k)"
    using assms
  proof (induction ps arbitrary: db)
    case (Cons p ps)
    obtain k v where p: "p = (k, v)" by (cases p)
    from Cons.prems p obtain db1 where 1: "insert_immutable now db (k, v) = Inr db1"
      and 2: "rfold (insert_immutable now) db1 ps = Inr db'" by (auto simp: res_simps)
    note ins = insert_immutable_Inr [OF 1] and ih = Cons.IH [OF 2]
    from ins(1) ih have "\<exists>r. db' k = Some r \<and> kv_doc r = v" by blast
    with ih ins(2,3) show ?case by (auto simp: p)
  qed simp
  then show "\<forall>(k, v) \<in> set ps. \<exists>r. db' k = Some r \<and> kv_doc r = v"
    "\<forall>k r. db k = Some r \<longrightarrow> db' k = Some r" "\<forall>k. k \<notin> fst ` set ps \<longrightarrow> db' k = db k"
    by simp_all
qed

text \<open>A bundle whose entries are all stored is accepted again without any change.\<close>

lemma rfold_insert_replay:
  assumes "\<forall>(k, v) \<in> set ps. \<exists>r. db k = Some r \<and> kv_doc r = v"
  shows "rfold (insert_immutable now) db ps = Inr db"
  using assms by (induction ps) (auto simp: insert_immutable_def)

lemma prepare_batch_set:
  assumes "prepare_batch seen entries = Inr ps"
  shows "set ps = (\<lambda>(ns, k, v). ((strip ns, strip k), v)) ` set entries"
  using assms
proof (induction entries arbitrary: seen ps)
  case (Cons e entries)
  obtain ns k v where e: "e = (ns, k, v)" by (cases e)
  from Cons.prems obtain ps' where "prepare_batch ((strip ns, strip k) # seen) entries = Inr ps'"
    "ps = ((strip ns, strip k), v) # ps'"
    by (auto simp: e res_simps dest!: db_identifier_Inr)
  with Cons.IH show ?case by (simp add: e)
qed simp

lemma put_immutable_json_batch_Inr:
  assumes "put_immutable_json_batch db entries now = Inr db'"
  obtains ps where "prepare_batch [] entries = Inr ps"
    "rfold (insert_immutable now) db (sort_key fst ps) = Inr db'" "1 \<le> length entries" "length entries \<le> 64"
  using assms by (auto simp: put_immutable_json_batch_def res_simps)

section \<open>Properties\<close>

text \<open>A counter kept in one cell, and a writer that overtakes it.\<close>

definition demo_count :: "int kv_row option \<Rightarrow> (int \<times> int) res" where
  "demo_count row = (case row of None \<Rightarrow> Inr (1, 1) | Some r \<Rightarrow> Inr (kv_doc r + 1, kv_doc r + 1))"

definition demo_writer :: "int kv \<Rightarrow> int kv" where
  "demo_writer db = (case put_json db ''ns'' ''k'' 41 None 5 of Inl e \<Rightarrow> db | Inr (v, db') \<Rightarrow> db')"

lemma demo_cell: "clean_cell ''ns'' ''k''"
  by (simp add: db_identifier_def strip_def is_space_def ccode_def)

lemma demo_writer_well_behaved: "well_behaved [demo_writer]"
proof -
  have "kv_evolves db (demo_writer db)" for db
    by (cases "put_json db ''ns'' ''k'' 41 None 5")
      (auto simp: demo_writer_def dest: put_json_evolves)
  then show ?thesis by (simp add: well_behaved_def)
qed

text \<open>
  C16. No lost update: an optimistic update that returns is atomic. There is a table, left by the
  other writers, from whose row the stored document was computed; the update changed that table in
  its own cell only, and raised the version by one.
\<close>

theorem optimistic_update_is_atomic:
  assumes "clean_cell ns k" "well_behaved others"
    and "optimistic_update n ns k f msg now others db = (Inr (r, v), db')"
  shows "\<exists>db0 doc. kv_evolves db db0 \<and> f (db0 (ns, k)) = Inr (doc, r) \<and>
    v = kv_current (db0 (ns, k)) + 1 \<and>
    db' = db0((ns, k) \<mapsto> \<lparr>kv_doc = doc, kv_version = v, kv_updated_at_ms = now\<rparr>)"
  using assms by (rule optimistic_update_linearizes)

theorem optimistic_update_is_atomic_witness:
  "\<exists>r v db'. optimistic_update 2 ''ns'' ''k'' demo_count ''busy'' 9 [demo_writer] (\<lambda>_. None) = (Inr (r, v), db') \<and>
     (\<exists>db0 doc. kv_evolves (\<lambda>_. None) db0 \<and> demo_count (db0 (''ns'', ''k'')) = Inr (doc, r) \<and>
        db' = db0((''ns'', ''k'') \<mapsto> \<lparr>kv_doc = doc, kv_version = v, kv_updated_at_ms = 9\<rparr>))"
proof -
  have "\<exists>doc r. demo_count row = Inr (doc, r)" for row by (simp add: demo_count_def split: option.split)
  then obtain r v db' where u: "optimistic_update 2 ''ns'' ''k'' demo_count ''busy'' 9 [demo_writer] (\<lambda>_. None) = (Inr (r, v), db')"
    using optimistic_update_progress [OF demo_cell, of demo_count "[demo_writer]" 2] by force
  from optimistic_update_is_atomic [OF demo_cell demo_writer_well_behaved u] u show ?thesis by metis
qed

text \<open>
  Termination: a loop of \<open>n\<close> attempts whose computation does not raise returns a result
  whenever fewer than \<open>n\<close> writes of other processes fall between its reads and its writes.
\<close>

theorem optimistic_update_returns:
  assumes "clean_cell ns k" "\<And>row. \<exists>doc r. f row = Inr (doc, r)" "length others < n"
  shows "\<exists>r v db'. optimistic_update n ns k f msg now others db = (Inr (r, v), db')"
  using assms by (rule optimistic_update_progress)

theorem optimistic_update_returns_witness:
  "\<exists>r v db'. optimistic_update 5 ''ns'' ''k'' demo_count ''busy'' 9 (replicate 4 demo_writer) (\<lambda>_. None) = (Inr (r, v), db')"
  by (rule optimistic_update_returns [OF demo_cell])
    (simp_all add: demo_count_def split: option.split)

text \<open>
  C18. A bundle of immutable facts that is accepted is stored entry by entry, no row that was there
  is touched, nothing outside the bundle appears, and replaying the same bundle at any later time
  is accepted and changes nothing.
\<close>

theorem immutable_batch_is_write_once:
  assumes "put_immutable_json_batch db entries now = Inr db'"
  shows "(\<forall>k r. db k = Some r \<longrightarrow> db' k = Some r) \<and>
    (\<forall>ns k v. (ns, k, v) \<in> set entries \<longrightarrow> (\<exists>r. db' (strip ns, strip k) = Some r \<and> kv_doc r = v)) \<and>
    (\<forall>ns k. (ns, k) \<notin> (\<lambda>(ns, k, v). (strip ns, strip k)) ` set entries \<longrightarrow> db' (ns, k) = db (ns, k)) \<and>
    put_immutable_json_batch db' entries later = Inr db'"
proof -
  obtain ps where ps: "prepare_batch [] entries = Inr ps"
    and ins: "rfold (insert_immutable now) db (sort_key fst ps) = Inr db'"
    and len: "1 \<le> length entries" "length entries \<le> 64"
    using assms by (rule put_immutable_json_batch_Inr)
  note stored = rfold_insert_Inr [OF ins] and set = prepare_batch_set [OF ps]
  have "put_immutable_json_batch db' entries later = Inr db'"
    using ps len rfold_insert_replay [of "sort_key fst ps" db' later] stored(1)
    by (simp add: put_immutable_json_batch_def)
  moreover have "\<forall>ns k v. (ns, k, v) \<in> set entries \<longrightarrow> (\<exists>r. db' (strip ns, strip k) = Some r \<and> kv_doc r = v)"
    using stored(1) unfolding set_sort set by fastforce
  moreover have "\<forall>ns k. (ns, k) \<notin> (\<lambda>(ns, k, v). (strip ns, strip k)) ` set entries \<longrightarrow> db' (ns, k) = db (ns, k)"
    using stored(3) unfolding set_sort set by (fastforce simp: image_iff)
  ultimately show ?thesis using stored(2) by blast
qed

theorem immutable_batch_is_write_once_witness:
  "\<exists>db'. put_immutable_json_batch (\<lambda>_. None) [(''b'', ''1'', 10 :: int), (''a'', ''2'', 20)] 3 = Inr db' \<and>
     put_immutable_json_batch db' [(''b'', ''1'', 10), (''a'', ''2'', 20)] 4 = Inr db'"
proof -
  have "\<exists>db'. put_immutable_json_batch (\<lambda>_. None) [(''b'', ''1'', 10 :: int), (''a'', ''2'', 20)] 3 = Inr db'"
    by (simp add: put_immutable_json_batch_def insert_immutable_def db_identifier_def strip_def is_space_def ccode_def)
  then show ?thesis using immutable_batch_is_write_once by blast
qed

end
