(* ===== verification/Controller_Runtime.thy ===== *)
theory Controller_Runtime
  imports General_Controller Canonical_Risk Trading_Candidate Versioned_Store
begin

text \<open>
  \<open>autonomous_trading/runtime_decision_v2.py\<close> with \<open>opinions_from_payloads\<close> of \<open>meta_ai_adapter.py\<close>, and
  \<open>autonomous_trading/runtime_gate_provider_v2.py\<close>: the untyped payloads of the council become
  recommendations for the controller and a quality signal of their directional part; the mandatory
  gates are read from stored evidence of the decision. Stored documents are JSON values.
\<close>

section \<open>Untyped evidence\<close>

text \<open>What a comprehension iterates over; texts that are not blank.\<close>

fun py_iter :: "pyval \<Rightarrow> pyval list res" where
  "py_iter (PyList vs) = Inr vs"
| "py_iter (PyStr s) = Inr (map (\<lambda>c. PyStr [c]) s)"
| "py_iter (PyDict kvs) = Inr (map (PyStr \<circ> fst) kvs)"
| "py_iter _ = Inl (TypeError ''object is not iterable'')"

definition shown_texts :: "string list \<Rightarrow> string list" where
  "shown_texts xs = filter (\<lambda>s. strip s \<noteq> []) xs"

definition texts_of :: "pyval \<Rightarrow> string list res" where
  "texts_of v = rbind (py_iter v) (\<lambda>vs. Inr (shown_texts (map py_str vs)))"

definition mapping_or_empty :: "pyval \<Rightarrow> (string \<times> pyval) list" where
  "mapping_or_empty v = (case v of PyDict d \<Rightarrow> d | _ \<Rightarrow> [])"

section \<open>Opinions\<close>

record agent_opinion =
  ao_agent_id :: string
  ao_action :: string
  ao_confidence :: pyfloat
  ao_evidence_score :: pyfloat
  ao_risk_score :: pyfloat
  ao_rationale :: string

definition valid_actions :: "string list" where
  "valid_actions = [''BUY'', ''SELL'', ''HOLD'', ''WAIT'', ''BLOCK'']"

definition finite_number :: "pyval \<Rightarrow> string \<Rightarrow> pyfloat res" where
  "finite_number v name =
     (let bad = Inl (ValueError (name @ '' must be a finite number''))
      in case v of PyBool b \<Rightarrow> bad
         | _ \<Rightarrow> (case py_float v of
                   Inl (TypeError m) \<Rightarrow> bad
                 | Inl (ValueError m) \<Rightarrow> bad
                 | Inl e \<Rightarrow> Inl e
                 | Inr x \<Rightarrow> if isfinite x then Inr x else bad))"

definition ratio :: "pyval \<Rightarrow> string \<Rightarrow> pyfloat res" where
  "ratio v name =
     rbind (finite_number v name) (\<lambda>x.
       if fle (Fin 0) x \<and> fle x (Fin 1) then Inr x
       else if flt (Fin 1) x \<and> fle x (Fin 100) then Inr (fdiv_by x 100)
       else Inl (ValueError (name @ '' must be within 0..1 or 0..100'')))"

definition clip :: "pyfloat \<Rightarrow> pyfloat" where
  "clip x = py_max (Fin 0) (py_min (Fin 1) x)"

definition first_text :: "(string \<times> pyval) list \<Rightarrow> string \<Rightarrow> string \<Rightarrow> string \<Rightarrow> string" where
  "first_text p k k' dflt = py_str (py_or (py_get p k PyNone) (py_or (py_get p k' PyNone) (PyStr dflt)))"

definition opinion_of :: "nat \<Rightarrow> (string \<times> pyval) list \<Rightarrow> agent_opinion res" where
  "opinion_of index p =
     (let agent = first_text p ''agent_id'' ''name'' (''agent-'' @ nat_str index);
          action = upper (first_text p ''action'' ''decision'' ''WAIT'') in
      rbind (ratio (py_get p ''confidence'' (PyFloat (Fin 0))) ''confidence'') (\<lambda>confidence.
      rbind (ratio (py_get p ''evidence_score'' (py_get p ''data_quality'' (PyFloat (Fin (1 / 2))))) ''evidence_score'') (\<lambda>evidence.
      rbind (ratio (py_get p ''risk_score'' (py_get p ''risk'' (PyFloat (Fin (1 / 2))))) ''risk_score'') (\<lambda>risk.
        if upper action \<notin> set valid_actions then Inl (ValueError (''Unsupported action: '' @ action))
        else Inr \<lparr>ao_agent_id = agent, ao_action = upper action, ao_confidence = clip confidence,
                  ao_evidence_score = clip evidence, ao_risk_score = clip risk,
                  ao_rationale = first_text p ''rationale'' ''reason'' []\<rparr>))))"

definition opinions_from_payloads :: "(string \<times> pyval) list list \<Rightarrow> agent_opinion list res" where
  "opinions_from_payloads ps = rmapM (\<lambda>(i, p). opinion_of i p) (enumerate 0 ps)"

section \<open>Recommendations\<close>

definition percent_of :: "pyfloat \<Rightarrow> pyfloat res" where
  "percent_of x =
     (if fle (Fin 0) x \<and> fle x (Fin 1) then Inr (fmul x (Fin 100))
      else if fle (Fin 0) x \<and> fle x (Fin 100) then Inr x
      else Inl (ValueError ''percentage signal must be within 0..1 or 0..100''))"

definition intent_of_action :: "string \<Rightarrow> trading_intent" where
  "intent_of_action a = (if a = ''BUY'' then INTENT_BUY else if a = ''SELL'' then INTENT_SELL else INTENT_WAIT)"

definition evidence_texts :: "pyval \<Rightarrow> string list" where
  "evidence_texts v =
     (case v of PyStr s \<Rightarrow> shown_texts [s] | PyList vs \<Rightarrow> shown_texts (map py_str vs) | _ \<Rightarrow> [])"

definition recommendation_of :: "(string \<times> pyval) list \<Rightarrow> agent_opinion \<Rightarrow> specialist_recommendation res" where
  "recommendation_of p o1 =
     (let action = upper (if ao_action o1 = [] then ''WAIT'' else ao_action o1);
          verified = (py_get p ''verified_market_data'' PyNone = PyBool True \<or> py_get p ''data_verified'' PyNone = PyBool True);
          ids = py_or (py_get p ''evidence_ids'' PyNone) (py_or (py_get p ''signal_evidence'' PyNone) (PyList [])) in
      rbind (percent_of (ao_confidence o1)) (\<lambda>confidence.
      rbind (percent_of (ao_evidence_score o1)) (\<lambda>evidence.
      rbind (percent_of (ao_risk_score o1)) (\<lambda>risk.
        let r = \<lparr>sr_agent_id = ao_agent_id o1, sr_intent = intent_of_action action, sr_confidence = confidence,
                 sr_evidence_score = evidence, sr_risk_score = risk, sr_verified = verified,
                 sr_rationale = ao_rationale o1, sr_evidence_ids = evidence_texts ids\<rparr>
        in rbind (recommendation_post_init r) (\<lambda>_. Inr r)))))"

definition recommendations_from_payloads :: "(string \<times> pyval) list list \<Rightarrow> specialist_recommendation list res" where
  "recommendations_from_payloads ps =
     rbind (opinions_from_payloads ps) (\<lambda>os. rmapM (\<lambda>(p, o1). recommendation_of p o1) (zip ps os))"

section \<open>Directional quality\<close>

definition news_directional_agents :: "string list" where
  "news_directional_agents =
     [''news_intelligence'', ''crypto_ai'', ''finance_ai'', ''economy_ai'', ''security_ai'', ''world_ai'']"

definition directional_row :: "specialist_recommendation \<Rightarrow> bool" where
  "directional_row r \<longleftrightarrow> sr_verified r \<and> strip (sr_agent_id r) \<notin> set non_directional_agents \<and> sr_intent r \<noteq> INTENT_WAIT"

definition residual_risk :: "specialist_recommendation \<Rightarrow> pyfloat" where
  "residual_risk r = py_max (Fin 0) (fsub (Fin 1) (fdiv_by (sr_risk_score r) 100))"

definition row_strength :: "specialist_recommendation \<Rightarrow> pyfloat" where
  "row_strength r =
     fmul (fmul (fdiv_by (sr_confidence r) 100) (fdiv_by (sr_evidence_score r) 100)) (residual_risk r)"

definition row_quality :: "specialist_recommendation \<Rightarrow> pyfloat" where
  "row_quality r =
     fadd (fadd (fmul (rnd64 (45 / 100)) (fdiv_by (sr_confidence r) 100))
                (fmul (rnd64 (40 / 100)) (fdiv_by (sr_evidence_score r) 100)))
          (fmul (rnd64 (15 / 100)) (residual_risk r))"

definition side_strength :: "trading_intent \<Rightarrow> specialist_recommendation list \<Rightarrow> pyfloat" where
  "side_strength i rows = py_sum (map row_strength (filter (\<lambda>r. sr_intent r = i) rows))"

definition quality_signal :: "bool \<Rightarrow> pyfloat \<Rightarrow> pyfloat \<Rightarrow> string \<Rightarrow> decision_quality_signal res" where
  "quality_signal blocked quality agreement reason =
     (let q = \<lparr>dq_blocked = blocked, dq_quality_score = quality, dq_agreement = agreement, dq_reason = reason\<rparr>
      in rbind (quality_post_init q) (\<lambda>_. Inr q))"

definition directional_quality_signal ::
  "(string \<times> pyval) list list \<Rightarrow> string list \<Rightarrow> decision_quality_signal res" where
  "directional_quality_signal ps freshness_errors =
     (let freshness = map strip (shown_texts freshness_errors)
      in if freshness \<noteq> []
         then quality_signal True (Fin 0) (Fin 0)
                (''canonical candidate freshness validation failed: '' @ join ''; '' freshness)
         else rbind (recommendations_from_payloads ps) (\<lambda>recs.
           let rows = filter directional_row recs
           in if rows = []
              then quality_signal False (Fin 0) (Fin 0) ''no verified directional specialist evidence''
              else if \<not> list_ex (\<lambda>r. strip (sr_agent_id r) \<in> set news_directional_agents) rows
              then quality_signal False (Fin 0) (Fin 0)
                     ''missing verified directional News Intelligence confirmation''
              else let buy = side_strength INTENT_BUY rows; sell = side_strength INTENT_SELL rows;
                       total = fadd buy sell in
                rbind (if fle total (Fin 0) then Inr (Fin 0)
                       else fdiv (fmul (Fin 100) (py_max buy sell)) total) (\<lambda>agreement.
                rbind (float_of_int (int (length rows))) (\<lambda>count.
                rbind (fdiv (fmul (Fin 100) (py_sum (map row_quality rows))) count) (\<lambda>quality.
                  quality_signal False (py_min (py_max quality (Fin 0)) (Fin 100))
                    (py_min (py_max agreement (Fin 0)) (Fin 100))
                    ''directional-only Decision Quality; non-directional gates excluded from direction'')))))"

record controller_evaluation =
  ce_controller :: gc_decision
  ce_quality :: decision_quality_signal
  ce_recommendations :: "specialist_recommendation list"
  ce_execution_authority :: bool

definition default_controller :: general_controller where
  "default_controller = \<lparr>gc_min_quality_score = Fin 55, gc_min_agreement = Fin 55, gc_min_directional_agents = 2,
     gc_min_direction_score = rnd64 (30 / 100), gc_min_direction_margin = rnd64 (12 / 100)\<rparr>"

definition evaluate_controller_v2 ::
  "general_controller \<Rightarrow> (string \<times> pyval) list list \<Rightarrow> gate_signal list \<Rightarrow> string list \<Rightarrow> controller_evaluation res" where
  "evaluate_controller_v2 gc ps gates freshness_errors =
     rbind (recommendations_from_payloads ps) (\<lambda>recs.
     rbind (directional_quality_signal ps freshness_errors) (\<lambda>quality.
     rbind (decide gc recs quality gates) (\<lambda>d.
       Inr \<lparr>ce_controller = d, ce_quality = quality, ce_recommendations = recs, ce_execution_authority = False\<rparr>)))"

section \<open>The gates of a decision\<close>

record evidence_packet =
  ep_candidate_id :: string
  ep_symbol :: string
  ep_category :: trading_category
  ep_side :: trading_side
  ep_environment :: trading_environment
  ep_market_timestamp_ms :: int
  ep_received_timestamp_ms :: int
  ep_reference_price :: pyfloat
  ep_data_sources :: "string list"
  ep_market_regime :: market_regime
  ep_signal_evidence :: "string list"
  ep_news_evidence :: "string list"
  ep_news_assessment_id :: string
  ep_portfolio_snapshot_id :: string
  ep_cost_snapshot_id :: string
  ep_estimated_fees :: pyfloat
  ep_estimated_slippage :: pyfloat
  ep_risk_score :: pyfloat
  ep_risk_blocks :: "string list"
  ep_expires_at_ms :: int
  ep_security_approval_id :: string
  ep_prospective_forecast_id :: string
  ep_prospective_forecast_as_of_ms :: "int option"

definition make_gate :: "string \<Rightarrow> gate_verdict \<Rightarrow> string list \<Rightarrow> pyfloat option \<Rightarrow> gate_signal res" where
  "make_gate name verdict reasons notional =
     (let g = \<lparr>gs_gate = name, gs_verdict = verdict, gs_reasons = reasons, gs_max_notional_usdt = notional\<rparr>
      in rbind (gate_post_init g) (\<lambda>_. Inr g))"

definition record_value :: "pyval kv_row option \<Rightarrow> (string \<times> pyval) list option" where
  "record_value row = (case row of None \<Rightarrow> None | Some r \<Rightarrow> (case kv_doc r of PyDict d \<Rightarrow> Some d | _ \<Rightarrow> None))"

definition risk_reasons :: "(string \<times> pyval) list \<Rightarrow> (string \<times> pyval) list \<Rightarrow> string list res" where
  "risk_reasons value assessment =
     rbind (texts_of (py_get value ''blocks'' (PyList []))) (\<lambda>blockers.
     rbind (texts_of (py_get assessment ''blockers'' (PyList []))) (\<lambda>assessment_blockers.
     rbind (texts_of (py_get assessment ''hard_blocks'' (PyList []))) (\<lambda>hard_blocks.
       Inr (first_occurrences (blockers @ assessment_blockers @ hard_blocks)))))"

definition score_mismatch :: "pyfloat option \<Rightarrow> pyfloat \<Rightarrow> bool" where
  "score_mismatch stored packet =
     (case stored of None \<Rightarrow> True
      | Some s \<Rightarrow> \<not> isfinite packet \<or> flt (rnd64 (1 / 10 ^ 9)) (fabs (fsub s packet)))"

definition risk_gate :: "pyval kv \<Rightarrow> string \<Rightarrow> evidence_packet \<Rightarrow> gate_signal res" where
  "risk_gate db decision_id packet =
     (let gate = (\<lambda>verdict reasons. make_gate ''risk_engine'' verdict reasons None);
          blocks = shown_texts (ep_risk_blocks packet)
      in if blocks \<noteq> [] then gate VERDICT_BLOCK blocks
         else rbind (get_json db ''risk_assessments'' (''risk-'' @ decision_id)) (\<lambda>row.
           case record_value row of
             None \<Rightarrow> gate VERDICT_WAIT [''missing canonical risk assessment'']
           | Some value \<Rightarrow>
               if text_or_empty (py_get value ''decision_id'' PyNone) \<noteq> decision_id
               then gate VERDICT_WAIT [''canonical risk lineage mismatch'']
               else rbind (rs_optional (py_get value ''risk_score'' PyNone)) (\<lambda>stored.
                 if score_mismatch stored (ep_risk_score packet)
                 then gate VERDICT_WAIT [''canonical risk score mismatch'']
                 else let assessment = mapping_or_empty (py_get value ''assessment'' PyNone) in
                   rbind (risk_reasons value assessment) (\<lambda>reasons.
                     if reasons \<noteq> [] then gate VERDICT_BLOCK reasons
                     else if py_get assessment ''allowed_virtual'' PyNone \<noteq> PyBool True
                     then gate VERDICT_WAIT
                            [''canonical risk assessment does not explicitly allow virtual execution'']
                     else gate VERDICT_PASS [''canonical risk evidence risk-'' @ decision_id]))))"

definition portfolio_gate :: "pyval kv \<Rightarrow> string \<Rightarrow> evidence_packet \<Rightarrow> gate_signal res" where
  "portfolio_gate db decision_id packet =
     (let gate = make_gate ''portfolio_engine''; snapshot_id = strip (ep_portfolio_snapshot_id packet)
      in if snapshot_id = [] then gate VERDICT_WAIT [''missing portfolio snapshot id''] None
         else rbind (get_json db ''portfolio_snapshots'' snapshot_id) (\<lambda>row.
           case record_value row of
             None \<Rightarrow> gate VERDICT_WAIT [''missing canonical portfolio snapshot''] None
           | Some value \<Rightarrow>
               if text_or_empty (py_get value ''decision_id'' PyNone) \<noteq> decision_id
               then gate VERDICT_WAIT [''canonical portfolio lineage mismatch''] None
               else if lower (text_or_empty (py_get value ''environment'' PyNone)) \<noteq> ''paper''
               then gate VERDICT_BLOCK [''portfolio snapshot is not paper-only''] None
               else rbind (rs_optional (py_get value ''cash'' PyNone)) (\<lambda>cash.
                 rbind (rs_optional (py_get value ''equity'' PyNone)) (\<lambda>equity.
                 case (cash, equity) of
                   (Some c, Some e) \<Rightarrow>
                     if fle c (Fin 0) \<or> fle e (Fin 0)
                     then gate VERDICT_BLOCK [''paper portfolio has no positive deployable value''] (Some (Fin 0))
                     else gate VERDICT_PASS [''canonical portfolio snapshot '' @ snapshot_id] (Some (py_min c e))
                 | _ \<Rightarrow> gate VERDICT_WAIT [''portfolio snapshot is incomplete''] None))))"

text \<open>The validation of the candidate, when the decision was already made; it may itself be missing.\<close>

definition security_gate :: "candidate_validation option option \<Rightarrow> evidence_packet \<Rightarrow> gate_signal res" where
  "security_gate authorization packet =
     (let gate = (\<lambda>verdict reasons. make_gate ''security_guard'' verdict reasons None)
      in if ep_environment packet \<noteq> PAPER
         then gate VERDICT_BLOCK [''V2 paper gate provider is restricted to PAPER environment'']
         else if strip (ep_security_approval_id packet) \<noteq> []
         then gate VERDICT_BLOCK [''PAPER candidate must not carry a live security approval identity'']
         else case authorization of
           None \<Rightarrow> gate VERDICT_PASS [''PAPER-only pre-decision boundary; structural validation still required'']
         | Some None \<Rightarrow> gate VERDICT_WAIT [''missing canonical candidate validation'']
         | Some (Some v) \<Rightarrow>
             if \<not> cv_valid v
             then gate VERDICT_BLOCK (if shown_texts (cv_errors v) \<noteq> [] then shown_texts (cv_errors v)
                                      else [''canonical paper candidate validation failed''])
             else gate VERDICT_PASS [''canonical PAPER candidate validation passed; no live execution authority''])"

definition all_wait :: "string \<Rightarrow> gate_signal list res" where
  "all_wait reason =
     rmapM (\<lambda>name. make_gate name VERDICT_WAIT [reason] None) [''risk_engine'', ''portfolio_engine'', ''security_guard'']"

definition three_gates ::
  "pyval kv \<Rightarrow> string \<Rightarrow> candidate_validation option option \<Rightarrow> evidence_packet \<Rightarrow> gate_signal list res" where
  "three_gates db decision_id authorization packet =
     rbind (risk_gate db decision_id packet) (\<lambda>risk.
     rbind (portfolio_gate db decision_id packet) (\<lambda>portfolio.
     rbind (security_gate authorization packet) (\<lambda>security. Inr [risk, portfolio, security])))"

definition pre_decision :: "pyval kv \<Rightarrow> evidence_packet \<Rightarrow> gate_signal list res" where
  "pre_decision db packet =
     (let decision_id = strip (ep_candidate_id packet)
      in if decision_id = [] then all_wait ''missing decision/evidence identity''
         else three_gates db decision_id None packet)"

definition provider_call ::
  "pyval kv \<Rightarrow> string \<Rightarrow> candidate_validation option \<Rightarrow> evidence_packet \<Rightarrow> gate_signal list res" where
  "provider_call db authorization_id validation packet =
     (let decision_id = strip authorization_id
      in if decision_id = [] \<or> strip (ep_candidate_id packet) \<noteq> decision_id
         then all_wait ''decision/evidence identity mismatch''
         else three_gates db decision_id (Some validation) packet)"

section \<open>What a passing gate has read\<close>

lemma make_gate_Inr: "make_gate n v rs m = Inr g \<Longrightarrow>
    g = \<lparr>gs_gate = n, gs_verdict = v, gs_reasons = rs, gs_max_notional_usdt = m\<rparr>"
  by (simp add: make_gate_def Let_def res_simps)

text \<open>The stored value of a key that is a JSON object.\<close>

definition stored_object :: "pyval kv \<Rightarrow> string \<Rightarrow> string \<Rightarrow> (string \<times> pyval) list \<Rightarrow> bool" where
  "stored_object db ns key doc = (\<exists>row. get_json db ns key = Inr (Some row) \<and> kv_doc row = PyDict doc)"

lemma record_value_Some: "record_value row = Some doc \<longleftrightarrow> (\<exists>r. row = Some r \<and> kv_doc r = PyDict doc)"
  by (auto simp: record_value_def split: option.splits pyval.splits)

lemma risk_gate_pass:
  assumes "risk_gate db decision_id packet = Inr g" "gs_verdict g = VERDICT_PASS"
  obtains doc assessment where "stored_object db ''risk_assessments'' (''risk-'' @ decision_id) doc"
    "text_or_empty (py_get doc ''decision_id'' PyNone) = decision_id" "shown_texts (ep_risk_blocks packet) = []"
    "py_get doc ''assessment'' PyNone = PyDict assessment" "risk_reasons doc assessment = Inr []"
    "py_get assessment ''allowed_virtual'' PyNone = PyBool True"
proof -
  from assms obtain doc stored where v: "stored_object db ''risk_assessments'' (''risk-'' @ decision_id) doc"
    "text_or_empty (py_get doc ''decision_id'' PyNone) = decision_id" "shown_texts (ep_risk_blocks packet) = []"
    "risk_reasons doc (mapping_or_empty (py_get doc ''assessment'' PyNone)) = Inr []"
    "py_get (mapping_or_empty (py_get doc ''assessment'' PyNone)) ''allowed_virtual'' PyNone = PyBool True"
    by (auto simp: risk_gate_def Let_def res_simps stored_object_def record_value_Some dest!: make_gate_Inr
        split: if_splits option.splits)
  then show thesis using that
    by (cases "py_get doc ''assessment'' PyNone") (auto simp: mapping_or_empty_def py_get_def)
qed

lemma portfolio_gate_pass:
  assumes "portfolio_gate db decision_id packet = Inr g" "gs_verdict g = VERDICT_PASS"
  obtains doc cash equity where
    "stored_object db ''portfolio_snapshots'' (strip (ep_portfolio_snapshot_id packet)) doc"
    "text_or_empty (py_get doc ''decision_id'' PyNone) = decision_id"
    "lower (text_or_empty (py_get doc ''environment'' PyNone)) = ''paper''"
    "rs_optional (py_get doc ''cash'' PyNone) = Inr (Some cash)" "\<not> fle cash (Fin 0)"
    "rs_optional (py_get doc ''equity'' PyNone) = Inr (Some equity)" "\<not> fle equity (Fin 0)"
    "gs_max_notional_usdt g = Some (py_min cash equity)"
proof -
  let ?key = "strip (ep_portfolio_snapshot_id packet)"
  from assms obtain row where row: "get_json db ''portfolio_snapshots'' ?key = Inr row"
    by (cases "get_json db ''portfolio_snapshots'' ?key")
      (auto simp: portfolio_gate_def Let_def dest!: make_gate_Inr split: if_splits)
  from assms row obtain doc where doc: "record_value row = Some doc"
    by (cases "record_value row") (auto simp: portfolio_gate_def Let_def dest!: make_gate_Inr split: if_splits)
  from assms row doc have lineage: "text_or_empty (py_get doc ''decision_id'' PyNone) = decision_id"
    "lower (text_or_empty (py_get doc ''environment'' PyNone)) = ''paper''"
    by (auto simp: portfolio_gate_def Let_def dest!: make_gate_Inr split: if_splits)
  from assms row doc lineage obtain cash equity where
    money: "rs_optional (py_get doc ''cash'' PyNone) = Inr (Some cash)"
      "rs_optional (py_get doc ''equity'' PyNone) = Inr (Some equity)"
    by (cases "rs_optional (py_get doc ''cash'' PyNone)"; cases "rs_optional (py_get doc ''equity'' PyNone)")
      (auto simp: portfolio_gate_def Let_def dest!: make_gate_Inr split: if_splits option.splits)
  from assms row doc lineage money
  have "\<not> fle cash (Fin 0)" "\<not> fle equity (Fin 0)" "gs_max_notional_usdt g = Some (py_min cash equity)"
    by (auto simp: portfolio_gate_def Let_def dest!: make_gate_Inr split: if_splits)
  moreover have "stored_object db ''portfolio_snapshots'' ?key doc"
    using row doc by (auto simp: stored_object_def record_value_Some)
  ultimately show thesis using that lineage money by blast
qed

lemma security_gate_pass:
  assumes "security_gate authorization packet = Inr g" "gs_verdict g = VERDICT_PASS"
  shows "ep_environment packet = PAPER \<and> strip (ep_security_approval_id packet) = []"
  using assms by (auto simp: security_gate_def Let_def dest!: make_gate_Inr split: if_splits)

lemma three_gates_pass:
  assumes "three_gates db decision_id authorization packet = Inr gates"
    and "\<And>g. g \<in> set gates \<Longrightarrow> gs_verdict g = VERDICT_PASS"
  obtains risk portfolio security where "risk_gate db decision_id packet = Inr risk" "gs_verdict risk = VERDICT_PASS"
    "portfolio_gate db decision_id packet = Inr portfolio" "gs_verdict portfolio = VERDICT_PASS"
    "security_gate authorization packet = Inr security" "gs_verdict security = VERDICT_PASS"
    "gates = [risk, portfolio, security]"
  using assms by (fastforce simp: three_gates_def res_simps)

lemma all_wait_waits: "all_wait reason = Inr gates \<Longrightarrow> \<exists>g\<in>set gates. gs_verdict g = VERDICT_WAIT"
  by (auto simp: all_wait_def res_simps dest!: make_gate_Inr)

lemma evaluate_controller_v2_Inr:
  assumes "evaluate_controller_v2 gc ps gates fr = Inr e"
  obtains recs quality where "recommendations_from_payloads ps = Inr recs"
    "directional_quality_signal ps fr = Inr quality" "decide gc recs quality gates = Inr (ce_controller e)"
    "ce_quality e = quality" "ce_recommendations e = recs" "\<not> ce_execution_authority e"
  using assms by (auto simp: evaluate_controller_v2_def res_simps)

text \<open>A quality above zero was measured on fresh data with a directional news specialist.\<close>

lemma quality_signal_Inr: "quality_signal b q a r = Inr s \<Longrightarrow> dq_blocked s = b \<and> dq_quality_score s = q \<and> dq_agreement s = a"
  by (auto simp: quality_signal_def Let_def res_simps)

lemma directional_quality_news:
  assumes "directional_quality_signal ps fr = Inr q" "recommendations_from_payloads ps = Inr recs"
    and "\<not> dq_blocked q" "dq_quality_score q \<noteq> Fin 0"
  shows "shown_texts fr = [] \<and>
    (\<exists>r\<in>set recs. directional_row r \<and> strip (sr_agent_id r) \<in> set news_directional_agents)"
  using assms
  by (auto simp: directional_quality_signal_def Let_def res_simps list_ex_iff dest!: quality_signal_Inr split: if_splits)

end
