(* ===== verification/Paper_Runtime.thy ===== *)
theory Paper_Runtime
  imports Controller_Runtime
begin

text \<open>
  \<open>decision_quality/candidate_bridge.py\<close>, \<open>save_trading_candidate\<close> of \<open>storage/domain_store.py\<close> and
  \<open>autonomous_trading/canonical_runtime.py\<close>: the gateway of every paper entry. The controller decides
  from the payloads and the stored gates, its direction becomes a candidate, the candidate is
  validated and stored, the decision is stored, and an authorization may be consumed once. Readings
  of the clock, the environment variable of the build and the assessment of the older Decision
  Quality service are arguments. The append-only event table has no counterpart.
\<close>

section \<open>The candidate bridge\<close>

record quality_assessment =
  qa_decision_id :: string
  qa_action :: string
  qa_confidence :: pyfloat
  qa_agreement :: pyfloat
  qa_quality_score :: pyfloat
  qa_blocked :: bool
  qa_reason :: string
  qa_weighted_scores :: "(string \<times> pyfloat) list"
  qa_dissenting_agents :: "string list"
  qa_rejected_agents :: "string list"
  qa_regime :: string
  qa_created_at :: string

definition quality_assessment_to_dict :: "quality_assessment \<Rightarrow> (string \<times> pyval) list" where
  "quality_assessment_to_dict a =
     [(''decision_id'', PyStr (qa_decision_id a)), (''action'', PyStr (qa_action a)),
      (''confidence'', PyFloat (qa_confidence a)), (''agreement'', PyFloat (qa_agreement a)),
      (''quality_score'', PyFloat (qa_quality_score a)), (''blocked'', PyBool (qa_blocked a)),
      (''reason'', PyStr (qa_reason a)),
      (''weighted_scores'', PyDict (map (\<lambda>(k, x). (k, PyFloat x)) (qa_weighted_scores a))),
      (''dissenting_agents'', PyList (map PyStr (qa_dissenting_agents a))),
      (''rejected_agents'', PyList (map PyStr (qa_rejected_agents a))),
      (''regime'', PyStr (qa_regime a)), (''created_at'', PyStr (qa_created_at a))]"

definition unique_texts :: "string list \<Rightarrow> string list" where
  "unique_texts xs = first_occurrences (normalized xs)"

definition effective_decision ::
  "quality_assessment \<Rightarrow> evidence_packet \<Rightarrow> trading_decision \<Rightarrow> pyfloat \<Rightarrow> pyfloat \<Rightarrow> trading_decision \<times> string list" where
  "effective_decision a packet directive min_confidence min_consensus =
     (let action = upper (qa_action a);
          short = report (flt (fmul (qa_confidence a) (Fin 100)) (effective_threshold min_confidence))
                    ''confidence_below_candidate_threshold'' @
                  report (flt (fmul (qa_agreement a) (Fin 100)) (effective_threshold min_consensus))
                    ''consensus_below_candidate_threshold'' @
                  report (card (set (normalized (ep_data_sources packet))) < 3) ''insufficient_independent_data_sources'' @
                  report (normalized (ep_signal_evidence packet) = []) ''missing_signal_evidence''
      in if directive = BLOCK then (BLOCK, [''general_controller_block''])
         else if action = ''BLOCK'' then (BLOCK, [''decision_quality_block''])
         else if qa_blocked a \<or> action \<in> set [''WAIT'', ''HOLD''] then (WAIT, [''decision_quality_wait''])
         else if directive = WAIT then (WAIT, [''general_controller_wait''])
         else if action \<notin> set [''BUY'', ''SELL''] then (BLOCK, [''unsupported_decision_quality_action''])
         else if ep_side packet \<noteq> (if action = ''BUY'' then BUY else SELL) then (BLOCK, [''decision_side_mismatch''])
         else if ep_risk_blocks packet \<noteq> [] then (BLOCK, [''risk_engine_blocks_present''])
         else if ep_market_regime packet = ILLIQUID then (BLOCK, [''illiquid_market_regime''])
         else if ep_market_regime packet = UNKNOWN then (WAIT, [''unknown_market_regime''])
         else if ep_environment packet = MAINNET
         then (BLOCK, [''mainnet_requires_completed_security_guard_pipeline''])
         else if short \<noteq> [] then (WAIT, short) else (ALLOW, []))"

definition bridge_candidate ::
  "quality_assessment \<Rightarrow> evidence_packet \<Rightarrow> trading_decision \<Rightarrow> string list \<Rightarrow> trading_candidate" where
  "bridge_candidate a packet decision reasons =
     \<lparr>tc_candidate_id = ep_candidate_id packet, tc_symbol = ep_symbol packet, tc_category = ep_category packet,
      tc_side = ep_side packet, tc_environment = ep_environment packet,
      tc_market_timestamp_ms = ep_market_timestamp_ms packet,
      tc_received_timestamp_ms = ep_received_timestamp_ms packet,
      tc_reference_price = ep_reference_price packet, tc_data_sources = unique_texts (ep_data_sources packet),
      tc_market_regime = ep_market_regime packet,
      tc_signal_evidence = unique_texts (ep_signal_evidence packet @ [''decision-assessment-'' @ qa_decision_id a] @
        (if ep_prospective_forecast_id packet \<noteq> [] then [''paper-forecast:'' @ ep_prospective_forecast_id packet] else [])),
      tc_news_evidence = unique_texts (ep_news_evidence packet),
      tc_news_assessment_id = ep_news_assessment_id packet,
      tc_portfolio_snapshot_id = ep_portfolio_snapshot_id packet, tc_cost_snapshot_id = ep_cost_snapshot_id packet,
      tc_estimated_fees = ep_estimated_fees packet, tc_estimated_slippage = ep_estimated_slippage packet,
      tc_risk_score = ep_risk_score packet,
      tc_risk_blocks = unique_texts (ep_risk_blocks packet @ (if decision = BLOCK then reasons else [])),
      tc_confidence = round_to 6 (fmul (qa_confidence a) (Fin 100)),
      tc_consensus = round_to 6 (fmul (qa_agreement a) (Fin 100)), tc_decision = decision,
      tc_expires_at_ms = ep_expires_at_ms packet, tc_security_approval_id = ep_security_approval_id packet\<rparr>"

text \<open>\<open>save_trading_candidate\<close> validates an ALLOW again, at the time of the write.\<close>

definition store_identifier :: "string \<Rightarrow> string \<Rightarrow> string res" where
  "store_identifier s field =
     (let text = strip s
      in if text = [] then Inl (ValueError (field @ '' is required''))
         else if 255 < length text then Inl (ValueError (field @ '' is too long'')) else Inr text)"

definition save_trading_candidate :: "pyval kv \<Rightarrow> trading_candidate \<Rightarrow> int \<Rightarrow> (int \<times> pyval kv) res" where
  "save_trading_candidate db c wall_ms =
     rbind (store_identifier (tc_candidate_id c) ''candidate_id'') (\<lambda>cid.
       let v = validate_trading_candidate c wall_ms 2500 (Fin 70) (Fin 70) [] in
       if tc_decision c = ALLOW \<and> (\<not> cv_valid v \<or> cv_decision v \<noteq> ALLOW)
       then Inl (ValueError (''invalid ALLOW candidate: '' @ join ''; '' (cv_errors v)))
       else put_document db ''trading_candidates'' cid (PyDict (candidate_to_dict (c\<lparr>tc_candidate_id := cid\<rparr>))) None wall_ms)"

record candidate_result =
  cr_candidate :: trading_candidate
  cr_validation :: candidate_validation
  cr_stored_version :: int
  cr_general_controller_decision :: trading_decision
  cr_downgrade_reasons :: "string list"

definition bridge_error :: "string \<Rightarrow> py_error" where
  "bridge_error m = CustomError ''CandidateBridgeError'' m"

text \<open>A candidate that fails its validation is blocked; one that fails even then is rejected.\<close>

definition settle_candidate ::
  "trading_candidate \<Rightarrow> int \<Rightarrow> pyfloat \<Rightarrow> pyfloat \<Rightarrow> string list \<Rightarrow>
   (trading_candidate \<times> candidate_validation \<times> string list) res" where
  "settle_candidate c now_ms min_confidence min_consensus reasons =
     (let check = (\<lambda>x. validate_trading_candidate x now_ms 2500 min_confidence min_consensus []);
          v = check c; blocked = c\<lparr>tc_decision := BLOCK, tc_risk_blocks := unique_texts (tc_risk_blocks c @ cv_errors v)\<rparr>
      in if cv_valid v then Inr (c, v, unique_texts reasons)
         else if \<not> cv_valid (check blocked)
         then Inl (bridge_error (''structurally invalid candidate evidence: '' @ join ''; '' (cv_errors (check blocked))))
         else Inr (blocked, check blocked, unique_texts (reasons @ cv_errors v)))"

definition build_and_store ::
  "pyval kv \<Rightarrow> quality_assessment \<Rightarrow> evidence_packet \<Rightarrow> trading_decision \<Rightarrow> int \<Rightarrow> pyfloat \<Rightarrow> pyfloat \<Rightarrow> int \<Rightarrow>
   (candidate_result \<times> pyval kv) res" where
  "build_and_store db a packet directive now_ms min_confidence min_consensus wall_ms =
     (if ep_candidate_id packet \<noteq> qa_decision_id a
      then Inl (bridge_error ''candidate_id must equal the immutable decision_id'')
      else let (decision, reasons) = effective_decision a packet directive min_confidence min_consensus in
        rbind (settle_candidate (bridge_candidate a packet decision reasons) now_ms min_confidence min_consensus reasons) (\<lambda>(c, v, downgrades).
        rbind (save_trading_candidate db c wall_ms) (\<lambda>(version, db').
          Inr (\<lparr>cr_candidate = c, cr_validation = v, cr_stored_version = version,
                cr_general_controller_decision = directive, cr_downgrade_reasons = downgrades\<rparr>, db'))))"

section \<open>The decision of an entry\<close>

definition runtime_error :: "string \<Rightarrow> py_error" where
  "runtime_error m = CustomError ''CanonicalPaperRuntimeError'' m"

definition clean_decision_id :: "string \<Rightarrow> string res" where
  "clean_decision_id s =
     (let clean = strip s
      in if clean = [] \<or> 170 < length clean then Inl (runtime_error ''decision_id is invalid'') else Inr clean)"

definition packet_freshness_errors :: "evidence_packet \<Rightarrow> int \<Rightarrow> string list" where
  "packet_freshness_errors packet now_ms =
     report (now_ms \<le> 0) ''now_ms must be positive'' @
     report (ep_market_timestamp_ms packet \<le> 0) ''market_timestamp_ms must be positive'' @
     report (ep_received_timestamp_ms packet < ep_market_timestamp_ms packet)
       ''received_timestamp_ms must not precede market_timestamp_ms'' @
     report (now_ms + 1000 < ep_market_timestamp_ms packet) ''market_timestamp_ms is too far in the future'' @
     report (now_ms + 1000 < ep_received_timestamp_ms packet) ''received_timestamp_ms is too far in the future'' @
     report (ep_expires_at_ms packet \<le> now_ms) ''candidate is expired'' @
     report (2500 < now_ms - ep_market_timestamp_ms packet) ''market data is stale''"

definition controller_packet :: "evidence_packet \<Rightarrow> trading_intent \<Rightarrow> evidence_packet \<times> trading_decision" where
  "controller_packet packet intent =
     (case intent of INTENT_BUY \<Rightarrow> (packet\<lparr>ep_side := BUY\<rparr>, ALLOW)
      | INTENT_SELL \<Rightarrow> (packet\<lparr>ep_side := SELL\<rparr>, ALLOW)
      | INTENT_WAIT \<Rightarrow> (packet, WAIT))"

definition unit_share :: "pyfloat \<Rightarrow> pyfloat" where
  "unit_share x = py_min (py_max (fdiv_by x 100) (Fin 0)) (Fin 1)"

definition effective_assessment :: "quality_assessment \<Rightarrow> controller_evaluation \<Rightarrow> quality_assessment" where
  "effective_assessment legacy e =
     (let c = ce_controller e; q = ce_quality e
      in legacy\<lparr>qa_action := intent_value (gd_final_intent c), qa_confidence := unit_share (gd_confidence c),
           qa_agreement := unit_share (dq_agreement q), qa_quality_score := unit_share (dq_quality_score q),
           qa_blocked := gd_blocked c, qa_reason := gd_reason c,
           qa_weighted_scores := [(''BUY'', gd_buy_score c), (''SELL'', gd_sell_score c)]\<rparr>)"

definition authorization_reason :: "bool \<Rightarrow> trading_decision \<Rightarrow> quality_assessment \<Rightarrow> candidate_result \<Rightarrow> string" where
  "authorization_reason authorized decision a r =
     (if authorized
      then ''General Controller V2 finalized direction and canonical TradingCandidate allowed PAPER entry''
      else let unique = unique_texts (cr_downgrade_reasons r @ cv_errors (cr_validation r) @
                 (if qa_reason a \<noteq> [] then [qa_reason a] else []));
               detail = join ''; '' (take 8 unique)
           in decision_value decision @ '': '' @
              (if detail \<noteq> [] then detail else ''canonical V2 decision did not authorize paper entry''))"

record paper_authorization =
  pa_decision_id :: string
  pa_authorized :: bool
  pa_decision :: trading_decision
  pa_reason :: string
  pa_assessment :: quality_assessment
  pa_candidate_result :: candidate_result
  pa_execution_authority :: bool

definition gate_to_dict :: "gate_signal \<Rightarrow> pyval" where
  "gate_to_dict g = PyDict [(''gate'', PyStr (gs_gate g)), (''verdict'', PyStr (verdict_value (gs_verdict g))),
     (''reasons'', PyList (map PyStr (gs_reasons g))),
     (''max_notional_usdt'', case gs_max_notional_usdt g of None \<Rightarrow> PyNone | Some x \<Rightarrow> PyFloat x)]"

definition v2_decision_payload ::
  "string \<Rightarrow> evidence_packet \<Rightarrow> evidence_packet \<Rightarrow> trading_decision \<Rightarrow> quality_assessment \<Rightarrow> controller_evaluation \<Rightarrow>
   gate_signal list \<Rightarrow> candidate_result \<Rightarrow> bool \<Rightarrow> int \<Rightarrow> pyval" where
  "v2_decision_payload decision_id packet effective directive legacy e gates r authorized now_ms =
     (let q = ce_quality e in PyDict
       [(''decision_id'', PyStr decision_id), (''decided_at_ms'', PyInt now_ms), (''paper_authority'', PyBool True),
        (''paper_decision_owner'', PyStr ''general_controller_v2''),
        (''decision_quality_role'', PyStr ''advisory_quality_only''), (''risk_security_role'', PyStr ''veto_only''),
        (''portfolio_role'', PyStr ''sizing_limits_only''),
        (''legacy_provider_directive'', PyStr (decision_value directive)),
        (''legacy_provider_directive_authority'', PyBool False),
        (''legacy_decision_quality'', PyDict (quality_assessment_to_dict legacy)),
        (''directional_quality'', PyDict [(''blocked'', PyBool (dq_blocked q)),
          (''quality_score'', PyFloat (dq_quality_score q)), (''agreement'', PyFloat (dq_agreement q)),
          (''reason'', PyStr (dq_reason q))]),
        (''controller'', PyDict (gc_decision_to_dict (ce_controller e))),
        (''gates'', PyList (map gate_to_dict gates)),
        (''source_packet_side'', PyStr (side_value (ep_side packet))),
        (''candidate_side'', PyStr (side_value (ep_side effective))),
        (''candidate_decision'', PyStr (decision_value (tc_decision (cr_candidate r)))),
        (''candidate_validation_valid'', PyBool (cv_valid (cr_validation r))),
        (''candidate_validation_errors'', PyList (map PyStr (cv_errors (cr_validation r)))),
        (''authorized'', PyBool authorized), (''execution_authority'', PyBool False)])"

text \<open>
  The decision row is written once. A row that is there is never equal to the payload: the payload
  holds tuples (the agents of the controller), the stored value holds lists in their place. So both
  comparisons of the source end in the collision error. The row may appear between the read and the
  write (\<open>other\<close>).
\<close>

definition persist_v2_decision ::
  "(pyval kv \<Rightarrow> pyval kv) \<Rightarrow> pyval kv \<Rightarrow> string \<Rightarrow> pyval \<Rightarrow> int \<Rightarrow> unit res \<times> pyval kv" where
  "persist_v2_decision other db decision_id payload wall_ms =
     (case get_json db ''paper_v2_decisions'' decision_id of
        Inl e \<Rightarrow> (Inl e, db)
      | Inr (Some row) \<Rightarrow> (Inl (runtime_error ''immutable V2 decision collision''), db)
      | Inr None \<Rightarrow>
          (case put_document (other db) ''paper_v2_decisions'' decision_id payload (Some 0) wall_ms of
             Inr (_, db') \<Rightarrow> (Inr (), db')
           | Inl VersionConflict \<Rightarrow> (Inl (runtime_error ''immutable V2 decision collision''), other db)
           | Inl e \<Rightarrow> (Inl e, other db)))"

text \<open>The checks before the assessment.\<close>

definition entry_checks :: "pyval kv \<Rightarrow> string \<Rightarrow> (string \<times> pyval) list list \<Rightarrow> evidence_packet \<Rightarrow> string res" where
  "entry_checks db decision_id payloads packet =
     rbind (clean_decision_id decision_id) (\<lambda>clean.
     rbind (get_json db ''paper_authorization_consumption'' clean) (\<lambda>row.
       if row \<noteq> None then Inl (runtime_error ''paper authorization has already been consumed'')
       else if ep_candidate_id packet \<noteq> clean then Inl (runtime_error ''candidate_id must equal decision_id'')
       else if ep_environment packet \<noteq> PAPER
       then Inl (runtime_error ''canonical paper runtime accepts PAPER candidates only'')
       else if payloads = [] then Inl (runtime_error ''at least one independent agent payload is required'')
       else Inr clean))"

record entry_request =
  er_decision_id :: string
  er_payloads :: "(string \<times> pyval) list list"
  er_packet :: evidence_packet
  er_directive :: trading_decision
  er_now_ms :: int
  er_min_confidence :: pyfloat
  er_min_consensus :: pyfloat

text \<open>
  The part that follows the assessment \<open>legacy\<close> of the older service: gates, controller, candidate;
  then the flag, the stored decision and the authorization.
\<close>

record entry_outcome =
  eo_gates :: "gate_signal list"
  eo_evaluation :: controller_evaluation
  eo_effective :: evidence_packet
  eo_result :: candidate_result

definition decide_entry ::
  "int \<Rightarrow> pyval kv \<Rightarrow> entry_request \<Rightarrow> quality_assessment \<Rightarrow> (entry_outcome \<times> pyval kv) res" where
  "decide_entry wall_ms db q legacy =
     rbind (pre_decision db (er_packet q)) (\<lambda>gates.
     rbind (evaluate_controller_v2 default_controller (er_payloads q) gates
              (packet_freshness_errors (er_packet q) (er_now_ms q))) (\<lambda>e.
       let (effective, directive) = controller_packet (er_packet q) (gd_final_intent (ce_controller e)) in
       rbind (build_and_store db (effective_assessment legacy e) effective directive (er_now_ms q)
                (er_min_confidence q) (er_min_consensus q) wall_ms) (\<lambda>(r, db').
         Inr (\<lparr>eo_gates = gates, eo_evaluation = e, eo_effective = effective, eo_result = r\<rparr>, db'))))"

definition entry_authorized :: "entry_outcome \<Rightarrow> bool" where
  "entry_authorized x \<longleftrightarrow>
     cv_valid (cr_validation (eo_result x)) \<and> tc_decision (cr_candidate (eo_result x)) = ALLOW \<and>
     \<not> gd_blocked (ce_controller (eo_evaluation x)) \<and>
     gd_final_intent (ce_controller (eo_evaluation x)) \<noteq> INTENT_WAIT"

definition authorize_entry ::
  "(pyval kv \<Rightarrow> pyval kv) \<Rightarrow> int \<Rightarrow> int \<Rightarrow> pyval kv \<Rightarrow> string \<Rightarrow> entry_request \<Rightarrow> quality_assessment \<Rightarrow>
   paper_authorization res \<times> pyval kv" where
  "authorize_entry other save_ms persist_ms db clean_id q legacy =
     (case decide_entry save_ms db q legacy of
        Inl err \<Rightarrow> (Inl err, db)
      | Inr (x, db') \<Rightarrow>
          let r = eo_result x; decision = tc_decision (cr_candidate r); authorized = entry_authorized x;
              a = effective_assessment legacy (eo_evaluation x);
              payload = v2_decision_payload clean_id (er_packet q) (eo_effective x) (er_directive q) legacy
                          (eo_evaluation x) (eo_gates x) r authorized (er_now_ms q)
          in (case persist_v2_decision other db' clean_id payload persist_ms of
                (Inl err, db'') \<Rightarrow> (Inl err, db'')
              | (Inr _, db'') \<Rightarrow>
                  (Inr \<lparr>pa_decision_id = clean_id, pa_authorized = authorized, pa_decision = decision,
                        pa_reason = authorization_reason authorized decision a r, pa_assessment = a,
                        pa_candidate_result = r, pa_execution_authority = False\<rparr>, db'')))"

text \<open>\<open>assess_entry\<close>; \<open>evaluate\<close> stands for the older Decision Quality service and what it stores.\<close>

definition assess_entry ::
  "(pyval kv \<Rightarrow> quality_assessment res \<times> pyval kv) \<Rightarrow> (pyval kv \<Rightarrow> pyval kv) \<Rightarrow> int \<Rightarrow> int \<Rightarrow> pyval kv \<Rightarrow>
   entry_request \<Rightarrow> paper_authorization res \<times> pyval kv" where
  "assess_entry evaluate other save_ms persist_ms db q =
     (case entry_checks db (er_decision_id q) (er_payloads q) (er_packet q) of
        Inl err \<Rightarrow> (Inl err, db)
      | Inr clean \<Rightarrow>
          (case evaluate db of
             (Inl err, db') \<Rightarrow> (Inl err, db')
           | (Inr legacy, db') \<Rightarrow> authorize_entry other save_ms persist_ms db' clean q legacy))"

section \<open>Consumption\<close>

definition consume_once ::
  "pyval kv \<Rightarrow> string \<Rightarrow> string \<Rightarrow> string \<Rightarrow> string \<Rightarrow> int \<Rightarrow> int \<Rightarrow> (pyval \<times> pyval kv) res" where
  "consume_once db decision_id candidate_id environment decision consumed_at_ms wall_ms =
     (if consumed_at_ms \<le> 0 then Inl (runtime_error ''consumed_at_ms must be positive'')
      else let payload = PyDict [(''decision_id'', PyStr decision_id), (''candidate_id'', PyStr candidate_id),
                 (''consumed_at_ms'', PyInt consumed_at_ms), (''environment'', PyStr environment),
                 (''decision'', PyStr decision), (''paper_decision_owner'', PyStr ''general_controller_v2''),
                 (''execution_authority'', PyBool False)]
           in case put_json db ''paper_authorization_consumption'' decision_id payload (Some 0) wall_ms of
                Inr (_, db') \<Rightarrow> Inr (payload, db')
              | Inl VersionConflict \<Rightarrow> Inl (runtime_error ''paper authorization was already consumed'')
              | Inl e \<Rightarrow> Inl e)"

definition consume_authorization :: "pyval kv \<Rightarrow> paper_authorization \<Rightarrow> int \<Rightarrow> int \<Rightarrow> (pyval \<times> pyval kv) res" where
  "consume_authorization db a consumed_at_ms wall_ms =
     (let c = cr_candidate (pa_candidate_result a)
      in if \<not> pa_authorized a \<or> pa_decision a \<noteq> ALLOW
         then Inl (runtime_error ''only an authorized ALLOW may be consumed'')
         else if consumed_at_ms \<le> 0 then Inl (runtime_error ''consumed_at_ms must be positive'')
         else if tc_candidate_id c \<noteq> pa_decision_id a
         then Inl (runtime_error ''authorization candidate identity mismatch'')
         else consume_once db (pa_decision_id a) (tc_candidate_id c) (environment_value (tc_environment c))
                (decision_value (tc_decision c)) consumed_at_ms wall_ms)"

definition upper_text :: "(string \<times> pyval) list \<Rightarrow> string \<Rightarrow> string" where
  "upper_text d k = upper (text_or_empty (py_get d k PyNone))"

definition staged_decision_ok :: "(string \<times> pyval) list \<Rightarrow> bool" where
  "staged_decision_ok d \<longleftrightarrow>
     py_get d ''authorized'' PyNone = PyBool True \<and> py_get d ''candidate_validation_valid'' PyNone = PyBool True \<and>
     upper_text d ''candidate_decision'' = ''ALLOW'' \<and>
     upper_text (mapping_or_empty (py_get d ''controller'' PyNone)) ''final_intent'' \<in> set [''BUY'', ''SELL'']"

definition staged_candidate_ok :: "string \<Rightarrow> (string \<times> pyval) list \<Rightarrow> bool" where
  "staged_candidate_ok cid c \<longleftrightarrow>
     text_or_empty (py_get c ''candidate_id'' PyNone) = cid \<and>
     lower (text_or_empty (py_get c ''environment'' PyNone)) = ''paper'' \<and> upper_text c ''decision'' = ''ALLOW''"

definition recover_staged_authorization ::
  "pyval kv \<Rightarrow> string \<Rightarrow> string \<Rightarrow> int \<Rightarrow> int \<Rightarrow> (pyval \<times> pyval kv) res" where
  "recover_staged_authorization db decision_id candidate_id consumed_at_ms wall_ms =
     rbind (clean_decision_id decision_id) (\<lambda>clean.
     rbind (clean_decision_id candidate_id) (\<lambda>cid.
       if cid \<noteq> clean then Inl (runtime_error ''staged authorization candidate identity mismatch'')
       else rbind (get_json db ''paper_v2_decisions'' clean) (\<lambda>decision_row.
         case record_value decision_row of
           None \<Rightarrow> Inl (runtime_error ''durable V2 decision is unavailable'')
         | Some d \<Rightarrow>
             if \<not> staged_decision_ok d
             then Inl (runtime_error ''durable V2 decision does not authorize PAPER execution'')
             else rbind (get_json db ''trading_candidates'' cid) (\<lambda>candidate_row.
               case record_value candidate_row of
                 None \<Rightarrow> Inl (runtime_error ''durable TradingCandidate is unavailable'')
               | Some c \<Rightarrow>
                   if \<not> staged_candidate_ok cid c
                   then Inl (runtime_error ''durable TradingCandidate is not executable PAPER evidence'')
                   else consume_once db clean cid ''paper'' ''ALLOW'' consumed_at_ms wall_ms))))"

section \<open>An authorization is used once\<close>

definition consumed :: "pyval kv \<Rightarrow> string \<Rightarrow> bool" where
  "consumed db decision_id \<longleftrightarrow> 0 < kv_current (db (''paper_authorization_consumption'', decision_id))"

lemma consumption_namespace: "db_identifier ''paper_authorization_consumption'' n = Inr ''paper_authorization_consumption''"
  by (rule db_identifier_clean) code_simp+

lemma consumed_evolves: "consumed db i \<Longrightarrow> kv_evolves db db' \<Longrightarrow> consumed db' i"
  by (fastforce simp: consumed_def kv_evolves_def kv_current_def split: option.splits)

lemma consume_once_Inr:
  assumes "consume_once db i c env d t wall = Inr (p, db')"
  shows "\<not> consumed db (strip i) \<and> consumed db' (strip i) \<and> kv_evolves db db'"
proof -
  obtain n where put: "put_json db ''paper_authorization_consumption'' i p (Some 0) wall = Inr (n, db')"
    using assms by (auto simp: consume_once_def Let_def split: if_splits sum.splits py_error.splits)
  obtain ns k where w: "db_identifier ''paper_authorization_consumption'' ''namespace'' = Inr ns"
    "db_identifier i ''key'' = Inr k" "n = kv_current (db (ns, k)) + 1" "Some (0 :: int) = None \<or> Some 0 = Some (n - 1)"
    "db' = db((ns, k) \<mapsto> \<lparr>kv_doc = p, kv_version = n, kv_updated_at_ms = wall\<rparr>)"
    by (rule put_json_Inr [OF put])
  have "ns = ''paper_authorization_consumption''" using w(1) unfolding consumption_namespace by simp
  moreover have "k = strip i" using w(2) by (rule db_identifier_Inr)
  ultimately have "kv_current (db (''paper_authorization_consumption'', strip i)) = 0 \<and>
      kv_current (db' (''paper_authorization_consumption'', strip i)) = 1"
    using w(3-5) by (simp add: kv_current_def)
  then show ?thesis using put_json_evolves [OF put] by (simp add: consumed_def)
qed

lemma consume_authorization_Inr:
  assumes "consume_authorization db a t wall = Inr (p, db')"
  shows "\<not> consumed db (strip (pa_decision_id a)) \<and> consumed db' (strip (pa_decision_id a)) \<and> kv_evolves db db'"
  using assms by (auto simp: consume_authorization_def Let_def dest: consume_once_Inr split: if_splits)

lemma recover_Inr:
  assumes "recover_staged_authorization db i c t wall = Inr (p, db')"
  shows "\<not> consumed db (strip i) \<and> consumed db' (strip i) \<and> kv_evolves db db'"
proof -
  obtain clean where "clean_decision_id i = Inr clean" "consume_once db clean clean ''paper'' ''ALLOW'' t wall = Inr (p, db')"
    using assms
    by (auto simp: recover_staged_authorization_def res_simps split: if_splits option.splits)
  moreover from this have "clean = strip i" by (auto simp: clean_decision_id_def Let_def split: if_splits)
  ultimately show ?thesis using consume_once_Inr [of db clean] by simp
qed

lemma entry_checks_Inr:
  "entry_checks db i payloads packet = Inr clean \<Longrightarrow>
     clean = strip i \<and> clean \<noteq> [] \<and> length clean \<le> 170 \<and> db (''paper_authorization_consumption'', clean) = None \<and>
     ep_candidate_id packet = clean \<and> ep_environment packet = PAPER \<and> payloads \<noteq> []"
  by (auto simp: entry_checks_def clean_decision_id_def Let_def res_simps get_json_def consumption_namespace
      dest!: db_identifier_Inr split: if_splits)

lemma assess_entry_Inr:
  assumes "assess_entry evaluate other save_ms persist_ms db q = (Inr a, db')"
  obtains legacy where
    "entry_checks db (er_decision_id q) (er_payloads q) (er_packet q) = Inr (strip (er_decision_id q))"
    "authorize_entry other save_ms persist_ms (snd (evaluate db)) (strip (er_decision_id q)) q legacy = (Inr a, db')"
proof -
  obtain clean where c: "entry_checks db (er_decision_id q) (er_payloads q) (er_packet q) = Inr clean"
    using assms by (auto simp: assess_entry_def split: sum.splits)
  with entry_checks_Inr [OF c] assms show thesis
    by (cases "evaluate db"; cases "fst (evaluate db)") (auto simp: assess_entry_def intro!: that)
qed

section \<open>What an authorized entry rests on\<close>

lemma decide_entry_Inr:
  assumes "decide_entry wall db q legacy = Inr (x, db')"
  obtains directive where
    "pre_decision db (er_packet q) = Inr (eo_gates x)"
    "evaluate_controller_v2 default_controller (er_payloads q) (eo_gates x)
       (packet_freshness_errors (er_packet q) (er_now_ms q)) = Inr (eo_evaluation x)"
    "controller_packet (er_packet q) (gd_final_intent (ce_controller (eo_evaluation x))) = (eo_effective x, directive)"
    "build_and_store db (effective_assessment legacy (eo_evaluation x)) (eo_effective x) directive (er_now_ms q)
       (er_min_confidence q) (er_min_consensus q) wall = Inr (eo_result x, db')"
proof -
  from assms obtain gates e where g: "pre_decision db (er_packet q) = Inr gates"
    "evaluate_controller_v2 default_controller (er_payloads q) gates
       (packet_freshness_errors (er_packet q) (er_now_ms q)) = Inr e"
    by (auto simp: decide_entry_def res_simps)
  obtain effective directive where
    "controller_packet (er_packet q) (gd_final_intent (ce_controller e)) = (effective, directive)" by fastforce
  with assms g that [of directive] show thesis by (auto simp: decide_entry_def res_simps)
qed

lemma authorize_entry_Inr:
  assumes "authorize_entry other save_ms persist_ms db clean q legacy = (Inr a, db')"
  obtains x db1 where "decide_entry save_ms db q legacy = Inr (x, db1)" "pa_authorized a = entry_authorized x"
    "persist_v2_decision other db1 clean (v2_decision_payload clean (er_packet q) (eo_effective x) (er_directive q) legacy
       (eo_evaluation x) (eo_gates x) (eo_result x) (pa_authorized a) (er_now_ms q)) persist_ms = (Inr (), db')"
    "pa_candidate_result a = eo_result x" "pa_decision a = tc_decision (cr_candidate (eo_result x))"
    "pa_decision_id a = clean" "pa_assessment a = effective_assessment legacy (eo_evaluation x)"
    "\<not> pa_execution_authority a"
  using assms by (auto simp: authorize_entry_def Let_def split: sum.splits prod.splits)

text \<open>A candidate that stays ALLOW was decided ALLOW and passed its validation as it is.\<close>

lemma bridge_candidate_simps:
  "tc_candidate_id (bridge_candidate a p d rs) = ep_candidate_id p" "tc_decision (bridge_candidate a p d rs) = d"
  "tc_environment (bridge_candidate a p d rs) = ep_environment p" "tc_side (bridge_candidate a p d rs) = ep_side p"
  "tc_portfolio_snapshot_id (bridge_candidate a p d rs) = ep_portfolio_snapshot_id p"
  by (simp_all add: bridge_candidate_def)

lemma controller_packet_direction: "controller_packet p i = (p', d) \<Longrightarrow> i \<noteq> INTENT_WAIT \<Longrightarrow>
    d = ALLOW \<and> p' = p\<lparr>ep_side := if i = INTENT_BUY then BUY else SELL\<rparr>"
  by (cases i) (auto simp: controller_packet_def)

lemma settle_candidate_allow: "settle_candidate c now mc ms reasons = Inr (c', v, ds) \<Longrightarrow> tc_decision c' = ALLOW \<Longrightarrow>
    c' = c \<and> cv_valid v \<and> v = validate_trading_candidate c' now 2500 mc ms []"
  by (auto simp: settle_candidate_def Let_def split: if_splits)

lemma build_and_store_allow:
  assumes "build_and_store db a packet directive now mc ms wall = Inr (r, db')" "tc_decision (cr_candidate r) = ALLOW"
  shows "cr_candidate r = bridge_candidate a packet ALLOW []" "cv_valid (cr_validation r)"
    "cr_validation r = validate_trading_candidate (cr_candidate r) now 2500 mc ms []"
    "save_trading_candidate db (cr_candidate r) wall = Inr (cr_stored_version r, db')"
    "effective_decision a packet directive mc ms = (ALLOW, [])"
proof -
  obtain decision reasons where d: "effective_decision a packet directive mc ms = (decision, reasons)" by fastforce
  from assms(1) have s: "settle_candidate (bridge_candidate a packet decision reasons) now mc ms reasons = Inr (cr_candidate r, cr_validation r, cr_downgrade_reasons r)"
    "save_trading_candidate db (cr_candidate r) wall = Inr (cr_stored_version r, db')"
    by (auto simp: build_and_store_def d res_simps split: if_splits)
  have r: "cr_candidate r = bridge_candidate a packet decision reasons" "cv_valid (cr_validation r)"
    "cr_validation r = validate_trading_candidate (cr_candidate r) now 2500 mc ms []"
    using settle_candidate_allow [OF s(1) assms(2)] by blast+
  with assms(2) have "decision = ALLOW" by (simp add: bridge_candidate_def)
  with d have "reasons = []" by (auto simp: effective_decision_def Let_def split: if_splits)
  with \<open>decision = ALLOW\<close> d r s show "cr_candidate r = bridge_candidate a packet ALLOW []" "cv_valid (cr_validation r)"
    "cr_validation r = validate_trading_candidate (cr_candidate r) now 2500 mc ms []"
    "save_trading_candidate db (cr_candidate r) wall = Inr (cr_stored_version r, db')"
    "effective_decision a packet directive mc ms = (ALLOW, [])" by simp_all
qed

lemma validated_decision: "cv_valid (validate_trading_candidate c now age mc ms ap) \<Longrightarrow>
    cv_decision (validate_trading_candidate c now age mc ms ap) = tc_decision c"
  by (auto simp: validate_trading_candidate_def Let_def split: if_splits)

lemma pre_decision_pass:
  assumes "pre_decision db packet = Inr gates" "\<And>g. g \<in> set gates \<Longrightarrow> gs_verdict g = VERDICT_PASS"
  shows "three_gates db (strip (ep_candidate_id packet)) None packet = Inr gates"
  using assms all_wait_waits by (fastforce simp: pre_decision_def Let_def split: if_splits)

text \<open>The stored evidence of a passing risk gate and of a passing portfolio gate.\<close>

definition risk_evidence :: "pyval kv \<Rightarrow> string \<Rightarrow> bool" where
  "risk_evidence db decision_id \<longleftrightarrow>
     (\<exists>doc assessment. stored_object db ''risk_assessments'' (''risk-'' @ decision_id) doc \<and>
        text_or_empty (py_get doc ''decision_id'' PyNone) = decision_id \<and>
        py_get doc ''assessment'' PyNone = PyDict assessment \<and> risk_reasons doc assessment = Inr [] \<and>
        py_get assessment ''allowed_virtual'' PyNone = PyBool True)"

definition portfolio_evidence :: "pyval kv \<Rightarrow> string \<Rightarrow> string \<Rightarrow> bool" where
  "portfolio_evidence db decision_id snapshot_id \<longleftrightarrow>
     (\<exists>doc cash equity. stored_object db ''portfolio_snapshots'' snapshot_id doc \<and>
        text_or_empty (py_get doc ''decision_id'' PyNone) = decision_id \<and>
        lower (text_or_empty (py_get doc ''environment'' PyNone)) = ''paper'' \<and>
        rs_optional (py_get doc ''cash'' PyNone) = Inr (Some cash) \<and> \<not> fle cash (Fin 0) \<and>
        rs_optional (py_get doc ''equity'' PyNone) = Inr (Some equity) \<and> \<not> fle equity (Fin 0))"

lemma direction_rests_on_stored_evidence:
  assumes "pre_decision db packet = Inr gates"
    and "evaluate_controller_v2 default_controller payloads gates (packet_freshness_errors packet now) = Inr e"
    and "gd_final_intent (ce_controller e) \<noteq> INTENT_WAIT"
  shows "risk_evidence db (strip (ep_candidate_id packet))" "shown_texts (ep_risk_blocks packet) = []"
    "portfolio_evidence db (strip (ep_candidate_id packet)) (strip (ep_portfolio_snapshot_id packet))"
    "2 \<le> length (filter directional_vote (ce_recommendations e))"
    "\<exists>r\<in>set (ce_recommendations e). directional_row r \<and> strip (sr_agent_id r) \<in> set news_directional_agents"
    "shown_texts (packet_freshness_errors packet now) = []"
proof -
  from assms(2) obtain recs quality where e: "recommendations_from_payloads payloads = Inr recs"
    "directional_quality_signal payloads (packet_freshness_errors packet now) = Inr quality"
    "decide default_controller recs quality gates = Inr (ce_controller e)" "ce_recommendations e = recs"
    by (rule evaluate_controller_v2_Inr)
  from decide_direction [OF e(3) assms(3)] obtain p where p: "preliminary default_controller recs quality = Inr p"
    "gd_final_intent (ce_controller e) = gp_intent p" "\<And>g. g \<in> set gates \<Longrightarrow> gs_verdict g = VERDICT_PASS"
    by metis
  from p(2) assms(3) have "gp_intent p \<noteq> INTENT_WAIT" by simp
  note pd = preliminary_direction [OF p(1) this]
  show "2 \<le> length (filter directional_vote (ce_recommendations e))" using pd(4) by (simp add: e(4) default_controller_def)
  have "dq_quality_score quality \<noteq> Fin 0" using pd(2) by (auto simp: default_controller_def)
  from directional_quality_news [OF e(2,1) pd(1) this] e(4)
  show "\<exists>r\<in>set (ce_recommendations e). directional_row r \<and> strip (sr_agent_id r) \<in> set news_directional_agents"
    "shown_texts (packet_freshness_errors packet now) = []" by simp_all
  from three_gates_pass [OF pre_decision_pass [OF assms(1) p(3)] p(3)] obtain risk portfolio where
    g: "risk_gate db (strip (ep_candidate_id packet)) packet = Inr risk" "gs_verdict risk = VERDICT_PASS"
    "portfolio_gate db (strip (ep_candidate_id packet)) packet = Inr portfolio" "gs_verdict portfolio = VERDICT_PASS"
    by metis
  show "risk_evidence db (strip (ep_candidate_id packet))" "shown_texts (ep_risk_blocks packet) = []"
    using risk_gate_pass [OF g(1,2)] unfolding risk_evidence_def by metis+
  show "portfolio_evidence db (strip (ep_candidate_id packet)) (strip (ep_portfolio_snapshot_id packet))"
    using portfolio_gate_pass [OF g(3,4)] unfolding portfolio_evidence_def by metis
qed

lemma save_trading_candidate_Inr:
  assumes "save_trading_candidate db c wall = Inr (n, db')"
  shows "db' (''trading_candidates'', strip (tc_candidate_id c)) =
    Some \<lparr>kv_doc = PyDict (candidate_to_dict (c\<lparr>tc_candidate_id := strip (tc_candidate_id c)\<rparr>)), kv_version = n, kv_updated_at_ms = wall\<rparr>"
proof -
  have ns: "db_identifier ''trading_candidates'' ''namespace'' = Inr ''trading_candidates''"
    by (rule db_identifier_clean) code_simp+
  obtain cid where c: "store_identifier (tc_candidate_id c) ''candidate_id'' = Inr cid"
    "put_json db ''trading_candidates'' cid (PyDict (candidate_to_dict (c\<lparr>tc_candidate_id := cid\<rparr>))) None wall = Inr (n, db')"
    using assms by (auto simp: save_trading_candidate_def Let_def res_simps put_document_Inr split: if_splits)
  have cid: "cid = strip (tc_candidate_id c)" using c(1) by (auto simp: store_identifier_def Let_def split: if_splits)
  obtain m k where "db_identifier ''trading_candidates'' ''namespace'' = Inr m" "db_identifier cid ''key'' = Inr k"
    "n = kv_current (db (m, k)) + 1" "(None :: int option) = None \<or> None = Some (n - 1)"
    "db' = db((m, k) \<mapsto> \<lparr>kv_doc = PyDict (candidate_to_dict (c\<lparr>tc_candidate_id := cid\<rparr>)), kv_version = n, kv_updated_at_ms = wall\<rparr>)"
    by (rule put_json_Inr [OF c(2)])
  then show ?thesis using ns cid by (auto dest: db_identifier_Inr)
qed

lemma persist_v2_decision_Inr:
  assumes "persist_v2_decision other db clean payload wall = (Inr (), db')"
  shows "db' = (other db)((''paper_v2_decisions'', strip clean) \<mapsto>
      \<lparr>kv_doc = payload, kv_version = 1, kv_updated_at_ms = wall\<rparr>)"
proof -
  have ns: "db_identifier ''paper_v2_decisions'' ''namespace'' = Inr ''paper_v2_decisions''"
    by (rule db_identifier_clean) code_simp+
  obtain n where put: "put_json (other db) ''paper_v2_decisions'' clean payload (Some 0) wall = Inr (n, db')"
    using assms by (auto simp: persist_v2_decision_def put_document_Inr split: sum.splits option.splits py_error.splits)
  obtain m k where "db_identifier ''paper_v2_decisions'' ''namespace'' = Inr m" "db_identifier clean ''key'' = Inr k"
    "n = kv_current (other db (m, k)) + 1" "Some (0 :: int) = None \<or> Some 0 = Some (n - 1)"
    "db' = (other db)((m, k) \<mapsto> \<lparr>kv_doc = payload, kv_version = n, kv_updated_at_ms = wall\<rparr>)"
    by (rule put_json_Inr [OF put])
  then show ?thesis using ns by (auto dest: db_identifier_Inr)
qed

text \<open>The trace of an authorized entry: the controller's direction, its candidate, the two stored rows.\<close>

definition authorized_trace ::
  "(pyval kv \<Rightarrow> pyval kv) \<Rightarrow> int \<Rightarrow> int \<Rightarrow> pyval kv \<Rightarrow> string \<Rightarrow> entry_request \<Rightarrow> quality_assessment \<Rightarrow>
   paper_authorization \<Rightarrow> entry_outcome \<Rightarrow> pyval kv \<Rightarrow> pyval kv \<Rightarrow> bool" where
  "authorized_trace other save_ms persist_ms db clean q legacy a x db1 db' \<longleftrightarrow>
     decide_entry save_ms db q legacy = Inr (x, db1) \<and> pa_candidate_result a = eo_result x \<and>
     controller_packet (er_packet q) (gd_final_intent (ce_controller (eo_evaluation x))) = (eo_effective x, ALLOW) \<and>
     gd_final_intent (ce_controller (eo_evaluation x)) \<noteq> INTENT_WAIT \<and>
     cr_candidate (eo_result x) = bridge_candidate (pa_assessment a) (eo_effective x) ALLOW [] \<and>
     cv_valid (cr_validation (eo_result x)) \<and>
     cr_validation (eo_result x) = validate_trading_candidate (cr_candidate (eo_result x)) (er_now_ms q) 2500
       (er_min_confidence q) (er_min_consensus q) [] \<and>
     pa_assessment a = effective_assessment legacy (eo_evaluation x) \<and> pa_decision a = ALLOW \<and> pa_decision_id a = clean \<and>
     db1 (''trading_candidates'', clean) = Some \<lparr>kv_doc = PyDict (candidate_to_dict (cr_candidate (eo_result x))),
       kv_version = cr_stored_version (eo_result x), kv_updated_at_ms = save_ms\<rparr> \<and>
     db' = (other db1)((''paper_v2_decisions'', clean) \<mapsto> \<lparr>kv_doc = v2_decision_payload clean (er_packet q)
       (eo_effective x) (er_directive q) legacy (eo_evaluation x) (eo_gates x) (eo_result x) True (er_now_ms q),
       kv_version = 1, kv_updated_at_ms = persist_ms\<rparr>)"

lemma authorized_entry:
  assumes "entry_checks db0 i (er_payloads q) (er_packet q) = Inr clean"
    and "authorize_entry other save_ms persist_ms db clean q legacy = (Inr a, db')" "pa_authorized a"
  obtains x db1 where "authorized_trace other save_ms persist_ms db clean q legacy a x db1 db'"
proof -
  from assms(2) obtain x db1 where x: "decide_entry save_ms db q legacy = Inr (x, db1)" "pa_authorized a = entry_authorized x"
    "persist_v2_decision other db1 clean (v2_decision_payload clean (er_packet q) (eo_effective x) (er_directive q) legacy
       (eo_evaluation x) (eo_gates x) (eo_result x) (pa_authorized a) (er_now_ms q)) persist_ms = (Inr (), db')"
    "pa_candidate_result a = eo_result x" "pa_decision a = tc_decision (cr_candidate (eo_result x))"
    "pa_decision_id a = clean" "pa_assessment a = effective_assessment legacy (eo_evaluation x)"
    by (rule authorize_entry_Inr)
  from x(2) assms(3) have auth: "tc_decision (cr_candidate (eo_result x)) = ALLOW"
    "gd_final_intent (ce_controller (eo_evaluation x)) \<noteq> INTENT_WAIT" by (simp_all add: entry_authorized_def)
  obtain directive where d: "controller_packet (er_packet q) (gd_final_intent (ce_controller (eo_evaluation x))) =
      (eo_effective x, directive)" "build_and_store db (effective_assessment legacy (eo_evaluation x)) (eo_effective x) directive (er_now_ms q)
       (er_min_confidence q) (er_min_consensus q) save_ms = Inr (eo_result x, db1)"
    using x(1) by (rule decide_entry_Inr)
  note b = build_and_store_allow [OF d(2) auth(1), folded x(7)]
  have clean: "clean = strip clean" "ep_candidate_id (er_packet q) = clean" using entry_checks_Inr [OF assms(1)] by simp_all
  have "tc_candidate_id (cr_candidate (eo_result x)) = clean"
    using b(1) controller_packet_direction [OF d(1) auth(2)] clean(2) by (simp add: bridge_candidate_simps)
  then have rows: "db1 (''trading_candidates'', clean) = Some \<lparr>kv_doc = PyDict (candidate_to_dict (cr_candidate (eo_result x))),
       kv_version = cr_stored_version (eo_result x), kv_updated_at_ms = save_ms\<rparr>"
    using save_trading_candidate_Inr [OF b(4)] clean(1) by (simp add: candidate_to_dict_def)
  have "directive = ALLOW" using controller_packet_direction [OF d(1) auth(2)] by simp
  then have "authorized_trace other save_ms persist_ms db clean q legacy a x db1 db'"
    unfolding authorized_trace_def
    using x(1,4,6,7) d(1) auth b(1,2,3) rows x(5) persist_v2_decision_Inr [OF x(3)] assms(3) clean(1) by simp
  then show thesis by (rule that)
qed

text \<open>Reading a text back from a stored document.\<close>

lemma stored_text: "py_get d k PyNone = PyStr s \<Longrightarrow> text_or_empty (py_get d k PyNone) = s"
  by (simp add: text_or_empty_def py_or_def)

lemma upper_intent: "upper (intent_value i) = intent_value i"
  by (induction i) code_simp+

lemma upper_decision: "upper (decision_value i) = decision_value i"
  by (induction i) code_simp+

lemma lower_environment: "lower (environment_value i) = environment_value i"
  by (induction i) code_simp+

section \<open>Properties\<close>

text \<open>A table with the evidence of decision \<open>d1\<close>, two specialists for BUY, and an older assessment that said WAIT.\<close>

definition sample_packet :: evidence_packet where
  "sample_packet = \<lparr>ep_candidate_id = ''d1'', ep_symbol = ''BTCUSDT'', ep_category = SPOT, ep_side = SELL,
     ep_environment = PAPER, ep_market_timestamp_ms = 900, ep_received_timestamp_ms = 950,
     ep_reference_price = Fin 20, ep_data_sources = [''a'', ''b'', ''c''], ep_market_regime = TREND,
     ep_signal_evidence = [''s''], ep_news_evidence = [], ep_news_assessment_id = ''n1'',
     ep_portfolio_snapshot_id = ''p1'', ep_cost_snapshot_id = ''k1'', ep_estimated_fees = Fin 0,
     ep_estimated_slippage = Fin 0, ep_risk_score = Fin 10, ep_risk_blocks = [], ep_expires_at_ms = 6000,
     ep_security_approval_id = [], ep_prospective_forecast_id = [], ep_prospective_forecast_as_of_ms = None\<rparr>"

definition sample_payload :: "string \<Rightarrow> (string \<times> pyval) list" where
  "sample_payload agent = [(''agent_id'', PyStr agent), (''action'', PyStr ''BUY''), (''confidence'', PyInt 1),
     (''evidence_score'', PyInt 1), (''risk_score'', PyInt 0), (''data_verified'', PyBool True)]"

definition sample_entry_request :: entry_request where
  "sample_entry_request = \<lparr>er_decision_id = ''d1'', er_payloads = [sample_payload ''trend'', sample_payload ''crypto_ai''],
     er_packet = sample_packet, er_directive = BLOCK, er_now_ms = 1000, er_min_confidence = Fin 70, er_min_consensus = Fin 70\<rparr>"

definition sample_legacy :: quality_assessment where
  "sample_legacy = \<lparr>qa_decision_id = ''d1'', qa_action = ''WAIT'', qa_confidence = Fin 0, qa_agreement = Fin 0,
     qa_quality_score = Fin 0, qa_blocked = True, qa_reason = [], qa_weighted_scores = [], qa_dissenting_agents = [],
     qa_rejected_agents = [], qa_regime = ''unknown'', qa_created_at = []\<rparr>"

definition sample_entry_db :: "pyval kv" where
  "sample_entry_db = Map.empty
     ((''risk_assessments'', ''risk-d1'') \<mapsto> \<lparr>kv_doc = PyDict [(''decision_id'', PyStr ''d1''), (''risk_score'', PyInt 10),
        (''assessment'', PyDict [(''allowed_virtual'', PyBool True)])], kv_version = 1, kv_updated_at_ms = 900\<rparr>,
      (''portfolio_snapshots'', ''p1'') \<mapsto> \<lparr>kv_doc = PyDict [(''decision_id'', PyStr ''d1''),
        (''environment'', PyStr ''paper''), (''cash'', PyInt 100), (''equity'', PyInt 100)], kv_version = 1, kv_updated_at_ms = 900\<rparr>)"

abbreviation sample_evaluate :: "pyval kv \<Rightarrow> quality_assessment res \<times> pyval kv" where
  "sample_evaluate db \<equiv> (Inr sample_legacy, db)"

definition sample_authorized_entry :: "paper_authorization res \<times> pyval kv" where
  "sample_authorized_entry = assess_entry sample_evaluate id 1000 1000 sample_entry_db sample_entry_request"

lemma sample_decision_id: "''d1'' = strip (er_decision_id sample_entry_request)"
  by code_simp

lemma sample_entry_consumed:
  obtains a db1 p db2 where "assess_entry sample_evaluate id 1000 1000 sample_entry_db sample_entry_request = (Inr a, db1)"
    "pa_authorized a" "consume_authorization db1 a 2000 2000 = Inr (p, db2)" "strip (pa_decision_id a) = ''d1''"
proof -
  have "case sample_authorized_entry of (Inl _, _) \<Rightarrow> False
      | (Inr a, db1) \<Rightarrow> pa_authorized a \<and> strip (pa_decision_id a) = ''d1'' \<and>
          (case consume_authorization db1 a 2000 2000 of Inl _ \<Rightarrow> False | Inr _ \<Rightarrow> True)" by code_simp
  then show thesis using that
    by (auto simp: sample_authorized_entry_def split: prod.splits sum.splits)
qed

text \<open>
  C11. An authorized paper entry is evidenced: whatever the older assessment said and whatever other
  writers did, its candidate is a PAPER candidate of this decision, on the side the controller chose;
  the stored risk assessment of the decision has no blocker and explicitly allows virtual execution; the
  stored portfolio has cash and equity; at least two verified directional specialists voted, a directional
  news agent among them; the data was at most 2.5 seconds old, from three sources, with confidence
  and consensus of at least 70. The decision row is stored, and no execution authority is granted.
\<close>

theorem authorized_entry_is_evidenced:
  assumes "assess_entry evaluate other save_ms persist_ms db0 q = (Inr a, db')" "pa_authorized a"
    and "clean = strip (er_decision_id q)" "db = snd (evaluate db0)"
    and "isfinite (er_min_confidence q)" "isfinite (er_min_consensus q)"
    and "c = cr_candidate (pa_candidate_result a)"
  shows "tc_candidate_id c = clean \<and> tc_environment c = PAPER \<and> tc_decision c = ALLOW \<and>
    qa_action (pa_assessment a) = (if tc_side c = BUY then ''BUY'' else ''SELL'') \<and>
    risk_evidence db clean \<and> portfolio_evidence db clean (strip (tc_portfolio_snapshot_id c)) \<and>
    (\<exists>recs. recommendations_from_payloads (er_payloads q) = Inr recs \<and> 2 \<le> length (filter directional_vote recs) \<and>
      (\<exists>r\<in>set recs. directional_row r \<and> strip (sr_agent_id r) \<in> set news_directional_agents)) \<and>
    er_now_ms q - tc_market_timestamp_ms c \<le> 2500 \<and> er_now_ms q < tc_expires_at_ms c \<and>
    3 \<le> card (set (normalized (tc_data_sources c))) \<and> tc_risk_blocks c = [] \<and>
    fle (Fin 70) (tc_confidence c) \<and> fle (Fin 70) (tc_consensus c) \<and>
    db' (''paper_v2_decisions'', clean) \<noteq> None \<and> \<not> pa_execution_authority a"
proof -
  obtain legacy where entry: "entry_checks db0 (er_decision_id q) (er_payloads q) (er_packet q) = Inr clean"
    "authorize_entry other save_ms persist_ms db clean q legacy = (Inr a, db')"
    unfolding assms(3,4) using assms(1) by (rule assess_entry_Inr)
  note clean = entry_checks_Inr [OF entry(1)]
  obtain x db1 where t: "authorized_trace other save_ms persist_ms db clean q legacy a x db1 db'"
    by (rule authorized_entry [OF entry assms(2)])
  then have x: "decide_entry save_ms db q legacy = Inr (x, db1)" "pa_candidate_result a = eo_result x"
    "controller_packet (er_packet q) (gd_final_intent (ce_controller (eo_evaluation x))) = (eo_effective x, ALLOW)"
    "gd_final_intent (ce_controller (eo_evaluation x)) \<noteq> INTENT_WAIT"
    "cr_candidate (eo_result x) = bridge_candidate (pa_assessment a) (eo_effective x) ALLOW []"
    "cv_valid (cr_validation (eo_result x))"
    "cr_validation (eo_result x) = validate_trading_candidate (cr_candidate (eo_result x)) (er_now_ms q) 2500
       (er_min_confidence q) (er_min_consensus q) []"
    "pa_assessment a = effective_assessment legacy (eo_evaluation x)"
    unfolding authorized_trace_def by blast+
  have row: "db' (''paper_v2_decisions'', clean) \<noteq> None" using t by (simp add: authorized_trace_def)
  from x(1) obtain directive' where e: "pre_decision db (er_packet q) = Inr (eo_gates x)"
    "evaluate_controller_v2 default_controller (er_payloads q) (eo_gates x)
       (packet_freshness_errors (er_packet q) (er_now_ms q)) = Inr (eo_evaluation x)"
    by (rule decide_entry_Inr)
  have id: "strip (ep_candidate_id (er_packet q)) = clean" using clean by simp
  note stored = direction_rests_on_stored_evidence [OF e x(4), unfolded id]
  have c: "c = bridge_candidate (pa_assessment a) (eo_effective x) ALLOW []" using assms(7) x(2,5) by simp
  note side = controller_packet_direction [OF x(3,4)]
  have allow: "tc_decision c = ALLOW" by (simp add: c bridge_candidate_simps)
  have "candidate_errors c (er_now_ms q) 2500 (effective_threshold (er_min_confidence q))
      (effective_threshold (er_min_consensus q)) [] = []"
  proof -
    let ?v = "validate_trading_candidate c (er_now_ms q) 2500 (er_min_confidence q) (er_min_consensus q) []"
    have "cv_valid ?v" using x(2,6,7) assms(7) by simp
    with validated_decision [OF this] allow have "cv_valid ?v \<and> cv_decision ?v = ALLOW" by simp
    then show ?thesis unfolding validate_allow_iff by simp
  qed
  note v = this [unfolded candidate_errors_Nil_iff allow_errors_Nil_iff [OF allow]]
  have "fle (Fin 70) (tc_confidence c)" "fle (Fin 70) (tc_consensus c)"
    using v threshold_floor [OF _ _ assms(5)] threshold_floor [OF _ _ assms(6)] by blast+
  moreover have "qa_action (pa_assessment a) = (if tc_side c = BUY then ''BUY'' else ''SELL'')"
    using side x(4,8) by (cases "gd_final_intent (ce_controller (eo_evaluation x))")
      (auto simp: c bridge_candidate_simps effective_assessment_def Let_def)
  moreover obtain recs where "recommendations_from_payloads (er_payloads q) = Inr recs"
    "recs = ce_recommendations (eo_evaluation x)" using e(2) by (auto elim: evaluate_controller_v2_Inr)
  moreover have "\<not> pa_execution_authority a" using entry(2) by (rule authorize_entry_Inr)
  ultimately show ?thesis using v stored clean side row allow by (auto simp: c bridge_candidate_simps)
qed

theorem authorized_entry_is_evidenced_witness:
  "\<exists>a db'. assess_entry sample_evaluate id 1000 1000 sample_entry_db sample_entry_request = (Inr a, db') \<and>
     qa_action (pa_assessment a) = (if tc_side (cr_candidate (pa_candidate_result a)) = BUY then ''BUY'' else ''SELL'') \<and>
     risk_evidence sample_entry_db ''d1'' \<and> fle (Fin 70) (tc_confidence (cr_candidate (pa_candidate_result a)))"
proof -
  obtain a db1 p db2 where a: "assess_entry sample_evaluate id 1000 1000 sample_entry_db sample_entry_request = (Inr a, db1)"
    "pa_authorized a" by (rule sample_entry_consumed)
  have "isfinite (er_min_confidence sample_entry_request)" "isfinite (er_min_consensus sample_entry_request)"
    by (simp_all add: sample_entry_request_def)
  from authorized_entry_is_evidenced [OF a sample_decision_id refl this refl] a show ?thesis by auto
qed

text \<open>
  C20. An authorization is used once: when it was consumed, directly or recovered after a crash, then in every
  later state of the table, whatever versioned writes happen in between, the same decision can be
  neither consumed nor recovered again, and no entry is assessed under its id, so none is authorized.
\<close>

theorem authorization_is_single_use:
  assumes "consume_authorization db a t wall = Inr (p, db1) \<and> i = strip (pa_decision_id a) \<or>
      recover_staged_authorization db d c t wall = Inr (p, db1) \<and> i = strip d"
    and "kv_evolves db1 db2"
  shows "(\<forall>a' t' wall'. strip (pa_decision_id a') = i \<longrightarrow> \<not> (\<exists>r. consume_authorization db2 a' t' wall' = Inr r)) \<and>
    (\<forall>d' c' t' wall'. strip d' = i \<longrightarrow> \<not> (\<exists>r. recover_staged_authorization db2 d' c' t' wall' = Inr r)) \<and>
    (\<forall>evaluate other save_ms persist_ms q. strip (er_decision_id q) = i \<longrightarrow>
       \<not> (\<exists>r. fst (assess_entry evaluate other save_ms persist_ms db2 q) = Inr r))"
proof -
  have "consumed db1 i" using assms(1) consume_authorization_Inr recover_Inr by blast
  then have "consumed db2 i" using assms(2) by (rule consumed_evolves)
  moreover from this have "db2 (''paper_authorization_consumption'', i) \<noteq> None"
    by (auto simp: consumed_def kv_current_def split: option.splits)
  moreover from this have "\<not> (\<exists>r. fst (assess_entry evaluate other save_ms persist_ms db2 q) = Inr r)"
    if "strip (er_decision_id q) = i" for evaluate other save_ms persist_ms q
    using that assess_entry_Inr entry_checks_Inr by (metis prod.collapse)
  ultimately show ?thesis using consume_authorization_Inr recover_Inr by (metis surj_pair)
qed

theorem authorization_is_single_use_witness:
  "\<exists>a db1 p db2. assess_entry sample_evaluate id 1000 1000 sample_entry_db sample_entry_request = (Inr a, db1) \<and>
     consume_authorization db1 a 2000 2000 = Inr (p, db2) \<and>
     \<not> (\<exists>r. consume_authorization db2 a 3000 3000 = Inr r) \<and>
     \<not> (\<exists>r. recover_staged_authorization db2 ''d1'' ''d1'' 3000 3000 = Inr r)"
proof -
  obtain a db1 p db2 where a: "assess_entry sample_evaluate id 1000 1000 sample_entry_db sample_entry_request = (Inr a, db1)"
    "consume_authorization db1 a 2000 2000 = Inr (p, db2)" "strip (pa_decision_id a) = ''d1''" by (rule sample_entry_consumed)
  have "strip ''d1'' = ''d1''" by code_simp
  with authorization_is_single_use [OF disjI1 [OF conjI [OF a(2) refl]] kv_evolves_refl] a show ?thesis by metis
qed

text \<open>
  C30. Recovery is exact: after an authorized entry whose candidate row other writers left alone,
  recovering the staged authorization from the table does what consuming the authorization itself
  does, for every time and also when it was already consumed: same answer, same table.
\<close>

theorem recovery_equals_consumption:
  assumes "assess_entry evaluate other save_ms persist_ms db0 q = (Inr a, db1)" "pa_authorized a"
    and "clean = strip (er_decision_id q)"
    and "\<And>x. other x (''trading_candidates'', clean) = x (''trading_candidates'', clean)"
    and "db2 (''trading_candidates'', clean) = db1 (''trading_candidates'', clean)"
      "db2 (''paper_v2_decisions'', clean) = db1 (''paper_v2_decisions'', clean)"
  shows "recover_staged_authorization db2 clean clean t wall = consume_authorization db2 a t wall"
proof -
  obtain legacy where entry: "entry_checks db0 (er_decision_id q) (er_payloads q) (er_packet q) = Inr clean"
    "authorize_entry other save_ms persist_ms (snd (evaluate db0)) clean q legacy = (Inr a, db1)"
    unfolding assms(3) using assms(1) by (rule assess_entry_Inr)
  note clean = entry_checks_Inr [OF entry(1)]
  obtain x db' where t: "authorized_trace other save_ms persist_ms (snd (evaluate db0)) clean q legacy a x db' db1"
    by (rule authorized_entry [OF entry assms(2)])
  note x = t [unfolded authorized_trace_def]
  have cell: "clean_cell ''trading_candidates'' clean" "clean_cell ''paper_v2_decisions'' clean"
    "clean_decision_id clean = Inr clean"
    using clean by (auto simp: clean_decision_id_def Let_def intro!: db_identifier_clean) (code_simp+)?
  have rows: "record_value (db2 (''trading_candidates'', clean)) = Some (candidate_to_dict (cr_candidate (eo_result x)))"
    using assms(4-6) x by (simp add: record_value_def)
  obtain d where d: "v2_decision_payload clean (er_packet q)
       (eo_effective x) (er_directive q) legacy (eo_evaluation x) (eo_gates x) (eo_result x) True (er_now_ms q) = PyDict d"
      "py_get d ''authorized'' PyNone = PyBool True"
      "py_get d ''candidate_validation_valid'' PyNone = PyBool (cv_valid (cr_validation (eo_result x)))"
      "py_get d ''candidate_decision'' PyNone = PyStr (decision_value (tc_decision (cr_candidate (eo_result x))))"
      "py_get d ''controller'' PyNone = PyDict (gc_decision_to_dict (ce_controller (eo_evaluation x)))"
    by (simp add: v2_decision_payload_def Let_def py_get_def)
  have intent: "py_get (gc_decision_to_dict (ce_controller (eo_evaluation x))) ''final_intent'' PyNone =
      PyStr (intent_value (gd_final_intent (ce_controller (eo_evaluation x))))"
    by (simp add: gc_decision_to_dict_def py_get_def)
  have c: "tc_decision (cr_candidate (eo_result x)) = ALLOW" "tc_environment (cr_candidate (eo_result x)) = PAPER"
    "tc_candidate_id (cr_candidate (eo_result x)) = clean"
    using t clean unfolding authorized_trace_def by (auto simp: bridge_candidate_simps dest!: controller_packet_direction)
  have "cv_valid (cr_validation (eo_result x))" "gd_final_intent (ce_controller (eo_evaluation x)) \<noteq> INTENT_WAIT"
    using t unfolding authorized_trace_def by blast+
  moreover have "upper_text d ''candidate_decision'' = ''ALLOW''"
    unfolding upper_text_def stored_text [OF d(4)] upper_decision c(1) by simp
  moreover have "upper_text (gc_decision_to_dict (ce_controller (eo_evaluation x))) ''final_intent'' =
      intent_value (gd_final_intent (ce_controller (eo_evaluation x)))"
    unfolding upper_text_def stored_text [OF intent] upper_intent by simp
  ultimately have dok: "staged_decision_ok d"
    unfolding staged_decision_ok_def d(2,3,5) mapping_or_empty_def
    by (cases "gd_final_intent (ce_controller (eo_evaluation x))") simp_all
  have drow: "record_value (db2 (''paper_v2_decisions'', clean)) = Some d"
    using assms(4-6) x d(1) by (simp add: record_value_def)
  have "py_get (candidate_to_dict (cr_candidate (eo_result x))) ''candidate_id'' PyNone = PyStr clean"
    "py_get (candidate_to_dict (cr_candidate (eo_result x))) ''environment'' PyNone = PyStr (environment_value PAPER)"
    "py_get (candidate_to_dict (cr_candidate (eo_result x))) ''decision'' PyNone = PyStr (decision_value ALLOW)"
    by (simp_all add: candidate_to_dict_def py_get_def c)
  note doc = this [THEN stored_text]
  have ok: "staged_candidate_ok clean (candidate_to_dict (cr_candidate (eo_result x)))"
    unfolding staged_candidate_ok_def upper_text_def doc lower_environment upper_decision by simp
  have reads: "get_json db2 ''trading_candidates'' clean = Inr (db2 (''trading_candidates'', clean))"
    "get_json db2 ''paper_v2_decisions'' clean = Inr (db2 (''paper_v2_decisions'', clean))"
    using cell(1,2) get_json_clean by blast+
  have "recover_staged_authorization db2 clean clean t wall = consume_once db2 clean clean ''paper'' ''ALLOW'' t wall"
    by (simp add: recover_staged_authorization_def cell(3) reads rows drow dok ok res_simps)
  also have "\<dots> = consume_authorization db2 a t wall"
    using x c assms(2) by (simp add: consume_authorization_def Let_def consume_once_def [of _ _ _ _ _ t])
  finally show ?thesis .
qed

theorem recovery_equals_consumption_witness:
  "\<exists>a db1. assess_entry sample_evaluate id 1000 1000 sample_entry_db sample_entry_request = (Inr a, db1) \<and>
     recover_staged_authorization db1 ''d1'' ''d1'' 2000 2000 = consume_authorization db1 a 2000 2000 \<and>
     (\<exists>r. consume_authorization db1 a 2000 2000 = Inr r)"
proof -
  obtain a db1 p db2 where a: "assess_entry sample_evaluate id 1000 1000 sample_entry_db sample_entry_request = (Inr a, db1)"
    "pa_authorized a" "consume_authorization db1 a 2000 2000 = Inr (p, db2)" by (rule sample_entry_consumed)
  with recovery_equals_consumption [OF a(1,2) sample_decision_id, of db1] show ?thesis by auto
qed

end
