(* ===== verification/Decimal_Arithmetic.thy ===== *)
theory Decimal_Arithmetic
  imports Py_Decimal
begin

text \<open>
  The remaining arithmetic of \<open>decimal.Decimal\<close> under the default context: sums, differences,
  negation, absolute value, quotients, rounding to an integral value and the conversion to a float.
  A sum is exact before it is rounded; a quotient is developed to 30 digits with a sticky last digit,
  so that its rounding to 28 digits is that of the exact quotient; an exact quotient keeps an exponent
  as close as it can to the difference of the exponents.
\<close>

section \<open>Operations\<close>

definition dec_int :: "bool \<Rightarrow> nat \<Rightarrow> int" where
  "dec_int s c = (if s then - int c else int c)"

fun dec_add :: "pydec \<Rightarrow> pydec \<Rightarrow> pydec res" where
  "dec_add (DFin s c e) (DFin t d f) =
     (let m = min e f; x = dec_int s c * 10 ^ nat (e - m) + dec_int t d * 10 ^ nat (f - m)
      in dec_fix (if x = 0 then s \<and> t else x < 0) (nat \<bar>x\<bar>) m)"
| "dec_add (DInf s) (DInf t) = (if s = t then Inr (DInf s) else Inl (DecimalSignal ''InvalidOperation''))"
| "dec_add (DInf s) (DFin t d f) = Inr (DInf s)"
| "dec_add (DFin s c e) (DInf t) = Inr (DInf t)"
| "dec_add _ _ = Inr DNaN"

text \<open>\<open>copy_negate\<close>, which is exact; \<open>-d\<close> and \<open>abs(d)\<close> round.\<close>

fun dec_flip :: "pydec \<Rightarrow> pydec" where
  "dec_flip (DFin s c e) = DFin (\<not> s) c e"
| "dec_flip (DInf s) = DInf (\<not> s)"
| "dec_flip DNaN = DNaN"

definition dec_sub :: "pydec \<Rightarrow> pydec \<Rightarrow> pydec res" where
  "dec_sub a b = dec_add a (dec_flip b)"

fun dec_neg :: "pydec \<Rightarrow> pydec res" where
  "dec_neg (DFin s c e) = dec_fix (c \<noteq> 0 \<and> \<not> s) c e"
| "dec_neg d = Inr (dec_flip d)"

fun dec_abs :: "pydec \<Rightarrow> pydec res" where
  "dec_abs (DFin s c e) = dec_fix False c e"
| "dec_abs (DInf s) = Inr (DInf False)"
| "dec_abs DNaN = Inr DNaN"

text \<open>Trailing zeros of an exact quotient are dropped until the ideal exponent is reached.\<close>

fun drop_zeros :: "nat \<Rightarrow> nat \<Rightarrow> int \<Rightarrow> nat \<times> int" where
  "drop_zeros 0 c e = (c, e)"
| "drop_zeros (Suc k) c e = (if c mod 10 = 0 then drop_zeros k (c div 10) (e + 1) else (c, e))"

definition quotient_digits :: "nat \<Rightarrow> nat \<Rightarrow> int \<Rightarrow> nat \<times> int" where
  "quotient_digits c d ideal =
     (let shift = ndigits d - ndigits c + dec_prec + 1;
          a = c * 10 ^ nat shift; b = d * 10 ^ nat (- shift); q = a div b
      in if a mod b \<noteq> 0 then (if q mod 5 = 0 then q + 1 else q, ideal - shift)
         else drop_zeros (nat shift) q (ideal - shift))"

fun dec_div :: "pydec \<Rightarrow> pydec \<Rightarrow> pydec res" where
  "dec_div (DFin s c e) (DFin t d f) =
     (if d = 0 then Inl (DecimalSignal (if c = 0 then ''InvalidOperation'' else ''DivisionByZero''))
      else if c = 0 then dec_fix (s \<noteq> t) 0 (e - f)
      else let (q, x) = quotient_digits c d (e - f) in dec_fix (s \<noteq> t) q x)"
| "dec_div (DInf s) (DInf t) = Inl (DecimalSignal ''InvalidOperation'')"
| "dec_div (DInf s) (DFin t d f) = Inr (DInf (s \<noteq> t))"
| "dec_div (DFin s c e) (DInf t) = Inr (DFin (s \<noteq> t) 0 dec_etiny)"
| "dec_div _ _ = Inr DNaN"

text \<open>\<open>to_integral_value\<close> with \<open>ROUND_DOWN\<close> (towards zero) or \<open>ROUND_UP\<close> (away from zero).\<close>

datatype rounding = ROUND_DOWN | ROUND_UP

fun dec_integral :: "rounding \<Rightarrow> pydec \<Rightarrow> pydec" where
  "dec_integral r (DFin s c e) =
     (if 0 \<le> e then DFin s c e
      else let p = 10 ^ nat (- e)
           in DFin s (if r = ROUND_UP \<and> c mod p \<noteq> 0 then c div p + 1 else c div p) 0)"
| "dec_integral r d = d"

text \<open>\<open>float(d)\<close> of a finite decimal: the nearest float, an infinity beyond the largest.\<close>

definition dec_float :: "pydec \<Rightarrow> pyfloat" where
  "dec_float d = rnd64 (dec_val d)"


section \<open>Evaluation\<close>

text \<open>Thirty-digit quotients are evaluated by rewriting on numerals.\<close>

lemma drop_zeros_numeral [simp]:
  "drop_zeros (numeral k) c e = (if c mod 10 = 0 then drop_zeros (pred_numeral k) (c div 10) (e + 1) else (c, e))"
  by (simp only: numeral_eq_Suc drop_zeros.simps)

lemma digits_numeral:
  "digits (numeral k) =
     (if numeral k < (10 :: nat) then [numeral k] else digits (numeral k div 10) @ [numeral k mod 10])"
  by (rule digits.simps)

lemmas dec_eval = quotient_digits_def ndigits_def digits_numeral Let_def dec_fix_def drop_digits_def dec_prec_def
  dec_etiny_def dec_etop_def dec_emax_def dec_int_def

end
