(* ===== verification/Instrument_Rules.thy ===== *)
theory Instrument_Rules
  imports Decimal_Arithmetic Py_Value
begin

text \<open>
  \<open>exchange_connector/bybit_instrument_rules.py\<close>: the constraints of one instrument as the exchange
  publishes them, parsed from an untyped row and kept in a cache for a bounded time. The outcome of
  the public GET with its retries is an argument (\<open>fetched\<close>): it raised, or it returned a JSON value.
  Readings of the clock are arguments. The construction of the HTTP client is left out.
\<close>

section \<open>Rules\<close>

record instrument_rules =
  ir_symbol :: string
  ir_category :: string
  ir_status :: string
  ir_base_coin :: string
  ir_quote_coin :: string
  ir_tick_size :: pydec
  ir_qty_step :: pydec
  ir_min_qty :: pydec
  ir_min_notional :: pydec
  ir_max_limit_qty :: "pydec option"
  ir_max_market_qty :: "pydec option"
  ir_min_price :: "pydec option"
  ir_max_price :: "pydec option"
  ir_min_leverage :: "pydec option"
  ir_max_leverage :: "pydec option"
  ir_leverage_step :: "pydec option"
  ir_fetched_at_ms :: int

definition rules_error :: "string \<Rightarrow> py_error" where
  "rules_error m = CustomError ''InstrumentRulesUnavailable'' m"

definition market_symbol :: "pyval \<Rightarrow> string option" where
  "market_symbol v =
     (let clean = remove_char (CHR ''-'') (remove_char (CHR ''/'') (upper (strip (text_or_empty v))))
      in if clean = [] \<or> \<not> isalnum clean \<or> 30 < length clean then None else Some clean)"

definition rule_coin :: "pyval \<Rightarrow> string \<Rightarrow> string res" where
  "rule_coin v name =
     (let clean = upper (strip (text_or_empty v))
      in if clean = [] \<or> \<not> isalnum clean \<or> 20 < length clean then Inl (rules_error (name @ '' is invalid''))
         else Inr clean)"

definition rule_decimal :: "pyval \<Rightarrow> string \<Rightarrow> pydec res" where
  "rule_decimal v name =
     (case dec_of_string (py_str v) of
        Inl e \<Rightarrow> Inl (rules_error (name @ '' is invalid''))
      | Inr d \<Rightarrow>
          if \<not> dec_is_finite d \<or> dec_val d \<le> 0 then Inl (rules_error (name @ '' must be positive'')) else Inr d)"

definition rule_limit :: "pyval \<Rightarrow> pydec option res" where
  "rule_limit v =
     (if v = PyNone \<or> v = PyStr [] then Inr None
      else rbind (rule_decimal v ''optional limit'') (\<lambda>d. Inr (Some d)))"

text \<open>\<open>row.get(key) or {}\<close>, which must be an object.\<close>

definition sub_object :: "(string \<times> pyval) list \<Rightarrow> string \<Rightarrow> (string \<times> pyval) list option" where
  "sub_object row k = (case py_or (py_get row k PyNone) (PyDict []) of PyDict d \<Rightarrow> Some d | _ \<Rightarrow> None)"

record lot_rules =
  lr_qty_step :: pydec
  lr_min_qty :: pydec
  lr_min_notional :: pydec
  lr_max_limit_qty :: "pydec option"
  lr_max_market_qty :: "pydec option"
  lr_leverage :: "(pydec \<times> pydec \<times> pydec) option"

definition spot_lot :: "(string \<times> pyval) list \<Rightarrow> lot_rules res" where
  "spot_lot lot =
     rbind (rule_decimal (py_get lot ''basePrecision'' PyNone) ''basePrecision'') (\<lambda>step.
     rbind (rule_decimal (py_get lot ''minOrderAmt'' PyNone) ''minOrderAmt'') (\<lambda>notional.
     rbind (rule_limit (py_get lot ''maxLimitOrderQty'' PyNone)) (\<lambda>max_limit.
     rbind (rule_limit (py_get lot ''maxMarketOrderQty'' PyNone)) (\<lambda>max_market.
       Inr \<lparr>lr_qty_step = step, lr_min_qty = step, lr_min_notional = notional, lr_max_limit_qty = max_limit,
            lr_max_market_qty = max_market, lr_leverage = None\<rparr>))))"

definition derivative_lot :: "(string \<times> pyval) list \<Rightarrow> (string \<times> pyval) list \<Rightarrow> lot_rules res" where
  "derivative_lot row lot =
     rbind (rule_decimal (py_get lot ''qtyStep'' PyNone) ''qtyStep'') (\<lambda>step.
     rbind (rule_decimal (py_get lot ''minOrderQty'' PyNone) ''minOrderQty'') (\<lambda>min_qty.
     rbind (rule_decimal (py_get lot ''minNotionalValue'' PyNone) ''minNotionalValue'') (\<lambda>notional.
     rbind (rule_limit (py_get lot ''maxOrderQty'' PyNone)) (\<lambda>max_limit.
     rbind (rule_limit (py_get lot ''maxMktOrderQty'' PyNone)) (\<lambda>max_market.
     (case sub_object row ''leverageFilter'' of
        None \<Rightarrow> Inl (rules_error ''leverageFilter has invalid structure'')
      | Some lev \<Rightarrow>
          rbind (rule_decimal (py_get lev ''minLeverage'' PyNone) ''minLeverage'') (\<lambda>lo.
          rbind (rule_decimal (py_get lev ''maxLeverage'' PyNone) ''maxLeverage'') (\<lambda>hi.
          rbind (rule_decimal (py_get lev ''leverageStep'' PyNone) ''leverageStep'') (\<lambda>lev_step.
            if dec_less hi lo then Inl (rules_error ''minimum leverage exceeds maximum leverage'')
            else Inr \<lparr>lr_qty_step = step, lr_min_qty = min_qty, lr_min_notional = notional,
                      lr_max_limit_qty = max_limit, lr_max_market_qty = max_market,
                      lr_leverage = Some (lo, hi, lev_step)\<rparr>)))))))))"

definition below_minimum :: "pydec option \<Rightarrow> pydec \<Rightarrow> bool" where
  "below_minimum m q = (case m of None \<Rightarrow> False | Some d \<Rightarrow> dec_less d q)"

definition check_limits :: "lot_rules \<Rightarrow> pydec option \<Rightarrow> pydec option \<Rightarrow> unit res" where
  "check_limits l lo hi =
     (if below_minimum (lr_max_limit_qty l) (lr_min_qty l) \<or> below_minimum (lr_max_market_qty l) (lr_min_qty l)
      then Inl (rules_error ''maximum quantity is below minimum quantity'')
      else if (case (lo, hi) of (Some a, Some b) \<Rightarrow> dec_less b a | _ \<Rightarrow> False)
      then Inl (rules_error ''minimum price exceeds maximum price'') else Inr ())"

definition rules_of_filters ::
  "(string \<times> pyval) list \<Rightarrow> (string \<times> pyval) list \<Rightarrow> (string \<times> pyval) list \<Rightarrow> string \<Rightarrow> string \<Rightarrow> string \<Rightarrow> string \<Rightarrow>
   int \<Rightarrow> instrument_rules res" where
  "rules_of_filters row price lot symbol category base quote now_ms =
     rbind (rule_decimal (py_get price ''tickSize'' PyNone) ''tickSize'') (\<lambda>tick.
     rbind (rule_limit (py_get price ''minPrice'' PyNone)) (\<lambda>lo.
     rbind (rule_limit (py_get price ''maxPrice'' PyNone)) (\<lambda>hi.
     rbind (if category = ''spot'' then spot_lot lot else derivative_lot row lot) (\<lambda>l.
     rbind (check_limits l lo hi) (\<lambda>_.
       Inr \<lparr>ir_symbol = symbol, ir_category = category, ir_status = ''Trading'', ir_base_coin = base,
            ir_quote_coin = quote, ir_tick_size = tick, ir_qty_step = lr_qty_step l,
            ir_min_qty = lr_min_qty l, ir_min_notional = lr_min_notional l,
            ir_max_limit_qty = lr_max_limit_qty l, ir_max_market_qty = lr_max_market_qty l,
            ir_min_price = lo, ir_max_price = hi, ir_min_leverage = map_option fst (lr_leverage l),
            ir_max_leverage = map_option (fst \<circ> snd) (lr_leverage l),
            ir_leverage_step = map_option (snd \<circ> snd) (lr_leverage l), ir_fetched_at_ms = now_ms\<rparr>)))))"

definition parse_rules :: "(string \<times> pyval) list \<Rightarrow> string \<Rightarrow> string \<Rightarrow> int \<Rightarrow> instrument_rules res" where
  "parse_rules row symbol category now_ms =
     (let status = py_str (py_get row ''status'' (PyStr []))
      in if upper (py_str (py_get row ''symbol'' (PyStr []))) \<noteq> symbol
         then Inl (rules_error ''Bybit returned rules for a different symbol'')
         else if status \<noteq> ''Trading''
         then Inl (rules_error (''instrument is not tradable: status='' @ (if status = [] then ''unknown'' else status)))
         else rbind (rule_coin (py_get row ''baseCoin'' PyNone) ''baseCoin'') (\<lambda>base.
              rbind (rule_coin (py_get row ''quoteCoin'' PyNone) ''quoteCoin'') (\<lambda>quote.
              case (sub_object row ''priceFilter'', sub_object row ''lotSizeFilter'') of
                (Some price, Some lot) \<Rightarrow> rules_of_filters row price lot symbol category base quote now_ms
              | _ \<Rightarrow> Inl (rules_error ''instrument filters have invalid structure''))))"

section \<open>The service\<close>

type_synonym rules_cache = "((string \<times> string) \<times> (pyfloat \<times> instrument_rules)) list"

definition rules_ttl :: "os_env \<Rightarrow> pyfloat res" where
  "rules_ttl env =
     rbind (py_float (PyStr (getenv env ''BYBIT_INSTRUMENT_CACHE_TTL_SECONDS'' ''300''))) (\<lambda>x.
       Inr (py_min (py_max x (Fin 5)) (Fin 900)))"

text \<open>The single row of a response; \<open>len\<close> of a number raises, an object has no row 0.\<close>

definition single_row :: "pyval \<Rightarrow> string \<Rightarrow> (string \<times> pyval) list res" where
  "single_row rows symbol =
     (let wrong = (\<lambda>n. Inl (rules_error (''expected exactly one instrument for '' @ symbol @ '', received '' @ nat_str n)))
      in case rows of
           PyList [PyDict row] \<Rightarrow> Inr row
         | PyList vs \<Rightarrow> wrong (length vs)
         | PyStr s \<Rightarrow> wrong (length s)
         | PyDict kvs \<Rightarrow> if length kvs = 1 then Inl (KeyError ''0'') else wrong (length kvs)
         | _ \<Rightarrow> Inl (TypeError ''object has no len()''))"

definition fetched_rules :: "pyval \<Rightarrow> string \<Rightarrow> string \<Rightarrow> int \<Rightarrow> instrument_rules res" where
  "fetched_rules payload symbol category now_ms =
     (case payload of
        PyDict p \<Rightarrow>
          rbind (py_int (py_get p ''retCode'' (PyInt (- 1)))) (\<lambda>code.
            if code \<noteq> 0
            then Inl (rules_error (''Bybit rejected instruments-info: '' @
                   py_str (py_get p ''retMsg'' (PyStr ''unknown error''))))
            else case py_or (py_get p ''result'' PyNone) (PyDict []) of
              PyDict r \<Rightarrow>
                if lower (py_str (py_get r ''category'' (PyStr category))) \<noteq> category
                then Inl (rules_error ''Bybit returned a different instrument category'')
                else rbind (single_row (py_or (py_get r ''list'' (PyList [])) (PyList [])) symbol) (\<lambda>row.
                  parse_rules row symbol category now_ms)
            | _ \<Rightarrow> Inl (AttributeError ''get''))
      | _ \<Rightarrow> Inl (rules_error ''Bybit rejected instruments-info: invalid response''))"

definition rules_get ::
  "pyfloat \<Rightarrow> (string \<Rightarrow> string \<Rightarrow> pyval res) \<Rightarrow> pyfloat \<Rightarrow> int \<Rightarrow> pyval \<Rightarrow> string \<Rightarrow> rules_cache \<Rightarrow>
   instrument_rules res \<times> rules_cache" where
  "rules_get ttl fetch now_mono now_ms symbol category cache =
     (case market_symbol symbol of None \<Rightarrow> (Inl (ValueError ''symbol is invalid''), cache)
      | Some clean \<Rightarrow>
          let cat = lower (strip category); key = (cat, clean);
              refresh = (case fetch cat clean of
                 Inl e \<Rightarrow> (Inl (rules_error (''unable to fetch Bybit instrument rules: '' @ error_name e)), cache)
               | Inr payload \<Rightarrow>
                   (case fetched_rules payload clean cat now_ms of Inl e \<Rightarrow> (Inl e, cache)
                    | Inr r \<Rightarrow> (Inr r, AList.update key (now_mono, r) cache)))
          in if cat \<notin> set [''spot'', ''linear'', ''inverse'']
             then (Inl (ValueError ''category must be spot, linear or inverse''), cache)
             else case map_of cache key of None \<Rightarrow> refresh
             | Some (t, r) \<Rightarrow> if fle (fsub now_mono t) ttl then (Inr r, cache) else refresh)"

text \<open>\<open>invalidate\<close>: no argument clears, an argument restricts; a blank category restricts nothing.\<close>

definition rules_invalidate :: "pyval option \<Rightarrow> string option \<Rightarrow> rules_cache \<Rightarrow> unit res \<times> rules_cache" where
  "rules_invalidate symbol category cache =
     (if symbol = None \<and> category = None then (Inr (), [])
      else case map_option market_symbol symbol of
        Some None \<Rightarrow> (Inl (ValueError ''symbol is invalid''), cache)
      | s \<Rightarrow>
          let cat = (case category of None \<Rightarrow> None | Some [] \<Rightarrow> None | Some c \<Rightarrow> Some (lower (strip c)));
              hit = (\<lambda>key. (case s of Some (Some clean) \<Rightarrow> snd key = clean | _ \<Rightarrow> True) \<and>
                           (case cat of Some c \<Rightarrow> fst key = c | None \<Rightarrow> True))
          in (Inr (), filter (\<lambda>(key, _). \<not> hit key) cache))"

text \<open>\<open>preview_fields\<close>: the texts of the rules that a caller may show but not supply.\<close>

definition preview_fields :: "instrument_rules \<Rightarrow> string \<Rightarrow> (string \<times> string option) list res" where
  "preview_fields r order_type =
     (let kind = lower (strip order_type); text_of = map_option dec_str
      in if kind \<notin> set [''market'', ''limit''] then Inl (ValueError ''order_type must be market or limit'')
         else Inr [(''tick_size'', Some (dec_str (ir_tick_size r))), (''qty_step'', Some (dec_str (ir_qty_step r))),
           (''min_qty'', Some (dec_str (ir_min_qty r))), (''min_notional'', Some (dec_str (ir_min_notional r))),
           (''max_qty'', text_of (if kind = ''market'' then ir_max_market_qty r else ir_max_limit_qty r)),
           (''min_price'', text_of (ir_min_price r)), (''max_price'', text_of (ir_max_price r)),
           (''min_leverage'', text_of (ir_min_leverage r)), (''max_leverage'', text_of (ir_max_leverage r))])"

section \<open>Rules are sound\<close>

text \<open>What every rule that passed the parser has.\<close>

definition positive :: "pydec \<Rightarrow> bool" where
  "positive d \<longleftrightarrow> dec_is_finite d \<and> 0 < dec_val d"

definition rules_sound :: "instrument_rules \<Rightarrow> bool" where
  "rules_sound r \<longleftrightarrow>
     list_all positive [ir_tick_size r, ir_qty_step r, ir_min_qty r, ir_min_notional r] \<and>
     list_all (pred_option positive) [ir_max_limit_qty r, ir_max_market_qty r, ir_min_price r, ir_max_price r,
       ir_min_leverage r, ir_max_leverage r, ir_leverage_step r] \<and>
     (ir_category r \<noteq> ''spot'' \<longrightarrow> (\<exists>lo hi s. ir_min_leverage r = Some lo \<and> ir_max_leverage r = Some hi \<and>
        ir_leverage_step r = Some s \<and> dec_val lo \<le> dec_val hi)) \<and>
     (\<forall>q. ir_max_limit_qty r = Some q \<or> ir_max_market_qty r = Some q \<longrightarrow> dec_val (ir_min_qty r) \<le> dec_val q) \<and>
     (\<forall>lo hi. ir_min_price r = Some lo \<and> ir_max_price r = Some hi \<longrightarrow> dec_val lo \<le> dec_val hi)"

lemma rule_decimal_positive: "rule_decimal v name = Inr d \<Longrightarrow> positive d"
  by (auto simp: rule_decimal_def positive_def split: sum.splits if_splits)

lemma rule_limit_positive: "rule_limit v = Inr m \<Longrightarrow> pred_option positive m"
  by (auto simp: rule_limit_def res_simps rule_decimal_positive split: if_splits)

definition lot_sound :: "lot_rules \<Rightarrow> bool" where
  "lot_sound l \<longleftrightarrow> positive (lr_qty_step l) \<and> positive (lr_min_qty l) \<and> positive (lr_min_notional l) \<and>
     pred_option positive (lr_max_limit_qty l) \<and> pred_option positive (lr_max_market_qty l) \<and>
     pred_option (\<lambda>(lo, hi, s). positive lo \<and> positive hi \<and> positive s \<and> dec_val lo \<le> dec_val hi) (lr_leverage l)"

lemma spot_lot_sound: "spot_lot lot = Inr l \<Longrightarrow> lot_sound l"
  by (auto simp: spot_lot_def res_simps lot_sound_def rule_decimal_positive rule_limit_positive)

lemma derivative_lot_sound: "derivative_lot row lot = Inr l \<Longrightarrow> lot_sound l \<and> lr_leverage l \<noteq> None"
  by (auto simp: derivative_lot_def res_simps lot_sound_def rule_decimal_positive rule_limit_positive dec_less_def
      split: option.splits if_splits)

lemma lot_rules_sound:
  "(if category = ''spot'' then spot_lot lot else derivative_lot row lot) = Inr l \<Longrightarrow>
     lot_sound l \<and> (category \<noteq> ''spot'' \<longrightarrow> lr_leverage l \<noteq> None)"
  by (auto dest: spot_lot_sound derivative_lot_sound split: if_splits)

lemma rules_of_filters_sound:
  assumes "rules_of_filters row price lot symbol category base quote now_ms = Inr r"
  shows "rules_sound r \<and> ir_symbol r = symbol \<and> ir_category r = category \<and> ir_fetched_at_ms r = now_ms"
proof -
  from assms obtain tick lo hi l where e: "rule_decimal (py_get price ''tickSize'' PyNone) ''tickSize'' = Inr tick"
    "rule_limit (py_get price ''minPrice'' PyNone) = Inr lo" "rule_limit (py_get price ''maxPrice'' PyNone) = Inr hi"
    "(if category = ''spot'' then spot_lot lot else derivative_lot row lot) = Inr l"
    and t: "check_limits l lo hi = Inr ()"
    and r: "r = \<lparr>ir_symbol = symbol, ir_category = category, ir_status = ''Trading'', ir_base_coin = base,
            ir_quote_coin = quote, ir_tick_size = tick, ir_qty_step = lr_qty_step l,
            ir_min_qty = lr_min_qty l, ir_min_notional = lr_min_notional l,
            ir_max_limit_qty = lr_max_limit_qty l, ir_max_market_qty = lr_max_market_qty l,
            ir_min_price = lo, ir_max_price = hi, ir_min_leverage = map_option fst (lr_leverage l),
            ir_max_leverage = map_option (fst \<circ> snd) (lr_leverage l),
            ir_leverage_step = map_option (snd \<circ> snd) (lr_leverage l), ir_fetched_at_ms = now_ms\<rparr>"
    unfolding rules_of_filters_def res_simps by auto
  note p = rule_decimal_positive [OF e(1)] rule_limit_positive [OF e(2)] rule_limit_positive [OF e(3)] lot_rules_sound [OF e(4)]
  have "\<not> below_minimum (lr_max_limit_qty l) (lr_min_qty l)" "\<not> below_minimum (lr_max_market_qty l) (lr_min_qty l)"
    "\<not> (case (lo, hi) of (Some a, Some b) \<Rightarrow> dec_less b a | _ \<Rightarrow> False)"
    using t by (auto simp: check_limits_def split: if_splits)
  then have "\<forall>q. lr_max_limit_qty l = Some q \<or> lr_max_market_qty l = Some q \<longrightarrow> dec_val (lr_min_qty l) \<le> dec_val q"
    "\<forall>a b. lo = Some a \<and> hi = Some b \<longrightarrow> dec_val a \<le> dec_val b"
    by (auto simp: below_minimum_def dec_less_def not_less)
  with p r show ?thesis by (cases "lr_leverage l") (auto simp: rules_sound_def lot_sound_def)
qed

lemma parse_rules_sound:
  assumes "parse_rules row symbol category now_ms = Inr r"
  shows "rules_sound r \<and> ir_symbol r = symbol \<and> ir_category r = category \<and> ir_fetched_at_ms r = now_ms"
  using assms by (auto simp: parse_rules_def Let_def res_simps split: if_splits option.splits dest: rules_of_filters_sound)

lemma fetched_rules_sound:
  assumes "fetched_rules payload symbol category now_ms = Inr r"
  shows "rules_sound r \<and> ir_symbol r = symbol \<and> ir_category r = category \<and> ir_fetched_at_ms r = now_ms"
  using assms by (auto simp: fetched_rules_def res_simps split: pyval.splits if_splits dest: parse_rules_sound)

section \<open>The cache\<close>

text \<open>Every entry is sound, for its key, and was read no later than its time stamp.\<close>

definition cache_sound :: "rules_cache \<Rightarrow> bool" where
  "cache_sound cache \<longleftrightarrow> (\<forall>(key, (t, r)) \<in> set cache. rules_sound r \<and> (ir_category r, ir_symbol r) = key)"

lemma cache_sound_lookup: "cache_sound cache \<Longrightarrow> map_of cache key = Some (t, r) \<Longrightarrow>
    rules_sound r \<and> (ir_category r, ir_symbol r) = key"
  unfolding cache_sound_def by (fastforce dest: map_of_SomeD)

lemma cache_sound_update: "cache_sound cache \<Longrightarrow> rules_sound r \<Longrightarrow> (ir_category r, ir_symbol r) = key \<Longrightarrow>
    cache_sound (AList.update key (t, r) cache)"
proof (induction cache)
  case Nil
  then show ?case by (simp add: cache_sound_def)
next
  case (Cons p cache)
  then show ?case by (cases p) (auto simp: cache_sound_def)
qed

text \<open>What a lookup does: it fails and keeps the cache, serves an entry, or fetches and stores one.\<close>

lemma rules_get_cases:
  assumes "rules_get ttl fetch now_mono now_ms symbol category cache = (res, cache')"
  obtains e where "res = Inl e" "cache' = cache"
  | clean t r where "market_symbol symbol = Some clean" "lower (strip category) \<in> set [''spot'', ''linear'', ''inverse'']"
      "map_of cache (lower (strip category), clean) = Some (t, r)" "fle (fsub now_mono t) ttl"
      "res = Inr r" "cache' = cache"
  | clean payload r where "market_symbol symbol = Some clean" "lower (strip category) \<in> set [''spot'', ''linear'', ''inverse'']"
      "fetch (lower (strip category)) clean = Inr payload"
      "fetched_rules payload clean (lower (strip category)) now_ms = Inr r"
      "res = Inr r" "cache' = AList.update (lower (strip category), clean) (now_mono, r) cache"
proof (cases "market_symbol symbol")
  case None
  with assms that(1) show thesis by (auto simp: rules_get_def)
next
  case (Some clean)
  let ?cat = "lower (strip category)"
  show thesis
  proof (cases "?cat \<in> set [''spot'', ''linear'', ''inverse'']")
    case False
    with assms Some that(1) show thesis by (auto simp: rules_get_def Let_def)
  next
    case True
    let ?refresh = "case fetch ?cat clean of
         Inl e \<Rightarrow> (Inl (rules_error (''unable to fetch Bybit instrument rules: '' @ error_name e)), cache)
       | Inr payload \<Rightarrow>
           (case fetched_rules payload clean ?cat now_ms of Inl e \<Rightarrow> (Inl e, cache)
            | Inr r \<Rightarrow> (Inr r, AList.update (?cat, clean) (now_mono, r) cache))"
    have get: "(case map_of cache (?cat, clean) of None \<Rightarrow> ?refresh
        | Some (t, r) \<Rightarrow> if fle (fsub now_mono t) ttl then (Inr r, cache) else ?refresh) = (res, cache')"
      using assms unfolding rules_get_def Let_def Some option.case by (simp only: True not_True_eq_False if_False)
    show thesis
    proof (cases "\<exists>t r. map_of cache (?cat, clean) = Some (t, r) \<and> fle (fsub now_mono t) ttl")
      case hit: True
      then obtain t r where h: "map_of cache (?cat, clean) = Some (t, r)" "fle (fsub now_mono t) ttl" by blast
      with get have "res = Inr r" "cache' = cache" by simp_all
      with Some True h show thesis by (intro that(2))
    next
      case miss: False
      with get have r: "?refresh = (res, cache')" by (auto split: option.splits)
      show thesis
      proof (cases "\<exists>payload q. fetch ?cat clean = Inr payload \<and> fetched_rules payload clean ?cat now_ms = Inr q")
        case ok: True
        then obtain payload q where q: "fetch ?cat clean = Inr payload" "fetched_rules payload clean ?cat now_ms = Inr q"
          by blast
        with r have "res = Inr q" "cache' = AList.update (?cat, clean) (now_mono, q) cache" by simp_all
        with Some True q show thesis by (intro that(3))
      next
        case False
        with r have "\<exists>e. res = Inl e \<and> cache' = cache" by (auto split: sum.splits dest: sym)
        with that(1) show thesis by blast
      qed
    qed
  qed
qed

lemma rules_get_sound:
  assumes "cache_sound cache" "rules_get ttl fetch now_mono now_ms symbol category cache = (res, cache')"
  shows "cache_sound cache'"
    and "res = Inr r \<Longrightarrow> rules_sound r \<and> market_symbol symbol = Some (ir_symbol r) \<and>
           ir_category r = lower (strip category) \<and> ir_category r \<in> set [''spot'', ''linear'', ''inverse'']"
  using assms(2) cache_sound_lookup [OF assms(1)] cache_sound_update [OF assms(1)]
  by (cases rule: rules_get_cases; fastforce simp: assms(1) dest: fetched_rules_sound)+

lemma rules_invalidate_sound: "cache_sound cache \<Longrightarrow> cache_sound (snd (rules_invalidate symbol category cache))"
  by (auto simp: rules_invalidate_def Let_def cache_sound_def split: option.splits)

end
