(* ===== verification/Order_Preview.thy ===== *)
theory Order_Preview
  imports Instrument_Rules
begin

text \<open>
  \<open>exchange_connector/order_preview.py\<close>: from an untyped order request and verified instrument rules
  to a preview that cannot be executed. Quantities and prices are decimals of the default context;
  they are rounded to the steps of the rules, the levels must be ordered, and the loss at the stop
  with its fees must stay within the requested share of the equity, which is at most five percent.
\<close>

section \<open>The request\<close>

record order_preview =
  op_symbol :: string
  op_category :: string
  op_side :: string
  op_order_type :: string
  op_quantity :: pyfloat
  op_reference_price :: pyfloat
  op_entry_price :: pyfloat
  op_notional :: pyfloat
  op_estimated_entry_fee :: pyfloat
  op_estimated_exit_fee_at_stop :: pyfloat
  op_estimated_slippage :: pyfloat
  op_stop_loss :: pyfloat
  op_take_profit :: pyfloat
  op_maximum_loss :: pyfloat
  op_potential_reward :: pyfloat
  op_risk_reward_ratio :: pyfloat
  op_risk_percent_of_equity :: pyfloat
  op_max_risk_percent :: pyfloat
  op_leverage :: pyfloat
  op_required_capital :: pyfloat
  op_available_balance :: pyfloat
  op_instrument_rules_fetched_at_ms :: int
  op_risk_approved :: bool
  op_executable :: bool
  op_executed :: bool
  op_sends_order :: bool
  op_funding_included :: bool
  op_liquidation_checked :: bool
  op_correlation_checked :: bool

definition preview_error :: "string \<Rightarrow> py_error" where
  "preview_error m = CustomError ''OrderPreviewError'' m"

text \<open>The fields a caller must not supply, in sorted order.\<close>

definition forbidden_rule_fields :: "string list" where
  "forbidden_rule_fields =
     [''max_leverage'', ''max_price'', ''max_qty'', ''min_leverage'', ''min_notional'', ''min_price'',
      ''min_qty'', ''qty_step'', ''tick_size'']"

definition preview_decimal_text :: "string \<Rightarrow> string \<Rightarrow> pydec res" where
  "preview_decimal_text s name =
     (case dec_of_string s of
        Inl e \<Rightarrow> Inl (preview_error (name @ '' is invalid''))
      | Inr d \<Rightarrow> if dec_is_finite d then Inr d else Inl (preview_error (name @ '' must be finite'')))"

definition preview_decimal :: "pyval \<Rightarrow> string \<Rightarrow> pydec res" where
  "preview_decimal v name =
     (case v of PyBool b \<Rightarrow> Inl (preview_error (name @ '' is invalid'')) | _ \<Rightarrow> preview_decimal_text (py_str v) name)"

definition preview_positive :: "pyval \<Rightarrow> string \<Rightarrow> pydec res" where
  "preview_positive v name =
     rbind (preview_decimal v name) (\<lambda>d.
       if dec_val d \<le> 0 then Inl (preview_error (name @ '' must be greater than zero'')) else Inr d)"

definition at_least_zero :: "string \<Rightarrow> pydec \<Rightarrow> pydec res" where
  "at_least_zero name d =
     (if dec_val d < 0 then Inl (preview_error (name @ '' must not be negative'')) else Inr d)"

definition preview_nonnegative :: "pyval \<Rightarrow> string \<Rightarrow> pydec res" where
  "preview_nonnegative v name = rbind (preview_decimal v name) (at_least_zero name)"

definition within_limit :: "string \<Rightarrow> pydec \<Rightarrow> pydec \<Rightarrow> pydec res" where
  "within_limit name upper_bound d =
     (if dec_less upper_bound d then Inl (preview_error (name @ '' exceeds hard preview limit'')) else Inr d)"

definition preview_bounded :: "pyval \<Rightarrow> string \<Rightarrow> pydec \<Rightarrow> pydec res" where
  "preview_bounded v name upper_bound = rbind (preview_nonnegative v name) (within_limit name upper_bound)"

text \<open>The exit fee defaults to the entry fee, a decimal that is converted through its text.\<close>

definition exit_fee_rate :: "(string \<times> pyval) list \<Rightarrow> pydec \<Rightarrow> pydec res" where
  "exit_fee_rate payload fee =
     (case map_of payload ''exit_fee_rate'' of
        Some v \<Rightarrow> preview_bounded v ''exit_fee_rate'' (DFin False 5 (- 2))
      | None \<Rightarrow> rbind (rbind (preview_decimal_text (dec_str fee) ''exit_fee_rate'') (at_least_zero ''exit_fee_rate''))
                  (within_limit ''exit_fee_rate'' (DFin False 5 (- 2))))"

definition preview_kind :: "(string \<times> pyval) list \<Rightarrow> instrument_rules \<Rightarrow> (string \<times> string \<times> string) res" where
  "preview_kind payload rules =
     (case market_symbol (py_get payload ''symbol'' PyNone) of
        None \<Rightarrow> Inl (preview_error ''symbol is invalid'')
      | Some symbol \<Rightarrow>
          let category = lower (strip (py_str (py_get payload ''category'' (PyStr ''spot''))));
              side = lower (strip (py_str (py_get payload ''side'' (PyStr []))));
              order_type = lower (strip (py_str (py_get payload ''order_type'' (PyStr ''limit''))))
          in if symbol \<noteq> ir_symbol rules \<or> category \<noteq> ir_category rules
             then Inl (preview_error ''verified instrument rules do not match the requested order'')
             else if category \<notin> set [''spot'', ''linear'']
             then Inl (preview_error ''preview currently supports spot and linear only'')
             else if side \<notin> set [''buy'', ''sell''] then Inl (preview_error ''side must be buy or sell'')
             else if order_type \<notin> set [''market'', ''limit'']
             then Inl (preview_error ''order_type must be market or limit'')
             else Inr (category, side, order_type))"

record preview_terms =
  pt_equity :: pydec
  pt_balance :: pydec
  pt_requested :: pydec
  pt_reference :: pydec
  pt_stop :: pydec
  pt_take :: pydec
  pt_fee :: pydec
  pt_exit_fee :: pydec
  pt_slippage :: pydec
  pt_max_risk :: pydec

definition preview_terms_of :: "(string \<times> pyval) list \<Rightarrow> string \<Rightarrow> preview_terms res" where
  "preview_terms_of payload order_type =
     rbind (preview_positive (py_get payload ''account_equity'' PyNone) ''account_equity'') (\<lambda>equity.
     rbind (preview_nonnegative (py_get payload ''available_balance'' PyNone) ''available_balance'') (\<lambda>balance.
     rbind (preview_positive (py_get payload ''quantity'' PyNone) ''quantity'') (\<lambda>requested.
     rbind (preview_positive (py_get payload ''reference_price'' PyNone) ''reference_price'') (\<lambda>reference.
     rbind (preview_positive (py_get payload ''stop_loss'' PyNone) ''stop_loss'') (\<lambda>stop.
     rbind (preview_positive (py_get payload ''take_profit'' PyNone) ''take_profit'') (\<lambda>take_at.
     rbind (preview_bounded (py_get payload ''fee_rate'' (PyStr ''0.001'')) ''fee_rate'' (DFin False 5 (- 2))) (\<lambda>fee.
     rbind (exit_fee_rate payload fee) (\<lambda>exit_fee.
     rbind (preview_bounded (py_get payload ''slippage_percent'' (PyStr (if order_type = ''market'' then ''0.1'' else ''0'')))
        ''slippage_percent'' (DFin False 5 0)) (\<lambda>slippage.
       if order_type = ''limit'' \<and> dec_val slippage \<noteq> 0
       then Inl (preview_error ''limit preview requires slippage_percent=0'')
       else rbind (preview_positive (py_get payload ''max_risk_percent'' PyNone) ''max_risk_percent'') (\<lambda>max_risk.
         if dec_less (DFin False 5 0) max_risk
         then Inl (preview_error ''max_risk_percent exceeds hard preview limit of 5%'')
         else Inr \<lparr>pt_equity = equity, pt_balance = balance, pt_requested = requested, pt_reference = reference,
                   pt_stop = stop, pt_take = take_at, pt_fee = fee, pt_exit_fee = exit_fee, pt_slippage = slippage,
                   pt_max_risk = max_risk\<rparr>))))))))))"

section \<open>Steps\<close>

definition round_step :: "rounding \<Rightarrow> pydec \<Rightarrow> pydec \<Rightarrow> pydec res" where
  "round_step r value step = rbind (dec_div value step) (\<lambda>q. dec_mul (dec_integral r q) step)"

definition preview_step_aligned :: "pydec \<Rightarrow> pydec \<Rightarrow> bool res" where
  "preview_step_aligned value step =
     (if dec_val value < 0 then Inr False else rbind (dec_rem value step) (\<lambda>r. Inr (dec_val r = 0)))"

definition preview_quantity :: "instrument_rules \<Rightarrow> string \<Rightarrow> pydec \<Rightarrow> pydec res" where
  "preview_quantity rules order_type requested =
     rbind (round_step ROUND_DOWN requested (ir_qty_step rules)) (\<lambda>qty.
       if dec_less qty (ir_min_qty rules) then Inl (preview_error ''quantity is below verified minimum'')
       else if below_minimum (if order_type = ''market'' then ir_max_market_qty rules else ir_max_limit_qty rules) qty
       then Inl (preview_error ''quantity exceeds verified order-type maximum'') else Inr qty)"

definition preview_leverage :: "(string \<times> pyval) list \<Rightarrow> instrument_rules \<Rightarrow> string \<Rightarrow> pydec res" where
  "preview_leverage payload rules category =
     rbind (preview_positive (py_get payload ''leverage'' (PyStr ''1'')) ''leverage'') (\<lambda>leverage.
       if category = ''spot''
       then (if dec_val leverage \<noteq> 1 then Inl (preview_error ''spot preview requires leverage=1'') else Inr leverage)
       else case (ir_min_leverage rules, ir_max_leverage rules, ir_leverage_step rules) of
         (Some lo, Some hi, Some step) \<Rightarrow>
           if \<not> (dec_le lo leverage \<and> dec_le leverage hi)
           then Inl (preview_error ''leverage is outside verified limits'')
           else rbind (dec_sub leverage lo) (\<lambda>above.
             rbind (preview_step_aligned above step) (\<lambda>aligned.
               if aligned then Inr leverage
               else Inl (preview_error ''leverage is not aligned to verified leverageStep'')))
       | _ \<Rightarrow> Inl (preview_error ''verified leverage rules are unavailable''))"

definition preview_entry :: "(string \<times> pyval) list \<Rightarrow> instrument_rules \<Rightarrow> string \<Rightarrow> string \<Rightarrow> preview_terms \<Rightarrow> pydec res" where
  "preview_entry payload rules side order_type t =
     (if order_type = ''market''
      then rbind (dec_div (pt_slippage t) (DFin False 100 0)) (\<lambda>rate.
           rbind (if side = ''buy'' then dec_add (DFin False 1 0) rate else dec_sub (DFin False 1 0) rate) (\<lambda>factor.
           rbind (dec_mul (pt_reference t) factor) (\<lambda>adjusted.
             round_step (if side = ''buy'' then ROUND_UP else ROUND_DOWN) adjusted (ir_tick_size rules))))
      else rbind (preview_positive (py_get payload ''limit_price'' PyNone) ''limit_price'') (\<lambda>limit.
             round_step (if side = ''buy'' then ROUND_DOWN else ROUND_UP) limit (ir_tick_size rules)))"

definition check_price_bounds :: "instrument_rules \<Rightarrow> unit \<Rightarrow> string \<times> pydec \<Rightarrow> unit res" where
  "check_price_bounds rules u p =
     (if (case ir_min_price rules of None \<Rightarrow> False | Some lo \<Rightarrow> dec_less (snd p) lo)
      then Inl (preview_error (fst p @ '' is below verified minimum price''))
      else if (case ir_max_price rules of None \<Rightarrow> False | Some hi \<Rightarrow> dec_less hi (snd p))
      then Inl (preview_error (fst p @ '' exceeds verified maximum price'')) else Inr ())"

definition preview_levels :: "instrument_rules \<Rightarrow> string \<Rightarrow> preview_terms \<Rightarrow> pydec \<Rightarrow> (pydec \<times> pydec) res" where
  "preview_levels rules side t entry =
     (let r = (if side = ''buy'' then ROUND_DOWN else ROUND_UP) in
      rbind (round_step r (pt_stop t) (ir_tick_size rules)) (\<lambda>stop.
      rbind (round_step r (pt_take t) (ir_tick_size rules)) (\<lambda>take_at.
      rbind (rfold (check_price_bounds rules) ()
         [(''entry_price'', entry), (''stop_loss'', stop), (''take_profit'', take_at)]) (\<lambda>_.
        if side = ''buy'' \<and> \<not> (dec_less stop entry \<and> dec_less entry take_at)
        then Inl (preview_error ''buy preview requires stop_loss < entry_price < take_profit'')
        else if side = ''sell'' \<and> \<not> (dec_less take_at entry \<and> dec_less entry stop)
        then Inl (preview_error ''sell preview requires take_profit < entry_price < stop_loss'')
        else Inr (stop, take_at)))))"

section \<open>Amounts\<close>

record preview_amounts =
  pm_notional :: pydec
  pm_entry_fee :: pydec
  pm_stop_exit_fee :: pydec
  pm_slippage_cost :: pydec
  pm_maximum_loss :: pydec
  pm_potential_reward :: pydec
  pm_risk_percent :: pydec

text \<open>\<open>qty * abs(a - b)\<close>.\<close>

definition scaled_distance :: "pydec \<Rightarrow> pydec \<Rightarrow> pydec \<Rightarrow> pydec res" where
  "scaled_distance qty a b = rbind (dec_sub a b) (\<lambda>d. rbind (dec_abs d) (dec_mul qty))"

definition preview_amounts_of ::
  "instrument_rules \<Rightarrow> string \<Rightarrow> preview_terms \<Rightarrow> pydec \<Rightarrow> pydec \<Rightarrow> pydec \<Rightarrow> pydec \<Rightarrow> preview_amounts res" where
  "preview_amounts_of rules order_type t qty entry stop take_at =
     rbind (dec_mul qty entry) (\<lambda>notional.
       if dec_less notional (ir_min_notional rules)
       then Inl (preview_error ''order notional is below verified minimum'')
       else rbind (dec_mul notional (pt_fee t)) (\<lambda>entry_fee.
         rbind (rbind (dec_mul qty stop) (\<lambda>x. dec_mul x (pt_exit_fee t))) (\<lambda>stop_fee.
         rbind (rbind (dec_mul qty take_at) (\<lambda>x. dec_mul x (pt_exit_fee t))) (\<lambda>take_fee.
         rbind (if order_type = ''market'' then scaled_distance qty entry (pt_reference t)
                else Inr (DFin False 0 0)) (\<lambda>slippage_cost.
         rbind (scaled_distance qty entry stop) (\<lambda>price_risk.
         rbind (rbind (dec_add price_risk entry_fee) (\<lambda>x. dec_add x stop_fee)) (\<lambda>loss.
         rbind (scaled_distance qty take_at entry) (\<lambda>gross.
         rbind (rbind (dec_sub gross entry_fee) (\<lambda>x. dec_sub x take_fee)) (\<lambda>reward.
           if dec_val loss \<le> 0 \<or> dec_val reward \<le> 0
           then Inl (preview_error ''fees and price levels produce no positive risk/reward preview'')
           else rbind (rbind (dec_div loss (pt_equity t)) (\<lambda>x. dec_mul x (DFin False 100 0))) (\<lambda>percent.
             if dec_less (pt_max_risk t) percent then Inl (preview_error ''preview exceeds maximum risk percent'')
             else Inr \<lparr>pm_notional = notional, pm_entry_fee = entry_fee, pm_stop_exit_fee = stop_fee,
                       pm_slippage_cost = slippage_cost, pm_maximum_loss = loss, pm_potential_reward = reward,
                       pm_risk_percent = percent\<rparr>))))))))))"

definition preview_capital ::
  "(string \<times> pyval) list \<Rightarrow> string \<Rightarrow> string \<Rightarrow> preview_terms \<Rightarrow> pydec \<Rightarrow> pydec \<Rightarrow> preview_amounts \<Rightarrow> pydec res" where
  "preview_capital payload category side t leverage qty m =
     (if category = ''linear''
      then rbind (rbind (dec_div (pm_notional m) leverage) (\<lambda>x. dec_add x (pm_entry_fee m))) (\<lambda>capital.
        if dec_less (pt_balance t) capital
        then Inl (preview_error ''required margin and fee exceed available balance'') else Inr capital)
      else if side = ''buy''
      then rbind (dec_add (pm_notional m) (pm_entry_fee m)) (\<lambda>capital.
        if dec_less (pt_balance t) capital
        then Inl (preview_error ''spot purchase cost and fee exceed available balance'') else Inr capital)
      else rbind (preview_nonnegative (py_get payload ''available_asset_quantity'' PyNone) ''available_asset_quantity'') (\<lambda>asset.
        if dec_less asset qty
        then Inl (preview_error ''spot sale quantity exceeds available asset quantity'')
        else Inr (DFin False 0 0)))"

definition preview_of ::
  "instrument_rules \<Rightarrow> string \<Rightarrow> string \<Rightarrow> string \<Rightarrow> preview_terms \<Rightarrow> pydec \<Rightarrow> pydec \<Rightarrow> pydec \<Rightarrow> pydec \<Rightarrow> pydec \<Rightarrow>
   preview_amounts \<Rightarrow> pydec \<Rightarrow> pydec \<Rightarrow> order_preview" where
  "preview_of rules category side order_type t qty leverage entry stop take_at m capital ratio =
     \<lparr>op_symbol = ir_symbol rules, op_category = category, op_side = side,
      op_order_type = order_type, op_quantity = dec_float qty,
      op_reference_price = dec_float (pt_reference t), op_entry_price = dec_float entry,
      op_notional = dec_float (pm_notional m), op_estimated_entry_fee = dec_float (pm_entry_fee m),
      op_estimated_exit_fee_at_stop = dec_float (pm_stop_exit_fee m),
      op_estimated_slippage = dec_float (pm_slippage_cost m), op_stop_loss = dec_float stop,
      op_take_profit = dec_float take_at, op_maximum_loss = dec_float (pm_maximum_loss m),
      op_potential_reward = dec_float (pm_potential_reward m),
      op_risk_reward_ratio = dec_float ratio, op_risk_percent_of_equity = dec_float (pm_risk_percent m),
      op_max_risk_percent = dec_float (pt_max_risk t), op_leverage = dec_float leverage,
      op_required_capital = dec_float capital, op_available_balance = dec_float (pt_balance t),
      op_instrument_rules_fetched_at_ms = ir_fetched_at_ms rules, op_risk_approved = False,
      op_executable = False, op_executed = False, op_sends_order = False, op_funding_included = False,
      op_liquidation_checked = False, op_correlation_checked = False\<rparr>"

definition build_order_preview :: "pyval \<Rightarrow> instrument_rules \<Rightarrow> order_preview res" where
  "build_order_preview request rules =
     (case request of
        PyDict payload \<Rightarrow>
          let forbidden = filter (\<lambda>k. k \<in> fst ` set payload) forbidden_rule_fields
          in if forbidden \<noteq> []
             then Inl (preview_error (''instrument rules cannot be supplied manually: '' @ join '', '' forbidden))
             else rbind (preview_kind payload rules) (\<lambda>(category, side, order_type).
               rbind (preview_terms_of payload order_type) (\<lambda>t.
               rbind (preview_quantity rules order_type (pt_requested t)) (\<lambda>qty.
               rbind (preview_leverage payload rules category) (\<lambda>leverage.
               rbind (preview_entry payload rules side order_type t) (\<lambda>entry.
               rbind (preview_levels rules side t entry) (\<lambda>(stop, take_at).
               rbind (preview_amounts_of rules order_type t qty entry stop take_at) (\<lambda>m.
               rbind (preview_capital payload category side t leverage qty m) (\<lambda>capital.
               rbind (dec_div (pm_potential_reward m) (pm_maximum_loss m)) (\<lambda>ratio.
                 Inr (preview_of rules category side order_type t qty leverage entry stop take_at m capital ratio))))))))))
      | _ \<Rightarrow> Inl (preview_error ''payload must be an object''))"


section \<open>What a preview keeps\<close>

lemma dec_float_mono: "dec_val a \<le> dec_val b \<Longrightarrow> fle (dec_float a) (dec_float b)"
  by (simp add: dec_float_def rnd64_mono)

lemma preview_terms_max_risk: "preview_terms_of payload k = Inr t \<Longrightarrow> dec_val (pt_max_risk t) \<le> 5"
  by (auto simp: preview_terms_of_def res_simps dec_less_def pow10_def split: if_splits)

lemma preview_kind_facts:
  assumes "preview_kind payload rules = Inr (category, side, order_type)"
  shows "category = ir_category rules" "category \<in> set [''spot'', ''linear'']" "side \<in> set [''buy'', ''sell'']"
    "order_type \<in> set [''market'', ''limit'']"
  using assms by (auto simp: preview_kind_def Let_def split: option.splits if_splits)

lemma preview_quantity_facts:
  assumes "preview_quantity rules k requested = Inr qty"
  shows "dec_val (ir_min_qty rules) \<le> dec_val qty"
    "\<And>m. (if k = ''market'' then ir_max_market_qty rules else ir_max_limit_qty rules) = Some m \<Longrightarrow> dec_val qty \<le> dec_val m"
  using assms by (auto simp: preview_quantity_def res_simps dec_less_def below_minimum_def split: if_splits)

lemma preview_leverage_facts:
  assumes "preview_leverage payload rules category = Inr l"
  shows "category = ''spot'' \<Longrightarrow> dec_val l = 1"
    "category \<noteq> ''spot'' \<Longrightarrow> \<exists>lo hi. ir_min_leverage rules = Some lo \<and> ir_max_leverage rules = Some hi \<and>
       dec_val lo \<le> dec_val l \<and> dec_val l \<le> dec_val hi"
  using assms
  by (cases "ir_min_leverage rules"; cases "ir_max_leverage rules"; cases "ir_leverage_step rules";
      auto simp: preview_leverage_def res_simps dec_le_def split: if_splits)+

lemma price_bounds_facts:
  "check_price_bounds rules u p = Inr v \<longleftrightarrow>
     (\<forall>lo. ir_min_price rules = Some lo \<longrightarrow> dec_val lo \<le> dec_val (snd p)) \<and>
     (\<forall>hi. ir_max_price rules = Some hi \<longrightarrow> dec_val (snd p) \<le> dec_val hi)"
  by (auto simp: check_price_bounds_def dec_less_def split: option.splits)

lemma preview_levels_facts:
  assumes "preview_levels rules side t entry = Inr (stop, take_at)"
  shows "side = ''buy'' \<Longrightarrow> dec_val stop < dec_val entry \<and> dec_val entry < dec_val take_at"
    "side = ''sell'' \<Longrightarrow> dec_val take_at < dec_val entry \<and> dec_val entry < dec_val stop"
    "\<And>d. d \<in> {entry, stop, take_at} \<Longrightarrow>
       (\<forall>lo. ir_min_price rules = Some lo \<longrightarrow> dec_val lo \<le> dec_val d) \<and>
       (\<forall>hi. ir_max_price rules = Some hi \<longrightarrow> dec_val d \<le> dec_val hi)"
  using assms by (auto simp: preview_levels_def Let_def res_simps price_bounds_facts dec_less_def split: if_splits)

lemma preview_amounts_facts:
  assumes "preview_amounts_of rules k t qty entry stop take_at = Inr m"
  shows "dec_mul qty entry = Inr (pm_notional m)" "dec_val (ir_min_notional rules) \<le> dec_val (pm_notional m)"
    "0 < dec_val (pm_maximum_loss m)" "0 < dec_val (pm_potential_reward m)"
    "dec_val (pm_risk_percent m) \<le> dec_val (pt_max_risk t)"
  using assms unfolding preview_amounts_of_def res_simps
  by (auto simp: dec_less_def res_simps split: if_splits)

lemma preview_capital_facts:
  assumes "preview_capital payload category side t l qty m = Inr capital"
  shows "category = ''linear'' \<or> side = ''buy'' \<Longrightarrow> dec_val capital \<le> dec_val (pt_balance t)"
    "category \<noteq> ''linear'' \<Longrightarrow> side \<noteq> ''buy'' \<Longrightarrow>
       \<exists>a. preview_nonnegative (py_get payload ''available_asset_quantity'' PyNone) ''available_asset_quantity'' = Inr a \<and>
           dec_val qty \<le> dec_val a"
  using assms by (auto simp: preview_capital_def res_simps dec_less_def split: if_splits)


lemma build_order_preview_stages:
  assumes "build_order_preview request rules = Inr p"
  obtains payload category side kind t qty leverage entry stop take_at m capital ratio where
    "request = PyDict payload" "\<forall>k \<in> set forbidden_rule_fields. k \<notin> fst ` set payload"
    "preview_kind payload rules = Inr (category, side, kind)" "preview_terms_of payload kind = Inr t"
    "preview_quantity rules kind (pt_requested t) = Inr qty" "preview_leverage payload rules category = Inr leverage"
    "preview_entry payload rules side kind t = Inr entry" "preview_levels rules side t entry = Inr (stop, take_at)"
    "preview_amounts_of rules kind t qty entry stop take_at = Inr m"
    "preview_capital payload category side t leverage qty m = Inr capital"
    "p = preview_of rules category side kind t qty leverage entry stop take_at m capital ratio"
proof -
  obtain payload where r: "request = PyDict payload" using assms by (cases request) (simp_all add: build_order_preview_def)
  have f: "filter (\<lambda>k. k \<in> fst ` set payload) forbidden_rule_fields = []"
    using assms unfolding r build_order_preview_def Let_def by (auto split: if_splits)
  show thesis
    using assms that [OF r] f unfolding r build_order_preview_def Let_def
    by (auto simp: res_simps filter_empty_conv)
qed

text \<open>
  C7. A preview stays within the rules and the account: for verified rules, every preview is
  non-executable, matches the instrument, has a quantity and a notional of at least the minimum and at
  most the maximum of its order type, prices within the bounds of the instrument and ordered as its
  side demands, a leverage of one for spot and between the verified limits of the instrument for
  linear contracts, a loss at the stop of at most the requested share of the equity, which is at most
  five percent, and needs no more capital than is available, or for a spot sale no more of the asset
  than the request says is available, all in the floats that are shown.
\<close>

theorem preview_stays_within_rules:
  assumes "cache_sound cache" "rules_get ttl fetch now_mono now_ms symbol category cache = (Inr rules, cache')"
    and "build_order_preview request rules = Inr p"
  shows "\<not> op_executable p \<and> \<not> op_sends_order p \<and> \<not> op_executed p \<and> \<not> op_risk_approved p \<and>
    market_symbol symbol = Some (op_symbol p) \<and> op_category p = lower (strip category) \<and>
    op_category p \<in> set [''spot'', ''linear''] \<and>
    fle (Fin 0) (op_quantity p) \<and> fle (dec_float (ir_min_qty rules)) (op_quantity p) \<and>
    (\<forall>m. (if op_order_type p = ''market'' then ir_max_market_qty rules else ir_max_limit_qty rules) = Some m \<longrightarrow>
       fle (op_quantity p) (dec_float m)) \<and>
    fle (dec_float (ir_min_notional rules)) (op_notional p) \<and>
    (\<forall>x \<in> {op_entry_price p, op_stop_loss p, op_take_profit p}.
       (\<forall>lo. ir_min_price rules = Some lo \<longrightarrow> fle (dec_float lo) x) \<and>
       (\<forall>hi. ir_max_price rules = Some hi \<longrightarrow> fle x (dec_float hi))) \<and>
    (op_side p = ''buy'' \<and> fle (op_stop_loss p) (op_entry_price p) \<and> fle (op_entry_price p) (op_take_profit p) \<or>
     op_side p = ''sell'' \<and> fle (op_take_profit p) (op_entry_price p) \<and> fle (op_entry_price p) (op_stop_loss p)) \<and>
    (op_category p = ''spot'' \<longrightarrow> op_leverage p = Fin 1) \<and>
    (op_category p = ''linear'' \<longrightarrow> (\<exists>lo hi. ir_min_leverage rules = Some lo \<and> ir_max_leverage rules = Some hi \<and>
       fle (dec_float lo) (op_leverage p) \<and> fle (op_leverage p) (dec_float hi))) \<and>
    fle (Fin 0) (op_maximum_loss p) \<and> fle (Fin 0) (op_potential_reward p) \<and>
    fle (op_risk_percent_of_equity p) (op_max_risk_percent p) \<and> fle (op_max_risk_percent p) (Fin 5) \<and>
    (op_category p = ''linear'' \<or> op_side p = ''buy'' \<longrightarrow> fle (op_required_capital p) (op_available_balance p)) \<and>
    (op_category p = ''spot'' \<and> op_side p = ''sell'' \<longrightarrow> (\<exists>payload a. request = PyDict payload \<and>
       preview_nonnegative (py_get payload ''available_asset_quantity'' PyNone) ''available_asset_quantity'' = Inr a \<and>
       fle (op_quantity p) (dec_float a)))"
proof -
  have rules: "rules_sound rules" "market_symbol symbol = Some (ir_symbol rules)" "ir_category rules = lower (strip category)"
    using rules_get_sound(2) [OF assms(1,2)] by auto
  from assms(3) obtain payload cat side kind t qty leverage entry stop take_at m capital ratio where
    request: "request = PyDict payload"
    and s: "preview_kind payload rules = Inr (cat, side, kind)" "preview_terms_of payload kind = Inr t"
    "preview_quantity rules kind (pt_requested t) = Inr qty" "preview_leverage payload rules cat = Inr leverage"
    "preview_entry payload rules side kind t = Inr entry" "preview_levels rules side t entry = Inr (stop, take_at)"
    "preview_amounts_of rules kind t qty entry stop take_at = Inr m"
    "preview_capital payload cat side t leverage qty m = Inr capital"
    and p: "p = preview_of rules cat side kind t qty leverage entry stop take_at m capital ratio"
    by (rule build_order_preview_stages)
  note k = preview_kind_facts [OF s(1)] and q = preview_quantity_facts [OF s(3)] and l = preview_levels_facts [OF s(6)]
    and a = preview_amounts_facts [OF s(7)]
  have min_qty: "0 < dec_val (ir_min_qty rules)" using rules(1) by (simp add: rules_sound_def positive_def)
  have floats: "dec_val x \<le> 5 \<Longrightarrow> fle (dec_float x) (Fin 5)" "0 \<le> dec_val x \<Longrightarrow> fle (Fin 0) (dec_float x)"
    "dec_val x = 1 \<Longrightarrow> dec_float x = Fin 1" for x
  proof -
    have "rnd64 0 = Fin 0" "rnd64 1 = Fin 1" "rnd64 5 = Fin 5" by code_simp+
    then show "dec_val x \<le> 5 \<Longrightarrow> fle (dec_float x) (Fin 5)" "0 \<le> dec_val x \<Longrightarrow> fle (Fin 0) (dec_float x)"
      "dec_val x = 1 \<Longrightarrow> dec_float x = Fin 1"
      using rnd64_mono [of "dec_val x" 5] rnd64_mono [of 0 "dec_val x"] by (auto simp: dec_float_def)
  qed
  have levels: "\<forall>x \<in> {dec_float entry, dec_float stop, dec_float take_at}.
       (\<forall>lo. ir_min_price rules = Some lo \<longrightarrow> fle (dec_float lo) x) \<and>
       (\<forall>hi. ir_max_price rules = Some hi \<longrightarrow> fle x (dec_float hi))"
    using l(3) by (auto intro: dec_float_mono)
  have sides: "side = ''buy'' \<and> fle (dec_float stop) (dec_float entry) \<and> fle (dec_float entry) (dec_float take_at) \<or>
     side = ''sell'' \<and> fle (dec_float take_at) (dec_float entry) \<and> fle (dec_float entry) (dec_float stop)"
    using k(3) l(1,2) by (auto intro!: dec_float_mono)
  have quantity: "fle (Fin 0) (dec_float qty)" "fle (dec_float (ir_min_qty rules)) (dec_float qty)"
    using min_qty q(1) floats(2) [of qty] by (auto intro: dec_float_mono)
  have money: "fle (dec_float (ir_min_notional rules)) (dec_float (pm_notional m))"
    "fle (Fin 0) (dec_float (pm_maximum_loss m))" "fle (Fin 0) (dec_float (pm_potential_reward m))"
    "fle (dec_float (pm_risk_percent m)) (dec_float (pt_max_risk t))" "fle (dec_float (pt_max_risk t)) (Fin 5)"
    using a floats(1,2) preview_terms_max_risk [OF s(2)] by (auto intro: dec_float_mono)
  have capital: "cat = ''linear'' \<or> side = ''buy'' \<longrightarrow> fle (dec_float capital) (dec_float (pt_balance t))"
    using preview_capital_facts(1) [OF s(8)] by (auto intro: dec_float_mono)
  have asset: "cat = ''spot'' \<and> side = ''sell'' \<longrightarrow> (\<exists>a. preview_nonnegative
       (py_get payload ''available_asset_quantity'' PyNone) ''available_asset_quantity'' = Inr a \<and>
       fle (dec_float qty) (dec_float a))"
    using preview_capital_facts(2) [OF s(8)] by (auto dest: dec_float_mono)
  have maximum: "\<forall>x. (if kind = ''market'' then ir_max_market_qty rules else ir_max_limit_qty rules) = Some x \<longrightarrow>
       fle (dec_float qty) (dec_float x)"
    using q(2) by (auto intro: dec_float_mono)
  have leverage: "cat = ''spot'' \<longrightarrow> dec_float leverage = Fin 1"
    using preview_leverage_facts(1) [OF s(4)] floats(3) by blast
  have limits: "cat = ''linear'' \<longrightarrow> (\<exists>lo hi. ir_min_leverage rules = Some lo \<and> ir_max_leverage rules = Some hi \<and>
       fle (dec_float lo) (dec_float leverage) \<and> fle (dec_float leverage) (dec_float hi))"
    using preview_leverage_facts(2) [OF s(4)] by (auto dest: dec_float_mono)
  show ?thesis
    using levels sides quantity money capital maximum leverage limits rules(2,3) k(1,2) asset request
    unfolding p preview_of_def order_preview.select_convs by blast
qed


text \<open>An exchange answer, a request on it, and their preview.\<close>

definition sample_instrument :: pyval where
  "sample_instrument =
     PyDict [(''retCode'', PyInt 0), (''result'', PyDict [(''category'', PyStr ''spot''),
       (''list'', PyList [PyDict [(''symbol'', PyStr ''BTCUSDT''), (''status'', PyStr ''Trading''),
         (''baseCoin'', PyStr ''BTC''), (''quoteCoin'', PyStr ''USDT''),
         (''priceFilter'', PyDict [(''tickSize'', PyStr ''0.5'')]),
         (''lotSizeFilter'', PyDict [(''basePrecision'', PyStr ''0.1''), (''minOrderAmt'', PyStr ''5'')])]])])]"

definition sample_preview_request :: pyval where
  "sample_preview_request =
     PyDict [(''symbol'', PyStr ''btc/usdt''), (''side'', PyStr ''buy''), (''account_equity'', PyInt 90),
       (''available_balance'', PyInt 80), (''quantity'', PyStr ''1.29''), (''reference_price'', PyInt 10),
       (''limit_price'', PyStr ''10.7''), (''stop_loss'', PyInt 9), (''take_profit'', PyInt 15),
       (''max_risk_percent'', PyInt 3), (''fee_rate'', PyStr ''0.01'')]"

definition sample_rules :: instrument_rules where
  "sample_rules = \<lparr>ir_symbol = ''BTCUSDT'', ir_category = ''spot'', ir_status = ''Trading'', ir_base_coin = ''BTC'',
     ir_quote_coin = ''USDT'', ir_tick_size = DFin False 5 (- 1), ir_qty_step = DFin False 1 (- 1),
     ir_min_qty = DFin False 1 (- 1), ir_min_notional = DFin False 5 0, ir_max_limit_qty = None,
     ir_max_market_qty = None, ir_min_price = None, ir_max_price = None, ir_min_leverage = None,
     ir_max_leverage = None, ir_leverage_step = None, ir_fetched_at_ms = 1\<rparr>"

definition sample_terms :: preview_terms where
  "sample_terms = \<lparr>pt_equity = DFin False 90 0, pt_balance = DFin False 80 0, pt_requested = DFin False 129 (- 2),
     pt_reference = DFin False 10 0, pt_stop = DFin False 9 0, pt_take = DFin False 15 0,
     pt_fee = DFin False 1 (- 2), pt_exit_fee = DFin False 1 (- 2), pt_slippage = DFin False 0 0,
     pt_max_risk = DFin False 3 0\<rparr>"

lemma sample_rules_get:
  "rules_get (Fin 300) (\<lambda>_ _. Inr sample_instrument) (Fin 0) 1 (PyStr ''BTCUSDT'') ''spot'' [] =
     (Inr sample_rules, [((''spot'', ''BTCUSDT''), (Fin 0, sample_rules))])"
  by code_simp

lemma sample_preview_request:
  "preview_kind (case sample_preview_request of PyDict d \<Rightarrow> d) sample_rules = Inr (''spot'', ''buy'', ''limit'')"
  "preview_terms_of (case sample_preview_request of PyDict d \<Rightarrow> d) ''limit'' = Inr sample_terms"
  "preview_leverage (case sample_preview_request of PyDict d \<Rightarrow> d) sample_rules ''spot'' = Inr (DFin False 1 0)"
  "preview_positive (py_get (case sample_preview_request of PyDict d \<Rightarrow> d) ''limit_price'' PyNone) ''limit_price'' =
     Inr (DFin False 107 (- 1))"
  by code_simp+

lemma sample_steps:
  "round_step ROUND_DOWN (DFin False 129 (- 2)) (DFin False 1 (- 1)) = Inr (DFin False 12 (- 1))"
  "round_step ROUND_DOWN (DFin False 107 (- 1)) (DFin False 5 (- 1)) = Inr (DFin False 105 (- 1))"
  "round_step ROUND_DOWN (DFin False 9 0) (DFin False 5 (- 1)) = Inr (DFin False 90 (- 1))"
  "round_step ROUND_DOWN (DFin False 15 0) (DFin False 5 (- 1)) = Inr (DFin False 15 0)"
  by (simp_all add: round_step_def dec_eval)

lemma sample_products:
  "dec_mul (DFin False 12 (- 1)) (DFin False 105 (- 1)) = Inr (DFin False 1260 (- 2))"
  "dec_mul (DFin False 1260 (- 2)) (DFin False 1 (- 2)) = Inr (DFin False 1260 (- 4))"
  "dec_mul (DFin False 12 (- 1)) (DFin False 90 (- 1)) = Inr (DFin False 1080 (- 2))"
  "dec_mul (DFin False 1080 (- 2)) (DFin False 1 (- 2)) = Inr (DFin False 1080 (- 4))"
  "dec_mul (DFin False 12 (- 1)) (DFin False 15 0) = Inr (DFin False 180 (- 1))"
  "dec_mul (DFin False 180 (- 1)) (DFin False 1 (- 2)) = Inr (DFin False 180 (- 3))"
  "dec_mul (DFin False 226 (- 4)) (DFin False 100 0) = Inr (DFin False 22600 (- 4))"
  by (simp_all add: dec_eval)

lemma sample_distances:
  "scaled_distance (DFin False 12 (- 1)) (DFin False 105 (- 1)) (DFin False 90 (- 1)) = Inr (DFin False 180 (- 2))"
  "scaled_distance (DFin False 12 (- 1)) (DFin False 15 0) (DFin False 105 (- 1)) = Inr (DFin False 540 (- 2))"
  by (simp_all add: scaled_distance_def dec_sub_def dec_eval)

lemma sample_sums:
  "dec_add (DFin False 180 (- 2)) (DFin False 1260 (- 4)) = Inr (DFin False 19260 (- 4))"
  "dec_add (DFin False 19260 (- 4)) (DFin False 1080 (- 4)) = Inr (DFin False 20340 (- 4))"
  "dec_sub (DFin False 540 (- 2)) (DFin False 1260 (- 4)) = Inr (DFin False 52740 (- 4))"
  "dec_sub (DFin False 52740 (- 4)) (DFin False 180 (- 3)) = Inr (DFin False 50940 (- 4))"
  "dec_add (DFin False 1260 (- 2)) (DFin False 1260 (- 4)) = Inr (DFin False 127260 (- 4))"
  by (simp_all add: dec_sub_def dec_eval)

lemma sample_risk: "dec_div (DFin False 20340 (- 4)) (DFin False 90 0) = Inr (DFin False 226 (- 4))"
  by (simp add: dec_eval)

lemma sample_ratio:
  "dec_div (DFin False 50940 (- 4)) (DFin False 20340 (- 4)) = Inr (DFin False 2504424778761061946902654867 (- 27))"
  by (simp add: dec_eval)

definition sample_amounts :: preview_amounts where
  "sample_amounts = \<lparr>pm_notional = DFin False 1260 (- 2), pm_entry_fee = DFin False 1260 (- 4),
     pm_stop_exit_fee = DFin False 1080 (- 4), pm_slippage_cost = DFin False 0 0,
     pm_maximum_loss = DFin False 20340 (- 4), pm_potential_reward = DFin False 50940 (- 4),
     pm_risk_percent = DFin False 22600 (- 4)\<rparr>"

lemma sample_preview_amounts:
  "preview_amounts_of sample_rules ''limit'' sample_terms (DFin False 12 (- 1)) (DFin False 105 (- 1))
     (DFin False 90 (- 1)) (DFin False 15 0) = Inr sample_amounts"
  by (simp add: preview_amounts_of_def sample_rules_def sample_terms_def sample_amounts_def sample_products
      sample_distances sample_sums sample_risk dec_less_def pow10_def power_int_def del: One_nat_def dec_mul.simps dec_add.simps dec_div.simps)

definition sample_preview :: order_preview where
  "sample_preview = preview_of sample_rules ''spot'' ''buy'' ''limit'' sample_terms (DFin False 12 (- 1)) (DFin False 1 0)
     (DFin False 105 (- 1)) (DFin False 90 (- 1)) (DFin False 15 0) sample_amounts (DFin False 127260 (- 4))
     (DFin False 2504424778761061946902654867 (- 27))"

lemma sample_build: "build_order_preview sample_preview_request sample_rules = Inr sample_preview"
proof -
  obtain d where d: "sample_preview_request = PyDict d" by (simp add: sample_preview_request_def)
  note request = sample_preview_request [unfolded d pyval.case]
  have "filter (\<lambda>k. k \<in> fst ` set d) forbidden_rule_fields = []"
    using d by (auto simp: sample_preview_request_def forbidden_rule_fields_def)
  moreover have "preview_quantity sample_rules ''limit'' (pt_requested sample_terms) = Inr (DFin False 12 (- 1))"
    by (simp add: preview_quantity_def sample_rules_def sample_terms_def sample_steps below_minimum_def dec_less_def pow10_def power_int_def del: One_nat_def)
  moreover have "preview_entry d sample_rules ''buy'' ''limit'' sample_terms = Inr (DFin False 105 (- 1))"
    by (simp add: preview_entry_def request sample_rules_def sample_steps del: One_nat_def)
  moreover have "preview_levels sample_rules ''buy'' sample_terms (DFin False 105 (- 1)) = Inr (DFin False 90 (- 1), DFin False 15 0)"
    by (simp add: preview_levels_def sample_rules_def sample_terms_def sample_steps check_price_bounds_def dec_less_def pow10_def power_int_def del: One_nat_def)
  moreover have "preview_capital d ''spot'' ''buy'' sample_terms (DFin False 1 0) (DFin False 12 (- 1)) sample_amounts =
     Inr (DFin False 127260 (- 4))"
    by (simp add: preview_capital_def sample_amounts_def sample_terms_def sample_sums dec_less_def pow10_def power_int_def del: One_nat_def dec_add.simps)
  moreover have "dec_div (pm_potential_reward sample_amounts) (pm_maximum_loss sample_amounts) =
     Inr (DFin False 2504424778761061946902654867 (- 27))"
    by (simp add: sample_amounts_def sample_ratio del: One_nat_def dec_div.simps)
  ultimately show ?thesis
    by (simp add: build_order_preview_def d Let_def request sample_preview_amounts sample_preview_def)
qed

theorem preview_stays_within_rules_witness:
  "build_order_preview sample_preview_request sample_rules = Inr sample_preview \<and> op_side sample_preview = ''buy'' \<and>
   fle (op_stop_loss sample_preview) (op_entry_price sample_preview) \<and>
   fle (op_required_capital sample_preview) (op_available_balance sample_preview)"
proof -
  have "cache_sound []" by (simp add: cache_sound_def)
  note preview_stays_within_rules [OF this sample_rules_get sample_build]
  moreover have "op_side sample_preview = ''buy''" by (simp add: sample_preview_def preview_of_def)
  ultimately show ?thesis using sample_build by simp
qed

text \<open>
  Rounding to a step is not conservative beyond 28 digits: the quotient is rounded before it is
  truncated, so that a request of a little less than one step becomes a whole step, more than was
  asked for.
\<close>

theorem round_step_exceeds_request:
  "\<exists>r. round_step ROUND_DOWN (DFin False (10 ^ 29 - 1) (- 29)) (DFin False 1 0) = Inr r \<and>
       dec_val (DFin False (10 ^ 29 - 1) (- 29)) < dec_val r \<and> dec_val r = 1"
proof -
  have "round_step ROUND_DOWN (DFin False (10 ^ 29 - 1) (- 29)) (DFin False 1 0) = Inr (DFin False 1 0)"
    by (simp add: round_step_def dec_eval)
  then show ?thesis by (auto simp: pow10_def)
qed

end
