(* ===== verification/Settlement_Review.thy ===== *)
theory Settlement_Review
  imports General_Controller Decimal_Arithmetic
begin

text \<open>
  \<open>autonomous_trading/settlement_posttrade_v2.py\<close>: immutable facts of a completed paper position and
  the review derived from them. Amounts are converted by \<open>Decimal(str(value))\<close>, so an input is its
  text. The rendering \<open>to_dict\<close> is left out.
\<close>

section \<open>Fills\<close>

datatype position_side = POSITION_LONG | POSITION_SHORT

datatype review_outcome = OUTCOME_PROFIT | OUTCOME_LOSS | OUTCOME_FLAT

record raw_fill =
  fw_side :: position_side
  fw_quantity :: string
  fw_entry_price :: string
  fw_exit_price :: string
  fw_entry_fee :: string
  fw_exit_fee :: string
  fw_realized_slippage_cost :: string
  fw_opened_at_ms :: int
  fw_closed_at_ms :: int
  fw_entry_order_id :: string
  fw_exit_order_id :: string

record settlement_fill =
  sf_side :: position_side
  sf_quantity :: pydec
  sf_entry_price :: pydec
  sf_exit_price :: pydec
  sf_entry_fee :: pydec
  sf_exit_fee :: pydec
  sf_realized_slippage_cost :: pydec
  sf_opened_at_ms :: int
  sf_closed_at_ms :: int
  sf_entry_order_id :: string
  sf_exit_order_id :: string

definition settlement_decimal :: "string \<Rightarrow> string \<Rightarrow> pydec res" where
  "settlement_decimal s field =
     (case dec_of_string s of
        Inl e \<Rightarrow> Inl (ValueError (field @ '' must be a decimal value''))
      | Inr d \<Rightarrow> if dec_is_finite d then Inr d else Inl (ValueError (field @ '' must be finite'')))"

definition settlement_positive :: "string \<Rightarrow> string \<Rightarrow> pydec res" where
  "settlement_positive s field =
     rbind (settlement_decimal s field) (\<lambda>d.
       if dec_val d \<le> 0 then Inl (ValueError (field @ '' must be positive'')) else Inr d)"

definition settlement_nonnegative :: "string \<Rightarrow> string \<Rightarrow> pydec res" where
  "settlement_nonnegative s field =
     rbind (settlement_decimal s field) (\<lambda>d.
       if dec_val d < 0 then Inl (ValueError (field @ '' must be non-negative'')) else Inr d)"

definition settlement_fill_init :: "raw_fill \<Rightarrow> settlement_fill res" where
  "settlement_fill_init f =
     rbind (settlement_positive (fw_quantity f) ''quantity'') (\<lambda>quantity.
     rbind (settlement_positive (fw_entry_price f) ''entry_price'') (\<lambda>entry.
     rbind (settlement_positive (fw_exit_price f) ''exit_price'') (\<lambda>exit.
     rbind (settlement_nonnegative (fw_entry_fee f) ''entry_fee'') (\<lambda>entry_fee.
     rbind (settlement_nonnegative (fw_exit_fee f) ''exit_fee'') (\<lambda>exit_fee.
     rbind (settlement_nonnegative (fw_realized_slippage_cost f) ''realized_slippage_cost'') (\<lambda>slippage.
       if fw_opened_at_ms f \<le> 0 \<or> fw_closed_at_ms f \<le> 0 then Inl (ValueError ''timestamps must be positive'')
       else if fw_closed_at_ms f < fw_opened_at_ms f
       then Inl (ValueError ''closed_at_ms must be >= opened_at_ms'')
       else if strip (fw_entry_order_id f) = [] \<or> strip (fw_exit_order_id f) = []
       then Inl (ValueError ''entry_order_id and exit_order_id must not be empty'')
       else Inr \<lparr>sf_side = fw_side f, sf_quantity = quantity, sf_entry_price = entry, sf_exit_price = exit,
                 sf_entry_fee = entry_fee, sf_exit_fee = exit_fee, sf_realized_slippage_cost = slippage,
                 sf_opened_at_ms = fw_opened_at_ms f, sf_closed_at_ms = fw_closed_at_ms f,
                 sf_entry_order_id = fw_entry_order_id f, sf_exit_order_id = fw_exit_order_id f\<rparr>))))))"

definition gross_pnl :: "settlement_fill \<Rightarrow> pydec res" where
  "gross_pnl f =
     rbind (dec_sub (sf_exit_price f) (sf_entry_price f)) (\<lambda>move.
     rbind (if sf_side f = POSITION_SHORT then dec_neg move else Inr move) (\<lambda>m.
       dec_mul m (sf_quantity f)))"

definition settlement_fees :: "settlement_fill \<Rightarrow> pydec res" where
  "settlement_fees f = dec_add (sf_entry_fee f) (sf_exit_fee f)"

definition net_pnl :: "settlement_fill \<Rightarrow> pydec res" where
  "net_pnl f =
     rbind (gross_pnl f) (\<lambda>g. rbind (settlement_fees f) (\<lambda>c. rbind (dec_sub g c) (\<lambda>x.
       dec_sub x (sf_realized_slippage_cost f))))"

section \<open>Lineage and attribution\<close>

record decision_lineage =
  dl_decision_id :: string
  dl_candidate_id :: string
  dl_final_intent :: trading_intent
  dl_contributing_agents :: "string list"
  dl_gate_verdicts :: "(string \<times> string) list"
  dl_evidence_ids :: "string list"
  dl_exit_decision_id :: "string option"
  dl_exit_intent :: "trading_intent option"
  dl_exit_evidence_ids :: "string list"

definition text_given :: "string option \<Rightarrow> bool" where
  "text_given s = (case s of None \<Rightarrow> False | Some t \<Rightarrow> strip t \<noteq> [])"

definition decision_lineage_init :: "decision_lineage \<Rightarrow> decision_lineage res" where
  "decision_lineage_init l =
     (let has_id = text_given (dl_exit_decision_id l); has_intent = dl_exit_intent l \<noteq> None;
          has_evidence = dl_exit_evidence_ids l \<noteq> []
      in if dl_final_intent l = INTENT_WAIT then Inl (ValueError ''WAIT cannot settle a completed position'')
         else if strip (dl_decision_id l) = [] \<or> strip (dl_candidate_id l) = []
         then Inl (ValueError ''decision_id and candidate_id must not be empty'')
         else if dl_evidence_ids l = [] then Inl (ValueError ''evidence_ids must not be empty'')
         else if (has_id \<or> has_intent \<or> has_evidence) \<and> \<not> (has_id \<and> has_intent \<and> has_evidence)
         then Inl (ValueError ''exit lineage requires exit_decision_id, exit_intent and exit_evidence_ids together'')
         else if dl_exit_intent l = Some INTENT_WAIT
         then Inl (ValueError ''completed position exit_intent cannot be WAIT'')
         else Inr l)"

record counterfactual_attribution =
  ca_direction_error :: bool
  ca_timing_error :: bool
  ca_sizing_error :: bool
  ca_cost_error :: bool
  ca_risk_error :: bool
  ca_evidence_error :: bool
  ca_controller_synthesis_error :: bool
  ca_market_intelligence_error :: bool
  ca_news_intelligence_error :: bool
  ca_security_error :: bool
  ca_notes :: "string list"

definition implicated_roles :: "counterfactual_attribution \<Rightarrow> string list" where
  "implicated_roles a =
     (if ca_market_intelligence_error a then [''market_intelligence''] else []) @
     (if ca_news_intelligence_error a then [''news_intelligence''] else []) @
     (if ca_direction_error a then [''direction''] else []) @
     (if ca_timing_error a then [''timing''] else []) @
     (if ca_sizing_error a then [''portfolio_engine''] else []) @
     (if ca_cost_error a then [''execution_costs''] else []) @
     (if ca_risk_error a then [''risk_engine''] else []) @
     (if ca_security_error a then [''security_guard''] else []) @
     (if ca_evidence_error a then [''evidence''] else []) @
     (if ca_controller_synthesis_error a then [''general_controller''] else [])"

section \<open>Reviews\<close>

record post_trade_review =
  pr_settlement_id :: string
  pr_symbol :: string
  pr_fill :: settlement_fill
  pr_lineage :: decision_lineage
  pr_attribution :: counterfactual_attribution
  pr_max_drawdown_quote :: pydec
  pr_execution_authority :: bool

definition entry_side_intent :: "position_side \<Rightarrow> trading_intent" where
  "entry_side_intent s = (if s = POSITION_LONG then INTENT_BUY else INTENT_SELL)"

definition exit_side_intent :: "position_side \<Rightarrow> trading_intent" where
  "exit_side_intent s = (if s = POSITION_LONG then INTENT_SELL else INTENT_BUY)"

text \<open>The drawdown is converted a second time, from the text of the decimal.\<close>

definition post_trade_review_init :: "post_trade_review \<Rightarrow> post_trade_review res" where
  "post_trade_review_init r =
     (let side = sf_side (pr_fill r); exit_intent = dl_exit_intent (pr_lineage r)
      in if strip (pr_settlement_id r) = [] \<or> strip (pr_symbol r) = []
         then Inl (ValueError ''settlement_id and symbol must not be empty'')
         else rbind (settlement_nonnegative (dec_str (pr_max_drawdown_quote r)) ''max_drawdown_quote'') (\<lambda>d.
           if pr_execution_authority r then Inl (ValueError ''post-trade review cannot grant execution authority'')
           else if dl_final_intent (pr_lineage r) \<noteq> entry_side_intent side
           then Inl (ValueError ''lineage final_intent must match the actual opened position side'')
           else if exit_intent \<noteq> None \<and> exit_intent \<noteq> Some (exit_side_intent side)
           then Inl (ValueError ''lineage exit_intent must close the actual opened position side'')
           else Inr (r\<lparr>pr_max_drawdown_quote := d\<rparr>)))"

definition no_attribution :: counterfactual_attribution where
  "no_attribution = \<lparr>ca_direction_error = False, ca_timing_error = False, ca_sizing_error = False,
     ca_cost_error = False, ca_risk_error = False, ca_evidence_error = False,
     ca_controller_synthesis_error = False, ca_market_intelligence_error = False,
     ca_news_intelligence_error = False, ca_security_error = False, ca_notes = []\<rparr>"

definition build_review ::
  "string \<Rightarrow> string \<Rightarrow> settlement_fill \<Rightarrow> decision_lineage \<Rightarrow> counterfactual_attribution option \<Rightarrow> string \<Rightarrow>
   post_trade_review res" where
  "build_review settlement_id symbol fill lineage attribution drawdown =
     rbind (settlement_nonnegative drawdown ''max_drawdown_quote'') (\<lambda>d.
       post_trade_review_init
         \<lparr>pr_settlement_id = settlement_id, pr_symbol = upper (strip symbol), pr_fill = fill, pr_lineage = lineage,
          pr_attribution = (case attribution of Some a \<Rightarrow> a | None \<Rightarrow> no_attribution),
          pr_max_drawdown_quote = d, pr_execution_authority = False\<rparr>)"

definition review_outcome_of :: "post_trade_review \<Rightarrow> review_outcome res" where
  "review_outcome_of r =
     rbind (net_pnl (pr_fill r)) (\<lambda>p.
       Inr (if 0 < dec_val p then OUTCOME_PROFIT else if dec_val p < 0 then OUTCOME_LOSS else OUTCOME_FLAT))"

section \<open>Facts\<close>

lemma build_review_facts:
  assumes "build_review settlement_id symbol fill lineage attribution drawdown = Inr r"
  shows "pr_fill r = fill" "pr_lineage r = lineage" "\<not> pr_execution_authority r" "pr_settlement_id r = settlement_id"
    "dl_final_intent lineage = entry_side_intent (sf_side fill)"
    "\<And>x. dl_exit_intent lineage = Some x \<Longrightarrow> x = exit_side_intent (sf_side fill)"
  using assms by (auto simp: build_review_def post_trade_review_init_def Let_def res_simps split: if_splits)

end
