(* ===== verification/Learning_Lifecycle.thy ===== *)
theory Learning_Lifecycle
  imports Settlement_Review
begin

text \<open>
  \<open>autonomous_trading/role_aware_learning_v2.py\<close> and \<open>learning_observation_v2.py\<close>: what a role is judged
  by, observations bound to a settled trade, and lessons that are promoted one stage at a time on
  explicit evidence. A lesson is a value; a promotion builds the next one and validates it again, as
  \<open>dataclasses.replace\<close> does. The digest of an observation id is the parameter \<open>H\<close>.
\<close>

section \<open>Roles and objectives\<close>

datatype lesson_stage = STAGE_CANDIDATE | STAGE_REPLAY_VALIDATED | STAGE_SHADOW_VALIDATED | STAGE_ACTIVE

fun stage_value :: "lesson_stage \<Rightarrow> string" where
  "stage_value STAGE_CANDIDATE = ''candidate''"
| "stage_value STAGE_REPLAY_VALIDATED = ''replay_validated''"
| "stage_value STAGE_SHADOW_VALIDATED = ''shadow_validated''"
| "stage_value STAGE_ACTIVE = ''active''"

datatype learning_objective =
    DIRECTIONAL_QUALITY | EVIDENCE_QUALITY | CONTROLLER_SYNTHESIS | VETO_QUALITY | POSITION_SIZING
  | EXECUTION_COST | TIMING

datatype validation_gate = GATE_REPLAY | GATE_SHADOW

fun gate_value :: "validation_gate \<Rightarrow> string" where
  "gate_value GATE_REPLAY = ''replay''"
| "gate_value GATE_SHADOW = ''shadow''"

fun allowed_transitions :: "lesson_stage \<Rightarrow> lesson_stage list" where
  "allowed_transitions STAGE_CANDIDATE = [STAGE_REPLAY_VALIDATED]"
| "allowed_transitions STAGE_REPLAY_VALIDATED = [STAGE_SHADOW_VALIDATED]"
| "allowed_transitions STAGE_SHADOW_VALIDATED = [STAGE_ACTIVE]"
| "allowed_transitions STAGE_ACTIVE = []"

definition role_objectives :: "(string \<times> learning_objective) list" where
  "role_objectives =
     [(''market_intelligence'', DIRECTIONAL_QUALITY), (''news_intelligence'', DIRECTIONAL_QUALITY),
      (''general_controller'', CONTROLLER_SYNTHESIS), (''risk_engine'', VETO_QUALITY),
      (''security_guard'', VETO_QUALITY), (''portfolio_engine'', POSITION_SIZING),
      (''execution_costs'', EXECUTION_COST), (''direction'', DIRECTIONAL_QUALITY),
      (''evidence'', EVIDENCE_QUALITY), (''timing'', TIMING)]"

definition directional_correctness_roles :: "string list" where
  "directional_correctness_roles = [''market_intelligence'', ''news_intelligence'', ''direction'']"

definition unsupported_role :: "string \<Rightarrow> py_error" where
  "unsupported_role r = ValueError (''unsupported learning role: '' @ (if r = [] then ''<empty>'' else r))"

definition learning_objective_for_role :: "string \<Rightarrow> learning_objective res" where
  "learning_objective_for_role role =
     (case map_of role_objectives (strip role) of Some x \<Rightarrow> Inr x | None \<Rightarrow> Inl (unsupported_role (strip role)))"

definition directional_correctness_eligible :: "string \<Rightarrow> bool res" where
  "directional_correctness_eligible role =
     (if strip role \<notin> fst ` set role_objectives then Inl (unsupported_role (strip role))
      else Inr (strip role \<in> set directional_correctness_roles))"

section \<open>Lessons\<close>

record learning_evidence =
  le_evidence_id :: string
  le_review_id :: string
  le_role :: string
  le_hypothesis :: string
  le_sample_count :: int
  le_replay_score_delta :: "pyfloat option"
  le_shadow_score_delta :: "pyfloat option"
  le_validation_gate :: "validation_gate option"
  le_validation_protocol_id :: "string option"
  le_accepted :: "bool option"

definition learning_evidence_init :: "learning_evidence \<Rightarrow> learning_evidence res" where
  "learning_evidence_init e =
     (if strip (le_evidence_id e) = [] \<or> strip (le_review_id e) = []
      then Inl (ValueError ''evidence_id and review_id must not be empty'')
      else if strip (le_role e) = [] \<or> strip (le_hypothesis e) = []
      then Inl (ValueError ''role and hypothesis must not be empty'')
      else if le_sample_count e \<le> 0 then Inl (ValueError ''sample_count must be positive'')
      else if le_validation_protocol_id e \<noteq> None \<and> \<not> text_given (le_validation_protocol_id e)
      then Inl (ValueError ''validation_protocol_id must not be blank'') else Inr e)"

record validated_lesson =
  vl_lesson_id :: string
  vl_role :: string
  vl_stage :: lesson_stage
  vl_hypothesis :: string
  vl_source_review_ids :: "string list"
  vl_evidence_ids :: "string list"
  vl_objective :: learning_objective
  vl_replay_score_delta :: "pyfloat option"
  vl_shadow_score_delta :: "pyfloat option"
  vl_replay_validation_evidence_ids :: "string list"
  vl_shadow_validation_evidence_ids :: "string list"
  vl_activation_reason :: "string option"
  vl_execution_authority :: bool

definition validated_lesson_init :: "validated_lesson \<Rightarrow> validated_lesson res" where
  "validated_lesson_init l =
     (if strip (vl_lesson_id l) = [] \<or> strip (vl_role l) = [] \<or> strip (vl_hypothesis l) = []
      then Inl (ValueError ''lesson_id, role and hypothesis must not be empty'')
      else if vl_source_review_ids l = [] \<or> vl_evidence_ids l = []
      then Inl (ValueError ''lesson must retain source reviews and evidence'')
      else if vl_execution_authority l then Inl (ValueError ''learning lessons cannot grant execution authority'')
      else if vl_stage l = STAGE_ACTIVE \<and> \<not> text_given (vl_activation_reason l)
      then Inl (ValueError ''active lessons require activation_reason'') else Inr l)"

definition propose_lesson :: "string \<Rightarrow> post_trade_review \<Rightarrow> string \<Rightarrow> string \<Rightarrow> string \<Rightarrow> validated_lesson res" where
  "propose_lesson lesson_id review role hypothesis evidence_id =
     (if role \<notin> set (implicated_roles (pr_attribution review))
      then Inl (ValueError ''role is not implicated by the post-trade attribution'')
      else rbind (learning_objective_for_role role) (\<lambda>objective.
        validated_lesson_init
          \<lparr>vl_lesson_id = lesson_id, vl_role = role, vl_stage = STAGE_CANDIDATE, vl_hypothesis = hypothesis,
           vl_source_review_ids = [pr_settlement_id review], vl_evidence_ids = [evidence_id],
           vl_objective = objective, vl_replay_score_delta = None, vl_shadow_score_delta = None,
           vl_replay_validation_evidence_ids = [], vl_shadow_validation_evidence_ids = [],
           vl_activation_reason = None, vl_execution_authority = False\<rparr>))"

definition validated_gate_evidence ::
  "validated_lesson \<Rightarrow> learning_evidence option \<Rightarrow> validation_gate \<Rightarrow> learning_evidence res" where
  "validated_gate_evidence l evidence gate =
     (case evidence of
        None \<Rightarrow> Inl (ValueError (gate_value gate @ '' validation requires explicit LearningEvidence''))
      | Some e \<Rightarrow>
          if le_role e \<noteq> vl_role l then Inl (ValueError ''validation evidence role must match lesson role'')
          else if le_hypothesis e \<noteq> vl_hypothesis l
          then Inl (ValueError ''validation evidence hypothesis must match lesson hypothesis'')
          else if le_validation_gate e \<noteq> Some gate
          then Inl (ValueError (''validation evidence gate must be '' @ gate_value gate))
          else if \<not> text_given (le_validation_protocol_id e)
          then Inl (ValueError ''validation evidence requires validation_protocol_id'')
          else if le_accepted e \<noteq> Some True
          then Inl (ValueError ''validation evidence must be explicitly accepted'') else Inr e)"

text \<open>A score delta counts unless it is missing or not above zero; a supplied one must match.\<close>

definition not_positive :: "pyfloat option \<Rightarrow> bool" where
  "not_positive d = (case d of None \<Rightarrow> True | Some x \<Rightarrow> fle x (Fin 0))"

definition mismatched :: "pyfloat option \<Rightarrow> pyfloat option \<Rightarrow> bool" where
  "mismatched given d = (case (given, d) of (Some x, Some y) \<Rightarrow> \<not> feq x y | _ \<Rightarrow> False)"

definition replay_promotion ::
  "validated_lesson \<Rightarrow> learning_evidence option \<Rightarrow> pyfloat option \<Rightarrow> validated_lesson res" where
  "replay_promotion l evidence given =
     rbind (validated_gate_evidence l evidence GATE_REPLAY) (\<lambda>e.
       if not_positive (le_replay_score_delta e)
       then Inl (ValueError ''replay validation requires positive replay_score_delta'')
       else if mismatched given (le_replay_score_delta e)
       then Inl (ValueError ''replay_score_delta must match validation evidence'')
       else validated_lesson_init (l\<lparr>vl_stage := STAGE_REPLAY_VALIDATED,
              vl_replay_score_delta := le_replay_score_delta e,
              vl_replay_validation_evidence_ids := [le_evidence_id e]\<rparr>))"

definition shadow_promotion ::
  "validated_lesson \<Rightarrow> learning_evidence option \<Rightarrow> pyfloat option \<Rightarrow> validated_lesson res" where
  "shadow_promotion l evidence given =
     (if not_positive (vl_replay_score_delta l)
      then Inl (ValueError ''shadow validation requires prior positive replay validation'')
      else if vl_replay_validation_evidence_ids l = []
      then Inl (ValueError ''shadow validation requires prior replay validation evidence'')
      else rbind (validated_gate_evidence l evidence GATE_SHADOW) (\<lambda>e.
        if not_positive (le_shadow_score_delta e)
        then Inl (ValueError ''shadow validation requires positive shadow_score_delta'')
        else if mismatched given (le_shadow_score_delta e)
        then Inl (ValueError ''shadow_score_delta must match validation evidence'')
        else validated_lesson_init (l\<lparr>vl_stage := STAGE_SHADOW_VALIDATED,
               vl_shadow_score_delta := le_shadow_score_delta e,
               vl_shadow_validation_evidence_ids := [le_evidence_id e]\<rparr>)))"

definition activation :: "validated_lesson \<Rightarrow> string option \<Rightarrow> validated_lesson res" where
  "activation l reason =
     (if not_positive (vl_shadow_score_delta l)
      then Inl (ValueError ''activation requires prior positive shadow validation'')
      else if vl_replay_validation_evidence_ids l = [] \<or> vl_shadow_validation_evidence_ids l = []
      then Inl (ValueError ''activation requires replay and shadow validation evidence'')
      else if \<not> text_given reason then Inl (ValueError ''activation requires a reason'')
      else validated_lesson_init (l\<lparr>vl_stage := STAGE_ACTIVE, vl_activation_reason := map_option strip reason\<rparr>))"

definition promote_lesson ::
  "validated_lesson \<Rightarrow> lesson_stage \<Rightarrow> learning_evidence option \<Rightarrow> pyfloat option \<Rightarrow> pyfloat option \<Rightarrow>
   string option \<Rightarrow> validated_lesson res" where
  "promote_lesson l target evidence replay_delta shadow_delta reason =
     (if target \<notin> set (allowed_transitions (vl_stage l))
      then Inl (ValueError (''invalid lesson transition: '' @ stage_value (vl_stage l) @ '' -> '' @ stage_value target))
      else case target of
        STAGE_REPLAY_VALIDATED \<Rightarrow> replay_promotion l evidence replay_delta
      | STAGE_SHADOW_VALIDATED \<Rightarrow> shadow_promotion l evidence shadow_delta
      | STAGE_ACTIVE \<Rightarrow> activation l reason
      | STAGE_CANDIDATE \<Rightarrow> Inl (CustomError ''AssertionError'' ''unreachable lesson target''))"

section \<open>Observations\<close>

record role_assessment =
  ra_role :: string
  ra_evidence_id :: string
  ra_success :: "bool option"
  ra_abstained :: bool

definition role_assessment_init :: "role_assessment \<Rightarrow> role_assessment res" where
  "role_assessment_init a =
     (if strip (ra_role a) = [] \<or> strip (ra_evidence_id a) = []
      then Inl (ValueError ''role and evidence_id must not be empty'')
      else rbind (learning_objective_for_role (ra_role a)) (\<lambda>_.
        if ra_abstained a
        then (if ra_success a \<noteq> None then Inl (ValueError ''abstention cannot carry role correctness'') else Inr a)
        else if ra_success a = None
        then Inl (ValueError ''non-abstention assessment requires explicit success'') else Inr a))"

record role_observation =
  ob_observation_id :: string
  ob_settlement_id :: string
  ob_role :: string
  ob_objective :: learning_objective
  ob_entry_intent :: trading_intent
  ob_exit_intent :: "trading_intent option"
  ob_trade_outcome :: review_outcome
  ob_role_success :: "bool option"
  ob_abstained :: bool
  ob_source_evidence_ids :: "string list"
  ob_execution_authority :: bool

definition role_observation_init :: "role_observation \<Rightarrow> role_observation res" where
  "role_observation_init b =
     (if strip (ob_observation_id b) = [] \<or> strip (ob_settlement_id b) = [] \<or> strip (ob_role b) = []
      then Inl (ValueError ''observation_id, settlement_id and role must not be empty'')
      else rbind (learning_objective_for_role (ob_role b)) (\<lambda>objective.
        if ob_objective b \<noteq> objective
        then Inl (ValueError ''observation objective must match canonical role objective'')
        else if ob_source_evidence_ids b = []
        then Inl (ValueError ''learning observation must retain source evidence'')
        else if \<not> distinct (ob_source_evidence_ids b) then Inl (ValueError ''source_evidence_ids must be unique'')
        else if ob_execution_authority b
        then Inl (ValueError ''learning observation cannot grant execution authority'')
        else if ob_abstained b
        then (if ob_role_success b \<noteq> None then Inl (ValueError ''abstention cannot carry role correctness'') else Inr b)
        else if ob_role_success b = None
        then Inl (ValueError ''non-abstention observation requires explicit role_success'') else Inr b))"

definition observation_text :: "post_trade_review \<Rightarrow> role_assessment \<Rightarrow> string" where
  "observation_text r a =
     join [CHR 0x0A] [''learning-observation-v1'', pr_settlement_id r, ra_role a, ra_evidence_id a]"

definition build_role_learning_observation ::
  "(string \<Rightarrow> string) \<Rightarrow> post_trade_review \<Rightarrow> role_assessment \<Rightarrow> role_observation res" where
  "build_role_learning_observation H r a =
     (let l = pr_lineage r in
      if ra_role a \<notin> set (implicated_roles (pr_attribution r))
      then Inl (ValueError ''role is not implicated by post-trade attribution'')
      else rbind (learning_objective_for_role (ra_role a)) (\<lambda>objective.
        rbind (review_outcome_of r) (\<lambda>outcome.
          role_observation_init
            \<lparr>ob_observation_id = H (observation_text r a), ob_settlement_id = pr_settlement_id r,
             ob_role = ra_role a, ob_objective = objective, ob_entry_intent = dl_final_intent l,
             ob_exit_intent = dl_exit_intent l, ob_trade_outcome = outcome, ob_role_success = ra_success a,
             ob_abstained = ra_abstained a,
             ob_source_evidence_ids = first_occurrences (dl_evidence_ids l @ dl_exit_evidence_ids l @ [ra_evidence_id a]),
             ob_execution_authority = False\<rparr>)))"

definition propose_lesson_from_failed_observation ::
  "post_trade_review \<Rightarrow> role_observation \<Rightarrow> string \<Rightarrow> string \<Rightarrow> validated_lesson res" where
  "propose_lesson_from_failed_observation r b lesson_id hypothesis =
     (if ob_settlement_id b \<noteq> pr_settlement_id r
      then Inl (ValueError ''observation settlement_id must match review settlement_id'')
      else if ob_role b \<notin> set (implicated_roles (pr_attribution r))
      then Inl (ValueError ''observation role is not implicated by post-trade attribution'')
      else if ob_abstained b then Inl (ValueError ''abstained observation cannot automatically propose a lesson'')
      else if ob_role_success b \<noteq> Some False
      then Inl (ValueError ''candidate lesson requires explicit failed role assessment'')
      else rbind (learning_objective_for_role (ob_role b)) (\<lambda>objective.
        if ob_objective b \<noteq> objective
        then Inl (ValueError ''observation objective must match canonical role objective'')
        else propose_lesson lesson_id r (ob_role b) hypothesis (ob_observation_id b)))"

section \<open>The lifecycle\<close>

text \<open>A lesson proposed from a review and promoted on a list of evidence.\<close>

inductive lesson_history :: "post_trade_review \<Rightarrow> learning_evidence list \<Rightarrow> validated_lesson \<Rightarrow> bool"
  for review :: post_trade_review where
  lesson_proposed: "propose_lesson lesson_id review role hypothesis evidence_id = Inr l \<Longrightarrow> lesson_history review [] l"
| lesson_promoted: "lesson_history review es l \<Longrightarrow>
    promote_lesson l target (Some e) replay_delta shadow_delta reason = Inr l' \<Longrightarrow> lesson_history review (es @ [e]) l'"
| lesson_activated: "lesson_history review es l \<Longrightarrow>
    promote_lesson l target None replay_delta shadow_delta reason = Inr l' \<Longrightarrow> lesson_history review es l'"

definition gate_passed :: "learning_evidence list \<Rightarrow> validated_lesson \<Rightarrow> validation_gate \<Rightarrow> bool" where
  "gate_passed es l gate =
     (\<exists>e\<in>set es. le_role e = vl_role l \<and> le_hypothesis e = vl_hypothesis l \<and> le_validation_gate e = Some gate \<and>
        le_accepted e = Some True \<and> text_given (le_validation_protocol_id e) \<and>
        (if gate = GATE_REPLAY
         then vl_replay_validation_evidence_ids l = [le_evidence_id e] \<and> vl_replay_score_delta l = le_replay_score_delta e \<and>
              \<not> not_positive (le_replay_score_delta e)
         else vl_shadow_validation_evidence_ids l = [le_evidence_id e] \<and> vl_shadow_score_delta l = le_shadow_score_delta e \<and>
              \<not> not_positive (le_shadow_score_delta e)))"

fun stage_gates :: "lesson_stage \<Rightarrow> validation_gate list" where
  "stage_gates STAGE_CANDIDATE = []"
| "stage_gates STAGE_REPLAY_VALIDATED = [GATE_REPLAY]"
| "stage_gates STAGE_SHADOW_VALIDATED = [GATE_REPLAY, GATE_SHADOW]"
| "stage_gates STAGE_ACTIVE = [GATE_REPLAY, GATE_SHADOW]"

lemma validated_lesson_init_Inr:
  "validated_lesson_init l = Inr l' \<Longrightarrow> l' = l \<and> \<not> vl_execution_authority l \<and>
     (vl_stage l = STAGE_ACTIVE \<longrightarrow> text_given (vl_activation_reason l))"
  by (simp add: validated_lesson_init_def split: if_splits)

lemma validated_gate_evidence_Inr:
  "validated_gate_evidence l ev gate = Inr e \<Longrightarrow>
     ev = Some e \<and> le_role e = vl_role l \<and> le_hypothesis e = vl_hypothesis l \<and> le_validation_gate e = Some gate \<and>
     text_given (le_validation_protocol_id e) \<and> le_accepted e = Some True"
  by (simp add: validated_gate_evidence_def split: option.splits if_splits)

lemmas lesson_inversions = validated_lesson_init_Inr validated_gate_evidence_Inr

lemma gate_passed_mono: "gate_passed es l gate \<Longrightarrow> gate_passed (es @ fs) l gate"
  by (auto simp: gate_passed_def)

lemma gate_passed_shadow_frame:
  "gate_passed es (l\<lparr>vl_stage := s, vl_shadow_score_delta := d, vl_shadow_validation_evidence_ids := i\<rparr>) GATE_REPLAY =
     gate_passed es l GATE_REPLAY"
  by (simp add: gate_passed_def)

lemma gate_passed_stage_frame:
  "gate_passed es (l\<lparr>vl_stage := s, vl_activation_reason := r\<rparr>) gate = gate_passed es l gate"
  by (simp add: gate_passed_def)

text \<open>What a promotion keeps, and what it adds.\<close>

lemma promote_lesson_frame:
  assumes "promote_lesson l target ev rd sd reason = Inr l'"
  shows "vl_stage l' = target" "target \<in> set (allowed_transitions (vl_stage l))"
    "vl_lesson_id l' = vl_lesson_id l" "vl_role l' = vl_role l" "vl_hypothesis l' = vl_hypothesis l"
    "vl_objective l' = vl_objective l" "vl_source_review_ids l' = vl_source_review_ids l"
    "vl_evidence_ids l' = vl_evidence_ids l" "\<not> vl_execution_authority l'"
    "target = STAGE_ACTIVE \<Longrightarrow> text_given (vl_activation_reason l')"
  using assms
  by (auto simp: promote_lesson_def replay_promotion_def shadow_promotion_def activation_def res_simps
      dest!: lesson_inversions split: if_splits lesson_stage.splits)

lemma promote_lesson_gates:
  assumes "promote_lesson l target ev rd sd reason = Inr l'"
    and "\<forall>g\<in>set (stage_gates (vl_stage l)). gate_passed es l g"
  shows "\<forall>g\<in>set (stage_gates target). gate_passed (es @ (case ev of None \<Rightarrow> [] | Some e \<Rightarrow> [e])) l' g"
proof (cases target)
  case STAGE_CANDIDATE
  then show ?thesis by simp
next
  case STAGE_REPLAY_VALIDATED
  then show ?thesis using assms
    by (auto simp: promote_lesson_def replay_promotion_def res_simps gate_passed_def
        dest!: lesson_inversions split: if_splits)
next
  case STAGE_SHADOW_VALIDATED
  then have stage: "vl_stage l = STAGE_REPLAY_VALIDATED"
    using promote_lesson_frame(2) [OF assms(1)] by (cases "vl_stage l") auto
  then obtain e where e: "validated_gate_evidence l ev GATE_SHADOW = Inr e"
    and pos: "\<not> not_positive (le_shadow_score_delta e)"
    and l': "l' = l\<lparr>vl_stage := STAGE_SHADOW_VALIDATED, vl_shadow_score_delta := le_shadow_score_delta e,
               vl_shadow_validation_evidence_ids := [le_evidence_id e]\<rparr>"
    using assms(1) STAGE_SHADOW_VALIDATED
    by (auto simp: promote_lesson_def shadow_promotion_def res_simps dest!: validated_lesson_init_Inr split: if_splits)
  have "gate_passed es l' GATE_REPLAY"
    using assms(2) stage by (simp add: l' gate_passed_shadow_frame)
  moreover have "gate_passed (es @ [e]) l' GATE_SHADOW"
    using validated_gate_evidence_Inr [OF e] pos by (simp add: gate_passed_def l')
  ultimately show ?thesis
    using STAGE_SHADOW_VALIDATED validated_gate_evidence_Inr [OF e] by (simp add: gate_passed_mono)
next
  case STAGE_ACTIVE
  then have stage: "vl_stage l = STAGE_SHADOW_VALIDATED"
    using promote_lesson_frame(2) [OF assms(1)] by (cases "vl_stage l") auto
  moreover obtain r where "l' = l\<lparr>vl_stage := STAGE_ACTIVE, vl_activation_reason := r\<rparr>"
    using assms(1) STAGE_ACTIVE
    by (auto simp: promote_lesson_def activation_def res_simps dest!: validated_lesson_init_Inr split: if_splits)
  ultimately show ?thesis using assms(2) STAGE_ACTIVE by (simp add: gate_passed_stage_frame gate_passed_mono)
qed

lemma propose_lesson_facts:
  assumes "propose_lesson lesson_id review role hypothesis evidence_id = Inr l"
  shows "vl_stage l = STAGE_CANDIDATE" "vl_role l \<in> set (implicated_roles (pr_attribution review))"
    "vl_source_review_ids l = [pr_settlement_id review]" "vl_evidence_ids l = [evidence_id]"
    "learning_objective_for_role (vl_role l) = Inr (vl_objective l)" "\<not> vl_execution_authority l"
  using assms by (auto simp: propose_lesson_def res_simps dest!: validated_lesson_init_Inr split: if_splits)

definition lesson_ok :: "post_trade_review \<Rightarrow> learning_evidence list \<Rightarrow> validated_lesson \<Rightarrow> bool" where
  "lesson_ok review es l =
     (vl_role l \<in> set (implicated_roles (pr_attribution review)) \<and>
      vl_source_review_ids l = [pr_settlement_id review] \<and>
      learning_objective_for_role (vl_role l) = Inr (vl_objective l) \<and> \<not> vl_execution_authority l \<and>
      (vl_stage l = STAGE_ACTIVE \<longrightarrow> text_given (vl_activation_reason l)) \<and>
      (\<forall>g\<in>set (stage_gates (vl_stage l)). gate_passed es l g))"

lemma promote_keeps_lesson_ok:
  assumes "promote_lesson l target ev rd sd reason = Inr l'" "lesson_ok review es l"
  shows "lesson_ok review (es @ (case ev of None \<Rightarrow> [] | Some e \<Rightarrow> [e])) l'"
  using promote_lesson_frame [OF assms(1)] promote_lesson_gates [OF assms(1)] assms(2)
  by (simp add: lesson_ok_def)

lemma lesson_history_ok: "lesson_history review es l \<Longrightarrow> lesson_ok review es l"
proof (induction rule: lesson_history.induct)
  case (lesson_proposed lesson_id role hypothesis evidence_id l)
  then show ?case using propose_lesson_facts [OF lesson_proposed] by (simp add: lesson_ok_def)
next
  case (lesson_promoted es l target e rd sd reason l')
  then show ?case using promote_keeps_lesson_ok [OF lesson_promoted(2), of review es] by simp
next
  case (lesson_activated es l target rd sd reason l')
  then show ?case using promote_keeps_lesson_ok [OF lesson_activated(2), of review es] by simp
qed

text \<open>
  C17. A lesson becomes active only through both gates: whatever calls to \<open>promote_lesson\<close> were made on a
  lesson proposed from a review, an active one was judged by evidence for its own role and hypothesis
  in a replay and in a shadow run, each accepted under a named protocol with a score delta that is not
  below or equal to zero; it keeps the review it came from and a role that review implicates, carries
  a reason, and never carries execution authority.
\<close>

theorem active_lessons_passed_both_gates:
  assumes "lesson_history review es l" "vl_stage l = STAGE_ACTIVE"
  shows "gate_passed es l GATE_REPLAY \<and> gate_passed es l GATE_SHADOW \<and> text_given (vl_activation_reason l) \<and>
    vl_role l \<in> set (implicated_roles (pr_attribution review)) \<and>
    vl_source_review_ids l = [pr_settlement_id review] \<and> \<not> vl_execution_authority l"
  using lesson_history_ok [OF assms(1)] assms(2) by (simp add: lesson_ok_def)

text \<open>A long position that lost, with the direction role implicated.\<close>

definition sample_review :: post_trade_review where
  "sample_review =
     \<lparr>pr_settlement_id = ''settle-1'', pr_symbol = ''BTCUSDT'',
      pr_fill = \<lparr>sf_side = POSITION_LONG, sf_quantity = DFin False 1 0, sf_entry_price = DFin False 100 0,
        sf_exit_price = DFin False 90 0, sf_entry_fee = DFin False 1 0, sf_exit_fee = DFin False 1 0,
        sf_realized_slippage_cost = DFin False 0 0, sf_opened_at_ms = 1, sf_closed_at_ms = 2,
        sf_entry_order_id = ''o1'', sf_exit_order_id = ''o2''\<rparr>,
      pr_lineage = \<lparr>dl_decision_id = ''d1'', dl_candidate_id = ''c1'', dl_final_intent = INTENT_BUY,
        dl_contributing_agents = [], dl_gate_verdicts = [], dl_evidence_ids = [''e0''], dl_exit_decision_id = None,
        dl_exit_intent = None, dl_exit_evidence_ids = []\<rparr>,
      pr_attribution = no_attribution\<lparr>ca_direction_error := True\<rparr>, pr_max_drawdown_quote = DFin False 10 0,
      pr_execution_authority = False\<rparr>"

definition sample_gate_evidence :: "validation_gate \<Rightarrow> learning_evidence" where
  "sample_gate_evidence g =
     \<lparr>le_evidence_id = gate_value g, le_review_id = ''settle-1'', le_role = ''direction'', le_hypothesis = ''fade'',
      le_sample_count = 30, le_replay_score_delta = Some (Fin (1 / 8)), le_shadow_score_delta = Some (Fin (1 / 8)),
      le_validation_gate = Some g, le_validation_protocol_id = Some ''p'', le_accepted = Some True\<rparr>"

definition sample_lesson :: "lesson_stage \<Rightarrow> validated_lesson" where
  "sample_lesson s =
     \<lparr>vl_lesson_id = ''lesson'', vl_role = ''direction'', vl_stage = s, vl_hypothesis = ''fade'',
      vl_source_review_ids = [''settle-1''], vl_evidence_ids = [''e1''], vl_objective = DIRECTIONAL_QUALITY,
      vl_replay_score_delta = (if s = STAGE_CANDIDATE then None else Some (Fin (1 / 8))),
      vl_shadow_score_delta = (if s = STAGE_CANDIDATE \<or> s = STAGE_REPLAY_VALIDATED then None else Some (Fin (1 / 8))),
      vl_replay_validation_evidence_ids = (if s = STAGE_CANDIDATE then [] else [''replay'']),
      vl_shadow_validation_evidence_ids = (if s = STAGE_CANDIDATE \<or> s = STAGE_REPLAY_VALIDATED then [] else [''shadow'']),
      vl_activation_reason = (if s = STAGE_ACTIVE then Some ''ok'' else None), vl_execution_authority = False\<rparr>"

lemma sample_lesson_steps:
  "propose_lesson ''lesson'' sample_review ''direction'' ''fade'' ''e1'' = Inr (sample_lesson STAGE_CANDIDATE)"
  "promote_lesson (sample_lesson STAGE_CANDIDATE) STAGE_REPLAY_VALIDATED (Some (sample_gate_evidence GATE_REPLAY))
     None None None = Inr (sample_lesson STAGE_REPLAY_VALIDATED)"
  "promote_lesson (sample_lesson STAGE_REPLAY_VALIDATED) STAGE_SHADOW_VALIDATED
     (Some (sample_gate_evidence GATE_SHADOW)) None None None = Inr (sample_lesson STAGE_SHADOW_VALIDATED)"
  "promote_lesson (sample_lesson STAGE_SHADOW_VALIDATED) STAGE_ACTIVE None None None (Some '' ok'') =
     Inr (sample_lesson STAGE_ACTIVE)"
  by code_simp+

lemma sample_lesson_history:
  "lesson_history sample_review [sample_gate_evidence GATE_REPLAY, sample_gate_evidence GATE_SHADOW]
     (sample_lesson STAGE_ACTIVE)"
proof -
  have "lesson_history sample_review [] (sample_lesson STAGE_CANDIDATE)"
    by (rule lesson_proposed [OF sample_lesson_steps(1)])
  then have "lesson_history sample_review [sample_gate_evidence GATE_REPLAY] (sample_lesson STAGE_REPLAY_VALIDATED)"
    by (rule lesson_promoted [OF _ sample_lesson_steps(2), where es = "[]", simplified])
  then have "lesson_history sample_review [sample_gate_evidence GATE_REPLAY, sample_gate_evidence GATE_SHADOW]
      (sample_lesson STAGE_SHADOW_VALIDATED)"
    using lesson_promoted [OF _ sample_lesson_steps(3)] by fastforce
  then show ?thesis by (rule lesson_activated [OF _ sample_lesson_steps(4)])
qed

theorem active_lessons_passed_both_gates_witness:
  "vl_stage (sample_lesson STAGE_ACTIVE) = STAGE_ACTIVE \<and>
   gate_passed [sample_gate_evidence GATE_REPLAY, sample_gate_evidence GATE_SHADOW] (sample_lesson STAGE_ACTIVE)
     GATE_SHADOW"
proof -
  have "vl_stage (sample_lesson STAGE_ACTIVE) = STAGE_ACTIVE" by (simp add: sample_lesson_def)
  then show ?thesis using active_lessons_passed_both_gates [OF sample_lesson_history] by blast
qed

end
