(* ===== verification/Learning_Evidence.thy ===== *)
theory Learning_Evidence
  imports Learning_Lifecycle
begin

text \<open>
  \<open>autonomous_trading/learning_reputation_v2.py\<close>, \<open>learning_calibration_v2.py\<close> and
  \<open>learning_advisory_evidence_v2.py\<close>: the score and the calibration each role has earned, as immutable
  snapshots, and the bridge that turns a validated observation into evidence for both. A dataclass is
  a record with its \<open>__post_init__\<close> as \<open>_init\<close>; numbers annotated \<open>float\<close> are floats.
\<close>

section \<open>Reputation\<close>

record reputation_policy =
  rp_max_abs_score :: pyfloat
  rp_max_abs_update :: pyfloat
  rp_minimum_sample_count :: int

definition default_reputation_policy :: reputation_policy where
  "default_reputation_policy =
     \<lparr>rp_max_abs_score = Fin 1, rp_max_abs_update = rnd64 (5 / 100), rp_minimum_sample_count = 20\<rparr>"

definition reputation_policy_init :: "reputation_policy \<Rightarrow> reputation_policy res" where
  "reputation_policy_init p =
     (if fle (rp_max_abs_score p) (Fin 0) then Inl (ValueError ''max_abs_score must be positive'')
      else if fle (rp_max_abs_update p) (Fin 0) \<or> flt (rp_max_abs_score p) (rp_max_abs_update p)
      then Inl (ValueError ''max_abs_update must be positive and <= max_abs_score'')
      else if rp_minimum_sample_count p \<le> 0 then Inl (ValueError ''minimum_sample_count must be positive'')
      else Inr p)"

record role_reputation =
  rr_role :: string
  rr_objective :: learning_objective
  rr_score :: pyfloat
  rr_update_count :: int

definition role_reputation_init :: "role_reputation \<Rightarrow> role_reputation res" where
  "role_reputation_init r =
     (if strip (rr_role r) = [] then Inl (ValueError ''role must not be empty'')
      else rbind (learning_objective_for_role (rr_role r)) (\<lambda>objective.
        if rr_objective r \<noteq> objective
        then Inl (ValueError ''role reputation objective must match canonical role objective'')
        else if rr_update_count r < 0 then Inl (ValueError ''update_count must not be negative'') else Inr r))"

record reputation_evidence =
  re_evidence_id :: string
  re_role :: string
  re_objective :: learning_objective
  re_score_delta :: pyfloat
  re_sample_count :: int
  re_validation_protocol_id :: string
  re_accepted :: bool

definition reputation_evidence_init :: "reputation_evidence \<Rightarrow> reputation_evidence res" where
  "reputation_evidence_init e =
     (if strip (re_evidence_id e) = [] \<or> strip (re_role e) = []
      then Inl (ValueError ''evidence_id and role must not be empty'')
      else if strip (re_validation_protocol_id e) = []
      then Inl (ValueError ''validation_protocol_id must not be empty'')
      else if re_sample_count e \<le> 0 then Inl (ValueError ''sample_count must be positive'')
      else rbind (learning_objective_for_role (re_role e)) (\<lambda>objective.
        if re_objective e \<noteq> objective
        then Inl (ValueError ''evidence objective must match canonical role objective'') else Inr e))"

record reputation_snapshot =
  rs_snapshot_id :: string
  rs_parent_snapshot_id :: "string option"
  rs_states :: "role_reputation list"
  rs_processed_evidence_ids :: "string list"
  rs_rollback_of_snapshot_id :: "string option"
  rs_execution_authority :: bool

definition blank_text :: "string option \<Rightarrow> bool" where
  "blank_text s = (s \<noteq> None \<and> \<not> text_given s)"

definition reputation_snapshot_init :: "reputation_snapshot \<Rightarrow> reputation_snapshot res" where
  "reputation_snapshot_init s =
     (if strip (rs_snapshot_id s) = [] then Inl (ValueError ''snapshot_id must not be empty'')
      else if blank_text (rs_parent_snapshot_id s)
      then Inl (ValueError ''parent_snapshot_id must not be blank'')
      else if blank_text (rs_rollback_of_snapshot_id s)
      then Inl (ValueError ''rollback_of_snapshot_id must not be blank'')
      else if rs_execution_authority s
      then Inl (ValueError ''reputation snapshots cannot grant execution authority'')
      else if \<not> distinct (map rr_role (rs_states s))
      then Inl (ValueError ''reputation snapshot roles must be unique'')
      else if \<not> distinct (rs_processed_evidence_ids s)
      then Inl (ValueError ''processed evidence ids must be unique'') else Inr s)"

definition reputation_for :: "reputation_snapshot \<Rightarrow> string \<Rightarrow> role_reputation option" where
  "reputation_for s role = find (\<lambda>r. rr_role r = role) (rs_states s)"

definition empty_reputation_snapshot :: "string \<Rightarrow> reputation_snapshot res" where
  "empty_reputation_snapshot sid = reputation_snapshot_init
     \<lparr>rs_snapshot_id = sid, rs_parent_snapshot_id = None, rs_states = [], rs_processed_evidence_ids = [],
      rs_rollback_of_snapshot_id = None, rs_execution_authority = False\<rparr>"

definition bounded_score :: "pyfloat \<Rightarrow> pyfloat \<Rightarrow> pyfloat" where
  "bounded_score m x = py_max (fneg m) (py_min m x)"

definition apply_reputation_evidence ::
  "reputation_policy \<Rightarrow> reputation_snapshot \<Rightarrow> string \<Rightarrow> reputation_evidence \<Rightarrow> reputation_snapshot res" where
  "apply_reputation_evidence p s next_id e =
     (if re_evidence_id e \<in> set (rs_processed_evidence_ids s) then Inr s
      else if \<not> re_accepted e
      then Inl (ValueError ''reputation update requires explicitly accepted evidence'')
      else if re_sample_count e < rp_minimum_sample_count p
      then Inl (ValueError ''reputation update sample_count is below policy minimum'')
      else if flt (rp_max_abs_update p) (fabs (re_score_delta e))
      then Inl (ValueError ''reputation score_delta exceeds bounded update policy'')
      else rbind (case reputation_for s (re_role e) of Some r \<Rightarrow> Inr r
                  | None \<Rightarrow> role_reputation_init
                      \<lparr>rr_role = re_role e, rr_objective = re_objective e, rr_score = Fin 0, rr_update_count = 0\<rparr>)
        (\<lambda>existing.
          rbind (role_reputation_init (existing
                   \<lparr>rr_score := round_to 12 (bounded_score (rp_max_abs_score p) (fadd (rr_score existing) (re_score_delta e))),
                    rr_update_count := rr_update_count existing + 1\<rparr>)) (\<lambda>updated.
            reputation_snapshot_init
              \<lparr>rs_snapshot_id = next_id, rs_parent_snapshot_id = Some (rs_snapshot_id s),
               rs_states = sort_key rr_role (filter (\<lambda>r. rr_role r \<noteq> re_role e) (rs_states s) @ [updated]),
               rs_processed_evidence_ids = rs_processed_evidence_ids s @ [re_evidence_id e],
               rs_rollback_of_snapshot_id = None, rs_execution_authority = False\<rparr>)))"

definition rollback_reputation_snapshot ::
  "reputation_snapshot \<Rightarrow> reputation_snapshot \<Rightarrow> string \<Rightarrow> reputation_snapshot res" where
  "rollback_reputation_snapshot current target next_id =
     (if rs_snapshot_id current = rs_snapshot_id target
      then Inl (ValueError ''rollback target must differ from current snapshot'')
      else reputation_snapshot_init
        \<lparr>rs_snapshot_id = next_id, rs_parent_snapshot_id = Some (rs_snapshot_id current), rs_states = rs_states target,
         rs_processed_evidence_ids =
           first_occurrences (rs_processed_evidence_ids current @ rs_processed_evidence_ids target),
         rs_rollback_of_snapshot_id = Some (rs_snapshot_id target), rs_execution_authority = False\<rparr>)"

section \<open>Calibration\<close>

datatype drift_status = DRIFT_INSUFFICIENT_EVIDENCE | DRIFT_STABLE | DRIFT_DRIFTED

record calibration_policy =
  cp_minimum_sample_count :: int
  cp_minimum_observations_for_drift :: int
  cp_max_error_deterioration :: pyfloat

definition unit_interval :: "pyfloat \<Rightarrow> bool" where
  "unit_interval x = (fle (Fin 0) x \<and> fle x (Fin 1))"

definition calibration_policy_init :: "calibration_policy \<Rightarrow> calibration_policy res" where
  "calibration_policy_init p =
     (if cp_minimum_sample_count p \<le> 0 then Inl (ValueError ''minimum_sample_count must be positive'')
      else if cp_minimum_observations_for_drift p \<le> 0
      then Inl (ValueError ''minimum_observations_for_drift must be positive'')
      else if \<not> unit_interval (cp_max_error_deterioration p)
      then Inl (ValueError ''max_error_deterioration must be within [0, 1]'') else Inr p)"

record calibration_observation =
  co_evidence_id :: string
  co_role :: string
  co_objective :: learning_objective
  co_confidence :: pyfloat
  co_outcome_success :: "bool option"
  co_abstained :: bool
  co_sample_count :: int
  co_validation_protocol_id :: string
  co_accepted :: bool

definition calibration_observation_init :: "calibration_observation \<Rightarrow> calibration_observation res" where
  "calibration_observation_init b =
     (if strip (co_evidence_id b) = [] \<or> strip (co_role b) = []
      then Inl (ValueError ''evidence_id and role must not be empty'')
      else if strip (co_validation_protocol_id b) = []
      then Inl (ValueError ''validation_protocol_id must not be empty'')
      else rbind (learning_objective_for_role (co_role b)) (\<lambda>objective.
        if co_objective b \<noteq> objective
        then Inl (ValueError ''calibration objective must match canonical role objective'')
        else if co_sample_count b \<le> 0 then Inl (ValueError ''sample_count must be positive'')
        else if \<not> unit_interval (co_confidence b) then Inl (ValueError ''confidence must be within [0, 1]'')
        else if co_abstained b
        then (if co_outcome_success b \<noteq> None
              then Inl (ValueError ''abstention cannot carry correctness outcome'') else Inr b)
        else if co_outcome_success b = None
        then Inl (ValueError ''non-abstention calibration observation requires outcome_success'') else Inr b))"

record role_calibration =
  rc_role :: string
  rc_objective :: learning_objective
  rc_calibrated_observation_count :: int
  rc_abstention_count :: int
  rc_confidence_sum :: pyfloat
  rc_outcome_sum :: pyfloat
  rc_absolute_error_sum :: pyfloat

definition role_calibration_init :: "role_calibration \<Rightarrow> role_calibration res" where
  "role_calibration_init c =
     (if strip (rc_role c) = [] then Inl (ValueError ''role must not be empty'')
      else rbind (learning_objective_for_role (rc_role c)) (\<lambda>objective.
        if rc_objective c \<noteq> objective
        then Inl (ValueError ''role calibration objective must match canonical role objective'')
        else if rc_calibrated_observation_count c < 0 \<or> rc_abstention_count c < 0
        then Inl (ValueError ''observation counts must not be negative'')
        else if flt (rc_confidence_sum c) (Fin 0) \<or> flt (rc_outcome_sum c) (Fin 0) \<or> flt (rc_absolute_error_sum c) (Fin 0)
        then Inl (ValueError ''calibration accumulators must not be negative'') else Inr c))"

definition calibration_mean :: "pyfloat \<Rightarrow> int \<Rightarrow> pyfloat option res" where
  "calibration_mean x n =
     (if n = 0 then Inr None
      else rbind (float_of_int n) (\<lambda>d. rbind (fdiv x d) (\<lambda>q. Inr (Some q))))"

definition mean_confidence :: "role_calibration \<Rightarrow> pyfloat option res" where
  "mean_confidence c = calibration_mean (rc_confidence_sum c) (rc_calibrated_observation_count c)"

definition empirical_success_rate :: "role_calibration \<Rightarrow> pyfloat option res" where
  "empirical_success_rate c = calibration_mean (rc_outcome_sum c) (rc_calibrated_observation_count c)"

definition mean_absolute_calibration_error :: "role_calibration \<Rightarrow> pyfloat option res" where
  "mean_absolute_calibration_error c =
     calibration_mean (rc_absolute_error_sum c) (rc_calibrated_observation_count c)"

record calibration_snapshot =
  cs_snapshot_id :: string
  cs_parent_snapshot_id :: "string option"
  cs_states :: "role_calibration list"
  cs_processed_evidence_ids :: "string list"
  cs_execution_authority :: bool

definition calibration_snapshot_init :: "calibration_snapshot \<Rightarrow> calibration_snapshot res" where
  "calibration_snapshot_init s =
     (if strip (cs_snapshot_id s) = [] then Inl (ValueError ''snapshot_id must not be empty'')
      else if blank_text (cs_parent_snapshot_id s)
      then Inl (ValueError ''parent_snapshot_id must not be blank'')
      else if cs_execution_authority s
      then Inl (ValueError ''calibration snapshots cannot grant execution authority'')
      else if \<not> distinct (map rc_role (cs_states s))
      then Inl (ValueError ''calibration snapshot roles must be unique'')
      else if \<not> distinct (cs_processed_evidence_ids s)
      then Inl (ValueError ''processed evidence ids must be unique'') else Inr s)"

definition calibration_for :: "calibration_snapshot \<Rightarrow> string \<Rightarrow> role_calibration option" where
  "calibration_for s role = find (\<lambda>c. rc_role c = role) (cs_states s)"

definition empty_calibration_snapshot :: "string \<Rightarrow> calibration_snapshot res" where
  "empty_calibration_snapshot sid = calibration_snapshot_init
     \<lparr>cs_snapshot_id = sid, cs_parent_snapshot_id = None, cs_states = [], cs_processed_evidence_ids = [],
      cs_execution_authority = False\<rparr>"

text \<open>The counters after one observation; an abstention is not a label.\<close>

definition count_observation :: "role_calibration \<Rightarrow> calibration_observation \<Rightarrow> role_calibration" where
  "count_observation c b =
     (if co_abstained b then c\<lparr>rc_abstention_count := rc_abstention_count c + 1\<rparr>
      else let outcome = Fin (if co_outcome_success b = Some True then 1 else 0); confidence = co_confidence b
        in c\<lparr>rc_calibrated_observation_count := rc_calibrated_observation_count c + 1,
             rc_confidence_sum := fadd (rc_confidence_sum c) confidence,
             rc_outcome_sum := fadd (rc_outcome_sum c) outcome,
             rc_absolute_error_sum := fadd (rc_absolute_error_sum c) (fabs (fsub confidence outcome))\<rparr>)"

definition apply_calibration_observation ::
  "calibration_policy \<Rightarrow> calibration_snapshot \<Rightarrow> string \<Rightarrow> calibration_observation \<Rightarrow> calibration_snapshot res" where
  "apply_calibration_observation p s next_id b =
     (if co_evidence_id b \<in> set (cs_processed_evidence_ids s) then Inr s
      else if \<not> co_accepted b
      then Inl (ValueError ''calibration update requires explicitly accepted evidence'')
      else if co_sample_count b < cp_minimum_sample_count p
      then Inl (ValueError ''calibration sample_count is below policy minimum'')
      else rbind (case calibration_for s (co_role b) of Some c \<Rightarrow> Inr c
                  | None \<Rightarrow> role_calibration_init
                      \<lparr>rc_role = co_role b, rc_objective = co_objective b, rc_calibrated_observation_count = 0,
                       rc_abstention_count = 0, rc_confidence_sum = Fin 0, rc_outcome_sum = Fin 0,
                       rc_absolute_error_sum = Fin 0\<rparr>)
        (\<lambda>existing. rbind (role_calibration_init (count_observation existing b)) (\<lambda>updated.
          calibration_snapshot_init
            \<lparr>cs_snapshot_id = next_id, cs_parent_snapshot_id = Some (cs_snapshot_id s),
             cs_states = sort_key rc_role (filter (\<lambda>c. rc_role c \<noteq> co_role b) (cs_states s) @ [updated]),
             cs_processed_evidence_ids = cs_processed_evidence_ids s @ [co_evidence_id b],
             cs_execution_authority = False\<rparr>)))"

record calibration_baseline =
  cb_role :: string
  cb_objective :: learning_objective
  cb_mean_absolute_calibration_error :: pyfloat
  cb_observation_count :: int
  cb_validation_protocol_id :: string

definition calibration_baseline_init :: "calibration_baseline \<Rightarrow> calibration_baseline res" where
  "calibration_baseline_init b =
     (if strip (cb_role b) = [] \<or> strip (cb_validation_protocol_id b) = []
      then Inl (ValueError ''baseline role and validation_protocol_id must not be empty'')
      else rbind (learning_objective_for_role (cb_role b)) (\<lambda>objective.
        if cb_objective b \<noteq> objective
        then Inl (ValueError ''baseline objective must match canonical role objective'')
        else if \<not> unit_interval (cb_mean_absolute_calibration_error b)
        then Inl (ValueError ''baseline calibration error must be within [0, 1]'')
        else if cb_observation_count b \<le> 0
        then Inl (ValueError ''baseline observation_count must be positive'') else Inr b))"

record calibration_drift_report =
  dr_role :: string
  dr_objective :: learning_objective
  dr_status :: drift_status
  dr_baseline_error :: pyfloat
  dr_observed_error :: "pyfloat option"
  dr_deterioration :: "pyfloat option"
  dr_baseline_protocol_id :: string
  dr_execution_authority :: bool

definition drift_report_init :: "calibration_drift_report \<Rightarrow> calibration_drift_report res" where
  "drift_report_init r =
     (if dr_execution_authority r then Inl (ValueError ''drift reports cannot grant execution authority'') else Inr r)"

definition evaluate_calibration_drift ::
  "calibration_policy \<Rightarrow> calibration_snapshot \<Rightarrow> calibration_baseline \<Rightarrow> calibration_drift_report res" where
  "evaluate_calibration_drift p s b =
     (let base = cb_mean_absolute_calibration_error b;
          report = (\<lambda>status observed worse. drift_report_init
            \<lparr>dr_role = cb_role b, dr_objective = cb_objective b, dr_status = status, dr_baseline_error = base,
             dr_observed_error = observed, dr_deterioration = worse,
             dr_baseline_protocol_id = cb_validation_protocol_id b, dr_execution_authority = False\<rparr>)
      in case calibration_for s (cb_role b) of
           None \<Rightarrow> report DRIFT_INSUFFICIENT_EVIDENCE None None
         | Some c \<Rightarrow>
             if rc_calibrated_observation_count c < cp_minimum_observations_for_drift p
             then report DRIFT_INSUFFICIENT_EVIDENCE None None
             else if rc_objective c \<noteq> cb_objective b
             then Inl (ValueError ''current calibration objective must match baseline objective'')
             else rbind (mean_absolute_calibration_error c) (\<lambda>mean.
               case mean of
                 None \<Rightarrow> Inl (CustomError ''AssertionError'' ''calibration count requires a mean error'')
               | Some observed \<Rightarrow>
                   let worse = fsub observed base
                   in report (if flt (cp_max_error_deterioration p) worse then DRIFT_DRIFTED else DRIFT_STABLE)
                        (Some observed) (Some worse)))"

section \<open>The bridge from observations\<close>

record observation_validation =
  ov_evidence_id :: string
  ov_observation_id :: string
  ov_validation_protocol_id :: string
  ov_sample_count :: int
  ov_confidence :: pyfloat
  ov_accepted :: bool
  ov_reputation_score_delta :: "pyfloat option"

definition observation_validation_init :: "observation_validation \<Rightarrow> observation_validation res" where
  "observation_validation_init v =
     (if strip (ov_evidence_id v) = [] \<or> strip (ov_observation_id v) = []
      then Inl (ValueError ''evidence_id and observation_id must not be empty'')
      else if strip (ov_validation_protocol_id v) = []
      then Inl (ValueError ''validation_protocol_id must not be empty'')
      else if ov_sample_count v \<le> 0 then Inl (ValueError ''sample_count must be positive'')
      else if \<not> isfinite (ov_confidence v) \<or> \<not> unit_interval (ov_confidence v)
      then Inl (ValueError ''confidence must be finite and within [0, 1]'')
      else if \<not> pred_option isfinite (ov_reputation_score_delta v)
      then Inl (ValueError ''reputation_score_delta must be finite'') else Inr v)"

record advisory_evidence =
  ae_observation_id :: string
  ae_calibration :: calibration_observation
  ae_reputation :: "reputation_evidence option"
  ae_execution_authority :: bool

definition advisory_evidence_init :: "advisory_evidence \<Rightarrow> advisory_evidence res" where
  "advisory_evidence_init a =
     (if strip (ae_observation_id a) = [] then Inl (ValueError ''observation_id must not be empty'')
      else if ae_execution_authority a
      then Inl (ValueError ''advisory learning evidence cannot grant execution authority'') else Inr a)"

definition observation_reputation :: "role_observation \<Rightarrow> observation_validation \<Rightarrow> reputation_evidence option res" where
  "observation_reputation b v =
     (if ob_abstained b
      then (if ov_reputation_score_delta v \<noteq> None
            then Inl (ValueError ''abstained observation cannot create reputation evidence'') else Inr None)
      else case ov_reputation_score_delta v of
        None \<Rightarrow> Inl (ValueError ''non-abstention validation requires explicit reputation_score_delta'')
      | Some d \<Rightarrow> rbind (reputation_evidence_init
          \<lparr>re_evidence_id = ov_evidence_id v, re_role = ob_role b, re_objective = ob_objective b, re_score_delta = d,
           re_sample_count = ov_sample_count v, re_validation_protocol_id = ov_validation_protocol_id v,
           re_accepted = ov_accepted v\<rparr>) (\<lambda>e. Inr (Some e)))"

definition build_advisory_learning_evidence :: "role_observation \<Rightarrow> observation_validation \<Rightarrow> advisory_evidence res" where
  "build_advisory_learning_evidence b v =
     (if ov_observation_id v \<noteq> ob_observation_id b
      then Inl (ValueError ''validation observation_id must match learning observation'')
      else rbind (calibration_observation_init
             \<lparr>co_evidence_id = ov_evidence_id v, co_role = ob_role b, co_objective = ob_objective b,
              co_confidence = ov_confidence v, co_outcome_success = ob_role_success b, co_abstained = ob_abstained b,
              co_sample_count = ov_sample_count v, co_validation_protocol_id = ov_validation_protocol_id v,
              co_accepted = ov_accepted v\<rparr>) (\<lambda>c.
        rbind (observation_reputation b v) (\<lambda>r.
          advisory_evidence_init
            \<lparr>ae_observation_id = ob_observation_id b, ae_calibration = c, ae_reputation = r,
             ae_execution_authority = False\<rparr>)))"

section \<open>Reputation stays bounded\<close>

text \<open>The snapshots a sequence of updates and rollbacks can produce under one policy.\<close>

inductive reputation_reachable :: "reputation_policy \<Rightarrow> reputation_snapshot \<Rightarrow> bool" for p where
  reputation_empty: "empty_reputation_snapshot sid = Inr s \<Longrightarrow> reputation_reachable p s"
| reputation_applied: "reputation_reachable p s \<Longrightarrow> reputation_evidence_init e = Inr e \<Longrightarrow>
    apply_reputation_evidence p s next_id e = Inr s' \<Longrightarrow> reputation_reachable p s'"
| reputation_rolled_back: "reputation_reachable p s \<Longrightarrow> reputation_reachable p t \<Longrightarrow>
    rollback_reputation_snapshot s t next_id = Inr s' \<Longrightarrow> reputation_reachable p s'"

text \<open>A score within the rounded bound on both sides; a NaN is not.\<close>

definition score_within :: "pyfloat \<Rightarrow> pyfloat \<Rightarrow> bool" where
  "score_within m x = (fle (round_to 12 (fneg m)) x \<and> fle x (round_to 12 m))"

lemma bounded_score_Fin:
  assumes "0 \<le> m"
  obtains y where "bounded_score (Fin m) x = Fin y" "- m \<le> y" "y \<le> m"
proof (cases x)
  case (Fin r)
  then have "bounded_score (Fin m) x = Fin (max (- m) (min m r))"
    by (auto simp: bounded_score_def py_max_def py_min_def max_def min_def)
  then show ?thesis using that assms by (simp add: min_def max_def split: if_splits)
next
  case (FInf b)
  then have "bounded_score (Fin m) x = Fin (if b then - m else m)"
    using assms by (auto simp: bounded_score_def py_max_def py_min_def)
  then show ?thesis using that assms by (auto split: if_splits)
next
  case FNaN
  then have "bounded_score (Fin m) x = Fin m" using assms by (simp add: bounded_score_def py_max_def py_min_def)
  then show ?thesis using that assms by auto
qed

lemma bounded_score_within:
  assumes "0 \<le> m"
  shows "score_within (Fin m) (round_to 12 (bounded_score (Fin m) x))"
proof -
  obtain y where "bounded_score (Fin m) x = Fin y" "- m \<le> y" "y \<le> m" by (rule bounded_score_Fin [OF assms])
  then show ?thesis by (simp add: score_within_def round_to_mono del: round_to.simps)
qed

lemma reputation_snapshot_init_Inr:
  "reputation_snapshot_init s = Inr s' \<Longrightarrow> s' = s \<and> \<not> rs_execution_authority s \<and>
     distinct (map rr_role (rs_states s)) \<and> distinct (rs_processed_evidence_ids s)"
  by (simp add: reputation_snapshot_init_def split: if_splits)

lemma role_reputation_init_Inr:
  "role_reputation_init r = Inr r' \<Longrightarrow> r' = r \<and> learning_objective_for_role (rr_role r) = Inr (rr_objective r)"
  by (auto simp: role_reputation_init_def res_simps split: if_splits)

definition reputation_ok :: "reputation_policy \<Rightarrow> reputation_snapshot \<Rightarrow> bool" where
  "reputation_ok p s =
     (\<not> rs_execution_authority s \<and> distinct (map rr_role (rs_states s)) \<and> distinct (rs_processed_evidence_ids s) \<and>
      (\<forall>r\<in>set (rs_states s). score_within (rp_max_abs_score p) (rr_score r) \<and>
         learning_objective_for_role (rr_role r) = Inr (rr_objective r)))"

text \<open>The state of a role before an update: the kept one, or a fresh one.\<close>

lemma existing_role:
  assumes "(case find (\<lambda>r. g r = k) xs of Some r \<Rightarrow> Inr r | None \<Rightarrow> m) = Inr x"
    and "\<And>y. m = Inr y \<Longrightarrow> g y = k"
  shows "g x = k"
  using assms by (auto simp: find_Some_iff split: option.splits)

lemma apply_reputation_facts:
  assumes "apply_reputation_evidence p s next_id e = Inr s'"
  obtains "s' = s" "re_evidence_id e \<in> set (rs_processed_evidence_ids s)"
  | r x where "set (rs_states s') = insert r {q \<in> set (rs_states s). rr_role q \<noteq> re_role e}" "rr_role r = re_role e"
      "rr_score r = round_to 12 (bounded_score (rp_max_abs_score p) (fadd x (re_score_delta e)))"
      "learning_objective_for_role (rr_role r) = Inr (rr_objective r)" "\<not> rs_execution_authority s'"
      "distinct (map rr_role (rs_states s'))" "distinct (rs_processed_evidence_ids s')"
      "rs_processed_evidence_ids s' = rs_processed_evidence_ids s @ [re_evidence_id e]"
proof (cases "re_evidence_id e \<in> set (rs_processed_evidence_ids s)")
  case True
  then show ?thesis using assms that(1) by (simp add: apply_reputation_evidence_def)
next
  case False
  let ?m = "role_reputation_init
    \<lparr>rr_role = re_role e, rr_objective = re_objective e, rr_score = Fin 0, rr_update_count = 0\<rparr>"
  let ?up = "\<lambda>r. r\<lparr>rr_score := round_to 12 (bounded_score (rp_max_abs_score p) (fadd (rr_score r) (re_score_delta e))),
                   rr_update_count := rr_update_count r + 1\<rparr>"
  from False assms obtain old new where
    old: "(case reputation_for s (re_role e) of Some r \<Rightarrow> Inr r | None \<Rightarrow> ?m) = Inr old"
    and new: "role_reputation_init (?up old) = Inr new"
    and snap: "reputation_snapshot_init
        \<lparr>rs_snapshot_id = next_id, rs_parent_snapshot_id = Some (rs_snapshot_id s),
         rs_states = sort_key rr_role (filter (\<lambda>r. rr_role r \<noteq> re_role e) (rs_states s) @ [new]),
         rs_processed_evidence_ids = rs_processed_evidence_ids s @ [re_evidence_id e],
         rs_rollback_of_snapshot_id = None, rs_execution_authority = False\<rparr> = Inr s'"
    by (auto simp: apply_reputation_evidence_def res_simps split: if_splits)
  have "rr_role old = re_role e"
    using old unfolding reputation_for_def by (rule existing_role) (auto dest: role_reputation_init_Inr)
  then show ?thesis
    using that(2) [of new "rr_score old"] role_reputation_init_Inr [OF new] reputation_snapshot_init_Inr [OF snap]
    by simp
qed

lemma reputation_reachable_ok:
  assumes "reputation_reachable p s" "rp_max_abs_score p = Fin m" "0 \<le> m"
  shows "reputation_ok p s"
  using assms(1)
proof (induction rule: reputation_reachable.induct)
  case (reputation_empty sid s)
  then show ?case by (auto simp: empty_reputation_snapshot_def reputation_ok_def dest!: reputation_snapshot_init_Inr)
next
  case (reputation_applied s e next_id s')
  from reputation_applied.hyps(3) show ?case
  proof (cases rule: apply_reputation_facts)
    case 1
    then show ?thesis using reputation_applied.IH by simp
  next
    case (2 r x)
    then show ?thesis using reputation_applied.IH
      by (auto simp: reputation_ok_def assms(2) bounded_score_within [OF assms(3)])
  qed
next
  case (reputation_rolled_back s t next_id s')
  then show ?case
    by (auto simp: rollback_reputation_snapshot_def reputation_ok_def dest!: reputation_snapshot_init_Inr split: if_splits)
qed

lemma first_occurrences_set [simp]: "set (first_occurrences xs) = set xs"
  by (simp add: first_occurrences_def)

text \<open>What later snapshots keep of an earlier one.\<close>

inductive reputation_later :: "reputation_policy \<Rightarrow> reputation_snapshot \<Rightarrow> reputation_snapshot \<Rightarrow> bool" for p s where
  later_self: "reputation_later p s s"
| later_applied: "reputation_later p s t \<Longrightarrow> apply_reputation_evidence p t next_id e = Inr t' \<Longrightarrow> reputation_later p s t'"
| later_rolled_back: "reputation_later p s t \<Longrightarrow> rollback_reputation_snapshot t target next_id = Inr t' \<Longrightarrow>
    reputation_later p s t'"

lemma processed_kept:
  "reputation_later p s t \<Longrightarrow> set (rs_processed_evidence_ids s) \<subseteq> set (rs_processed_evidence_ids t)"
proof (induction rule: reputation_later.induct)
  case (later_applied t next_id e t')
  from later_applied.hyps(2) show ?case
    by (cases rule: apply_reputation_facts) (use later_applied.IH in auto)
qed (auto simp: rollback_reputation_snapshot_def dest!: reputation_snapshot_init_Inr split: if_splits)

text \<open>
  Evidence counts once: when an evidence id was applied to a snapshot, then after any further updates
  and rollbacks, also a rollback to a snapshot from before the evidence, applying it again returns
  the snapshot unchanged.
\<close>

theorem evidence_counts_once:
  assumes "apply_reputation_evidence p s i e = Inr s'" "reputation_later p s' t"
  shows "apply_reputation_evidence p t j e = Inr t"
proof -
  from assms(1) have "re_evidence_id e \<in> set (rs_processed_evidence_ids s')"
    by (cases rule: apply_reputation_facts) auto
  then show ?thesis using processed_kept [OF assms(2)] by (auto simp: apply_reputation_evidence_def)
qed

text \<open>
  C26. Reputation stays bounded: under a policy with a finite bound, in every snapshot that updates and
  rollbacks can produce, each score lies between minus and plus the bound rounded to 12 digits, each
  role occurs once and is judged by its canonical objective, no evidence id is recorded twice, and no
  snapshot carries execution authority.
\<close>

theorem reputation_stays_bounded:
  assumes "reputation_policy_init p = Inr p" "rp_max_abs_score p = Fin m" "reputation_reachable p s"
  shows "\<not> rs_execution_authority s \<and> distinct (map rr_role (rs_states s)) \<and>
    distinct (rs_processed_evidence_ids s) \<and>
    (\<forall>r. reputation_for s role = Some r \<longrightarrow> fle (round_to 12 (Fin (- m))) (rr_score r) \<and>
       fle (rr_score r) (round_to 12 (Fin m)) \<and> learning_objective_for_role role = Inr (rr_objective r))"
proof -
  have "0 \<le> m" using assms(1,2) by (simp add: reputation_policy_init_def split: if_splits)
  note ok = reputation_reachable_ok [OF assms(3,2) this]
  have "score_within (Fin m) (rr_score r)" "learning_objective_for_role role = Inr (rr_objective r)"
    if "reputation_for s role = Some r" for r
    using that ok assms(2) by (auto simp: reputation_for_def find_Some_iff reputation_ok_def)
  then show ?thesis using ok by (simp add: reputation_ok_def score_within_def del: round_to.simps)
qed

text \<open>
  A NaN delta is not bounded by the update policy: \<open>abs(nan) > max_abs_update\<close> is false, and the clamp
  \<open>max(-m, min(m, nan))\<close> returns \<open>m\<close>. Evidence with such a delta passes its validation and lifts the
  role, whatever it had earned, to the maximal score at once.
\<close>

theorem nan_delta_sets_maximal_score:
  "apply_reputation_evidence default_reputation_policy
     \<lparr>rs_snapshot_id = ''s0'', rs_parent_snapshot_id = None,
      rs_states = [\<lparr>rr_role = ''timing'', rr_objective = TIMING, rr_score = Fin (- (1 / 2)), rr_update_count = 9\<rparr>],
      rs_processed_evidence_ids = [], rs_rollback_of_snapshot_id = None, rs_execution_authority = False\<rparr>
     ''s1'' \<lparr>re_evidence_id = ''e'', re_role = ''timing'', re_objective = TIMING, re_score_delta = FNaN,
       re_sample_count = 20, re_validation_protocol_id = ''p'', re_accepted = True\<rparr> =
   Inr \<lparr>rs_snapshot_id = ''s1'', rs_parent_snapshot_id = Some ''s0'',
      rs_states = [\<lparr>rr_role = ''timing'', rr_objective = TIMING, rr_score = Fin 1, rr_update_count = 10\<rparr>],
      rs_processed_evidence_ids = [''e''], rs_rollback_of_snapshot_id = None, rs_execution_authority = False\<rparr>"
  by code_simp

section \<open>Calibration counts what was observed\<close>

text \<open>The snapshots a sequence of observations can produce, with the observations they count.\<close>

inductive calibration_history :: "calibration_policy \<Rightarrow> calibration_observation list \<Rightarrow> calibration_snapshot \<Rightarrow> bool"
  for p where
  calibration_empty: "empty_calibration_snapshot sid = Inr s \<Longrightarrow> calibration_history p [] s"
| calibration_applied: "calibration_history p bs s \<Longrightarrow> calibration_observation_init b = Inr b \<Longrightarrow>
    apply_calibration_observation p s next_id b = Inr s' \<Longrightarrow>
    calibration_history p (if co_evidence_id b \<in> set (cs_processed_evidence_ids s) then bs else bs @ [b]) s'"

definition labelled :: "string \<Rightarrow> calibration_observation list \<Rightarrow> calibration_observation list" where
  "labelled role bs = filter (\<lambda>b. co_role b = role \<and> \<not> co_abstained b) bs"

definition abstained :: "string \<Rightarrow> calibration_observation list \<Rightarrow> calibration_observation list" where
  "abstained role bs = filter (\<lambda>b. co_role b = role \<and> co_abstained b) bs"

definition successes :: "calibration_observation list \<Rightarrow> nat" where
  "successes bs = length (filter (\<lambda>b. co_outcome_success b = Some True) bs)"

definition sum_within :: "nat \<Rightarrow> pyfloat \<Rightarrow> bool" where
  "sum_within n x = (\<exists>r. x = Fin r \<and> 0 \<le> r \<and> r \<le> of_nat n)"

definition calibration_counts :: "calibration_observation list \<Rightarrow> role_calibration \<Rightarrow> bool" where
  "calibration_counts bs c =
     (let ls = labelled (rc_role c) bs
      in rc_calibrated_observation_count c = int (length ls) \<and>
         rc_abstention_count c = int (length (abstained (rc_role c) bs)) \<and>
         rc_outcome_sum c = Fin (of_nat (successes ls)) \<and>
         sum_within (length ls) (rc_confidence_sum c) \<and> sum_within (length ls) (rc_absolute_error_sum c))"

lemma rnd64_nat_between:
  assumes "0 \<le> r" "r \<le> of_nat n" "n < 2 ^ 53"
  shows "\<exists>y. rnd64 r = Fin y \<and> 0 \<le> y \<and> y \<le> of_nat n"
proof -
  from assms(3) have "int n < 2 ^ 53" by (metis of_nat_less_iff of_nat_numeral of_nat_power)
  then show ?thesis using rnd64_between [of 0 r "int n"] assms(1,2) by simp
qed

lemma unit_interval_Fin: "unit_interval x \<longleftrightarrow> (\<exists>r. x = Fin r \<and> 0 \<le> r \<and> r \<le> 1)"
  by (cases x) (auto simp: unit_interval_def)

lemma sum_within_fadd:
  assumes "sum_within n x" "unit_interval d" "Suc n < 2 ^ 53"
  shows "sum_within (Suc n) (fadd x d)"
proof -
  obtain a b where "x = Fin a" "0 \<le> a" "a \<le> of_nat n" "d = Fin b" "0 \<le> b" "b \<le> 1"
    using assms(1,2) by (auto simp: sum_within_def unit_interval_Fin)
  then show ?thesis using rnd64_nat_between [of "a + b" "Suc n"] assms(3) by (auto simp: sum_within_def)
qed

lemma unit_distance:
  assumes "unit_interval c" "b = 0 \<or> b = 1"
  shows "unit_interval (fabs (fsub c (Fin b)))"
proof -
  obtain r where "c = Fin r" "0 \<le> r" "r \<le> 1" using assms(1) by (auto simp: unit_interval_Fin)
  moreover obtain y where "rnd64 (r - b) = Fin y" "- 1 \<le> y" "y \<le> 1"
    using rnd64_between [of "- 1" "r - b" 1] calculation assms(2) by auto
  ultimately show ?thesis by (simp add: fsub_def unit_interval_Fin)
qed

lemma successes_le: "successes bs \<le> length bs"
  by (simp add: successes_def)

lemma rnd64_nat:
  assumes "n < 2 ^ 53"
  shows "rnd64 (of_nat n) = Fin (of_nat n)"
proof -
  from assms have "\<bar>int n\<bar> < 2 ^ 53" by (metis abs_of_nat of_nat_less_iff of_nat_numeral of_nat_power)
  then show ?thesis using rnd64_of_int [of "int n"] by simp
qed

lemma count_observation_counts:
  assumes "calibration_counts bs c" "calibration_observation_init b = Inr b" "co_role b = rc_role c"
    and "Suc (length bs) < 2 ^ 53"
  shows "calibration_counts (bs @ [b]) (count_observation c b)"
proof (cases "co_abstained b")
  case True
  then show ?thesis using assms(1,3)
    by (simp add: calibration_counts_def count_observation_def labelled_def abstained_def Let_def)
next
  case False
  define ls where "ls = labelled (rc_role c) bs"
  define o1 :: rat where "o1 = (if co_outcome_success b = Some True then 1 else 0)"
  have unit: "unit_interval (co_confidence b)"
    using assms(2) by (auto simp: calibration_observation_init_def res_simps split: if_splits)
  have len: "Suc (length ls) < 2 ^ 53"
    unfolding ls_def labelled_def by (rule le_less_trans [OF _ assms(4)]) simp
  have new: "labelled (rc_role c) (bs @ [b]) = ls @ [b]" "abstained (rc_role c) (bs @ [b]) = abstained (rc_role c) bs"
    using assms(3) False by (simp_all add: ls_def labelled_def abstained_def)
  have "of_nat (successes ls) + o1 = of_nat (successes (ls @ [b]))" by (simp add: successes_def o1_def)
  moreover have "successes (ls @ [b]) < 2 ^ 53" using successes_le [of "ls @ [b]"] len by simp
  ultimately have outcome: "fadd (Fin (of_nat (successes ls))) (Fin o1) = Fin (of_nat (successes (ls @ [b])))"
    using rnd64_nat by simp
  have o1: "o1 = 0 \<or> o1 = 1" by (simp add: o1_def)
  have c': "count_observation c b = c\<lparr>rc_calibrated_observation_count := rc_calibrated_observation_count c + 1,
      rc_confidence_sum := fadd (rc_confidence_sum c) (co_confidence b), rc_outcome_sum := fadd (rc_outcome_sum c) (Fin o1),
      rc_absolute_error_sum := fadd (rc_absolute_error_sum c) (fabs (fsub (co_confidence b) (Fin o1)))\<rparr>"
    using False by (simp add: count_observation_def o1_def Let_def)
  show ?thesis
    using assms(1) sum_within_fadd [OF _ unit len] sum_within_fadd [OF _ unit_distance [OF unit o1] len]
    unfolding calibration_counts_def Let_def c' by (simp add: new outcome del: fadd.simps flip: ls_def)
qed

text \<open>An observation of another role leaves the counters of a role as they are.\<close>

lemma calibration_counts_other:
  "co_role b \<noteq> rc_role c \<Longrightarrow> calibration_counts (bs @ [b]) c = calibration_counts bs c"
  by (simp add: calibration_counts_def labelled_def abstained_def)

lemma calibration_snapshot_init_Inr:
  "calibration_snapshot_init s = Inr s' \<Longrightarrow> s' = s \<and> \<not> cs_execution_authority s \<and>
     distinct (map rc_role (cs_states s)) \<and> distinct (cs_processed_evidence_ids s)"
  by (simp add: calibration_snapshot_init_def split: if_splits)

lemma role_calibration_init_Inr:
  "role_calibration_init c = Inr c' \<Longrightarrow> c' = c \<and> learning_objective_for_role (rc_role c) = Inr (rc_objective c)"
  by (auto simp: role_calibration_init_def res_simps split: if_splits)

lemma apply_calibration_facts:
  assumes "apply_calibration_observation p s next_id b = Inr s'"
  obtains "s' = s" "co_evidence_id b \<in> set (cs_processed_evidence_ids s)"
  | old where "co_evidence_id b \<notin> set (cs_processed_evidence_ids s)" "rc_role old = co_role b"
      "set (cs_states s') = insert (count_observation old b) {c \<in> set (cs_states s). rc_role c \<noteq> co_role b}"
      "distinct (map rc_role (cs_states s'))"
      "old \<in> set (cs_states s) \<or> (\<forall>c\<in>set (cs_states s). rc_role c \<noteq> co_role b) \<and>
         rc_calibrated_observation_count old = 0 \<and> rc_abstention_count old = 0 \<and>
         rc_confidence_sum old = Fin 0 \<and> rc_outcome_sum old = Fin 0 \<and> rc_absolute_error_sum old = Fin 0"
proof (cases "co_evidence_id b \<in> set (cs_processed_evidence_ids s)")
  case True
  then show ?thesis using assms that(1) by (simp add: apply_calibration_observation_def)
next
  case False
  let ?m = "role_calibration_init
    \<lparr>rc_role = co_role b, rc_objective = co_objective b, rc_calibrated_observation_count = 0, rc_abstention_count = 0,
     rc_confidence_sum = Fin 0, rc_outcome_sum = Fin 0, rc_absolute_error_sum = Fin 0\<rparr>"
  from False assms obtain old new where
    old: "(case calibration_for s (co_role b) of Some c \<Rightarrow> Inr c | None \<Rightarrow> ?m) = Inr old"
    and new: "role_calibration_init (count_observation old b) = Inr new"
    and snap: "calibration_snapshot_init
        \<lparr>cs_snapshot_id = next_id, cs_parent_snapshot_id = Some (cs_snapshot_id s),
         cs_states = sort_key rc_role (filter (\<lambda>c. rc_role c \<noteq> co_role b) (cs_states s) @ [new]),
         cs_processed_evidence_ids = cs_processed_evidence_ids s @ [co_evidence_id b],
         cs_execution_authority = False\<rparr> = Inr s'"
    by (auto simp: apply_calibration_observation_def res_simps split: if_splits)
  have "rc_role old = co_role b"
    using old unfolding calibration_for_def by (rule existing_role) (auto dest: role_calibration_init_Inr)
  moreover have "set (cs_states s') = insert (count_observation old b) {c \<in> set (cs_states s). rc_role c \<noteq> co_role b}"
    "distinct (map rc_role (cs_states s'))"
    using role_calibration_init_Inr [OF new] calibration_snapshot_init_Inr [OF snap] by auto
  moreover have "old \<in> set (cs_states s) \<or> (\<forall>c\<in>set (cs_states s). rc_role c \<noteq> co_role b) \<and>
      rc_calibrated_observation_count old = 0 \<and> rc_abstention_count old = 0 \<and>
      rc_confidence_sum old = Fin 0 \<and> rc_outcome_sum old = Fin 0 \<and> rc_absolute_error_sum old = Fin 0"
    using old by (auto simp: calibration_for_def find_Some_iff find_None_iff dest: role_calibration_init_Inr
        split: option.splits)
  ultimately show ?thesis by (rule that(2) [OF False])
qed

definition calibration_ok :: "calibration_observation list \<Rightarrow> calibration_snapshot \<Rightarrow> bool" where
  "calibration_ok bs s =
     (distinct (map rc_role (cs_states s)) \<and> (\<forall>c\<in>set (cs_states s). calibration_counts bs c) \<and>
      (\<forall>b\<in>set bs. \<exists>c\<in>set (cs_states s). rc_role c = co_role b))"

lemma count_observation_role [simp]: "rc_role (count_observation c b) = rc_role c"
  by (simp add: count_observation_def Let_def)

lemma unseen_role:
  assumes "calibration_ok bs s" "\<forall>c\<in>set (cs_states s). rc_role c \<noteq> role"
  shows "labelled role bs = []" "abstained role bs = []"
  using assms by (auto simp: calibration_ok_def labelled_def abstained_def filter_empty_conv)

lemma calibration_applied_ok:
  assumes "calibration_ok bs s" "calibration_observation_init b = Inr b"
    and "apply_calibration_observation p s next_id b = Inr s'" "Suc (length bs) < 2 ^ 53"
  shows "calibration_ok (if co_evidence_id b \<in> set (cs_processed_evidence_ids s) then bs else bs @ [b]) s'"
  using assms(3)
proof (cases rule: apply_calibration_facts)
  case 1
  then show ?thesis using assms(1) by simp
next
  case (2 old)
  have "calibration_counts bs old"
  proof (cases "old \<in> set (cs_states s)")
    case True
    then show ?thesis using assms(1) by (simp add: calibration_ok_def)
  next
    case False
    then show ?thesis using 2 unseen_role [OF assms(1), of "co_role b"]
      by (simp add: calibration_counts_def sum_within_def successes_def)
  qed
  from count_observation_counts [OF this assms(2) _ assms(4)] 2
  have "\<forall>c\<in>set (cs_states s'). calibration_counts (bs @ [b]) c"
    using assms(1) by (auto simp: calibration_ok_def calibration_counts_other)
  moreover have "\<forall>d\<in>set (bs @ [b]). \<exists>c\<in>set (cs_states s'). rc_role c = co_role d"
  proof
    fix d assume "d \<in> set (bs @ [b])"
    show "\<exists>c\<in>set (cs_states s'). rc_role c = co_role d"
    proof (cases "co_role d = co_role b")
      case True
      then show ?thesis using 2 by simp
    next
      case False
      with \<open>d \<in> set (bs @ [b])\<close> have "d \<in> set bs" by auto
      then obtain c where "c \<in> set (cs_states s)" "rc_role c = co_role d" using assms(1) by (auto simp: calibration_ok_def)
      then show ?thesis using 2 False by auto
    qed
  qed
  ultimately show ?thesis using 2 by (simp add: calibration_ok_def)
qed

lemma calibration_history_ok: "calibration_history p bs s \<Longrightarrow> length bs < 2 ^ 53 \<Longrightarrow> calibration_ok bs s"
proof (induction rule: calibration_history.induct)
  case (calibration_empty sid s)
  then show ?case by (auto simp: empty_calibration_snapshot_def calibration_ok_def dest!: calibration_snapshot_init_Inr)
next
  case (calibration_applied bs s b next_id s')
  show ?case
  proof (cases "co_evidence_id b \<in> set (cs_processed_evidence_ids s)")
    case True
    then show ?thesis using calibration_applied by (simp add: apply_calibration_observation_def)
  next
    case False
    then have "Suc (length bs) < 2 ^ 53" using calibration_applied.prems by simp
    then show ?thesis
      using calibration_applied_ok [OF calibration_applied.IH calibration_applied.hyps(2,3)] by (simp add: Suc_lessD)
  qed
qed

lemma calibration_for_ok:
  assumes "calibration_ok bs s" "calibration_for s role = Some c"
  shows "calibration_counts bs c" "rc_role c = role"
  using assms by (auto simp: calibration_ok_def calibration_for_def find_Some_iff)

text \<open>
  C24. Calibration counts what was observed: after any sequence of validated observations (fewer than
  \<open>2 ^ 53\<close>, each id counted once), the entry of a role holds the number of its labelled
  observations, the number of its abstentions, which never become labels, and as \<open>outcome_sum\<close> the
  exact number of successes; its mean calibration error is a number between 0 and 1.
\<close>

theorem calibration_counts_observations:
  assumes "calibration_history p bs s" "length bs < 2 ^ 53" "calibration_for s role = Some c"
  shows "rc_calibrated_observation_count c = int (length (labelled role bs)) \<and>
    rc_abstention_count c = int (length (abstained role bs)) \<and>
    rc_outcome_sum c = Fin (of_nat (successes (labelled role bs))) \<and>
    (labelled role bs \<noteq> [] \<longrightarrow> (\<exists>e. mean_absolute_calibration_error c = Inr (Some (Fin e)) \<and> 0 \<le> e \<and> e \<le> 1))"
proof -
  note ok = calibration_for_ok [OF calibration_history_ok [OF assms(1,2)] assms(3)]
  define n where "n = length (labelled role bs)"
  have n: "n < 2 ^ 53" unfolding n_def labelled_def
    by (rule le_less_trans [OF length_filter_le assms(2)])
  have "\<exists>e. mean_absolute_calibration_error c = Inr (Some (Fin e)) \<and> 0 \<le> e \<and> e \<le> 1" if "n \<noteq> 0"
  proof -
    obtain r where r: "rc_absolute_error_sum c = Fin r" "0 \<le> r" "r \<le> of_nat n"
      using ok by (auto simp: calibration_counts_def sum_within_def n_def Let_def)
    then have "0 \<le> r / of_nat n" "r / of_nat n \<le> 1" using that by (simp_all add: divide_le_eq)
    then obtain e where "rnd64 (r / of_nat n) = Fin e" "0 \<le> e" "e \<le> 1"
      using rnd64_between [of 0 "r / of_nat n" 1] by auto
    moreover have "rc_calibrated_observation_count c = int n" using ok by (simp add: calibration_counts_def n_def Let_def)
    ultimately show ?thesis using r(1) that rnd64_nat [OF n]
      by (simp add: mean_absolute_calibration_error_def calibration_mean_def float_of_int_def)
  qed
  then show ?thesis using ok by (auto simp: calibration_counts_def n_def Let_def)
qed

section \<open>The theorems at concrete inputs\<close>

definition sample_reputation_evidence :: reputation_evidence where
  "sample_reputation_evidence = \<lparr>re_evidence_id = ''e1'', re_role = ''timing'', re_objective = TIMING,
     re_score_delta = Fin (1 / 32), re_sample_count = 20, re_validation_protocol_id = ''p'', re_accepted = True\<rparr>"

definition sample_reputation :: "string \<Rightarrow> string option \<Rightarrow> role_reputation list \<Rightarrow> string list \<Rightarrow> string option \<Rightarrow> reputation_snapshot" where
  "sample_reputation i parent states ids back =
     \<lparr>rs_snapshot_id = i, rs_parent_snapshot_id = parent, rs_states = states, rs_processed_evidence_ids = ids,
      rs_rollback_of_snapshot_id = back, rs_execution_authority = False\<rparr>"

definition sample_role_reputation :: role_reputation where
  "sample_role_reputation = \<lparr>rr_role = ''timing'', rr_objective = TIMING, rr_score = round_to 12 (Fin (1 / 32)), rr_update_count = 1\<rparr>"

lemma sample_reputation_steps:
  "empty_reputation_snapshot ''s0'' = Inr (sample_reputation ''s0'' None [] [] None)"
  "reputation_evidence_init sample_reputation_evidence = Inr sample_reputation_evidence"
  "apply_reputation_evidence default_reputation_policy (sample_reputation ''s0'' None [] [] None) ''s1''
     sample_reputation_evidence =
   Inr (sample_reputation ''s1'' (Some ''s0'') [sample_role_reputation] [''e1''] None)"
  "rollback_reputation_snapshot (sample_reputation ''s1'' (Some ''s0'') [sample_role_reputation] [''e1''] None)
     (sample_reputation ''s0'' None [] [] None) ''s2'' =
   Inr (sample_reputation ''s2'' (Some ''s1'') [] [''e1''] (Some ''s0''))"
  "reputation_policy_init default_reputation_policy = Inr default_reputation_policy"
  "rp_max_abs_score default_reputation_policy = Fin 1"
  by code_simp+

theorem evidence_counts_once_witness:
  "apply_reputation_evidence default_reputation_policy (sample_reputation ''s2'' (Some ''s1'') [] [''e1''] (Some ''s0''))
     ''s3'' sample_reputation_evidence = Inr (sample_reputation ''s2'' (Some ''s1'') [] [''e1''] (Some ''s0''))"
  by (rule evidence_counts_once [OF sample_reputation_steps(3) later_rolled_back [OF later_self sample_reputation_steps(4)]])

theorem reputation_stays_bounded_witness:
  "fle (rr_score sample_role_reputation) (round_to 12 (Fin 1))"
proof -
  have "reputation_reachable default_reputation_policy (sample_reputation ''s1'' (Some ''s0'') [sample_role_reputation] [''e1''] None)"
    by (rule reputation_applied [OF reputation_empty [OF sample_reputation_steps(1)] sample_reputation_steps(2,3)])
  moreover have "reputation_for (sample_reputation ''s1'' (Some ''s0'') [sample_role_reputation] [''e1''] None) ''timing'' =
      Some sample_role_reputation"
    by (simp add: reputation_for_def sample_reputation_def sample_role_reputation_def)
  ultimately show ?thesis
    using reputation_stays_bounded [OF sample_reputation_steps(5,6)] by blast
qed

definition sample_calibration_policy :: calibration_policy where
  "sample_calibration_policy = \<lparr>cp_minimum_sample_count = 20, cp_minimum_observations_for_drift = 5,
     cp_max_error_deterioration = rnd64 (15 / 100)\<rparr>"

definition sample_observation :: calibration_observation where
  "sample_observation = \<lparr>co_evidence_id = ''e1'', co_role = ''timing'', co_objective = TIMING, co_confidence = Fin (3 / 4),
     co_outcome_success = Some True, co_abstained = False, co_sample_count = 20, co_validation_protocol_id = ''p'',
     co_accepted = True\<rparr>"

definition sample_calibration :: role_calibration where
  "sample_calibration = \<lparr>rc_role = ''timing'', rc_objective = TIMING, rc_calibrated_observation_count = 1,
     rc_abstention_count = 0, rc_confidence_sum = Fin (3 / 4), rc_outcome_sum = Fin 1, rc_absolute_error_sum = Fin (1 / 4)\<rparr>"

definition sample_calibration_snapshot :: calibration_snapshot where
  "sample_calibration_snapshot = \<lparr>cs_snapshot_id = ''s1'', cs_parent_snapshot_id = Some ''s0'',
     cs_states = [sample_calibration], cs_processed_evidence_ids = [''e1''], cs_execution_authority = False\<rparr>"

lemma sample_calibration_steps:
  "empty_calibration_snapshot ''s0'' = Inr \<lparr>cs_snapshot_id = ''s0'', cs_parent_snapshot_id = None, cs_states = [],
     cs_processed_evidence_ids = [], cs_execution_authority = False\<rparr>"
  "calibration_observation_init sample_observation = Inr sample_observation"
  "apply_calibration_observation sample_calibration_policy \<lparr>cs_snapshot_id = ''s0'', cs_parent_snapshot_id = None,
     cs_states = [], cs_processed_evidence_ids = [], cs_execution_authority = False\<rparr> ''s1'' sample_observation =
   Inr sample_calibration_snapshot"
  by code_simp+

theorem calibration_counts_observations_witness:
  "rc_calibrated_observation_count sample_calibration = int (length (labelled ''timing'' [sample_observation]))"
proof -
  have "calibration_history sample_calibration_policy [sample_observation] sample_calibration_snapshot"
    using calibration_applied [OF calibration_empty [OF sample_calibration_steps(1)] sample_calibration_steps(2,3)] by simp
  moreover have "calibration_for sample_calibration_snapshot ''timing'' = Some sample_calibration"
    by (simp add: calibration_for_def sample_calibration_snapshot_def sample_calibration_def)
  ultimately show ?thesis using calibration_counts_observations [where bs = "[sample_observation]"] by simp
qed

end
