(* ===== verification/Capital_Allocation.thy ===== *)
theory Capital_Allocation
  imports Py_Value
begin

text \<open>
  \<open>capital_allocation.py\<close>: how much of an account a new position may take. The plan keeps a cash
  reserve, limits the total, the symbol and the correlated exposure, and sizes the position by the
  loss at its stop after fees. Numbers are binary64. The numbers a caller passes are floats, so the
  checks that they are no \<open>bool\<close> have no counterpart; the open trades are dynamic values.
\<close>

section \<open>Policy\<close>

definition major_crypto_symbols :: "string list" where
  "major_crypto_symbols =
     [''BTCUSDT'', ''ETHUSDT'', ''SOLUSDT'', ''BNBUSDT'', ''XRPUSDT'', ''ADAUSDT'', ''DOGEUSDT'', ''AVAXUSDT'',
      ''LINKUSDT'']"

record allocation_policy =
  cp_reserve_percent :: pyfloat
  cp_max_total_exposure_percent :: pyfloat
  cp_max_position_percent :: pyfloat
  cp_max_symbol_exposure_percent :: pyfloat
  cp_max_correlated_exposure_percent :: pyfloat
  cp_max_risk_per_trade_percent :: pyfloat
  cp_max_daily_loss_percent :: pyfloat
  cp_minimum_notional :: pyfloat
  cp_leverage :: pyfloat

definition default_policy :: allocation_policy where
  "default_policy = \<lparr>cp_reserve_percent = Fin 20, cp_max_total_exposure_percent = Fin 80,
     cp_max_position_percent = Fin 20, cp_max_symbol_exposure_percent = Fin 20,
     cp_max_correlated_exposure_percent = Fin 35, cp_max_risk_per_trade_percent = Fin 1,
     cp_max_daily_loss_percent = Fin 2, cp_minimum_notional = Fin 25, cp_leverage = Fin 1\<rparr>"

text \<open>\<open>float(os.getenv(name, str(default)))\<close>: the text of the default reads back as the default.\<close>

definition bounded_env :: "os_env \<Rightarrow> string \<Rightarrow> pyfloat \<Rightarrow> pyfloat \<Rightarrow> pyfloat \<Rightarrow> pyfloat" where
  "bounded_env env name dflt minimum maximum =
     (let parsed = (case env name of None \<Rightarrow> dflt
           | Some s \<Rightarrow> (case float_of_string s of Some x \<Rightarrow> x | None \<Rightarrow> dflt));
          v = (if isfinite parsed then parsed else dflt)
      in round_to 6 (py_min (py_max v minimum) maximum))"

definition policy_from_environment :: "os_env \<Rightarrow> allocation_policy" where
  "policy_from_environment env =
     (let reserve = bounded_env env ''VIRTUAL_ACCOUNT_RESERVE_PERCENT'' (Fin 20) (Fin 5) (Fin 50);
          max_total = bounded_env env ''VIRTUAL_ACCOUNT_MAX_TOTAL_EXPOSURE_PERCENT'' (Fin 80) (Fin 25) (Fin 95)
      in \<lparr>cp_reserve_percent = reserve,
          cp_max_total_exposure_percent = py_min max_total (fsub (Fin 100) reserve),
          cp_max_position_percent =
            bounded_env env ''VIRTUAL_ACCOUNT_MAX_POSITION_PERCENT'' (Fin 20) (Fin 2) (Fin 50),
          cp_max_symbol_exposure_percent =
            bounded_env env ''VIRTUAL_ACCOUNT_MAX_SYMBOL_EXPOSURE_PERCENT'' (Fin 20) (Fin 2) (Fin 50),
          cp_max_correlated_exposure_percent =
            bounded_env env ''VIRTUAL_ACCOUNT_MAX_CORRELATED_EXPOSURE_PERCENT'' (Fin 35) (Fin 5) (Fin 80),
          cp_max_risk_per_trade_percent =
            bounded_env env ''VIRTUAL_ACCOUNT_MAX_RISK_PER_TRADE_PERCENT'' (Fin 1) (rnd64 (1 / 10)) (Fin 2),
          cp_max_daily_loss_percent =
            bounded_env env ''VIRTUAL_ACCOUNT_MAX_DAILY_LOSS_PERCENT'' (Fin 2) (Fin (1 / 4)) (Fin 10),
          cp_minimum_notional =
            bounded_env env ''VIRTUAL_ACCOUNT_MIN_NOTIONAL_USDT'' (Fin 25) (Fin 1) (Fin 1000),
          cp_leverage = Fin 1\<rparr>)"

definition policy_fields :: "allocation_policy \<Rightarrow> (string \<times> pyfloat) list" where
  "policy_fields p =
     [(''reserve_percent'', cp_reserve_percent p),
      (''max_total_exposure_percent'', cp_max_total_exposure_percent p),
      (''max_position_percent'', cp_max_position_percent p),
      (''max_symbol_exposure_percent'', cp_max_symbol_exposure_percent p),
      (''max_correlated_exposure_percent'', cp_max_correlated_exposure_percent p),
      (''max_risk_per_trade_percent'', cp_max_risk_per_trade_percent p),
      (''max_daily_loss_percent'', cp_max_daily_loss_percent p),
      (''minimum_notional'', cp_minimum_notional p), (''leverage'', cp_leverage p)]"

definition validate_policy_field :: "unit \<Rightarrow> string \<times> pyfloat \<Rightarrow> unit res" where
  "validate_policy_field u f =
     (if \<not> isfinite (snd f) \<or> flt (snd f) (Fin 0)
      then Inl (ValueError (''invalid capital policy field: '' @ fst f)) else Inr ())"

definition validate_policy :: "allocation_policy \<Rightarrow> unit res" where
  "validate_policy p =
     rbind (rfold validate_policy_field () (policy_fields p)) (\<lambda>_.
       if \<not> feq (cp_leverage p) (Fin 1) then Inl (ValueError ''capital allocation leverage must remain 1.0'')
       else if flt (rnd64 (100000001 / 1000000)) (fadd (cp_reserve_percent p) (cp_max_total_exposure_percent p))
       then Inl (ValueError ''reserve plus total exposure exceeds account equity'')
       else if flt (cp_max_total_exposure_percent p) (cp_max_position_percent p)
       then Inl (ValueError ''position cap exceeds total exposure cap'')
       else if flt (cp_max_total_exposure_percent p) (cp_max_symbol_exposure_percent p)
       then Inl (ValueError ''symbol cap exceeds total exposure cap'') else Inr ())"

section \<open>Numbers, symbols and open trades\<close>

definition ca_finite :: "pyfloat \<Rightarrow> string \<Rightarrow> pyfloat res" where
  "ca_finite v name = (if isfinite v then Inr v else Inl (ValueError (name @ '' must be finite'')))"

definition ca_nonnegative :: "pyfloat \<Rightarrow> string \<Rightarrow> pyfloat res" where
  "ca_nonnegative v name =
     rbind (ca_finite v name) (\<lambda>x.
       if flt x (Fin 0) then Inl (ValueError (name @ '' must be non-negative'')) else Inr x)"

definition ca_bounded_number :: "pyfloat \<Rightarrow> string \<Rightarrow> pyfloat \<Rightarrow> pyfloat \<Rightarrow> pyfloat res" where
  "ca_bounded_number v name minimum maximum =
     rbind (ca_finite v name) (\<lambda>x.
       if fle minimum x \<and> fle x maximum then Inr x
       else Inl (ValueError (name @ '' must be between '' @ float_repr minimum @ '' and '' @ float_repr maximum)))"

definition ca_symbol :: "string \<Rightarrow> string res" where
  "ca_symbol s =
     (let clean = remove_char (CHR ''-'') (remove_char (CHR ''/'') (upper (strip s)))
      in if clean = [] \<or> \<not> isalnum clean \<or> 30 < length clean then Inl (ValueError ''invalid symbol'')
         else Inr clean)"

definition correlation_group_for_symbol :: "string \<Rightarrow> string res" where
  "correlation_group_for_symbol s =
     rbind (ca_symbol s) (\<lambda>clean.
       Inr (if clean \<in> set major_crypto_symbols then ''crypto_beta'' else ''symbol:'' @ lower clean))"

type_synonym trade_row = "(string \<times> pyval) list"

definition row_symbol :: "trade_row \<Rightarrow> pyval" where
  "row_symbol r = py_or (py_get r ''symbol'' PyNone) (py_get r ''asset'' PyNone)"

definition symbol_or_empty :: "pyval \<Rightarrow> string" where
  "symbol_or_empty v = (case ca_symbol (text_or_empty v) of Inr s \<Rightarrow> s | Inl _ \<Rightarrow> [])"

fun active_trade :: "pyval \<Rightarrow> trade_row option" where
  "active_trade (PyDict r) =
     (if upper (py_str (py_get r ''status'' (PyStr ''OPEN''))) = ''OPEN'' then Some r else None)"
| "active_trade _ = None"

definition active_trades :: "pyval list \<Rightarrow> trade_row list" where
  "active_trades trades = List.map_filter active_trade trades"

definition product_or_zero :: "pyval \<Rightarrow> pyval \<Rightarrow> pyfloat res" where
  "product_or_zero a b =
     (case rbind (py_float a) (\<lambda>x. rbind (py_float b) (\<lambda>y. Inr (fmul x y))) of
        Inr v \<Rightarrow> Inr v
      | Inl (TypeError m) \<Rightarrow> Inr (Fin 0)
      | Inl (ValueError m) \<Rightarrow> Inr (Fin 0)
      | Inl e \<Rightarrow> Inl e)"

definition trade_notional :: "trade_row \<Rightarrow> pyfloat res" where
  "trade_notional r =
     (let value = py_get r ''notional'' PyNone
      in rbind
           (if value = PyNone \<or> value = PyStr []
            then product_or_zero (py_get r ''quantity'' (PyFloat (Fin 0)))
                   (py_get r ''current_price'' (py_get r ''entry_price'' (py_get r ''price'' (PyFloat (Fin 0)))))
            else (case value of PyBool b \<Rightarrow> Inl (ValueError ''trade notional must be finite'') | _ \<Rightarrow> py_float value))
           (\<lambda>x. rbind (ca_finite x ''trade notional'') (\<lambda>y. Inr (py_max (Fin 0) y))))"

definition explicit_group :: "trade_row \<Rightarrow> pyval" where
  "explicit_group r =
     (case py_get r ''capital_allocation'' PyNone of
        PyDict ca \<Rightarrow> py_or (py_get r ''correlation_group'' PyNone) (py_get ca ''correlation_group'' (PyStr []))
      | _ \<Rightarrow> py_get r ''correlation_group'' (PyStr []))"

definition trade_group :: "trade_row \<Rightarrow> string res" where
  "trade_group r =
     (let explicit = lower (strip (py_str (explicit_group r)))
      in if explicit \<noteq> [] then Inr explicit
         else if truthy (row_symbol r) then correlation_group_for_symbol (py_str (row_symbol r)) else Inr [])"

definition ca_percent :: "pyfloat \<Rightarrow> pyfloat \<Rightarrow> pyfloat res" where
  "ca_percent n d =
     (if flt (Fin 0) d then rbind (fdiv n d) (\<lambda>x. Inr (round_to 4 (fmul x (Fin 100)))) else Inr (Fin 0))"

section \<open>The plan\<close>

record allocation_request =
  aq_equity :: pyfloat
  aq_open_trades :: "pyval list"
  aq_max_open_positions :: int
  aq_stop_loss_percent :: pyfloat
  aq_fee_rate :: pyfloat
  aq_requested_risk_percent :: pyfloat
  aq_symbol :: string
  aq_correlation_group :: string
  aq_risk_size_multiplier :: pyfloat
  aq_current_daily_loss_percent :: pyfloat
  aq_hard_blocks :: "string list"

text \<open>The arguments after their checks.\<close>

record allocation_inputs =
  ai_equity :: pyfloat
  ai_position_limit :: int
  ai_symbol :: string
  ai_group :: string
  ai_multiplier :: pyfloat
  ai_daily_loss :: pyfloat
  ai_blocks :: "string list"
  ai_active :: "trade_row list"
  ai_deployed :: pyfloat
  ai_symbol_notional :: pyfloat
  ai_correlated_notional :: pyfloat
  ai_requested_risk :: pyfloat
  ai_stop_distance :: pyfloat
  ai_fee_rate :: pyfloat

definition nonblank_blocks :: "string list \<Rightarrow> string list" where
  "nonblank_blocks xs = sorted_set (filter (\<lambda>s. s \<noteq> []) (map strip xs))"

definition allocation_inputs_of :: "allocation_policy \<Rightarrow> allocation_request \<Rightarrow> allocation_inputs res" where
  "allocation_inputs_of p q =
     rbind (validate_policy p) (\<lambda>_.
     rbind (ca_nonnegative (aq_equity q) ''equity'') (\<lambda>equity.
     rbind (if aq_symbol q = [] then Inr [] else ca_symbol (aq_symbol q)) (\<lambda>symbol.
     rbind (ca_bounded_number (aq_risk_size_multiplier q) ''risk_size_multiplier'' (Fin 0) (Fin 1)) (\<lambda>multiplier.
     rbind (ca_bounded_number (aq_current_daily_loss_percent q) ''current_daily_loss_percent'' (Fin 0) (Fin 100)) (\<lambda>daily.
       let group = lower (strip (aq_correlation_group q));
           active = active_trades (aq_open_trades q)
       in rbind (rmapM trade_notional active) (\<lambda>notionals.
          rbind (if group = [] then Inr (map (\<lambda>_. []) active) else rmapM trade_group active) (\<lambda>groups.
          rbind (ca_nonnegative (aq_requested_risk_percent q) ''requested_risk_percent'') (\<lambda>risk.
          rbind (ca_nonnegative (aq_stop_loss_percent q) ''stop_loss_percent'') (\<lambda>stop.
          rbind (ca_nonnegative (aq_fee_rate q) ''fee_rate'') (\<lambda>fee.
            Inr \<lparr>ai_equity = equity, ai_position_limit = max 1 (aq_max_open_positions q),
                 ai_symbol = symbol, ai_group = group, ai_multiplier = multiplier, ai_daily_loss = daily,
                 ai_blocks = nonblank_blocks (aq_hard_blocks q), ai_active = active,
                 ai_deployed = round_to 4 (py_sum notionals),
                 ai_symbol_notional = round_to 4 (py_sum (map snd (filter (\<lambda>(r, n). symbol \<noteq> [] \<and>
                   symbol_or_empty (row_symbol r) = symbol) (zip active notionals)))),
                 ai_correlated_notional = round_to 4 (py_sum (map snd (filter (\<lambda>(g, n). group \<noteq> [] \<and>
                   g = group) (zip groups notionals)))),
                 ai_requested_risk = risk,
                 ai_stop_distance = py_max (rnd64 (1 / 100)) stop, ai_fee_rate = fee\<rparr>))))))))))"

record allocation_plan =
  al_allowed :: bool
  al_reason :: string
  al_notional :: pyfloat
  al_symbol :: string
  al_correlation_group :: string
  al_equity :: pyfloat
  al_reserve_amount :: pyfloat
  al_total_exposure_cap :: pyfloat
  al_deployable_capital :: pyfloat
  al_deployed_notional :: pyfloat
  al_available_to_allocate :: pyfloat
  al_remaining_slots :: int
  al_equal_slot_budget :: pyfloat
  al_position_notional_cap :: pyfloat
  al_symbol_notional :: pyfloat
  al_symbol_exposure_cap :: pyfloat
  al_available_symbol_exposure :: pyfloat
  al_correlated_notional :: pyfloat
  al_correlated_exposure_cap :: pyfloat
  al_available_correlated_exposure :: pyfloat
  al_risk_notional_cap :: pyfloat
  al_risk_budget :: pyfloat
  al_requested_risk_percent :: pyfloat
  al_effective_risk_percent :: pyfloat
  al_risk_size_multiplier :: pyfloat
  al_current_daily_loss_percent :: pyfloat
  al_hard_blocks :: "string list"
  al_round_trip_fee_percent :: pyfloat
  al_stop_loss_percent :: pyfloat
  al_utilization_percent :: pyfloat
  al_projected_utilization_percent :: pyfloat
  al_symbol_exposure_percent :: pyfloat
  al_projected_symbol_exposure_percent :: pyfloat
  al_correlated_exposure_percent :: pyfloat
  al_projected_correlated_exposure_percent :: pyfloat
  al_policy :: allocation_policy

text \<open>\<open>round(equity * percent / 100.0, 4)\<close>.\<close>

definition share_of :: "pyfloat \<Rightarrow> pyfloat \<Rightarrow> pyfloat" where
  "share_of equity percent = round_to 4 (fdiv_by (fmul equity percent) 100)"

definition deployable_capital :: "allocation_policy \<Rightarrow> pyfloat \<Rightarrow> pyfloat" where
  "deployable_capital p equity =
     round_to 4 (py_min (py_max (Fin 0) (fsub equity (share_of equity (cp_reserve_percent p))))
       (share_of equity (cp_max_total_exposure_percent p)))"

definition available_to_allocate :: "allocation_policy \<Rightarrow> pyfloat \<Rightarrow> pyfloat \<Rightarrow> pyfloat" where
  "available_to_allocate p equity deployed =
     round_to 4 (py_max (Fin 0) (fsub (deployable_capital p equity) deployed))"

definition remaining_slots :: "allocation_inputs \<Rightarrow> int" where
  "remaining_slots i = max 0 (ai_position_limit i - int (length (ai_active i)))"

definition available_symbol :: "allocation_policy \<Rightarrow> allocation_inputs \<Rightarrow> pyfloat" where
  "available_symbol p i =
     py_max (Fin 0) (fsub (share_of (ai_equity i) (cp_max_symbol_exposure_percent p)) (ai_symbol_notional i))"

definition available_correlated :: "allocation_policy \<Rightarrow> allocation_inputs \<Rightarrow> pyfloat" where
  "available_correlated p i =
     (if ai_group i \<noteq> []
      then py_max (Fin 0) (fsub (share_of (ai_equity i) (cp_max_correlated_exposure_percent p))
             (ai_correlated_notional i))
      else available_to_allocate p (ai_equity i) (ai_deployed i))"

definition effective_risk :: "allocation_policy \<Rightarrow> allocation_inputs \<Rightarrow> pyfloat" where
  "effective_risk p i = py_min (ai_requested_risk i) (cp_max_risk_per_trade_percent p)"

definition round_trip_fee_percent :: "allocation_inputs \<Rightarrow> pyfloat" where
  "round_trip_fee_percent i = fmul (fmul (ai_fee_rate i) (Fin 2)) (Fin 100)"

definition loss_distance :: "allocation_inputs \<Rightarrow> pyfloat" where
  "loss_distance i = fdiv_by (fadd (ai_stop_distance i) (round_trip_fee_percent i)) 100"

definition risk_budget :: "allocation_policy \<Rightarrow> allocation_inputs \<Rightarrow> pyfloat" where
  "risk_budget p i =
     round_to 4 (fmul (fdiv_by (fmul (ai_equity i) (effective_risk p i)) 100) (ai_multiplier i))"

definition risk_notional_cap :: "allocation_policy \<Rightarrow> allocation_inputs \<Rightarrow> pyfloat res" where
  "risk_notional_cap p i =
     (if flt (Fin 0) (loss_distance i)
      then rbind (fdiv (risk_budget p i) (loss_distance i)) (\<lambda>x. Inr (round_to 4 x)) else Inr (Fin 0))"

text \<open>\<open>min\<close> of several arguments.\<close>

definition py_min_list :: "pyfloat \<Rightarrow> pyfloat list \<Rightarrow> pyfloat" where
  "py_min_list x xs = foldl py_min x xs"

definition raw_notional :: "allocation_policy \<Rightarrow> allocation_inputs \<Rightarrow> pyfloat \<Rightarrow> pyfloat" where
  "raw_notional p i risk_cap =
     (let position_cap = share_of (ai_equity i) (cp_max_position_percent p)
      in round_to 2 (py_min_list (available_to_allocate p (ai_equity i) (ai_deployed i))
           [position_cap, if ai_symbol i \<noteq> [] then available_symbol p i else position_cap,
            available_correlated p i, risk_cap]))"

definition allocation_reason :: "allocation_policy \<Rightarrow> allocation_inputs \<Rightarrow> pyfloat \<Rightarrow> string" where
  "allocation_reason p i notional =
     (let minimum = cp_minimum_notional p
      in if ai_blocks i \<noteq> [] then ''risk_hard_block:'' @ hd (ai_blocks i)
         else if fle (ai_equity i) (Fin 0) then ''equity_unavailable''
         else if fle (cp_max_daily_loss_percent p) (ai_daily_loss i) then ''daily_loss_limit''
         else if remaining_slots i \<le> 0 then ''position_limit_reached''
         else if flt (available_to_allocate p (ai_equity i) (ai_deployed i)) minimum
         then ''reserve_or_total_exposure_protected''
         else if ai_symbol i \<noteq> [] \<and> flt (available_symbol p i) minimum then ''symbol_exposure_limit''
         else if ai_group i \<noteq> [] \<and> flt (available_correlated p i) minimum then ''correlated_exposure_limit''
         else if fle (effective_risk p i) (Fin 0) \<or> fle (ai_multiplier i) (Fin 0)
         then ''risk_budget_unavailable''
         else if flt notional minimum then ''allocation_below_minimum'' else ''allocated'')"

definition equal_slot_budget :: "pyfloat \<Rightarrow> int \<Rightarrow> pyfloat res" where
  "equal_slot_budget available slots =
     (if 0 < slots
      then rbind (float_of_int slots) (\<lambda>n. rbind (fdiv available n) (\<lambda>x. Inr (round_to 4 x))) else Inr (Fin 0))"

definition allocation_plan_of :: "allocation_policy \<Rightarrow> allocation_inputs \<Rightarrow> allocation_plan res" where
  "allocation_plan_of p i =
     (let equity = ai_equity i;
          available = available_to_allocate p equity (ai_deployed i);
          slots = remaining_slots i
      in rbind (risk_notional_cap p i) (\<lambda>risk_cap.
         rbind (equal_slot_budget available slots) (\<lambda>slot_budget.
         let raw = raw_notional p i risk_cap;
             reason = allocation_reason p i raw;
             allowed = (reason = ''allocated'');
             notional = (if allowed then raw else Fin 0)
         in rbind (ca_percent (ai_deployed i) equity) (\<lambda>utilization.
            rbind (ca_percent (fadd (ai_deployed i) notional) equity) (\<lambda>projected.
            rbind (ca_percent (ai_symbol_notional i) equity) (\<lambda>symbol_share.
            rbind (ca_percent (fadd (ai_symbol_notional i) notional) equity) (\<lambda>projected_symbol.
            rbind (ca_percent (ai_correlated_notional i) equity) (\<lambda>correlated_share.
            rbind (ca_percent (fadd (ai_correlated_notional i) notional) equity) (\<lambda>projected_correlated.
              Inr \<lparr>al_allowed = allowed, al_reason = reason, al_notional = notional, al_symbol = ai_symbol i,
                   al_correlation_group = ai_group i, al_equity = round_to 4 equity,
                   al_reserve_amount = share_of equity (cp_reserve_percent p),
                   al_total_exposure_cap = share_of equity (cp_max_total_exposure_percent p),
                   al_deployable_capital = deployable_capital p equity, al_deployed_notional = ai_deployed i,
                   al_available_to_allocate = available, al_remaining_slots = slots,
                   al_equal_slot_budget = slot_budget,
                   al_position_notional_cap = share_of equity (cp_max_position_percent p),
                   al_symbol_notional = ai_symbol_notional i,
                   al_symbol_exposure_cap = share_of equity (cp_max_symbol_exposure_percent p),
                   al_available_symbol_exposure = round_to 4 (available_symbol p i),
                   al_correlated_notional = ai_correlated_notional i,
                   al_correlated_exposure_cap = share_of equity (cp_max_correlated_exposure_percent p),
                   al_available_correlated_exposure = round_to 4 (available_correlated p i),
                   al_risk_notional_cap = risk_cap, al_risk_budget = risk_budget p i,
                   al_requested_risk_percent = ai_requested_risk i, al_effective_risk_percent = effective_risk p i,
                   al_risk_size_multiplier = ai_multiplier i, al_current_daily_loss_percent = ai_daily_loss i,
                   al_hard_blocks = ai_blocks i,
                   al_round_trip_fee_percent = round_to 6 (round_trip_fee_percent i),
                   al_stop_loss_percent = ai_stop_distance i, al_utilization_percent = utilization,
                   al_projected_utilization_percent = projected, al_symbol_exposure_percent = symbol_share,
                   al_projected_symbol_exposure_percent = projected_symbol,
                   al_correlated_exposure_percent = correlated_share,
                   al_projected_correlated_exposure_percent = projected_correlated,
                   al_policy = p\<rparr>)))))))))"

definition build_capital_allocation :: "allocation_policy \<Rightarrow> allocation_request \<Rightarrow> allocation_plan res" where
  "build_capital_allocation p q = rbind (allocation_inputs_of p q) (allocation_plan_of p)"

section \<open>The summary of an account\<close>

record capital_summary =
  cs_equity :: pyfloat
  cs_deployed_notional :: pyfloat
  cs_reserve_amount :: pyfloat
  cs_total_exposure_cap :: pyfloat
  cs_deployable_capital :: pyfloat
  cs_available_to_allocate :: pyfloat
  cs_capital_utilization_percent :: pyfloat
  cs_deployable_utilization_percent :: pyfloat
  cs_symbol_exposure_notional :: "pyfloat dict"
  cs_correlation_exposure_notional :: "pyfloat dict"
  cs_policy :: allocation_policy

definition add_exposure :: "string \<Rightarrow> pyfloat \<Rightarrow> pyfloat dict \<Rightarrow> pyfloat dict" where
  "add_exposure k n d =
     (if k = [] then d
      else AList.update k (round_to 4 (fadd (case map_of d k of Some v \<Rightarrow> v | None \<Rightarrow> Fin 0) n)) d)"

definition exposure_step :: "pyfloat dict \<times> pyfloat dict \<Rightarrow> trade_row \<Rightarrow> (pyfloat dict \<times> pyfloat dict) res" where
  "exposure_step acc r =
     rbind (trade_notional r) (\<lambda>n.
     rbind (trade_group r) (\<lambda>g.
       Inr (add_exposure (symbol_or_empty (row_symbol r)) n (fst acc), add_exposure g n (snd acc))))"

definition capital_snapshot :: "allocation_policy \<Rightarrow> pyfloat \<Rightarrow> pyval list \<Rightarrow> capital_summary res" where
  "capital_snapshot p equity trades =
     rbind (validate_policy p) (\<lambda>_.
     rbind (ca_nonnegative equity ''equity'') (\<lambda>clean.
     rbind (rmapM trade_notional (active_trades trades)) (\<lambda>notionals.
       let deployed = round_to 4 (py_sum notionals);
           deployable = deployable_capital p clean
       in rbind (rfold exposure_step ([], []) (active_trades trades)) (\<lambda>(symbols, groups).
          rbind (ca_percent deployed clean) (\<lambda>used.
          rbind (ca_percent deployed deployable) (\<lambda>used_deployable.
            Inr \<lparr>cs_equity = round_to 4 clean, cs_deployed_notional = deployed,
                 cs_reserve_amount = share_of clean (cp_reserve_percent p),
                 cs_total_exposure_cap = share_of clean (cp_max_total_exposure_percent p),
                 cs_deployable_capital = deployable,
                 cs_available_to_allocate = available_to_allocate p clean deployed,
                 cs_capital_utilization_percent = used, cs_deployable_utilization_percent = used_deployable,
                 cs_symbol_exposure_notional = symbols, cs_correlation_exposure_notional = groups,
                 cs_policy = p\<rparr>))))))"

section \<open>What the caps are worth\<close>

lemma round_to_4_money:
  assumes "\<bar>x\<bar> \<le> 2 ^ 39"
  obtains y where "round_to 4 (Fin x) = Fin y" "\<bar>y - x\<bar> \<le> 1 / 5000"
proof -
  have "1 / (2 * 10 ^ 4) + 1 / 8192 \<le> (1 / 5000 :: rat)" by simp
  then show ?thesis using round_to_money [OF assms, of 4] that by (metis order_trans)
qed

lemma round_to_2_money:
  assumes "\<bar>x\<bar> \<le> 2 ^ 39"
  obtains y where "round_to 2 (Fin x) = Fin y" "\<bar>y - x\<bar> \<le> 1 / 190"
proof -
  have "1 / (2 * 10 ^ 2) + 1 / 8192 \<le> (1 / 190 :: rat)" by simp
  then show ?thesis using round_to_money [OF assms, of 2] that by (metis order_trans)
qed

text \<open>An equity and a percentage within the range of the error bounds.\<close>

lemma share_of_money:
  assumes "0 \<le> e" "e \<le> 10 ^ 9" "0 \<le> c" "c \<le> 128"
  obtains y where "share_of (Fin e) (Fin c) = Fin y" "\<bar>y - e * c / 100\<bar> \<le> 1 / 1000" "0 \<le> y"
proof -
  have ec: "0 \<le> e * c" "e * c \<le> 10 ^ 9 * 128" using assms by (simp, intro mult_mono) simp_all
  then obtain m where m: "rnd64 (e * c) = Fin m" "\<bar>m - e * c\<bar> \<le> 1 / 8192" using rnd64_money [of "e * c"] by auto
  have m0: "0 \<le> m" using rnd64_nonneg [OF ec(1)] m(1) by simp
  have big: "(10 :: rat) ^ 9 * 128 + 3 \<le> 2 ^ 39" "(2 :: rat) ^ 39 \<le> 2 ^ 40" by simp_all
  have "\<bar>m / 100\<bar> \<le> 2 ^ 40" using m(2) ec m0 big by linarith
  then obtain d where d: "rnd64 (m / 100) = Fin d" "\<bar>d - m / 100\<bar> \<le> 1 / 8192" using rnd64_money [of "m / 100"] by auto
  have d0: "0 \<le> d" using rnd64_nonneg [of "m / 100"] m0 d(1) by simp
  have "\<bar>d\<bar> \<le> 2 ^ 39" using d(2) m(2) ec d0 m0 big by linarith
  then obtain y where y: "round_to 4 (Fin d) = Fin y" "\<bar>y - d\<bar> \<le> 1 / 5000" by (rule round_to_4_money)
  have "0 \<le> rhe (d * 10 ^ 4)" using d0 by (intro rhe_ge_int) simp
  then have y0: "0 \<le> y" using y(1) rnd64_nonneg [of "of_int (rhe (d * 10 ^ 4)) / 10 ^ 4"] by simp
  have "share_of (Fin e) (Fin c) = Fin y" using m(1) d(1) y(1) by (simp add: share_of_def fdiv_by_def)
  moreover have "\<bar>y - e * c / 100\<bar> \<le> 1 / 1000" using m(2) d(2) y(2) by linarith
  ultimately show ?thesis using that y0 by blast
qed

text \<open>The room left under a cap: what it admits, the use and the cap allow.\<close>

lemma room_money:
  assumes "\<bar>C\<bar> \<le> 2 ^ 32" "used \<noteq> FInf True" "0 < x" "x \<le> 2 ^ 32"
    and "fle (Fin x) (py_max (Fin 0) (fsub (Fin C) used))"
  obtains u where "used = Fin u" "u + x \<le> C + 1 / 8192"
proof (cases used)
  case (Fin u)
  have le: "fle (Fin x) (rnd64 (C - u))"
    using assms(3,5) Fin by (auto simp: py_max_def fsub_def split: if_splits)
  consider "\<bar>C - u\<bar> \<le> 2 ^ 40" | "2 ^ 40 < C - u" | "C - u < 0" by linarith
  then have "u + x \<le> C + 1 / 8192"
  proof cases
    case 1
    then obtain y where y: "rnd64 (C - u) = Fin y" "\<bar>y - (C - u)\<bar> \<le> 1 / 8192" by (rule rnd64_money)
    have "x \<le> y" using le y(1) by simp
    then show ?thesis using y(2) by linarith
  next
    case 2
    then show ?thesis using assms(4) by simp
  next
    case 3
    then have "fle (rnd64 (C - u)) (Fin 0)" using rnd64_mono [of "C - u" 0] by (simp add: rnd64_def)
    then show ?thesis using fle_trans [OF le] assms(3) by fastforce
  qed
  then show ?thesis using that Fin by blast
qed (use assms in \<open>auto simp: py_max_def fsub_def\<close>)

lemma py_max_0_cases: "(\<exists>w. py_max (Fin 0) z = Fin w \<and> 0 \<le> w) \<or> py_max (Fin 0) z = FInf False"
  by (cases z) (auto simp: py_max_def)

text \<open>Rounding a room to four digits admits little more.\<close>

lemma rounded_room_money:
  assumes "\<bar>C\<bar> \<le> 2 ^ 32" "used \<noteq> FInf True" "1 / 1000 \<le> x" "x \<le> 2 ^ 32"
    and "fle (Fin x) (round_to 4 (py_max (Fin 0) (fsub (Fin C) used)))"
  obtains u where "used = Fin u" "u + x \<le> C + 1 / 2000"
proof -
  let ?v = "py_max (Fin 0) (fsub (Fin C) used)"
  have "fle (Fin (x - 1 / 5000)) ?v"
    using py_max_0_cases [of "fsub (Fin C) used"]
  proof (elim disjE exE conjE)
    fix w assume w: "?v = Fin w" "0 \<le> w"
    show ?thesis
    proof (cases "w \<le> 2 ^ 39")
      case True
      then obtain y where y: "round_to 4 (Fin w) = Fin y" "\<bar>y - w\<bar> \<le> 1 / 5000"
        using round_to_4_money [of w] w(2) by (metis abs_of_nonneg)
      have "x \<le> y" using assms(5) w(1) y(1) by simp
      then have "x - 1 / 5000 \<le> w" using y(2) by linarith
      then show ?thesis using w(1) by simp
    next
      case False
      then show ?thesis using assms(4) w(1) by simp
    qed
  qed simp
  then obtain u where "used = Fin u" "u + (x - 1 / 5000) \<le> C + 1 / 8192"
    using room_money [OF assms(1,2), of "x - 1 / 5000"] assms(3,4) by auto
  then show ?thesis using that by (simp add: abs_le_iff)
qed

lemma policy_values:
  assumes "validate_policy p = Inr ()"
  shows "\<exists>r t. cp_reserve_percent p = Fin r \<and> cp_max_total_exposure_percent p = Fin t \<and> 0 \<le> r \<and> 0 \<le> t \<and>
      r \<le> 128 \<and> t \<le> 128"
    and "\<forall>v \<in> snd ` set (policy_fields p). \<exists>x. v = Fin x \<and> 0 \<le> x"
proof -
  have "rfold validate_policy_field () (policy_fields p) = Inr ()"
    using assms by (auto simp: validate_policy_def res_simps)
  then have fields: "\<forall>f \<in> set (policy_fields p). validate_policy_field () f = Inr ()"
    by (simp only: rfold_unit_Inr)
  show all: "\<forall>v \<in> snd ` set (policy_fields p). \<exists>x. v = Fin x \<and> 0 \<le> x"
  proof
    fix v assume "v \<in> snd ` set (policy_fields p)"
    then obtain f where "validate_policy_field () f = Inr ()" "v = snd f" using fields by blast
    then have "isfinite v" "\<not> flt v (Fin 0)" by (auto simp: validate_policy_field_def split: if_splits)
    then show "\<exists>x. v = Fin x \<and> 0 \<le> x" by (cases v) auto
  qed
  then obtain r t where rt: "cp_reserve_percent p = Fin r" "cp_max_total_exposure_percent p = Fin t" "0 \<le> r" "0 \<le> t"
    by (auto simp: policy_fields_def)
  have lim: "flt (rnd64 (100000001 / 1000000)) (Fin 128)" "rnd64 128 = Fin 128" by code_simp+
  have sum: "\<not> flt (rnd64 (100000001 / 1000000)) (rnd64 (r + t))"
    using assms rt by (auto simp: validate_policy_def res_simps split: if_splits)
  have "r + t \<le> 128"
  proof (rule ccontr)
    assume "\<not> r + t \<le> 128"
    then have "fle (Fin 128) (rnd64 (r + t))" by (intro rnd64_lower lim(2)) simp
    then show False using flt_fle_trans [OF lim(1)] sum by blast
  qed
  then show "\<exists>r t. cp_reserve_percent p = Fin r \<and> cp_max_total_exposure_percent p = Fin t \<and> 0 \<le> r \<and> 0 \<le> t \<and>
      r \<le> 128 \<and> t \<le> 128" using rt by auto
qed


text \<open>A sum of nonnegative floats never falls to minus infinity, nor does its rounding.\<close>

lemma representable_integer:
  assumes "rnd64 x = Fin x" "2 ^ 53 \<le> \<bar>x\<bar>"
  shows "of_int \<lfloor>x\<rfloor> = x"
proof -
  have "pow2 53 \<le> \<bar>x\<bar>" using assms(2) by (simp add: pow2_nonneg_int)
  then have "53 \<le> ilog2 \<bar>x\<bar>"
    using ilog2_less [of "\<bar>x\<bar>" 53] ilog2_bounds(2) [of "\<bar>x\<bar>"] assms(2)
    by (metis abs_ge_zero linorder_not_le order_le_less order_less_le_trans pow2_less_iff pow2_pos zless_add1_eq)
  then have "0 \<le> ulp_exp x" by (simp add: ulp_exp_def)
  then have "rnd_val x = of_int (rhe (x / pow2 (ulp_exp x)) * 2 ^ nat (ulp_exp x))"
    by (simp add: rnd_val_def pow2_nonneg_int)
  then show ?thesis using representable_val [OF assms(1)] by (metis floor_of_int)
qed

definition above_minus_infinity :: "pyfloat \<Rightarrow> bool" where
  "above_minus_infinity x \<longleftrightarrow> fle (Fin 0) x \<or> representable x \<and> x \<noteq> FInf True"

lemma sum_loop_above:
  assumes "list_all (fle (Fin 0)) xs" "fle (Fin 0) t" "representable c"
  shows "above_minus_infinity (sum_loop t c xs)"
  using assms
proof (induction t c xs rule: sum_loop.induct)
  case (1 t c)
  have "fadd t c \<noteq> FInf True" if "isfinite c"
  proof -
    from that obtain r where r: "c = Fin r" by (auto simp: isfinite_iff)
    show ?thesis
    proof (cases t)
      case (Fin x)
      then have "fle (rnd64 r) (rnd64 (x + r))" using 1(2) by (intro rnd64_mono) simp
      then show ?thesis using 1(3) Fin r by auto
    qed (use 1 r in auto)
  qed
  then show ?case using 1(2) by (simp add: above_minus_infinity_def)
next
  case (2 t c x xs)
  then show ?case using "2.IH" [OF refl] by (simp add: Let_def fadd_nonneg)
qed

lemma py_sum_above:
  assumes "list_all (fle (Fin 0)) xs"
  shows "above_minus_infinity (py_sum xs)"
proof (cases xs)
  case (Cons y ys)
  have "representable (Fin 0)" by (simp add: rnd64_def)
  then show ?thesis using assms Cons sum_loop_above [of ys y "Fin 0"] by (simp add: py_sum_def)
qed (simp add: py_sum_def above_minus_infinity_def)

lemma round_to_above:
  assumes "above_minus_infinity x"
  shows "round_to n x \<noteq> FInf True"
proof (cases x)
  case (Fin r)
  let ?z = "of_int (rhe (r * 10 ^ n)) / 10 ^ n :: rat"
  have "of_int (\<lfloor>r\<rfloor> * 10 ^ n) \<le> r * 10 ^ n" by (simp add: mult_right_mono)
  from rhe_ge_int [OF this] have "of_int \<lfloor>r\<rfloor> * 10 ^ n \<le> (of_int (rhe (r * 10 ^ n)) :: rat)"
    by (metis of_int_le_iff of_int_mult of_int_numeral of_int_power)
  then have z: "of_int \<lfloor>r\<rfloor> \<le> ?z" by (simp add: field_simps)
  have "rnd64 ?z \<noteq> FInf True"
  proof (cases "rnd64 r = Fin r \<and> 2 ^ 53 \<le> \<bar>r\<bar>")
    case True
    then have "fle (Fin r) (rnd64 ?z)" using rnd64_lower [of r ?z] z representable_integer [of r] by simp
    then show ?thesis by auto
  next
    case False
    have "- (2 ^ 53) \<le> \<lfloor>r\<rfloor>"
    proof (cases "0 \<le> r")
      case False
      then have "\<bar>r\<bar> < 2 ^ 53" using \<open>\<not> (rnd64 r = Fin r \<and> 2 ^ 53 \<le> \<bar>r\<bar>)\<close> assms Fin
        by (auto simp: above_minus_infinity_def)
      then show ?thesis by (simp add: le_floor_iff)
    qed (simp add: le_floor_iff)
    then have "- (2 ^ 53) \<le> ?z" using z by (metis of_int_le_iff of_int_minus of_int_numeral of_int_power order_trans)
    moreover have "rnd64 (- (2 ^ 53)) = Fin (- (2 ^ 53))" by code_simp
    ultimately have "fle (Fin (- (2 ^ 53))) (rnd64 ?z)" by (rule rnd64_lower)
    then show ?thesis by auto
  qed
  then show ?thesis using Fin by simp
qed (use assms in \<open>auto simp: above_minus_infinity_def\<close>)

lemma py_min_bounds:
  assumes "x \<noteq> FNaN" "z \<noteq> FNaN"
  shows "fle (py_min x z) x" "fle (py_min x z) z"
  using assms by (cases x; cases z; auto simp: py_min_def)+

lemma py_min_list_le:
  assumes "\<forall>m \<in> set (x # xs). m \<noteq> FNaN"
  shows "py_min_list x xs \<in> set (x # xs) \<and> (\<forall>m \<in> set (x # xs). fle (py_min_list x xs) m)"
  using assms
proof (induction xs arbitrary: x)
  case Nil
  then show ?case by (cases x) (auto simp: py_min_list_def fle_def)
next
  case (Cons z zs)
  let ?y = "py_min x z"
  have y: "?y \<noteq> FNaN" "?y \<in> {x, z}" "fle ?y x" "fle ?y z"
    using Cons.prems py_min_bounds [of x z] by (auto simp: py_min_def)
  have fold: "py_min_list x (z # zs) = py_min_list ?y zs" by (simp add: py_min_list_def)
  from Cons.IH [of ?y] Cons.prems y have "py_min_list ?y zs \<in> set (?y # zs)"
    "\<forall>m \<in> set (?y # zs). fle (py_min_list ?y zs) m" by auto
  then show ?case using y(2) fle_trans [OF _ y(3)] fle_trans [OF _ y(4)] unfolding fold by (metis insert_iff list.simps(15) singletonD)
qed

lemma deployable_money:
  assumes "0 \<le> e" "e \<le> 10 ^ 9" "cp_reserve_percent p = Fin r" "cp_max_total_exposure_percent p = Fin t"
    and "0 \<le> r" "r \<le> 128" "0 \<le> t" "t \<le> 128"
  obtains D where "deployable_capital p (Fin e) = Fin D" "\<bar>D\<bar> \<le> 2 ^ 32"
    "D \<le> max 0 (e * (100 - r) / 100) + 1 / 500" "D \<le> e * t / 100 + 1 / 500"
proof -
  obtain R where R: "share_of (Fin e) (Fin r) = Fin R" "\<bar>R - e * r / 100\<bar> \<le> 1 / 1000" "0 \<le> R"
    by (rule share_of_money [OF assms(1,2,5,6)])
  obtain T where T: "share_of (Fin e) (Fin t) = Fin T" "\<bar>T - e * t / 100\<bar> \<le> 1 / 1000" "0 \<le> T"
    by (rule share_of_money [OF assms(1,2,7,8)])
  have er: "0 \<le> e * r" "e * r \<le> 10 ^ 9 * 128" "0 \<le> e * t" "e * t \<le> 10 ^ 9 * 128"
    using assms mult_mono [of e "10 ^ 9" r 128] mult_mono [of e "10 ^ 9" t 128] by simp_all
  have big: "(10 :: rat) ^ 9 * 128 + 3 \<le> 2 ^ 39" "(10 :: rat) ^ 9 * 128 / 100 + 3 \<le> 2 ^ 32"
    "(2 :: rat) ^ 32 \<le> 2 ^ 39" "(2 :: rat) ^ 39 \<le> 2 ^ 40" "(10 :: rat) ^ 9 \<le> 2 ^ 32" by simp_all
  have "\<bar>e - R\<bar> \<le> 2 ^ 40" using R er assms(1,2) big by linarith
  then obtain v where v: "rnd64 (e - R) = Fin v" "\<bar>v - (e - R)\<bar> \<le> 1 / 8192" by (rule rnd64_money)
  have mm: "py_min (py_max (Fin 0) (fsub (Fin e) (Fin R))) (Fin T) = Fin (min (max 0 v) T)"
    using v(1) by (auto simp: py_min_def py_max_def fsub_def)
  let ?m = "min (max 0 v) T"
  have m0: "0 \<le> ?m" "?m \<le> T" "?m \<le> max 0 v" using T(3) by auto
  have "\<bar>?m\<bar> \<le> 2 ^ 39" using m0 T(2) er big by linarith
  then obtain D where D: "round_to 4 (Fin ?m) = Fin D" "\<bar>D - ?m\<bar> \<le> 1 / 5000" by (rule round_to_4_money)
  have "deployable_capital p (Fin e) = Fin D"
    unfolding deployable_capital_def assms(3,4) R(1) T(1) mm D(1) ..
  moreover have "\<bar>D\<bar> \<le> 2 ^ 32" using D(2) m0 T(2) er big by linarith
  moreover have "e * (100 - r) / 100 = e - e * r / 100" by (simp add: field_simps)
  then have "D \<le> max 0 (e * (100 - r) / 100) + 1 / 500" using D(2) m0(3) v(2) R(2) by linarith
  moreover have "D \<le> e * t / 100 + 1 / 500" using D(2) m0(2) T(2) by linarith
  ultimately show ?thesis using that by blast
qed

lemma loss_distance_positive:
  assumes "ai_stop_distance i = py_max (rnd64 (1 / 100)) s" "ai_fee_rate i = Fin f" "0 \<le> f"
  shows "fle (Fin (1 / 16384)) (loss_distance i)"
proof -
  have c: "fle (Fin (1 / 128)) (rnd64 (1 / 100))" "rnd64 (1 / 128) = Fin (1 / 128)"
    "fle (Fin (1 / 16384)) (rnd64 (1 / 12800))" by code_simp+
  have stop: "fle (Fin (1 / 128)) (ai_stop_distance i)"
    unfolding assms(1) using c(1) by (cases s; cases "rnd64 (1 / 100)") (auto simp: py_max_def)
  have "fle (Fin 0) (fmul (Fin f) (Fin 2))" using assms(3) by (simp add: rnd64_nonneg)
  then have fee: "fle (Fin 0) (round_trip_fee_percent i)"
    unfolding round_trip_fee_percent_def assms(2) by (cases "fmul (Fin f) (Fin 2)") (auto simp: rnd64_nonneg)
  have sum: "fle (Fin (1 / 128)) (fadd (ai_stop_distance i) (round_trip_fee_percent i))"
    using stop fee c(2) by (cases "ai_stop_distance i"; cases "round_trip_fee_percent i") (auto intro!: rnd64_lower)
  show ?thesis
  proof (cases "fadd (ai_stop_distance i) (round_trip_fee_percent i)")
    case (Fin z)
    then have "fle (rnd64 (1 / 12800)) (rnd64 (z / 100))" using sum by (intro rnd64_mono) simp
    then show ?thesis using fle_trans [OF c(3)] Fin by (simp add: loss_distance_def fdiv_by_def)
  qed (use sum in \<open>simp_all add: loss_distance_def fdiv_by_def\<close>)
qed

lemma risk_budget_money:
  assumes "ai_equity i = Fin e" "0 \<le> e" "e \<le> 10 ^ 9" "effective_risk p i = Fin k" "0 \<le> k" "k \<le> 100"
    and "ai_multiplier i = Fin m" "0 \<le> m" "m \<le> 1"
  obtains B where "risk_budget p i = Fin B" "\<bar>B - e * k * m / 100\<bar> \<le> 1 / 1000" "0 \<le> B"
proof -
  have ek: "0 \<le> e * k" "e * k \<le> 10 ^ 9 * 100" using assms by (simp, intro mult_mono) simp_all
  have big: "(10 :: rat) ^ 9 * 100 + 3 \<le> 2 ^ 39" "(2 :: rat) ^ 39 \<le> 2 ^ 40" by simp_all
  have "\<bar>e * k\<bar> \<le> 2 ^ 40" using ek big by linarith
  then obtain a where a: "rnd64 (e * k) = Fin a" "\<bar>a - e * k\<bar> \<le> 1 / 8192" by (rule rnd64_money)
  have a0: "0 \<le> a" using rnd64_nonneg [OF ek(1)] a(1) by simp
  have "\<bar>a / 100\<bar> \<le> 2 ^ 40" using a(2) a0 ek big by linarith
  then obtain b where b: "rnd64 (a / 100) = Fin b" "\<bar>b - a / 100\<bar> \<le> 1 / 8192" by (rule rnd64_money)
  have b0: "0 \<le> b" using rnd64_nonneg [of "a / 100"] a0 b(1) by simp
  have bm: "0 \<le> b * m" "b * m \<le> b" using b0 assms(8,9) by (simp, simp add: mult_left_le)
  have "\<bar>b * m\<bar> \<le> 2 ^ 40" using bm b(2) a(2) ek big by linarith
  then obtain c where c: "rnd64 (b * m) = Fin c" "\<bar>c - b * m\<bar> \<le> 1 / 8192" by (rule rnd64_money)
  have c0: "0 \<le> c" using rnd64_nonneg [OF bm(1)] c(1) by simp
  have "\<bar>c\<bar> \<le> 2 ^ 39" using c c0 bm b(2) a(2) ek big by linarith
  then obtain B where B: "round_to 4 (Fin c) = Fin B" "\<bar>B - c\<bar> \<le> 1 / 5000" by (rule round_to_4_money)
  have "0 \<le> rhe (c * 10 ^ 4)" using c0 by (intro rhe_ge_int) simp
  then have "0 \<le> B" using B(1) rnd64_nonneg [of "of_int (rhe (c * 10 ^ 4)) / 10 ^ 4"] by simp
  moreover have "risk_budget p i = Fin B"
    unfolding risk_budget_def assms(1,4,7) using a(1) b(1) c(1) B(1) by (simp add: fdiv_by_def)
  moreover have "\<bar>B - e * k * m / 100\<bar> \<le> 1 / 1000"
  proof -
    have "(b - e * k / 100) * m = b * m - e * k * m / 100" by (simp add: algebra_simps)
    moreover have "\<bar>b - e * k / 100\<bar> \<le> 1 / 8000" using a(2) b(2) by linarith
    then have "\<bar>(b - e * k / 100) * m\<bar> \<le> 1 / 8000 * 1"
      unfolding abs_mult using assms(8,9) by (intro mult_mono) auto
    ultimately have "\<bar>b * m - e * k * m / 100\<bar> \<le> 1 / 8000" by simp
    then show ?thesis using c(2) B(2) by linarith
  qed
  ultimately show ?thesis using that by blast
qed

lemma risk_cap_money:
  assumes "risk_notional_cap p i = Inr cap" "risk_budget p i = Fin B" "0 \<le> B" "fle (Fin (1 / 16384)) (loss_distance i)"
    and "0 < w" "w \<le> 2 ^ 32" "fle (Fin w) cap"
  obtains l where "loss_distance i = Fin l" "0 < l" "w * l \<le> B + l / 2000"
proof (cases "loss_distance i")
  case (Fin l)
  have l: "1 / 16384 \<le> l" using assms(4) Fin by simp
  have cap: "cap = round_to 4 (rnd64 (B / l))" using assms(1,2) Fin l by (auto simp: risk_notional_cap_def res_simps)
  have "w \<le> B / l + 1 / 2000"
  proof (cases "B / l \<le> 2 ^ 38")
    case True
    have big: "(2 :: rat) ^ 38 \<le> 2 ^ 40" "(2 :: rat) ^ 38 + 1 \<le> 2 ^ 39" by simp_all
    have "0 \<le> B / l" using assms(3) l by simp
    then have "\<bar>B / l\<bar> \<le> 2 ^ 40" using True big by linarith
    then obtain z where z: "rnd64 (B / l) = Fin z" "\<bar>z - B / l\<bar> \<le> 1 / 8192" by (rule rnd64_money)
    have "\<bar>z\<bar> \<le> 2 ^ 39" using z(2) True \<open>0 \<le> B / l\<close> big by linarith
    then obtain y where y: "round_to 4 (Fin z) = Fin y" "\<bar>y - z\<bar> \<le> 1 / 5000" by (rule round_to_4_money)
    have "w \<le> y" using assms(7) y(1) unfolding cap z(1) by simp
    then show ?thesis using y(2) z(2) by linarith
  next
    case False
    have "(2 :: rat) ^ 32 \<le> 2 ^ 38" by simp
    then show ?thesis using False assms(6) by linarith
  qed
  then have "w * l \<le> (B / l + 1 / 2000) * l" using l by (intro mult_right_mono) simp_all
  also have "\<dots> = B + l / 2000" using l by (simp add: field_simps)
  finally show ?thesis using that Fin l by simp
next
  case (FInf s)
  then have "cap = round_to 4 (Fin 0)" using assms(1,2,4) by (auto simp: risk_notional_cap_def res_simps)
  moreover have "round_to 4 (Fin 0) = Fin 0" by code_simp
  ultimately show ?thesis using assms(5,7) by simp
qed (use assms(4) in simp)

lemma nonneg_min_cap:
  assumes "\<forall>m \<in> set (x # xs). fle (Fin 0) m" "Fin P \<in> set (x # xs)"
  obtains w where "py_min_list x xs = Fin w" "0 \<le> w" "\<forall>m \<in> set (x # xs). fle (Fin w) m"
proof -
  have "\<forall>m \<in> set (x # xs). m \<noteq> FNaN" using assms(1) by auto
  note le = py_min_list_le [OF this]
  then have "fle (Fin 0) (py_min_list x xs)" "fle (py_min_list x xs) (Fin P)" using assms by blast+
  then obtain w where "py_min_list x xs = Fin w" "0 \<le> w" by (cases "py_min_list x xs") auto
  then show ?thesis using that le by metis
qed

lemma round_to_2_positive:
  assumes "flt (Fin 0) (round_to 2 (Fin w))"
  shows "1 / 200 \<le> w"
proof (rule ccontr)
  assume "\<not> 1 / 200 \<le> w"
  then have "w * 10 ^ 2 \<le> 1 / 2" by simp
  then have "rhe (w * 10 ^ 2) \<le> rhe (1 / 2)" by (rule rhe_mono)
  moreover have "rhe (1 / 2) = 0" by code_simp
  ultimately have "rhe (w * 10 ^ 2) \<le> 0" by simp
  then have "of_int (rhe (w * 10 ^ 2)) / (10 ^ 2 :: rat) \<le> 0" by simp
  from rnd64_mono [OF this] have "fle (round_to 2 (Fin w)) (Fin 0)" by (simp add: rnd64_def)
  then show False using flt_fle_trans [OF assms] by fastforce
qed

lemma round_to_nonneg: "fle (Fin 0) x \<Longrightarrow> fle (Fin 0) (round_to n x)"
proof (cases x)
  case (Fin r)
  assume "fle (Fin 0) x"
  then have "0 \<le> rhe (r * 10 ^ n)" using Fin by (intro rhe_ge_int) simp
  then show ?thesis using Fin by (simp add: rnd64_nonneg)
qed simp_all

lemma py_max_0_nonneg: "fle (Fin 0) (py_max (Fin 0) z)"
  using py_max_0_cases [of z] by auto

lemma trade_notional_nonneg: "trade_notional r = Inr x \<Longrightarrow> fle (Fin 0) x"
  by (auto simp: trade_notional_def Let_def res_simps py_max_0_nonneg)

lemma rmapM_list_all: "rmapM f xs = Inr ys \<Longrightarrow> (\<And>x y. f x = Inr y \<Longrightarrow> P y) \<Longrightarrow> list_all P ys"
  by (induction xs arbitrary: ys) (auto simp: res_simps)

lemma ca_nonnegative_Inr: "ca_nonnegative v name = Inr x \<longleftrightarrow> (\<exists>r. v = Fin r \<and> x = Fin r \<and> 0 \<le> r)"
  by (cases v) (auto simp: ca_nonnegative_def ca_finite_def)

lemma ca_bounded_number_Inr:
  "ca_bounded_number v name (Fin a) (Fin b) = Inr x \<longleftrightarrow> (\<exists>r. v = Fin r \<and> x = Fin r \<and> a \<le> r \<and> r \<le> b)"
  by (cases v) (auto simp: ca_bounded_number_def ca_finite_def)

lemma sum_used: "list_all (fle (Fin 0)) ns \<Longrightarrow> round_to 4 (py_sum ns) \<noteq> FInf True"
  by (intro round_to_above py_sum_above)

lemma list_all_zip_filter: "list_all P ns \<Longrightarrow> list_all P (map snd (filter Q (zip ys ns)))"
  by (auto simp: list_all_iff dest: set_zip_rightD)

lemma allocation_inputs_facts:
  assumes "allocation_inputs_of p q = Inr i"
  shows "validate_policy p = Inr ()" "ai_equity i = aq_equity q" "\<exists>e. aq_equity q = Fin e \<and> 0 \<le> e"
    "\<exists>m. ai_multiplier i = Fin m \<and> 0 \<le> m \<and> m \<le> 1" "\<exists>f. ai_fee_rate i = Fin f \<and> 0 \<le> f"
    "\<exists>s. ai_stop_distance i = py_max (rnd64 (1 / 100)) s" "\<exists>k. ai_requested_risk i = Fin k \<and> 0 \<le> k"
    "ai_deployed i \<noteq> FInf True" "ai_symbol_notional i \<noteq> FInf True" "ai_correlated_notional i \<noteq> FInf True"
proof -
  have nn: "list_all (fle (Fin 0)) ns" if "rmapM trade_notional rows = Inr ns" for rows ns
    using rmapM_list_all [OF that] trade_notional_nonneg by blast
  show "ai_deployed i \<noteq> FInf True" "ai_symbol_notional i \<noteq> FInf True" "ai_correlated_notional i \<noteq> FInf True"
    using assms
    by (auto simp: allocation_inputs_of_def Let_def res_simps sum_used list_all_zip_filter simp del: round_to.simps dest!: nn)
  show "validate_policy p = Inr ()" "ai_equity i = aq_equity q" "\<exists>e. aq_equity q = Fin e \<and> 0 \<le> e"
    "\<exists>m. ai_multiplier i = Fin m \<and> 0 \<le> m \<and> m \<le> 1" "\<exists>f. ai_fee_rate i = Fin f \<and> 0 \<le> f"
    "\<exists>s. ai_stop_distance i = py_max (rnd64 (1 / 100)) s" "\<exists>k. ai_requested_risk i = Fin k \<and> 0 \<le> k"
    using assms
    by (auto simp: allocation_inputs_of_def Let_def res_simps ca_nonnegative_Inr ca_bounded_number_Inr)
qed

text \<open>The amount before rounding lies under every cap.\<close>

lemma raw_notional_caps:
  assumes "risk_notional_cap p i = Inr cap" "ai_equity i = Fin e" "0 \<le> e" "e \<le> 10 ^ 9"
    and "cp_max_position_percent p = Fin x" "0 \<le> x" "x \<le> 128" "fle (Fin 0) cap"
    and "flt (Fin 0) (raw_notional p i cap)"
  obtains n w where "raw_notional p i cap = Fin n" "n \<le> w + 1 / 190" "1 / 200 \<le> w" "w \<le> 2 ^ 32"
    "w \<le> e * x / 100 + 1 / 1000" "fle (Fin w) (available_to_allocate p (Fin e) (ai_deployed i))"
    "ai_symbol i \<noteq> [] \<longrightarrow> fle (Fin w) (available_symbol p i)" "fle (Fin w) (available_correlated p i)" "fle (Fin w) cap"
proof -
  obtain X where X: "share_of (Fin e) (Fin x) = Fin X" "\<bar>X - e * x / 100\<bar> \<le> 1 / 1000" "0 \<le> X"
    by (rule share_of_money [OF assms(3,4,6,7)])
  let ?a = "available_to_allocate p (Fin e) (ai_deployed i)"
  let ?l = "[Fin X, if ai_symbol i \<noteq> [] then available_symbol p i else Fin X, available_correlated p i, cap]"
  have "\<forall>m \<in> set (?a # ?l). fle (Fin 0) m"
    using X(3) assms(8) by (auto simp: available_to_allocate_def available_symbol_def available_correlated_def
        round_to_nonneg py_max_0_nonneg)
  then obtain w where w: "py_min_list ?a ?l = Fin w" "0 \<le> w" "\<forall>m \<in> set (?a # ?l). fle (Fin w) m"
    by (rule nonneg_min_cap [of _ _ X]) simp_all
  have raw: "raw_notional p i cap = round_to 2 (Fin w)"
    unfolding raw_notional_def Let_def assms(2,5) X(1) w(1) ..
  have big: "(10 :: rat) ^ 9 * 128 / 100 + 3 \<le> 2 ^ 32" "(2 :: rat) ^ 32 \<le> 2 ^ 39" by simp_all
  have ex: "e * x \<le> 10 ^ 9 * 128" using assms(3-7) mult_mono [of e "10 ^ 9" x 128] by simp
  have wX: "w \<le> X" using w(3) by simp
  then have w32: "w \<le> 2 ^ 32" using X(2) ex big by linarith
  then have "\<bar>w\<bar> \<le> 2 ^ 39" using w(2) big by linarith
  then obtain n where n: "round_to 2 (Fin w) = Fin n" "\<bar>n - w\<bar> \<le> 1 / 190" by (rule round_to_2_money)
  have "n \<le> w + 1 / 190" using n(2) by linarith
  moreover have "1 / 200 \<le> w" using round_to_2_positive assms(9) raw by simp
  moreover have "w \<le> e * x / 100 + 1 / 1000" using wX X(2) by linarith
  ultimately show ?thesis using that [of n w] n(1) raw w(3) w32 by simp
qed

lemma available_symbol_room:
  assumes "ai_equity i = Fin e" "0 \<le> e" "e \<le> 10 ^ 9" "cp_max_symbol_exposure_percent p = Fin s" "0 \<le> s" "s \<le> 128"
    and "ai_symbol_notional i \<noteq> FInf True" "0 < w" "w \<le> 2 ^ 32" "fle (Fin w) (available_symbol p i)"
  shows "\<exists>u. ai_symbol_notional i = Fin u \<and> u + w \<le> e * s / 100 + 1 / 500"
proof -
  obtain S where S: "share_of (Fin e) (Fin s) = Fin S" "\<bar>S - e * s / 100\<bar> \<le> 1 / 1000" "0 \<le> S"
    by (rule share_of_money [OF assms(2,3,5,6)])
  have "e * s \<le> 10 ^ 9 * 128" using assms mult_mono [of e "10 ^ 9" s 128] by simp
  moreover have "(10 :: rat) ^ 9 * 128 / 100 + 3 \<le> 2 ^ 32" by simp
  ultimately have "\<bar>S\<bar> \<le> 2 ^ 32" using S(2,3) by linarith
  then obtain u where u: "ai_symbol_notional i = Fin u" "u + w \<le> S + 1 / 8192"
    using room_money [OF _ assms(7,8,9)] assms(1,4,10) S(1) by (auto simp: available_symbol_def)
  have "u + w \<le> e * s / 100 + 1 / 500" using u(2) S(2) by linarith
  then show ?thesis using u(1) by blast
qed

lemma available_correlated_room:
  assumes "ai_equity i = Fin e" "0 \<le> e" "e \<le> 10 ^ 9" "cp_max_correlated_exposure_percent p = Fin s" "0 \<le> s" "s \<le> 128"
    and "ai_correlated_notional i \<noteq> FInf True" "0 < w" "w \<le> 2 ^ 32" "fle (Fin w) (available_correlated p i)" "ai_group i \<noteq> []"
  shows "\<exists>u. ai_correlated_notional i = Fin u \<and> u + w \<le> e * s / 100 + 1 / 500"
  using available_symbol_room [of "i\<lparr>ai_symbol_notional := ai_correlated_notional i\<rparr>" e
      "p\<lparr>cp_max_symbol_exposure_percent := cp_max_correlated_exposure_percent p\<rparr>" s w] assms
  by (simp add: available_symbol_def available_correlated_def)

lemma policy_percent_bounds:
  assumes "validate_policy p = Inr ()"
  obtains r t x s c k where "cp_reserve_percent p = Fin r" "0 \<le> r" "r \<le> 128"
    "cp_max_total_exposure_percent p = Fin t" "0 \<le> t" "t \<le> 128"
    "cp_max_position_percent p = Fin x" "0 \<le> x" "x \<le> 128"
    "cp_max_symbol_exposure_percent p = Fin s" "0 \<le> s" "s \<le> 128"
    "cp_max_correlated_exposure_percent p = Fin c" "0 \<le> c" "cp_max_risk_per_trade_percent p = Fin k" "0 \<le> k"
proof -
  obtain r t where rt: "cp_reserve_percent p = Fin r" "cp_max_total_exposure_percent p = Fin t" "0 \<le> r" "0 \<le> t"
    "r \<le> 128" "t \<le> 128" using policy_values(1) [OF assms] by blast
  obtain x s c k where v: "cp_max_position_percent p = Fin x" "0 \<le> x" "cp_max_symbol_exposure_percent p = Fin s" "0 \<le> s"
    "cp_max_correlated_exposure_percent p = Fin c" "0 \<le> c" "cp_max_risk_per_trade_percent p = Fin k" "0 \<le> k"
    using policy_values(2) [OF assms] by (auto simp: policy_fields_def)
  have "x \<le> t" "s \<le> t" using assms rt v by (auto simp: validate_policy_def res_simps split: if_splits)
  then show ?thesis using that rt v by force
qed

lemma allocation_plan_facts:
  assumes "allocation_plan_of p i = Inr plan" "al_allowed plan"
  obtains cap where "risk_notional_cap p i = Inr cap" "al_notional plan = raw_notional p i cap"
    "al_deployed_notional plan = ai_deployed i" "al_symbol_notional plan = ai_symbol_notional i"
    "al_correlated_notional plan = ai_correlated_notional i" "al_symbol plan = ai_symbol i"
    "al_correlation_group plan = ai_group i" "al_risk_size_multiplier plan = ai_multiplier i"
    "al_effective_risk_percent plan = effective_risk p i" "ai_blocks i = []"
    "\<not> fle (cp_max_daily_loss_percent p) (ai_daily_loss i)" "0 < remaining_slots i"
    "\<not> flt (raw_notional p i cap) (cp_minimum_notional p)" "al_stop_loss_percent plan = ai_stop_distance i"
proof -
  from assms obtain cap where c: "risk_notional_cap p i = Inr cap" "allocation_reason p i (raw_notional p i cap) = ''allocated''"
    "al_notional plan = raw_notional p i cap"
    "al_deployed_notional plan = ai_deployed i" "al_symbol_notional plan = ai_symbol_notional i"
    "al_correlated_notional plan = ai_correlated_notional i" "al_symbol plan = ai_symbol i"
    "al_correlation_group plan = ai_group i" "al_risk_size_multiplier plan = ai_multiplier i"
    "al_effective_risk_percent plan = effective_risk p i" "al_stop_loss_percent plan = ai_stop_distance i"
    by (auto simp: allocation_plan_of_def Let_def res_simps)
  then show ?thesis using that
    by (auto simp: allocation_reason_def Let_def not_le split: if_splits)
qed

lemma risk_part:
  assumes "allocation_inputs_of p q = Inr i" "risk_notional_cap p i = Inr cap" "aq_equity q = Fin e" "e \<le> 10 ^ 9"
    and "cp_max_risk_per_trade_percent p = Fin k" "k \<le> 100"
  shows "fle (Fin 0) cap"
    and "0 < w \<Longrightarrow> w \<le> 2 ^ 32 \<Longrightarrow> fle (Fin w) cap \<Longrightarrow> n \<le> w + 1 / 190 \<Longrightarrow>
      \<exists>l j m. loss_distance i = Fin l \<and> effective_risk p i = Fin j \<and> j \<le> k \<and> ai_multiplier i = Fin m \<and>
        n * l \<le> e * j * m / 100 + (1 + l) / 50"
proof -
  note f = allocation_inputs_facts [OF assms(1)]
  have e: "ai_equity i = Fin e" "0 \<le> e" using f(2,3) assms(3) by auto
  have k: "0 \<le> k" by (rule policy_percent_bounds [OF f(1)]) (use assms(5) in simp)
  obtain m where m: "ai_multiplier i = Fin m" "0 \<le> m" "m \<le> 1" using f(4) by blast
  obtain a where a: "ai_requested_risk i = Fin a" "0 \<le> a" using f(7) by blast
  have "effective_risk p i = Fin (min a k)" using a(1) assms(5) by (simp add: effective_risk_def py_min_def)
  then obtain j where j: "effective_risk p i = Fin j" "0 \<le> j" "j \<le> k" using a(2) k by auto
  obtain fee where fee: "ai_fee_rate i = Fin fee" "0 \<le> fee" using f(5) by blast
  obtain sd where sd: "ai_stop_distance i = py_max (rnd64 (1 / 100)) sd" using f(6) by blast
  have j100: "j \<le> 100" using j(3) assms(6) by simp
  obtain B where B: "risk_budget p i = Fin B" "\<bar>B - e * j * m / 100\<bar> \<le> 1 / 1000" "0 \<le> B"
    by (rule risk_budget_money [OF e assms(4) j(1,2) j100 m])
  note loss = loss_distance_positive [OF sd fee]
  show "fle (Fin 0) cap"
    using assms(2) B(1,3) loss
    by (cases "loss_distance i") (auto simp: risk_notional_cap_def res_simps round_to_nonneg rnd64_nonneg simp del: round_to.simps)
  assume w: "0 < w" "w \<le> 2 ^ 32" "fle (Fin w) cap" "n \<le> w + 1 / 190"
  obtain l where l: "loss_distance i = Fin l" "0 < l" "w * l \<le> B + l / 2000"
    by (rule risk_cap_money [OF assms(2) B(1,3) loss w(1-3)])
  have "n * l \<le> (w + 1 / 190) * l" using w(4) l(2) by (intro mult_right_mono) simp_all
  also have "\<dots> = w * l + l / 190" by (simp add: algebra_simps)
  also have "\<dots> \<le> e * j * m / 100 + (1 + l) / 50"
  proof -
    define E W where "E = e * j * m / 100" and "W = w * l"
    have "B \<le> E + 1 / 1000" "W \<le> B + l / 2000" using l(3) B(2) unfolding E_def W_def by linarith+
    then have "W + l / 190 \<le> E + (1 + l) / 50" using l(2) by (simp add: add_divide_distrib)
    then show ?thesis unfolding E_def W_def .
  qed
  finally show "\<exists>l j m. loss_distance i = Fin l \<and> effective_risk p i = Fin j \<and> j \<le> k \<and> ai_multiplier i = Fin m \<and>
      n * l \<le> e * j * m / 100 + (1 + l) / 50" using l(1) j(1,3) m(1) by blast
qed

lemma exposure_part:
  assumes "allocation_inputs_of p q = Inr i" "aq_equity q = Fin e" "e \<le> 10 ^ 9"
    and "cp_reserve_percent p = Fin r" "cp_max_total_exposure_percent p = Fin t"
    and "1 / 200 \<le> w" "w \<le> 2 ^ 32" "fle (Fin w) (available_to_allocate p (Fin e) (ai_deployed i))"
  shows "\<exists>d. ai_deployed i = Fin d \<and> d + w \<le> max 0 (e * (100 - r) / 100) + 1 / 100 \<and> d + w \<le> e * t / 100 + 1 / 100"
proof -
  note f = allocation_inputs_facts [OF assms(1)]
  have e: "0 \<le> e" using f(3) assms(2) by auto
  have rt: "0 \<le> r" "r \<le> 128" "0 \<le> t" "t \<le> 128"
    by (rule policy_percent_bounds [OF f(1)], use assms(4,5) in simp)+
  obtain D where D: "deployable_capital p (Fin e) = Fin D" "\<bar>D\<bar> \<le> 2 ^ 32"
    "D \<le> max 0 (e * (100 - r) / 100) + 1 / 500" "D \<le> e * t / 100 + 1 / 500"
    by (rule deployable_money [OF e assms(3-5) rt])
  have w1: "1 / 1000 \<le> w" using assms(6) by linarith
  obtain d where d: "ai_deployed i = Fin d" "d + w \<le> D + 1 / 2000"
    using rounded_room_money [OF D(2) f(8) w1 assms(7)] assms(8) unfolding available_to_allocate_def D(1) by blast
  have "d + w \<le> max 0 (e * (100 - r) / 100) + 1 / 100" "d + w \<le> e * t / 100 + 1 / 100"
    using d(2) D(3,4) by linarith+
  then show ?thesis using d(1) by blast
qed

text \<open>
  C40. A plan that allows a position keeps every limit of the policy, with binary64 arithmetic and the
  rounding to cents, for accounts up to a billion: the deployed capital with the new position leaves
  the reserve and stays under the total exposure, the position under its own cap, the exposure to its
  symbol and to its correlation group under theirs, and the loss at the stop with its fees within the
  risk budget, each up to two cents; no hard block is set, the daily loss is below its limit, a slot is
  free and the position has the minimum size.
\<close>

theorem allocation_respects_limits:
  assumes "build_capital_allocation p q = Inr plan" "al_allowed plan" "flt (Fin 0) (al_notional plan)"
    and "aq_equity q = Fin e" "e \<le> 10 ^ 9"
    and "cp_reserve_percent p = Fin r" "cp_max_total_exposure_percent p = Fin t" "cp_max_position_percent p = Fin x"
    and "cp_max_symbol_exposure_percent p = Fin s" "cp_max_correlated_exposure_percent p = Fin c" "c \<le> 100"
    and "cp_max_risk_per_trade_percent p = Fin k" "k \<le> 100"
  shows "\<exists>n d. al_notional plan = Fin n \<and> al_deployed_notional plan = Fin d \<and>
    d + n \<le> max 0 (e * (100 - r) / 100) + 1 / 50 \<and> d + n \<le> e * t / 100 + 1 / 50 \<and> n \<le> e * x / 100 + 1 / 50 \<and>
    (al_symbol plan \<noteq> [] \<longrightarrow> (\<exists>u. al_symbol_notional plan = Fin u \<and> u + n \<le> e * s / 100 + 1 / 50)) \<and>
    (al_correlation_group plan \<noteq> [] \<longrightarrow> (\<exists>u. al_correlated_notional plan = Fin u \<and> u + n \<le> e * c / 100 + 1 / 50)) \<and>
    (\<exists>l j m. fdiv_by (fadd (al_stop_loss_percent plan) (fmul (fmul (aq_fee_rate q) (Fin 2)) (Fin 100))) 100 = Fin l \<and>
       al_effective_risk_percent plan = Fin j \<and> j \<le> k \<and> al_risk_size_multiplier plan = Fin m \<and>
       n * l \<le> e * j * m / 100 + (1 + l) / 50) \<and>
    nonblank_blocks (aq_hard_blocks q) = [] \<and>
    \<not> fle (cp_max_daily_loss_percent p) (aq_current_daily_loss_percent q) \<and>
    int (length (active_trades (aq_open_trades q))) < max 1 (aq_max_open_positions q) \<and>
    \<not> flt (al_notional plan) (cp_minimum_notional p)"
proof -
  obtain i where i: "allocation_inputs_of p q = Inr i" "allocation_plan_of p i = Inr plan"
    using assms(1) by (auto simp: build_capital_allocation_def res_simps)
  note f = allocation_inputs_facts [OF i(1)]
  from allocation_plan_facts [OF i(2) assms(2)] obtain cap where cap: "risk_notional_cap p i = Inr cap"
    "al_notional plan = raw_notional p i cap" "al_deployed_notional plan = ai_deployed i"
    "al_symbol_notional plan = ai_symbol_notional i" "al_correlated_notional plan = ai_correlated_notional i"
    "al_symbol plan = ai_symbol i" "al_correlation_group plan = ai_group i"
    "al_risk_size_multiplier plan = ai_multiplier i" "al_effective_risk_percent plan = effective_risk p i"
    "ai_blocks i = []" "\<not> fle (cp_max_daily_loss_percent p) (ai_daily_loss i)" "0 < remaining_slots i"
    "\<not> flt (raw_notional p i cap) (cp_minimum_notional p)" "al_stop_loss_percent plan = ai_stop_distance i" by metis
  have pol: "0 \<le> x" "x \<le> 128" "0 \<le> s" "s \<le> 128" "0 \<le> c" "c \<le> 128"
    by (rule policy_percent_bounds [OF f(1)], use assms(6-11) in simp)+
  have e: "ai_equity i = Fin e" "0 \<le> e" using f(2,3) assms(4) by auto
  note risk = risk_part [OF i(1) cap(1) assms(4,5,12,13)]
  obtain n w where w: "raw_notional p i cap = Fin n" "n \<le> w + 1 / 190" "1 / 200 \<le> w" "w \<le> 2 ^ 32"
    "w \<le> e * x / 100 + 1 / 1000" "fle (Fin w) (available_to_allocate p (Fin e) (ai_deployed i))"
    "ai_symbol i \<noteq> [] \<longrightarrow> fle (Fin w) (available_symbol p i)" "fle (Fin w) (available_correlated p i)" "fle (Fin w) cap"
    using raw_notional_caps [OF cap(1) e assms(5,8) pol(1,2) risk(1)] assms(3) cap(2) by auto
  have w0: "0 < w" using w(3) by linarith
  obtain d where d: "ai_deployed i = Fin d" "d + w \<le> max 0 (e * (100 - r) / 100) + 1 / 100" "d + w \<le> e * t / 100 + 1 / 100"
    using exposure_part [OF i(1) assms(4-7) w(3,4,6)] by blast
  have total: "d + n \<le> max 0 (e * (100 - r) / 100) + 1 / 50" "d + n \<le> e * t / 100 + 1 / 50" "n \<le> e * x / 100 + 1 / 50"
    using d(2,3) w(2,5) by linarith+
  have symbol: "\<exists>u. ai_symbol_notional i = Fin u \<and> u + n \<le> e * s / 100 + 1 / 50" if "ai_symbol i \<noteq> []"
    using available_symbol_room [OF e assms(5,9) pol(3,4) f(9) w0 w(4)] w(2,7) that by (force intro: order_trans)
  have group: "\<exists>u. ai_correlated_notional i = Fin u \<and> u + n \<le> e * c / 100 + 1 / 50" if "ai_group i \<noteq> []"
    using available_correlated_room [OF e assms(5,10) pol(5,6) f(10) w0 w(4,8) that] w(2) by (force intro: order_trans)
  have inputs: "ai_blocks i = nonblank_blocks (aq_hard_blocks q)" "ai_daily_loss i = aq_current_daily_loss_percent q"
    "ai_fee_rate i = aq_fee_rate q" "ai_position_limit i = max 1 (aq_max_open_positions q)"
    "ai_active i = active_trades (aq_open_trades q)"
    using i(1) by (auto simp: allocation_inputs_of_def Let_def res_simps ca_bounded_number_Inr ca_nonnegative_Inr)
  have "fdiv_by (fadd (al_stop_loss_percent plan) (fmul (fmul (aq_fee_rate q) (Fin 2)) (Fin 100))) 100 = loss_distance i"
    unfolding loss_distance_def round_trip_fee_percent_def cap(14) inputs(3) ..
  with risk(2) [OF w0 w(4,9,2)] total symbol group d(1) w(1) cap(2-13) inputs show ?thesis
    by (simp add: remaining_slots_def)
qed

definition sample_request :: allocation_request where
  "sample_request = \<lparr>aq_equity = Fin 1000,
     aq_open_trades = [PyDict [(''symbol'', PyStr ''ETHUSDT''), (''notional'', PyFloat (Fin 100)),
       (''correlation_group'', PyStr ''crypto_beta'')]],
     aq_max_open_positions = 5, aq_stop_loss_percent = Fin 2, aq_fee_rate = rnd64 (1 / 1000),
     aq_requested_risk_percent = Fin 1, aq_symbol = ''btc/usdt'', aq_correlation_group = ''crypto_beta'',
     aq_risk_size_multiplier = Fin 1, aq_current_daily_loss_percent = Fin 0, aq_hard_blocks = []\<rparr>"

lemma sample_plan_allowed:
  "case build_capital_allocation default_policy sample_request of Inl _ \<Rightarrow> False
   | Inr plan \<Rightarrow> al_allowed plan \<and> al_notional plan = Fin 200 \<and> al_symbol plan \<noteq> [] \<and> al_correlation_group plan \<noteq> []"
  by code_simp

theorem allocation_respects_limits_witness:
  "\<exists>plan d. build_capital_allocation default_policy sample_request = Inr plan \<and> al_notional plan = Fin 200 \<and>
    al_deployed_notional plan = Fin d \<and> d + 200 \<le> 800 + 1 / 50"
proof -
  obtain plan where plan: "build_capital_allocation default_policy sample_request = Inr plan" "al_allowed plan"
    "al_notional plan = Fin 200" using sample_plan_allowed by (auto split: sum.splits)
  have "\<exists>d. al_deployed_notional plan = Fin d \<and> d + 200 \<le> 800 + 1 / 50"
    using allocation_respects_limits [OF plan(1,2), of 1000 20 80 20 20 35 1] plan(3)
    by (auto simp: sample_request_def default_policy_def)
  then show ?thesis using plan by blast
qed

end
