(* ===== verification/Trading_Costs.thy ===== *)
theory Trading_Costs
  imports Py_Value
begin

text \<open>
  \<open>trading_core/models.py\<close> (the market event and the side) and \<open>trading_core/costs.py\<close>: the
  validation of an event and the deterministic cost of an execution: spread, slippage with a
  square-root market impact, and the maker or taker fee. \<open>math.sqrt\<close> is the correctly rounded square
  root: the integer root of the scaled argument, with a sticky half when it is not exact.
\<close>

section \<open>The square root\<close>

primrec isqrt_bits :: "nat \<Rightarrow> int \<Rightarrow> int \<Rightarrow> int" where
  "isqrt_bits 0 n r = r"
| "isqrt_bits (Suc k) n r = isqrt_bits k n (if (r + 2 ^ k) * (r + 2 ^ k) \<le> n then r + 2 ^ k else r)"

definition sqrt_scale :: "rat \<Rightarrow> int" where
  "sqrt_scale x = 54 - ilog2 x div 2"

definition sqrt_scaled :: "rat \<Rightarrow> rat" where
  "sqrt_scaled x = x * pow2 (2 * sqrt_scale x)"

fun fsqrt :: "pyfloat \<Rightarrow> pyfloat res" where
  "fsqrt (Fin x) =
     (if x < 0 then Inl (ValueError ''expected a nonnegative input'')
      else if x = 0 then Inr (Fin 0)
      else let y = sqrt_scaled x; r = isqrt_bits 56 \<lfloor>y\<rfloor> 0
           in Inr (rnd64 ((if of_int (r * r) = y then of_int r else of_int r + 1 / 2) / pow2 (sqrt_scale x))))"
| "fsqrt (FInf s) = (if s then Inl (ValueError ''expected a nonnegative input'') else Inr (FInf False))"
| "fsqrt FNaN = Inr FNaN"

section \<open>Events and costs\<close>

datatype trade_side = TRADE_BUY | TRADE_SELL

fun trade_side_value :: "trade_side \<Rightarrow> string" where
  "trade_side_value TRADE_BUY = ''BUY''"
| "trade_side_value TRADE_SELL = ''SELL''"

record market_event =
  me_timestamp_ms :: int
  me_symbol :: string
  me_bid :: pyfloat
  me_ask :: pyfloat
  me_source :: string
  me_volume :: "pyfloat option"
  me_funding_rate :: pyfloat
  me_funding_interval_hours :: pyfloat
  me_metadata :: "(string \<times> pyval) list"

definition mid :: "market_event \<Rightarrow> pyfloat" where
  "mid e = fdiv_by (fadd (me_bid e) (me_ask e)) 2"

record execution_cost =
  xc_reference_price :: pyfloat
  xc_execution_price :: pyfloat
  xc_fee :: pyfloat
  xc_slippage_cost :: pyfloat
  xc_spread_cost :: pyfloat
  xc_participation_rate :: pyfloat
  xc_effective_slippage_bps :: pyfloat
  xc_fee_rate :: pyfloat

record cost_model =
  cm_fee_rate :: pyfloat
  cm_maker_fee_rate :: pyfloat
  cm_slippage_bps :: pyfloat
  cm_market_impact_bps :: pyfloat
  cm_max_participation_rate :: pyfloat

definition positive_finite :: "pyfloat \<Rightarrow> bool" where
  "positive_finite x \<longleftrightarrow> isfinite x \<and> \<not> fle x (Fin 0)"

definition validate_market_event :: "market_event \<Rightarrow> unit res" where
  "validate_market_event e =
     (if me_timestamp_ms e \<le> 0 then Inl (ValueError ''market event timestamp_ms must be positive'')
      else if me_symbol e = [] \<or> me_symbol e \<noteq> upper (me_symbol e) \<or> \<not> isalnum (me_symbol e)
      then Inl (ValueError ''market event symbol must be uppercase alphanumeric'')
      else if \<not> positive_finite (me_bid e)
      then Inl (ValueError ''market event bid must be positive and finite'')
      else if \<not> positive_finite (me_ask e)
      then Inl (ValueError ''market event ask must be positive and finite'')
      else if flt (me_ask e) (me_bid e) then Inl (ValueError ''market event ask must not be below bid'')
      else if strip (me_source e) = [] then Inl (ValueError ''market event source is required'')
      else if \<not> (case me_volume e of None \<Rightarrow> True | Some v \<Rightarrow> positive_finite v)
      then Inl (ValueError ''market event volume must be positive and finite'')
      else if \<not> isfinite (me_funding_rate e) \<or> flt (rnd64 (1 / 10)) (fabs (me_funding_rate e))
      then Inl (ValueError ''market event funding_rate must be finite and within +/-10%'')
      else if \<not> positive_finite (me_funding_interval_hours e) \<or> flt (Fin 744) (me_funding_interval_hours e)
      then Inl (ValueError ''funding_interval_hours must be within 0..744'')
      else Inr ())"

definition model_fields :: "cost_model \<Rightarrow> (string \<times> pyfloat \<times> pyfloat \<times> string) list" where
  "model_fields m =
     [(''fee_rate'', cm_fee_rate m, rnd64 (5 / 100), ''0.05''),
      (''maker_fee_rate'', cm_maker_fee_rate m, rnd64 (5 / 100), ''0.05''),
      (''slippage_bps'', cm_slippage_bps m, Fin 1000, ''1000.0''),
      (''market_impact_bps'', cm_market_impact_bps m, Fin 10000, ''10000.0''),
      (''max_participation_rate'', cm_max_participation_rate m, Fin 1, ''1.0'')]"

definition check_model_field :: "unit \<Rightarrow> string \<times> pyfloat \<times> pyfloat \<times> string \<Rightarrow> unit res" where
  "check_model_field u f =
     (case f of (name, v, maximum, shown) \<Rightarrow>
        if \<not> isfinite v \<or> \<not> (fle (Fin 0) v \<and> fle v maximum)
        then Inl (ValueError (name @ '' must be within 0..'' @ shown)) else Inr ())"

definition cost_model_post_init :: "cost_model \<Rightarrow> unit res" where
  "cost_model_post_init m =
     rbind (rfold check_model_field () (model_fields m)) (\<lambda>_.
       if fle (cm_max_participation_rate m) (Fin 0)
       then Inl (ValueError ''max_participation_rate must be positive'') else Inr ())"

text \<open>The share of the market volume, with its limit.\<close>

definition participation_of :: "cost_model \<Rightarrow> market_event \<Rightarrow> pyfloat \<Rightarrow> pyfloat res" where
  "participation_of m e quantity =
     (case me_volume e of None \<Rightarrow> Inr (Fin 0)
      | Some v \<Rightarrow>
          if \<not> positive_finite v then Inl (ValueError ''market event volume must be positive when provided'')
          else rbind (fdiv quantity v) (\<lambda>p.
            if flt (cm_max_participation_rate m) p
            then Inl (ValueError ''order participation exceeds configured market-liquidity limit'') else Inr p))"

definition estimate :: "cost_model \<Rightarrow> market_event \<Rightarrow> trade_side \<Rightarrow> pyfloat \<Rightarrow> string \<Rightarrow> execution_cost res" where
  "estimate m e side quantity liquidity_role =
     (if \<not> positive_finite quantity then Inl (ValueError ''quantity must be positive and finite'')
      else let role = lower (strip (if liquidity_role = [] then ''taker'' else liquidity_role))
      in if role \<notin> set [''maker'', ''taker''] then Inl (ValueError ''liquidity_role must be maker or taker'')
      else rbind (participation_of m e quantity) (\<lambda>participation.
        let reference = (if side = TRADE_BUY then me_ask e else me_bid e);
            spread_cost = fmul (fabs (fsub reference (mid e))) quantity
        in rbind (fsqrt (py_max (Fin 0) participation)) (\<lambda>root.
        let impact_bps = fmul (cm_market_impact_bps m) root;
            effective_bps = fadd (cm_slippage_bps m) impact_bps;
            multiplier = fadd (Fin 1) (fdiv_by effective_bps 10000)
        in rbind (if side = TRADE_BUY then Inr (fmul reference multiplier) else fdiv reference multiplier) (\<lambda>execution.
        let notional = fmul execution quantity;
            applied_fee_rate = (if role = ''maker'' then cm_maker_fee_rate m else cm_fee_rate m);
            fee = fmul notional applied_fee_rate;
            slippage = fmul (fabs (fsub execution reference)) quantity
        in Inr \<lparr>xc_reference_price = reference, xc_execution_price = execution, xc_fee = fee,
                xc_slippage_cost = slippage, xc_spread_cost = spread_cost,
                xc_participation_rate = participation, xc_effective_slippage_bps = effective_bps,
                xc_fee_rate = applied_fee_rate\<rparr>))))"

record round_trip_cost =
  rt_entry :: execution_cost
  rt_exit :: execution_cost
  rt_fee :: pyfloat
  rt_spread_cost :: pyfloat
  rt_slippage_cost :: pyfloat
  rt_all_in :: pyfloat

definition estimate_round_trip :: "cost_model \<Rightarrow> market_event \<Rightarrow> pyfloat \<Rightarrow> string \<Rightarrow> round_trip_cost res" where
  "estimate_round_trip m e quantity liquidity_role =
     rbind (estimate m e TRADE_BUY quantity liquidity_role) (\<lambda>entry.
     rbind (estimate m e TRADE_SELL quantity liquidity_role) (\<lambda>exit_leg.
       let fee = fadd (xc_fee entry) (xc_fee exit_leg);
           spread_cost = fadd (xc_spread_cost entry) (xc_spread_cost exit_leg);
           slippage_cost = fadd (xc_slippage_cost entry) (xc_slippage_cost exit_leg)
       in Inr \<lparr>rt_entry = entry, rt_exit = exit_leg, rt_fee = fee, rt_spread_cost = spread_cost,
               rt_slippage_cost = slippage_cost, rt_all_in = fadd (fadd fee spread_cost) slippage_cost\<rparr>))"

section \<open>Lemmas\<close>

lemma isqrt_bits_bounds:
  assumes "0 \<le> r" "r * r \<le> n" "n < (r + 2 ^ k) * (r + 2 ^ k)"
  shows "isqrt_bits k n r * isqrt_bits k n r \<le> n \<and> n < (isqrt_bits k n r + 1) * (isqrt_bits k n r + 1) \<and>
         0 \<le> isqrt_bits k n r"
  using assms
proof (induction k arbitrary: r)
  case (Suc k)
  show ?case
    using Suc.IH [of "if (r + 2 ^ k) * (r + 2 ^ k) \<le> n then r + 2 ^ k else r"] Suc.prems
    by (auto simp: algebra_simps)
qed simp

lemma fsqrt_two: "fsqrt (Fin 2) = Inr (Fin (6369051672525773 / 4503599627370496))"
  by code_simp

lemma fsqrt_square: "fsqrt (Fin (9 / 4)) = Inr (Fin (3 / 2))"
  by code_simp

lemma fsqrt_nonneg: "fle (Fin 0) v \<Longrightarrow> fsqrt v = Inr r \<Longrightarrow> fle (Fin 0) r"
proof -
  assume v: "fle (Fin 0) v" "fsqrt v = Inr r"
  have r: "0 \<le> isqrt_bits k n 0" for k n
  proof -
    have "0 \<le> a \<Longrightarrow> 0 \<le> isqrt_bits k n a" for a by (induction k arbitrary: a) simp_all
    then show ?thesis by simp
  qed
  show ?thesis
  proof (cases v)
    case (Fin x)
    then show ?thesis
      using v r [of 56 "\<lfloor>sqrt_scaled x\<rfloor>"]
      by (auto simp: Let_def less_imp_le intro!: rnd64_nonneg divide_nonneg_pos split: if_splits)
  qed (use v in auto)
qed

lemma fdiv_by_nonneg: "fle (Fin 0) x \<Longrightarrow> 0 < c \<Longrightarrow> fle (Fin 0) (fdiv_by x c)"
  by (cases x) (auto simp: fdiv_by_def rnd64_nonneg)

text \<open>The price multiplier is at least one.\<close>

lemma multiplier_ge_1: "fle (Fin 0) x \<Longrightarrow> fle (Fin 1) (fadd (Fin 1) x)"
proof (cases x)
  case (Fin a)
  have one: "rnd64 1 = Fin 1" using rnd64_of_int [of 1] by simp
  assume "fle (Fin 0) x"
  then show ?thesis using rnd64_lower [OF _ one, of "1 + a"] Fin by simp
qed auto

lemma fmul_grows:
  assumes "fle (Fin 0) (Fin p)" "rnd64 p = Fin p" "fle (Fin 1) m" "0 < p"
  shows "fle (Fin p) (fmul (Fin p) m)"
proof (cases m)
  case (Fin k)
  then have "p * 1 \<le> p * k" using assms by (intro mult_left_mono) simp_all
  then show ?thesis using rnd64_lower [OF _ assms(2)] Fin by simp
qed (use assms in auto)

lemma fdiv_shrinks:
  assumes "0 < p" "rnd64 p = Fin p" "fle (Fin 1) m" "fdiv (Fin p) m = Inr r"
  shows "fle r (Fin p)" "fle (Fin 0) r"
proof -
  have "fle r (Fin p) \<and> fle (Fin 0) r"
  proof (cases m)
    case (Fin k)
    then have k: "1 \<le> k" using assms(3) by simp
    then have "p * 1 \<le> p * k" using assms(1) by (intro mult_left_mono) simp_all
    then have "p / k \<le> p" "0 \<le> p / k" using k assms(1) by (simp_all add: divide_le_eq)
    then show ?thesis using rnd64_upper [OF _ assms(2)] rnd64_nonneg assms(4) Fin k by auto
  qed (use assms in auto)
  then show "fle r (Fin p)" "fle (Fin 0) r" by simp_all
qed

text \<open>Products of values that are not negative are not negative, whatever overflows.\<close>

lemma fmul_not_neg: "\<not> flt a (Fin 0) \<Longrightarrow> \<not> flt b (Fin 0) \<Longrightarrow> \<not> flt (fmul a b) (Fin 0)"
proof -
  have r: "\<not> flt (rnd64 x) (Fin 0)" if "0 \<le> x" for x
    using rnd64_nonneg [OF that] by (cases "rnd64 x") auto
  assume "\<not> flt a (Fin 0)" "\<not> flt b (Fin 0)"
  then show ?thesis by (cases a; cases b) (auto simp: r not_less)
qed

lemma fle_not_neg: "fle (Fin 0) x \<Longrightarrow> \<not> flt x (Fin 0)"
  by (cases x) auto

lemma positive_finiteD: "positive_finite x \<Longrightarrow> \<exists>p. x = Fin p \<and> 0 < p"
  by (cases x) (auto simp: positive_finite_def)

lemma validate_market_event_prices:
  assumes "validate_market_event e = Inr ()"
  shows "\<exists>b a. me_bid e = Fin b \<and> me_ask e = Fin a \<and> 0 < b \<and> b \<le> a"
  using assms positive_finiteD [of "me_bid e"] positive_finiteD [of "me_ask e"]
  by (auto simp: validate_market_event_def split: if_splits)

lemma cost_model_fields:
  assumes "cost_model_post_init m = Inr ()"
  shows "fle (Fin 0) (cm_fee_rate m)" "fle (Fin 0) (cm_maker_fee_rate m)" "fle (Fin 0) (cm_slippage_bps m)"
    "\<exists>x. cm_market_impact_bps m = Fin x \<and> 0 \<le> x"
  using assms by (auto simp: cost_model_post_init_def model_fields_def check_model_field_def res_simps isfinite_iff
      split: if_splits)

lemma participation_of_Inr:
  assumes "participation_of m e q = Inr p" "positive_finite q"
  shows "\<not> flt (cm_max_participation_rate m) p \<or> me_volume e = None"
  using assms by (auto simp: participation_of_def res_simps split: option.splits if_splits)

lemma isqrt_bits_less: "0 \<le> r \<Longrightarrow> 0 \<le> isqrt_bits k n r \<and> isqrt_bits k n r < r + 2 ^ k"
proof (induction k arbitrary: r)
  case (Suc k)
  define a where "a = (if (r + 2 ^ k) * (r + 2 ^ k) \<le> n then r + 2 ^ k else r)"
  have "(0 :: int) < 2 ^ k" by simp
  then have "0 \<le> a" "a \<le> r + 2 ^ k" using Suc.prems by (auto simp: a_def)
  with Suc.IH [of a] have "0 \<le> isqrt_bits k n a \<and> isqrt_bits k n a < r + 2 ^ Suc k" by simp
  then show ?case by (simp only: isqrt_bits.simps flip: a_def)
qed simp

lemma fsqrt_unit:
  assumes "0 \<le> y" "y \<le> 1"
  shows "\<exists>r. fsqrt (Fin y) = Inr (Fin r) \<and> 0 \<le> r"
proof (cases "y = 0")
  case False
  then have y: "0 < y" using assms by simp
  define r where "r = isqrt_bits 56 \<lfloor>sqrt_scaled y\<rfloor> 0"
  define z :: rat where "z = (if of_int (r * r) = sqrt_scaled y then of_int r else of_int r + 1 / 2)"
  have r: "0 \<le> r" "r < 2 ^ 56" using isqrt_bits_less [of 0 56] by (simp_all add: r_def)
  then have "(of_int r :: rat) \<le> of_int (2 ^ 56 - 1)" by (subst of_int_le_iff) simp
  then have z: "0 \<le> z" "z \<le> 2 ^ 56" using r by (auto simp: z_def)
  have "ilog2 y < 1" using ilog2_less [OF y, of 1] assms(2) by (simp add: pow2_def)
  then have "54 \<le> sqrt_scale y" by (simp add: sqrt_scale_def)
  then have "pow2 54 \<le> pow2 (sqrt_scale y)" by simp
  then have p: "2 ^ 54 \<le> pow2 (sqrt_scale y)" by (simp add: pow2_def)
  have "z \<le> 4 * pow2 (sqrt_scale y)" using z(2) p by simp
  then have "0 \<le> z / pow2 (sqrt_scale y)" "z / pow2 (sqrt_scale y) \<le> 4"
    using z(1) by (simp_all add: divide_le_eq less_imp_le)
  with rnd64_between [of 0 "z / pow2 (sqrt_scale y)" 4] obtain u where "rnd64 (z / pow2 (sqrt_scale y)) = Fin u" "0 \<le> u"
    by auto
  moreover have "fsqrt (Fin y) = Inr (rnd64 (z / pow2 (sqrt_scale y)))"
    using y False by (auto simp: Let_def z_def r_def)
  ultimately show ?thesis by simp
qed simp

lemma estimate_Inr:
  assumes "estimate m e side q role = Inr c" "cost_model_post_init m = Inr ()"
  obtains k where "fle (Fin 1) k" "positive_finite q"
    "xc_reference_price c = (if side = TRADE_BUY then me_ask e else me_bid e)"
    "(if side = TRADE_BUY then Inr (fmul (me_ask e) k) else fdiv (me_bid e) k) = Inr (xc_execution_price c)"
    "xc_fee c = fmul (fmul (xc_execution_price c) q) (xc_fee_rate c)"
    "xc_fee_rate c \<in> {cm_fee_rate m, cm_maker_fee_rate m}"
    "xc_slippage_cost c = fmul (fabs (fsub (xc_execution_price c) (xc_reference_price c))) q"
    "xc_spread_cost c = fmul (fabs (fsub (xc_reference_price c) (mid e))) q"
    "participation_of m e q = Inr (xc_participation_rate c)"
proof -
  from assms(1) obtain p root where p: "participation_of m e q = Inr p" and q: "positive_finite q"
    and root: "fsqrt (py_max (Fin 0) p) = Inr root"
    by (auto simp: estimate_def Let_def res_simps split: if_splits)
  define k where "k = fadd (Fin 1) (fdiv_by (fadd (cm_slippage_bps m) (fmul (cm_market_impact_bps m) root)) 10000)"
  have mp: "fle (cm_max_participation_rate m) (Fin 1)" "isfinite (cm_max_participation_rate m)"
    using assms(2) by (auto simp: cost_model_post_init_def model_fields_def check_model_field_def res_simps)
  have "\<exists>y. py_max (Fin 0) p = Fin y \<and> 0 \<le> y \<and> y \<le> 1"
  proof (cases "me_volume e")
    case None
    then have "p = Fin 0" using p by (simp add: participation_of_def)
    then show ?thesis by (simp add: py_max_def)
  next
    case (Some v)
    obtain a where a: "q = Fin a" "0 < a" using positive_finiteD [OF q] by blast
    obtain b where b: "v = Fin b" "0 < b"
      using p Some positive_finiteD [of v] by (auto simp: participation_of_def split: if_splits)
    from p Some a b have pr: "p = rnd64 (a / b)" "\<not> flt (cm_max_participation_rate m) p"
      by (auto simp: participation_of_def res_simps split: if_splits)
    from pr(2) mp show ?thesis
      using rnd64_nonneg [of "a / b"] a b by (cases p; cases "cm_max_participation_rate m") (auto simp: pr(1) [symmetric] py_max_def)
  qed
  then obtain r where r: "root = Fin r" "0 \<le> r" using root fsqrt_unit by fastforce
  obtain x where x: "cm_market_impact_bps m = Fin x" "0 \<le> x" using cost_model_fields(4) [OF assms(2)] by blast
  have "fle (Fin 0) (fmul (cm_market_impact_bps m) root)" using x r by (simp add: rnd64_nonneg)
  then have k: "fle (Fin 1) k"
    unfolding k_def by (intro multiplier_ge_1 fdiv_by_nonneg fadd_nonneg cost_model_fields(3) [OF assms(2)]) simp_all
  show thesis
    using assms(1) p root k q
    by (intro that [of k]) (auto simp: estimate_def Let_def res_simps simp flip: k_def split: if_splits)
qed

section \<open>Executions are adverse\<close>

text \<open>
  C35. The cost model never flatters: on a valid event and model, a buy is priced at or above the
  ask and a sell at or below the bid (after rounding), no fee, slippage or spread cost is negative,
  and the order stays within its share of the volume.
\<close>

theorem execution_is_adverse:
  assumes "validate_market_event e = Inr ()" "cost_model_post_init m = Inr ()"
    and "estimate m e side q role = Inr c"
    and "me_ask e = Fin a" "rnd64 a = Fin a" "me_bid e = Fin b" "rnd64 b = Fin b"
  shows "(side = TRADE_BUY \<longrightarrow> fle (me_ask e) (xc_execution_price c)) \<and>
    (side = TRADE_SELL \<longrightarrow> fle (xc_execution_price c) (me_bid e)) \<and>
    \<not> flt (xc_fee c) (Fin 0) \<and> \<not> flt (xc_slippage_cost c) (Fin 0) \<and> \<not> flt (xc_spread_cost c) (Fin 0) \<and>
    (me_volume e \<noteq> None \<longrightarrow> \<not> flt (cm_max_participation_rate m) (xc_participation_rate c))"
proof -
  have pos: "0 < b" "0 < a" using validate_market_event_prices [OF assms(1)] assms(4,6) by auto
  from estimate_Inr [OF assms(3,2)] obtain k where k: "fle (Fin 1) k" "positive_finite q"
    "xc_reference_price c = (if side = TRADE_BUY then me_ask e else me_bid e)"
    "(if side = TRADE_BUY then Inr (fmul (me_ask e) k) else fdiv (me_bid e) k) = Inr (xc_execution_price c)"
    "xc_fee c = fmul (fmul (xc_execution_price c) q) (xc_fee_rate c)"
    "xc_fee_rate c \<in> {cm_fee_rate m, cm_maker_fee_rate m}"
    "xc_slippage_cost c = fmul (fabs (fsub (xc_execution_price c) (xc_reference_price c))) q"
    "xc_spread_cost c = fmul (fabs (fsub (xc_reference_price c) (mid e))) q"
    "participation_of m e q = Inr (xc_participation_rate c)" by blast
  have q: "\<not> flt q (Fin 0)" using positive_finiteD [OF k(2)] by auto
  have buy: "fle (me_ask e) (xc_execution_price c)" "\<not> flt (xc_execution_price c) (Fin 0)" if "side = TRADE_BUY"
    using that k(4) fmul_grows [OF _ assms(5) k(1) pos(2)] fle_trans [of "Fin 0" "Fin a"] pos
    by (simp add: assms(4), metis assms(4) fle_not_neg k(4) less_imp_le fle_Fin sum.inject(2))
  have sell: "fle (xc_execution_price c) (me_bid e)" "\<not> flt (xc_execution_price c) (Fin 0)" if "side = TRADE_SELL"
    using that k(4) fdiv_shrinks [OF pos(1) assms(7) k(1)] by (auto simp: assms(6) dest: fle_not_neg)
  have price: "\<not> flt (xc_execution_price c) (Fin 0)" using buy sell by (cases side) auto
  have rate: "\<not> flt (xc_fee_rate c) (Fin 0)"
    using k(6) cost_model_fields(1,2) [OF assms(2)] fle_not_neg by auto
  have abs: "\<not> flt (fabs x) (Fin 0)" for x by (cases x) auto
  show ?thesis
    using buy(1) sell(1) price rate q abs participation_of_Inr [OF k(9) k(2)]
    by (auto simp: k(5,7,8) fmul_not_neg)
qed

definition sample_event :: market_event where
  "sample_event = \<lparr>me_timestamp_ms = 1000, me_symbol = ''BTCUSDT'', me_bid = Fin 99, me_ask = Fin 101,
     me_source = ''historical'', me_volume = Some (Fin 100), me_funding_rate = Fin 0,
     me_funding_interval_hours = Fin 8, me_metadata = []\<rparr>"

definition default_cost_model :: cost_model where
  "default_cost_model = \<lparr>cm_fee_rate = rnd64 (1 / 1000), cm_maker_fee_rate = rnd64 (2 / 10000),
     cm_slippage_bps = Fin 2, cm_market_impact_bps = Fin 15, cm_max_participation_rate = rnd64 (1 / 10)\<rparr>"

definition sample_cost :: "trade_side \<Rightarrow> execution_cost option" where
  "sample_cost side = (case estimate default_cost_model sample_event side (Fin 4) ''taker'' of Inl _ \<Rightarrow> None | Inr c \<Rightarrow> Some c)"

theorem execution_is_adverse_witness:
  "\<exists>c. estimate default_cost_model sample_event TRADE_BUY (Fin 4) ''taker'' = Inr c \<and>
     fle (Fin 101) (xc_execution_price c) \<and> \<not> flt (xc_fee c) (Fin 0)"
proof -
  have "sample_cost TRADE_BUY \<noteq> None" by code_simp
  then obtain c where c: "estimate default_cost_model sample_event TRADE_BUY (Fin 4) ''taker'' = Inr c"
    by (auto simp: sample_cost_def split: sum.splits)
  have v: "validate_market_event sample_event = Inr ()" "cost_model_post_init default_cost_model = Inr ()"
    "rnd64 101 = Fin 101" "rnd64 99 = Fin 99" by code_simp+
  from execution_is_adverse [OF v(1,2) c _ v(3) _ v(4)] c show ?thesis by (simp add: sample_event_def)
qed

end
