(* ===== verification/Backtest.thy ===== *)
theory Backtest
  imports Capital_Allocation Trading_Costs
begin

text \<open>
  \<open>trading_core/backtest.py\<close> and \<open>trading_core/purged_walk_forward.py\<close> with the records of
  \<open>trading_core/models.py\<close>: the event-driven simulation of a strategy with costs, funding and capital
  allocation, and its evaluation on sequential out-of-sample windows. A strategy is an object outside
  this code: it is the parameter \<open>on_market\<close>, a function of its own state, the event and the portfolio,
  that may raise. The wall-clock duration and the metrics hook of a run have no counterpart.
\<close>

section \<open>Records\<close>

record bt_signal =
  sg_side :: trade_side
  sg_requested_risk_percent :: pyfloat
  sg_stop_loss_percent :: pyfloat
  sg_reason :: string
  sg_liquidity_role :: string

record bt_position =
  bp_symbol :: string
  bp_quantity :: pyfloat
  bp_entry_price :: pyfloat
  bp_entry_notional :: pyfloat
  bp_entry_fee :: pyfloat
  bp_opened_at_ms :: int
  bp_correlation_group :: string
  bp_funding_paid :: pyfloat

record bt_fill =
  bf_timestamp_ms :: int
  bf_symbol :: string
  bf_side :: trade_side
  bf_quantity :: pyfloat
  bf_reference_price :: pyfloat
  bf_execution_price :: pyfloat
  bf_notional :: pyfloat
  bf_fee :: pyfloat
  bf_slippage_cost :: pyfloat
  bf_realized_pnl :: pyfloat
  bf_reason :: string
  bf_liquidity_role :: string
  bf_spread_cost :: pyfloat
  bf_participation_rate :: pyfloat
  bf_execution_timing :: string
  bf_synthetic_finalization :: bool

record bt_funding =
  bu_timestamp_ms :: int
  bu_symbol :: string
  bu_rate :: pyfloat
  bu_notional :: pyfloat
  bu_interval_fraction :: pyfloat
  bu_amount :: pyfloat

record bt_snapshot =
  bn_timestamp_ms :: int
  bn_cash :: pyfloat
  bn_equity :: pyfloat
  bn_realized_pnl :: pyfloat
  bn_total_fees :: pyfloat
  bn_positions :: "bt_position dict"
  bn_total_funding_cost :: pyfloat

record bt_config =
  bc_initial_cash :: pyfloat
  bc_costs :: cost_model
  bc_reserve_percent :: pyfloat
  bc_max_total_exposure_percent :: pyfloat
  bc_max_position_percent :: pyfloat
  bc_max_correlated_exposure_percent :: pyfloat
  bc_max_risk_per_trade_percent :: pyfloat
  bc_max_open_positions :: int
  bc_minimum_notional :: pyfloat
  bc_force_close_at_end :: bool
  bc_execution_timing :: string

record bt_result =
  br_initial_cash :: pyfloat
  br_ending_equity :: pyfloat
  br_net_pnl :: pyfloat
  br_return_percent :: pyfloat
  br_max_drawdown_percent :: pyfloat
  br_total_fees :: pyfloat
  br_total_slippage_cost :: pyfloat
  br_trade_count :: int
  br_winning_closed_trades :: int
  br_losing_closed_trades :: int
  br_fills :: "bt_fill list"
  br_equity_curve :: "(int \<times> pyfloat) list"
  br_event_count :: int
  br_closed_trade_count :: int
  br_pending_signals_unfilled :: int
  br_total_funding_cost :: pyfloat
  br_gross_trading_pnl :: pyfloat
  br_sharpe_ratio :: pyfloat
  br_sortino_ratio :: pyfloat
  br_profit_factor :: pyfloat
  br_exposure_time_percent :: pyfloat
  br_funding_payments :: "bt_funding list"

section \<open>Configuration\<close>

definition bt_config_fields :: "bt_config \<Rightarrow> (string \<times> pyfloat) list" where
  "bt_config_fields c =
     [(''initial_cash'', bc_initial_cash c), (''fee_rate'', cm_fee_rate (bc_costs c)),
      (''maker_fee_rate'', cm_maker_fee_rate (bc_costs c)), (''slippage_bps'', cm_slippage_bps (bc_costs c)),
      (''market_impact_bps'', cm_market_impact_bps (bc_costs c)),
      (''max_participation_rate'', cm_max_participation_rate (bc_costs c)),
      (''reserve_percent'', bc_reserve_percent c),
      (''max_total_exposure_percent'', bc_max_total_exposure_percent c),
      (''max_position_percent'', bc_max_position_percent c),
      (''max_correlated_exposure_percent'', bc_max_correlated_exposure_percent c),
      (''max_risk_per_trade_percent'', bc_max_risk_per_trade_percent c),
      (''minimum_notional'', bc_minimum_notional c)]"

definition check_bt_field :: "unit \<Rightarrow> string \<times> pyfloat \<Rightarrow> unit res" where
  "check_bt_field u f =
     (if isfinite (snd f) then Inr () else Inl (ValueError (''backtest config '' @ fst f @ '' must be finite'')))"

definition bt_validate_config :: "bt_config \<Rightarrow> unit res" where
  "bt_validate_config c =
     (if bc_execution_timing c \<notin> set [''auto'', ''same_event'', ''next_event'']
      then Inl (ValueError ''execution_timing must be auto, same_event or next_event'')
      else rbind (rfold check_bt_field () (bt_config_fields c)) (\<lambda>_.
        if fle (bc_initial_cash c) (Fin 0) then Inl (ValueError ''initial_cash must be positive'')
        else if bc_max_open_positions c \<le> 0 then Inl (ValueError ''max_open_positions must be positive'')
        else if fle (bc_minimum_notional c) (Fin 0) then Inl (ValueError ''minimum_notional must be positive'')
        else if \<not> (fle (Fin 0) (cm_fee_rate (bc_costs c)) \<and> fle (cm_fee_rate (bc_costs c)) (rnd64 (5 / 100)))
        then Inl (ValueError ''fee_rate must be within 0..0.05'')
        else if \<not> (fle (Fin 0) (cm_maker_fee_rate (bc_costs c)) \<and>
                   fle (cm_maker_fee_rate (bc_costs c)) (rnd64 (5 / 100)))
        then Inl (ValueError ''maker_fee_rate must be within 0..0.05'')
        else if \<not> (fle (Fin 0) (cm_slippage_bps (bc_costs c)) \<and> fle (cm_slippage_bps (bc_costs c)) (Fin 1000))
        then Inl (ValueError ''slippage_bps must be within 0..1000'')
        else if \<not> (fle (Fin 0) (cm_market_impact_bps (bc_costs c)) \<and>
                   fle (cm_market_impact_bps (bc_costs c)) (Fin 10000))
        then Inl (ValueError ''market_impact_bps must be within 0..10000'')
        else if \<not> (flt (Fin 0) (cm_max_participation_rate (bc_costs c)) \<and>
                   fle (cm_max_participation_rate (bc_costs c)) (Fin 1))
        then Inl (ValueError ''max_participation_rate must be within 0..1'')
        else if \<not> (fle (Fin 0) (bc_reserve_percent c) \<and> flt (bc_reserve_percent c) (Fin 100))
        then Inl (ValueError ''reserve_percent must be within 0..100'')
        else if \<not> (flt (Fin 0) (bc_max_total_exposure_percent c) \<and> fle (bc_max_total_exposure_percent c) (Fin 100))
        then Inl (ValueError ''max_total_exposure_percent must be within 0..100'')
        else if flt (rnd64 (100000001 / 1000000)) (fadd (bc_reserve_percent c) (bc_max_total_exposure_percent c))
        then Inl (ValueError ''reserve plus total exposure exceeds 100 percent'') else Inr ()))"

definition bt_policy :: "bt_config \<Rightarrow> allocation_policy" where
  "bt_policy c =
     \<lparr>cp_reserve_percent = bc_reserve_percent c,
      cp_max_total_exposure_percent = bc_max_total_exposure_percent c,
      cp_max_position_percent = bc_max_position_percent c,
      cp_max_symbol_exposure_percent = bc_max_position_percent c,
      cp_max_correlated_exposure_percent = bc_max_correlated_exposure_percent c,
      cp_max_risk_per_trade_percent = bc_max_risk_per_trade_percent c, cp_max_daily_loss_percent = Fin 100,
      cp_minimum_notional = bc_minimum_notional c, cp_leverage = Fin 1\<rparr>"

definition backtester_init :: "bt_config \<Rightarrow> unit res" where
  "backtester_init c = rbind (bt_validate_config c) (\<lambda>_. cost_model_post_init (bc_costs c))"

definition bt_execution_timing :: "bt_config \<Rightarrow> market_event \<Rightarrow> string res" where
  "bt_execution_timing c e =
     (let price_source = strip (text_or_empty (py_get (me_metadata e) ''price_source'' PyNone))
      in if bc_execution_timing c = ''next_event'' then Inr ''next_event''
         else if price_source = ''synthetic_from_close''
         then (if bc_execution_timing c = ''same_event''
               then Inl (ValueError ''same_event execution is unsafe for synthetic_from_close data'')
               else Inr ''next_event'')
         else Inr ''same_event'')"

section \<open>The account of a run\<close>

record 's bt_state =
  bs_cash :: pyfloat
  bs_realized_pnl :: pyfloat
  bs_gross_trading_pnl :: pyfloat
  bs_total_fees :: pyfloat
  bs_total_slippage :: pyfloat
  bs_total_funding :: pyfloat
  bs_positions :: "bt_position dict"
  bs_last_funding :: "int dict"
  bs_fills :: "bt_fill list"
  bs_funding_payments :: "bt_funding list"
  bs_closed_pnls :: "pyfloat list"
  bs_equity_curve :: "(int \<times> pyfloat) list"
  bs_last_events :: "market_event dict"
  bs_previous_key :: "int \<times> string"
  bs_winning_closed :: int
  bs_losing_closed :: int
  bs_event_count :: int
  bs_exposed_events :: int
  bs_pending :: "bt_signal dict"
  bs_strategy :: 's

definition bt_start :: "bt_config \<Rightarrow> 's \<Rightarrow> 's bt_state" where
  "bt_start c s0 =
     \<lparr>bs_cash = bc_initial_cash c, bs_realized_pnl = Fin 0, bs_gross_trading_pnl = Fin 0, bs_total_fees = Fin 0,
      bs_total_slippage = Fin 0, bs_total_funding = Fin 0, bs_positions = [], bs_last_funding = [],
      bs_fills = [], bs_funding_payments = [], bs_closed_pnls = [], bs_equity_curve = [], bs_last_events = [],
      bs_previous_key = (0, []), bs_winning_closed = 0, bs_losing_closed = 0, bs_event_count = 0,
      bs_exposed_events = 0, bs_pending = [], bs_strategy = s0\<rparr>"

definition bt_snapshot_of :: "int \<Rightarrow> 's bt_state \<Rightarrow> bt_snapshot" where
  "bt_snapshot_of ts b =
     (let equity = foldl (\<lambda>acc (_, p). fadd acc (fmul (bp_quantity p)
              (case map_of (bs_last_events b) (bp_symbol p) of Some e \<Rightarrow> me_bid e | None \<Rightarrow> bp_entry_price p)))
            (bs_cash b) (bs_positions b)
      in \<lparr>bn_timestamp_ms = ts, bn_cash = round_to 12 (bs_cash b), bn_equity = round_to 12 equity,
          bn_realized_pnl = round_to 12 (bs_realized_pnl b), bn_total_fees = round_to 12 (bs_total_fees b),
          bn_positions = bs_positions b, bn_total_funding_cost = round_to 12 (bs_total_funding b)\<rparr>)"

definition bt_apply_funding :: "market_event \<Rightarrow> bt_position \<Rightarrow> int \<Rightarrow> 's bt_state \<Rightarrow> 's bt_state res" where
  "bt_apply_funding e p last_ms b =
     (let elapsed = max 0 (me_timestamp_ms e - last_ms)
      in if elapsed = 0 \<or> feq (me_funding_rate e) (Fin 0) then Inr b
         else rbind (float_of_int elapsed) (\<lambda>ms.
              rbind (fdiv ms (fmul (fmul (fmul (me_funding_interval_hours e) (Fin 60)) (Fin 60)) (Fin 1000))) (\<lambda>fraction.
                let notional = fmul (bp_quantity p) (mid e);
                    amount = fmul (fmul notional (me_funding_rate e)) fraction
                in if \<not> isfinite amount
                   then Inl (ValueError ''funding calculation produced a non-finite amount'')
                   else Inr (b\<lparr>bs_cash := fsub (bs_cash b) amount,
                              bs_total_funding := fadd (bs_total_funding b) amount,
                              bs_positions := AList.update (me_symbol e)
                                (p\<lparr>bp_funding_paid := fadd (bp_funding_paid p) amount\<rparr>) (bs_positions b),
                              bs_funding_payments := bs_funding_payments b @
                                [\<lparr>bu_timestamp_ms = me_timestamp_ms e, bu_symbol = me_symbol e,
                                  bu_rate = me_funding_rate e, bu_notional = notional,
                                  bu_interval_fraction = fraction, bu_amount = amount\<rparr>]\<rparr>))))"

definition bt_fund :: "market_event \<Rightarrow> 's bt_state \<Rightarrow> 's bt_state res" where
  "bt_fund e b =
     (case map_of (bs_positions b) (me_symbol e) of None \<Rightarrow> Inr b
      | Some p \<Rightarrow>
          rbind (bt_apply_funding e p
             (case map_of (bs_last_funding b) (me_symbol e) of Some t \<Rightarrow> t | None \<Rightarrow> bp_opened_at_ms p) b) (\<lambda>b'.
            Inr (b'\<lparr>bs_last_funding := AList.update (me_symbol e) (me_timestamp_ms e) (bs_last_funding b')\<rparr>)))"

section \<open>Fills\<close>

definition bt_open_trade :: "'s bt_state \<Rightarrow> bt_position \<Rightarrow> pyval" where
  "bt_open_trade b p =
     PyDict [(''status'', PyStr ''OPEN''), (''symbol'', PyStr (bp_symbol p)),
       (''notional'', PyFloat (fmul (bp_quantity p) (case map_of (bs_last_events b) (bp_symbol p) of
          Some e \<Rightarrow> mid e | None \<Rightarrow> fdiv_by (fadd (bp_entry_price p) (bp_entry_price p)) 2))),
       (''correlation_group'', PyStr (bp_correlation_group p))]"

definition bt_allocation :: "bt_config \<Rightarrow> market_event \<Rightarrow> bt_signal \<Rightarrow> pyfloat \<Rightarrow> 's bt_state \<Rightarrow> (string \<times> allocation_plan) res" where
  "bt_allocation c e sg equity b =
     rbind (correlation_group_for_symbol (me_symbol e)) (\<lambda>group.
     rbind (build_capital_allocation (bt_policy c)
        \<lparr>aq_equity = equity, aq_open_trades = map (bt_open_trade b \<circ> snd) (bs_positions b),
         aq_max_open_positions = bc_max_open_positions c, aq_stop_loss_percent = sg_stop_loss_percent sg,
         aq_fee_rate = cm_fee_rate (bc_costs c), aq_requested_risk_percent = sg_requested_risk_percent sg,
         aq_symbol = me_symbol e, aq_correlation_group = group, aq_risk_size_multiplier = Fin 1,
         aq_current_daily_loss_percent = Fin 0, aq_hard_blocks = []\<rparr>) (\<lambda>plan. Inr (group, plan)))"

definition bt_fill_of :: "market_event \<Rightarrow> trade_side \<Rightarrow> pyfloat \<Rightarrow> execution_cost \<Rightarrow> pyfloat \<Rightarrow> bt_signal \<Rightarrow> string \<Rightarrow> bt_fill" where
  "bt_fill_of e side quantity cost pnl sg timing =
     \<lparr>bf_timestamp_ms = me_timestamp_ms e, bf_symbol = me_symbol e, bf_side = side, bf_quantity = quantity,
      bf_reference_price = xc_reference_price cost, bf_execution_price = xc_execution_price cost,
      bf_notional = fmul (xc_execution_price cost) quantity, bf_fee = xc_fee cost,
      bf_slippage_cost = xc_slippage_cost cost, bf_realized_pnl = pnl, bf_reason = sg_reason sg,
      bf_liquidity_role = sg_liquidity_role sg, bf_spread_cost = xc_spread_cost cost,
      bf_participation_rate = xc_participation_rate cost, bf_execution_timing = timing,
      bf_synthetic_finalization = False\<rparr>"

definition bt_bought :: "market_event \<Rightarrow> bt_signal \<Rightarrow> string \<Rightarrow> string \<Rightarrow> pyfloat \<Rightarrow> execution_cost \<Rightarrow> 's bt_state \<Rightarrow> 's bt_state" where
  "bt_bought e sg timing grp quantity cost b =
     b\<lparr>bs_cash := fsub (bs_cash b) (fadd (fmul (xc_execution_price cost) quantity) (xc_fee cost)),
       bs_total_fees := fadd (bs_total_fees b) (xc_fee cost),
       bs_total_slippage := fadd (bs_total_slippage b) (xc_slippage_cost cost),
       bs_positions := AList.update (me_symbol e)
         \<lparr>bp_symbol = me_symbol e, bp_quantity = quantity, bp_entry_price = xc_execution_price cost,
          bp_entry_notional = fmul (xc_execution_price cost) quantity, bp_entry_fee = xc_fee cost,
          bp_opened_at_ms = me_timestamp_ms e, bp_correlation_group = grp, bp_funding_paid = Fin 0\<rparr>
         (bs_positions b),
       bs_last_funding := AList.update (me_symbol e) (me_timestamp_ms e) (bs_last_funding b),
       bs_fills := bs_fills b @ [bt_fill_of e TRADE_BUY quantity cost (Fin 0) sg timing]\<rparr>"

definition bt_buy :: "bt_config \<Rightarrow> market_event \<Rightarrow> bt_signal \<Rightarrow> pyfloat \<Rightarrow> string \<Rightarrow> 's bt_state \<Rightarrow> 's bt_state res" where
  "bt_buy c e sg equity timing b =
     (if map_of (bs_positions b) (me_symbol e) \<noteq> None then Inr b
      else rbind (bt_allocation c e sg equity b) (\<lambda>(group, plan).
        if \<not> al_allowed plan \<or> fle (al_notional plan) (Fin 0) then Inr b
        else rbind (fdiv (al_notional plan) (me_ask e)) (\<lambda>quantity.
             rbind (estimate (bc_costs c) e TRADE_BUY quantity (sg_liquidity_role sg)) (\<lambda>cost.
               if flt (bs_cash b) (fadd (fmul (xc_execution_price cost) quantity) (xc_fee cost)) then Inr b
               else Inr (bt_bought e sg timing group quantity cost b)))))"

definition bt_close :: "bt_config \<Rightarrow> market_event \<Rightarrow> bt_position \<Rightarrow> bt_signal \<Rightarrow> (bt_fill \<Rightarrow> bt_fill) \<Rightarrow> 's bt_state \<Rightarrow> 's bt_state res" where
  "bt_close c e p sg tag b =
     rbind (estimate (bc_costs c) e TRADE_SELL (bp_quantity p) (sg_liquidity_role sg)) (\<lambda>cost.
       let proceeds = fmul (xc_execution_price cost) (bp_quantity p);
           gross = fsub proceeds (bp_entry_notional p);
           net = fsub (fsub (fsub gross (bp_entry_fee p)) (xc_fee cost)) (bp_funding_paid p)
       in Inr (b\<lparr>bs_cash := fsub (fadd (bs_cash b) proceeds) (xc_fee cost),
                 bs_realized_pnl := fadd (bs_realized_pnl b) net,
                 bs_gross_trading_pnl := fadd (bs_gross_trading_pnl b) gross,
                 bs_total_fees := fadd (bs_total_fees b) (xc_fee cost),
                 bs_total_slippage := fadd (bs_total_slippage b) (xc_slippage_cost cost),
                 bs_closed_pnls := bs_closed_pnls b @ [net],
                 bs_winning_closed := bs_winning_closed b + (if flt (Fin 0) net then 1 else 0),
                 bs_losing_closed := bs_losing_closed b + (if flt net (Fin 0) then 1 else 0),
                 bs_fills := bs_fills b @ [tag (bt_fill_of e TRADE_SELL (bp_quantity p) cost net sg ''same_event'')]\<rparr>))"

definition bt_sell :: "bt_config \<Rightarrow> market_event \<Rightarrow> bt_signal \<Rightarrow> string \<Rightarrow> 's bt_state \<Rightarrow> 's bt_state res" where
  "bt_sell c e sg timing b =
     (let b1 = b\<lparr>bs_positions := AList.delete (me_symbol e) (bs_positions b),
                 bs_last_funding := AList.delete (me_symbol e) (bs_last_funding b)\<rparr>
      in case map_of (bs_positions b) (me_symbol e) of None \<Rightarrow> Inr b1
         | Some p \<Rightarrow> bt_close c e p sg (\<lambda>f. f\<lparr>bf_execution_timing := timing\<rparr>) b1)"

definition bt_execute :: "bt_config \<Rightarrow> market_event \<Rightarrow> bt_signal \<Rightarrow> bt_snapshot \<Rightarrow> string \<Rightarrow> 's bt_state \<Rightarrow> 's bt_state res" where
  "bt_execute c e sg snap timing b =
     (case sg_side sg of TRADE_BUY \<Rightarrow> bt_buy c e sg (bn_equity snap) timing b
      | TRADE_SELL \<Rightarrow> bt_sell c e sg timing b)"

section \<open>One event\<close>

definition key_le :: "int \<times> string \<Rightarrow> int \<times> string \<Rightarrow> bool" where
  "key_le a b \<longleftrightarrow> fst a < fst b \<or> fst a = fst b \<and> snd a \<le> snd b"

definition bt_admit :: "market_event \<Rightarrow> 's bt_state \<Rightarrow> 's bt_state res" where
  "bt_admit e b =
     rbind (validate_market_event e) (\<lambda>_.
       if key_le (me_timestamp_ms e, me_symbol e) (bs_previous_key b)
       then Inl (ValueError (''market events must be strictly increasing by timestamp and symbol; '' @
              ''out-of-order or duplicate data creates lookahead ambiguity''))
       else Inr (b\<lparr>bs_previous_key := (me_timestamp_ms e, me_symbol e), bs_event_count := bs_event_count b + 1,
                  bs_last_events := AList.update (me_symbol e) e (bs_last_events b)\<rparr>))"

definition bt_run_pending :: "bt_config \<Rightarrow> market_event \<Rightarrow> 's bt_state \<Rightarrow> 's bt_state res" where
  "bt_run_pending c e b =
     (let b1 = b\<lparr>bs_pending := AList.delete (me_symbol e) (bs_pending b)\<rparr>
      in case map_of (bs_pending b) (me_symbol e) of None \<Rightarrow> Inr b1
         | Some sg \<Rightarrow> bt_execute c e sg (bt_snapshot_of (me_timestamp_ms e) b) ''next_event'' b1)"

type_synonym 's bt_strategy = "'s \<Rightarrow> market_event \<Rightarrow> bt_snapshot \<Rightarrow> ('s \<times> bt_signal option) res"

definition bt_consult :: "bt_config \<Rightarrow> 's bt_strategy \<Rightarrow> market_event \<Rightarrow> 's bt_state \<Rightarrow> 's bt_state res" where
  "bt_consult c on_market e b =
     (let snap = bt_snapshot_of (me_timestamp_ms e) b
      in rbind (on_market (bs_strategy b) e snap) (\<lambda>(s', signal).
        let b1 = b\<lparr>bs_strategy := s'\<rparr>
        in case signal of None \<Rightarrow> Inr b1
           | Some sg \<Rightarrow>
               rbind (bt_execution_timing c e) (\<lambda>timing.
                 if timing = ''next_event''
                 then Inr (b1\<lparr>bs_pending := AList.update (me_symbol e) sg (bs_pending b1)\<rparr>)
                 else bt_execute c e sg snap ''same_event'' b1)))"

definition bt_record :: "market_event \<Rightarrow> 's bt_state \<Rightarrow> 's bt_state" where
  "bt_record e b =
     b\<lparr>bs_exposed_events := bs_exposed_events b + (if bs_positions b = [] then 0 else 1),
       bs_equity_curve := bs_equity_curve b @
         [(me_timestamp_ms e, bn_equity (bt_snapshot_of (me_timestamp_ms e) b))]\<rparr>"

definition bt_step :: "bt_config \<Rightarrow> 's bt_strategy \<Rightarrow> 's bt_state \<Rightarrow> market_event \<Rightarrow> 's bt_state res" where
  "bt_step c on_market b e =
     rbind (bt_admit e b) (\<lambda>b1.
     rbind (bt_fund e b1) (\<lambda>b2.
     rbind (bt_run_pending c e b2) (\<lambda>b3.
     rbind (bt_consult c on_market e b3) (\<lambda>b4. Inr (bt_record e b4)))))"

section \<open>The end of a run\<close>

definition forced_signal :: bt_signal where
  "forced_signal = \<lparr>sg_side = TRADE_SELL, sg_requested_risk_percent = Fin 1, sg_stop_loss_percent = Fin 1,
     sg_reason = ''forced_end_of_backtest'', sg_liquidity_role = ''taker''\<rparr>"

definition bt_force_close :: "bt_config \<Rightarrow> 's bt_state \<Rightarrow> string \<Rightarrow> 's bt_state res" where
  "bt_force_close c b symbol =
     (case map_of (bs_last_events b) symbol of
        None \<Rightarrow> Inl (RuntimeError (''cannot close '' @ symbol @ '': final market event is unavailable''))
      | Some e \<Rightarrow>
          (case map_of (bs_positions b) symbol of None \<Rightarrow> Inl (KeyError symbol)
           | Some p \<Rightarrow>
               bt_close c e p forced_signal
                 (\<lambda>f. f\<lparr>bf_execution_timing := ''synthetic_finalization'', bf_synthetic_finalization := True\<rparr>)
                 (b\<lparr>bs_positions := AList.delete symbol (bs_positions b)\<rparr>)))"

definition bt_finalize :: "bt_config \<Rightarrow> 's bt_state \<Rightarrow> 's bt_state res" where
  "bt_finalize c b =
     (if bc_force_close_at_end c \<and> bs_positions b \<noteq> []
      then rbind (rfold (bt_force_close c) b (sort (map fst (bs_positions b)))) (\<lambda>b'.
        Inr (if fst (bs_previous_key b') \<noteq> 0
             then b'\<lparr>bs_equity_curve := bs_equity_curve b' @ [(fst (bs_previous_key b'), bs_cash b')]\<rparr> else b'))
      else Inr b)"

subsection \<open>Statistics\<close>

text \<open>
  \<open>math.fsum\<close>: the partial sums are non-overlapping floats; an item is added to each, and what the
  additions lose is kept. The last step corrects a tie.
\<close>

fun fsum_item :: "pyfloat \<Rightarrow> pyfloat list \<Rightarrow> pyfloat list \<times> pyfloat" where
  "fsum_item x [] = ([], x)"
| "fsum_item x (y # ys) =
     (let (a, b) = (if flt (fabs x) (fabs y) then (y, x) else (x, y));
          hi = fadd a b; lo = fsub b (fsub hi a);
          (rest, top) = fsum_item hi ys
      in (if feq lo (Fin 0) then rest else lo # rest, top))"

fun fsum_tail :: "pyfloat \<Rightarrow> pyfloat list \<Rightarrow> pyfloat" where
  "fsum_tail hi [] = hi"
| "fsum_tail hi (y # ys) =
     (let s = fadd hi y; lo = fsub y (fsub s hi)
      in if feq lo (Fin 0) then fsum_tail s ys
         else (case ys of [] \<Rightarrow> s
               | z # zs \<Rightarrow>
                   if (flt lo (Fin 0) \<and> flt z (Fin 0)) \<or> (flt (Fin 0) lo \<and> flt (Fin 0) z)
                   then (let t = fmul lo (Fin 2); u = fadd s t
                         in if feq t (fsub u s) then u else s)
                   else s))"

record fsum_state =
  fs_partials :: "pyfloat list"
  fs_special :: pyfloat
  fs_infinite :: pyfloat

definition fsum_step :: "fsum_state \<Rightarrow> pyfloat \<Rightarrow> fsum_state res" where
  "fsum_step f x =
     (let (partials, top) = fsum_item x (fs_partials f)
      in if feq top (Fin 0) then Inr (f\<lparr>fs_partials := partials\<rparr>)
         else if isfinite top then Inr (f\<lparr>fs_partials := partials @ [top]\<rparr>)
         else if isfinite x then Inl (OverflowError ''intermediate overflow in fsum'')
         else Inr (f\<lparr>fs_partials := [], fs_special := fadd (fs_special f) x,
                     fs_infinite := (if x = FNaN then fs_infinite f else fadd (fs_infinite f) x)\<rparr>))"

definition fsum :: "pyfloat list \<Rightarrow> pyfloat res" where
  "fsum xs =
     rbind (rfold fsum_step \<lparr>fs_partials = [], fs_special = Fin 0, fs_infinite = Fin 0\<rparr> xs) (\<lambda>f.
       if \<not> feq (fs_special f) (Fin 0)
       then (if fs_infinite f = FNaN then Inl (ValueError ''-inf + inf in fsum'') else Inr (fs_special f))
       else (case rev (fs_partials f) of [] \<Rightarrow> Inr (Fin 0) | hi # ys \<Rightarrow> Inr (fsum_tail hi ys)))"

text \<open>\<open>statistics.fmean\<close> and \<open>statistics.stdev\<close> of a list that is long enough; the variance is exact.\<close>

definition fmean :: "pyfloat list \<Rightarrow> pyfloat res" where
  "fmean xs = rbind (fsum xs) (\<lambda>total. rbind (float_of_int (int (length xs))) (fdiv total))"

fun fin_value :: "pyfloat \<Rightarrow> rat" where
  "fin_value (Fin x) = x"
| "fin_value _ = 0"

definition stdev :: "pyfloat list \<Rightarrow> pyfloat res" where
  "stdev xs =
     (if list_all isfinite xs
      then let vs = map fin_value xs; n = of_nat (length xs); sx = sum_list vs; sxx = sum_list (map (\<lambda>v. v * v) vs)
           in fsqrt (Fin ((n * sxx - sx * sx) / n / (n - 1)))
      else Inl (CustomError ''AttributeError'' ''float object has no attribute numerator''))"

definition observe :: "(int \<times> pyfloat) list \<Rightarrow> int \<times> pyfloat \<Rightarrow> (int \<times> pyfloat) list" where
  "observe obs p = (if obs \<noteq> [] \<and> fst (last obs) = fst p then butlast obs @ [p] else obs @ [p])"

fun period_returns :: "pyfloat \<Rightarrow> pyfloat list \<Rightarrow> pyfloat list res" where
  "period_returns prev [] = Inr []"
| "period_returns prev (x # xs) =
     (if flt (Fin 0) prev
      then rbind (fdiv x prev) (\<lambda>q. rbind (period_returns x xs) (\<lambda>rs. Inr (fsub q (Fin 1) # rs)))
      else period_returns x xs)"

definition ratio_of :: "pyfloat \<Rightarrow> pyfloat \<Rightarrow> int \<Rightarrow> pyfloat res" where
  "ratio_of mean deviation n =
     (if flt (Fin 0) deviation
      then rbind (fdiv mean deviation) (\<lambda>q. rbind (float_of_int n) (\<lambda>m. rbind (fsqrt m) (\<lambda>r. Inr (fmul q r))))
      else Inr (Fin 0))"

definition risk_adjusted_ratios :: "(int \<times> pyfloat) list \<Rightarrow> pyfloat \<Rightarrow> (pyfloat \<times> pyfloat) res" where
  "risk_adjusted_ratios curve initial =
     (let obs = foldl observe [] curve
      in if length obs < 2 then Inr (Fin 0, Fin 0)
         else rbind (period_returns initial (map snd obs)) (\<lambda>returns.
           if length returns < 2 then Inr (Fin 0, Fin 0)
           else rbind (fmean returns) (\<lambda>mean.
                rbind (stdev returns) (\<lambda>deviation.
                rbind (ratio_of mean deviation (int (length returns))) (\<lambda>sharpe.
                rbind (fmean (map (\<lambda>v. fmul (py_min (Fin 0) v) (py_min (Fin 0) v)) returns)) (\<lambda>variance.
                rbind (fsqrt variance) (\<lambda>downside.
                rbind (ratio_of mean downside (int (length returns))) (\<lambda>sortino. Inr (sharpe, sortino)))))))))"

definition profit_factor :: "pyfloat list \<Rightarrow> pyfloat res" where
  "profit_factor pnls =
     (let gross_profit = py_sum (filter (flt (Fin 0)) pnls);
          gross_loss = fabs (py_sum (filter (\<lambda>v. flt v (Fin 0)) pnls))
      in if feq gross_loss (Fin 0) then Inr (if flt (Fin 0) gross_profit then gross_profit else Fin 0)
         else fdiv gross_profit gross_loss)"

definition drawdown_step :: "pyfloat \<times> pyfloat \<Rightarrow> pyfloat \<Rightarrow> (pyfloat \<times> pyfloat) res" where
  "drawdown_step acc equity =
     (let peak = py_max (fst acc) equity
      in rbind (fdiv (fsub peak equity) peak) (\<lambda>q. Inr (peak, py_max (snd acc) (fmul q (Fin 100)))))"

definition maximum_drawdown_percent :: "pyfloat \<Rightarrow> pyfloat list \<Rightarrow> pyfloat res" where
  "maximum_drawdown_percent initial equities =
     rbind (rfold drawdown_step (initial, Fin 0) equities) (\<lambda>acc. Inr (snd acc))"

definition bt_ending_equity :: "'s bt_state \<Rightarrow> pyfloat" where
  "bt_ending_equity b =
     fadd (bs_cash b) (py_sum (map (\<lambda>(_, p). fmul (bp_quantity p)
        (case map_of (bs_last_events b) (bp_symbol p) of Some e \<Rightarrow> me_bid e | None \<Rightarrow> bp_entry_price p))
        (bs_positions b)))"

definition bt_result_of :: "bt_config \<Rightarrow> 's bt_state \<Rightarrow> bt_result res" where
  "bt_result_of c b =
     (let ending = bt_ending_equity b; net = fsub ending (bc_initial_cash c)
      in rbind (risk_adjusted_ratios (bs_equity_curve b) (bc_initial_cash c)) (\<lambda>(sharpe, sortino).
         rbind (profit_factor (bs_closed_pnls b)) (\<lambda>factor.
         rbind (fdiv net (bc_initial_cash c)) (\<lambda>ret.
         rbind (maximum_drawdown_percent (bc_initial_cash c) (map snd (bs_equity_curve b))) (\<lambda>drawdown.
           Inr \<lparr>br_initial_cash = round_to 8 (bc_initial_cash c), br_ending_equity = round_to 8 ending,
                br_net_pnl = round_to 8 net, br_return_percent = round_to 8 (fmul ret (Fin 100)),
                br_max_drawdown_percent = round_to 8 drawdown, br_total_fees = round_to 8 (bs_total_fees b),
                br_total_slippage_cost = round_to 8 (bs_total_slippage b),
                br_trade_count = int (length (bs_fills b)), br_winning_closed_trades = bs_winning_closed b,
                br_losing_closed_trades = bs_losing_closed b, br_fills = bs_fills b,
                br_equity_curve = bs_equity_curve b, br_event_count = bs_event_count b,
                br_closed_trade_count = int (length (bs_closed_pnls b)),
                br_pending_signals_unfilled = int (length (bs_pending b)),
                br_total_funding_cost = round_to 8 (bs_total_funding b),
                br_gross_trading_pnl = round_to 8 (bs_gross_trading_pnl b), br_sharpe_ratio = round_to 8 sharpe,
                br_sortino_ratio = round_to 8 sortino, br_profit_factor = round_to 8 factor,
                br_exposure_time_percent = round_to 8 (if bs_event_count b = 0 then Fin 0
                  else fmul (rnd64 (of_int (bs_exposed_events b) / of_int (bs_event_count b))) (Fin 100)),
                br_funding_payments = bs_funding_payments b\<rparr>)))))"

definition backtest_run ::
  "bt_config \<Rightarrow> 's bt_strategy \<Rightarrow> 's \<Rightarrow> market_event list \<Rightarrow> bt_result res" where
  "backtest_run c on_market s0 events =
     rbind (rfold (bt_step c on_market) (bt_start c s0) events) (\<lambda>b.
     rbind (bt_finalize c b) (bt_result_of c))"

end
