(* ===== verification/Walk_Windows.thy ===== *)
theory Walk_Windows
  imports Py_Value
begin

text \<open>
  \<open>_walk_forward_slices\<close> of \<open>trading_core/backtest.py\<close>: the training and test windows of a
  chronological evaluation, as index ranges over the timestamps of the events. Boundaries lie between batches of simultaneous events, so
  that a window never splits a timestamp. The generator of the windows is a loop with fuel; one
  step per event is enough, since every window starts at least one event after the previous one.
\<close>

section \<open>Windows\<close>

record window =
  wn_train_start :: int
  wn_train_end :: int
  wn_test_start :: int
  wn_test_end :: int

definition batch_boundaries :: "int list \<Rightarrow> int list" where
  "batch_boundaries ts =
     [0] @ map int (filter (\<lambda>i. ts ! (i - 1) \<noteq> ts ! i) [1..<length ts]) @ [int (length ts)]"

text \<open>\<open>boundaries[bisect_left(boundaries, i)]\<close>.\<close>

definition ceil_boundary :: "int list \<Rightarrow> int \<Rightarrow> int res" where
  "ceil_boundary bs i =
     (case dropWhile (\<lambda>b. b < i) bs of b # _ \<Rightarrow> Inr b
      | [] \<Rightarrow> Inl (CustomError ''IndexError'' ''list index out of range''))"

text \<open>\<open>boundaries[bisect_right(boundaries, i) - 1]\<close>; the index \<open>-1\<close> is the last boundary.\<close>

definition floor_boundary :: "int list \<Rightarrow> int \<Rightarrow> int" where
  "floor_boundary bs i =
     (let below = takeWhile (\<lambda>b. b \<le> i) bs in if below = [] then last bs else last below)"

record window_sizes =
  ws_train_events :: int
  ws_test_events :: int
  ws_step_events :: int
  ws_embargo_events :: int
  ws_anchored :: bool

fun window_loop :: "nat \<Rightarrow> window_sizes \<Rightarrow> int list \<Rightarrow> int \<Rightarrow> int \<Rightarrow> window list res option" where
  "window_loop 0 z bs n test_start = None"
| "window_loop (Suc k) z bs n test_start =
     (if \<not> test_start + ws_test_events z \<le> n then Some (Inr [])
      else case ceil_boundary bs (test_start + ws_test_events z) of Inl e \<Rightarrow> Some (Inl e)
      | Inr test_end \<Rightarrow>
          let train_end = floor_boundary bs (test_start - ws_embargo_events z);
              train_start = (if ws_anchored z then 0 else floor_boundary bs (train_end - ws_train_events z));
              w = \<lparr>wn_train_start = train_start, wn_train_end = train_end, wn_test_start = test_start,
                   wn_test_end = test_end\<rparr>;
              next_start = max test_end (test_start + ws_step_events z)
          in if next_start + ws_test_events z > n then Some (Inr [w])
             else case ceil_boundary bs next_start of Inl e \<Rightarrow> Some (Inl e)
             | Inr start \<Rightarrow> map_option (\<lambda>r. rbind r (\<lambda>ws. Inr (w # ws))) (window_loop k z bs n start))"

definition walk_forward_slices :: "window_sizes \<Rightarrow> int list \<Rightarrow> window list res option" where
  "walk_forward_slices z ts =
     (let bs = batch_boundaries ts; n = int (length ts)
      in if ws_train_events z + ws_embargo_events z + ws_test_events z > n then Some (Inr [])
         else case ceil_boundary bs (ws_train_events z) of Inl e \<Rightarrow> Some (Inl e)
         | Inr first_train_end \<Rightarrow>
             if first_train_end + ws_embargo_events z + ws_test_events z > n then Some (Inr [])
             else case ceil_boundary bs (first_train_end + ws_embargo_events z) of Inl e \<Rightarrow> Some (Inl e)
             | Inr test_start \<Rightarrow> window_loop (Suc (length ts)) z bs n test_start)"

section \<open>Boundaries\<close>

lemma batch_boundaries_set:
  assumes "ts \<noteq> []"
  shows "b \<in> set (batch_boundaries ts) \<longleftrightarrow>
    0 \<le> b \<and> b \<le> int (length ts) \<and> (0 < b \<and> b < int (length ts) \<longrightarrow> ts ! (nat b - 1) \<noteq> ts ! nat b)"
proof -
  have "b \<in> int ` {i. 1 \<le> i \<and> i < length ts \<and> ts ! (i - 1) \<noteq> ts ! i} \<longleftrightarrow>
    0 < b \<and> b < int (length ts) \<and> ts ! (nat b - 1) \<noteq> ts ! nat b"
    by (auto simp: image_iff intro!: exI [of _ "nat b"])
  moreover have "set (batch_boundaries ts) = {0, int (length ts)} \<union> int ` {i. 1 \<le> i \<and> i < length ts \<and> ts ! (i - 1) \<noteq> ts ! i}"
    by (auto simp: batch_boundaries_def)
  ultimately show ?thesis by auto
qed

lemma batch_boundaries_sorted: "sorted (batch_boundaries ts)"
proof -
  have "sorted (map int (filter P [1..<n]))" for P n
    by (simp add: sorted_map sorted_wrt_filter sorted_wrt_mono_rel [OF _ sorted_wrt_upt])
  then show ?thesis by (auto simp: batch_boundaries_def sorted_append)
qed

lemma ceil_boundary_Inr:
  assumes "i \<le> int (length ts)"
  obtains b where "ceil_boundary (batch_boundaries ts) i = Inr b" "b \<in> set (batch_boundaries ts)" "i \<le> b"
proof (cases "dropWhile (\<lambda>b. b < i) (batch_boundaries ts)")
  case Nil
  then have "\<forall>b \<in> set (batch_boundaries ts). b < i" by (simp add: dropWhile_eq_Nil_conv)
  moreover have "int (length ts) \<in> set (batch_boundaries ts)" by (simp add: batch_boundaries_def)
  ultimately show ?thesis using assms by fastforce
next
  case (Cons b rest)
  then have "b \<in> set (batch_boundaries ts)" by (metis list.set_intros(1) set_dropWhileD)
  moreover have "\<not> b < i" using Cons by (metis hd_dropWhile list.distinct(1) list.sel(1))
  ultimately show ?thesis using that Cons by (simp add: ceil_boundary_def)
qed

lemma le_last_sorted: "sorted xs \<Longrightarrow> (b :: int) \<in> set xs \<Longrightarrow> b \<le> last xs"
  by (induction xs) (auto split: if_splits)

lemma floor_boundary_facts:
  assumes "0 \<le> i"
  shows "floor_boundary (batch_boundaries ts) i \<in> set (batch_boundaries ts)" "floor_boundary (batch_boundaries ts) i \<le> i"
    "b \<in> set (batch_boundaries ts) \<Longrightarrow> b \<le> i \<Longrightarrow> b \<le> floor_boundary (batch_boundaries ts) i"
proof -
  let ?bs = "batch_boundaries ts" and ?t = "takeWhile (\<lambda>b. b \<le> i) (batch_boundaries ts)"
  have ne: "?t \<noteq> []" using assms by (simp add: batch_boundaries_def)
  then have fl: "floor_boundary ?bs i = last ?t" by (simp add: floor_boundary_def)
  have mem: "last ?t \<in> set ?t" using ne by (rule last_in_set)
  show "floor_boundary ?bs i \<in> set ?bs" "floor_boundary ?bs i \<le> i"
    unfolding fl using set_takeWhileD [OF mem] by auto
  assume b: "b \<in> set ?bs" "b \<le> i"
  have "b \<in> set ?t"
  proof (rule ccontr)
    assume "b \<notin> set ?t"
    moreover have "set ?bs = set ?t \<union> set (dropWhile (\<lambda>b. b \<le> i) ?bs)" by (metis set_append takeWhile_dropWhile_id)
    ultimately have bd: "b \<in> set (dropWhile (\<lambda>b. b \<le> i) ?bs)" using b(1) by blast
    then obtain c rest where c: "dropWhile (\<lambda>b. b \<le> i) ?bs = c # rest" by (cases "dropWhile (\<lambda>b. b \<le> i) ?bs") auto
    then have "\<not> c \<le> i" by (metis hd_dropWhile list.distinct(1) list.sel(1))
    moreover have "sorted (c # rest)" using c batch_boundaries_sorted by (metis sorted_dropWhile)
    then have "c \<le> b" using bd c by auto
    ultimately show False using b(2) by simp
  qed
  moreover have "sorted ?t" using batch_boundaries_sorted by (rule sorted_takeWhile)
  ultimately show "b \<le> floor_boundary ?bs i" unfolding fl by (rule le_last_sorted [rotated])
qed

section \<open>The windows\<close>

definition window_ok :: "window_sizes \<Rightarrow> int list \<Rightarrow> window \<Rightarrow> bool" where
  "window_ok z ts w \<longleftrightarrow>
     set [wn_train_start w, wn_train_end w, wn_test_start w, wn_test_end w] \<subseteq> set (batch_boundaries ts) \<and>
     0 \<le> wn_train_start w \<and> wn_train_start w + ws_train_events z \<le> wn_train_end w \<and>
     wn_train_end w + ws_embargo_events z \<le> wn_test_start w \<and>
     wn_test_start w + ws_test_events z \<le> wn_test_end w \<and> wn_test_end w \<le> int (length ts)"

lemma first_window_ok:
  assumes "ts \<noteq> []" "0 < ws_train_events z" "0 \<le> ws_embargo_events z"
    and "f \<in> set (batch_boundaries ts)" "ws_train_events z \<le> f" "f + ws_embargo_events z \<le> s"
    and "s \<in> set (batch_boundaries ts)" "e \<in> set (batch_boundaries ts)" "s + ws_test_events z \<le> e"
    and "te = floor_boundary (batch_boundaries ts) (s - ws_embargo_events z)"
    and "tb = (if ws_anchored z then 0 else floor_boundary (batch_boundaries ts) (te - ws_train_events z))"
  shows "window_ok z ts \<lparr>wn_train_start = tb, wn_train_end = te, wn_test_start = s, wn_test_end = e\<rparr>"
proof -
  have s0: "0 \<le> s - ws_embargo_events z" using assms(2,5,6) by simp
  note te = floor_boundary_facts [OF s0, where ts = ts]
  have fte: "f \<le> te" using te(3) [OF assms(4)] assms(6,10) by simp
  then have t0: "0 \<le> te - ws_train_events z" using assms(5) by simp
  note tb = floor_boundary_facts [OF t0, where ts = ts]
  have "0 \<in> set (batch_boundaries ts)" by (simp add: batch_boundaries_def)
  moreover have "0 \<le> floor_boundary (batch_boundaries ts) (te - ws_train_events z)"
    using tb(3) [OF calculation] t0 by simp
  moreover have "e \<le> int (length ts)" using assms(1,8) by (simp add: batch_boundaries_set)
  ultimately show ?thesis
    using te tb t0 assms(7-11) by (auto simp: window_ok_def)
qed

lemma window_loop_returns:
  assumes "ts \<noteq> []" "0 < ws_train_events z" "0 < ws_test_events z" "0 \<le> ws_embargo_events z"
    and "f \<in> set (batch_boundaries ts)" "ws_train_events z \<le> f" "f + ws_embargo_events z \<le> s"
    and "s \<in> set (batch_boundaries ts)" "int (length ts) < s + int k"
  shows "\<exists>ws. window_loop k z (batch_boundaries ts) (int (length ts)) s = Some (Inr ws) \<and>
    (\<forall>w \<in> set ws. window_ok z ts w \<and> s \<le> wn_test_start w) \<and>
    sorted_wrt (\<lambda>v w. wn_test_end v \<le> wn_test_start w \<and> wn_test_start v + ws_step_events z \<le> wn_test_start w) ws"
  using assms(7-9)
proof (induction k arbitrary: s)
  case 0
  then show ?case using assms(1) by (auto simp: batch_boundaries_set)
next
  case (Suc k)
  let ?n = "int (length ts)" and ?bs = "batch_boundaries ts"
  show ?case
  proof (cases "s + ws_test_events z \<le> ?n")
    case True
    obtain e where e: "ceil_boundary ?bs (s + ws_test_events z) = Inr e" "e \<in> set ?bs" "s + ws_test_events z \<le> e"
      using ceil_boundary_Inr [OF True] by blast
    let ?te = "floor_boundary ?bs (s - ws_embargo_events z)"
    let ?tb = "if ws_anchored z then 0 else floor_boundary ?bs (?te - ws_train_events z)"
    let ?w = "\<lparr>wn_train_start = ?tb, wn_train_end = ?te, wn_test_start = s, wn_test_end = e\<rparr>"
    let ?next = "max e (s + ws_step_events z)"
    note ok = first_window_ok [OF assms(1,2,4,5,6) Suc.prems(1,2) e(2,3) refl refl]
    show ?thesis
    proof (cases "?next + ws_test_events z > ?n")
      case True
      then show ?thesis using e(1) ok \<open>s + ws_test_events z \<le> ?n\<close> by (simp add: Let_def)
    next
      case False
      then have "?next \<le> ?n" using assms(3) by linarith
      then obtain s' where s': "ceil_boundary ?bs ?next = Inr s'" "s' \<in> set ?bs" "?next \<le> s'"
        using ceil_boundary_Inr by blast
      have step: "f + ws_embargo_events z \<le> s'" "?n < s' + int k" using Suc.prems s'(3) e(3) assms(3) by simp_all
      from Suc.IH [OF step(1) s'(2) step(2)] obtain ws where ws:
        "window_loop k z ?bs ?n s' = Some (Inr ws)" "\<forall>w \<in> set ws. window_ok z ts w \<and> s' \<le> wn_test_start w"
        "sorted_wrt (\<lambda>v w. wn_test_end v \<le> wn_test_start w \<and> wn_test_start v + ws_step_events z \<le> wn_test_start w) ws"
        by blast
      have "window_loop (Suc k) z ?bs ?n s = Some (Inr (?w # ws))"
        using False True e(1) s'(1) ws(1) by (simp add: Let_def)
      moreover have "s \<le> s'" using s'(3) e(3) assms(3) by simp
      ultimately show ?thesis using ok ws(2,3) s'(3) by fastforce
    qed
  qed simp
qed

lemma boundary_separates:
  assumes "sorted ts" "b \<in> set (batch_boundaries ts)" "int i < b" "b \<le> int j" "j < length ts"
  shows "ts ! i < ts ! j"
proof -
  have ne: "ts \<noteq> []" using assms(5) by auto
  have b: "0 < b" "b < int (length ts)" using assms(3-5) by simp_all
  then have "ts ! (nat b - 1) \<noteq> ts ! nat b" using assms(2) by (simp add: batch_boundaries_set [OF ne])
  moreover have "ts ! (nat b - 1) \<le> ts ! nat b" using assms(1) b by (intro sorted_nth_mono) auto
  moreover have "ts ! i \<le> ts ! (nat b - 1)" using assms(1,3) b by (intro sorted_nth_mono) auto
  moreover have "ts ! nat b \<le> ts ! j" using assms(1,4,5) b by (intro sorted_nth_mono) auto
  ultimately show ?thesis by simp
qed

text \<open>A boundary of a list of times: no event before it is simultaneous with one from it on.\<close>

definition splits_times :: "int list \<Rightarrow> int \<Rightarrow> bool" where
  "splits_times ts b = (\<forall>i j. int i < b \<and> b \<le> int j \<and> j < length ts \<longrightarrow> ts ! i < ts ! j)"

lemma window_ok_splits:
  assumes "sorted ts" "window_ok z ts w"
  shows "\<forall>b \<in> {wn_train_start w, wn_train_end w, wn_test_start w, wn_test_end w}. splits_times ts b"
proof
  fix b
  assume "b \<in> {wn_train_start w, wn_train_end w, wn_test_start w, wn_test_end w}"
  then have "b \<in> set (batch_boundaries ts)" using assms(2) by (auto simp: window_ok_def)
  with boundary_separates [OF assms(1)] show "splits_times ts b" by (simp add: splits_times_def)
qed

text \<open>
  C23. The windows never leak: for chronological events and positive sizes the generator ends; every
  window has the training and test rows it asked for, the training part ends before the embargo and
  the test part; every training event is strictly older than every test event, and none of the four
  boundaries separates simultaneous events; and the test parts of successive windows do not overlap
  and are a full step apart.
\<close>

theorem windows_never_leak:
  assumes "sorted ts" "0 < ws_train_events z" "0 < ws_test_events z" "0 \<le> ws_embargo_events z"
  shows "\<exists>ws. walk_forward_slices z ts = Some (Inr ws) \<and>
    (\<forall>w \<in> set ws. 0 \<le> wn_train_start w \<and> wn_train_start w + ws_train_events z \<le> wn_train_end w \<and>
       wn_train_end w + ws_embargo_events z \<le> wn_test_start w \<and>
       wn_test_start w + ws_test_events z \<le> wn_test_end w \<and> wn_test_end w \<le> int (length ts) \<and>
       (\<forall>b \<in> {wn_train_start w, wn_train_end w, wn_test_start w, wn_test_end w}. splits_times ts b) \<and>
       (\<forall>i j. int i < wn_train_end w \<and> wn_test_start w \<le> int j \<and> int j < wn_test_end w \<longrightarrow> ts ! i < ts ! j)) \<and>
    sorted_wrt (\<lambda>v w. wn_test_end v \<le> wn_test_start w \<and> wn_test_start v + ws_step_events z \<le> wn_test_start w) ws"
proof -
  let ?n = "int (length ts)" and ?bs = "batch_boundaries ts"
  let ?apart = "sorted_wrt (\<lambda>v w. wn_test_end v \<le> wn_test_start w \<and> wn_test_start v + ws_step_events z \<le> wn_test_start w)"
  have "\<exists>ws. walk_forward_slices z ts = Some (Inr ws) \<and> (\<forall>w \<in> set ws. window_ok z ts w) \<and> ?apart ws"
  proof (cases "ws_train_events z + ws_embargo_events z + ws_test_events z > ?n")
    case False
    then have train: "ws_train_events z \<le> ?n" and ne: "ts \<noteq> []" using assms(2-4) by auto
    obtain f where f: "ceil_boundary ?bs (ws_train_events z) = Inr f" "f \<in> set ?bs" "ws_train_events z \<le> f"
      using ceil_boundary_Inr [OF train] by blast
    show ?thesis
    proof (cases "f + ws_embargo_events z + ws_test_events z > ?n")
      case room: False
      then have "f + ws_embargo_events z \<le> ?n" using assms(3) by linarith
      then obtain s where s: "ceil_boundary ?bs (f + ws_embargo_events z) = Inr s" "s \<in> set ?bs" "f + ws_embargo_events z \<le> s"
        using ceil_boundary_Inr by blast
      have "?n < s + int (Suc (length ts))" using s(3) f(3) assms(2,4) by simp
      from window_loop_returns [OF ne assms(2-4) f(2,3) s(3,2) this]
      show ?thesis using False room f(1) s(1) unfolding walk_forward_slices_def Let_def by (auto simp del: window_loop.simps)
    qed (use False f(1) in \<open>simp add: walk_forward_slices_def\<close>)
  qed (simp add: walk_forward_slices_def)
  then obtain ws where ws: "walk_forward_slices z ts = Some (Inr ws)" "\<forall>w \<in> set ws. window_ok z ts w" "?apart ws" by blast
  have "ts ! i < ts ! j" if "w \<in> set ws" "int i < wn_train_end w" "wn_test_start w \<le> int j" "int j < wn_test_end w" for w i j
  proof -
    have "wn_train_end w \<in> set ?bs" "wn_train_end w \<le> wn_test_start w" "wn_test_end w \<le> ?n"
      using ws(2) that(1) assms(4) by (auto simp: window_ok_def)
    then show ?thesis using boundary_separates [OF assms(1), of "wn_train_end w" i j] that by simp
  qed
  moreover have "\<forall>w \<in> set ws. \<forall>b \<in> {wn_train_start w, wn_train_end w, wn_test_start w, wn_test_end w}. splits_times ts b"
    using ws(2) window_ok_splits [OF assms(1)] by blast
  moreover have "\<forall>w \<in> set ws. 0 \<le> wn_train_start w \<and> wn_train_start w + ws_train_events z \<le> wn_train_end w \<and>
       wn_train_end w + ws_embargo_events z \<le> wn_test_start w \<and>
       wn_test_start w + ws_test_events z \<le> wn_test_end w \<and> wn_test_end w \<le> int (length ts)"
    using ws(2) by (simp add: window_ok_def)
  ultimately show ?thesis using ws(1,3) by blast
qed

definition sample_sizes :: window_sizes where
  "sample_sizes = \<lparr>ws_train_events = 2, ws_test_events = 1, ws_step_events = 1, ws_embargo_events = 1, ws_anchored = False\<rparr>"

lemma sample_windows:
  "map_option (\<lambda>r. case r of Inr ws \<Rightarrow> map (\<lambda>w. [wn_train_start w, wn_train_end w, wn_test_start w, wn_test_end w]) ws | Inl _ \<Rightarrow> [])
     (walk_forward_slices sample_sizes [1, 1, 2, 3, 3, 4]) = Some [[0, 2, 3, 5], [0, 3, 5, 6]]"
  by code_simp

theorem windows_never_leak_witness:
  "\<exists>ws. walk_forward_slices sample_sizes [1, 1, 2, 3, 3, 4] = Some (Inr ws) \<and>
    (\<forall>w \<in> set ws. wn_train_end w + 1 \<le> wn_test_start w)"
proof -
  have "sorted [1, 1, 2, 3, 3, 4 :: int]" by simp
  from windows_never_leak [OF this, of sample_sizes] show ?thesis
    by (fastforce simp: sample_sizes_def simp del: insert_iff)
qed

end
