(* ===== verification/Walk_Forward.thy ===== *)
theory Walk_Forward
  imports Backtest Walk_Windows
begin

text \<open>
  \<open>WalkForwardBacktester\<close> of \<open>trading_core/backtest.py\<close> and \<open>trading_core/purged_walk_forward.py\<close>: a
  strategy is built from each training window and evaluated on the test window after it. The factory
  of strategies is an argument of \<open>run\<close>: here \<open>factory\<close> gives the initial state of the strategy for
  a training window and its index. The two evaluators differ in
  their configuration and in the embargo, which the first has not.
\<close>

section \<open>Configuration\<close>

record wf_config =
  wf_sizes :: window_sizes
  wf_chain_capital :: bool
  wf_minimum_windows :: int

definition wf_config_post_init :: "wf_config \<Rightarrow> unit res" where
  "wf_config_post_init w =
     (let z = wf_sizes w
      in if ws_train_events z \<le> 0 then Inl (ValueError ''train_events must be positive'')
         else if ws_test_events z \<le> 0 then Inl (ValueError ''test_events must be positive'')
         else if ws_step_events z \<le> 0 then Inl (ValueError ''step_events must be positive'')
         else if ws_step_events z < ws_test_events z
         then Inl (ValueError ''step_events must be >= test_events for non-overlapping out-of-sample windows'')
         else if wf_minimum_windows w \<le> 0 then Inl (ValueError ''minimum_windows must be positive'')
         else Inr ())"

definition purged_fields :: "wf_config \<Rightarrow> (string \<times> int) list" where
  "purged_fields w =
     [(''train_events'', ws_train_events (wf_sizes w)), (''test_events'', ws_test_events (wf_sizes w)),
      (''step_events'', ws_step_events (wf_sizes w)), (''minimum_windows'', wf_minimum_windows w)]"

definition check_purged_field :: "unit \<Rightarrow> string \<times> int \<Rightarrow> unit res" where
  "check_purged_field u f =
     (if snd f \<le> 0 then Inl (ValueError (''purged walk-forward '' @ fst f @ '' must be a positive integer''))
      else Inr ())"

definition purged_config_post_init :: "wf_config \<Rightarrow> unit res" where
  "purged_config_post_init w =
     rbind (rfold check_purged_field () (purged_fields w)) (\<lambda>_.
       if ws_embargo_events (wf_sizes w) < 0
       then Inl (ValueError ''purged walk-forward embargo_events must be a non-negative integer'')
       else if ws_step_events (wf_sizes w) < ws_test_events (wf_sizes w)
       then Inl (ValueError ''purged walk-forward step_events must be >= test_events to prevent OOS overlap'')
       else Inr ())"

section \<open>Windows\<close>

record wf_window =
  ww_index :: nat
  ww_train_start_ms :: int
  ww_train_end_ms :: int
  ww_test_start_ms :: int
  ww_test_end_ms :: int
  ww_train_event_count :: int
  ww_test_event_count :: int
  ww_result :: bt_result

record wf_result =
  wr_windows :: "wf_window list"
  wr_initial_cash :: pyfloat
  wr_ending_equity :: pyfloat
  wr_net_pnl :: pyfloat
  wr_return_percent :: pyfloat
  wr_profitable_windows :: int
  wr_profitable_window_percent :: pyfloat
  wr_max_drawdown_percent :: pyfloat
  wr_total_fees :: pyfloat
  wr_total_slippage_cost :: pyfloat
  wr_total_funding_cost :: pyfloat

definition check_event :: "string \<Rightarrow> int \<times> string \<Rightarrow> market_event \<Rightarrow> (int \<times> string) res" where
  "check_event label prev e =
     rbind (validate_market_event e) (\<lambda>_.
       if key_le (me_timestamp_ms e, me_symbol e) prev
       then Inl (ValueError (label @ '' events must be strictly increasing by timestamp and symbol''))
       else Inr (me_timestamp_ms e, me_symbol e))"

text \<open>\<open>ordered[slice(a, b)]\<close> for indices within the list.\<close>

definition event_slice :: "market_event list \<Rightarrow> int \<Rightarrow> int \<Rightarrow> market_event list" where
  "event_slice events a b = take (nat (b - a)) (drop (nat a) events)"

definition window_run ::
  "bt_config \<Rightarrow> wf_config \<Rightarrow> 's bt_strategy \<Rightarrow> (market_event list \<Rightarrow> nat \<Rightarrow> 's res) \<Rightarrow> market_event list \<Rightarrow>
   pyfloat \<times> wf_window list \<Rightarrow> window \<Rightarrow> (pyfloat \<times> wf_window list) res" where
  "window_run c w on_market factory events acc win =
     (let train = event_slice events (wn_train_start win) (wn_train_end win);
          test = event_slice events (wn_test_start win) (wn_test_end win);
          index = length (snd acc)
      in rbind (factory train index) (\<lambda>s0.
         let cfg = c\<lparr>bc_initial_cash := (if wf_chain_capital w then fst acc else bc_initial_cash c),
                     bc_force_close_at_end := True\<rparr>
         in rbind (backtester_init cfg) (\<lambda>_.
            rbind (backtest_run cfg on_market s0 test) (\<lambda>result.
              if train = [] \<or> test = [] then Inl (CustomError ''IndexError'' ''tuple index out of range'')
              else Inr (if wf_chain_capital w then br_ending_equity result else fst acc,
                   snd acc @ [\<lparr>ww_index = index, ww_train_start_ms = me_timestamp_ms (hd train),
                     ww_train_end_ms = me_timestamp_ms (last train), ww_test_start_ms = me_timestamp_ms (hd test),
                     ww_test_end_ms = me_timestamp_ms (last test), ww_train_event_count = int (length train),
                     ww_test_event_count = int (length test), ww_result = result\<rparr>])))))"

text \<open>The equities of the stitched curve, window by window.\<close>

fun stitched_equities :: "bool \<Rightarrow> pyfloat \<Rightarrow> wf_window list \<Rightarrow> pyfloat list" where
  "stitched_equities chain acc [] = []"
| "stitched_equities chain acc (w # ws) =
     (let r = ww_result w; shift = (if chain then Fin 0 else acc)
      in [fadd (br_initial_cash r) shift] @ map (\<lambda>p. fadd (snd p) shift) (br_equity_curve r) @
         [fadd (br_ending_equity r) shift] @ stitched_equities chain (fadd acc (br_net_pnl r)) ws)"

definition walk_forward_drawdown_percent :: "wf_window list \<Rightarrow> pyfloat \<Rightarrow> bool \<Rightarrow> pyfloat res" where
  "walk_forward_drawdown_percent windows initial chain =
     rbind (maximum_drawdown_percent initial (stitched_equities chain (Fin 0) windows)) (\<lambda>d. Inr (round_to 8 d))"

definition wf_summary :: "bt_config \<Rightarrow> wf_config \<Rightarrow> wf_window list \<Rightarrow> wf_result res" where
  "wf_summary c w windows =
     (let initial = bc_initial_cash c;
          results = map ww_result windows;
          ending = (if wf_chain_capital w then br_ending_equity (last results)
                    else fadd initial (py_sum (map br_net_pnl results)));
          net = fsub ending initial;
          profitable = int (length (filter (\<lambda>r. flt (Fin 0) (br_net_pnl r)) results))
      in rbind (fdiv net initial) (\<lambda>ret.
         rbind (walk_forward_drawdown_percent windows initial (wf_chain_capital w)) (\<lambda>drawdown.
           Inr \<lparr>wr_windows = windows, wr_initial_cash = initial, wr_ending_equity = round_to 8 ending,
                wr_net_pnl = round_to 8 net, wr_return_percent = round_to 8 (fmul ret (Fin 100)),
                wr_profitable_windows = profitable,
                wr_profitable_window_percent =
                  round_to 8 (fmul (rnd64 (of_int profitable / of_int (int (length windows)))) (Fin 100)),
                wr_max_drawdown_percent = drawdown,
                wr_total_fees = round_to 8 (py_sum (map br_total_fees results)),
                wr_total_slippage_cost = round_to 8 (py_sum (map br_total_slippage_cost results)),
                wr_total_funding_cost = round_to 8 (py_sum (map br_total_funding_cost results))\<rparr>)))"

text \<open>The common body; the outer option is the fuel of the window generator.\<close>

definition evaluate_windows ::
  "string \<Rightarrow> bt_config \<Rightarrow> wf_config \<Rightarrow> 's bt_strategy \<Rightarrow> (market_event list \<Rightarrow> nat \<Rightarrow> 's res) \<Rightarrow>
   market_event list \<Rightarrow> wf_result res option" where
  "evaluate_windows label c w on_market factory events =
     (if events = [] then Some (Inl (ValueError (label @ '' requires market events'')))
      else case rfold (check_event label) (0, []) events of Inl e \<Rightarrow> Some (Inl e)
      | Inr _ \<Rightarrow>
          map_option (\<lambda>slices.
            rbind slices (\<lambda>wins.
            rbind (rfold (window_run c w on_market factory events) (bc_initial_cash c, []) wins) (\<lambda>(cash, windows).
              if int (length windows) < wf_minimum_windows w
              then Inl (ValueError (''insufficient data for configured minimum '' @ label @ '' windows''))
              else wf_summary c w windows)))
            (walk_forward_slices (wf_sizes w) (map me_timestamp_ms events)))"

definition walk_forward_run ::
  "bt_config \<Rightarrow> wf_config \<Rightarrow> 's bt_strategy \<Rightarrow> (market_event list \<Rightarrow> nat \<Rightarrow> 's res) \<Rightarrow> market_event list \<Rightarrow>
   wf_result res option" where
  "walk_forward_run c w on_market factory events =
     (case wf_config_post_init w of Inl e \<Rightarrow> Some (Inl e)
      | Inr _ \<Rightarrow> evaluate_windows ''walk-forward'' c
          (w\<lparr>wf_sizes := (wf_sizes w)\<lparr>ws_embargo_events := 0\<rparr>\<rparr>) on_market factory events)"

definition purged_walk_forward_run ::
  "bt_config \<Rightarrow> wf_config \<Rightarrow> 's bt_strategy \<Rightarrow> (market_event list \<Rightarrow> nat \<Rightarrow> 's res) \<Rightarrow> market_event list \<Rightarrow>
   wf_result res option" where
  "purged_walk_forward_run c w on_market factory events =
     (case purged_config_post_init w of Inl e \<Rightarrow> Some (Inl e)
      | Inr _ \<Rightarrow> evaluate_windows ''purged walk-forward'' c w on_market factory events)"

end
