(* ===== verification/Backtest_Runs.thy ===== *)
theory Backtest_Runs
  imports Walk_Forward
begin

text \<open>
  What a simulated run guarantees. Its fills are round trips: per symbol a buy is followed by a sale of
  the same quantity before the next buy. And it never looks ahead: what it did up to an event does
  not depend on the events after it.
\<close>

section \<open>What one event adds\<close>

text \<open>Fills that an event may add to a run.\<close>

definition fill_at :: "market_event \<Rightarrow> bt_fill \<Rightarrow> bool" where
  "fill_at e f \<longleftrightarrow> bf_timestamp_ms f = me_timestamp_ms e \<and> bf_symbol f = me_symbol e \<and> \<not> bf_synthetic_finalization f"

definition adds :: "market_event \<Rightarrow> 's bt_state \<Rightarrow> 's bt_state \<Rightarrow> bool" where
  "adds e b b' \<longleftrightarrow> bs_equity_curve b' = bs_equity_curve b \<and> bs_previous_key b' = bs_previous_key b \<and>
     (\<exists>fs. bs_fills b' = bs_fills b @ fs \<and> list_all (fill_at e) fs)"

lemma adds_refl: "bs_equity_curve b' = bs_equity_curve b \<Longrightarrow> bs_previous_key b' = bs_previous_key b \<Longrightarrow>
    bs_fills b' = bs_fills b \<Longrightarrow> adds e b b'"
  by (simp add: adds_def)

lemma adds_trans: "adds e a b \<Longrightarrow> adds e b c \<Longrightarrow> adds e a c"
  unfolding adds_def by (metis append.assoc list_all_append)

lemma bt_buy_cases:
  assumes "bt_buy c e sg q t b = Inr b'"
  obtains "b' = b" | g x cost where "map_of (bs_positions b) (me_symbol e) = None" "b' = bt_bought e sg t g x cost b"
  using assms by (auto simp: bt_buy_def res_simps split: if_splits)

lemma bt_buy_adds: "bt_buy c e sg q t b = Inr b' \<Longrightarrow> adds e b b'"
  by (erule bt_buy_cases) (simp_all add: bt_bought_def adds_def fill_at_def bt_fill_of_def)

lemma bt_sell_adds: "bt_sell c e sg t b = Inr b' \<Longrightarrow> adds e b b'"
  by (auto simp: bt_sell_def bt_close_def Let_def res_simps adds_def fill_at_def bt_fill_of_def split: option.splits)

lemma bt_execute_adds: "bt_execute c e sg snap t b = Inr b' \<Longrightarrow> adds e b b'"
  by (auto simp: bt_execute_def bt_buy_adds bt_sell_adds split: trade_side.splits)

lemma bt_fund_adds: "bt_fund e b = Inr b' \<Longrightarrow> adds e b b'"
  by (auto simp: bt_fund_def bt_apply_funding_def Let_def res_simps split: option.splits if_splits intro!: adds_refl)

lemma adds_update:
  "adds e (b\<lparr>bs_pending := x\<rparr>) b' \<longleftrightarrow> adds e b b'" "adds e (b\<lparr>bs_strategy := y\<rparr>) b' \<longleftrightarrow> adds e b b'"
  "adds e b (b'\<lparr>bs_pending := x\<rparr>) \<longleftrightarrow> adds e b b'" "adds e b (b'\<lparr>bs_strategy := y\<rparr>) \<longleftrightarrow> adds e b b'"
  by (simp_all add: adds_def)

lemma adds_same [simp]: "adds e b b"
  by (simp add: adds_refl)

lemma bt_run_pending_adds: "bt_run_pending c e b = Inr b' \<Longrightarrow> adds e b b'"
  by (auto simp: bt_run_pending_def Let_def adds_update split: option.splits dest!: bt_execute_adds)

lemma bt_consult_adds: "bt_consult c f e b = Inr b' \<Longrightarrow> adds e b b'"
  by (auto simp: bt_consult_def Let_def res_simps adds_update split: option.splits if_splits
      dest!: bt_execute_adds)

lemma bt_step_effect:
  assumes "bt_step c f b e = Inr b'"
  shows "\<exists>fs x. bs_fills b' = bs_fills b @ fs \<and> list_all (fill_at e) fs \<and>
    bs_equity_curve b' = bs_equity_curve b @ [(me_timestamp_ms e, x)] \<and>
    bs_previous_key b' = (me_timestamp_ms e, me_symbol e) \<and> \<not> key_le (me_timestamp_ms e, me_symbol e) (bs_previous_key b)"
proof -
  from assms obtain b1 b2 b3 b4 where s: "bt_admit e b = Inr b1" "bt_fund e b1 = Inr b2" "bt_run_pending c e b2 = Inr b3"
    "bt_consult c f e b3 = Inr b4" "b' = bt_record e b4"
    by (auto simp: bt_step_def res_simps)
  have "adds e b1 b4"
    using bt_fund_adds [OF s(2)] bt_run_pending_adds [OF s(3)] bt_consult_adds [OF s(4)] adds_trans by blast
  moreover have "bs_fills b1 = bs_fills b" "bs_equity_curve b1 = bs_equity_curve b"
    "bs_previous_key b1 = (me_timestamp_ms e, me_symbol e)" "\<not> key_le (me_timestamp_ms e, me_symbol e) (bs_previous_key b)"
    using s(1) by (auto simp: bt_admit_def res_simps split: if_splits)
  ultimately show ?thesis unfolding s(5) by (auto simp: adds_def bt_record_def)
qed

section \<open>No look-ahead\<close>

lemma bt_run_effect:
  assumes "rfold (bt_step c f) b es = Inr b'"
  shows "\<exists>fs xs. bs_fills b' = bs_fills b @ fs \<and> bs_equity_curve b' = bs_equity_curve b @ xs \<and> length xs = length es \<and>
    (\<forall>x \<in> set fs. \<exists>e \<in> set es. fill_at e x)"
  using assms
proof (induction es arbitrary: b)
  case (Cons e es)
  then obtain b1 where b1: "bt_step c f b e = Inr b1" "rfold (bt_step c f) b1 es = Inr b'" by (auto simp: res_simps)
  obtain gs x where g: "bs_fills b1 = bs_fills b @ gs" "list_all (fill_at e) gs"
    "bs_equity_curve b1 = bs_equity_curve b @ [(me_timestamp_ms e, x)]" using bt_step_effect [OF b1(1)] by blast
  obtain fs xs where f: "bs_fills b' = bs_fills b1 @ fs" "bs_equity_curve b' = bs_equity_curve b1 @ xs" "length xs = length es"
    "\<forall>x \<in> set fs. \<exists>e \<in> set es. fill_at e x" using Cons.IH [OF b1(2)] by blast
  show ?case
    using g f by (intro exI [of _ "gs @ fs"] exI [of _ "(me_timestamp_ms e, x) # xs"]) (auto simp: list_all_iff)
qed auto

lemma bt_close_effect:
  assumes "bt_close c e p sg tag b = Inr b'"
  shows "\<exists>cost net. bs_fills b' = bs_fills b @ [tag (bt_fill_of e TRADE_SELL (bp_quantity p) cost net sg ''same_event'')] \<and>
    bs_equity_curve b' = bs_equity_curve b \<and> bs_positions b' = bs_positions b \<and> bs_last_events b' = bs_last_events b \<and>
    bs_closed_pnls b' = bs_closed_pnls b @ [net]"
  using assms by (auto simp: bt_close_def Let_def res_simps)

lemma bt_force_close_effect:
  assumes "bt_force_close c b s = Inr b'"
  shows "\<exists>x net p e. bs_fills b' = bs_fills b @ [x] \<and> bf_synthetic_finalization x \<and> bf_side x = TRADE_SELL \<and>
    bf_quantity x = bp_quantity p \<and> bf_symbol x = me_symbol e \<and> map_of (bs_last_events b) s = Some e \<and>
    bs_equity_curve b' = bs_equity_curve b \<and> map_of (bs_positions b) s = Some p \<and> bs_last_events b' = bs_last_events b \<and>
    bs_positions b' = AList.delete s (bs_positions b) \<and> bs_closed_pnls b' = bs_closed_pnls b @ [net]"
  using assms by (auto simp: bt_force_close_def bt_fill_of_def split: option.splits dest!: bt_close_effect)

lemma bt_force_closes_effect:
  assumes "rfold (bt_force_close c) b ss = Inr b'"
  shows "\<exists>fs. bs_fills b' = bs_fills b @ fs \<and> list_all bf_synthetic_finalization fs \<and> bs_equity_curve b' = bs_equity_curve b"
  using assms
proof (induction ss arbitrary: b)
  case (Cons s ss)
  then obtain b1 where b1: "bt_force_close c b s = Inr b1" "rfold (bt_force_close c) b1 ss = Inr b'" by (auto simp: res_simps)
  show ?case using bt_force_close_effect [OF b1(1)] Cons.IH [OF b1(2)] by auto
qed auto

lemma bt_finalize_effect:
  assumes "bt_finalize c b = Inr b'"
  shows "\<exists>fs xs. bs_fills b' = bs_fills b @ fs \<and> list_all bf_synthetic_finalization fs \<and> bs_equity_curve b' = bs_equity_curve b @ xs"
  using assms bt_force_closes_effect
  by (fastforce simp: bt_finalize_def res_simps split: if_splits)

lemma bt_result_of_Inr:
  assumes "bt_result_of c b = Inr r"
  shows "br_fills r = bs_fills b" "br_equity_curve r = bs_equity_curve b"
    "br_trade_count r = int (length (bs_fills b))" "br_closed_trade_count r = int (length (bs_closed_pnls b))"
  using assms by (auto simp: bt_result_of_def Let_def res_simps)

lemma rfold_append: "rfold f s (xs @ ys) = rbind (rfold f s xs) (\<lambda>s'. rfold f s' ys)"
proof (induction xs arbitrary: s)
  case (Cons x xs)
  then show ?case by (cases "f s x") simp_all
qed simp

text \<open>A run over \<open>xs @ ys\<close> extends the state after \<open>xs\<close> by fills of \<open>ys\<close> and of the finalisation.\<close>

lemma backtest_run_split:
  assumes "backtest_run c f s0 (xs @ ys) = Inr r"
  obtains b fs where "rfold (bt_step c f) (bt_start c s0) xs = Inr b" "br_fills r = bs_fills b @ fs"
    "\<forall>x \<in> set fs. bf_synthetic_finalization x \<or> (\<exists>e \<in> set ys. fill_at e x)"
    "take (length xs) (br_equity_curve r) = bs_equity_curve b"
proof -
  from assms obtain b b1 b2 where s: "rfold (bt_step c f) (bt_start c s0) xs = Inr b" "rfold (bt_step c f) b ys = Inr b1"
    "bt_finalize c b1 = Inr b2" "bt_result_of c b2 = Inr r"
    by (auto simp: backtest_run_def rfold_append res_simps)
  obtain gs us where g: "bs_fills b1 = bs_fills b @ gs" "bs_equity_curve b1 = bs_equity_curve b @ us"
    "\<forall>x \<in> set gs. \<exists>e \<in> set ys. fill_at e x" using bt_run_effect [OF s(2)] by blast
  obtain hs vs where h: "bs_fills b2 = bs_fills b1 @ hs" "list_all bf_synthetic_finalization hs"
    "bs_equity_curve b2 = bs_equity_curve b1 @ vs" using bt_finalize_effect [OF s(3)] by blast
  have "length (bs_equity_curve b) = length xs" using bt_run_effect [OF s(1)] by (auto simp: bt_start_def)
  then show ?thesis
    using that [OF s(1), of "gs @ hs"] g h bt_result_of_Inr [OF s(4)] by (auto simp: list_all_iff)
qed

text \<open>
  C15. A run never looks ahead: two runs whose events agree up to some point have the same equity curve
  up to there, and their fills begin with the same fills, each at an event of the common part; every
  further fill belongs to a later event or to the finalisation.
\<close>

theorem no_lookahead:
  assumes "backtest_run c f s0 (xs @ ys) = Inr r1" "backtest_run c f s0 (xs @ zs) = Inr r2"
  shows "take (length xs) (br_equity_curve r1) = take (length xs) (br_equity_curve r2) \<and>
    (\<exists>common fs gs. br_fills r1 = common @ fs \<and> br_fills r2 = common @ gs \<and>
       (\<forall>x \<in> set common. \<exists>e \<in> set xs. bf_timestamp_ms x = me_timestamp_ms e \<and> bf_symbol x = me_symbol e) \<and>
       (\<forall>x \<in> set fs. bf_synthetic_finalization x \<or> (\<exists>e \<in> set ys. bf_timestamp_ms x = me_timestamp_ms e \<and> bf_symbol x = me_symbol e)) \<and>
       (\<forall>x \<in> set gs. bf_synthetic_finalization x \<or> (\<exists>e \<in> set zs. bf_timestamp_ms x = me_timestamp_ms e \<and> bf_symbol x = me_symbol e)))"
proof -
  obtain b fs where b: "rfold (bt_step c f) (bt_start c s0) xs = Inr b" "br_fills r1 = bs_fills b @ fs"
    "\<forall>x \<in> set fs. bf_synthetic_finalization x \<or> (\<exists>e \<in> set ys. fill_at e x)"
    "take (length xs) (br_equity_curve r1) = bs_equity_curve b" by (rule backtest_run_split [OF assms(1)])
  obtain d gs where d: "rfold (bt_step c f) (bt_start c s0) xs = Inr d" "br_fills r2 = bs_fills d @ gs"
    "\<forall>x \<in> set gs. bf_synthetic_finalization x \<or> (\<exists>e \<in> set zs. fill_at e x)"
    "take (length xs) (br_equity_curve r2) = bs_equity_curve d" by (rule backtest_run_split [OF assms(2)])
  have "\<forall>x \<in> set (bs_fills b). \<exists>e \<in> set xs. fill_at e x" using bt_run_effect [OF b(1)] by (auto simp: bt_start_def)
  moreover have "d = b" using b(1) d(1) by simp
  ultimately show ?thesis
    using b(2-4) d(2-4)
    by (intro conjI exI [of _ "bs_fills b"] exI [of _ fs] exI [of _ gs]) (auto simp: fill_at_def)
qed

section \<open>Round trips\<close>

text \<open>
  The fills of a symbol as a two-state machine: flat, or open with a quantity; anything but a buy when
  flat and a sale of the open quantity when open breaks it.
\<close>

fun trip_step :: "pyfloat option option \<Rightarrow> bt_fill \<Rightarrow> pyfloat option option" where
  "trip_step None x = None"
| "trip_step (Some None) x = (if bf_side x = TRADE_BUY then Some (Some (bf_quantity x)) else None)"
| "trip_step (Some (Some q)) x = (if bf_side x = TRADE_SELL \<and> bf_quantity x = q then Some None else None)"

definition trips :: "string \<Rightarrow> bt_fill list \<Rightarrow> pyfloat option option" where
  "trips s fs = foldl trip_step (Some None) (filter (\<lambda>x. bf_symbol x = s) fs)"

lemma trips_append: "trips s (fs @ [x]) = (if bf_symbol x = s then trip_step (trips s fs) x else trips s fs)"
  by (simp add: trips_def)

definition trip_inv :: "'s bt_state \<Rightarrow> bool" where
  "trip_inv b \<longleftrightarrow> distinct (map fst (bs_positions b)) \<and>
     (\<forall>s. trips s (bs_fills b) = Some (map_option bp_quantity (map_of (bs_positions b) s))) \<and>
     (\<forall>s e. map_of (bs_last_events b) s = Some e \<longrightarrow> me_symbol e = s) \<and>
     length (bs_fills b) = 2 * length (bs_closed_pnls b) + length (bs_positions b)"

lemma length_delete_one:
  assumes "distinct (map fst xs)" "map_of xs k = Some v"
  shows "length xs = Suc (length (AList.delete k xs))"
  using assms
proof (induction xs)
  case (Cons p xs)
  show ?case
  proof (cases "fst p = k")
    case True
    then have "AList.delete k xs = xs" using Cons.prems(1) by (simp add: AList.delete_idem)
    then show ?thesis using True by (cases p) simp
  qed (use Cons in \<open>auto split: if_splits\<close>)
qed simp

lemma length_update_fresh:
  assumes "map_of xs k = None"
  shows "length (AList.update k v xs) = Suc (length xs)"
  using assms by (induction xs) (auto split: if_splits)

lemma trip_inv_open:
  assumes "trip_inv b" "map_of (bs_positions b) s = None" "bs_positions b' = AList.update s p (bs_positions b)"
    and "bs_fills b' = bs_fills b @ [x]" "bf_side x = TRADE_BUY" "bf_symbol x = s" "bf_quantity x = bp_quantity p"
    and "bs_last_events b' = bs_last_events b" "bs_closed_pnls b' = bs_closed_pnls b"
  shows "trip_inv b'"
  using assms by (auto simp: trip_inv_def trips_append update_conv' distinct_update length_update_fresh)

lemma trip_inv_buy:
  assumes "trip_inv b" "bt_buy c e sg q t b = Inr b'"
  shows "trip_inv b'"
  using assms(2)
proof (rule bt_buy_cases)
  fix g x cost assume b': "map_of (bs_positions b) (me_symbol e) = None" "b' = bt_bought e sg t g x cost b"
  let ?x = "bt_fill_of e TRADE_BUY x cost (Fin 0) sg t"
  have "bf_side ?x = TRADE_BUY" "bf_symbol ?x = me_symbol e" "bf_quantity ?x = x" by (simp_all add: bt_fill_of_def)
  moreover have "bs_positions b' = AList.update (me_symbol e) \<lparr>bp_symbol = me_symbol e, bp_quantity = x,
      bp_entry_price = xc_execution_price cost, bp_entry_notional = fmul (xc_execution_price cost) x,
      bp_entry_fee = xc_fee cost, bp_opened_at_ms = me_timestamp_ms e, bp_correlation_group = g,
      bp_funding_paid = Fin 0\<rparr> (bs_positions b)" "bs_fills b' = bs_fills b @ [?x]"
    "bs_last_events b' = bs_last_events b" "bs_closed_pnls b' = bs_closed_pnls b"
    unfolding b'(2) bt_bought_def by simp_all
  ultimately show ?thesis using trip_inv_open [OF assms(1) b'(1)] by fastforce
qed (use assms(1) in simp)

lemma trip_inv_close:
  assumes "trip_inv b" "map_of (bs_positions b) s = Some p" "bs_positions b' = AList.delete s (bs_positions b)"
    and "bs_fills b' = bs_fills b @ [x]" "bf_side x = TRADE_SELL" "bf_symbol x = s" "bf_quantity x = bp_quantity p"
    and "bs_last_events b' = bs_last_events b" "bs_closed_pnls b' = bs_closed_pnls b @ [net]"
  shows "trip_inv b'"
  using assms length_delete_one [of "bs_positions b" s p]
  by (auto simp: trip_inv_def trips_append delete_conv' distinct_delete)

lemma trip_inv_sell:
  assumes "trip_inv b" "bt_sell c e sg t b = Inr b'"
  shows "trip_inv b'"
proof (cases "map_of (bs_positions b) (me_symbol e)")
  case None
  then have "AList.delete (me_symbol e) (bs_positions b) = bs_positions b"
    by (simp add: AList.delete_idem map_of_eq_None_iff)
  then show ?thesis using assms None by (auto simp: bt_sell_def trip_inv_def)
next
  case (Some p)
  then have "bt_close c e p sg (\<lambda>f. f\<lparr>bf_execution_timing := t\<rparr>)
      (b\<lparr>bs_positions := AList.delete (me_symbol e) (bs_positions b),
         bs_last_funding := AList.delete (me_symbol e) (bs_last_funding b)\<rparr>) = Inr b'"
    using assms(2) by (simp add: bt_sell_def)
  from bt_close_effect [OF this] obtain cost net where
    fills: "bs_fills b' = bs_fills b @ [bt_fill_of e TRADE_SELL (bp_quantity p) cost net sg ''same_event''\<lparr>bf_execution_timing := t\<rparr>]"
    and rest: "bs_positions b' = AList.delete (me_symbol e) (bs_positions b)" "bs_last_events b' = bs_last_events b"
    "bs_closed_pnls b' = bs_closed_pnls b @ [net]" by auto
  show ?thesis
    by (rule trip_inv_close [OF assms(1) Some rest(1) fills _ _ _ rest(2,3)]) (simp_all add: bt_fill_of_def)
qed

lemma trip_inv_same:
  assumes "trip_inv b" "bs_positions b' = bs_positions b" "bs_fills b' = bs_fills b" "bs_last_events b' = bs_last_events b"
    and "bs_closed_pnls b' = bs_closed_pnls b"
  shows "trip_inv b'"
  using assms by (simp add: trip_inv_def)

lemma trip_inv_execute:
  assumes "trip_inv b" "bt_execute c e sg snap t b = Inr b'"
  shows "trip_inv b'"
  using trip_inv_buy [OF assms(1)] trip_inv_sell [OF assms(1)] assms(2)
  by (cases "sg_side sg") (simp_all add: bt_execute_def)

lemma trip_inv_consult:
  assumes "trip_inv b" "bt_consult c f e b = Inr b'"
  shows "trip_inv b'"
proof -
  have same: "trip_inv (b\<lparr>bs_strategy := y\<rparr>)" "trip_inv (b\<lparr>bs_strategy := y, bs_pending := x\<rparr>)" for x y
    using assms(1) by (rule trip_inv_same; simp)+
  from assms(2) same trip_inv_execute [OF same(1)] show ?thesis
    by (simp add: bt_consult_def Let_def res_simps split: option.splits if_splits) blast+
qed

lemma trip_inv_fund:
  assumes "trip_inv b" "bt_fund e b = Inr b'"
  shows "trip_inv b'"
proof (cases "map_of (bs_positions b) (me_symbol e)")
  case (Some p)
  let ?p = "\<lambda>a. p\<lparr>bp_funding_paid := a\<rparr>"
  have "map_option bp_quantity (map_of (AList.update (me_symbol e) (?p a) (bs_positions b)) s) =
      map_option bp_quantity (map_of (bs_positions b) s)" for a s
    using Some by (simp add: update_conv')
  moreover have "length (AList.update (me_symbol e) v xs) = length xs" if "map_of xs (me_symbol e) = Some p" for v xs
    using that by (induction xs) (auto split: if_splits)
  ultimately have "trip_inv (b\<lparr>bs_positions := AList.update (me_symbol e) (?p a) (bs_positions b)\<rparr>)" for a
    using assms(1) Some by (simp add: trip_inv_def distinct_update)
  moreover have "bs_closed_pnls b' = bs_closed_pnls b" "bs_fills b' = bs_fills b" "bs_last_events b' = bs_last_events b"
    "bs_positions b' = bs_positions b \<or> (\<exists>a. bs_positions b' = AList.update (me_symbol e) (?p a) (bs_positions b))"
    using assms(2) Some by (auto simp: bt_fund_def bt_apply_funding_def Let_def res_simps split: if_splits)
  ultimately show ?thesis using assms(1) by (auto simp: trip_inv_def)
qed (use assms in \<open>simp add: bt_fund_def\<close>)

lemma trip_inv_step:
  assumes "trip_inv b" "bt_step c f b e = Inr b'"
  shows "trip_inv b'"
proof -
  from assms(2) obtain b1 b2 b3 b4 where s: "bt_admit e b = Inr b1" "bt_fund e b1 = Inr b2" "bt_run_pending c e b2 = Inr b3"
    "bt_consult c f e b3 = Inr b4" "b' = bt_record e b4"
    by (auto simp: bt_step_def res_simps)
  have "trip_inv b1" using assms(1) s(1) by (auto simp: bt_admit_def res_simps trip_inv_def update_conv' split: if_splits)
  then have "trip_inv b2" using s(2) by (rule trip_inv_fund)
  then have "trip_inv (b2\<lparr>bs_pending := x\<rparr>)" for x by (rule trip_inv_same) simp_all
  then have "trip_inv b3" using s(3) by (auto simp: bt_run_pending_def Let_def split: option.splits dest: trip_inv_execute [rotated])
  then have "trip_inv b4" using s(4) by (rule trip_inv_consult)
  then show ?thesis unfolding s(5) bt_record_def by (rule trip_inv_same) simp_all
qed

lemma trip_inv_run: "trip_inv b \<Longrightarrow> rfold (bt_step c f) b es = Inr b' \<Longrightarrow> trip_inv b'"
  by (induction es arbitrary: b) (auto simp: res_simps dest: trip_inv_step)

lemma trip_inv_force_close:
  assumes "trip_inv b" "bt_force_close c b s = Inr b'"
  shows "trip_inv b' \<and> map fst (bs_positions b') = removeAll s (map fst (bs_positions b))"
proof -
  obtain x net p e where f: "bs_fills b' = bs_fills b @ [x]" "bf_side x = TRADE_SELL" "bf_quantity x = bp_quantity p"
    "bf_symbol x = me_symbol e" "map_of (bs_last_events b) s = Some e" "map_of (bs_positions b) s = Some p"
    "bs_last_events b' = bs_last_events b" "bs_positions b' = AList.delete s (bs_positions b)"
    "bs_closed_pnls b' = bs_closed_pnls b @ [net]" using bt_force_close_effect [OF assms(2)] by blast
  have "me_symbol e = s" using assms(1) f(5) by (auto simp: trip_inv_def)
  then have "trip_inv b'" using trip_inv_close [OF assms(1) f(6,8,1,2) _ f(3,7,9)] f(4) by simp
  then show ?thesis using f(8) by (simp add: AList.delete_keys)
qed

lemma trip_inv_force_closes:
  assumes "trip_inv b" "rfold (bt_force_close c) b ss = Inr b'"
  shows "trip_inv b' \<and> set (map fst (bs_positions b')) = set (map fst (bs_positions b)) - set ss"
  using assms
proof (induction ss arbitrary: b)
  case (Cons s ss)
  then obtain b1 where b1: "bt_force_close c b s = Inr b1" "rfold (bt_force_close c) b1 ss = Inr b'" by (auto simp: res_simps)
  note step = trip_inv_force_close [OF Cons.prems(1) b1(1)]
  have keys: "set (map fst (bs_positions b1)) = set (map fst (bs_positions b)) - {s}" using step by (metis set_removeAll)
  show ?case using Cons.IH [OF conjunct1 [OF step] b1(2)] unfolding keys by auto
qed auto

lemma trip_inv_finalize:
  assumes "trip_inv b" "bt_finalize c b = Inr b'"
  shows "trip_inv b' \<and> (bc_force_close_at_end c \<longrightarrow> bs_positions b' = [])"
proof (cases "bc_force_close_at_end c \<and> bs_positions b \<noteq> []")
  case True
  then obtain b1 where b1: "rfold (bt_force_close c) b (sort (map fst (bs_positions b))) = Inr b1"
    "bs_positions b' = bs_positions b1" "bs_fills b' = bs_fills b1" "bs_last_events b' = bs_last_events b1"
    "bs_closed_pnls b' = bs_closed_pnls b1" using assms(2) by (auto simp: bt_finalize_def res_simps)
  note f = trip_inv_force_closes [OF assms(1) b1(1)]
  have "set (map fst (bs_positions b1)) = {}" using f by simp
  then have "bs_positions b1 = []" by (metis map_is_Nil_conv set_empty)
  moreover have "trip_inv b'" by (rule trip_inv_same [OF conjunct1 [OF f] b1(2-5)])
  ultimately show ?thesis using b1(2) by simp
qed (use assms in \<open>auto simp: bt_finalize_def\<close>)

lemma trip_inv_start: "trip_inv (bt_start c s0)"
  by (simp add: trip_inv_def bt_start_def trips_def)

text \<open>
  C32. The trades of a run are round trips: whatever the strategy does and whatever the events are, per
  symbol each buy is followed by a sale of exactly the bought quantity before the next buy, and no
  sale comes without a position. A run that closes at the end leaves every symbol flat, with two
  fills per closed trade.
\<close>

theorem trades_are_round_trips:
  assumes "backtest_run c on_market s0 events = Inr r"
  shows "trips s (br_fills r) \<noteq> None \<and>
    (bc_force_close_at_end c \<longrightarrow> trips s (br_fills r) = Some None \<and> br_trade_count r = 2 * br_closed_trade_count r)"
proof -
  from assms obtain b b' where run: "rfold (bt_step c on_market) (bt_start c s0) events = Inr b"
    "bt_finalize c b = Inr b'" "bt_result_of c b' = Inr r" by (auto simp: backtest_run_def res_simps)
  note inv = trip_inv_finalize [OF trip_inv_run [OF trip_inv_start run(1)] run(2)]
  show ?thesis using inv bt_result_of_Inr [OF run(3)] by (auto simp: trip_inv_def)
qed

section \<open>A run\<close>

text \<open>A strategy that buys when it is flat and sells when it is not, over two quotes of one symbol, without costs.\<close>

definition sample_signal :: "trade_side \<Rightarrow> bt_signal" where
  "sample_signal side = \<lparr>sg_side = side, sg_requested_risk_percent = Fin 1, sg_stop_loss_percent = Fin 2,
     sg_reason = ''sample'', sg_liquidity_role = ''taker''\<rparr>"

definition flip_strategy :: "unit bt_strategy" where
  "flip_strategy u e snap =
     Inr ((), Some (sample_signal (if bn_positions snap = [] then TRADE_BUY else TRADE_SELL)))"

definition sample_config :: bt_config where
  "sample_config = \<lparr>bc_initial_cash = Fin 1000,
     bc_costs = default_cost_model\<lparr>cm_fee_rate := Fin 0, cm_slippage_bps := Fin 0\<rparr>, bc_reserve_percent = Fin 20,
     bc_max_total_exposure_percent = Fin 80, bc_max_position_percent = Fin 20,
     bc_max_correlated_exposure_percent = Fin 35, bc_max_risk_per_trade_percent = Fin 1,
     bc_max_open_positions = 5, bc_minimum_notional = Fin 25, bc_force_close_at_end = True,
     bc_execution_timing = ''auto''\<rparr>"

definition sample_quote :: "int \<Rightarrow> market_event" where
  "sample_quote t = sample_event\<lparr>me_timestamp_ms := t, me_bid := Fin 128, me_ask := Fin 128, me_volume := None\<rparr>"

definition sample_fills :: "market_event list \<Rightarrow> trade_side list option" where
  "sample_fills events =
     (case backtest_run sample_config flip_strategy () events of Inl _ \<Rightarrow> None
      | Inr r \<Rightarrow> Some (map bf_side (br_fills r)))"

lemma sample_fills_two: "sample_fills (map sample_quote [1, 2]) = Some [TRADE_BUY, TRADE_SELL]"
  by code_simp

lemma sample_fills_one: "sample_fills (map sample_quote [1]) = Some [TRADE_BUY, TRADE_SELL]"
  by code_simp

lemma sample_run_returns:
  assumes "sample_fills events = Some sides"
  obtains r where "backtest_run sample_config flip_strategy () events = Inr r" "map bf_side (br_fills r) = sides"
  using assms by (auto simp: sample_fills_def split: sum.splits)

theorem trades_are_round_trips_witness:
  "\<exists>r. backtest_run sample_config flip_strategy () (map sample_quote [1, 2]) = Inr r \<and>
    length (br_fills r) = 2 \<and> trips ''BTCUSDT'' (br_fills r) = Some None"
proof -
  obtain r where r: "backtest_run sample_config flip_strategy () (map sample_quote [1, 2]) = Inr r"
    "map bf_side (br_fills r) = [TRADE_BUY, TRADE_SELL]"
    by (rule sample_run_returns [OF sample_fills_two])
  have "length (br_fills r) = 2" using arg_cong [OF r(2), of length] by simp
  moreover have "bc_force_close_at_end sample_config" by (simp add: sample_config_def)
  ultimately show ?thesis using trades_are_round_trips [OF r(1), of "''BTCUSDT''"] r(1) by blast
qed

theorem no_lookahead_witness:
  "\<exists>r1 r2. backtest_run sample_config flip_strategy () (map sample_quote [1] @ [sample_quote 2]) = Inr r1 \<and>
    backtest_run sample_config flip_strategy () (map sample_quote [1] @ []) = Inr r2 \<and>
    take 1 (br_equity_curve r1) = take 1 (br_equity_curve r2)"
proof -
  obtain r1 where r1: "backtest_run sample_config flip_strategy () (map sample_quote [1] @ [sample_quote 2]) = Inr r1"
    using sample_run_returns [OF sample_fills_two] by auto
  obtain r2 where r2: "backtest_run sample_config flip_strategy () (map sample_quote [1] @ []) = Inr r2"
    using sample_run_returns [OF sample_fills_one] by auto
  have "length (map sample_quote [1]) = 1" by simp
  then show ?thesis using no_lookahead [OF r1 r2] r1 r2 by metis
qed

end
