(* ===== verification/Paper_Broker.thy ===== *)
theory Paper_Broker
  imports Trading_Costs Versioned_Store
begin

text \<open>
  \<open>trading_core/paper_broker.py\<close>: an account of simulated trades in one row of the versioned store.
  \<open>paper_execute\<close> fills an order once per fill id, \<open>paper_mark\<close> accrues funding and marks a position,
  \<open>paper_snapshot_of\<close> values the account. Each is a loop of five attempts over the row; the writes
  of other processes between a read and its write are the list \<open>others\<close>, as in the store. The stored
  JSON orders the positions by symbol and cannot hold an infinity or a NaN (\<open>paper_put\<close>). The
  document is typed: the checks that \<open>positions\<close> is an object and \<open>fills\<close> a list have no
  counterpart. Clock readings are arguments, and the snapshot that \<open>paper_mark\<close> returns is read right
  after its write.
\<close>

section \<open>Configuration and state\<close>

record paper_config =
  pc_initial_cash :: pyfloat
  pc_costs :: cost_model
  pc_maximum_fills :: int

definition paper_config_post_init :: "paper_config \<Rightarrow> unit res" where
  "paper_config_post_init c =
     (if \<not> positive_finite (pc_initial_cash c)
      then Inl (ValueError ''initial_cash must be positive and finite'')
      else if \<not> (100 \<le> pc_maximum_fills c \<and> pc_maximum_fills c \<le> 100000)
      then Inl (ValueError ''maximum_fills must be within 100..100000'') else Inr ())"

record paper_position =
  pp_symbol :: string
  pp_quantity :: pyfloat
  pp_average_entry_price :: pyfloat
  pp_entry_fees :: pyfloat
  pp_funding_paid :: pyfloat
  pp_opened_at_ms :: int
  pp_last_funding_at_ms :: int
  pp_last_mark_at_ms :: int
  pp_last_mark_price :: pyfloat

record paper_fill =
  pf_fill_id :: string
  pf_timestamp_ms :: int
  pf_symbol :: string
  pf_side :: trade_side
  pf_quantity :: pyfloat
  pf_notional :: pyfloat
  pf_cost :: execution_cost
  pf_funding_paid_before_fill :: pyfloat
  pf_realized_pnl :: pyfloat
  pf_reason :: string
  pf_liquidity_role :: string

record paper_funding =
  fp_timestamp_ms :: int
  fp_symbol :: string
  fp_rate :: pyfloat
  fp_interval_fraction :: pyfloat
  fp_notional :: pyfloat
  fp_amount :: pyfloat

record paper_state =
  ps_schema_version :: int
  ps_account_id :: string
  ps_cash :: pyfloat
  ps_realized_pnl :: pyfloat
  ps_total_fees :: pyfloat
  ps_total_slippage :: pyfloat
  ps_total_spread_cost :: pyfloat
  ps_total_funding :: pyfloat
  ps_positions :: "paper_position dict"
  ps_fills :: "paper_fill list"
  ps_funding_payments :: "paper_funding list"
  ps_updated_at_ms :: int

definition paper_namespace :: string where
  "paper_namespace = ''paper_broker_accounts_v1''"

definition paper_identifier :: "string \<Rightarrow> string \<Rightarrow> string res" where
  "paper_identifier v name =
     (let clean = strip v
      in if clean = [] \<or> 160 < length clean
         then Inl (ValueError (name @ '' is required and must be <=160 characters'')) else Inr clean)"

definition paper_positive :: "pyfloat \<Rightarrow> string \<Rightarrow> pyfloat res" where
  "paper_positive v name =
     (if positive_finite v then Inr v else Inl (ValueError (name @ '' must be positive and finite'')))"

text \<open>\<open>xs[-n:]\<close> for a positive \<open>n\<close>.\<close>

definition last_items :: "int \<Rightarrow> 'a list \<Rightarrow> 'a list" where
  "last_items n xs = drop (length xs - nat n) xs"

definition money_fields :: "paper_state \<Rightarrow> (string \<times> pyfloat) list" where
  "money_fields st =
     [(''cash'', ps_cash st), (''realized_pnl'', ps_realized_pnl st), (''total_fees'', ps_total_fees st),
      (''total_slippage'', ps_total_slippage st), (''total_spread_cost'', ps_total_spread_cost st),
      (''total_funding'', ps_total_funding st)]"

definition check_money :: "unit \<Rightarrow> string \<times> pyfloat \<Rightarrow> unit res" where
  "check_money u f =
     (case f of (name, v) \<Rightarrow>
        if isfinite v then Inr () else Inl (RuntimeError (''paper broker state '' @ name @ '' is non-finite'')))"

definition cash_floor :: pyfloat where
  "cash_floor = fneg (rnd64 (1 / 10 ^ 8))"

definition normalize_state :: "paper_config \<Rightarrow> paper_state \<Rightarrow> paper_state res" where
  "normalize_state c st =
     (if ps_schema_version st \<noteq> 1 then Inl (RuntimeError ''paper broker state schema is invalid'')
      else rbind (rfold check_money () (money_fields st)) (\<lambda>_.
        if flt (ps_cash st) cash_floor then Inl (RuntimeError ''paper broker state has negative cash'')
        else Inr (st\<lparr>ps_fills := last_items (pc_maximum_fills c) (ps_fills st)\<rparr>)))"

section \<open>Storing\<close>

definition cost_floats :: "execution_cost \<Rightarrow> pyfloat list" where
  "cost_floats c =
     [xc_reference_price c, xc_execution_price c, xc_fee c, xc_slippage_cost c, xc_spread_cost c,
      xc_participation_rate c, xc_effective_slippage_bps c, xc_fee_rate c]"

definition fill_floats :: "paper_fill \<Rightarrow> pyfloat list" where
  "fill_floats f =
     [pf_quantity f, pf_notional f, pf_funding_paid_before_fill f, pf_realized_pnl f] @ cost_floats (pf_cost f)"

definition position_floats :: "paper_position \<Rightarrow> pyfloat list" where
  "position_floats p =
     [pp_quantity p, pp_average_entry_price p, pp_entry_fees p, pp_funding_paid p, pp_last_mark_price p]"

definition funding_floats :: "paper_funding \<Rightarrow> pyfloat list" where
  "funding_floats f = [fp_rate f, fp_interval_fraction f, fp_notional f, fp_amount f]"

definition state_floats :: "paper_state \<Rightarrow> pyfloat list" where
  "state_floats st =
     map snd (money_fields st) @ concat (map (position_floats \<circ> snd) (ps_positions st)) @
     concat (map fill_floats (ps_fills st)) @ concat (map funding_floats (ps_funding_payments st))"

definition paper_put ::
  "paper_state kv \<Rightarrow> string \<Rightarrow> paper_state \<Rightarrow> int \<Rightarrow> int \<Rightarrow> (int \<times> paper_state kv) res" where
  "paper_put db account st expected clock =
     (if list_all isfinite (state_floats st)
      then put_json db paper_namespace account (st\<lparr>ps_positions := sort_key fst (ps_positions st)\<rparr>)
             (Some expected) clock
      else Inl (ValueError ''Out of range float values are not JSON compliant''))"

definition fresh_account :: "paper_config \<Rightarrow> string \<Rightarrow> int \<Rightarrow> paper_state" where
  "fresh_account c account clock =
     \<lparr>ps_schema_version = 1, ps_account_id = account, ps_cash = pc_initial_cash c, ps_realized_pnl = Fin 0,
      ps_total_fees = Fin 0, ps_total_slippage = Fin 0, ps_total_spread_cost = Fin 0,
      ps_total_funding = Fin 0, ps_positions = [], ps_fills = [], ps_funding_payments = [],
      ps_updated_at_ms = clock\<rparr>"

definition ensure_account ::
  "paper_config \<Rightarrow> string \<Rightarrow> int \<Rightarrow> (paper_state kv \<Rightarrow> paper_state kv) \<Rightarrow> paper_state kv \<Rightarrow>
   unit res \<times> paper_state kv" where
  "ensure_account c account clock other db =
     (case get_json db paper_namespace account of
        Inl e \<Rightarrow> (Inl e, db)
      | Inr (Some row) \<Rightarrow> (Inr (), db)
      | Inr None \<Rightarrow>
          (let db' = other db
           in case paper_put db' account (fresh_account c account clock) 0 clock of
                Inr (v, db'') \<Rightarrow> (Inr (), db'')
              | Inl VersionConflict \<Rightarrow> (Inr (), db')
              | Inl e \<Rightarrow> (Inl e, db')))"

definition paper_init ::
  "paper_config \<Rightarrow> string \<Rightarrow> int \<Rightarrow> (paper_state kv \<Rightarrow> paper_state kv) \<Rightarrow> paper_state kv \<Rightarrow>
   string res \<times> paper_state kv" where
  "paper_init c account clock other db =
     (case rbind (paper_config_post_init c) (\<lambda>_.
           rbind (paper_identifier account ''account_id'') (\<lambda>a.
           rbind (cost_model_post_init (pc_costs c)) (\<lambda>_. Inr a))) of
        Inl e \<Rightarrow> (Inl e, db)
      | Inr a \<Rightarrow> (case ensure_account c a clock other db of
           (Inl e, db') \<Rightarrow> (Inl e, db') | (Inr _, db') \<Rightarrow> (Inr a, db')))"

section \<open>Funding and fills\<close>

definition funding_interval_ms :: "market_event \<Rightarrow> pyfloat" where
  "funding_interval_ms e =
     fmul (fmul (fmul (me_funding_interval_hours e) (Fin 60)) (Fin 60)) (Fin 1000)"

definition apply_funding :: "paper_config \<Rightarrow> paper_state \<Rightarrow> market_event \<Rightarrow> paper_state res" where
  "apply_funding c st e =
     (case map_of (ps_positions st) (me_symbol e) of None \<Rightarrow> Inr st
      | Some p \<Rightarrow>
          let elapsed = max 0 (me_timestamp_ms e - pp_last_funding_at_ms p)
          in if elapsed = 0 then Inr st
             else rbind (float_of_int elapsed) (\<lambda>ms.
                  rbind (fdiv ms (funding_interval_ms e)) (\<lambda>fraction.
                    let notional = fmul (pp_quantity p) (mid e);
                        amount = fmul (fmul notional (me_funding_rate e)) fraction
                    in if \<not> isfinite amount
                       then Inl (ValueError ''funding calculation produced a non-finite amount'')
                       else Inr (st\<lparr>ps_cash := fsub (ps_cash st) amount,
                                   ps_total_funding := fadd (ps_total_funding st) amount,
                                   ps_positions := AList.update (me_symbol e)
                                     (p\<lparr>pp_funding_paid := fadd (pp_funding_paid p) amount,
                                        pp_last_funding_at_ms := me_timestamp_ms e,
                                        pp_last_mark_price := mid e\<rparr>) (ps_positions st),
                                   ps_funding_payments := last_items (pc_maximum_fills c)
                                     (ps_funding_payments st @
                                      [\<lparr>fp_timestamp_ms = me_timestamp_ms e, fp_symbol = me_symbol e,
                                        fp_rate = me_funding_rate e, fp_interval_fraction = fraction,
                                        fp_notional = notional, fp_amount = amount\<rparr>])\<rparr>))))"

definition open_position :: "market_event \<Rightarrow> pyfloat \<Rightarrow> execution_cost \<Rightarrow> paper_position" where
  "open_position e quantity cost =
     \<lparr>pp_symbol = me_symbol e, pp_quantity = quantity, pp_average_entry_price = xc_execution_price cost,
      pp_entry_fees = xc_fee cost, pp_funding_paid = Fin 0, pp_opened_at_ms = me_timestamp_ms e,
      pp_last_funding_at_ms = me_timestamp_ms e, pp_last_mark_at_ms = me_timestamp_ms e,
      pp_last_mark_price = mid e\<rparr>"

definition grow_position :: "market_event \<Rightarrow> pyfloat \<Rightarrow> execution_cost \<Rightarrow> paper_position \<Rightarrow> paper_position res" where
  "grow_position e quantity cost p =
     (let new_qty = fadd (pp_quantity p) quantity
      in rbind (fdiv (fadd (fmul (pp_quantity p) (pp_average_entry_price p))
                           (fmul quantity (xc_execution_price cost))) new_qty) (\<lambda>average.
           Inr (p\<lparr>pp_average_entry_price := average, pp_quantity := new_qty,
                  pp_entry_fees := fadd (pp_entry_fees p) (xc_fee cost), pp_last_mark_price := mid e\<rparr>)))"

definition apply_buy :: "paper_state \<Rightarrow> market_event \<Rightarrow> pyfloat \<Rightarrow> execution_cost \<Rightarrow> (paper_state \<times> pyfloat) res" where
  "apply_buy st e quantity cost =
     (let debit = fadd (fmul (xc_execution_price cost) quantity) (xc_fee cost)
      in if flt (fadd (ps_cash st) (rnd64 (1 / 10 ^ 9))) debit
         then Inl (RuntimeError ''paper order exceeds available cash'')
         else rbind (case map_of (ps_positions st) (me_symbol e) of
                       None \<Rightarrow> Inr (open_position e quantity cost)
                     | Some p \<Rightarrow> grow_position e quantity cost p) (\<lambda>p.
              Inr (st\<lparr>ps_cash := fsub (ps_cash st) debit,
                      ps_positions := AList.update (me_symbol e) p (ps_positions st)\<rparr>, Fin 0)))"

definition apply_sell :: "paper_state \<Rightarrow> market_event \<Rightarrow> pyfloat \<Rightarrow> execution_cost \<Rightarrow> (paper_state \<times> pyfloat) res" where
  "apply_sell st e quantity cost =
     (case map_of (ps_positions st) (me_symbol e) of
        None \<Rightarrow> Inl (RuntimeError ''paper sell exceeds open position'')
      | Some p \<Rightarrow>
          if flt (fadd (pp_quantity p) (rnd64 (1 / 10 ^ 12))) quantity
          then Inl (RuntimeError ''paper sell exceeds open position'')
          else rbind (fdiv quantity (pp_quantity p)) (\<lambda>share.
            let proceeds = fsub (fmul (xc_execution_price cost) quantity) (xc_fee cost);
                allocated_entry_fee = fmul (pp_entry_fees p) share;
                allocated_funding = fmul (pp_funding_paid p) share;
                gross = fmul (fsub (xc_execution_price cost) (pp_average_entry_price p)) quantity;
                realized = fsub (fsub (fsub gross allocated_entry_fee) (xc_fee cost)) allocated_funding;
                remaining = fsub (pp_quantity p) quantity;
                positions =
                  (if fle remaining (rnd64 (1 / 10 ^ 12)) then AList.delete (me_symbol e) (ps_positions st)
                   else AList.update (me_symbol e)
                     (p\<lparr>pp_quantity := remaining, pp_entry_fees := fsub (pp_entry_fees p) allocated_entry_fee,
                        pp_funding_paid := fsub (pp_funding_paid p) allocated_funding,
                        pp_last_mark_price := mid e\<rparr>) (ps_positions st))
            in Inr (st\<lparr>ps_cash := fadd (ps_cash st) proceeds,
                       ps_realized_pnl := fadd (ps_realized_pnl st) realized,
                       ps_positions := positions\<rparr>, realized)))"

definition apply_fill ::
  "paper_state \<Rightarrow> string \<Rightarrow> market_event \<Rightarrow> trade_side \<Rightarrow> pyfloat \<Rightarrow> string \<Rightarrow> string \<Rightarrow> execution_cost \<Rightarrow>
   (paper_state \<times> paper_fill) res" where
  "apply_fill st fill_id e side quantity reason liquidity_role cost =
     rbind (case side of TRADE_BUY \<Rightarrow> apply_buy st e quantity cost
            | TRADE_SELL \<Rightarrow> apply_sell st e quantity cost) (\<lambda>(st', realized).
       let fill = \<lparr>pf_fill_id = fill_id, pf_timestamp_ms = me_timestamp_ms e, pf_symbol = me_symbol e,
                   pf_side = side, pf_quantity = quantity,
                   pf_notional = fmul (xc_execution_price cost) quantity, pf_cost = cost,
                   pf_funding_paid_before_fill = ps_total_funding st', pf_realized_pnl = realized,
                   pf_reason = reason, pf_liquidity_role = liquidity_role\<rparr>
       in Inr (st'\<lparr>ps_total_fees := fadd (ps_total_fees st') (xc_fee cost),
                   ps_total_slippage := fadd (ps_total_slippage st') (xc_slippage_cost cost),
                   ps_total_spread_cost := fadd (ps_total_spread_cost st') (xc_spread_cost cost),
                   ps_fills := ps_fills st' @ [fill]\<rparr>, fill))"

section \<open>The operations\<close>

text \<open>What an attempt does with the state it read: return at once, or write a new state.\<close>

datatype 'r paper_step = Keep 'r | Write paper_state 'r

fun paper_loop ::
  "nat \<Rightarrow> paper_config \<Rightarrow> string \<Rightarrow> int \<Rightarrow> (paper_state \<Rightarrow> 'r paper_step res) \<Rightarrow> string \<Rightarrow>
   (paper_state kv \<Rightarrow> paper_state kv) list \<Rightarrow> paper_state kv \<Rightarrow> 'r res \<times> paper_state kv" where
  "paper_loop 0 c account clock f msg others db = (Inl (RuntimeError msg), db)"
| "paper_loop (Suc n) c account clock f msg others db =
     (case get_json db paper_namespace account of
        Inl e \<Rightarrow> (Inl e, db)
      | Inr None \<Rightarrow>
          (case ensure_account c account clock (first_other others) db of
             (Inl e, db') \<Rightarrow> (Inl e, db')
           | (Inr _, db') \<Rightarrow> paper_loop n c account clock f msg (tl others) db')
      | Inr (Some row) \<Rightarrow>
          (case rbind (normalize_state c (kv_doc row)) f of
             Inl e \<Rightarrow> (Inl e, db)
           | Inr (Keep r) \<Rightarrow> (Inr r, db)
           | Inr (Write st r) \<Rightarrow>
               (let db' = first_other others db
                in case paper_put db' account st (kv_version row) clock of
                     Inr (v, db'') \<Rightarrow> (Inr r, db'')
                   | Inl VersionConflict \<Rightarrow> paper_loop n c account clock f msg (tl others) db'
                   | Inl e \<Rightarrow> (Inl e, db'))))"

record paper_order =
  po_fill_id :: string
  po_event :: market_event
  po_side :: trade_side
  po_quantity :: pyfloat
  po_reason :: string
  po_liquidity_role :: string

definition execute_step ::
  "paper_config \<Rightarrow> int \<Rightarrow> paper_order \<Rightarrow> paper_state \<Rightarrow> (paper_fill \<times> bool) paper_step res" where
  "execute_step c clock order st =
     (case find (\<lambda>f. pf_fill_id f = po_fill_id order) (ps_fills st) of
        Some existing \<Rightarrow> Inr (Keep (existing, True))
      | None \<Rightarrow>
          let e = po_event order
          in rbind (apply_funding c st e) (\<lambda>st1.
             rbind (estimate (pc_costs c) e (po_side order) (po_quantity order) (po_liquidity_role order)) (\<lambda>cost.
             rbind (paper_identifier (if po_reason order = [] then ''paper_signal'' else po_reason order) ''reason'') (\<lambda>reason.
             rbind (apply_fill st1 (po_fill_id order) e (po_side order) (po_quantity order) reason
                      (po_liquidity_role order) cost) (\<lambda>(st2, fill).
               Inr (Write (st2\<lparr>ps_fills := last_items (pc_maximum_fills c) (ps_fills st2),
                               ps_updated_at_ms := max clock (me_timestamp_ms e)\<rparr>) (fill, False)))))))"

definition check_paper_order :: "paper_order \<Rightarrow> paper_order res" where
  "check_paper_order order =
     rbind (validate_market_event (po_event order)) (\<lambda>_.
     rbind (paper_identifier (po_fill_id order) ''fill_id'') (\<lambda>fid.
     rbind (paper_positive (po_quantity order) ''quantity'') (\<lambda>q.
       Inr (order\<lparr>po_fill_id := fid, po_quantity := q\<rparr>))))"

definition paper_execute ::
  "paper_config \<Rightarrow> string \<Rightarrow> paper_order \<Rightarrow> int \<Rightarrow> (paper_state kv \<Rightarrow> paper_state kv) list \<Rightarrow>
   paper_state kv \<Rightarrow> (paper_fill \<times> bool) res \<times> paper_state kv" where
  "paper_execute c account order clock others db =
     (case check_paper_order order of Inl e \<Rightarrow> (Inl e, db)
      | Inr clean \<Rightarrow>
          paper_loop 5 c account clock (execute_step c clock clean)
            ''paper broker state update conflicted repeatedly'' others db)"

record paper_snapshot =
  pn_state :: paper_state
  pn_version :: int
  pn_equity :: pyfloat
  pn_unrealized_pnl :: pyfloat

definition mark_price :: "pyfloat dict \<Rightarrow> string \<times> paper_position \<Rightarrow> pyfloat" where
  "mark_price marks p =
     (case map_of marks (fst p) of Some m \<Rightarrow> m | None \<Rightarrow> pp_last_mark_price (snd p))"

definition paper_snapshot_of ::
  "paper_config \<Rightarrow> string \<Rightarrow> pyfloat dict \<Rightarrow> paper_state kv \<Rightarrow> paper_snapshot res" where
  "paper_snapshot_of c account marks db =
     rbind (get_json db paper_namespace account) (\<lambda>current.
       case current of None \<Rightarrow> Inl (RuntimeError ''paper account state is missing'')
       | Some row \<Rightarrow>
           rbind (normalize_state c (kv_doc row)) (\<lambda>st.
             let unrealized = foldl (\<lambda>acc p. fadd acc (fmul (fsub (mark_price marks p)
                      (pp_average_entry_price (snd p))) (pp_quantity (snd p)))) (Fin 0) (ps_positions st);
                 equity = fadd (ps_cash st) (py_sum (map (\<lambda>p. fmul (pp_quantity (snd p)) (mark_price marks p))
                      (ps_positions st)))
             in Inr \<lparr>pn_state = st, pn_version = kv_version row, pn_equity = round_to 10 equity,
                     pn_unrealized_pnl = round_to 10 unrealized\<rparr>))"

definition mark_step :: "paper_config \<Rightarrow> int \<Rightarrow> market_event \<Rightarrow> paper_state \<Rightarrow> unit paper_step res" where
  "mark_step c clock e st =
     rbind (apply_funding c st e) (\<lambda>st1.
       let positions = (case map_of (ps_positions st1) (me_symbol e) of None \<Rightarrow> ps_positions st1
             | Some p \<Rightarrow> AList.update (me_symbol e)
                 (p\<lparr>pp_last_mark_price := mid e, pp_last_mark_at_ms := me_timestamp_ms e\<rparr>) (ps_positions st1))
       in Inr (Write (st1\<lparr>ps_positions := positions, ps_updated_at_ms := max clock (me_timestamp_ms e)\<rparr>) ()))"

definition paper_mark ::
  "paper_config \<Rightarrow> string \<Rightarrow> market_event \<Rightarrow> int \<Rightarrow> (paper_state kv \<Rightarrow> paper_state kv) list \<Rightarrow>
   paper_state kv \<Rightarrow> paper_snapshot res \<times> paper_state kv" where
  "paper_mark c account e clock others db =
     (case validate_market_event e of Inl err \<Rightarrow> (Inl err, db)
      | Inr _ \<Rightarrow>
          (case paper_loop 5 c account clock (mark_step c clock e)
                  ''paper broker mark update conflicted repeatedly'' others db of
             (Inl err, db') \<Rightarrow> (Inl err, db')
           | (Inr _, db') \<Rightarrow> (paper_snapshot_of c account [(me_symbol e, mid e)] db', db')))"

end
