(* ===== verification/Paper_Accounts.thy ===== *)
theory Paper_Accounts
  imports Paper_Broker
begin

text \<open>
  What the paper broker guarantees: every operation keeps the account well formed, whatever other
  broker operations come between its reads and writes (\<open>paper_writer\<close>); a buy never
  overdraws the account beyond the rounding slack; and an account whose cash fell below the floor,
  which funding can do, is never readable again.
\<close>

section \<open>The loop\<close>

abbreviation paper_cell :: "string \<Rightarrow> string \<times> string" where
  "paper_cell account \<equiv> (paper_namespace, account)"

lemma paper_clean_cell:
  assumes "paper_identifier account name = Inr account"
  shows "clean_cell paper_namespace account"
  using assms by (auto simp: paper_identifier_def db_identifier_def paper_namespace_def Let_def strip_def is_space_def
      ccode_def split: if_splits)

definition stored_form :: "paper_state \<Rightarrow> paper_state" where
  "stored_form st = st\<lparr>ps_positions := sort_key fst (ps_positions st)\<rparr>"

lemma paper_put_Inr:
  assumes "clean_cell paper_namespace account"
  shows "paper_put db account st n clock = Inr (v, db') \<longleftrightarrow>
    list_all isfinite (state_floats st) \<and> kv_current (db (paper_cell account)) = n \<and> v = n + 1 \<and>
    db' = db(paper_cell account \<mapsto> \<lparr>kv_doc = stored_form st, kv_version = n + 1, kv_updated_at_ms = clock\<rparr>)"
  using assms by (auto simp: paper_put_def put_json_clean stored_form_def)

text \<open>Every table state of an account the loop may leave satisfies the invariant \<open>W\<close> of documents.\<close>

definition account_inv :: "(paper_state \<Rightarrow> bool) \<Rightarrow> string \<Rightarrow> paper_state kv \<Rightarrow> bool" where
  "account_inv W account db \<longleftrightarrow> (\<forall>row. db (paper_cell account) = Some row \<longrightarrow> W (kv_doc row))"

definition keeps_account :: "(paper_state \<Rightarrow> bool) \<Rightarrow> string \<Rightarrow> (paper_state kv \<Rightarrow> paper_state kv) \<Rightarrow> bool" where
  "keeps_account W account g \<longleftrightarrow> (\<forall>db. account_inv W account db \<longrightarrow> account_inv W account (g db))"

lemma keeps_first: "list_all (keeps_account W account) others \<Longrightarrow> keeps_account W account (first_other others)"
  by (cases others) (simp_all add: first_other_def keeps_account_def)

lemma keeps_tl: "list_all P others \<Longrightarrow> list_all P (tl others)"
  by (cases others) simp_all

lemma account_inv_write: "W (kv_doc row) \<Longrightarrow> account_inv W account (db(paper_cell account \<mapsto> row))"
  by (simp add: account_inv_def)

lemma ensure_account_keeps:
  assumes "clean_cell paper_namespace account" "account_inv W account db" "keeps_account W account other"
    and "W (stored_form (fresh_account c account clock))"
  shows "account_inv W account (snd (ensure_account c account clock other db))"
  using assms
  by (auto simp: ensure_account_def get_json_clean Let_def keeps_account_def paper_put_Inr
      intro!: account_inv_write split: option.splits sum.splits py_error.splits prod.splits)

text \<open>How an attempt that returns has come about: from a readable document, kept or rewritten.\<close>

definition paper_outcome ::
  "(paper_state \<Rightarrow> bool) \<Rightarrow> paper_config \<Rightarrow> string \<Rightarrow> (paper_state \<Rightarrow> 'r paper_step res) \<Rightarrow> 'r \<Rightarrow>
   paper_state kv \<Rightarrow> bool" where
  "paper_outcome W c account f r db' \<longleftrightarrow>
     (\<exists>st st1 row. W st \<and> normalize_state c st = Inr st1 \<and> db' (paper_cell account) = Some row \<and>
        (f st1 = Inr (Keep r) \<and> kv_doc row = st \<or>
         (\<exists>st2. f st1 = Inr (Write st2 r) \<and> list_all isfinite (state_floats st2) \<and> kv_doc row = stored_form st2)))"

lemma paper_loop_step:
  assumes clean: "clean_cell paper_namespace account"
    and row: "db (paper_cell account) = Some row"
    and run: "paper_loop (Suc n) c account clock f msg others db = (res, db')"
  shows "(\<exists>e. res = Inl e \<and> db' = db) \<or> (\<exists>e. res = Inl e \<and> db' = first_other others db) \<or>
    (\<exists>r st1. res = Inr r \<and> db' = db \<and> normalize_state c (kv_doc row) = Inr st1 \<and> f st1 = Inr (Keep r)) \<or>
    (\<exists>r st1 st2 v. res = Inr r \<and> normalize_state c (kv_doc row) = Inr st1 \<and> f st1 = Inr (Write st2 r) \<and>
       paper_put (first_other others db) account st2 (kv_version row) clock = Inr (v, db')) \<or>
    paper_loop n c account clock f msg (tl others) (first_other others db) = (res, db')"
  using run
  by (simp add: get_json_clean [OF conjunct1 [OF clean] conjunct2 [OF clean]] row res_simps Let_def
      split: sum.splits paper_step.splits py_error.splits prod.splits) (auto simp: res_simps)

lemma paper_loop_cases:
  assumes clean: "clean_cell paper_namespace account" and fresh: "W (stored_form (fresh_account c account clock))"
    and step: "\<And>st st1 st2 r. W st \<Longrightarrow> normalize_state c st = Inr st1 \<Longrightarrow> f st1 = Inr (Write st2 r) \<Longrightarrow>
          list_all isfinite (state_floats st2) \<Longrightarrow> W (stored_form st2)"
    and others: "list_all (keeps_account W account) others" and inv: "account_inv W account db"
    and run: "paper_loop n c account clock f msg others db = (res, db')"
  shows "account_inv W account db' \<and> (\<forall>r. res = Inr r \<longrightarrow> paper_outcome W c account f r db')"
  using others inv run
proof (induction n arbitrary: others db)
  case (Suc n)
  note first = keeps_first [OF Suc.prems(1)] and rest = keeps_tl [OF Suc.prems(1)]
  have inv1: "account_inv W account (first_other others db)"
    using first Suc.prems(2) by (simp add: keeps_account_def)
  show ?case
  proof (cases "db (paper_cell account)")
    case None
    obtain r0 db0 where ens: "ensure_account c account clock (first_other others) db = (r0, db0)" by fastforce
    from ensure_account_keeps [OF clean Suc.prems(2) first fresh] ens have "account_inv W account db0" by simp
    with Suc.prems(3) Suc.IH [OF rest] show ?thesis
      by (auto simp: get_json_clean [OF conjunct1 [OF clean] conjunct2 [OF clean]] None ens split: sum.splits)
  next
    case (Some row)
    then have W: "W (kv_doc row)" using Suc.prems(2) by (simp add: account_inv_def)
    from paper_loop_step [OF clean Some Suc.prems(3)] show ?thesis
    proof (elim disjE exE conjE)
      fix e assume "res = Inl e" "db' = db" then show ?thesis using Suc.prems(2) by simp
    next
      fix e assume "res = Inl e" "db' = first_other others db" then show ?thesis using inv1 by simp
    next
      fix r st1 assume *: "res = Inr r" "db' = db" "normalize_state c (kv_doc row) = Inr st1" "f st1 = Inr (Keep r)"
      then have "paper_outcome W c account f r db'" using W Some unfolding paper_outcome_def by blast
      then show ?thesis using * Suc.prems(2) by simp
    next
      fix r st1 st2 v assume *: "res = Inr r" "normalize_state c (kv_doc row) = Inr st1" "f st1 = Inr (Write st2 r)"
        "paper_put (first_other others db) account st2 (kv_version row) clock = Inr (v, db')"
      then have fin: "list_all isfinite (state_floats st2)" and
        db': "db' = (first_other others db)(paper_cell account \<mapsto>
           \<lparr>kv_doc = stored_form st2, kv_version = kv_version row + 1, kv_updated_at_ms = clock\<rparr>)"
        by (simp_all add: paper_put_Inr [OF clean])
      have "W (stored_form st2)" using step [OF W *(2,3) fin] .
      then have "account_inv W account db'" unfolding db' by (intro account_inv_write) simp
      moreover have "paper_outcome W c account f r db'"
        using W *(2,3) fin unfolding paper_outcome_def db' by fastforce
      ultimately show ?thesis using *(1) by simp
    next
      assume "paper_loop n c account clock f msg (tl others) (first_other others db) = (res, db')"
      from Suc.IH [OF rest inv1 this] show ?thesis .
    qed
  qed
qed auto

section \<open>Well-formed accounts\<close>

definition position_ok :: "string \<times> paper_position \<Rightarrow> bool" where
  "position_ok sp \<longleftrightarrow> pp_symbol (snd sp) = fst sp \<and> representable (pp_quantity (snd sp)) \<and>
     flt (Fin 0) (pp_quantity (snd sp))"

text \<open>The part of the invariant that does not depend on what JSON can hold.\<close>

definition paper_shape :: "paper_config \<Rightarrow> string \<Rightarrow> paper_state \<Rightarrow> bool" where
  "paper_shape c account st \<longleftrightarrow> ps_schema_version st = 1 \<and> ps_account_id st = account \<and>
     representable (ps_cash st) \<and> distinct (map fst (ps_positions st)) \<and>
     list_all position_ok (ps_positions st) \<and> distinct (map pf_fill_id (ps_fills st)) \<and>
     int (length (ps_fills st)) \<le> pc_maximum_fills c"

definition paper_wf :: "paper_config \<Rightarrow> string \<Rightarrow> paper_state \<Rightarrow> bool" where
  "paper_wf c account st \<longleftrightarrow> paper_shape c account st \<and> list_all isfinite (state_floats st)"

lemma stored_form_wf:
  assumes "paper_shape c account st" "list_all isfinite (state_floats st)"
  shows "paper_wf c account (stored_form st)"
proof -
  have "distinct (map fst (sort_key fst xs)) \<longleftrightarrow> distinct (map fst xs)" for xs :: "(string \<times> paper_position) list"
    by (simp add: map_fst_sort_key)
  then show ?thesis
    using assms by (simp add: paper_wf_def paper_shape_def stored_form_def state_floats_def money_fields_def list_all_iff)
qed

lemma last_items_short: "int (length xs) \<le> n \<Longrightarrow> last_items n xs = xs"
  by (simp add: last_items_def)

lemma normalize_wf:
  assumes "paper_wf c account st" "normalize_state c st = Inr st1"
  shows "st1 = st" "\<not> flt (ps_cash st) cash_floor"
  using assms by (auto simp: normalize_state_def res_simps paper_wf_def paper_shape_def last_items_short)

lemma positions_update:
  assumes "distinct (map fst ps)" "list_all position_ok ps" "position_ok (s, p)"
  shows "distinct (map fst (AList.update s p ps)) \<and> list_all position_ok (AList.update s p ps)"
  using assms set_update_subset [of s p ps] by (auto simp: distinct_update list_all_iff)

lemma positions_delete:
  assumes "distinct (map fst ps)" "list_all position_ok ps"
  shows "distinct (map fst (AList.delete s ps)) \<and> list_all position_ok (AList.delete s ps)"
proof -
  have "set (AList.delete s ps) \<subseteq> set ps" by (auto simp: AList.delete_eq)
  then show ?thesis using assms distinct_delete [of ps s] by (auto simp: list_all_iff)
qed

lemma positions_ok_lookup:
  assumes "paper_shape c account st" "map_of (ps_positions st) s = Some p"
  shows "position_ok (s, p)"
  using assms map_of_SomeD by (fastforce simp: paper_shape_def list_all_iff)

lemma apply_funding_shape:
  assumes "paper_shape c account st" "apply_funding c st e = Inr st1"
  shows "paper_shape c account st1" "ps_fills st1 = ps_fills st"
proof -
  have "paper_shape c account st1 \<and> ps_fills st1 = ps_fills st"
  proof (cases "map_of (ps_positions st) (me_symbol e)")
    case None
    then show ?thesis using assms by (simp add: apply_funding_def)
  next
    case (Some p)
    from positions_ok_lookup [OF assms(1) Some] have ok: "position_ok (me_symbol e, p\<lparr>pp_funding_paid := a,
        pp_last_funding_at_ms := t, pp_last_mark_price := m\<rparr>)" for a t m
      by (simp add: position_ok_def)
    show ?thesis
      using assms Some positions_update [OF _ _ ok]
      by (auto simp: apply_funding_def Let_def res_simps paper_shape_def split: if_splits)
  qed
  then show "paper_shape c account st1" "ps_fills st1 = ps_fills st" by simp_all
qed

lemma quantity_grows:
  assumes "representable a" "flt (Fin 0) a" "flt (Fin 0) b"
  shows "flt (Fin 0) (fadd a b)"
proof -
  have "0 < rnd_val (x + y)" if "rnd64 x = Fin x" "0 < x" "0 < y" for x y
    using rnd_val_mono [of x "x + y"] representable_val [OF that(1)] that by simp
  then show ?thesis using assms by (cases a; cases b) (auto simp: rnd64_val)
qed

lemma remaining_positive:
  assumes "flt (Fin 0) a" "isfinite b" "\<not> fle (fsub a b) (rnd64 (1 / 10 ^ 12))"
  shows "flt (Fin 0) (fsub a b)"
proof -
  have "flt (Fin 0) (rnd64 (1 / 10 ^ 12))" "isfinite (rnd64 (1 / 10 ^ 12))" by code_simp+
  then obtain x where "rnd64 (1 / 10 ^ 12) = Fin x" "0 < x" by (auto simp: isfinite_iff)
  then show ?thesis
    using assms by (cases a; cases b; cases "fsub a b") (auto simp: fsub_def rnd64_val split: if_splits)
qed

lemma apply_buy_shape:
  assumes "paper_shape c account st" "apply_buy st e q cost = Inr (st1, r)" "representable q" "flt (Fin 0) q"
  shows "paper_shape c account st1 \<and> ps_fills st1 = ps_fills st"
proof -
  obtain p debit where p: "position_ok (me_symbol e, p)"
    and st1: "st1 = st\<lparr>ps_cash := fsub (ps_cash st) debit,
                       ps_positions := AList.update (me_symbol e) p (ps_positions st)\<rparr>"
  proof (cases "map_of (ps_positions st) (me_symbol e)")
    case None
    have "position_ok (me_symbol e, open_position e q cost)"
      using assms(3,4) by (simp add: position_ok_def open_position_def)
    then show thesis using that assms(2) None by (auto simp: apply_buy_def Let_def res_simps split: if_splits)
  next
    case (Some p0)
    from positions_ok_lookup [OF assms(1) Some] have p0: "position_ok (me_symbol e, p0)" .
    from assms(2) Some obtain p debit where g: "grow_position e q cost p0 = Inr p"
      and st1: "st1 = st\<lparr>ps_cash := fsub (ps_cash st) debit,
                       ps_positions := AList.update (me_symbol e) p (ps_positions st)\<rparr>"
      by (auto simp: apply_buy_def Let_def res_simps split: if_splits)
    from g p0 assms(3,4) have "position_ok (me_symbol e, p)"
      by (auto simp: grow_position_def Let_def res_simps position_ok_def quantity_grows)
    then show thesis using st1 by (rule that)
  qed
  then show ?thesis
    using assms(1) positions_update [OF _ _ p] by (auto simp: paper_shape_def)
qed

lemma apply_sell_shape:
  assumes "paper_shape c account st" "apply_sell st e q cost = Inr (st1, r)" "isfinite q"
  shows "paper_shape c account st1 \<and> ps_fills st1 = ps_fills st"
proof -
  obtain p where p: "map_of (ps_positions st) (me_symbol e) = Some p"
    using assms(2) by (auto simp: apply_sell_def split: option.splits)
  note ok = positions_ok_lookup [OF assms(1) p]
  have "position_ok (me_symbol e, p\<lparr>pp_quantity := fsub (pp_quantity p) q, pp_entry_fees := a, pp_funding_paid := b,
      pp_last_mark_price := m\<rparr>)" if "\<not> fle (fsub (pp_quantity p) q) (rnd64 (1 / 10 ^ 12))" for a b m
    using ok that assms(3) remaining_positive by (simp add: position_ok_def)
  moreover from assms(2) p obtain cash realized a b m where
    "st1 = st\<lparr>ps_cash := fadd (ps_cash st) cash, ps_realized_pnl := realized,
        ps_positions := (if fle (fsub (pp_quantity p) q) (rnd64 (1 / 10 ^ 12)) then AList.delete (me_symbol e) (ps_positions st)
          else AList.update (me_symbol e) (p\<lparr>pp_quantity := fsub (pp_quantity p) q, pp_entry_fees := a,
                 pp_funding_paid := b, pp_last_mark_price := m\<rparr>) (ps_positions st))\<rparr>"
    by (simp only: apply_sell_def Let_def res_simps option.case) blast
  ultimately show ?thesis
    using assms(1) by (simp add: paper_shape_def positions_update positions_delete)
qed

lemma apply_fill_shape:
  assumes "paper_shape c account st" "apply_fill st fid e side q reason role cost = Inr (st1, fill)"
    and "representable q" "positive_finite q"
  shows "ps_fills st1 = ps_fills st @ [fill] \<and> pf_fill_id fill = fid \<and>
    (\<exists>st0. paper_shape c account st0 \<and> ps_fills st0 = ps_fills st \<and> ps_schema_version st1 = ps_schema_version st0 \<and>
       ps_account_id st1 = ps_account_id st0 \<and> ps_cash st1 = ps_cash st0 \<and> ps_positions st1 = ps_positions st0)"
proof -
  have q: "flt (Fin 0) q" "isfinite q" using positive_finiteD [OF assms(4)] by auto
  show ?thesis
  proof (cases side)
    case TRADE_BUY
    then show ?thesis using assms(2) apply_buy_shape [OF assms(1) _ assms(3) q(1)]
      by (fastforce simp: apply_fill_def Let_def res_simps)
  next
    case TRADE_SELL
    then show ?thesis using assms(2) apply_sell_shape [OF assms(1) _ q(2)]
      by (fastforce simp: apply_fill_def Let_def res_simps)
  qed
qed

lemma distinct_last_items: "distinct (map f xs) \<Longrightarrow> distinct (map f (last_items n xs))"
  by (simp add: last_items_def drop_map [symmetric])

lemma length_last_items: "0 \<le> n \<Longrightarrow> int (length (last_items n xs)) \<le> n"
  by (simp add: last_items_def)

definition valid_order :: "paper_order \<Rightarrow> bool" where
  "valid_order po \<longleftrightarrow> representable (po_quantity po) \<and> positive_finite (po_quantity po)"

lemma execute_step_wf:
  assumes "paper_wf c account st" "execute_step c clock po st = Inr (Write st2 r)" "valid_order po"
    and "list_all isfinite (state_floats st2)" "0 \<le> pc_maximum_fills c"
  shows "paper_wf c account (stored_form st2)"
proof -
  from assms(2) obtain st1 cost reason st3 fill where s:
    "find (\<lambda>f. pf_fill_id f = po_fill_id po) (ps_fills st) = None" "apply_funding c st (po_event po) = Inr st1"
    "apply_fill st1 (po_fill_id po) (po_event po) (po_side po) (po_quantity po) reason (po_liquidity_role po) cost = Inr (st3, fill)"
    "st2 = st3\<lparr>ps_fills := last_items (pc_maximum_fills c) (ps_fills st3),
               ps_updated_at_ms := max clock (me_timestamp_ms (po_event po))\<rparr>"
    by (auto simp: execute_step_def Let_def res_simps split: option.splits)
  have shape: "paper_shape c account st" using assms(1) by (simp add: paper_wf_def)
  note st1 = apply_funding_shape [OF shape s(2)]
  from apply_fill_shape [OF st1(1) s(3)] assms(3) have st3: "ps_fills st3 = ps_fills st @ [fill]" "pf_fill_id fill = po_fill_id po"
    "ps_schema_version st3 = 1 \<and> ps_account_id st3 = account \<and> representable (ps_cash st3) \<and>
     distinct (map fst (ps_positions st3)) \<and> list_all position_ok (ps_positions st3)"
    by (auto simp: valid_order_def st1(2) paper_shape_def)
  have "po_fill_id po \<notin> pf_fill_id ` set (ps_fills st)" using s(1) by (auto simp: find_None_iff)
  then have "distinct (map pf_fill_id (ps_fills st3))" using shape st3(1,2) by (simp add: paper_shape_def)
  then have "paper_shape c account st2"
    using st3(3) by (simp add: s(4) paper_shape_def length_last_items assms(5) distinct_last_items)
  then show ?thesis using assms(4) by (rule stored_form_wf)
qed

lemma mark_step_wf:
  assumes "paper_wf c account st" "mark_step c clock e st = Inr (Write st2 r)" "list_all isfinite (state_floats st2)"
  shows "paper_wf c account (stored_form st2)"
proof -
  from assms(2) obtain st1 where st1: "apply_funding c st e = Inr st1" by (auto simp: mark_step_def res_simps)
  have shape: "paper_shape c account st1" using apply_funding_shape(1) [OF _ st1] assms(1) by (simp add: paper_wf_def)
  have "paper_shape c account st2"
  proof (cases "map_of (ps_positions st1) (me_symbol e)")
    case None
    then show ?thesis using assms(2) st1 shape by (auto simp: mark_step_def paper_shape_def)
  next
    case (Some p)
    from positions_ok_lookup [OF shape Some]
    have "position_ok (me_symbol e, p\<lparr>pp_last_mark_price := mid e, pp_last_mark_at_ms := me_timestamp_ms e\<rparr>)"
      by (simp add: position_ok_def)
    then show ?thesis using assms(2) st1 shape Some positions_update by (auto simp: mark_step_def paper_shape_def)
  qed
  then show ?thesis using assms(3) by (rule stored_form_wf)
qed

section \<open>Runs of the broker\<close>

text \<open>
  The effects broker processes can have on the table: an operation runs while others, given as
  effects themselves, come between its reads and its writes.
\<close>

inductive paper_writer :: "paper_config \<Rightarrow> string \<Rightarrow> (paper_state kv \<Rightarrow> paper_state kv) \<Rightarrow> bool"
  for c account where
  writer_none: "paper_writer c account (\<lambda>db. db)"
| writer_init: "paper_writer c account other \<Longrightarrow>
    paper_writer c account (\<lambda>db. snd (paper_init c account clock other db))"
| writer_execute: "list_all (paper_writer c account) others \<Longrightarrow> representable (po_quantity po) \<Longrightarrow>
    paper_writer c account (\<lambda>db. snd (paper_execute c account po clock others db))"
| writer_mark: "list_all (paper_writer c account) others \<Longrightarrow>
    paper_writer c account (\<lambda>db. snd (paper_mark c account e clock others db))"

inductive paper_reachable :: "paper_config \<Rightarrow> string \<Rightarrow> paper_state kv \<Rightarrow> bool" for c account where
  reach_empty: "paper_reachable c account (\<lambda>_. None)"
| reach_writer: "paper_reachable c account db \<Longrightarrow> paper_writer c account g \<Longrightarrow> paper_reachable c account (g db)"

definition broker_ok :: "paper_config \<Rightarrow> string \<Rightarrow> bool" where
  "broker_ok c account \<longleftrightarrow> paper_config_post_init c = Inr () \<and> representable (pc_initial_cash c) \<and>
     paper_identifier account ''account_id'' = Inr account"

lemma broker_okD:
  assumes "broker_ok c account"
  shows "clean_cell paper_namespace account" "paper_wf c account (stored_form (fresh_account c account clock))"
    "100 \<le> pc_maximum_fills c"
  using assms paper_clean_cell [of account "''account_id''"]
  by (auto simp: broker_ok_def paper_config_post_init_def positive_finite_def paper_wf_def paper_shape_def
      stored_form_def fresh_account_def state_floats_def money_fields_def split: if_splits)

lemma check_paper_order_Inr:
  "check_paper_order po = Inr po' \<longleftrightarrow> validate_market_event (po_event po) = Inr () \<and> strip (po_fill_id po) \<noteq> [] \<and>
     length (strip (po_fill_id po)) \<le> 160 \<and> positive_finite (po_quantity po) \<and>
     po' = po\<lparr>po_fill_id := strip (po_fill_id po)\<rparr>"
  by (auto simp: check_paper_order_def paper_identifier_def paper_positive_def Let_def res_simps)

lemma paper_execute_cases:
  assumes "broker_ok c account" "list_all (keeps_account (paper_wf c account) account) others"
    and "account_inv (paper_wf c account) account db" "representable (po_quantity po)"
    and "paper_execute c account po clock others db = (res, db')"
  shows "account_inv (paper_wf c account) account db' \<and>
    (\<forall>r. res = Inr r \<longrightarrow> (\<exists>po'. check_paper_order po = Inr po' \<and>
       paper_outcome (paper_wf c account) c account (execute_step c clock po') r db'))"
proof (cases "check_paper_order po")
  case (Inl e)
  then show ?thesis using assms(3,5) by (auto simp: paper_execute_def)
next
  case (Inr po')
  have run: "paper_loop 5 c account clock (execute_step c clock po')
      ''paper broker state update conflicted repeatedly'' others db = (res, db')"
    using assms(5) Inr by (simp add: paper_execute_def)
  have valid: "valid_order po'" using assms(4) Inr by (auto simp: valid_order_def check_paper_order_Inr)
  note ok = broker_okD [OF assms(1)]
  have step: "paper_wf c account (stored_form st2)"
    if "paper_wf c account st" "normalize_state c st = Inr st1" "execute_step c clock po' st1 = Inr (Write st2 r)"
      "list_all isfinite (state_floats st2)" for st st1 st2 r
    using execute_step_wf [OF that(1) _ valid that(4)] that normalize_wf(1) [OF that(1,2)] ok(3) by simp
  have "account_inv (paper_wf c account) account db' \<and>
      (\<forall>r. res = Inr r \<longrightarrow> paper_outcome (paper_wf c account) c account (execute_step c clock po') r db')"
    by (rule paper_loop_cases [OF ok(1) ok(2) _ assms(2,3) run]) (rule step)
  with Inr show ?thesis by blast
qed

lemma paper_mark_keeps:
  assumes "broker_ok c account" "list_all (keeps_account (paper_wf c account) account) others"
    and "account_inv (paper_wf c account) account db"
  shows "account_inv (paper_wf c account) account (snd (paper_mark c account e clock others db))"
proof -
  note ok = broker_okD [OF assms(1)]
  obtain res db' where run: "paper_loop 5 c account clock (mark_step c clock e)
      ''paper broker mark update conflicted repeatedly'' others db = (res, db')" by fastforce
  have step: "paper_wf c account (stored_form st2)"
    if "paper_wf c account st" "normalize_state c st = Inr st1" "mark_step c clock e st1 = Inr (Write st2 r)"
      "list_all isfinite (state_floats st2)" for st st1 st2 r
    using mark_step_wf [OF that(1) _ that(4)] that normalize_wf(1) [OF that(1,2)] by simp
  have "account_inv (paper_wf c account) account db' \<and>
      (\<forall>r. res = Inr r \<longrightarrow> paper_outcome (paper_wf c account) c account (mark_step c clock e) r db')"
    by (rule paper_loop_cases [OF ok(1) ok(2) _ assms(2,3) run]) (rule step)
  then show ?thesis using run assms(3) by (auto simp: paper_mark_def split: sum.splits)
qed

lemma paper_init_effect:
  assumes "broker_ok c account"
  shows "snd (paper_init c account clock other db) = db \<or>
    snd (paper_init c account clock other db) = snd (ensure_account c account clock other db)"
proof (cases "cost_model_post_init (pc_costs c)")
  case (Inr u)
  then show ?thesis
    using assms
    by (cases "ensure_account c account clock other db"; cases "fst (ensure_account c account clock other db)")
      (simp_all add: paper_init_def broker_ok_def)
qed (use assms in \<open>simp add: paper_init_def broker_ok_def\<close>)

lemma paper_writer_keeps:
  assumes "paper_writer c account g" "broker_ok c account"
  shows "keeps_account (paper_wf c account) account g"
  using assms
proof (induction rule: paper_writer.induct)
  case (writer_init other clock)
  have "account_inv (paper_wf c account) account (snd (paper_init c account clock other db))"
    if inv: "account_inv (paper_wf c account) account db" for db
    using paper_init_effect [OF writer_init.prems, of clock other db] inv
      ensure_account_keeps [OF broker_okD(1) [OF writer_init.prems] inv writer_init.IH [OF writer_init.prems]
        broker_okD(2) [OF writer_init.prems]]
    by (elim disjE) simp_all
  then show ?case by (simp add: keeps_account_def)
next
  case (writer_execute others po clock)
  then show ?case
    using paper_execute_cases [of c account others _ po clock]
    by (metis (mono_tags, lifting) keeps_account_def list_all_iff prod.collapse)
next
  case (writer_mark others e clock)
  then show ?case
    using paper_mark_keeps [of c account others _ e clock] by (simp add: keeps_account_def list_all_iff)
qed (simp add: keeps_account_def)

lemma paper_reachable_wf:
  assumes "paper_reachable c account db" "broker_ok c account"
  shows "account_inv (paper_wf c account) account db"
  using assms
proof (induction rule: paper_reachable.induct)
  case (reach_writer db g)
  then show ?case using paper_writer_keeps by (auto simp: keeps_account_def)
qed (simp add: account_inv_def)

lemma account_readable:
  assumes "broker_ok c account" "account_inv (paper_wf c account) account db" "db (paper_cell account) = Some row"
    and "\<not> flt (ps_cash (kv_doc row)) cash_floor"
  shows "\<exists>snap. paper_snapshot_of c account marks db = Inr snap \<and> pn_state snap = kv_doc row"
proof -
  note ok = broker_okD [OF assms(1)]
  have "paper_wf c account (kv_doc row)" using assms(2,3) by (simp add: account_inv_def)
  then have "normalize_state c (kv_doc row) = Inr (kv_doc row)"
    using assms(4) by (simp add: normalize_state_def paper_wf_def paper_shape_def last_items_short
        state_floats_def money_fields_def check_money_def)
  then show ?thesis
    using assms(3) by (simp add: paper_snapshot_of_def Let_def get_json_clean [OF conjunct1 [OF ok(1)] conjunct2 [OF ok(1)]])
qed

section \<open>The guarantees\<close>

text \<open>
  C36. Accounts stay well formed: after any sequence of broker operations, interleaved in any way, the
  stored account has distinct symbols with positive, finite quantities under their own keys,
  distinct fill ids, no more fills than configured, and only finite numbers.
\<close>

theorem paper_accounts_stay_well_formed:
  assumes "paper_reachable c account db" "broker_ok c account" "db (paper_namespace, account) = Some row"
  shows "distinct (map fst (ps_positions (kv_doc row))) \<and>
    (\<forall>(s, p) \<in> set (ps_positions (kv_doc row)). pp_symbol p = s \<and> isfinite (pp_quantity p) \<and>
       flt (Fin 0) (pp_quantity p)) \<and>
    distinct (map pf_fill_id (ps_fills (kv_doc row))) \<and>
    int (length (ps_fills (kv_doc row))) \<le> pc_maximum_fills c \<and>
    list_all isfinite (state_floats (kv_doc row)) \<and> ps_account_id (kv_doc row) = account"
proof -
  have "paper_wf c account (kv_doc row)"
    using paper_reachable_wf [OF assms(1,2)] assms(3) by (simp add: account_inv_def)
  then show ?thesis
    by (fastforce simp: paper_wf_def paper_shape_def list_all_iff position_ok_def state_floats_def position_floats_def)
qed

section \<open>Cash\<close>

text \<open>The slack of the cash check, \<open>1e-9\<close> as a float.\<close>

definition cash_slack :: rat where
  "cash_slack = (case rnd64 (1 / 10 ^ 9) of Fin x \<Rightarrow> x | _ \<Rightarrow> 0)"

lemma cash_slack_facts:
  "rnd64 (1 / 10 ^ 9) = Fin cash_slack" "0 < cash_slack" "rnd64 (- 2 * cash_slack) = Fin (- 2 * cash_slack)"
  "flt cash_floor (Fin (- 2 * cash_slack))"
  by code_simp+

lemma buy_leaves_cash:
  assumes "representable cash" "\<not> flt (fadd cash (rnd64 (1 / 10 ^ 9))) (fadd a b)"
    and "isfinite (fsub cash (fadd a b))"
  shows "fle (Fin (- 2 * cash_slack)) (fsub cash (fadd a b))"
proof -
  obtain x where x: "cash = Fin x" using assms(3) by (cases cash; cases "fadd a b") (auto simp: fsub_def split: if_splits)
  obtain d where d: "fadd a b = Fin d" using assms(3) by (cases cash; cases "fadd a b") (auto simp: fsub_def split: if_splits)
  have bound: "\<bar>d\<bar> < pow2 1024"
    using d by (cases a; cases b) (auto simp: rnd64_val split: if_splits)
  have rx: "rnd_val x = x" using assms(1) x representable_val by simp
  have "rnd_val (x + cash_slack) \<le> x + 2 * cash_slack"
    using rnd_val_nearest_above [OF rx, of "x + cash_slack"] cash_slack_facts(2) by (simp add: abs_le_iff)
  moreover have "d \<le> rnd_val (x + cash_slack)"
    using assms(2) bound cash_slack_facts(1,2) rnd_val_nonneg [of "x + cash_slack"] pow2_pos [of 1024]
    by (auto simp: x d rnd64_val [of "x + cash_slack"] abs_if split: if_splits)
  ultimately have "- 2 * cash_slack \<le> x - d" by simp
  from rnd64_lower [OF this cash_slack_facts(3)] show ?thesis by (simp add: x d fsub_def)
qed

lemma buy_step_cash:
  assumes "paper_wf c account st" "execute_step c clock po st = Inr (Write st2 r)" "po_side po = TRADE_BUY"
    and "list_all isfinite (state_floats st2)"
  shows "fle (Fin (- 2 * cash_slack)) (ps_cash st2)"
proof -
  from assms(2,3) obtain st1 cost st3 fill where s: "apply_funding c st (po_event po) = Inr st1"
    "apply_buy st1 (po_event po) (po_quantity po) cost = Inr (st3, fill)" "ps_cash st2 = ps_cash st3"
    by (auto simp: execute_step_def apply_fill_def Let_def res_simps split: option.splits)
  have cash: "representable (ps_cash st1)"
    using apply_funding_shape(1) [OF _ s(1)] assms(1) by (auto simp: paper_wf_def paper_shape_def)
  have "isfinite (ps_cash st2)" using assms(4) by (simp add: state_floats_def money_fields_def)
  with s(2,3) buy_leaves_cash [OF cash] show ?thesis
    by (auto simp: apply_buy_def Let_def res_simps)
qed

text \<open>
  C38. A buy never overdraws the account: when a buy is filled, the cash that is stored is at least
  \<open>-2e-9\<close>, whatever funding was charged on the way and however the amounts were rounded, so the
  account is still readable.
\<close>

theorem buy_never_overdraws:
  assumes "paper_reachable c account db" "broker_ok c account" "list_all (paper_writer c account) others"
    and "representable (po_quantity po)" "po_side po = TRADE_BUY"
    and "paper_execute c account po clock others db = (Inr (fill, False), db')"
  shows "\<exists>snap. paper_snapshot_of c account marks db' = Inr snap \<and>
    fle (Fin (- 2 * cash_slack)) (ps_cash (pn_state snap))"
proof -
  have others: "list_all (keeps_account (paper_wf c account) account) others"
    using assms(2,3) paper_writer_keeps by (auto simp: list_all_iff)
  from paper_execute_cases [OF assms(2) others paper_reachable_wf [OF assms(1,2)] assms(4,6)]
  obtain po' where inv: "account_inv (paper_wf c account) account db'" and po': "check_paper_order po = Inr po'"
    "paper_outcome (paper_wf c account) c account (execute_step c clock po') (fill, False) db'" by auto
  have keep: "execute_step c clock po' st \<noteq> Inr (Keep (fill, False))" for st
    by (auto simp: execute_step_def Let_def res_simps split: option.splits)
  from po'(2) keep obtain st st1 row st2 where o: "paper_wf c account st" "normalize_state c st = Inr st1"
    "db' (paper_cell account) = Some row" "execute_step c clock po' st1 = Inr (Write st2 (fill, False))"
    "list_all isfinite (state_floats st2)" "kv_doc row = stored_form st2"
    unfolding paper_outcome_def by blast
  have "po_side po' = TRADE_BUY" using po'(1) assms(5) by (auto simp: check_paper_order_Inr)
  with buy_step_cash [OF o(1) _ _ o(5)] o(4) normalize_wf(1) [OF o(1,2)]
  have cash: "fle (Fin (- 2 * cash_slack)) (ps_cash st2)" by blast
  have "\<not> flt (ps_cash (kv_doc row)) cash_floor"
    using flt_le_asym [OF cash_slack_facts(4) cash] by (simp add: o(6) stored_form_def)
  from account_readable [OF assms(2) inv o(3) this, of marks] cash show ?thesis
    by (auto simp: o(6) stored_form_def)
qed

lemma paper_loop_stuck:
  assumes "paper_identifier account ''account_id'' = Inr account"
    and "db (paper_namespace, account) = Some row" "normalize_state c (kv_doc row) = Inl e"
  shows "paper_loop 5 c account clock f msg others db = (Inl e, db)"
proof -
  note clean = paper_clean_cell [OF assms(1)]
  have "(5 :: nat) = Suc 4" by simp
  then show ?thesis
    using assms(2,3)
    by (simp only: paper_loop.simps get_json_clean [OF conjunct1 [OF clean] conjunct2 [OF clean]]
        sum.case option.case rbind.simps)
qed

text \<open>
  C39. Negative cash is final: an account whose stored cash is below the floor of \<open>-1e-8\<close> can never be
  used again; every snapshot, execution and mark raises and leaves the table as it is.
\<close>

theorem negative_cash_is_final:
  assumes "paper_identifier account ''account_id'' = Inr account"
    and "db (paper_namespace, account) = Some row" "flt (ps_cash (kv_doc row)) cash_floor"
  shows "(\<exists>e. paper_snapshot_of c account marks db = Inl e) \<and>
    (\<exists>e. paper_execute c account po clock others db = (Inl e, db)) \<and>
    (\<exists>e. paper_mark c account ev clock others db = (Inl e, db))"
proof -
  note clean = paper_clean_cell [OF assms(1)]
  note get = get_json_clean [OF conjunct1 [OF clean] conjunct2 [OF clean]]
  obtain e where e: "normalize_state c (kv_doc row) = Inl e"
    using assms(3) by (cases "normalize_state c (kv_doc row)") (auto simp: normalize_state_def res_simps)
  note loops = paper_loop_stuck [of account db row c e, OF assms(1,2) e]
  have "paper_snapshot_of c account marks db = Inl e" using assms(2) e by (simp add: paper_snapshot_of_def get)
  moreover have "\<exists>e. paper_execute c account po clock others db = (Inl e, db)"
    by (cases "check_paper_order po") (simp_all add: paper_execute_def loops)
  moreover have "\<exists>e. paper_mark c account ev clock others db = (Inl e, db)"
    by (cases "validate_market_event ev") (simp_all add: paper_mark_def loops)
  ultimately show ?thesis by blast
qed

section \<open>A run\<close>

text \<open>An account of 405, a buy of four units for almost all of it, and a mark a funding interval later.\<close>

definition sample_broker :: paper_config where
  "sample_broker = \<lparr>pc_initial_cash = Fin 405, pc_costs = default_cost_model, pc_maximum_fills = 100\<rparr>"

definition sample_order :: paper_order where
  "sample_order = \<lparr>po_fill_id = ''fill-1'', po_event = sample_event\<lparr>me_volume := None\<rparr>, po_side = TRADE_BUY,
     po_quantity = Fin 4, po_reason = ''signal'', po_liquidity_role = ''taker''\<rparr>"

definition opened_account :: "paper_state kv" where
  "opened_account = snd (paper_init sample_broker ''main'' 1 id (\<lambda>_. None))"

definition sample_bought :: "(paper_fill \<times> bool) res \<times> paper_state kv" where
  "sample_bought = paper_execute sample_broker ''main'' sample_order 2 [] opened_account"

definition sample_charged :: "paper_snapshot res \<times> paper_state kv" where
  "sample_charged = paper_mark sample_broker ''main''
     (sample_event\<lparr>me_timestamp_ms := 28801000, me_funding_rate := rnd64 (1 / 100)\<rparr>) 3 [] (snd sample_bought)"

lemma sample_broker_ok: "broker_ok sample_broker ''main''"
  by code_simp

lemma sample_order_ok: "representable (po_quantity sample_order)" "po_side sample_order = TRADE_BUY"
  "check_paper_order sample_order = Inr sample_order"
  by code_simp+

lemma sample_run_reachable:
  "paper_reachable sample_broker ''main'' opened_account"
  "paper_reachable sample_broker ''main'' (snd sample_bought)"
  "paper_reachable sample_broker ''main'' (snd sample_charged)"
proof -
  have "paper_writer sample_broker ''main'' (\<lambda>db. snd (paper_init sample_broker ''main'' 1 id db))"
    by (intro writer_init) (simp add: id_def writer_none)
  from reach_writer [OF reach_empty this] show opened: "paper_reachable sample_broker ''main'' opened_account"
    by (simp add: opened_account_def)
  have "paper_writer sample_broker ''main'' (\<lambda>db. snd (paper_execute sample_broker ''main'' sample_order 2 [] db))"
    by (intro writer_execute) (simp_all add: sample_order_ok)
  from reach_writer [OF opened this] show bought: "paper_reachable sample_broker ''main'' (snd sample_bought)"
    by (simp add: sample_bought_def)
  have "paper_writer sample_broker ''main'' (\<lambda>db. snd (paper_mark sample_broker ''main''
     (sample_event\<lparr>me_timestamp_ms := 28801000, me_funding_rate := rnd64 (1 / 100)\<rparr>) 3 [] db))"
    by (intro writer_mark) simp_all
  from reach_writer [OF bought this] show "paper_reachable sample_broker ''main'' (snd sample_charged)"
    by (simp add: sample_charged_def)
qed

lemma sample_bought_fill: "\<exists>fill. sample_bought = (Inr (fill, False), snd sample_bought)"
proof -
  have "case fst sample_bought of Inl _ \<Rightarrow> False | Inr (f, d) \<Rightarrow> \<not> d" by code_simp
  then show ?thesis by (auto simp: prod_eq_iff split: sum.splits)
qed

lemma sample_bought_readable: "\<exists>snap. paper_snapshot_of sample_broker ''main'' [] (snd sample_bought) = Inr snap"
proof -
  have "case paper_snapshot_of sample_broker ''main'' [] (snd sample_bought) of Inl _ \<Rightarrow> False | Inr _ \<Rightarrow> True"
    by code_simp
  then show ?thesis by (auto split: sum.splits)
qed

lemma sample_bought_row:
  "\<exists>row. snd sample_bought (paper_namespace, ''main'') = Some row \<and> length (ps_fills (kv_doc row)) = 1"
proof -
  have "case snd sample_bought (paper_namespace, ''main'') of None \<Rightarrow> False
    | Some row \<Rightarrow> length (ps_fills (kv_doc row)) = 1" by code_simp
  then show ?thesis by (auto split: option.splits)
qed

lemma sample_charged_eval:
  "case snd sample_charged (paper_namespace, ''main'') of None \<Rightarrow> False
   | Some row \<Rightarrow> flt (ps_cash (kv_doc row)) cash_floor"
  by code_simp

theorem paper_accounts_stay_well_formed_witness:
  "\<exists>row. snd sample_bought (paper_namespace, ''main'') = Some row \<and> length (ps_fills (kv_doc row)) = 1 \<and>
    list_all isfinite (state_floats (kv_doc row)) \<and> ps_account_id (kv_doc row) = ''main''"
  using paper_accounts_stay_well_formed [OF sample_run_reachable(2) sample_broker_ok] sample_bought_row by blast

theorem buy_never_overdraws_witness:
  "\<exists>snap. paper_snapshot_of sample_broker ''main'' [] (snd sample_bought) = Inr snap \<and>
    fle (Fin (- 2 * cash_slack)) (ps_cash (pn_state snap))"
proof -
  obtain fill where "sample_bought = (Inr (fill, False), snd sample_bought)" using sample_bought_fill by blast
  with buy_never_overdraws [OF sample_run_reachable(1) sample_broker_ok _ sample_order_ok(1,2), of "[]" 2 fill
      "snd sample_bought" "[]"]
  show ?thesis by (simp add: sample_bought_def)
qed

theorem negative_cash_is_final_witness:
  "paper_reachable sample_broker ''main'' (snd sample_charged) \<and>
    (\<exists>e. paper_execute sample_broker ''main'' sample_order 4 [] (snd sample_charged) = (Inl e, snd sample_charged))"
proof -
  obtain row where "snd sample_charged (paper_namespace, ''main'') = Some row" "flt (ps_cash (kv_doc row)) cash_floor"
    using sample_charged_eval by (auto split: option.splits)
  with negative_cash_is_final [of "''main''" "snd sample_charged" row sample_broker "[]" sample_order 4 "[]"]
  show ?thesis using sample_broker_ok sample_run_reachable(3) by (simp add: broker_ok_def)
qed

end
