(* ===== verification/Paper_Ledger.thy ===== *)
theory Paper_Ledger
  imports Paper_Accounts
begin

text \<open>
  The fills of a paper account as a ledger. \<open>paper_history\<close> is a sequence of uninterrupted broker
  operations with the fills they added; whatever an operation of the broker does to the table while
  others run between its reads and its writes is the effect of such a sequence
  (\<open>paper_writer_history\<close>), because a write only goes through on the row it was computed from. Along a
  history the stored fills are the last \<open>maximum_fills\<close> of all that were added (\<open>history_fills\<close>), and
  that is how long a fill id is recognised.
\<close>

section \<open>Histories\<close>

text \<open>
  Operations that run one after the other, with the fills they added in order: opening the account,
  marks, executions that fill, and executions that do not (duplicates and errors).
\<close>

inductive paper_history :: "paper_config \<Rightarrow> string \<Rightarrow> paper_state kv \<Rightarrow> paper_fill list \<Rightarrow> paper_state kv \<Rightarrow> bool"
  for c account db where
  hist_none: "paper_history c account db [] db"
| hist_open: "paper_history c account db fs db1 \<Longrightarrow> ensure_account c account clock id db1 = (r, db2) \<Longrightarrow>
    paper_history c account db fs db2"
| hist_mark: "paper_history c account db fs db1 \<Longrightarrow> paper_mark c account e clock [] db1 = (r', db2) \<Longrightarrow>
    paper_history c account db fs db2"
| hist_fill: "paper_history c account db fs db1 \<Longrightarrow> representable (po_quantity po) \<Longrightarrow>
    paper_execute c account po clock [] db1 = (Inr (fill, False), db2) \<Longrightarrow>
    paper_history c account db (fs @ [fill]) db2"
| hist_other: "paper_history c account db fs db1 \<Longrightarrow> representable (po_quantity po) \<Longrightarrow>
    paper_execute c account po clock [] db1 = (res, db2) \<Longrightarrow> \<forall>fill. res \<noteq> Inr (fill, False) \<Longrightarrow>
    paper_history c account db fs db2"

lemma paper_history_trans:
  assumes "paper_history c account db1 gs db2" "paper_history c account db fs db1"
  shows "paper_history c account db (fs @ gs) db2"
  using assms
proof (induction rule: paper_history.induct)
  case (hist_fill gs db1' po clock fill db2)
  from paper_history.hist_fill [OF hist_fill.IH [OF hist_fill.prems] hist_fill.hyps(2,3)] show ?case by simp
qed (auto intro: paper_history.intros)

text \<open>No operation lowers a version or changes a row without a new one.\<close>

lemma paper_put_evolves: "paper_put db account st n clock = Inr (v, db') \<Longrightarrow> kv_evolves db db'"
  by (auto simp: paper_put_def split: if_splits dest: put_json_evolves)

lemma ensure_account_evolves:
  assumes "\<And>d. kv_evolves d (other d)"
  shows "kv_evolves db (snd (ensure_account c account clock other db))"
  using kv_evolves_trans [OF assms [of db] paper_put_evolves] assms [of db]
  by (auto simp: ensure_account_def Let_def split: sum.split option.split py_error.split prod.split)

lemma paper_loop_evolves:
  assumes "\<And>g d. g \<in> set others \<Longrightarrow> kv_evolves d (g d)"
  shows "kv_evolves db (snd (paper_loop n c account clock f msg others db))"
  using assms
proof (induction n arbitrary: others db)
  case (Suc n)
  have first: "kv_evolves d (first_other others d)" for d using Suc.prems by (cases others) (simp_all add: first_other_def)
  have rest: "kv_evolves d (snd (paper_loop n c account clock f msg (tl others) d))" for d
    using Suc.IH [of "tl others"] Suc.prems by (cases others) simp_all
  note again = kv_evolves_trans [OF _ rest] and put = kv_evolves_trans [OF first paper_put_evolves]
  have ensured: "ensure_account c account clock (first_other others) db = (r, d) \<Longrightarrow> kv_evolves db d" for r d
    using ensure_account_evolves [OF first, of db c account clock] by simp
  show ?case
    by (auto simp: Let_def split: sum.split option.split paper_step.split py_error.split prod.split
        intro: first again [OF first] put dest!: ensured intro: again)
qed simp

lemma paper_history_evolves: "paper_history c account db fs db' \<Longrightarrow> kv_evolves db db'"
proof (induction rule: paper_history.induct)
  case hist_none
  show ?case by simp
next
  case (hist_open fs db1 clock r db2)
  from ensure_account_evolves [of id db1 c account clock] hist_open show ?case
    using kv_evolves_trans by fastforce
next
  case (hist_mark fs db1 e clock r' db2)
  have "kv_evolves db1 (snd (paper_mark c account e clock [] db1))"
    using paper_loop_evolves [of "[]" db1 5 c account clock "mark_step c clock e" "''paper broker mark update conflicted repeatedly''"]
    by (auto simp: paper_mark_def split: sum.split prod.split)
  with hist_mark show ?case using kv_evolves_trans by fastforce
next
  case (hist_fill fs db1 po clock fill db2)
  have "kv_evolves db1 (snd (paper_execute c account po clock [] db1))"
    by (auto simp: paper_execute_def split: sum.split intro!: paper_loop_evolves)
  with hist_fill show ?case using kv_evolves_trans by fastforce
next
  case (hist_other fs db1 po clock res db2)
  have "kv_evolves db1 (snd (paper_execute c account po clock [] db1))"
    by (auto simp: paper_execute_def split: sum.split intro!: paper_loop_evolves)
  with hist_other show ?case using kv_evolves_trans by fastforce
qed

text \<open>The effects on the table that a history explains.\<close>

definition has_history :: "paper_config \<Rightarrow> string \<Rightarrow> (paper_state kv \<Rightarrow> paper_state kv) \<Rightarrow> bool" where
  "has_history c account g \<longleftrightarrow> (\<forall>db. \<exists>fs. paper_history c account db fs (g db))"

lemma has_history_first: "list_all (has_history c account) others \<Longrightarrow> has_history c account (first_other others)"
  using hist_none by (cases others) (auto simp: first_other_def has_history_def)

lemma has_history_join:
  assumes "\<exists>fs. paper_history c account db fs db1" "\<exists>gs. paper_history c account db1 gs db2"
  shows "\<exists>fs. paper_history c account db fs db2"
  using assms paper_history_trans by blast

text \<open>A write that goes through found the row it was computed from, so it could have run alone.\<close>

lemma ensure_account_history:
  assumes clean: "clean_cell paper_namespace account" and "has_history c account other"
    and run: "ensure_account c account clock other db = (res, db')"
  shows "\<exists>fs. paper_history c account db fs db'"
proof -
  obtain fs where fs: "paper_history c account db fs (other db)" using assms(2) by (auto simp: has_history_def)
  note get = get_json_clean [OF conjunct1 [OF clean] conjunct2 [OF clean]]
  show ?thesis
  proof (cases "db' = db \<or> db' = other db")
    case True
    then show ?thesis using fs hist_none by blast
  next
    case False
    with run have None: "db (paper_cell account) = None"
      and put: "\<exists>v. paper_put (other db) account (fresh_account c account clock) 0 clock = Inr (v, db')"
      by (auto simp: ensure_account_def get Let_def split: option.splits sum.splits py_error.splits prod.splits)
    then have "kv_current (other db (paper_cell account)) = 0" by (auto simp: paper_put_Inr [OF clean])
    with kv_evolves_same_version [OF paper_history_evolves [OF fs], of "paper_cell account"] None
    have "other db (paper_cell account) = None" by (simp add: kv_current_def)
    with put have "ensure_account c account clock id (other db) = (Inr (), db')"
      by (auto simp: ensure_account_def get)
    from hist_open [OF fs this] show ?thesis by blast
  qed
qed

lemma paper_loop_history:
  assumes clean: "clean_cell paper_namespace account" and others: "list_all (has_history c account) others"
    and alone: "\<And>d r d'. paper_loop 5 c account clock f msg [] d = (r, d') \<Longrightarrow> \<exists>fs. paper_history c account d fs d'"
    and run: "paper_loop n c account clock f msg others db = (res, db')"
  shows "\<exists>fs. paper_history c account db fs db'"
  using others run
proof (induction n arbitrary: others db)
  case 0
  then show ?case using hist_none by fastforce
next
  case (Suc n)
  note first = has_history_first [OF Suc.prems(1)]
  obtain fs where fs: "paper_history c account db fs (first_other others db)" using first by (auto simp: has_history_def)
  note rest = Suc.IH [OF keeps_tl [OF Suc.prems(1)]]
  note get = get_json_clean [OF conjunct1 [OF clean] conjunct2 [OF clean]]
  show ?case
  proof (cases "db (paper_cell account)")
    case None
    obtain r0 db0 where ens: "ensure_account c account clock (first_other others) db = (r0, db0)" by fastforce
    from ensure_account_history [OF clean first ens] has_history_join [OF _ rest] Suc.prems(2) show ?thesis
      by (auto simp: get None ens split: sum.splits)
  next
    case (Some row)
    from paper_loop_step [OF clean Some Suc.prems(2)] show ?thesis
    proof (elim disjE exE conjE)
      fix r st1 st2 v
      assume w: "res = Inr r" "normalize_state c (kv_doc row) = Inr st1" "f st1 = Inr (Write st2 r)"
        "paper_put (first_other others db) account st2 (kv_version row) clock = Inr (v, db')"
      then have "kv_current (first_other others db (paper_cell account)) = kv_current (db (paper_cell account))"
        by (simp add: paper_put_Inr [OF clean] Some kv_current_def)
      from kv_evolves_same_version [OF paper_history_evolves [OF fs] this] Some
      have same: "first_other others db (paper_cell account) = Some row" by (rule trans)
      have "(5 :: nat) = Suc 4" by simp
      then have "paper_loop 5 c account clock f msg [] (first_other others db) = (Inr r, db')"
        using w by (simp only: paper_loop.simps get same) (simp add: first_other_def)
      from has_history_join [OF _ alone [OF this]] fs show ?thesis by blast
    next
      assume "paper_loop n c account clock f msg (tl others) (first_other others db) = (res, db')"
      from has_history_join [OF _ rest [OF this]] fs show ?thesis by blast
    qed (use fs hist_none in blast)+
  qed
qed

lemma execute_alone_history:
  assumes "representable (po_quantity po)" "paper_execute c account po clock [] db = (res, db')"
  shows "\<exists>fs. paper_history c account db fs db'"
proof (cases "\<exists>fill. res = Inr (fill, False)")
  case True
  then obtain fill where "paper_execute c account po clock [] db = (Inr (fill, False), db')" using assms(2) by blast
  from hist_fill [OF hist_none assms(1) this] show ?thesis by blast
next
  case False
  with hist_other [OF hist_none assms] show ?thesis by blast
qed

lemma paper_writer_history:
  assumes "paper_writer c account g" "broker_ok c account"
  shows "has_history c account g"
  using assms
proof (induction rule: paper_writer.induct)
  case writer_none
  show ?case using hist_none by (auto simp: has_history_def)
next
  case (writer_init other clock)
  have "\<exists>fs. paper_history c account db fs (snd (paper_init c account clock other db))" for db
  proof -
    obtain r d where "ensure_account c account clock other db = (r, d)" by fastforce
    from ensure_account_history [OF broker_okD(1) [OF writer_init.prems] writer_init.IH [OF writer_init.prems] this]
      paper_init_effect [OF writer_init.prems, of clock other db] this hist_none
    show ?thesis by (metis snd_conv)
  qed
  then show ?case by (simp add: has_history_def)
next
  case (writer_execute others po clock)
  have others: "list_all (has_history c account) others" using writer_execute by (simp add: list_all_iff)
  have "\<exists>fs. paper_history c account db fs (snd (paper_execute c account po clock others db))" for db
  proof (cases "check_paper_order po")
    case (Inl e)
    then show ?thesis using hist_none by (auto simp: paper_execute_def)
  next
    case (Inr po')
    obtain res db' where run: "paper_loop 5 c account clock (execute_step c clock po')
      ''paper broker state update conflicted repeatedly'' others db = (res, db')" by fastforce
    have "\<exists>fs. paper_history c account d fs d'" if "paper_loop 5 c account clock (execute_step c clock po')
      ''paper broker state update conflicted repeatedly'' [] d = (r, d')" for d r d'
      using execute_alone_history [OF writer_execute(2), of c account clock d r d'] that Inr by (simp add: paper_execute_def)
    from paper_loop_history [OF broker_okD(1) [OF writer_execute.prems] others this run] run Inr
    show ?thesis by (simp add: paper_execute_def)
  qed
  then show ?case by (simp add: has_history_def)
next
  case (writer_mark others e clock)
  have others: "list_all (has_history c account) others" using writer_mark by (simp add: list_all_iff)
  have "\<exists>fs. paper_history c account db fs (snd (paper_mark c account e clock others db))" for db
  proof (cases "validate_market_event e")
    case (Inl err)
    then show ?thesis using hist_none by (auto simp: paper_mark_def)
  next
    case (Inr u)
    obtain res db' where run: "paper_loop 5 c account clock (mark_step c clock e)
      ''paper broker mark update conflicted repeatedly'' others db = (res, db')" by fastforce
    have "\<exists>fs. paper_history c account d fs d'" if "paper_loop 5 c account clock (mark_step c clock e)
      ''paper broker mark update conflicted repeatedly'' [] d = (r, d')" for d r d'
    proof -
      have "snd (paper_mark c account e clock [] d) = d'"
        using that Inr by (auto simp: paper_mark_def split: sum.split)
      then obtain q where "paper_mark c account e clock [] d = (q, d')" by (metis prod.collapse)
      from hist_mark [OF hist_none this] show ?thesis by blast
    qed
    from paper_loop_history [OF broker_okD(1) [OF writer_mark.prems] others this run] run Inr
    show ?thesis by (auto simp: paper_mark_def split: sum.split)
  qed
  then show ?case by (simp add: has_history_def)
qed

section \<open>The stored fills\<close>

definition fills_of :: "string \<Rightarrow> paper_state kv \<Rightarrow> paper_fill list" where
  "fills_of account db = (case db (paper_cell account) of None \<Rightarrow> [] | Some row \<Rightarrow> ps_fills (kv_doc row))"

text \<open>How many fills were added after the one under \<open>fid\<close>.\<close>

definition newer_fills :: "string \<Rightarrow> paper_fill list \<Rightarrow> nat" where
  "newer_fills fid fs = length (takeWhile (\<lambda>f. pf_fill_id f \<noteq> fid) (rev fs))"

lemma last_items_append: "0 \<le> m \<Longrightarrow> last_items m (last_items m xs @ ys) = last_items m (xs @ ys)"
  by (cases "nat m \<le> length xs") (simp_all add: last_items_def add.commute)

lemma fills_of_stored [simp]: "fills_of account (db(paper_cell account \<mapsto> row)) = ps_fills (kv_doc row)"
  by (simp add: fills_of_def)

lemma stored_form_fills [simp]: "ps_fills (stored_form st) = ps_fills st"
  by (simp add: stored_form_def)

lemma ensure_account_fills:
  assumes "clean_cell paper_namespace account"
  shows "fills_of account (snd (ensure_account c account clock id db)) = fills_of account db"
  using assms
  by (auto simp: ensure_account_def get_json_clean paper_put_Inr fills_of_def fresh_account_def
      split: option.split sum.split py_error.split prod.split)

lemma paper_loop_fills:
  assumes ok: "broker_ok c account" and inv: "account_inv (paper_wf c account) account db"
    and run: "paper_loop n c account clock f msg [] db = (res, db')"
  shows "fills_of account db' = fills_of account db \<and> (\<forall>r. res = Inr r \<longrightarrow> (\<exists>st. f st = Inr (Keep r))) \<or>
    (\<exists>st st2 r. res = Inr r \<and> f st = Inr (Write st2 r) \<and> paper_wf c account st \<and>
       ps_fills st = fills_of account db \<and> fills_of account db' = ps_fills st2)"
  using inv run
proof (induction n arbitrary: db)
  case (Suc n)
  note clean = broker_okD(1) [OF ok]
  have alone: "first_other [] = (id :: paper_state kv \<Rightarrow> _)" by (simp add: first_other_def fun_eq_iff)
  show ?case
  proof (cases "db (paper_cell account)")
    case None
    obtain r0 db0 where ens: "ensure_account c account clock id db = (r0, db0)" by fastforce
    have "account_inv (paper_wf c account) account db0" "fills_of account db0 = fills_of account db"
      using ensure_account_keeps [OF clean Suc.prems(1) _ broker_okD(2) [OF ok], of id clock]
        ensure_account_fills [OF clean, of c clock db] ens by (simp_all add: keeps_account_def)
    with Suc.IH [of db0] Suc.prems(2) show ?thesis
      by (simp add: get_json_clean [OF conjunct1 [OF clean] conjunct2 [OF clean]] None alone ens split: sum.splits)
        auto
  next
    case (Some row)
    then have W: "paper_wf c account (kv_doc row)" and fills: "ps_fills (kv_doc row) = fills_of account db"
      using Suc.prems(1) by (simp_all add: account_inv_def fills_of_def)
    from paper_loop_step [OF clean Some Suc.prems(2)] show ?thesis
    proof (elim disjE exE conjE)
      fix r st1 st2 v
      assume *: "res = Inr r" "normalize_state c (kv_doc row) = Inr st1" "f st1 = Inr (Write st2 r)"
        "paper_put (first_other [] db) account st2 (kv_version row) clock = Inr (v, db')"
      have "st1 = kv_doc row" using normalize_wf(1) [OF W *(2)] .
      moreover have "fills_of account db' = ps_fills st2" using *(4) by (auto simp: paper_put_Inr [OF clean])
      ultimately show ?thesis using * W fills by blast
    next
      assume "paper_loop n c account clock f msg (tl []) (first_other [] db) = (res, db')"
      then show ?thesis using Suc.IH [OF Suc.prems(1)] by (simp add: first_other_def)
    qed (auto simp: first_other_def)
  qed
qed auto

lemma execute_step_fills:
  assumes "paper_wf c account st" "execute_step c clock po st = Inr (Write st2 r)"
  shows "\<exists>fill. r = (fill, False) \<and> pf_fill_id fill = po_fill_id po \<and>
    ps_fills st2 = last_items (pc_maximum_fills c) (ps_fills st @ [fill])"
proof -
  from assms(2) obtain st1 cost reason st3 fill where s: "r = (fill, False)" "apply_funding c st (po_event po) = Inr st1"
    "apply_fill st1 (po_fill_id po) (po_event po) (po_side po) (po_quantity po) reason (po_liquidity_role po) cost = Inr (st3, fill)"
    "ps_fills st2 = last_items (pc_maximum_fills c) (ps_fills st3)"
    by (auto simp: execute_step_def Let_def res_simps split: option.splits)
  have "ps_fills st1 = ps_fills st" using apply_funding_shape(2) [OF _ s(2)] assms(1) by (auto simp: paper_wf_def)
  moreover have "ps_fills st3 = ps_fills st1 @ [fill] \<and> pf_fill_id fill = po_fill_id po"
    using s(3) by (auto simp: apply_fill_def apply_buy_def apply_sell_def Let_def res_simps
        split: trade_side.splits option.splits if_splits)
  ultimately show ?thesis using s(1,4) by simp
qed

lemma mark_step_fills:
  assumes "paper_wf c account st" "mark_step c clock e st = Inr (Write st2 r)"
  shows "ps_fills st2 = ps_fills st"
  using assms apply_funding_shape(2) by (auto simp: mark_step_def res_simps Let_def paper_wf_def)

lemma paper_execute_fills:
  assumes "broker_ok c account" "account_inv (paper_wf c account) account db"
    and "paper_execute c account po clock [] db = (res, db')"
  shows "fills_of account db' = (case res of Inr (fill, False) \<Rightarrow>
    last_items (pc_maximum_fills c) (fills_of account db @ [fill]) | _ \<Rightarrow> fills_of account db)"
proof (cases "check_paper_order po")
  case (Inl e)
  then show ?thesis using assms(3) by (auto simp: paper_execute_def)
next
  case (Inr po')
  have keep: "execute_step c clock po' st \<noteq> Inr (Keep (fill, False))" for st fill
    by (auto simp: execute_step_def Let_def res_simps split: option.splits)
  from Inr assms(3) have "paper_loop 5 c account clock (execute_step c clock po')
      ''paper broker state update conflicted repeatedly'' [] db = (res, db')" by (simp add: paper_execute_def)
  from paper_loop_fills [OF assms(1,2) this] show ?thesis
  proof (elim disjE exE conjE)
    assume "fills_of account db' = fills_of account db" "\<forall>r. res = Inr r \<longrightarrow> (\<exists>st. execute_step c clock po' st = Inr (Keep r))"
    with keep show ?thesis by (fastforce split: sum.split prod.split bool.split)
  next
    fix st st2 r
    assume *: "res = Inr r" "execute_step c clock po' st = Inr (Write st2 r)" "paper_wf c account st"
      "ps_fills st = fills_of account db" "fills_of account db' = ps_fills st2"
    from execute_step_fills [OF *(3,2)] *(1,4,5) show ?thesis by auto
  qed
qed

lemma paper_mark_fills:
  assumes "broker_ok c account" "account_inv (paper_wf c account) account db"
  shows "fills_of account (snd (paper_mark c account e clock [] db)) = fills_of account db"
proof -
  obtain res db' where run: "paper_loop 5 c account clock (mark_step c clock e)
      ''paper broker mark update conflicted repeatedly'' [] db = (res, db')" by fastforce
  from paper_loop_fills [OF assms run] mark_step_fills have "fills_of account db' = fills_of account db" by metis
  with run show ?thesis by (auto simp: paper_mark_def split: sum.splits)
qed

lemma paper_execute_alone_keeps:
  assumes "broker_ok c account" "account_inv (paper_wf c account) account db" "representable (po_quantity po)"
    and "paper_execute c account po clock [] db = (res, db')"
  shows "account_inv (paper_wf c account) account db'"
  using paper_execute_cases [OF assms(1) _ assms(2,3,4)] by simp

lemma history_fills:
  assumes "paper_history c account db fs db'" "broker_ok c account" "account_inv (paper_wf c account) account db"
  shows "account_inv (paper_wf c account) account db' \<and>
    fills_of account db' = last_items (pc_maximum_fills c) (fills_of account db @ fs)"
  using assms
proof (induction rule: paper_history.induct)
  case hist_none
  then show ?case
    by (auto simp: last_items_short fills_of_def account_inv_def paper_wf_def paper_shape_def last_items_def split: option.splits)
next
  case (hist_open fs db1 clock r db2)
  note ok = broker_okD [OF hist_open.prems(1)] and IH = hist_open.IH [OF hist_open.prems]
  from ensure_account_keeps [OF ok(1) conjunct1 [OF IH], of id c clock] ensure_account_fills [OF ok(1), of c clock db1]
    ok(2) [of clock] hist_open.hyps IH
  show ?case by (simp add: keeps_account_def)
next
  case (hist_mark fs db1 e clock r' db2)
  note IH = hist_mark.IH [OF hist_mark.prems]
  from paper_mark_keeps [OF hist_mark.prems(1) _ conjunct1 [OF IH], of "[]" e clock]
    paper_mark_fills [OF hist_mark.prems(1) conjunct1 [OF IH], of e clock] hist_mark.hyps IH
  show ?case by simp
next
  case (hist_fill fs db1 po clock fill db2)
  note IH = hist_fill.IH [OF hist_fill.prems]
  from paper_execute_alone_keeps [OF hist_fill.prems(1) conjunct1 [OF IH] hist_fill.hyps(2,3)]
    paper_execute_fills [OF hist_fill.prems(1) conjunct1 [OF IH] hist_fill.hyps(3)] IH
    broker_okD(3) [OF hist_fill.prems(1)]
  show ?case by (simp add: last_items_append)
next
  case (hist_other fs db1 po clock res db2)
  note IH = hist_other.IH [OF hist_other.prems]
  from paper_execute_alone_keeps [OF hist_other.prems(1) conjunct1 [OF IH] hist_other.hyps(2,3)]
    paper_execute_fills [OF hist_other.prems(1) conjunct1 [OF IH] hist_other.hyps(3)] IH hist_other.hyps(4)
  show ?case by (auto split: sum.splits prod.splits bool.splits)
qed

lemma find_last_item:
  assumes "0 < n" "\<forall>x \<in> set xs. \<not> P x" "P y"
  shows "find P (last_items n (xs @ [y])) = Some y"
proof -
  have "last_items n (xs @ [y]) = drop (length xs + 1 - nat n) xs @ [y]"
    using assms(1) by (auto simp: last_items_def drop_append)
  moreover have "find P (zs @ [y]) = Some y" if "set zs \<subseteq> set xs" for zs
    using that assms(2,3) by (induction zs) auto
  ultimately show ?thesis by (simp add: set_drop_subset)
qed

lemma last_items_snoc: "0 < m \<Longrightarrow> last_items m (xs @ [y]) = drop (Suc (length xs) - nat m) xs @ [y]"
  by (simp add: last_items_def)

lemma execute_outcome_fill:
  assumes "broker_ok c account" "check_paper_order po = Inr po'"
    and "paper_outcome (paper_wf c account) c account (execute_step c clock po') (fill, dup) db'"
  shows "find (\<lambda>f. pf_fill_id f = strip (po_fill_id po)) (fills_of account db') = Some fill \<and>
    (\<not> dup \<longrightarrow> newer_fills (strip (po_fill_id po)) (fills_of account db') = 0)"
proof -
  have fid: "po_fill_id po' = strip (po_fill_id po)" using assms(2) by (auto simp: check_paper_order_Inr)
  note m = broker_okD(3) [OF assms(1)]
  from assms(3) obtain st st1 row where o: "paper_wf c account st" "normalize_state c st = Inr st1"
    "db' (paper_cell account) = Some row"
    and w: "execute_step c clock po' st1 = Inr (Keep (fill, dup)) \<and> kv_doc row = st \<or>
      (\<exists>st2. execute_step c clock po' st1 = Inr (Write st2 (fill, dup)) \<and> kv_doc row = stored_form st2)"
    unfolding paper_outcome_def by blast
  have st: "st1 = st" using normalize_wf(1) [OF o(1,2)] .
  from w show ?thesis
  proof (elim disjE exE conjE)
    assume "execute_step c clock po' st1 = Inr (Keep (fill, dup))" "kv_doc row = st"
    then show ?thesis using o(3)
      by (auto simp: execute_step_def Let_def res_simps fid st fills_of_def split: option.splits)
  next
    fix st2 assume k: "execute_step c clock po' st1 = Inr (Write st2 (fill, dup))" "kv_doc row = stored_form st2"
    from execute_step_fills [OF o(1) k(1) [unfolded st]]
    have s: "pf_fill_id fill = strip (po_fill_id po)" "ps_fills st2 = last_items (pc_maximum_fills c) (ps_fills st @ [fill])"
      by (auto simp: fid)
    have "find (\<lambda>f. pf_fill_id f = strip (po_fill_id po)) (ps_fills st) = None"
      using k(1) by (auto simp: execute_step_def res_simps fid st split: option.splits)
    with find_last_item [of "pc_maximum_fills c" "ps_fills st" "\<lambda>f. pf_fill_id f = strip (po_fill_id po)" fill] m s o(3) k(2)
    show ?thesis by (simp add: find_None_iff fills_of_def last_items_snoc newer_fills_def)
  qed
qed

lemma retained_fill:
  assumes "find (\<lambda>f. pf_fill_id f = fid) fs = Some fill" "distinct (map pf_fill_id fs)"
    and "int (newer_fills fid fs + length gs) < m"
  shows "find (\<lambda>f. pf_fill_id f = fid) (last_items m (fs @ gs)) = Some fill"
proof -
  obtain xs ys where fs: "fs = xs @ fill # ys" and fid: "pf_fill_id fill = fid"
    using assms(1) by (auto simp: find_Some_iff in_set_conv_decomp dest!: nth_mem)
  have xs: "\<forall>f \<in> set xs. pf_fill_id f \<noteq> fid" and ys: "\<forall>f \<in> set ys. pf_fill_id f \<noteq> fid"
    using assms(2) by (auto simp: fs fid [symmetric] rev_image_eqI)
  have "newer_fills fid fs = length ys"
    using ys takeWhile_append2 [of "rev ys" "\<lambda>f. pf_fill_id f \<noteq> fid" "fill # rev xs"] fid
    by (simp add: newer_fills_def fs)
  then have "last_items m (fs @ gs) = drop (length fs + length gs - nat m) xs @ fill # ys @ gs"
    using assms(3) by (simp add: last_items_def fs add.assoc)
  moreover have "\<forall>f \<in> set (drop k xs). pf_fill_id f \<noteq> fid" for k using xs by (meson in_set_dropD)
  moreover have "\<forall>f \<in> set zs. pf_fill_id f \<noteq> fid \<Longrightarrow> find (\<lambda>f. pf_fill_id f = fid) (zs @ fill # us) = Some fill" for zs us
    using fid by (induction zs) auto
  ultimately show ?thesis by simp
qed

text \<open>
  C37. A fill id is filled once while its fill is retained. An execution, however other operations came
  between its reads and writes, returned a fill; later operations of any kind and number followed,
  with fewer than \<open>maximum_fills\<close> newer fills among what was stored and what they added. Then
  executing any valid order under the same fill id returns that very fill as a duplicate and changes
  nothing, as long as the account can be read. A fill that was new is the newest one. The account
  keeps the last \<open>maximum_fills\<close> fills only, so this does not hold for older ids. The later
  operations need not run one after the other: every writer's effect is again a history.
\<close>

theorem fill_id_is_filled_once:
  assumes "paper_reachable c account db" "broker_ok c account" "list_all (paper_writer c account) others"
    and "representable (po_quantity po)" "paper_execute c account po clock others db = (Inr (fill, dup), db')"
    and "paper_history c account db' later db''" "paper_snapshot_of c account marks db'' = Inr snap"
    and "int (newer_fills (strip (po_fill_id po)) (fills_of account db') + length later) < pc_maximum_fills c"
    and "check_paper_order po2 = Inr po3" "strip (po_fill_id po2) = strip (po_fill_id po)"
  shows "(\<not> dup \<longrightarrow> newer_fills (strip (po_fill_id po)) (fills_of account db') = 0) \<and>
    paper_execute c account po2 clock2 others2 db'' = (Inr (fill, True), db'') \<and>
    (\<forall>g. paper_writer c account g \<longrightarrow> (\<exists>more. paper_history c account db'' more (g db'')))"
proof -
  note ok = broker_okD [OF assms(2)]
  have others: "list_all (keeps_account (paper_wf c account) account) others"
    using assms(2,3) paper_writer_keeps by (auto simp: list_all_iff)
  from paper_execute_cases [OF assms(2) others paper_reachable_wf [OF assms(1,2)] assms(4,5)]
  obtain po' where inv: "account_inv (paper_wf c account) account db'" and po': "check_paper_order po = Inr po'"
    "paper_outcome (paper_wf c account) c account (execute_step c clock po') (fill, dup) db'" by auto
  from execute_outcome_fill [OF assms(2) po'] have found: "find (\<lambda>f. pf_fill_id f = strip (po_fill_id po)) (fills_of account db') = Some fill"
    and newest: "\<not> dup \<longrightarrow> newer_fills (strip (po_fill_id po)) (fills_of account db') = 0"
    by simp_all
  have "distinct (map pf_fill_id (fills_of account db'))"
    using inv by (auto simp: fills_of_def account_inv_def paper_wf_def paper_shape_def split: option.splits)
  from retained_fill [OF found this assms(8)] history_fills [OF assms(6,2) inv]
  have later: "account_inv (paper_wf c account) account db''"
    "find (\<lambda>f. pf_fill_id f = strip (po_fill_id po)) (fills_of account db'') = Some fill" by simp_all
  note get = get_json_clean [OF conjunct1 [OF ok(1)] conjunct2 [OF ok(1)]]
  from assms(7) obtain row st where row: "db'' (paper_cell account) = Some row" "normalize_state c (kv_doc row) = Inr st"
    by (auto simp: paper_snapshot_of_def get res_simps split: option.splits)
  moreover from this have "st = kv_doc row"
    using normalize_wf(1) later(1) by (auto simp: account_inv_def)
  moreover have "po_fill_id po3 = strip (po_fill_id po)" using assms(9,10) by (auto simp: check_paper_order_Inr)
  ultimately have "rbind (normalize_state c (kv_doc row)) (execute_step c clock2 po3) = Inr (Keep (fill, True))"
    using later(2) by (simp add: execute_step_def fills_of_def)
  moreover have "(5 :: nat) = Suc 4" by simp
  ultimately have "paper_execute c account po2 clock2 others2 db'' = (Inr (fill, True), db'')"
    using assms(9) row(1)
    by (simp only: paper_execute_def sum.case paper_loop.simps prod.case option.case paper_step.case get)
  moreover have "\<exists>more. paper_history c account db'' more (g db'')" if "paper_writer c account g" for g
    using paper_writer_history [OF that assms(2)] by (simp add: has_history_def)
  ultimately show ?thesis using newest by blast
qed

section \<open>A run\<close>

text \<open>Half of the bought units are sold under another fill id before the first order is repeated.\<close>

definition sample_sale :: paper_order where
  "sample_sale = sample_order\<lparr>po_fill_id := ''fill-2'', po_side := TRADE_SELL, po_quantity := Fin 2\<rparr>"

definition sample_sold :: "(paper_fill \<times> bool) res \<times> paper_state kv" where
  "sample_sold = paper_execute sample_broker ''main'' sample_sale 3 [] (snd sample_bought)"

lemma sample_sold_fill: "\<exists>sale. sample_sold = (Inr (sale, False), snd sample_sold)"
proof -
  have "case fst sample_sold of Inl _ \<Rightarrow> False | Inr (f, d) \<Rightarrow> \<not> d" by code_simp
  then show ?thesis by (auto simp: prod_eq_iff split: sum.splits)
qed

lemma sample_sold_cash:
  "case snd sample_sold (paper_namespace, ''main'') of None \<Rightarrow> False
   | Some row \<Rightarrow> \<not> flt (ps_cash (kv_doc row)) cash_floor"
  by code_simp

lemma sample_sold_readable: "\<exists>snap. paper_snapshot_of sample_broker ''main'' [] (snd sample_sold) = Inr snap"
proof -
  obtain row where row: "snd sample_sold (paper_namespace, ''main'') = Some row" "\<not> flt (ps_cash (kv_doc row)) cash_floor"
    using sample_sold_cash by (auto split: option.splits)
  have "representable (po_quantity sample_sale)" by code_simp
  then have "paper_writer sample_broker ''main'' (\<lambda>db. snd (paper_execute sample_broker ''main'' sample_sale 3 [] db))"
    by (intro writer_execute) simp
  from reach_writer [OF sample_run_reachable(2) this] have "paper_reachable sample_broker ''main'' (snd sample_sold)"
    by (simp add: sample_sold_def)
  from account_readable [OF sample_broker_ok paper_reachable_wf [OF this sample_broker_ok] row] show ?thesis by blast
qed

lemma sample_sold_history:
  assumes "sample_sold = (Inr (sale, False), snd sample_sold)"
  shows "paper_history sample_broker ''main'' (snd sample_bought) [sale] (snd sample_sold)"
proof -
  have "representable (po_quantity sample_sale)" by code_simp
  from hist_fill [OF hist_none this, of sample_broker "''main''" 3 "snd sample_bought" sale "snd sample_sold"] assms
  show ?thesis by (simp add: sample_sold_def)
qed

lemma sample_newest: "newer_fills ''fill-1'' (fills_of ''main'' (snd sample_bought)) = 0" "strip ''fill-1'' = ''fill-1''"
  by code_simp+

theorem fill_id_is_filled_once_witness:
  "\<exists>fill sale. sample_bought = (Inr (fill, False), snd sample_bought) \<and>
    sample_sold = (Inr (sale, False), snd sample_sold) \<and>
    paper_execute sample_broker ''main'' sample_order 9 [] (snd sample_sold) = (Inr (fill, True), snd sample_sold)"
proof -
  obtain fill where fill: "sample_bought = (Inr (fill, False), snd sample_bought)" using sample_bought_fill by blast
  obtain sale where sale: "sample_sold = (Inr (sale, False), snd sample_sold)" using sample_sold_fill by blast
  obtain snap where snap: "paper_snapshot_of sample_broker ''main'' [] (snd sample_sold) = Inr snap"
    using sample_sold_readable by blast
  have bought: "paper_execute sample_broker ''main'' sample_order 2 [] opened_account =
      (Inr (fill, False), snd sample_bought)"
    using fill by (simp add: sample_bought_def)
  have kept: "int (newer_fills (strip (po_fill_id sample_order)) (fills_of ''main'' (snd sample_bought)) + length [sale])
      < pc_maximum_fills sample_broker"
    using sample_newest by (simp add: sample_order_def sample_broker_def)
  from fill_id_is_filled_once [OF sample_run_reachable(1) sample_broker_ok _ sample_order_ok(1) bought
      sample_sold_history [OF sale] snap kept sample_order_ok(3) refl, of 9 "[]"] fill sale
  show ?thesis by auto
qed

end
