(* ===== verification/Sha256.thy ===== *)
theory Sha256
  imports Py_Base "HOL-Library.Word"
begin

text \<open>
  \<open>hashlib.sha256(text.encode()).hexdigest()\<close> for ASCII text (FIPS 180-4). The definitions that
  hash take the digest function as an argument \<open>H\<close>; what they rely on is the locale
  \<open>hex_digest\<close>: a digest is 64 lower-case hexadecimal characters. The locale is interpreted on
  \<open>sha256_hex\<close>. Collision resistance is never assumed: where two inputs could collide, a
  theorem says so.
\<close>

unbundle bit_operations_syntax

type_synonym w32 = "32 word"

text \<open>
  The constants are the first 32 fractional bits of the square roots of the first eight primes and
  of the cube roots of the first 64 primes; a root is found bit by bit.
\<close>

definition sha_primes :: "nat list" where
  "sha_primes = filter (\<lambda>n. list_all (\<lambda>d. n mod d \<noteq> 0) [2..<n]) [2..<312]"

definition root_bits :: "nat \<Rightarrow> int \<Rightarrow> int" where
  "root_bits k n = foldl (\<lambda>r b. if (r + 2 ^ b) ^ k \<le> n then r + 2 ^ b else r) 0 (rev [0..<37])"

definition sha_constant :: "nat \<Rightarrow> nat \<Rightarrow> w32" where
  "sha_constant k p = word_of_int (root_bits k (int p * 2 ^ (32 * k)))"

definition sha_k :: "w32 list" where
  "sha_k = map (sha_constant 3) sha_primes"

definition sha_init :: "w32 list" where
  "sha_init = map (sha_constant 2) [2, 3, 5, 7, 11, 13, 17, 19]"

definition sha_pad :: "int list \<Rightarrow> int list" where
  "sha_pad bs =
     (let n = length bs; z = (119 - n mod 64) mod 64
      in bs @ [128] @ replicate z 0 @
         map (\<lambda>i. (8 * int n) div 256 ^ (7 - i) mod 256) [0..<8])"

fun sha_words :: "int list \<Rightarrow> w32 list" where
  "sha_words (a # b # c # d # bs) =
     word_of_int (((a * 256 + b) * 256 + c) * 256 + d) # sha_words bs"
| "sha_words _ = []"

text \<open>The message schedule, newest word first: sixteen words, then 48 derived ones.\<close>

definition sha_next :: "w32 list \<Rightarrow> w32" where
  "sha_next ws =
     (let w2 = ws ! 1; w7 = ws ! 6; w15 = ws ! 14; w16 = ws ! 15;
          s0 = word_rotr 7 w15 XOR word_rotr 18 w15 XOR drop_bit 3 w15;
          s1 = word_rotr 17 w2 XOR word_rotr 19 w2 XOR drop_bit 10 w2
      in w16 + s0 + w7 + s1)"

definition sha_schedule :: "w32 list \<Rightarrow> w32 list" where
  "sha_schedule block = rev (((\<lambda>ws. sha_next ws # ws) ^^ 48) (rev block))"

fun sha_round :: "w32 list \<Rightarrow> w32 \<times> w32 \<Rightarrow> w32 list" where
  "sha_round [a, b, c, d, e, f, g, h] (k, w) =
     (let s1 = word_rotr 6 e XOR word_rotr 11 e XOR word_rotr 25 e;
          ch = (e AND f) XOR (NOT e AND g);
          t1 = h + s1 + ch + k + w;
          s0 = word_rotr 2 a XOR word_rotr 13 a XOR word_rotr 22 a;
          maj = (a AND b) XOR (a AND c) XOR (b AND c)
      in [t1 + (s0 + maj), a, b, c, d + t1, e, f, g])"
| "sha_round st _ = st"

definition sha_block :: "w32 list \<Rightarrow> w32 list \<Rightarrow> w32 list" where
  "sha_block st block =
     map (\<lambda>(x, y). x + y) (zip st (foldl sha_round st (zip sha_k (sha_schedule block))))"

fun sha_blocks :: "w32 list \<Rightarrow> w32 list \<Rightarrow> w32 list" where
  "sha_blocks st ws =
     (if length ws < 16 then st else sha_blocks (sha_block st (take 16 ws)) (drop 16 ws))"

declare sha_blocks.simps [simp del]

definition hex_word :: "w32 \<Rightarrow> string" where
  "hex_word w = map (\<lambda>i. ''0123456789abcdef'' ! nat (uint w div 16 ^ (7 - i) mod 16)) [0..<8]"

definition sha256_hex :: "string \<Rightarrow> string" where
  "sha256_hex s = concat (map hex_word (sha_blocks sha_init (sha_words (sha_pad (map ccode s)))))"

section \<open>What the hashing code relies on\<close>

locale hex_digest =
  fixes H :: "string \<Rightarrow> string"
  assumes digest_length: "length (H s) = 64"
    and digest_hex: "list_all is_hex (H s)"
begin

lemma digest_take_length: "n \<le> 64 \<Longrightarrow> length (take n (H s)) = n"
  by (simp add: digest_length)

lemma digest_take_hex: "list_all is_hex (take n (H s))"
  using digest_hex [of s] by (auto simp: list_all_iff dest: in_set_takeD)

end

lemma length_sha_round [simp]: "length st = 8 \<Longrightarrow> length (sha_round st p) = 8"
  by (induction st p rule: sha_round.induct) (auto simp: Let_def)

lemma length_sha_rounds: "length st = 8 \<Longrightarrow> length (foldl sha_round st ps) = 8"
  by (induction ps arbitrary: st) simp_all

lemma length_sha_block: "length st = 8 \<Longrightarrow> length (sha_block st b) = 8"
  by (simp add: sha_block_def length_sha_rounds)

lemma length_sha_blocks: "length st = 8 \<Longrightarrow> length (sha_blocks st ws) = 8"
proof (induction st ws rule: sha_blocks.induct)
  case (1 st ws)
  then show ?case by (subst sha_blocks.simps) (simp add: length_sha_block)
qed

lemma is_hex_nth: "n < 16 \<Longrightarrow> is_hex (''0123456789abcdef'' ! n)"
  unfolding is_hex_def by (rule nth_mem) simp

lemma hex_word_hex: "list_all is_hex (hex_word w)"
  by (simp add: hex_word_def list_all_iff is_hex_nth nat_less_iff)

interpretation sha256: hex_digest sha256_hex
proof unfold_locales
  fix s
  have len: "length (sha_blocks sha_init ws) = 8" for ws
    by (rule length_sha_blocks) (simp add: sha_init_def)
  have "length (concat (map hex_word xs)) = 8 * length xs" for xs
    by (induction xs) (simp_all add: hex_word_def)
  then show "length (sha256_hex s) = 64"
    by (simp add: sha256_hex_def len)
  show "list_all is_hex (sha256_hex s)"
    using hex_word_hex by (auto simp: sha256_hex_def list_all_iff)
qed

end
