(* ===== verification/Order_Identity.thy ===== *)
theory Order_Identity
  imports Versioned_Store Sha256
begin

text \<open>
  \<open>exchange_connector/bybit_order_identity.py\<close>: the deterministic identity of an order and the
  registry of reservations. An \<open>order_intent\<close> is hashed to its fingerprint and its
  \<open>orderLinkId\<close>; the registry keeps one document per environment with the reservations by link,
  the index from fingerprints to links, and re-validates the document on every read. The digest
  function is the argument \<open>H\<close>. Arguments the code converts with \<open>str(...)\<close> are passed as that
  text. A stored document has the shape the registry writes (the record below), so the
  \<open>isinstance\<close> checks on it have no counterpart; every check of its contents has one.
\<close>

section \<open>Constants\<close>

definition id_environments :: "string list" where
  "id_environments = [''paper'', ''testnet'', ''mainnet'']"

definition id_categories :: "string list" where
  "id_categories = [''spot'', ''linear'', ''inverse'']"

definition id_sides :: "string list" where
  "id_sides = [''Buy'', ''Sell'']"

definition id_order_types :: "string list" where
  "id_order_types = [''Market'', ''Limit'']"

definition id_time_in_force :: "string list" where
  "id_time_in_force = [''GTC'', ''IOC'', ''FOK'', ''PostOnly'', ''RPI'']"

definition id_market_units :: "string list" where
  "id_market_units = [''baseCoin'', ''quoteCoin'']"

definition id_statuses :: "string list" where
  "id_statuses = [''Reserved'', ''Submitted'', ''Untriggered'', ''Triggered'', ''New'',
     ''PartiallyFilled'', ''Filled'', ''Cancelled'', ''Rejected'', ''Deactivated'',
     ''PartiallyFilledCanceled'']"

definition id_terminal :: "string list" where
  "id_terminal = [''Filled'', ''Cancelled'', ''Rejected'', ''Deactivated'', ''PartiallyFilledCanceled'']"

definition zero_fill_retryable :: "string list" where
  "zero_fill_retryable = [''Cancelled'', ''Rejected'', ''Deactivated'']"

definition id_transitions :: "string \<Rightarrow> string list option" where
  "id_transitions = map_of [
     (''Reserved'', id_statuses),
     (''Submitted'', filter (\<lambda>s. s \<noteq> ''Reserved'') id_statuses),
     (''Untriggered'', [''Untriggered'', ''Triggered'', ''New'', ''Cancelled'', ''Rejected'', ''Deactivated'']),
     (''Triggered'', [''Triggered'', ''New'', ''PartiallyFilled'', ''Filled'', ''Cancelled'', ''Rejected'', ''Deactivated'']),
     (''New'', [''New'', ''PartiallyFilled'', ''Filled'', ''Cancelled'', ''Rejected'', ''PartiallyFilledCanceled'']),
     (''PartiallyFilled'', [''PartiallyFilled'', ''Filled'', ''Cancelled'', ''PartiallyFilledCanceled''])]"

section \<open>Validation helpers\<close>

definition id_char :: "char \<Rightarrow> bool" where
  "id_char c = (is_alnum c \<or> c \<in> set ''._:-'')"

definition id_identifier :: "string \<Rightarrow> string \<Rightarrow> string res" where
  "id_identifier v name =
     (let text = strip v
      in if text = [] \<or> 128 < length text \<or> \<not> list_all id_char text
         then Inl (ValueError (''invalid '' @ name)) else Inr text)"

definition order_link :: "string \<Rightarrow> string res" where
  "order_link v =
     (let text = strip v
      in if \<not> startswith text ''sai_'' \<or> 36 < length text \<or>
            \<not> list_all (\<lambda>c. is_alnum c \<or> c \<in> set ''_-'') text
         then Inl (ValueError ''invalid SharipovAI orderLinkId'') else Inr text)"

definition choice :: "(string \<Rightarrow> string) \<Rightarrow> string \<Rightarrow> string \<Rightarrow> string list \<Rightarrow> string res" where
  "choice conv v name choices =
     (let text = conv (strip v)
      in if text \<notin> set choices then Inl (ValueError (''invalid '' @ name)) else Inr text)"

definition decimal_text :: "string \<Rightarrow> string \<Rightarrow> bool \<Rightarrow> string res" where
  "decimal_text v name positive =
     (case dec_of_string v of Inl e \<Rightarrow> Inl (ValueError (''invalid '' @ name))
      | Inr number \<Rightarrow>
          if \<not> dec_is_finite number \<or> (positive \<and> dec_val number \<le> 0)
          then Inl (ValueError (''invalid '' @ name))
          else rbind (dec_normalize number) (\<lambda>n.
                 let normalized = dec_format_f n
                 in Inr (if normalized = ''-0'' \<or> normalized = [] then ''0'' else normalized)))"

definition id_number :: "pyfloat \<Rightarrow> string \<Rightarrow> pyfloat res" where
  "id_number x name =
     (if \<not> isfinite x then Inl (ValueError (name @ '' must be finite'')) else Inr x)"

definition id_positive_int :: "int \<Rightarrow> string \<Rightarrow> int res" where
  "id_positive_int i name =
     (if i \<le> 0 then Inl (ValueError (name @ '' must be positive'')) else Inr i)"

definition id_timestamp :: "int \<Rightarrow> int res" where
  "id_timestamp i = (if i \<le> 0 then Inl (ValueError ''timestamp must be positive'') else Inr i)"

section \<open>Spot submissions\<close>

definition spot_quote_notional :: "string \<Rightarrow> string \<Rightarrow> string res" where
  "spot_quote_notional base_quantity reference_price =
     rbind (decimal_text base_quantity ''base_quantity'' True) (\<lambda>qs.
     rbind (dec_of_string qs) (\<lambda>quantity.
     rbind (decimal_text reference_price ''reference_price'' True) (\<lambda>ps.
     rbind (dec_of_string ps) (\<lambda>price.
     rbind (dec_mul quantity price) (\<lambda>n.
       decimal_text (dec_str n) ''quote_notional'' True)))))"

definition spot_market_submission :: "string \<Rightarrow> string \<Rightarrow> string \<Rightarrow> (string \<times> string) res" where
  "spot_market_submission side base_quantity reference_price =
     rbind (choice title side ''side'' id_sides) (\<lambda>clean_side.
     rbind (decimal_text base_quantity ''base_quantity'' True) (\<lambda>clean_base.
       if clean_side = ''Buy''
       then rbind (spot_quote_notional clean_base reference_price) (\<lambda>n. Inr (''quoteCoin'', n))
       else rbind (decimal_text reference_price ''reference_price'' True) (\<lambda>p.
              Inr (''baseCoin'', clean_base))))"

section \<open>Intents\<close>

record order_intent =
  oi_candidate_id :: string
  oi_environment :: string
  oi_category :: string
  oi_symbol :: string
  oi_side :: string
  oi_order_type :: string
  oi_quantity :: string
  oi_price :: string
  oi_time_in_force :: string
  oi_reduce_only :: bool
  oi_position_idx :: int
  oi_market_unit :: string
  oi_attempt :: int

text \<open>An optional text argument for which \<open>None\<close> and the empty string mean the same.\<close>

definition given :: "string option \<Rightarrow> string" where
  "given v = (case v of None \<Rightarrow> [] | Some s \<Rightarrow> s)"

definition clean_symbol :: "string \<Rightarrow> string" where
  "clean_symbol s = remove_char (CHR ''-'') (remove_char (CHR ''/'') (upper (strip s)))"

text \<open>The time in force and the market unit an intent ends up with, by order type and category.\<close>

definition create_time_in_force :: "string \<Rightarrow> string \<Rightarrow> string \<Rightarrow> string res" where
  "create_time_in_force order_type_value price_value time_in_force =
     (if order_type_value = ''Market''
      then (if price_value \<noteq> [] then Inl (ValueError ''market order must not contain price'')
            else rbind (if time_in_force = [] then Inr ''IOC''
                        else choice id time_in_force ''time_in_force'' id_time_in_force)
                   (\<lambda>tif. if tif \<noteq> ''IOC'' then Inl (ValueError ''market order requires IOC'') else Inr tif))
      else if price_value = [] then Inl (ValueError ''limit order requires price'')
      else if time_in_force = [] then Inr ''GTC''
      else choice id time_in_force ''time_in_force'' id_time_in_force)"

definition create_market_unit :: "string \<Rightarrow> string \<Rightarrow> string \<Rightarrow> string \<Rightarrow> string res" where
  "create_market_unit category_value order_type_value side_value unit =
     (if category_value = ''spot'' \<and> order_type_value = ''Market''
      then (let unit' = (if unit \<noteq> [] then unit
                         else if side_value = ''Buy'' then ''quoteCoin'' else ''baseCoin'')
            in if unit' \<notin> set id_market_units then Inl (ValueError ''invalid spot marketUnit'')
               else Inr unit')
      else if unit \<noteq> [] then Inl (ValueError ''market_unit is allowed only for spot market orders'')
      else Inr unit)"

definition create ::
  "string \<Rightarrow> string \<Rightarrow> string \<Rightarrow> string \<Rightarrow> string \<Rightarrow> string \<Rightarrow> string \<Rightarrow> string option \<Rightarrow>
   string option \<Rightarrow> bool \<Rightarrow> int \<Rightarrow> string option \<Rightarrow> int \<Rightarrow> order_intent res" where
  "create candidate_id environment category symbol side order_type quantity price time_in_force
          reduce_only position_idx market_unit attempt =
     rbind (id_identifier candidate_id ''candidate_id'') (\<lambda>candidate.
     rbind (choice lower environment ''environment'' id_environments) (\<lambda>env.
     rbind (choice lower category ''category'' id_categories) (\<lambda>category_value.
     rbind (choice title side ''side'' id_sides) (\<lambda>side_value.
     rbind (choice title order_type ''order_type'' id_order_types) (\<lambda>order_type_value.
       let symbol_value = clean_symbol symbol
       in if symbol_value = [] \<or> \<not> isalnum symbol_value then Inl (ValueError ''invalid symbol'')
          else
     rbind (decimal_text quantity ''quantity'' True) (\<lambda>quantity_value.
     rbind (if given price \<noteq> [] then decimal_text (given price) ''price'' True else Inr []) (\<lambda>price_value.
     rbind (id_positive_int attempt ''attempt'') (\<lambda>attempt_value.
       if position_idx \<notin> {0, 1, 2} then Inl (ValueError ''position_idx must be 0, 1 or 2'')
       else
     rbind (create_time_in_force order_type_value price_value (given time_in_force)) (\<lambda>tif.
     rbind (create_market_unit category_value order_type_value side_value (strip (given market_unit))) (\<lambda>unit.
       if category_value = ''spot'' \<and> (reduce_only \<or> position_idx \<noteq> 0)
       then Inl (ValueError ''spot orders cannot use reduce_only or position_idx'')
       else Inr \<lparr>oi_candidate_id = candidate, oi_environment = env, oi_category = category_value,
                 oi_symbol = symbol_value, oi_side = side_value, oi_order_type = order_type_value,
                 oi_quantity = quantity_value, oi_price = price_value, oi_time_in_force = tif,
                 oi_reduce_only = reduce_only, oi_position_idx = position_idx,
                 oi_market_unit = unit, oi_attempt = attempt_value\<rparr>))))))))))"

text \<open>\<open>OrderIntent.create(**asdict(intent))\<close>.\<close>

definition recreate :: "order_intent \<Rightarrow> order_intent res" where
  "recreate i = create (oi_candidate_id i) (oi_environment i) (oi_category i) (oi_symbol i)
     (oi_side i) (oi_order_type i) (oi_quantity i) (Some (oi_price i)) (Some (oi_time_in_force i))
     (oi_reduce_only i) (oi_position_idx i) (Some (oi_market_unit i)) (oi_attempt i)"

definition root_payload :: "order_intent \<Rightarrow> (string \<times> pyval) list" where
  "root_payload i =
     [(''candidate_id'', PyStr (oi_candidate_id i)), (''environment'', PyStr (oi_environment i)),
      (''category'', PyStr (oi_category i)), (''symbol'', PyStr (oi_symbol i)),
      (''side'', PyStr (oi_side i)), (''order_type'', PyStr (oi_order_type i)),
      (''quantity'', PyStr (oi_quantity i)), (''price'', PyStr (oi_price i)),
      (''time_in_force'', PyStr (oi_time_in_force i)), (''reduce_only'', PyBool (oi_reduce_only i)),
      (''position_idx'', PyInt (oi_position_idx i)), (''market_unit'', PyStr (oi_market_unit i))]"

definition intent_payload :: "order_intent \<Rightarrow> (string \<times> pyval) list" where
  "intent_payload i = root_payload i @ [(''attempt'', PyInt (oi_attempt i))]"

definition digest :: "(string \<Rightarrow> string) \<Rightarrow> (string \<times> pyval) list \<Rightarrow> string" where
  "digest H payload = H (json_dumps False (PyDict payload))"

definition root_fingerprint :: "(string \<Rightarrow> string) \<Rightarrow> order_intent \<Rightarrow> string" where
  "root_fingerprint H i = digest H (root_payload i)"

definition fingerprint :: "(string \<Rightarrow> string) \<Rightarrow> order_intent \<Rightarrow> string" where
  "fingerprint H i = digest H (intent_payload i)"

definition order_link_id :: "(string \<Rightarrow> string) \<Rightarrow> order_intent \<Rightarrow> string" where
  "order_link_id H i = ''sai_'' @ take 32 (fingerprint H i)"

section \<open>The registry\<close>

record reservation =
  rs_order_link_id :: string
  rs_order_id :: string
  rs_fingerprint :: string
  rs_root_fingerprint :: string
  rs_intent :: order_intent
  rs_attempt :: int
  rs_status :: string
  rs_cum_exec_qty :: pyfloat
  rs_created_at_ms :: int
  rs_updated_at_ms :: int
  rs_revision :: int

record identity_doc =
  id_environment :: string
  id_reservations :: "reservation dict"
  id_fingerprints :: "string dict"
  id_updated_at_ms :: int

definition id_namespace :: string where
  "id_namespace = ''bybit_order_identity''"

text \<open>The checks of one persisted reservation; the state is the expected index and the order ids seen.\<close>

definition check_reservation ::
  "(string \<Rightarrow> string) \<Rightarrow> string \<Rightarrow> string dict \<times> string list \<Rightarrow> string \<times> reservation \<Rightarrow>
   (string dict \<times> string list) res" where
  "check_reservation H env st entry =
     (case (st, entry) of ((expected, order_ids), (link, raw)) \<Rightarrow>
       rbind (order_link link) (\<lambda>l.
         if l \<noteq> link then Inl (RuntimeError ''identity reservation is invalid'') else
       rbind (recreate (rs_intent raw)) (\<lambda>intent.
         if oi_environment intent \<noteq> env \<or> order_link_id H intent \<noteq> link
         then Inl (RuntimeError ''persisted identity does not match intent'')
         else if rs_fingerprint raw \<noteq> fingerprint H intent \<or>
                 rs_root_fingerprint raw \<noteq> root_fingerprint H intent
         then Inl (RuntimeError ''persisted identity fingerprint mismatch'')
         else if rs_status raw \<notin> set id_statuses
         then Inl (RuntimeError ''persisted identity status is invalid'') else
       rbind (id_number (rs_cum_exec_qty raw) ''persisted cum_exec_qty'') (\<lambda>executed.
         if flt executed (Fin 0) then Inl (RuntimeError ''persisted execution quantity is invalid'') else
       rbind (id_positive_int (rs_attempt raw) ''persisted attempt'') (\<lambda>_.
       rbind (id_positive_int (rs_revision raw) ''persisted revision'') (\<lambda>_.
       rbind (id_timestamp (rs_created_at_ms raw)) (\<lambda>_.
       rbind (id_timestamp (rs_updated_at_ms raw)) (\<lambda>_.
       rbind (if rs_order_id raw = [] then Inr order_ids
              else rbind (id_identifier (rs_order_id raw) ''persisted order_id'') (\<lambda>_.
                     if rs_order_id raw \<in> set order_ids
                     then Inl (RuntimeError ''persisted orderId collision'')
                     else Inr (rs_order_id raw # order_ids))) (\<lambda>order_ids'.
         Inr (AList.update (fingerprint H intent) link expected, order_ids'))))))))))"

definition identity_document ::
  "(string \<Rightarrow> string) \<Rightarrow> string \<Rightarrow> identity_doc option \<Rightarrow> identity_doc res" where
  "identity_document H env v =
     (case v of
        None \<Rightarrow> Inr \<lparr>id_environment = env, id_reservations = [], id_fingerprints = [],
                     id_updated_at_ms = 0\<rparr>
      | Some d \<Rightarrow>
          if id_environment d \<noteq> env then Inl (RuntimeError ''identity registry document is invalid'')
          else rbind (rfold (check_reservation H env) ([], []) (id_reservations d)) (\<lambda>(expected, ids).
                 if \<not> dict_eq (id_fingerprints d) expected
                 then Inl (RuntimeError ''persisted fingerprint index mismatch'') else Inr d))"

definition registry_init :: "string \<Rightarrow> string res" where
  "registry_init environment = choice lower environment ''environment'' id_environments"

text \<open>\<open>_update(mutation)\<close>: five attempts.\<close>

definition id_update ::
  "(string \<Rightarrow> string) \<Rightarrow> string \<Rightarrow> (identity_doc \<Rightarrow> (identity_doc \<times> 'r) res) \<Rightarrow> int \<Rightarrow>
   (identity_doc kv \<Rightarrow> identity_doc kv) list \<Rightarrow> identity_doc kv \<Rightarrow> 'r res \<times> identity_doc kv" where
  "id_update H env mutation clock others db =
     (case optimistic_update 5 id_namespace env
             (\<lambda>row. rbind (identity_document H env (map_option kv_doc row)) mutation)
             ''order identity update conflicted repeatedly'' clock others db of
        (Inr (r, v), db') \<Rightarrow> (Inr r, db')
      | (Inl e, db') \<Rightarrow> (Inl e, db'))"

text \<open>\<open>max(previous, key=attempt)\<close>: the first entry with the largest attempt.\<close>

fun latest_attempt :: "reservation \<Rightarrow> reservation list \<Rightarrow> reservation" where
  "latest_attempt best [] = best"
| "latest_attempt best (r # rs) =
     latest_attempt (if rs_attempt best < rs_attempt r then r else best) rs"

definition retry_check :: "order_intent \<Rightarrow> reservation list \<Rightarrow> unit res" where
  "retry_check intent previous =
     (if oi_attempt intent = 1
      then (if previous \<noteq> [] then Inl (RuntimeError ''first attempt already exists for this order intent'')
            else Inr ())
      else case previous of
             [] \<Rightarrow> Inl (RuntimeError ''retry attempt has no previous reservation'')
           | p # ps \<Rightarrow>
               (let latest = latest_attempt p ps
                in if oi_attempt intent \<noteq> rs_attempt latest + 1
                   then Inl (RuntimeError ''retry attempt must be sequential'')
                   else if rs_status latest \<notin> set zero_fill_retryable \<or>
                           \<not> feq (rs_cum_exec_qty latest) (Fin 0)
                   then Inl (RuntimeError ''previous attempt is unresolved or executed; retry is blocked'')
                   else Inr ()))"

text \<open>The result of a reservation: the record and whether it is a duplicate.\<close>

definition reserve_mutate ::
  "(string \<Rightarrow> string) \<Rightarrow> order_intent \<Rightarrow> int \<Rightarrow> identity_doc \<Rightarrow>
   (identity_doc \<times> reservation \<times> bool) res" where
  "reserve_mutate H intent now d =
     (let full = fingerprint H intent; root = root_fingerprint H intent; link = order_link_id H intent
      in case map_of (id_fingerprints d) full of
           Some (c # cs) \<Rightarrow>
             (case map_of (id_reservations d) (c # cs) of
                None \<Rightarrow> Inl (RuntimeError ''identity registry fingerprint is corrupt'')
              | Some existing \<Rightarrow> Inr (d, existing, True))
         | _ \<Rightarrow>
             if map_of (id_reservations d) link \<noteq> None
             then Inl (RuntimeError ''deterministic orderLinkId collision'')
             else rbind (retry_check intent
                      (filter (\<lambda>r. rs_root_fingerprint r = root) (map snd (id_reservations d)))) (\<lambda>_.
               let record = \<lparr>rs_order_link_id = link, rs_order_id = [], rs_fingerprint = full,
                      rs_root_fingerprint = root, rs_intent = intent, rs_attempt = oi_attempt intent,
                      rs_status = ''Reserved'', rs_cum_exec_qty = Fin 0, rs_created_at_ms = now,
                      rs_updated_at_ms = now, rs_revision = 1\<rparr>
               in Inr (d\<lparr>id_reservations := AList.update link record (id_reservations d),
                          id_fingerprints := AList.update full link (id_fingerprints d),
                          id_updated_at_ms := now\<rparr>, record, False)))"

definition reserve ::
  "(string \<Rightarrow> string) \<Rightarrow> string \<Rightarrow> order_intent \<Rightarrow> int \<Rightarrow> int \<Rightarrow>
   (identity_doc kv \<Rightarrow> identity_doc kv) list \<Rightarrow> identity_doc kv \<Rightarrow>
   (reservation \<times> bool) res \<times> identity_doc kv" where
  "reserve H env intent created_at_ms clock others db =
     (if oi_environment intent \<noteq> env
      then (Inl (ValueError ''intent environment does not match registry''), db)
      else case id_timestamp created_at_ms of Inl e \<Rightarrow> (Inl e, db)
           | Inr now \<Rightarrow> id_update H env (reserve_mutate H intent now) clock others db)"

definition record_of :: "reservation dict \<Rightarrow> string \<Rightarrow> reservation res" where
  "record_of rs link =
     (case map_of rs link of None \<Rightarrow> Inl (KeyError (''unknown orderLinkId: '' @ link)) | Some r \<Rightarrow> Inr r)"

definition bound_elsewhere :: "reservation dict \<Rightarrow> string \<Rightarrow> string \<Rightarrow> bool" where
  "bound_elsewhere rs link exchange_id =
     list_ex (\<lambda>(l, r). l \<noteq> link \<and> rs_order_id r = exchange_id) rs"

definition bind_mutate ::
  "string \<Rightarrow> string \<Rightarrow> int \<Rightarrow> identity_doc \<Rightarrow> (identity_doc \<times> reservation) res" where
  "bind_mutate link exchange_id now d =
     rbind (record_of (id_reservations d) link) (\<lambda>r.
       if bound_elsewhere (id_reservations d) link exchange_id
       then Inl (RuntimeError ''exchange orderId is already bound to another reservation'')
       else if rs_order_id r \<noteq> [] \<and> rs_order_id r \<noteq> exchange_id
       then Inl (RuntimeError ''reservation is already bound to another orderId'')
       else if now < rs_updated_at_ms r then Inl (ValueError ''updated_at_ms regression'')
       else let updated = r\<lparr>rs_order_id := exchange_id,
                  rs_status := (if rs_status r = ''Reserved'' then ''Submitted'' else rs_status r),
                  rs_updated_at_ms := now, rs_revision := rs_revision r + 1\<rparr>
            in Inr (d\<lparr>id_reservations := AList.update link updated (id_reservations d),
                       id_updated_at_ms := now\<rparr>, updated))"

definition bind_submission ::
  "(string \<Rightarrow> string) \<Rightarrow> string \<Rightarrow> string \<Rightarrow> string \<Rightarrow> int \<Rightarrow> int \<Rightarrow>
   (identity_doc kv \<Rightarrow> identity_doc kv) list \<Rightarrow> identity_doc kv \<Rightarrow>
   reservation res \<times> identity_doc kv" where
  "bind_submission H env order_link_id_arg order_id updated_at_ms clock others db =
     (case rbind (order_link order_link_id_arg) (\<lambda>link.
           rbind (id_identifier order_id ''order_id'') (\<lambda>exchange_id.
           rbind (id_timestamp updated_at_ms) (\<lambda>now. Inr (link, exchange_id, now)))) of
        Inl e \<Rightarrow> (Inl e, db)
      | Inr (link, exchange_id, now) \<Rightarrow>
          id_update H env (bind_mutate link exchange_id now) clock others db)"

definition allowed_transition :: "string \<Rightarrow> string \<Rightarrow> bool" where
  "allowed_transition old new =
     (new \<in> set (case id_transitions old of None \<Rightarrow> [old] | Some ss \<Rightarrow> ss))"

definition status_mutate ::
  "string \<Rightarrow> string \<Rightarrow> pyfloat \<Rightarrow> int \<Rightarrow> string \<Rightarrow> identity_doc \<Rightarrow> (identity_doc \<times> reservation) res" where
  "status_mutate link status executed now exchange_id d =
     rbind (record_of (id_reservations d) link) (\<lambda>r.
       let old_status = rs_status r; old_exec = rs_cum_exec_qty r; bound_id = rs_order_id r
       in if now < rs_updated_at_ms r then Inl (ValueError ''updated_at_ms regression'')
          else if flt executed old_exec then Inl (ValueError ''cum_exec_qty regression'')
          else if old_status \<in> set id_terminal \<and> (status \<noteq> old_status \<or> \<not> feq executed old_exec)
          then Inl (ValueError ''terminal reservation cannot change'')
          else if old_status \<notin> set id_terminal \<and> \<not> allowed_transition old_status status
          then Inl (ValueError (''invalid transition '' @ old_status @ ''->'' @ status))
          else if exchange_id \<noteq> [] \<and> bound_id \<noteq> [] \<and> exchange_id \<noteq> bound_id
          then Inl (RuntimeError ''orderId mismatch'')
          else if exchange_id \<noteq> [] \<and> bound_elsewhere (id_reservations d) link exchange_id
          then Inl (RuntimeError ''exchange orderId is already bound'')
          else let updated = r\<lparr>rs_order_id := (if exchange_id \<noteq> [] then exchange_id else bound_id),
                     rs_status := status, rs_cum_exec_qty := executed, rs_updated_at_ms := now,
                     rs_revision := rs_revision r + 1\<rparr>
               in Inr (d\<lparr>id_reservations := AList.update link updated (id_reservations d),
                          id_updated_at_ms := now\<rparr>, updated))"

definition update_status ::
  "(string \<Rightarrow> string) \<Rightarrow> string \<Rightarrow> string \<Rightarrow> string \<Rightarrow> pyfloat \<Rightarrow> int \<Rightarrow> string option \<Rightarrow> int \<Rightarrow>
   (identity_doc kv \<Rightarrow> identity_doc kv) list \<Rightarrow> identity_doc kv \<Rightarrow>
   reservation res \<times> identity_doc kv" where
  "update_status H env order_link_id_arg status cum_exec_qty updated_at_ms order_id clock others db =
     (case rbind (order_link order_link_id_arg) (\<lambda>link.
             if strip status \<notin> set id_statuses then Inl (ValueError ''unsupported order status'')
             else rbind (id_number cum_exec_qty ''cum_exec_qty'') (\<lambda>executed.
               if flt executed (Fin 0) then Inl (ValueError ''cum_exec_qty must not be negative'')
               else rbind (id_timestamp updated_at_ms) (\<lambda>now.
                    rbind (if given order_id \<noteq> [] then id_identifier (given order_id) ''order_id'' else Inr [])
                          (\<lambda>exchange_id. Inr (link, executed, now, exchange_id))))) of
        Inl e \<Rightarrow> (Inl e, db)
      | Inr (link, executed, now, exchange_id) \<Rightarrow>
          id_update H env (status_mutate link (strip status) executed now exchange_id) clock others db)"

record identity_snapshot =
  is_environment :: string
  is_version :: int
  is_reservations :: "reservation list"
  is_unresolved :: "reservation list"
  is_restart_safe :: bool

definition snapshot ::
  "(string \<Rightarrow> string) \<Rightarrow> string \<Rightarrow> identity_doc kv \<Rightarrow> identity_snapshot res" where
  "snapshot H env db =
     rbind (get_json db id_namespace env) (\<lambda>current.
     rbind (identity_document H env (map_option kv_doc current)) (\<lambda>d.
       let records = sort_key (\<lambda>r. (rs_created_at_ms r, rs_order_link_id r))
                       (map snd (id_reservations d));
           unresolved = filter (\<lambda>r. rs_status r \<notin> set id_terminal) records
       in Inr \<lparr>is_environment = env, is_version = kv_current current, is_reservations = records,
               is_unresolved = unresolved, is_restart_safe = (unresolved = [])\<rparr>))"

section \<open>Specification of the registry\<close>

text \<open>What a reader sees of the registry: the reservation under a link.\<close>

definition lookup_reservation :: "string \<Rightarrow> identity_doc kv \<Rightarrow> string \<Rightarrow> reservation option" where
  "lookup_reservation env db link =
     (case db (id_namespace, env) of None \<Rightarrow> None
      | Some row \<Rightarrow> map_of (id_reservations (kv_doc row)) link)"

text \<open>The place of a status in the life of an order; the ended states come last and are equal.\<close>

definition status_rank :: "string \<Rightarrow> nat" where
  "status_rank s =
     (if s = ''Reserved'' then 0 else if s = ''Submitted'' then 1 else if s = ''Untriggered'' then 2
      else if s = ''Triggered'' then 3 else if s = ''New'' then 4 else if s = ''PartiallyFilled'' then 5 else 6)"

text \<open>
  How one reservation may change: its identity is fixed, its revision, time and executed quantity
  grow, a bound order id stays bound, its status never moves to one of lower rank and a terminal one
  keeps its status and quantity.
\<close>

definition advances :: "reservation \<Rightarrow> reservation \<Rightarrow> bool" where
  "advances r r' =
     (rs_order_link_id r' = rs_order_link_id r \<and> rs_fingerprint r' = rs_fingerprint r \<and>
      rs_root_fingerprint r' = rs_root_fingerprint r \<and> rs_intent r' = rs_intent r \<and>
      rs_attempt r' = rs_attempt r \<and> rs_created_at_ms r' = rs_created_at_ms r \<and>
      rs_updated_at_ms r \<le> rs_updated_at_ms r' \<and> rs_revision r \<le> rs_revision r' \<and>
      (rs_order_id r \<noteq> [] \<longrightarrow> rs_order_id r' = rs_order_id r) \<and>
      fle (rs_cum_exec_qty r) (rs_cum_exec_qty r') \<and>
      status_rank (rs_status r) \<le> status_rank (rs_status r') \<and>
      (rs_status r \<in> set id_terminal \<longrightarrow>
         rs_status r' = rs_status r \<and> rs_cum_exec_qty r' = rs_cum_exec_qty r))"

definition registry_advances :: "reservation dict \<Rightarrow> reservation dict \<Rightarrow> bool" where
  "registry_advances rs rs' =
     (\<forall>l r. map_of rs l = Some r \<longrightarrow> (\<exists>r'. map_of rs' l = Some r' \<and> advances r r'))"

definition finite_quantities :: "reservation dict \<Rightarrow> bool" where
  "finite_quantities rs = (\<forall>l r. map_of rs l = Some r \<longrightarrow> isfinite (rs_cum_exec_qty r))"

text \<open>A registry document that was written back.\<close>

definition id_write :: "string \<Rightarrow> identity_doc \<Rightarrow> int \<Rightarrow> identity_doc kv \<Rightarrow> identity_doc kv" where
  "id_write env d clock db = db((id_namespace, env) \<mapsto>
     \<lparr>kv_doc = d, kv_version = kv_current (db (id_namespace, env)) + 1, kv_updated_at_ms = clock\<rparr>)"

definition id_read :: "(string \<Rightarrow> string) \<Rightarrow> string \<Rightarrow> identity_doc kv \<Rightarrow> identity_doc res" where
  "id_read H env db = identity_document H env (map_option kv_doc (db (id_namespace, env)))"

text \<open>The contents a reader accepts, entry by entry, and the index it expects.\<close>

definition reservation_ok :: "(string \<Rightarrow> string) \<Rightarrow> string \<Rightarrow> string \<Rightarrow> reservation \<Rightarrow> bool" where
  "reservation_ok H env link r =
     (order_link link = Inr link \<and>
      (case recreate (rs_intent r) of Inl e \<Rightarrow> False
       | Inr i \<Rightarrow> oi_environment i = env \<and> order_link_id H i = link \<and>
                  rs_fingerprint r = fingerprint H i \<and> rs_root_fingerprint r = root_fingerprint H i) \<and>
      rs_status r \<in> set id_statuses \<and> isfinite (rs_cum_exec_qty r) \<and>
      \<not> flt (rs_cum_exec_qty r) (Fin 0) \<and> 0 < rs_attempt r \<and> 0 < rs_revision r \<and>
      0 < rs_created_at_ms r \<and> 0 < rs_updated_at_ms r \<and>
      (rs_order_id r = [] \<or> (\<exists>x. id_identifier (rs_order_id r) ''persisted order_id'' = Inr x)))"

definition bound_ids :: "reservation dict \<Rightarrow> string list" where
  "bound_ids rs = filter (\<lambda>x. x \<noteq> []) (map (\<lambda>(l, r). rs_order_id r) rs)"

definition fingerprint_index :: "string dict \<Rightarrow> reservation dict \<Rightarrow> string dict" where
  "fingerprint_index acc rs = foldl (\<lambda>e (l, r). AList.update (rs_fingerprint r) l e) acc rs"

definition registry_wf :: "(string \<Rightarrow> string) \<Rightarrow> string \<Rightarrow> identity_doc \<Rightarrow> bool" where
  "registry_wf H env d =
     (identity_document H env (Some d) = Inr d \<and> distinct (map fst (id_reservations d)) \<and>
      list_all (\<lambda>(l, r). rs_order_link_id r = l) (id_reservations d))"

text \<open>One registry operation: no change, or a validated document replaced by one that advances it.\<close>

definition registry_step :: "(string \<Rightarrow> string) \<Rightarrow> string \<Rightarrow> identity_doc kv \<Rightarrow> identity_doc kv \<Rightarrow> bool" where
  "registry_step H env db db' =
     (db' = db \<or>
      (\<exists>d d' clock. id_read H env db = Inr d \<and> db' = id_write env d' clock db \<and>
                    registry_advances (id_reservations d) (id_reservations d')))"

text \<open>What the clients of the registry may do: reserve canonical intents, bind, update.\<close>

definition registry_store_wf :: "(string \<Rightarrow> string) \<Rightarrow> string \<Rightarrow> identity_doc kv \<Rightarrow> bool" where
  "registry_store_wf H env db =
     (\<forall>row. db (id_namespace, env) = Some row \<longrightarrow> registry_wf H env (kv_doc row))"

inductive registry_op ::
  "(string \<Rightarrow> string) \<Rightarrow> string \<Rightarrow> identity_doc kv \<Rightarrow> identity_doc kv \<Rightarrow> bool" for H env where
  op_reserve: "recreate intent = Inr intent \<Longrightarrow> reserve H env intent now clock [] db = (res, db') \<Longrightarrow>
     registry_op H env db db'"
| op_bind: "bind_submission H env l oid now clock [] db = (res', db') \<Longrightarrow> registry_op H env db db'"
| op_status: "update_status H env l status cum now oid' clock [] db = (res', db') \<Longrightarrow> registry_op H env db db'"

inductive registry_reachable :: "(string \<Rightarrow> string) \<Rightarrow> string \<Rightarrow> identity_doc kv \<Rightarrow> bool" for H env where
  start: "registry_reachable H env (\<lambda>_. None)"
| op: "registry_reachable H env db \<Longrightarrow> registry_op H env db db' \<Longrightarrow> registry_reachable H env db'"


section \<open>The update loop\<close>

lemma id_cell: "env \<in> set id_environments \<Longrightarrow> clean_cell id_namespace env"
  by (auto simp: id_environments_def id_namespace_def db_identifier_def strip_def is_space_def ccode_def)

lemma id_cell_testnet [simp]: "clean_cell id_namespace ''testnet''"
  by (rule id_cell) (simp add: id_environments_def)

lemma id_update_alone:
  assumes "clean_cell id_namespace env"
  shows "id_update H env m clock [] db =
    (case rbind (id_read H env db) m of Inl e \<Rightarrow> (Inl e, db)
     | Inr (d, r) \<Rightarrow> (Inr r, id_write env d clock db))"
  unfolding id_update_def optimistic_update_alone [OF assms, of 5, simplified] id_read_def id_write_def
  by (simp split: sum.split prod.split)

lemma id_update_cases:
  assumes "clean_cell id_namespace env" "id_update H env m clock [] db = (res, db')"
  obtains (fails) e where "res = Inl e" "db' = db"
  | (writes) d d' r where "id_read H env db = Inr d" "m d = Inr (d', r)" "res = Inr r"
      "db' = id_write env d' clock db"
proof (cases "rbind (id_read H env db) m")
  case (Inl e)
  with assms show ?thesis by (intro fails [of e]) (simp_all add: id_update_alone)
next
  case (Inr p)
  obtain d' r where p: "p = (d', r)" by (cases p)
  from Inr p obtain d where "id_read H env db = Inr d" "m d = Inr (d', r)" by (auto simp: res_simps)
  moreover from assms Inr p have "res = Inr r" "db' = id_write env d' clock db"
    by (simp_all add: id_update_alone)
  ultimately show ?thesis by (rule writes)
qed

lemma lookup_write [simp]:
  "lookup_reservation env (id_write env d clock db) = map_of (id_reservations d)"
  by (simp add: lookup_reservation_def id_write_def fun_eq_iff)

lemma id_read_lookup:
  assumes "id_read H env db = Inr d"
  shows "lookup_reservation env db = map_of (id_reservations d)"
proof (cases "db (id_namespace, env)")
  case None
  with assms show ?thesis
    by (auto simp: id_read_def identity_document_def lookup_reservation_def)
next
  case (Some row)
  with assms show ?thesis
    by (auto simp: id_read_def identity_document_def lookup_reservation_def res_simps split: if_splits)
qed

section \<open>What the mutations change\<close>

lemma status_rank_reserved [simp]: "status_rank s = 0 \<longleftrightarrow> s = ''Reserved''"
  by (simp add: status_rank_def)

lemma allowed_transition_rank:
  assumes "allowed_transition old new"
  shows "status_rank old \<le> status_rank new"
  using assms
  by (auto simp: allowed_transition_def id_transitions_def id_statuses_def status_rank_def split: if_splits)

lemma advances_not_reserved:
  assumes "advances r r'" "rs_status r \<noteq> ''Reserved''"
  shows "rs_status r' \<noteq> ''Reserved''"
  using assms status_rank_reserved [of "rs_status r"] status_rank_reserved [of "rs_status r'"]
  unfolding advances_def by linarith

lemma advances_refl: "isfinite (rs_cum_exec_qty r) \<Longrightarrow> advances r r"
  by (cases "rs_cum_exec_qty r") (auto simp: advances_def fle_def)

lemma advances_trans: "advances a b \<Longrightarrow> advances b c \<Longrightarrow> advances a c"
  unfolding advances_def by (auto intro: fle_trans order_trans)

lemma registry_advances_refl: "finite_quantities rs \<Longrightarrow> registry_advances rs rs"
  by (auto simp: registry_advances_def finite_quantities_def intro: advances_refl)

lemma registry_advances_trans:
  "registry_advances a b \<Longrightarrow> registry_advances b c \<Longrightarrow> registry_advances a c"
  unfolding registry_advances_def by (meson advances_trans)

lemma registry_advances_update:
  assumes "finite_quantities rs" "map_of rs l = None \<or> (\<exists>r. map_of rs l = Some r \<and> advances r r')"
  shows "registry_advances rs (AList.update l r' rs)"
  using assms
  by (auto simp: registry_advances_def finite_quantities_def dict_simps intro: advances_refl)

lemma reserve_mutate_cases:
  assumes "reserve_mutate H intent now d = Inr (d', r, dup)"
  obtains (duplicate) link where "dup" "d' = d"
      "map_of (id_fingerprints d) (fingerprint H intent) = Some link" "link \<noteq> []"
      "map_of (id_reservations d) link = Some r"
  | (fresh) "\<not> dup" "map_of (id_reservations d) (order_link_id H intent) = None"
      "map_of (id_fingerprints d) (fingerprint H intent) \<in> {None, Some []}"
      "retry_check intent (filter (\<lambda>r. rs_root_fingerprint r = root_fingerprint H intent)
         (map snd (id_reservations d))) = Inr ()"
      "r = \<lparr>rs_order_link_id = order_link_id H intent, rs_order_id = [],
             rs_fingerprint = fingerprint H intent, rs_root_fingerprint = root_fingerprint H intent,
             rs_intent = intent, rs_attempt = oi_attempt intent, rs_status = ''Reserved'',
             rs_cum_exec_qty = Fin 0, rs_created_at_ms = now, rs_updated_at_ms = now, rs_revision = 1\<rparr>"
      "d' = d\<lparr>id_reservations := AList.update (order_link_id H intent) r (id_reservations d),
               id_fingerprints := AList.update (fingerprint H intent) (order_link_id H intent) (id_fingerprints d),
               id_updated_at_ms := now\<rparr>"
  using assms
  by (auto simp: reserve_mutate_def Let_def res_simps split: option.splits list.splits if_splits)

lemma reserve_mutate_advances:
  assumes "reserve_mutate H intent now d = Inr (d', r, dup)" "finite_quantities (id_reservations d)"
  shows "registry_advances (id_reservations d) (id_reservations d')"
  using assms(1)
proof (cases rule: reserve_mutate_cases)
  case (duplicate link)
  with assms(2) show ?thesis by (simp add: registry_advances_refl)
next
  case fresh
  with assms(2) show ?thesis by (simp add: registry_advances_update)
qed

lemma bind_mutate_cases:
  assumes "bind_mutate link xid now d = Inr (d', r')"
  obtains r where "map_of (id_reservations d) link = Some r"
    "\<not> bound_elsewhere (id_reservations d) link xid" "rs_order_id r = [] \<or> rs_order_id r = xid"
    "rs_updated_at_ms r \<le> now"
    "r' = r\<lparr>rs_order_id := xid,
            rs_status := (if rs_status r = ''Reserved'' then ''Submitted'' else rs_status r),
            rs_updated_at_ms := now, rs_revision := rs_revision r + 1\<rparr>"
    "d' = d\<lparr>id_reservations := AList.update link r' (id_reservations d), id_updated_at_ms := now\<rparr>"
  using assms
  by (auto simp: bind_mutate_def record_of_def res_simps Let_def split: option.splits if_splits)

lemma bind_mutate_advances:
  assumes "bind_mutate link xid now d = Inr (d', r')" "finite_quantities (id_reservations d)"
  shows "registry_advances (id_reservations d) (id_reservations d')"
  using assms(1)
proof (cases rule: bind_mutate_cases)
  case (1 r)
  with assms(2) have "isfinite (rs_cum_exec_qty r)" by (auto simp: finite_quantities_def)
  with 1 have "advances r r'"
    by (cases "rs_cum_exec_qty r") (auto simp: advances_def fle_def id_terminal_def status_rank_def)
  with 1 assms(2) show ?thesis by (simp add: registry_advances_update)
qed

lemma status_mutate_cases:
  assumes "status_mutate link status executed now xid d = Inr (d', r')"
  obtains r where "map_of (id_reservations d) link = Some r" "rs_updated_at_ms r \<le> now"
    "\<not> flt executed (rs_cum_exec_qty r)"
    "rs_status r \<in> set id_terminal \<longrightarrow> status = rs_status r \<and> feq executed (rs_cum_exec_qty r)"
    "rs_status r \<notin> set id_terminal \<longrightarrow> allowed_transition (rs_status r) status"
    "xid \<noteq> [] \<longrightarrow> rs_order_id r \<noteq> [] \<longrightarrow> xid = rs_order_id r"
    "xid \<noteq> [] \<longrightarrow> \<not> bound_elsewhere (id_reservations d) link xid"
    "r' = r\<lparr>rs_order_id := (if xid \<noteq> [] then xid else rs_order_id r), rs_status := status,
            rs_cum_exec_qty := executed, rs_updated_at_ms := now, rs_revision := rs_revision r + 1\<rparr>"
    "d' = d\<lparr>id_reservations := AList.update link r' (id_reservations d), id_updated_at_ms := now\<rparr>"
  using assms
  by (auto simp: status_mutate_def record_of_def res_simps Let_def split: option.splits if_splits)

lemma status_advances:
  assumes "rs_updated_at_ms r \<le> now" "\<not> flt executed (rs_cum_exec_qty r)"
    "rs_status r \<in> set id_terminal \<longrightarrow> status = rs_status r \<and> feq executed (rs_cum_exec_qty r)"
    "rs_status r \<notin> set id_terminal \<longrightarrow> allowed_transition (rs_status r) status"
    "xid \<noteq> [] \<longrightarrow> rs_order_id r \<noteq> [] \<longrightarrow> xid = rs_order_id r"
    "isfinite (rs_cum_exec_qty r)" "isfinite executed"
  shows "advances r (r\<lparr>rs_order_id := (if xid \<noteq> [] then xid else rs_order_id r), rs_status := status,
            rs_cum_exec_qty := executed, rs_updated_at_ms := now, rs_revision := rs_revision r + 1\<rparr>)"
proof -
  obtain x y where xy: "rs_cum_exec_qty r = Fin x" "executed = Fin y"
    using assms(6,7) by (auto simp: isfinite_iff)
  have "status_rank (rs_status r) \<le> status_rank status"
    using assms(3,4) allowed_transition_rank by (metis order_refl)
  moreover have "rs_status r \<in> set id_terminal \<longrightarrow> status = rs_status r \<and> executed = rs_cum_exec_qty r"
    using assms(3) by (simp add: xy)
  ultimately show ?thesis using assms(1,2,5) xy by (simp add: advances_def)
qed

lemma status_mutate_advances:
  assumes "status_mutate link status executed now xid d = Inr (d', r')"
    and "finite_quantities (id_reservations d)" "isfinite executed"
  shows "registry_advances (id_reservations d) (id_reservations d')"
  using assms(1)
proof (cases rule: status_mutate_cases)
  case (1 r)
  from 1(1) assms(2) have "isfinite (rs_cum_exec_qty r)" by (auto simp: finite_quantities_def)
  from status_advances [OF 1(2-6) this assms(3)] have "advances r r'" by (simp only: 1(8))
  with 1(1) assms(2) show ?thesis by (simp add: 1(9) registry_advances_update)
qed

section \<open>What the reader accepts\<close>

lemma check_simps:
  "id_number x name = Inr y \<longleftrightarrow> isfinite x \<and> y = x"
  "id_positive_int i name = Inr j \<longleftrightarrow> 0 < i \<and> j = i"
  "id_timestamp i = Inr j \<longleftrightarrow> 0 < i \<and> j = i"
  by (auto simp: id_number_def id_positive_int_def id_timestamp_def)

lemma check_reservation_iff:
  "check_reservation H env (expected, ids) (l, r) = Inr (expected', ids') \<longleftrightarrow>
     reservation_ok H env l r \<and> (rs_order_id r = [] \<or> rs_order_id r \<notin> set ids) \<and>
     expected' = AList.update (rs_fingerprint r) l expected \<and>
     ids' = (if rs_order_id r = [] then ids else rs_order_id r # ids)"
proof (cases "recreate (rs_intent r)")
  case (Inl e)
  then show ?thesis by (simp add: check_reservation_def reservation_ok_def res_simps)
next
  case (Inr i)
  show ?thesis
    by (cases "rs_order_id r = []";
        simp add: Inr check_reservation_def reservation_ok_def res_simps check_simps not_le not_less; auto)
qed

lemma rfold_check_iff:
  "rfold (check_reservation H env) (expected, ids) rs = Inr (expected', ids') \<longleftrightarrow>
     (\<forall>(l, r) \<in> set rs. reservation_ok H env l r) \<and> distinct (bound_ids rs) \<and>
     set (bound_ids rs) \<inter> set ids = {} \<and> expected' = fingerprint_index expected rs \<and>
     ids' = rev (bound_ids rs) @ ids"
proof (induction rs arbitrary: expected ids)
  case Nil
  show ?case by (auto simp: bound_ids_def fingerprint_index_def)
next
  case (Cons p rs)
  obtain l r where p: "p = (l, r)" by (cases p)
  show ?case
    by (simp add: p res_simps split_paired_Ex check_reservation_iff Cons.IH)
      (auto simp: bound_ids_def fingerprint_index_def)
qed

lemma identity_document_iff:
  "identity_document H env (Some d) = Inr d' \<longleftrightarrow>
     d' = d \<and> id_environment d = env \<and>
     (\<forall>(l, r) \<in> set (id_reservations d). reservation_ok H env l r) \<and>
     distinct (bound_ids (id_reservations d)) \<and>
     map_of (id_fingerprints d) = map_of (fingerprint_index [] (id_reservations d))"
  by (auto simp: identity_document_def res_simps split_paired_Ex rfold_check_iff dict_eq_iff)

lemma id_read_finite:
  assumes "id_read H env db = Inr d"
  shows "finite_quantities (id_reservations d)"
proof (cases "db (id_namespace, env)")
  case None
  with assms show ?thesis by (auto simp: id_read_def identity_document_def finite_quantities_def)
next
  case (Some row)
  with assms show ?thesis
    by (auto simp: id_read_def identity_document_iff finite_quantities_def reservation_ok_def
        dest!: map_of_SomeD)
qed

section \<open>Operations as steps\<close>

lemma registry_step_refl [simp]: "registry_step H env db db"
  by (simp add: registry_step_def)

lemma registry_step_lookup:
  assumes "registry_step H env db db'" "lookup_reservation env db l = Some r"
  shows "\<exists>r'. lookup_reservation env db' l = Some r' \<and> (r' = r \<or> advances r r')"
  using assms(1) unfolding registry_step_def
proof (elim disjE exE conjE)
  assume "db' = db"
  with assms(2) show ?thesis by blast
next
  fix d d' clock
  assume "id_read H env db = Inr d" "db' = id_write env d' clock db"
    "registry_advances (id_reservations d) (id_reservations d')"
  moreover from this(1) assms(2) have "map_of (id_reservations d) l = Some r"
    by (simp add: id_read_lookup)
  ultimately show ?thesis by (auto simp: registry_advances_def)
qed

lemma id_update_step:
  assumes "clean_cell id_namespace env" "id_update H env m clock [] db = (res, db')"
    and "\<And>d d' r. id_read H env db = Inr d \<Longrightarrow> m d = Inr (d', r) \<Longrightarrow>
           registry_advances (id_reservations d) (id_reservations d')"
  shows "registry_step H env db db'"
  using assms(1,2)
proof (cases rule: id_update_cases)
  case (fails e)
  then show ?thesis by simp
next
  case (writes d d' r)
  with assms(3) show ?thesis unfolding registry_step_def by blast
qed

lemma reserve_step:
  assumes "clean_cell id_namespace env" "reserve H env intent now clock [] db = (res, db')"
  shows "registry_step H env db db'"
proof (cases "oi_environment intent = env \<and> 0 < now")
  case True
  with assms(2) have "id_update H env (reserve_mutate H intent now) clock [] db = (res, db')"
    by (simp add: reserve_def id_timestamp_def)
  from assms(1) this show ?thesis
    by (rule id_update_step) (auto dest: id_read_finite intro: reserve_mutate_advances)
next
  case False
  with assms(2) show ?thesis by (auto simp: reserve_def id_timestamp_def split: if_splits)
qed

lemma bind_submission_step:
  assumes "clean_cell id_namespace env" "bind_submission H env l oid now clock [] db = (res, db')"
  shows "registry_step H env db db'"
proof (cases "rbind (order_link l) (\<lambda>link. rbind (id_identifier oid ''order_id'') (\<lambda>x.
                rbind (id_timestamp now) (\<lambda>n. Inr (link, x, n))))")
  case (Inl e)
  with assms(2) show ?thesis by (simp add: bind_submission_def)
next
  case (Inr p)
  obtain link x n where "p = (link, x, n)" by (cases p)
  with Inr assms(2) have "id_update H env (bind_mutate link x n) clock [] db = (res, db')"
    by (simp add: bind_submission_def)
  from assms(1) this show ?thesis
    by (rule id_update_step) (auto dest: id_read_finite intro: bind_mutate_advances)
qed

text \<open>The arguments of a status update after their checks.\<close>

definition status_arguments ::
  "string \<Rightarrow> string \<Rightarrow> pyfloat \<Rightarrow> int \<Rightarrow> string option \<Rightarrow> (string \<times> pyfloat \<times> int \<times> string) res" where
  "status_arguments l status cum now oid =
     rbind (order_link l) (\<lambda>link.
       if strip status \<notin> set id_statuses then Inl (ValueError ''unsupported order status'')
       else rbind (id_number cum ''cum_exec_qty'') (\<lambda>executed.
         if flt executed (Fin 0) then Inl (ValueError ''cum_exec_qty must not be negative'')
         else rbind (id_timestamp now) (\<lambda>n.
              rbind (if given oid \<noteq> [] then id_identifier (given oid) ''order_id'' else Inr [])
                    (\<lambda>xid. Inr (link, executed, n, xid)))))"

lemma update_status_eq:
  "update_status H env l status cum now oid clock others db =
     (case status_arguments l status cum now oid of Inl e \<Rightarrow> (Inl e, db)
      | Inr (link, executed, n, xid) \<Rightarrow>
          id_update H env (status_mutate link (strip status) executed n xid) clock others db)"
  by (simp add: update_status_def status_arguments_def)

lemma status_arguments_Inr:
  "status_arguments l status cum now oid = Inr (link, executed, n, xid) \<longleftrightarrow>
     order_link l = Inr link \<and> strip status \<in> set id_statuses \<and> isfinite cum \<and> executed = cum \<and>
     \<not> flt cum (Fin 0) \<and> 0 < now \<and> n = now \<and>
     (if given oid \<noteq> [] then id_identifier (given oid) ''order_id'' else Inr []) = Inr xid"
  unfolding status_arguments_def by (simp only: res_simps check_simps) auto

lemma update_status_step:
  assumes "clean_cell id_namespace env"
    and "update_status H env l status cum now oid clock [] db = (res, db')"
  shows "registry_step H env db db'"
proof (cases "status_arguments l status cum now oid")
  case (Inl e)
  with assms(2) show ?thesis by (simp add: update_status_eq)
next
  case (Inr p)
  obtain link executed n xid where p: "p = (link, executed, n, xid)" by (cases p)
  with Inr have fin: "isfinite executed" by (simp add: status_arguments_Inr)
  from p Inr assms(2)
  have "id_update H env (status_mutate link (strip status) executed n xid) clock [] db = (res, db')"
    by (simp add: update_status_eq)
  from assms(1) this show ?thesis
    by (rule id_update_step) (auto dest: id_read_finite intro: status_mutate_advances fin)
qed

text \<open>The reservation a successful status update returns is the one it stored.\<close>

lemma update_status_stores:
  assumes "clean_cell id_namespace env"
    and "update_status H env l status cum now oid clock [] db = (Inr r', db')"
  shows "\<exists>link. order_link l = Inr link \<and> lookup_reservation env db' link = Some r' \<and>
           rs_status r' = strip status"
proof (cases "status_arguments l status cum now oid")
  case (Inl e)
  with assms(2) show ?thesis by (simp add: update_status_eq)
next
  case (Inr p)
  obtain link executed n xid where p: "p = (link, executed, n, xid)" by (cases p)
  from p Inr assms(2)
  have "id_update H env (status_mutate link (strip status) executed n xid) clock [] db = (Inr r', db')"
    by (simp add: update_status_eq)
  from assms(1) this show ?thesis
  proof (cases rule: id_update_cases)
    case (writes d d' r)
    from writes(2) show ?thesis
    proof (cases rule: status_mutate_cases)
      case (1 r0)
      with writes p Inr show ?thesis by (auto simp: status_arguments_Inr dict_simps)
    qed
  qed simp
qed

lemma id_identifier_Inr: "id_identifier v name = Inr x \<Longrightarrow> x = strip v \<and> x \<noteq> []"
  by (auto simp: id_identifier_def Let_def split: if_splits)

lemma bind_submission_stores:
  assumes "clean_cell id_namespace env"
    and "bind_submission H env l oid now clock [] db = (Inr r', db')"
  shows "\<exists>link r. order_link l = Inr link \<and> lookup_reservation env db link = Some r \<and>
           lookup_reservation env db' link = Some r' \<and> rs_order_id r' = strip oid \<and> strip oid \<noteq> [] \<and>
           rs_status r' = (if rs_status r = ''Reserved'' then ''Submitted'' else rs_status r)"
proof (cases "rbind (order_link l) (\<lambda>link. rbind (id_identifier oid ''order_id'') (\<lambda>x.
                rbind (id_timestamp now) (\<lambda>n. Inr (link, x, n))))")
  case (Inl e)
  with assms(2) show ?thesis by (simp add: bind_submission_def)
next
  case (Inr p)
  obtain link x n where p: "p = (link, x, n)" by (cases p)
  with Inr have args: "order_link l = Inr link" "x = strip oid" "x \<noteq> []"
    by (auto simp: res_simps dest: id_identifier_Inr)
  from p Inr assms(2) have "id_update H env (bind_mutate link x n) clock [] db = (Inr r', db')"
    by (simp add: bind_submission_def)
  from assms(1) this show ?thesis
  proof (cases rule: id_update_cases)
    case (writes d d' q)
    from writes(2) show ?thesis
    proof (cases rule: bind_mutate_cases)
      case (1 r)
      with writes args show ?thesis by (auto simp: id_read_lookup dict_simps)
    qed
  qed simp
qed

lemma unresolved_lists:
  assumes "lookup_reservation env db l = Some r" "rs_status r \<notin> set id_terminal"
    and "snapshot H env db = Inr s" "clean_cell id_namespace env"
  shows "r \<in> set (is_unresolved s)"
proof -
  from assms(3,4) obtain d where d: "id_read H env db = Inr d"
    and s: "set (is_unresolved s) = {q \<in> set (map snd (id_reservations d)). rs_status q \<notin> set id_terminal}"
    by (auto simp: snapshot_def get_json_clean res_simps Let_def id_read_def)
  from assms(1) d have "(l, r) \<in> set (id_reservations d)" by (auto simp: id_read_lookup dest: map_of_SomeD)
  with assms(2) s show ?thesis by force
qed

section \<open>Canonical text\<close>

lemma decimal_text_zero: "decimal_text ''0'' name False = Inr ''0''" "decimal_text ''0'' name True = Inl (ValueError (''invalid '' @ name))"
proof -
  have d: "dec_of_string ''0'' = Inr (DFin False 0 0)" by code_simp
  have n: "dec_normalize (DFin False 0 0) = Inr (DFin False 0 0)" by code_simp
  have f: "format_f False 0 0 = ''0''" by code_simp
  show "decimal_text ''0'' name False = Inr ''0''" "decimal_text ''0'' name True = Inl (ValueError (''invalid '' @ name))"
    by (simp_all add: decimal_text_def d n f Let_def)
qed

lemma format_f_nonzero:
  assumes "0 < c"
  shows "format_f s c e \<noteq> ''-0''" "format_f s c e \<noteq> []" "format_f s c e \<noteq> ''0''"
proof -
  have z: "parse_number ''-0'' = Some (True, 0, 0)" "parse_number [] = None" "parse_number ''0'' = Some (False, 0, 0)"
    by code_simp+
  show "format_f s c e \<noteq> ''-0''" "format_f s c e \<noteq> []" "format_f s c e \<noteq> ''0''"
    using parse_format_f [of s c e] assms z by (auto split: if_splits)
qed

lemma pow10_pos: "0 < pow10 k"
  by (simp add: pow10_def)

lemma dec_val_pos_iff: "0 < dec_val (DFin s c e) \<longleftrightarrow> \<not> s \<and> 0 < c"
  using pow10_pos [of e] by (auto simp: zero_less_mult_iff)

lemma decimal_text_cases:
  assumes "decimal_text v name pos = Inr t"
  obtains (zero) "t = ''0''"
  | (nonzero) s c e where "t = format_f s c e" "dec_fits c e" "c mod 10 \<noteq> 0" "pos \<Longrightarrow> \<not> s"
proof -
  obtain d where d: "dec_of_string v = Inr d"
    using assms by (cases "dec_of_string v") (auto simp: decimal_text_def)
  then obtain s c e where fin: "d = DFin s c e" and pos: "pos \<Longrightarrow> 0 < dec_val (DFin s c e)"
    using assms by (cases d) (auto simp: decimal_text_def not_le split: if_splits)
  have ns: "pos \<Longrightarrow> \<not> s" using pos dec_val_pos_iff by blast
  from fin obtain n where n: "dec_normalize (DFin s c e) = Inr n"
    and t: "t = (if dec_format_f n = ''-0'' \<or> dec_format_f n = [] then ''0'' else dec_format_f n)"
    using assms d by (auto simp: decimal_text_def res_simps Let_def)
  from n show ?thesis
  proof (cases rule: dec_normalize_Inr)
    case z: zero
    have "format_f True 0 0 = ''-0''" "format_f False 0 0 = ''0''" by code_simp+
    with z t show ?thesis by (intro zero) (cases s, auto)
  next
    case nz: (nonzero c' e')
    then have "0 < c'" by (simp add: dec_fits_def)
    with nz t ns show ?thesis by (intro nonzero [of s c' e']) (auto simp: format_f_nonzero)
  qed
qed

lemma decimal_text_fixed:
  assumes "decimal_text v name pos = Inr t" "pos \<Longrightarrow> t \<noteq> ''0''"
  shows "decimal_text t name' pos = Inr t"
  using assms(1)
proof (cases rule: decimal_text_cases)
  case zero
  with assms(2) show ?thesis by (cases pos) (simp_all add: decimal_text_zero)
next
  case (nonzero s c e)
  obtain d where d: "dec_of_string t = Inr d" "dec_is_finite d" "dec_normalize d = Inr (DFin s c e)"
    "dec_val d = dec_val (DFin s c e)"
    using dec_text_fixed_point [OF nonzero(2,3)] nonzero(1) by blast
  have c: "0 < c" using nonzero(2) by (simp add: dec_fits_def)
  with d(4) nonzero(4) have "pos \<Longrightarrow> 0 < dec_val d" by (simp only: dec_val_pos_iff) simp
  with d c show ?thesis
    by (auto simp: decimal_text_def nonzero(1) format_f_nonzero Let_def not_le)
qed

lemma decimal_text_not_Nil: "decimal_text v name pos = Inr t \<Longrightarrow> t \<noteq> []"
  by (erule decimal_text_cases) (auto simp: format_f_nonzero dec_fits_def)

section \<open>Canonical intents\<close>

lemma char_upper_idem: "char_upper (char_upper c) = char_upper c"
proof (cases "is_lower c")
  case True
  then have "ccode (char_of (ccode c - 32)) = ccode c - 32"
    by (simp add: ccode_def is_lower_def)
  with True show ?thesis by (auto simp: char_upper_def is_lower_def)
qed (simp add: char_upper_def)

lemma clean_symbol_fixed:
  assumes "isalnum (clean_symbol s)"
  shows "clean_symbol (clean_symbol s) = clean_symbol s"
proof -
  let ?t = "clean_symbol s"
  have al: "list_all is_alnum ?t" using assms by (simp add: isalnum_def)
  have up: "map char_upper ?t = ?t"
    by (rule map_idI) (auto simp: clean_symbol_def remove_char_def upper_def char_upper_idem)
  have "CHR ''-'' \<notin> set ?t" "CHR ''/'' \<notin> set ?t" by (simp_all add: clean_symbol_def remove_char_def)
  then have nd: "filter (\<lambda>d. d \<noteq> CHR ''-'') ?t = ?t" "filter (\<lambda>d. d \<noteq> CHR ''/'') ?t = ?t"
    by (auto intro: filter_True)
  have "strip ?t = ?t" using al by (intro strip_no_space) (auto simp: list_all_iff dest: is_alnum_not_space)
  then show ?thesis unfolding clean_symbol_def [of ?t] by (simp add: upper_def up remove_char_def nd)
qed

lemma choice_Inr: "choice conv v name cs = Inr t \<longleftrightarrow> t = conv (strip v) \<and> t \<in> set cs"
  by (auto simp: choice_def Let_def)

lemma canonical_choices:
  "t \<in> set id_environments \<Longrightarrow> lower (strip t) = t" "t \<in> set id_categories \<Longrightarrow> lower (strip t) = t"
  "t \<in> set id_sides \<Longrightarrow> title (strip t) = t" "t \<in> set id_order_types \<Longrightarrow> title (strip t) = t"
  "t \<in> set id_time_in_force \<Longrightarrow> strip t = t" "t \<in> set id_market_units \<Longrightarrow> strip t = t"
  "t \<in> set id_time_in_force \<Longrightarrow> t \<noteq> []" "t \<in> set id_market_units \<Longrightarrow> t \<noteq> []"
proof -
  have "list_all (\<lambda>t. lower (strip t) = t) id_environments" "list_all (\<lambda>t. lower (strip t) = t) id_categories"
    "list_all (\<lambda>t. title (strip t) = t) id_sides" "list_all (\<lambda>t. title (strip t) = t) id_order_types"
    "list_all (\<lambda>t. strip t = t \<and> t \<noteq> []) id_time_in_force" "list_all (\<lambda>t. strip t = t \<and> t \<noteq> []) id_market_units"
    by code_simp+
  then show "t \<in> set id_environments \<Longrightarrow> lower (strip t) = t" "t \<in> set id_categories \<Longrightarrow> lower (strip t) = t"
    "t \<in> set id_sides \<Longrightarrow> title (strip t) = t" "t \<in> set id_order_types \<Longrightarrow> title (strip t) = t"
    "t \<in> set id_time_in_force \<Longrightarrow> strip t = t" "t \<in> set id_market_units \<Longrightarrow> strip t = t"
    "t \<in> set id_time_in_force \<Longrightarrow> t \<noteq> []" "t \<in> set id_market_units \<Longrightarrow> t \<noteq> []"
    by (auto simp: list_all_iff)
qed

lemma id_identifier_fixed: "id_identifier v name = Inr t \<Longrightarrow> id_identifier t name' = Inr t"
  by (auto simp: id_identifier_def Let_def split: if_splits)

text \<open>What a created intent looks like; the converse of each stage is in \<open>recreate_fixed\<close>.\<close>

lemma create_Inr:
  assumes "create cid env cat sy sd ot q p tif ro px mu att = Inr i"
  shows "id_identifier cid ''candidate_id'' = Inr (oi_candidate_id i)"
    "oi_environment i \<in> set id_environments" "oi_category i \<in> set id_categories"
    "oi_side i \<in> set id_sides" "oi_order_type i \<in> set id_order_types"
    "oi_symbol i = clean_symbol sy" "oi_symbol i \<noteq> []" "isalnum (oi_symbol i)"
    "decimal_text q ''quantity'' True = Inr (oi_quantity i)"
    "oi_price i = [] \<or> (\<exists>v. decimal_text v ''price'' True = Inr (oi_price i))"
    "0 < oi_attempt i" "oi_position_idx i \<in> {0, 1, 2}"
    "create_time_in_force (oi_order_type i) (oi_price i) (given tif) = Inr (oi_time_in_force i)"
    "create_market_unit (oi_category i) (oi_order_type i) (oi_side i) (strip (given mu)) = Inr (oi_market_unit i)"
    "\<not> (oi_category i = ''spot'' \<and> (oi_reduce_only i \<or> oi_position_idx i \<noteq> 0))"
    "oi_attempt i = att"
proof -
  from assms show "id_identifier cid ''candidate_id'' = Inr (oi_candidate_id i)"
    "oi_environment i \<in> set id_environments" "oi_category i \<in> set id_categories"
    "oi_side i \<in> set id_sides" "oi_order_type i \<in> set id_order_types"
    "oi_symbol i = clean_symbol sy" "oi_symbol i \<noteq> []" "isalnum (oi_symbol i)"
    "decimal_text q ''quantity'' True = Inr (oi_quantity i)"
    "0 < oi_attempt i" "oi_position_idx i \<in> {0, 1, 2}"
    "create_time_in_force (oi_order_type i) (oi_price i) (given tif) = Inr (oi_time_in_force i)"
    "create_market_unit (oi_category i) (oi_order_type i) (oi_side i) (strip (given mu)) = Inr (oi_market_unit i)"
    "\<not> (oi_category i = ''spot'' \<and> (oi_reduce_only i \<or> oi_position_idx i \<noteq> 0))" "oi_attempt i = att"
    unfolding create_def Let_def
    by (auto simp only: res_simps choice_Inr check_simps order_intent.simps sum.inject)
  from assms have "(if given p \<noteq> [] then decimal_text (given p) ''price'' True else Inr []) = Inr (oi_price i)"
    unfolding create_def Let_def
    by (auto simp only: res_simps choice_Inr check_simps order_intent.simps sum.inject)
  then show "oi_price i = [] \<or> (\<exists>v. decimal_text v ''price'' True = Inr (oi_price i))"
    by (auto split: if_splits)
qed

lemma time_in_force_fixed:
  assumes "create_time_in_force ot p tif = Inr t"
  shows "create_time_in_force ot p t = Inr t"
proof -
  have "t \<in> set id_time_in_force"
    using assms by (auto simp: create_time_in_force_def res_simps choice_Inr id_time_in_force_def split: if_splits)
  with assms canonical_choices(5,7) [of t] show ?thesis
    by (auto simp: create_time_in_force_def res_simps choice_Inr split: if_splits)
qed

lemma market_unit_fixed:
  assumes "create_market_unit cat ot sd u = Inr t"
  shows "create_market_unit cat ot sd (strip t) = Inr t"
proof (cases "cat = ''spot'' \<and> ot = ''Market''")
  case True
  with assms have "t \<in> set id_market_units"
    by (auto simp: create_market_unit_def Let_def split: if_splits)
  with True canonical_choices(6,8) [of t] show ?thesis by (simp add: create_market_unit_def)
next
  case False
  with assms have "t = []" by (auto simp: create_market_unit_def split: if_splits)
  moreover have "strip [] = []" by (simp add: strip_def)
  ultimately show ?thesis using False by (auto simp: create_market_unit_def)
qed

lemma recreate_fixed:
  assumes "create cid env cat sy sd ot q p tif ro px mu att = Inr i"
    and "oi_quantity i \<noteq> ''0''" "oi_price i \<noteq> ''0''"
  shows "recreate i = Inr i"
proof -
  note C = create_Inr [OF assms(1)]
  have price: "(if given (Some (oi_price i)) \<noteq> [] then decimal_text (given (Some (oi_price i))) ''price'' True
      else Inr []) = Inr (oi_price i)"
    using C(10) assms(3) by (auto simp: given_def dest: decimal_text_fixed)
  have choices: "choice lower (oi_environment i) ''environment'' id_environments = Inr (oi_environment i)"
    "choice lower (oi_category i) ''category'' id_categories = Inr (oi_category i)"
    "choice title (oi_side i) ''side'' id_sides = Inr (oi_side i)"
    "choice title (oi_order_type i) ''order_type'' id_order_types = Inr (oi_order_type i)"
    using C(2-5) canonical_choices by (simp_all add: choice_Inr)
  have tif: "create_time_in_force (oi_order_type i) (oi_price i) (given (Some (oi_time_in_force i))) = Inr (oi_time_in_force i)"
    using time_in_force_fixed [OF C(13)] by (simp add: given_def)
  have unit: "create_market_unit (oi_category i) (oi_order_type i) (oi_side i) (strip (given (Some (oi_market_unit i)))) =
      Inr (oi_market_unit i)"
    using market_unit_fixed [OF C(14)] by (simp add: given_def)
  have symb: "clean_symbol (oi_symbol i) = oi_symbol i"
    unfolding C(6) by (rule clean_symbol_fixed) (use C(6,8) in simp)
  have num: "id_positive_int (oi_attempt i) ''attempt'' = Inr (oi_attempt i)"
    using C(11) by (simp add: check_simps)
  have qty: "decimal_text (oi_quantity i) ''quantity'' True = Inr (oi_quantity i)"
    using C(9) assms(2) by (auto intro: decimal_text_fixed)
  show ?thesis
    unfolding recreate_def create_def Let_def symb
    using C(7,8,12,15)
    by (simp only: id_identifier_fixed [OF C(1)] choices qty price num tif unit rbind.simps) auto
qed

lemma create_price:
  assumes "create cid env cat sy sd ot q p tif ro px mu att = Inr i"
  shows "(if given p \<noteq> [] then decimal_text (given p) ''price'' True else Inr []) = Inr (oi_price i)"
  using assms unfolding create_def Let_def
  by (auto simp only: res_simps choice_Inr check_simps order_intent.simps sum.inject)

text \<open>The only decimals that are not reproduced are the positive ones that were rounded to zero.\<close>

lemma recreate_iff:
  assumes "create cid env cat sy sd ot q p tif ro px mu att = Inr i"
  shows "recreate i = Inr i \<longleftrightarrow> oi_quantity i \<noteq> ''0'' \<and> oi_price i \<noteq> ''0''"
proof
  assume again: "recreate i = Inr i"
  from create_Inr(9) [OF again [unfolded recreate_def]] have "oi_quantity i \<noteq> ''0''" by (auto simp: decimal_text_zero)
  moreover from create_price [OF again [unfolded recreate_def]] have "oi_price i \<noteq> ''0''"
    by (auto simp: given_def decimal_text_zero)
  ultimately show "oi_quantity i \<noteq> ''0'' \<and> oi_price i \<noteq> ''0''" by blast
qed (use recreate_fixed [OF assms] in blast)

section \<open>Well-formed documents stay well-formed\<close>

lemma update_split:
  assumes "map_of al k = Some v" "distinct (map fst al)"
  obtains xs ys where "al = xs @ (k, v) # ys" "k \<notin> fst ` set xs" "k \<notin> fst ` set ys"
    "\<And>w. AList.update k w al = xs @ (k, w) # ys"
proof -
  from assms(1) obtain xs ys where al: "al = xs @ (k, v) # ys" by (meson map_of_SomeD split_list)
  with assms(2) have "k \<notin> fst ` set xs" "k \<notin> fst ` set ys" by auto
  moreover from this(1) have "AList.update k w al = xs @ (k, w) # ys" for w
    unfolding al by (induction xs) auto
  ultimately show ?thesis using al that by blast
qed

lemma registry_wf_iff:
  "registry_wf H env d \<longleftrightarrow> id_environment d = env \<and>
     (\<forall>(l, r) \<in> set (id_reservations d). reservation_ok H env l r) \<and>
     distinct (bound_ids (id_reservations d)) \<and>
     map_of (id_fingerprints d) = map_of (fingerprint_index [] (id_reservations d)) \<and>
     distinct (map fst (id_reservations d)) \<and>
     (\<forall>(l, r) \<in> set (id_reservations d). rs_order_link_id r = l)"
  by (simp add: registry_wf_def identity_document_iff list_all_iff)

lemma bound_ids_append: "bound_ids (xs @ ys) = bound_ids xs @ bound_ids ys"
  by (simp add: bound_ids_def)

lemma bound_ids_Cons: "bound_ids ((l, r) # xs) = (if rs_order_id r = [] then [] else [rs_order_id r]) @ bound_ids xs"
  by (simp add: bound_ids_def)

lemma fingerprint_index_split:
  "rs_fingerprint r' = rs_fingerprint r \<Longrightarrow>
   fingerprint_index acc (xs @ (l, r') # ys) = fingerprint_index acc (xs @ (l, r) # ys)"
  by (simp add: fingerprint_index_def)

lemma bound_ids_elsewhere:
  assumes "x \<in> set (bound_ids zs)" "l \<notin> fst ` set zs" "set zs \<subseteq> set rs"
  shows "bound_elsewhere rs l x"
proof -
  from assms(1) obtain l' q where q: "(l', q) \<in> set zs" "rs_order_id q = x" by (auto simp: bound_ids_def)
  with assms(2) have "l' \<noteq> l" by force
  with q assms(3) show ?thesis unfolding bound_elsewhere_def list_ex_iff by blast
qed

lemma registry_wf_update:
  assumes wf: "registry_wf H env d" and r: "map_of (id_reservations d) l = Some r"
    and ok: "reservation_ok H env l r'" and fp: "rs_fingerprint r' = rs_fingerprint r"
    and link: "rs_order_link_id r' = rs_order_link_id r"
    and ids: "rs_order_id r' = rs_order_id r \<or> \<not> bound_elsewhere (id_reservations d) l (rs_order_id r')"
  shows "registry_wf H env (d\<lparr>id_reservations := AList.update l r' (id_reservations d), id_updated_at_ms := now\<rparr>)"
proof -
  from wf have dist: "distinct (map fst (id_reservations d))" by (simp add: registry_wf_iff)
  obtain xs ys where rs: "id_reservations d = xs @ (l, r) # ys"
    and new: "AList.update l r' (id_reservations d) = xs @ (l, r') # ys"
    and fresh: "l \<notin> fst ` set xs" "l \<notin> fst ` set ys"
    using update_split [OF r dist] by metis
  have free: "rs_order_id r' = rs_order_id r \<or> rs_order_id r' \<notin> set (bound_ids xs) \<union> set (bound_ids ys)"
    using ids fresh bound_ids_elsewhere [of "rs_order_id r'" xs l "id_reservations d"]
      bound_ids_elsewhere [of "rs_order_id r'" ys l "id_reservations d"] by (auto simp: rs)
  from wf have "distinct (bound_ids (xs @ (l, r) # ys))" by (simp add: registry_wf_iff rs)
  with free have "distinct (bound_ids (xs @ (l, r') # ys))"
    unfolding bound_ids_append bound_ids_Cons by (auto split: if_splits)
  with wf ok fp link show ?thesis
    unfolding registry_wf_iff identity_doc.simps new
    by (simp add: rs fingerprint_index_split [of r' r])
qed

lemma registry_wf_fresh:
  assumes wf: "registry_wf H env d" and l: "map_of (id_reservations d) l = None"
    and ok: "reservation_ok H env l r" and "rs_order_id r = []" "rs_fingerprint r = f"
    and "rs_order_link_id r = l"
  shows "registry_wf H env (d\<lparr>id_reservations := AList.update l r (id_reservations d),
           id_fingerprints := AList.update f l (id_fingerprints d), id_updated_at_ms := now\<rparr>)"
  using assms
  by (auto simp: registry_wf_iff update_fresh bound_ids_append bound_ids_Cons bound_ids_def
      fingerprint_index_def dict_simps map_of_eq_None_iff)

lemma registry_wf_reservation:
  "registry_wf H env d \<Longrightarrow> map_of (id_reservations d) l = Some r \<Longrightarrow> reservation_ok H env l r"
  by (auto simp: registry_wf_iff dest: map_of_SomeD)

lemma bind_mutate_wf:
  assumes "registry_wf H env d" "bind_mutate l xid now d = Inr (d', r')" "0 < now"
    and "id_identifier xid ''order_id'' = Inr xid"
  shows "registry_wf H env d'"
  using assms(2)
proof (cases rule: bind_mutate_cases)
  case (1 r)
  have "reservation_ok H env l r" using assms(1) 1(1) by (rule registry_wf_reservation)
  moreover have "''Submitted'' \<in> set id_statuses" by (simp add: id_statuses_def)
  ultimately have "reservation_ok H env l r'"
    using assms(3) id_identifier_fixed [OF assms(4), of "''persisted order_id''"]
    by (auto simp: reservation_ok_def 1(5) split: sum.splits)
  then show ?thesis unfolding 1(6) using 1
    by (intro registry_wf_update [OF assms(1) 1(1)]) auto
qed

lemma status_mutate_wf:
  assumes "registry_wf H env d" "status_mutate l status executed now xid d = Inr (d', r')" "0 < now"
    and "status \<in> set id_statuses" "isfinite executed" "\<not> flt executed (Fin 0)"
    and "xid = [] \<or> id_identifier xid ''order_id'' = Inr xid"
  shows "registry_wf H env d'"
  using assms(2)
proof (cases rule: status_mutate_cases)
  case (1 r)
  have "reservation_ok H env l r" using assms(1) 1(1) by (rule registry_wf_reservation)
  then have "reservation_ok H env l r'"
    using assms(3-7) id_identifier_fixed [of xid "''order_id''" xid "''persisted order_id''"]
    by (auto simp: reservation_ok_def 1(8) split: sum.splits)
  then show ?thesis unfolding 1(9) using 1(7,8)
    by (intro registry_wf_update [OF assms(1) 1(1)]) auto
qed

lemma id_read_wf:
  assumes "registry_store_wf H env db"
  shows "\<exists>d. id_read H env db = Inr d \<and> registry_wf H env d"
proof (cases "db (id_namespace, env)")
  case None
  then show ?thesis
    by (simp add: id_read_def identity_document_def registry_wf_iff bound_ids_def fingerprint_index_def)
next
  case (Some row)
  with assms show ?thesis by (auto simp: registry_store_wf_def id_read_def registry_wf_def)
qed

lemma id_update_wf:
  assumes "clean_cell id_namespace env" "registry_store_wf H env db" "id_update H env m clock [] db = (res, db')"
    and "\<And>d d' r. registry_wf H env d \<Longrightarrow> m d = Inr (d', r) \<Longrightarrow> registry_wf H env d'"
  shows "registry_store_wf H env db'"
  using assms(1,3)
proof (cases rule: id_update_cases)
  case (writes d d' r)
  with assms(2,4) id_read_wf [OF assms(2)] show ?thesis
    by (auto simp: registry_store_wf_def id_write_def)
qed (use assms(2) in simp)

context hex_digest
begin

lemma order_link_canonical: "order_link (order_link_id H i) = Inr (order_link_id H i)"
proof -
  let ?t = "take 32 (fingerprint H i)"
  have hex: "list_all is_hex ?t" using digest_hex by (auto simp: fingerprint_def digest_def list_all_iff dest: in_set_takeD)
  then have "list_all is_alnum ?t" "list_all (\<lambda>c. \<not> is_space c) ?t"
    by (auto simp: list_all_iff dest: is_hex_alnum is_alnum_not_space)
  moreover have "length ?t \<le> 32" by simp
  ultimately show ?thesis
    by (auto simp: order_link_id_def order_link_def startswith_def strip_no_space list_all_iff
        is_space_def ccode_def is_alnum_def is_upper_def is_lower_def)
qed

lemma reserve_mutate_wf:
  assumes "registry_wf H env d" "reserve_mutate H intent now d = Inr (d', r, dup)"
    and "recreate intent = Inr intent" "oi_environment intent = env" "0 < now"
  shows "registry_wf H env d'"
  using assms(2)
proof (cases rule: reserve_mutate_cases)
  case (duplicate link)
  with assms(1) show ?thesis by simp
next
  case fresh
  have "0 < oi_attempt intent"
    using create_Inr(11) [OF assms(3) [unfolded recreate_def]] .
  then have "reservation_ok H env (order_link_id H intent) r"
    using assms(3-5) order_link_canonical by (simp add: reservation_ok_def fresh(5) id_statuses_def)
  then show ?thesis unfolding fresh(6)
    by (intro registry_wf_fresh [OF assms(1) fresh(2)]) (simp_all add: fresh(5))
qed

lemma registry_op_wf:
  assumes "env \<in> set id_environments" "registry_op H env db db'" "registry_store_wf H env db"
  shows "registry_store_wf H env db'"
  using assms(2)
proof cases
  case (op_reserve intent now clock res)
  show ?thesis
  proof (cases "oi_environment intent = env \<and> 0 < now")
    case True
    with op_reserve(2) have "id_update H env (reserve_mutate H intent now) clock [] db = (res, db')"
      by (simp add: reserve_def id_timestamp_def)
    from id_cell [OF assms(1)] assms(3) this show ?thesis
      by (rule id_update_wf) (use True op_reserve(1) in \<open>auto intro: reserve_mutate_wf\<close>)
  next
    case False
    with op_reserve(2) assms(3) show ?thesis by (auto simp: reserve_def id_timestamp_def split: if_splits)
  qed
next
  case (op_bind l oid now clock res)
  show ?thesis
  proof (cases "rbind (order_link l) (\<lambda>link. rbind (id_identifier oid ''order_id'') (\<lambda>x.
                rbind (id_timestamp now) (\<lambda>n. Inr (link, x, n))))")
    case (Inl e)
    with op_bind assms(3) show ?thesis by (simp add: bind_submission_def)
  next
    case (Inr p)
    obtain link x n where p: "p = (link, x, n)" by (cases p)
    with Inr have args: "id_identifier oid ''order_id'' = Inr x" "0 < n"
      by (auto simp: res_simps check_simps)
    from Inr p op_bind have "id_update H env (bind_mutate link x n) clock [] db = (res, db')"
      by (simp add: bind_submission_def)
    from id_cell [OF assms(1)] assms(3) this show ?thesis
      by (rule id_update_wf) (rule bind_mutate_wf, assumption, assumption, rule args(2),
        rule id_identifier_fixed [OF args(1)])
  qed
next
  case (op_status l status cum now oid clock res)
  show ?thesis
  proof (cases "status_arguments l status cum now oid")
    case (Inl e)
    with op_status assms(3) show ?thesis by (simp add: update_status_eq)
  next
    case (Inr p)
    obtain link executed n xid where p: "p = (link, executed, n, xid)" by (cases p)
    with Inr have args: "strip status \<in> set id_statuses" "isfinite executed" "\<not> flt executed (Fin 0)" "0 < n"
      "xid = [] \<or> id_identifier xid ''order_id'' = Inr xid"
      by (auto simp: status_arguments_Inr dest: id_identifier_fixed split: if_splits)
    from Inr p op_status have "id_update H env (status_mutate link (strip status) executed n xid) clock [] db = (res, db')"
      by (simp add: update_status_eq)
    from id_cell [OF assms(1)] assms(3) this show ?thesis
      by (rule id_update_wf) (rule status_mutate_wf, assumption, assumption, rule args, rule args, rule args, rule args, rule args)
  qed
qed

lemma registry_reachable_wf:
  assumes "registry_reachable H env db" "env \<in> set id_environments"
  shows "registry_store_wf H env db"
  using assms(1)
proof (induction rule: registry_reachable.induct)
  case start
  show ?case by (simp add: registry_store_wf_def)
next
  case (op db db')
  from registry_op_wf [OF assms(2) op(2) op.IH] show ?case .
qed

lemma registry_reachable_snapshot:
  assumes "registry_reachable H env db" "env \<in> set id_environments"
  shows "\<exists>s. snapshot H env db = Inr s"
  using id_read_wf [OF registry_reachable_wf [OF assms]] id_cell [OF assms(2)]
  by (auto simp: snapshot_def get_json_clean id_read_def Let_def)

end

end
