(* ===== verification/Execution_Contract.thy ===== *)
theory Execution_Contract
  imports Trading_Candidate Order_Identity
begin

text \<open>
  \<open>exchange_connector/execution_contract.py\<close>: the only object an exchange adapter may submit. A
  request is built from a validated candidate (\<open>build_execution_request\<close>), carries the
  deterministic \<open>orderLinkId\<close> of its intent, lives at most ten seconds and is validated again
  before use. Mainnet is compiled out: no request for it passes.
\<close>

definition MAINNET_EXECUTION_COMPILED :: bool where
  "MAINNET_EXECUTION_COMPILED = False"

definition max_request_lifetime_ms :: int where
  "max_request_lifetime_ms = 10000"

record approved_execution_request =
  rq_candidate_id :: string
  rq_candidate_hash :: string
  rq_symbol :: string
  rq_category :: trading_category
  rq_side :: trading_side
  rq_environment :: trading_environment
  rq_quantity :: pyfloat
  rq_reference_price :: pyfloat
  rq_order_link_id :: string
  rq_created_at_ms :: int
  rq_expires_at_ms :: int
  rq_portfolio_snapshot_id :: string
  rq_cost_snapshot_id :: string
  rq_security_approval_id :: string
  rq_attempt :: int

definition notional :: "approved_execution_request \<Rightarrow> pyfloat" where
  "notional r = fmul (rq_quantity r) (rq_reference_price r)"

definition to_order_intent :: "approved_execution_request \<Rightarrow> order_intent res" where
  "to_order_intent r =
     rbind (spot_market_submission (side_value (rq_side r)) (float_repr (rq_quantity r))
              (float_repr (rq_reference_price r))) (\<lambda>(market_unit, submission_quantity).
       create (rq_candidate_id r) (environment_value (rq_environment r))
         (category_value (rq_category r)) (rq_symbol r) (side_value (rq_side r)) ''Market''
         submission_quantity None (Some ''IOC'') False 0 (Some market_unit) (rq_attempt r))"

definition request_to_dict :: "approved_execution_request \<Rightarrow> (string \<times> pyval) list res" where
  "request_to_dict r =
     rbind (to_order_intent r) (\<lambda>intent. Inr
       [(''candidate_id'', PyStr (rq_candidate_id r)), (''candidate_hash'', PyStr (rq_candidate_hash r)),
        (''symbol'', PyStr (rq_symbol r)), (''category'', PyStr (category_value (rq_category r))),
        (''side'', PyStr (side_value (rq_side r))),
        (''environment'', PyStr (environment_value (rq_environment r))),
        (''quantity'', PyFloat (rq_quantity r)), (''reference_price'', PyFloat (rq_reference_price r)),
        (''order_link_id'', PyStr (rq_order_link_id r)), (''created_at_ms'', PyInt (rq_created_at_ms r)),
        (''expires_at_ms'', PyInt (rq_expires_at_ms r)),
        (''portfolio_snapshot_id'', PyStr (rq_portfolio_snapshot_id r)),
        (''cost_snapshot_id'', PyStr (rq_cost_snapshot_id r)),
        (''security_approval_id'', PyStr (rq_security_approval_id r)),
        (''attempt'', PyInt (rq_attempt r)), (''notional'', PyFloat (notional r)),
        (''market_unit'', PyStr (oi_market_unit intent)),
        (''submission_quantity'', PyStr (oi_quantity intent))])"

definition positive_float :: "pyfloat \<Rightarrow> string \<Rightarrow> pyfloat res" where
  "positive_float x name =
     (if \<not> isfinite x \<or> fle x (Fin 0)
      then Inl (ValueError (name @ '' must be a positive finite number'')) else Inr x)"

definition positive_int :: "int \<Rightarrow> string \<Rightarrow> int res" where
  "positive_int i name =
     (if i \<le> 0 then Inl (ValueError (name @ '' must be a positive integer'')) else Inr i)"

definition candidate_hash :: "(string \<Rightarrow> string) \<Rightarrow> trading_candidate \<Rightarrow> string" where
  "candidate_hash H c = H (json_dumps True (PyDict (candidate_to_dict c)))"

text \<open>The pattern \<open>^sai_[0-9a-f]{32}$\<close>, matched in full.\<close>

definition order_link_pattern :: "string \<Rightarrow> bool" where
  "order_link_pattern s =
     (startswith s ''sai_'' \<and> length s = 36 \<and> list_all is_hex (drop 4 s))"

definition required_ids :: "approved_execution_request \<Rightarrow> unit res" where
  "required_ids r =
     (if strip (rq_candidate_id r) = [] then Inl (ValueError ''candidate_id is required'')
      else if strip (rq_portfolio_snapshot_id r) = []
      then Inl (ValueError ''portfolio_snapshot_id is required'')
      else if strip (rq_cost_snapshot_id r) = [] then Inl (ValueError ''cost_snapshot_id is required'')
      else Inr ())"

definition validate_execution_request ::
  "(string \<Rightarrow> string) \<Rightarrow> approved_execution_request \<Rightarrow> int \<Rightarrow> unit res" where
  "validate_execution_request H r now_ms =
     rbind (positive_int now_ms ''now_ms'') (\<lambda>clean_now.
     rbind (required_ids r) (\<lambda>_.
       if rq_environment r = MAINNET then Inl (RuntimeError ''mainnet execution is compiled out'')
       else if rq_environment r \<noteq> TESTNET
       then Inl (RuntimeError ''exchange execution currently permits testnet only'')
       else if rq_category r \<noteq> SPOT
       then Inl (RuntimeError ''only spot testnet execution is currently permitted'')
       else if rq_symbol r = [] \<or> rq_symbol r \<noteq> upper (rq_symbol r) \<or> \<not> isalnum (rq_symbol r)
       then Inl (ValueError ''symbol must be uppercase alphanumeric'') else
     rbind (positive_float (rq_quantity r) ''quantity'') (\<lambda>_.
     rbind (positive_float (rq_reference_price r) ''reference_price'') (\<lambda>_.
     rbind (positive_int (rq_attempt r) ''attempt'') (\<lambda>_.
       if \<not> isfinite (notional r) \<or> fle (notional r) (Fin 0)
       then Inl (ValueError ''notional must be positive and finite'')
       else if rq_created_at_ms r \<le> 0 \<or> clean_now + 1000 < rq_created_at_ms r
       then Inl (ValueError ''created_at_ms is invalid'')
       else if rq_expires_at_ms r \<le> clean_now then Inl (RuntimeError ''execution request is expired'')
       else if max_request_lifetime_ms < rq_expires_at_ms r - rq_created_at_ms r
       then Inl (ValueError ''execution request lifetime exceeds hard limit'')
       else if \<not> order_link_pattern (rq_order_link_id r)
       then Inl (ValueError ''order_link_id must be a canonical sai_ SHA-256 identity'')
       else if length (rq_candidate_hash r) \<noteq> 64 \<or> \<not> list_all is_hex (rq_candidate_hash r)
       then Inl (ValueError ''candidate_hash must be a SHA-256 hex digest'') else
     rbind (to_order_intent r) (\<lambda>intent.
       if order_link_id H intent \<noteq> rq_order_link_id r
       then Inl (ValueError ''order_link_id does not match execution intent'') else Inr ()))))))"

definition build_execution_request ::
  "(string \<Rightarrow> string) \<Rightarrow> trading_candidate \<Rightarrow> candidate_validation \<Rightarrow> pyfloat \<Rightarrow> int \<Rightarrow> int \<Rightarrow>
   approved_execution_request res" where
  "build_execution_request H candidate validation quantity now_ms attempt =
     (if \<not> cv_valid validation \<or> cv_decision validation \<noteq> ALLOW
      then Inl (RuntimeError ''candidate validation does not permit execution'')
      else if tc_decision candidate \<noteq> ALLOW
      then Inl (RuntimeError ''candidate decision is not ALLOW'')
      else if tc_environment candidate = PAPER
      then Inl (RuntimeError ''paper candidates must use virtual execution'')
      else if tc_environment candidate = MAINNET
      then Inl (RuntimeError ''mainnet execution is compiled out'')
      else if tc_environment candidate \<noteq> TESTNET
      then Inl (RuntimeError ''unsupported execution environment'') else
      rbind (positive_int now_ms ''now_ms'') (\<lambda>clean_now.
      rbind (positive_float quantity ''quantity'') (\<lambda>clean_quantity.
      rbind (positive_int attempt ''attempt'') (\<lambda>clean_attempt.
        if tc_expires_at_ms candidate \<le> clean_now
        then Inl (RuntimeError ''candidate expired before execution request creation'') else
      rbind (positive_float (tc_reference_price candidate) ''reference_price'') (\<lambda>price.
        let provisional = \<lparr>rq_candidate_id = tc_candidate_id candidate,
              rq_candidate_hash = candidate_hash H candidate, rq_symbol = tc_symbol candidate,
              rq_category = tc_category candidate, rq_side = tc_side candidate,
              rq_environment = tc_environment candidate, rq_quantity = clean_quantity,
              rq_reference_price = price, rq_order_link_id = [], rq_created_at_ms = clean_now,
              rq_expires_at_ms = min (tc_expires_at_ms candidate) (clean_now + max_request_lifetime_ms),
              rq_portfolio_snapshot_id = tc_portfolio_snapshot_id candidate,
              rq_cost_snapshot_id = tc_cost_snapshot_id candidate,
              rq_security_approval_id = tc_security_approval_id candidate,
              rq_attempt = clean_attempt\<rparr>
        in
      rbind (to_order_intent provisional) (\<lambda>intent.
        let request = provisional\<lparr>rq_order_link_id := order_link_id H intent\<rparr>
        in
      rbind (validate_execution_request H request clean_now) (\<lambda>_. Inr request)))))))"

end
