(* ===== verification/Execution_Idempotency.thy ===== *)
theory Execution_Idempotency
  imports Execution_Contract
begin

text \<open>
  \<open>exchange_connector/execution_idempotency.py\<close>: the repository that reserves an execution request
  before it is sent. A request whose intent is already reserved raises
  \<open>DuplicateExecutionBlocked\<close>; the other operations move the reservation along.
\<close>

definition repo_reserve ::
  "(string \<Rightarrow> string) \<Rightarrow> string \<Rightarrow> approved_execution_request \<Rightarrow> int \<Rightarrow> int \<Rightarrow>
   (identity_doc kv \<Rightarrow> identity_doc kv) list \<Rightarrow> identity_doc kv \<Rightarrow>
   reservation res \<times> identity_doc kv" where
  "repo_reserve H env request now_ms clock others db =
     (case validate_execution_request H request now_ms of Inl e \<Rightarrow> (Inl e, db)
      | Inr _ \<Rightarrow>
        (case to_order_intent request of Inl e \<Rightarrow> (Inl e, db)
         | Inr intent \<Rightarrow>
             if oi_environment intent \<noteq> env
             then (Inl (ValueError ''request environment does not match idempotency repository''), db)
             else if order_link_id H intent \<noteq> rq_order_link_id request
             then (Inl (ValueError ''request orderLinkId does not match deterministic intent''), db)
             else (case reserve H env intent now_ms clock others db of
                     (Inl e, db') \<Rightarrow> (Inl e, db')
                   | (Inr (record, duplicate), db') \<Rightarrow>
                       if duplicate then (Inl (DuplicateExecutionBlocked (rs_order_link_id record)), db')
                       else (Inr record, db'))))"

definition mark_submitted ::
  "(string \<Rightarrow> string) \<Rightarrow> string \<Rightarrow> approved_execution_request \<Rightarrow> int \<Rightarrow> int \<Rightarrow>
   (identity_doc kv \<Rightarrow> identity_doc kv) list \<Rightarrow> identity_doc kv \<Rightarrow>
   reservation res \<times> identity_doc kv" where
  "mark_submitted H env request now_ms clock others db =
     update_status H env (rq_order_link_id request) ''Submitted'' (Fin 0) now_ms None clock others db"

definition bind_accepted ::
  "(string \<Rightarrow> string) \<Rightarrow> string \<Rightarrow> approved_execution_request \<Rightarrow> string \<Rightarrow> int \<Rightarrow> int \<Rightarrow>
   (identity_doc kv \<Rightarrow> identity_doc kv) list \<Rightarrow> identity_doc kv \<Rightarrow>
   reservation res \<times> identity_doc kv" where
  "bind_accepted H env request order_id now_ms clock others db =
     bind_submission H env (rq_order_link_id request) order_id now_ms clock others db"

definition mark_rejected ::
  "(string \<Rightarrow> string) \<Rightarrow> string \<Rightarrow> approved_execution_request \<Rightarrow> int \<Rightarrow> int \<Rightarrow>
   (identity_doc kv \<Rightarrow> identity_doc kv) list \<Rightarrow> identity_doc kv \<Rightarrow>
   reservation res \<times> identity_doc kv" where
  "mark_rejected H env request now_ms clock others db =
     update_status H env (rq_order_link_id request) ''Rejected'' (Fin 0) now_ms None clock others db"

definition sync_private_state ::
  "(string \<Rightarrow> string) \<Rightarrow> string \<Rightarrow> string \<Rightarrow> string \<Rightarrow> pyfloat \<Rightarrow> string \<Rightarrow> int \<Rightarrow> int \<Rightarrow>
   (identity_doc kv \<Rightarrow> identity_doc kv) list \<Rightarrow> identity_doc kv \<Rightarrow>
   reservation res \<times> identity_doc kv" where
  "sync_private_state H env link status cum_exec_qty order_id updated_at_ms clock others db =
     update_status H env link status cum_exec_qty updated_at_ms
       (if order_id = [] then None else Some order_id) clock others db"

definition unresolved :: "(string \<Rightarrow> string) \<Rightarrow> string \<Rightarrow> identity_doc kv \<Rightarrow> reservation list res" where
  "unresolved H env db = rbind (snapshot H env db) (\<lambda>s. Inr (is_unresolved s))"

definition record_for ::
  "(string \<Rightarrow> string) \<Rightarrow> string \<Rightarrow> identity_doc kv \<Rightarrow> string \<Rightarrow> reservation option res" where
  "record_for H env db link =
     rbind (snapshot H env db) (\<lambda>s.
       Inr (find (\<lambda>r. rs_order_link_id r = link) (is_reservations s)))"

section \<open>Lemmas\<close>

lemma order_link_pattern_cases:
  assumes "order_link_pattern s"
  obtains t where "s = ''sai_'' @ t" "list_all is_hex t" "length t = 32"
proof
  from assms have "take (length ''sai_'') s = ''sai_''" by (simp add: order_link_pattern_def startswith_def)
  moreover have "length ''sai_'' = 4" by simp
  ultimately show "s = ''sai_'' @ drop 4 s" by (metis append_take_drop_id)
  from assms show "list_all is_hex (drop 4 s)" "length (drop 4 s) = 32"
    by (simp_all add: order_link_pattern_def)
qed

lemma order_link_pattern_clean:
  assumes "order_link_pattern s"
  shows "order_link s = Inr s"
proof -
  obtain t where s: "s = ''sai_'' @ t" and hex: "list_all is_hex t" and len: "length t = 32"
    using assms by (rule order_link_pattern_cases)
  from hex have "list_all is_alnum t" "list_all (\<lambda>c. \<not> is_space c) t"
    by (auto simp: list_all_iff dest: is_hex_alnum is_alnum_not_space)
  then have "list_all (\<lambda>c. \<not> is_space c) s" "list_all (\<lambda>c. is_alnum c \<or> c \<in> set ''_-'') s"
    by (auto simp: s list_all_iff is_space_def ccode_def is_alnum_def is_upper_def is_lower_def)
  with len show ?thesis by (simp add: order_link_def strip_no_space s startswith_def)
qed

lemma validate_execution_request_Inr:
  assumes "validate_execution_request H r now = Inr u"
  shows "0 < now" "rq_environment r = TESTNET" "rq_category r = SPOT"
    "isfinite (rq_quantity r)" "\<not> fle (rq_quantity r) (Fin 0)"
    "isfinite (rq_reference_price r)" "\<not> fle (rq_reference_price r) (Fin 0)"
    "0 < rq_attempt r" "0 < rq_created_at_ms r" "rq_created_at_ms r \<le> now + 1000"
    "now < rq_expires_at_ms r" "rq_expires_at_ms r - rq_created_at_ms r \<le> max_request_lifetime_ms"
    "order_link_pattern (rq_order_link_id r)"
    "\<exists>i. to_order_intent r = Inr i \<and> order_link_id H i = rq_order_link_id r"
    "rq_symbol r \<noteq> []" "rq_symbol r = upper (rq_symbol r)" "isalnum (rq_symbol r)"
  using assms unfolding validate_execution_request_def
  by (auto simp only: res_simps positive_int_def positive_float_def not_le not_less de_Morgan_disj not_not)

text \<open>A reservation that goes through is fresh: the link was unknown and is now reserved.\<close>

lemma repo_reserve_Inr:
  assumes "clean_cell id_namespace env" "repo_reserve H env req now clock [] db = (Inr r, db')"
  shows "lookup_reservation env db (rq_order_link_id req) = None"
    and "lookup_reservation env db' (rq_order_link_id req) = Some r"
    and "rs_status r = ''Reserved''"
    and "order_link_pattern (rq_order_link_id req)"
proof -
  from assms(2) obtain i u where v: "validate_execution_request H req now = Inr u"
    and link: "order_link_id H i = rq_order_link_id req"
    and res: "reserve H env i now clock [] db = (Inr (r, False), db')"
    by (auto simp: repo_reserve_def split: sum.splits if_splits prod.splits)
  show "order_link_pattern (rq_order_link_id req)" using v by (rule validate_execution_request_Inr)
  from res have "id_update H env (reserve_mutate H i now) clock [] db = (Inr (r, False), db')"
    by (auto simp: reserve_def id_timestamp_def split: if_splits)
  from assms(1) this
  have "lookup_reservation env db (rq_order_link_id req) = None \<and>
        lookup_reservation env db' (rq_order_link_id req) = Some r \<and> rs_status r = ''Reserved''"
  proof (cases rule: id_update_cases)
    case (writes d d' q)
    then have "reserve_mutate H i now d = Inr (d', r, False)" by simp
    then show ?thesis
    proof (cases rule: reserve_mutate_cases)
      case fresh
      with writes link show ?thesis by (simp add: id_read_lookup dict_simps)
    qed simp
  qed simp
  then show "lookup_reservation env db (rq_order_link_id req) = None"
    "lookup_reservation env db' (rq_order_link_id req) = Some r" "rs_status r = ''Reserved''"
    by simp_all
qed

lemma repo_reserve_step:
  assumes "clean_cell id_namespace env" "repo_reserve H env req now clock [] db = (res, db')"
  shows "registry_step H env db db'"
proof -
  have "db' = db \<or> (\<exists>i res'. reserve H env i now clock [] db = (res', db'))"
    using assms(2) by (auto simp: repo_reserve_def split: sum.splits if_splits prod.splits)
  with reserve_step [OF assms(1)] show ?thesis by auto
qed

lemma mark_submitted_step:
  "clean_cell id_namespace env \<Longrightarrow> mark_submitted H env req now clock [] db = (res, db') \<Longrightarrow>
   registry_step H env db db'"
  unfolding mark_submitted_def by (rule update_status_step)

lemma mark_rejected_step:
  "clean_cell id_namespace env \<Longrightarrow> mark_rejected H env req now clock [] db = (res, db') \<Longrightarrow>
   registry_step H env db db'"
  unfolding mark_rejected_def by (rule update_status_step)

lemma bind_accepted_step:
  "clean_cell id_namespace env \<Longrightarrow> bind_accepted H env req oid now clock [] db = (res, db') \<Longrightarrow>
   registry_step H env db db'"
  unfolding bind_accepted_def by (rule bind_submission_step)

lemma mark_submitted_stores:
  assumes "clean_cell id_namespace env" "order_link_pattern (rq_order_link_id req)"
    and "mark_submitted H env req now clock [] db = (Inr r, db')"
  shows "lookup_reservation env db' (rq_order_link_id req) = Some r" "rs_status r = ''Submitted''"
  using update_status_stores [OF assms(1) assms(3) [unfolded mark_submitted_def]]
    order_link_pattern_clean [OF assms(2)]
  by (auto simp: strip_def is_space_def ccode_def)

text \<open>The intent of a request is canonical without conditions: a zero quantity is refused twice.\<close>

lemma to_order_intent_canonical:
  assumes "to_order_intent r = Inr i"
  shows "recreate i = Inr i"
proof -
  from assms obtain mu q where sub: "spot_market_submission (side_value (rq_side r)) (float_repr (rq_quantity r))
      (float_repr (rq_reference_price r)) = Inr (mu, q)"
    and cr: "create (rq_candidate_id r) (environment_value (rq_environment r)) (category_value (rq_category r))
      (rq_symbol r) (side_value (rq_side r)) ''Market'' q None (Some ''IOC'') False 0 (Some mu) (rq_attempt r) = Inr i"
    unfolding to_order_intent_def by (auto simp: res_simps split_paired_Ex)
  note C = create_Inr [OF cr]
  from C(13) have "oi_order_type i = ''Market'' \<Longrightarrow> oi_price i = []"
    by (auto simp: create_time_in_force_def split: if_splits)
  moreover have "oi_order_type i = ''Market''"
  proof -
    have "title (strip ''Market'') = ''Market''" by code_simp
    with cr show ?thesis unfolding create_def Let_def
      by (auto simp only: res_simps choice_Inr check_simps order_intent.simps sum.inject)
  qed
  ultimately have price: "oi_price i \<noteq> ''0''" by simp
  obtain v nm where v: "decimal_text v nm True = Inr q"
    using sub by (auto simp: spot_market_submission_def spot_quote_notional_def res_simps split: if_splits)
  have "q \<noteq> ''0''" using C(9) by (auto simp: decimal_text_zero)
  with v have "decimal_text q ''quantity'' True = Inr q" by (auto intro: decimal_text_fixed)
  with C(9) \<open>q \<noteq> ''0''\<close> have "oi_quantity i \<noteq> ''0''" by simp
  from recreate_fixed [OF cr this price] show ?thesis .
qed

section \<open>Properties\<close>

text \<open>
  C27. A request that was built is a validated testnet spot request of the candidate: same symbol,
  side and price, the given positive quantity, a lifetime of at most ten seconds that never outlives
  the candidate, and an \<open>orderLinkId\<close> that is the digest of its intent.
\<close>

theorem built_request_is_valid:
  assumes "build_execution_request H c v q now att = Inr req"
  shows "validate_execution_request H req now = Inr () \<and> cv_decision v = ALLOW \<and> cv_valid v \<and>
    rq_environment req = TESTNET \<and> rq_category req = SPOT \<and> rq_candidate_id req = tc_candidate_id c \<and>
    rq_symbol req = tc_symbol c \<and> rq_side req = tc_side c \<and> rq_reference_price req = tc_reference_price c \<and>
    rq_quantity req = q \<and> flt (Fin 0) q \<and> now < rq_expires_at_ms req \<and>
    rq_expires_at_ms req \<le> now + 10000 \<and> rq_expires_at_ms req \<le> tc_expires_at_ms c \<and>
    (\<exists>i. to_order_intent req = Inr i \<and> order_link_id H i = rq_order_link_id req \<and> recreate i = Inr i)"
proof -
  have v: "validate_execution_request H req now = Inr ()"
    and d: "cv_decision v = ALLOW" "cv_valid v" "rq_environment req = tc_environment c"
      "rq_candidate_id req = tc_candidate_id c" "rq_symbol req = tc_symbol c" "rq_side req = tc_side c"
      "rq_reference_price req = tc_reference_price c" "rq_quantity req = q" "isfinite q" "\<not> fle q (Fin 0)"
      "rq_expires_at_ms req = min (tc_expires_at_ms c) (now + max_request_lifetime_ms)"
    using assms unfolding build_execution_request_def
    by (auto simp: res_simps Let_def positive_int_def positive_float_def split: if_splits)
  note V = validate_execution_request_Inr [OF v]
  have "flt (Fin 0) q" using d(9,10) by (cases q) auto
  with V d to_order_intent_canonical show ?thesis by (auto simp: v max_request_lifetime_ms_def)
qed

definition sample_digest :: "string \<Rightarrow> string" where
  "sample_digest s = replicate 64 (CHR ''a'')"

theorem built_request_is_valid_witness:
  "\<exists>req. build_execution_request sample_digest sample_candidate
      (validate_trading_candidate sample_candidate 1000 5000 (Fin 0) (Fin 0) []) (Fin (1 / 2)) 1000 1 = Inr req \<and>
     rq_environment req = TESTNET \<and> rq_expires_at_ms req \<le> tc_expires_at_ms sample_candidate"
proof -
  have h: "candidate_hash sample_digest sample_candidate = replicate 64 (CHR ''a'')"
    by (simp add: candidate_hash_def sample_digest_def)
  have "(case build_execution_request sample_digest sample_candidate
      (validate_trading_candidate sample_candidate 1000 5000 (Fin 0) (Fin 0) []) (Fin (1 / 2)) 1000 1 of Inl e \<Rightarrow> False | Inr r \<Rightarrow> True)"
    unfolding build_execution_request_def h by code_simp
  then obtain req where r: "build_execution_request sample_digest sample_candidate
      (validate_trading_candidate sample_candidate 1000 5000 (Fin 0) (Fin 0) []) (Fin (1 / 2)) 1000 1 = Inr req"
    by (auto split: sum.splits)
  from built_request_is_valid [OF this] r show ?thesis by blast
qed

end
