(* ===== verification/Kill_Switch.thy ===== *)
theory Kill_Switch
  imports Versioned_Store
begin

text \<open>
  \<open>exchange_connector/execution_kill_switch.py\<close>: the durable latch that stops execution. The
  environment flag is the outer lock, the stored state the inner one; \<open>trip\<close> latches it with
  three optimistic attempts, \<open>clear\<close> opens it only under an explicit confirmation, a clean
  reconciliation and an open environment flag. The environment is a function from variable names
  to their optional values, the wall clock an argument.
\<close>

record kill_switch_state =
  ks_active :: bool
  ks_generation :: int
  ks_reason :: string
  ks_actor :: string
  ks_updated_at_ms :: int
  ks_source :: string

definition kill_namespace :: string where
  "kill_namespace = ''execution_kill_switch_v2''"

definition kill_key :: string where
  "kill_key = ''testnet''"

definition clear_confirmation :: string where
  "clear_confirmation = ''I_ACKNOWLEDGE_RECONCILIATION_IS_CLEAN''"

definition env_kill_active :: "os_env \<Rightarrow> bool" where
  "env_kill_active env =
     (lower (strip (getenv env ''EXECUTION_KILL_SWITCH'' ''1'')) \<in> set true_words)"

definition kill_state :: "os_env \<Rightarrow> kill_switch_state kv \<Rightarrow> kill_switch_state res" where
  "kill_state env db =
     rbind (get_json db kill_namespace kill_key) (\<lambda>current.
       let env_active = env_kill_active env
       in case current of
            None \<Rightarrow> Inr \<lparr>ks_active = env_active, ks_generation = 0,
                     ks_reason = (if env_active then ''environment_kill_switch'' else ''not_latched''),
                     ks_actor = ''environment'', ks_updated_at_ms = 0, ks_source = ''environment''\<rparr>
          | Some row \<Rightarrow>
              (let persisted = kv_doc row
               in if env_active \<and> \<not> ks_active persisted
                  then Inr \<lparr>ks_active = True, ks_generation = ks_generation persisted,
                        ks_reason = ''environment_kill_switch'', ks_actor = ''environment'',
                        ks_updated_at_ms = ks_updated_at_ms persisted,
                        ks_source = ''environment+persistent''\<rparr>
                  else Inr persisted))"

definition assert_open :: "os_env \<Rightarrow> kill_switch_state kv \<Rightarrow> kill_switch_state res" where
  "assert_open env db =
     rbind (kill_state env db) (\<lambda>st.
       if ks_active st then Inl (RuntimeError (''Execution kill switch is active: '' @ ks_reason st))
       else Inr st)"

definition ks_required :: "string \<Rightarrow> string \<Rightarrow> string res" where
  "ks_required v name =
     (let clean = strip v
      in if clean = [] then Inl (ValueError (name @ '' is required'')) else Inr (take 512 clean))"

definition next_generation :: "kill_switch_state kv_row option \<Rightarrow> int" where
  "next_generation row = (case row of None \<Rightarrow> 1 | Some r \<Rightarrow> ks_generation (kv_doc r) + 1)"

definition trip_state ::
  "string \<Rightarrow> string \<Rightarrow> string \<Rightarrow> int \<Rightarrow> kill_switch_state kv_row option \<Rightarrow>
   (kill_switch_state \<times> kill_switch_state) res" where
  "trip_state reason actor source now row =
     rbind (ks_required source ''source'') (\<lambda>src.
       let st = \<lparr>ks_active = True, ks_generation = next_generation row, ks_reason = reason,
                 ks_actor = actor, ks_updated_at_ms = now, ks_source = src\<rparr>
       in Inr (st, st))"

definition trip ::
  "string \<Rightarrow> string \<Rightarrow> string \<Rightarrow> int \<Rightarrow> (kill_switch_state kv \<Rightarrow> kill_switch_state kv) list \<Rightarrow>
   kill_switch_state kv \<Rightarrow> kill_switch_state res \<times> kill_switch_state kv" where
  "trip reason actor source now others db =
     (case rbind (ks_required reason ''reason'') (\<lambda>r.
             rbind (ks_required actor ''actor'') (\<lambda>a. Inr (r, a))) of
        Inl e \<Rightarrow> (Inl e, db)
      | Inr (r, a) \<Rightarrow>
          (case optimistic_update 3 kill_namespace kill_key (trip_state r a source now)
                  ''cannot persist execution kill switch after concurrent updates'' now others db of
             (Inr (st, v), db') \<Rightarrow> (Inr st, db')
           | (Inl e, db') \<Rightarrow> (Inl e, db')))"

definition clear ::
  "os_env \<Rightarrow> string \<Rightarrow> bool \<Rightarrow> int \<Rightarrow> string \<Rightarrow> int \<Rightarrow>
   (kill_switch_state kv \<Rightarrow> kill_switch_state kv) \<Rightarrow>
   kill_switch_state kv \<Rightarrow> kill_switch_state res \<times> kill_switch_state kv" where
  "clear env actor reconciliation_restart_safe unresolved_execution_count confirmation now other db =
     (if confirmation \<noteq> clear_confirmation
      then (Inl (RuntimeError ''invalid kill switch clear confirmation''), db)
      else if \<not> reconciliation_restart_safe
      then (Inl (RuntimeError ''kill switch cannot clear before restart-safe reconciliation''), db)
      else if unresolved_execution_count \<noteq> 0
      then (Inl (RuntimeError ''kill switch cannot clear with unresolved executions''), db)
      else if env_kill_active env
      then (Inl (RuntimeError ''environment kill switch remains active''), db)
      else case get_json db kill_namespace kill_key of Inl e \<Rightarrow> (Inl e, db)
           | Inr current \<Rightarrow>
             (case ks_required actor ''actor'' of Inl e \<Rightarrow> (Inl e, db)
              | Inr a \<Rightarrow>
                (let st = \<lparr>ks_active = False, ks_generation = next_generation current,
                           ks_reason = ''manually_cleared_after_reconciliation'', ks_actor = a,
                           ks_updated_at_ms = now, ks_source = ''manual_reconciliation_gate''\<rparr>;
                     db' = other db
                 in case put_json db' kill_namespace kill_key st (Some (kv_current current)) now of
                      Inl e \<Rightarrow> (Inl e, db')
                    | Inr (v, db'') \<Rightarrow> (Inr st, db''))))"

section \<open>The latch as a step relation\<close>

text \<open>What any writer of the latch may do to the table.\<close>

inductive kill_step :: "kill_switch_state kv \<Rightarrow> kill_switch_state kv \<Rightarrow> bool" where
  trips: "trip reason actor source now [] db = (res, db') \<Longrightarrow> kill_step db db'"
| clears: "clear env actor safe n conf now id db = (res, db') \<Longrightarrow> kill_step db db'"

inductive kill_reachable :: "kill_switch_state kv \<Rightarrow> bool" where
  start: "kill_reachable (\<lambda>_. None)"
| step: "kill_reachable db \<Longrightarrow> kill_step db db' \<Longrightarrow> kill_reachable db'"

text \<open>The generation counts the writes: it equals the version of the row.\<close>

definition kill_inv :: "kill_switch_state kv \<Rightarrow> bool" where
  "kill_inv db =
     (\<forall>r. db (kill_namespace, kill_key) = Some r \<longrightarrow>
          ks_generation (kv_doc r) = kv_version r \<and> 0 < kv_version r)"

section \<open>Lemmas\<close>

lemma kill_cell [simp]: "clean_cell kill_namespace kill_key"
  by (simp add: kill_namespace_def kill_key_def db_identifier_def strip_def is_space_def ccode_def)

interpretation kill_live: live_cell "cell_read kill_namespace kill_key" kv_current
  "cell_cas kill_namespace kill_key now" kv_doc "cell_rest kill_namespace kill_key" for now
  by unfold_locales (auto simp: cell_read_def cell_cas_def get_json_clean put_json_clean)

lemma kill_state_eq:
  "kill_state env db =
     Inr (case db (kill_namespace, kill_key) of
            None \<Rightarrow> \<lparr>ks_active = env_kill_active env, ks_generation = 0,
                     ks_reason = (if env_kill_active env then ''environment_kill_switch'' else ''not_latched''),
                     ks_actor = ''environment'', ks_updated_at_ms = 0, ks_source = ''environment''\<rparr>
          | Some row \<Rightarrow>
              if env_kill_active env \<and> \<not> ks_active (kv_doc row)
              then \<lparr>ks_active = True, ks_generation = ks_generation (kv_doc row),
                    ks_reason = ''environment_kill_switch'', ks_actor = ''environment'',
                    ks_updated_at_ms = ks_updated_at_ms (kv_doc row),
                    ks_source = ''environment+persistent''\<rparr>
              else kv_doc row)"
  by (simp add: kill_state_def get_json_clean Let_def split: option.split)

text \<open>The stored latch, false when nothing is stored.\<close>

definition latched :: "kill_switch_state kv \<Rightarrow> bool" where
  "latched db = (\<exists>r. db (kill_namespace, kill_key) = Some r \<and> ks_active (kv_doc r))"

lemma assert_open_iff:
  "(\<exists>st. assert_open env db = Inr st) \<longleftrightarrow> \<not> env_kill_active env \<and> \<not> latched db"
  by (auto simp: assert_open_def kill_state_eq latched_def split: option.splits)

lemma assert_open_blocked:
  "env_kill_active env \<or> latched db \<Longrightarrow> \<exists>e. assert_open env db = Inl e"
  using assert_open_iff [of env db] by (cases "assert_open env db") auto

lemma trip_alone:
  assumes "strip reason \<noteq> []" "strip actor \<noteq> []" "strip source \<noteq> []"
  shows "trip reason actor source now [] db =
    (let st = \<lparr>ks_active = True, ks_generation = next_generation (db (kill_namespace, kill_key)),
               ks_reason = take 512 (strip reason), ks_actor = take 512 (strip actor),
               ks_updated_at_ms = now, ks_source = take 512 (strip source)\<rparr>
     in (Inr st, db((kill_namespace, kill_key) \<mapsto>
           \<lparr>kv_doc = st, kv_version = kv_current (db (kill_namespace, kill_key)) + 1,
            kv_updated_at_ms = now\<rparr>)))"
  using assms by (simp add: trip_def ks_required_def trip_state_def optimistic_update_alone Let_def)

lemma trip_latches:
  assumes "well_behaved others" "trip reason actor source now others db = (Inr st, db')"
  shows "latched db'" "ks_active st"
proof -
  from assms(2) obtain r a v where
    "optimistic_update 3 kill_namespace kill_key (trip_state r a source now)
       ''cannot persist execution kill switch after concurrent updates'' now others db
     = (Inr (st, v), db')"
    by (auto simp: trip_def split: sum.splits prod.splits)
  from optimistic_update_linearizes [OF kill_cell assms(1) this]
  obtain db0 doc where
    f: "trip_state r a source now (db0 (kill_namespace, kill_key)) = Inr (doc, st)"
    and db': "db' = db0((kill_namespace, kill_key) \<mapsto>
                      \<lparr>kv_doc = doc, kv_version = v, kv_updated_at_ms = now\<rparr>)"
    by blast
  from f have "doc = st" "ks_active st" by (auto simp: trip_state_def res_simps Let_def)
  then show "latched db'" "ks_active st" by (simp_all add: db' latched_def)
qed

lemma clear_Inr:
  assumes "clear env actor safe n conf now other db = (Inr st, db')"
  shows "conf = clear_confirmation" "safe" "n = 0" "\<not> env_kill_active env" "\<not> ks_active st"
    "\<not> latched db'"
  using assms
  by (auto simp: clear_def get_json_clean put_json_clean Let_def latched_def
      split: if_splits sum.splits)

text \<open>A write of the latch: the next generation under the next version.\<close>

definition kill_write :: "kill_switch_state \<Rightarrow> int \<Rightarrow> kill_switch_state kv \<Rightarrow> kill_switch_state kv" where
  "kill_write st now db = db((kill_namespace, kill_key) \<mapsto>
     \<lparr>kv_doc = st, kv_version = kv_current (db (kill_namespace, kill_key)) + 1,
      kv_updated_at_ms = now\<rparr>)"

lemma trip_effect:
  assumes "trip reason actor source now [] db = (res, db')"
  shows "(\<exists>e. res = Inl e \<and> db' = db) \<or>
    (\<exists>st. res = Inr st \<and> ks_active st \<and> db' = kill_write st now db \<and>
          ks_generation st = next_generation (db (kill_namespace, kill_key)))"
proof (cases "strip reason = [] \<or> strip actor = [] \<or> strip source = []")
  case True
  with assms show ?thesis
    by (auto simp: trip_def ks_required_def trip_state_def optimistic_update_alone Let_def
        split: if_splits)
next
  case False
  with assms show ?thesis by (auto simp: trip_alone kill_write_def Let_def)
qed

lemma clear_effect:
  assumes "clear env actor safe n conf now id db = (res, db')"
  shows "(\<exists>e. res = Inl e \<and> db' = db) \<or>
    (\<exists>st. res = Inr st \<and> \<not> ks_active st \<and> db' = kill_write st now db \<and>
          ks_generation st = next_generation (db (kill_namespace, kill_key)))"
proof (cases "ks_required actor ''actor''")
  case (Inl e)
  with assms show ?thesis by (auto simp: clear_def get_json_clean split: if_splits)
next
  case (Inr a)
  with assms show ?thesis
    by (auto simp: clear_def get_json_clean put_json_clean kill_write_def Let_def split: if_splits)
qed

lemma kill_inv_write:
  "kill_inv db \<Longrightarrow> ks_generation st = next_generation (db (kill_namespace, kill_key)) \<Longrightarrow>
   kill_inv (kill_write st now db)"
  by (auto simp: kill_inv_def kill_write_def next_generation_def kv_current_def split: option.splits)

lemma kill_step_inv: "kill_step db db' \<Longrightarrow> kill_inv db \<Longrightarrow> kill_inv db'"
  by (induction rule: kill_step.induct) (auto dest!: trip_effect clear_effect intro: kill_inv_write)

lemma kill_reachable_inv: "kill_reachable db \<Longrightarrow> kill_inv db"
proof (induction rule: kill_reachable.induct)
  case start
  show ?case by (simp add: kill_inv_def)
next
  case (step db db')
  then show ?case by (blast intro: kill_step_inv)
qed

text \<open>The latch opens through \<open>clear\<close> only.\<close>

lemma trip_keeps_latched:
  "trip reason actor source now [] db = (res, db') \<Longrightarrow> latched db \<Longrightarrow> latched db'"
  by (auto dest!: trip_effect simp: latched_def kill_write_def)

text \<open>What may happen to the table while no clear goes through: trips, and clears that raise.\<close>

inductive uncleared_step :: "kill_switch_state kv \<Rightarrow> kill_switch_state kv \<Rightarrow> bool" where
  trip_again: "trip reason actor source now [] db = (res, db') \<Longrightarrow> uncleared_step db db'"
| clear_refused: "clear env actor safe n conf now id db = (Inl e, db') \<Longrightarrow> uncleared_step db db'"

lemma uncleared_keeps_latch:
  assumes "uncleared_step\<^sup>*\<^sup>* db db'" "latched db"
  shows "latched db'"
  using assms
proof (induction rule: rtranclp_induct)
  case (step y z)
  from step.hyps(2) step.IH [OF step.prems] show ?case
  proof cases
    case (trip_again reason actor source now res)
    from trip_effect [OF this] show ?thesis using step.IH [OF step.prems] by (auto simp: latched_def kill_write_def)
  next
    case (clear_refused env actor safe n conf now e)
    from clear_effect [OF this] show ?thesis using step.IH [OF step.prems] by auto
  qed
qed

lemma trip_progress:
  assumes "strip reason \<noteq> []" "strip actor \<noteq> []" "strip source \<noteq> []" "length others < 3"
  shows "\<exists>st db'. trip reason actor source now others db = (Inr st, db')"
proof -
  let ?f = "trip_state (take 512 (strip reason)) (take 512 (strip actor)) source now"
  have total: "\<And>row. \<exists>doc r. ?f row = Inr (doc, r)"
    using assms(3) by (simp add: trip_state_def ks_required_def Let_def)
  obtain st v db' where "optimistic_update 3 kill_namespace kill_key ?f
      ''cannot persist execution kill switch after concurrent updates'' now others db = (Inr (st, v), db')"
    using optimistic_update_progress [where f = ?f, OF kill_cell total assms(4)] by blast
  with assms(1,2) show ?thesis by (simp add: trip_def ks_required_def Let_def)
qed

section \<open>Properties\<close>

definition demo_intruder :: "kill_switch_state kv \<Rightarrow> kill_switch_state kv" where
  "demo_intruder db = snd (clear (\<lambda>_. Some ''0'') ''operator'' True 0 clear_confirmation 7 id db)"

lemma demo_intruder_evolves: "kv_evolves db (demo_intruder db)"
proof -
  obtain res db' where c: "clear (\<lambda>_. Some ''0'') ''operator'' True 0 clear_confirmation 7 id db = (res, db')"
    by (cases "clear (\<lambda>_. Some ''0'') ''operator'' True 0 clear_confirmation 7 id db")
  from clear_effect [OF c] have "db' = db \<or> (\<exists>st. db' = kill_write st 7 db)" by blast
  then show ?thesis by (auto simp: demo_intruder_def c kill_write_def kv_evolves_def)
qed

text \<open>
  C12. A \<open>trip\<close> that returns has latched the switch, whatever writers of the versioned store do
  between its reads and its writes, a \<open>clear\<close> included.
\<close>

theorem trip_is_durable:
  assumes "well_behaved others" "trip reason actor source now others db = (Inr st, db')"
  shows "latched db' \<and> ks_active st"
  using trip_latches [OF assms] by simp

theorem trip_is_durable_witness:
  "latched (snd (trip ''halt'' ''guard'' ''test'' 9 [demo_intruder] (\<lambda>_. None)))"
proof -
  obtain st db' where t: "trip ''halt'' ''guard'' ''test'' 9 [demo_intruder] (\<lambda>_. None) = (Inr st, db')"
    using trip_progress [of "''halt''" "''guard''" "''test''" "[demo_intruder]" 9 "\<lambda>_. None"]
    by (auto simp: strip_def is_space_def ccode_def)
  have "well_behaved [demo_intruder]" by (simp add: well_behaved_def demo_intruder_evolves)
  from trip_is_durable [OF this t] show ?thesis by (simp add: t)
qed

text \<open>
  C13. Progress: with nonblank arguments and fewer than three interfering writes \<open>trip\<close> returns,
  and the stored switch is then active.
\<close>

theorem trip_returns:
  assumes "strip reason \<noteq> []" "strip actor \<noteq> []" "strip source \<noteq> []" "length others < 3"
    and "well_behaved others"
  shows "\<exists>st db'. trip reason actor source now others db = (Inr st, db') \<and> latched db'"
  using trip_progress [OF assms(1-4), of now db] trip_latches(1) [OF assms(5)] by blast

theorem trip_returns_witness:
  "\<exists>st db'. trip ''halt'' ''guard'' ''test'' 9 [demo_intruder, demo_intruder] (\<lambda>_. None) = (Inr st, db') \<and> latched db'"
  by (rule trip_returns)
    (simp_all add: well_behaved_def demo_intruder_evolves, simp_all add: strip_def is_space_def ccode_def)

text \<open>
  C14. The latch opens only under the exact confirmation, a restart-safe reconciliation, no
  unresolved execution and an environment flag that is off.
\<close>

theorem clear_is_guarded:
  assumes "clear env actor safe n conf now other db = (Inr st, db')"
  shows "conf = clear_confirmation \<and> safe \<and> n = 0 \<and> \<not> env_kill_active env \<and> \<not> latched db'"
  using clear_Inr [OF assms] by simp

theorem clear_is_guarded_witness:
  "\<not> latched (snd (clear (\<lambda>_. Some ''0'') ''operator'' True 0 clear_confirmation 7 id
      (snd (trip ''halt'' ''guard'' ''test'' 5 [] (\<lambda>_. None)))))"
proof -
  let ?db = "snd (trip ''halt'' ''guard'' ''test'' 5 [] (\<lambda>_. None))"
  have "\<exists>st db'. clear (\<lambda>_. Some ''0'') ''operator'' True 0 clear_confirmation 7 id ?db = (Inr st, db')"
    by (simp add: clear_def env_kill_active_def getenv_def true_words_def get_json_clean put_json_clean
        ks_required_def strip_def is_space_def ccode_def lower_def char_lower_def is_upper_def Let_def)
  then show ?thesis using clear_is_guarded by fastforce
qed

text \<open>
  The generation of the stored switch counts its writes: in every reachable table it equals
  the version of the row and is positive.
\<close>

theorem generation_counts_writes:
  assumes "kill_reachable db" "db (kill_namespace, kill_key) = Some row"
  shows "ks_generation (kv_doc row) = kv_version row \<and> 0 < kv_version row"
  using kill_reachable_inv [OF assms(1)] assms(2) by (simp add: kill_inv_def)

theorem generation_counts_writes_witness:
  "\<exists>row. snd (trip ''halt'' ''guard'' ''test'' 5 [] (\<lambda>_. None)) (kill_namespace, kill_key) = Some row \<and>
         ks_generation (kv_doc row) = kv_version row"
proof -
  let ?t = "trip ''halt'' ''guard'' ''test'' 5 [] (\<lambda>_. None)"
  have "kill_reachable (snd ?t)"
    by (rule kill_reachable.step [OF kill_reachable.start trips [of _ _ _ _ _ "fst ?t"]]) simp
  moreover have "\<exists>row. snd ?t (kill_namespace, kill_key) = Some row"
    by (subst trip_alone) (simp_all add: strip_def is_space_def ccode_def Let_def)
  ultimately show ?thesis using generation_counts_writes by blast
qed

end
