(* ===== verification/Bybit_Execution.thy ===== *)
theory Bybit_Execution
  imports Execution_Idempotency Kill_Switch
begin

text \<open>
  \<open>exchange_connector/bybit_execution.py\<close> with \<open>bybit_hosts.py\<close> and \<open>bybit_credentials.py\<close>: the
  client that reserves, submits and settles one canonical request. The world holds the identity
  table, the kill-switch table and the HTTP requests sent so far, in order. The HTTP library is
  the parameter \<open>post\<close>: it maps a request to the parsed response or to the class name of the
  exception that \<open>client.post\<close>, \<open>raise_for_status\<close> or \<open>response.json\<close> raised. The HMAC is the
  parameter \<open>M\<close> (key and message to hex digest), the digest of the identities the parameter \<open>H\<close>,
  the successive readings of the wall clock during a call the function \<open>clk\<close>. \<open>execute\<close> is the
  composition of its stages; the stages are also the steps of the concurrent system in
  \<open>Execution_Safety\<close>.
\<close>

section \<open>Hosts\<close>

definition live_hosts :: "string list" where
  "live_hosts = [''api.bybit.com'', ''api.bybit.eu'', ''api.bybit.nl'']"

definition testnet_hosts :: "string list" where
  "testnet_hosts = [''api-testnet.bybit.com'']"

definition rstrip_slash :: "string \<Rightarrow> string" where
  "rstrip_slash s = rev (dropWhile (\<lambda>c. c = CHR ''/'') (rev s))"

text \<open>\<open>s.partition(c)\<close> without the separator: the flag tells whether it was found.\<close>

definition partition_at :: "char \<Rightarrow> string \<Rightarrow> string \<times> bool \<times> string" where
  "partition_at c s =
     (takeWhile (\<lambda>d. d \<noteq> c) s, c \<in> set s, drop (Suc (length (takeWhile (\<lambda>d. d \<noteq> c) s))) s)"

definition rpartition_at :: "char \<Rightarrow> string \<Rightarrow> string \<times> bool \<times> string" where
  "rpartition_at c s =
     (let tail = rev (takeWhile (\<lambda>d. d \<noteq> c) (rev s))
      in if c \<in> set s then (take (length s - Suc (length tail)) s, True, tail) else ([], False, s))"

record parsed_url =
  pu_scheme :: string
  pu_netloc :: string
  pu_path :: string
  pu_query :: string
  pu_fragment :: string

definition scheme_char :: "char \<Rightarrow> bool" where
  "scheme_char c = (is_alnum c \<or> c \<in> set ''+-.'')"

text \<open>
  \<open>urllib.parse.urlparse\<close>: leading control characters and embedded tabs and newlines are
  removed, then scheme, authority, fragment, query and (for the schemes that have them)
  parameters of the last path segment are split off.
\<close>

definition split_scheme :: "string \<Rightarrow> string \<times> string" where
  "split_scheme u =
     (let (s, found, rest) = partition_at (CHR '':'') u
      in if found \<and> s \<noteq> [] \<and> (is_upper (hd s) \<or> is_lower (hd s)) \<and> list_all scheme_char s
         then (lower s, rest) else ([], u))"

definition split_params :: "string \<Rightarrow> string" where
  "split_params path =
     (let (dir, found, last) = rpartition_at (CHR ''/'') path
      in (if found then dir @ ''/'' else []) @ fst (partition_at (CHR '';'') last))"

definition url_params_schemes :: "string list" where
  "url_params_schemes = ['''', ''ftp'', ''hdl'', ''prospero'', ''http'', ''imap'', ''https'', ''shttp'', ''rtsp'',
     ''rtsps'', ''rtspu'', ''sip'', ''sips'', ''mms'', ''sftp'', ''tel'']"

definition urlparse :: "string \<Rightarrow> parsed_url res" where
  "urlparse s =
     (let u = filter (\<lambda>c. ccode c \<notin> {9, 10, 13}) (dropWhile (\<lambda>c. ccode c \<le> 32) s);
          (scheme, rest) = split_scheme u;
          (netloc, rest1) =
            (if startswith rest ''//''
             then (takeWhile (\<lambda>c. c \<notin> set ''/?#'') (drop 2 rest), dropWhile (\<lambda>c. c \<notin> set ''/?#'') (drop 2 rest))
             else ([], rest));
          (rest2, _, fragment) = partition_at (CHR ''#'') rest1;
          (path, _, query) = partition_at (CHR ''?'') rest2
      in if CHR ''['' \<in> set netloc \<or> CHR '']'' \<in> set netloc then Inl (ValueError ''Invalid IPv6 URL'')
         else Inr \<lparr>pu_scheme = scheme, pu_netloc = netloc,
                   pu_path = (if scheme \<in> set url_params_schemes then split_params path else path),
                   pu_query = query, pu_fragment = fragment\<rparr>)"

definition url_username :: "parsed_url \<Rightarrow> string" where
  "url_username p =
     (case rpartition_at (CHR ''@'') (pu_netloc p) of (info, found, _) \<Rightarrow>
        if found then fst (partition_at (CHR '':'') info) else [])"

definition url_password :: "parsed_url \<Rightarrow> string" where
  "url_password p =
     (case rpartition_at (CHR ''@'') (pu_netloc p) of (info, found, _) \<Rightarrow>
        if found then snd (snd (partition_at (CHR '':'') info)) else [])"

text \<open>The empty string stands for a missing host name.\<close>

definition url_hostname :: "parsed_url \<Rightarrow> string" where
  "url_hostname p =
     (let host = fst (partition_at (CHR '':'') (snd (snd (rpartition_at (CHR ''@'') (pu_netloc p)))));
          (name, zoned, zone) = partition_at (CHR ''%'') host
      in lower name @ (if zoned then ''%'' @ zone else []))"

definition url_port :: "parsed_url \<Rightarrow> nat option res" where
  "url_port p =
     (case snd (snd (partition_at (CHR '':'') (snd (snd (rpartition_at (CHR ''@'') (pu_netloc p)))))) of
        [] \<Rightarrow> Inr None
      | port \<Rightarrow> if \<not> list_all is_digit port then Inl (ValueError ''Port could not be cast to integer value'')
                else if 65535 < nat_of_digits port then Inl (ValueError ''Port out of range 0-65535'')
                else Inr (Some (nat_of_digits port)))"

definition allowed_hosts :: "string \<Rightarrow> string list" where
  "allowed_hosts mode =
     (if mode \<in> set [''sandbox'', ''testnet''] then testnet_hosts
      else if mode \<in> set [''live'', ''mainnet'', ''live_read_only''] then live_hosts else [])"

definition validate_bybit_base_url :: "string \<Rightarrow> string \<Rightarrow> string res" where
  "validate_bybit_base_url v environment =
     rbind (urlparse (rstrip_slash (strip v))) (\<lambda>p.
       if pu_scheme p \<noteq> ''https'' \<or> url_hostname p = [] \<or> url_username p \<noteq> [] \<or> url_password p \<noteq> []
       then Inl (ValueError ''Bybit base URL must be an HTTPS origin without credentials'')
       else rbind (url_port p) (\<lambda>port.
         if (port \<noteq> None \<and> port \<noteq> Some 443) \<or> pu_path p \<notin> {[], ''/''} \<or> pu_query p \<noteq> [] \<or>
            pu_fragment p \<noteq> []
         then Inl (ValueError ''Bybit base URL must not contain a custom port, path, query, or fragment'')
         else let mode = lower (strip environment)
              in if lower (url_hostname p) \<notin> set (allowed_hosts mode)
                 then Inl (ValueError (''Bybit host is not approved for '' @
                        (if mode = [] then ''unknown'' else mode) @ '' mode''))
                 else Inr (''https://'' @ lower (url_hostname p))))"

definition approved_live_base_urls :: "string list" where
  "approved_live_base_urls = map (\<lambda>host. ''https://'' @ host) (sort live_hosts)"

section \<open>Credentials\<close>

record bybit_credentials =
  bc_api_key :: string
  bc_api_secret :: string
  bc_profile :: string

definition load_credentials :: "os_env \<Rightarrow> string \<Rightarrow> string \<Rightarrow> string \<Rightarrow> bybit_credentials res" where
  "load_credentials env key_name secret_name profile =
     (let api_key = strip (getenv env key_name []);
          api_secret = strip (getenv env secret_name [])
      in if (api_key = []) \<noteq> (api_secret = [])
         then Inl (RuntimeError (profile @ '' credentials are incomplete''))
         else if api_key \<noteq> [] \<and> api_secret \<noteq> []
         then Inr \<lparr>bc_api_key = api_key, bc_api_secret = api_secret, bc_profile = profile\<rparr>
         else if lower (strip (getenv env ''BYBIT_ALLOW_LEGACY_EXCHANGE_CREDENTIALS'' ''0'')) \<in> set true_words
         then (let legacy_key = strip (getenv env ''EXCHANGE_API_KEY'' []);
                   legacy_secret = strip (getenv env ''EXCHANGE_API_SECRET'' [])
               in if (legacy_key = []) \<noteq> (legacy_secret = [])
                  then Inl (RuntimeError ''legacy exchange credentials are incomplete'')
                  else Inr \<lparr>bc_api_key = legacy_key, bc_api_secret = legacy_secret,
                            bc_profile = profile @ ''_legacy''\<rparr>)
         else Inr \<lparr>bc_api_key = [], bc_api_secret = [], bc_profile = profile\<rparr>)"

definition disabled_credentials :: bybit_credentials where
  "disabled_credentials = \<lparr>bc_api_key = [], bc_api_secret = [], bc_profile = ''disabled''\<rparr>"

definition account_credentials :: "os_env \<Rightarrow> bybit_credentials res" where
  "account_credentials env =
     load_credentials env ''BYBIT_READONLY_API_KEY'' ''BYBIT_READONLY_API_SECRET'' ''live_read_only''"

definition execution_credentials :: "os_env \<Rightarrow> string \<Rightarrow> bybit_credentials res" where
  "execution_credentials env mode =
     (let normalized = lower (strip mode)
      in if normalized = ''sandbox''
         then load_credentials env ''BYBIT_TESTNET_API_KEY'' ''BYBIT_TESTNET_API_SECRET'' ''testnet_execution''
         else if normalized = ''live''
         then load_credentials env ''BYBIT_MAINNET_API_KEY'' ''BYBIT_MAINNET_API_SECRET'' ''mainnet_execution''
         else Inr disabled_credentials)"

definition private_stream_credentials :: "os_env \<Rightarrow> string \<Rightarrow> bybit_credentials res" where
  "private_stream_credentials env environment =
     (let normalized = lower (strip environment)
      in if normalized \<in> set [''sandbox'', ''testnet''] then execution_credentials env ''sandbox''
         else if normalized \<in> set [''live'', ''mainnet'', ''live_read_only''] then account_credentials env
         else Inr disabled_credentials)"

section \<open>The client\<close>

definition absolute_notional_ceiling :: pyfloat where
  "absolute_notional_ceiling = Fin 50"

definition env_truthy :: "os_env \<Rightarrow> string \<Rightarrow> bool" where
  "env_truthy env name = (lower (strip (getenv env name ''0'')) \<in> set true_words)"

definition exec_positive :: "pyfloat \<Rightarrow> string \<Rightarrow> pyfloat res" where
  "exec_positive x name =
     (if \<not> isfinite x \<or> fle x (Fin 0)
      then Inl (ValueError (name @ '' must be a finite number greater than zero'')) else Inr x)"

definition bounded_positive_env :: "os_env \<Rightarrow> string \<Rightarrow> pyfloat \<Rightarrow> pyfloat \<Rightarrow> pyfloat" where
  "bounded_positive_env env name dflt maximum =
     (case float_of_string (getenv env name (float_repr dflt)) of None \<Rightarrow> dflt
      | Some parsed \<Rightarrow>
          if \<not> isfinite parsed \<or> fle parsed (Fin 0) then dflt else py_min parsed maximum)"

definition effective_testnet_notional_cap_usdt :: "os_env \<Rightarrow> pyfloat" where
  "effective_testnet_notional_cap_usdt env =
     bounded_positive_env env ''EXECUTION_MAX_NOTIONAL_USDT'' (Fin 25) absolute_notional_ceiling"

definition exec_symbol :: "string \<Rightarrow> string res" where
  "exec_symbol v =
     (let clean = clean_symbol v
      in if \<not> isalnum clean \<or> clean = [] then Inl (ValueError ''invalid symbol'') else Inr clean)"

record execution_client =
  ec_mode :: string
  ec_base_url :: string
  ec_api_key :: string
  ec_api_secret :: string
  ec_credential_profile :: string
  ec_recv_window :: string
  ec_max_notional :: pyfloat

definition client_init :: "os_env \<Rightarrow> execution_client res" where
  "client_init env =
     (let mode = lower (strip (getenv env ''EXCHANGE_MODE'' ''sandbox''));
          configured_url = getenv env ''EXCHANGE_BASE_URL''
            (if mode = ''sandbox'' then ''https://api-testnet.bybit.com'' else ''https://api.bybit.com'')
      in rbind (validate_bybit_base_url configured_url mode) (\<lambda>base_url.
         rbind (execution_credentials env mode) (\<lambda>credentials.
           Inr \<lparr>ec_mode = mode, ec_base_url = base_url, ec_api_key = bc_api_key credentials,
                ec_api_secret = bc_api_secret credentials,
                ec_credential_profile = bc_profile credentials, ec_recv_window = ''5000'',
                ec_max_notional = effective_testnet_notional_cap_usdt env\<rparr>)))"

record execution_result =
  er_status :: string
  er_mode :: string
  er_symbol :: string
  er_side :: string
  er_quantity :: pyfloat
  er_order_id :: "string option"
  er_message :: string
  er_raw_code :: int
  er_candidate_id :: string
  er_order_link_id :: string
  er_market_unit :: string
  er_submitted_quantity :: string

record http_request =
  hr_url :: string
  hr_content :: string
  hr_headers :: "string dict"

datatype http_outcome = HttpFailure string | HttpJson pyval

record exec_world =
  ew_identity :: "identity_doc kv"
  ew_kill :: "kill_switch_state kv"
  ew_wire :: "http_request list"

record client_status =
  cs_mode :: string
  cs_credential_profile :: string
  cs_credentials_configured :: bool
  cs_testnet_execution_enabled :: bool
  cs_live_execution_enabled :: bool
  cs_mainnet_execution_compiled :: bool
  cs_mainnet_hard_blocked :: bool
  cs_direct_submission_methods :: int
  cs_unresolved_execution_count :: int
  cs_restart_safe :: bool
  cs_kill_switch :: bool
  cs_kill_switch_state :: kill_switch_state
  cs_max_notional_usdt :: pyfloat

definition client_status_of ::
  "(string \<Rightarrow> string) \<Rightarrow> execution_client \<Rightarrow> os_env \<Rightarrow> exec_world \<Rightarrow> client_status res" where
  "client_status_of H cl env w =
     rbind (snapshot H ''testnet'' (ew_identity w)) (\<lambda>identity.
     rbind (kill_state env (ew_kill w)) (\<lambda>kill_switch.
       let credentials = (ec_api_key cl \<noteq> [] \<and> ec_api_secret cl \<noteq> []);
           unresolved_count = int (length (is_unresolved identity))
       in Inr \<lparr>cs_mode = ec_mode cl, cs_credential_profile = ec_credential_profile cl,
               cs_credentials_configured = credentials,
               cs_testnet_execution_enabled =
                 (ec_mode cl = ''sandbox'' \<and> credentials \<and> env_truthy env ''TESTNET_EXECUTION_ENABLED'' \<and>
                  \<not> ks_active kill_switch \<and> unresolved_count = 0),
               cs_live_execution_enabled = False,
               cs_mainnet_execution_compiled = MAINNET_EXECUTION_COMPILED,
               cs_mainnet_hard_blocked = True, cs_direct_submission_methods = 0,
               cs_unresolved_execution_count = unresolved_count,
               cs_restart_safe = (is_restart_safe identity \<and> unresolved_count = 0),
               cs_kill_switch = ks_active kill_switch, cs_kill_switch_state = kill_switch,
               cs_max_notional_usdt = ec_max_notional cl\<rparr>))"

definition place_market_order :: "string \<Rightarrow> string \<Rightarrow> pyfloat \<Rightarrow> pyfloat \<Rightarrow> execution_result res" where
  "place_market_order symbol side quantity reference_price =
     Inl (RuntimeError (''legacy place_market_order path is removed; '' @
            ''use execute(ApprovedExecutionRequest)''))"

definition live_unlocked :: "bool \<Rightarrow> bool" where
  "live_unlocked credentials = False"

section \<open>Preflight\<close>

record normalized_order =
  no_symbol :: string
  no_side :: string
  no_quantity :: pyfloat
  no_reference_price :: pyfloat
  no_category :: string

definition preflight ::
  "execution_client \<Rightarrow> os_env \<Rightarrow> exec_world \<Rightarrow> string \<Rightarrow> string \<Rightarrow> pyfloat \<Rightarrow> pyfloat \<Rightarrow> string \<Rightarrow>
   normalized_order res" where
  "preflight cl env w symbol side quantity reference_price category =
     (if ec_mode cl \<noteq> ''sandbox'' then Inl (RuntimeError ''Mainnet execution is compiled out'') else
      rbind (exec_symbol symbol) (\<lambda>clean_symbol.
        let clean_side = title (strip side)
        in if clean_side \<notin> set [''Buy'', ''Sell''] then Inl (ValueError ''side must be BUY or SELL'')
           else if category \<noteq> ''spot''
           then Inl (RuntimeError ''Only spot testnet execution is permitted'') else
      rbind (exec_positive quantity ''quantity'') (\<lambda>clean_quantity.
      rbind (exec_positive reference_price ''reference_price'') (\<lambda>clean_price.
      rbind (spot_quote_notional (float_repr clean_quantity) (float_repr clean_price)) (\<lambda>text.
      rbind (py_float (PyStr text)) (\<lambda>notional.
        if \<not> isfinite notional then Inl (ValueError ''order notional must be finite'')
        else if flt (ec_max_notional cl) notional
        then Inl (RuntimeError (''Order notional '' @ fixed2 notional @ '' exceeds safety cap '' @
                    fixed2 (ec_max_notional cl) @ '' USDT'')) else
      rbind (assert_open env (ew_kill w)) (\<lambda>_.
        if ec_api_key cl = [] \<or> ec_api_secret cl = []
        then Inl (RuntimeError (ec_credential_profile cl @ '' credentials are not configured''))
        else if \<not> env_truthy env ''TESTNET_EXECUTION_ENABLED''
        then Inl (RuntimeError ''Testnet execution is locked'')
        else Inr \<lparr>no_symbol = clean_symbol, no_side = clean_side, no_quantity = clean_quantity,
                  no_reference_price = clean_price, no_category = category\<rparr>)))))))"

section \<open>Submission\<close>

text \<open>\<open>json.dumps(body, separators=(",", ":"))\<close> of the body: members in insertion order.\<close>

definition order_payload :: "normalized_order \<Rightarrow> string \<Rightarrow> string \<Rightarrow> string \<Rightarrow> string" where
  "order_payload n market_unit submission_quantity link =
     json_members (map (\<lambda>(k, v). (json_string True k, json_string True v))
       [(''category'', no_category n), (''symbol'', no_symbol n), (''side'', no_side n),
        (''orderType'', ''Market''), (''qty'', submission_quantity), (''marketUnit'', market_unit),
        (''orderLinkId'', link)])"

text \<open>The response: the codes the client reads from it, with the exceptions of reading it.\<close>

definition response_code :: "pyval \<Rightarrow> int res" where
  "response_code data =
     (case data of PyDict d \<Rightarrow> py_int (py_get d ''retCode'' (PyInt (- 1)))
      | _ \<Rightarrow> Inl (AttributeError ''get''))"

definition response_message :: "pyval \<Rightarrow> string" where
  "response_message data =
     (case data of PyDict d \<Rightarrow> py_str (py_get d ''retMsg'' (PyStr ''unknown error'')) | _ \<Rightarrow> [])"

definition response_order_id :: "pyval \<Rightarrow> string option res" where
  "response_order_id data =
     (case data of
        PyDict d \<Rightarrow>
          (case py_get d ''result'' (PyDict []) of
             PyDict r \<Rightarrow> (let text = py_str (py_or (py_get r ''orderId'' PyNone) (PyStr []))
                           in Inr (if text = [] then None else Some text))
           | _ \<Rightarrow> Inl (AttributeError ''get''))
      | _ \<Rightarrow> Inl (AttributeError ''get''))"

definition read_response ::
  "execution_client \<Rightarrow> normalized_order \<Rightarrow> string \<Rightarrow> string \<Rightarrow> string \<Rightarrow> string \<Rightarrow> http_outcome \<Rightarrow>
   execution_result res" where
  "read_response cl n link candidate_id market_unit submission_quantity outcome =
     (case outcome of HttpFailure name \<Rightarrow> Inl (HttpError name)
      | HttpJson data \<Rightarrow>
          rbind (response_code data) (\<lambda>code.
            if code \<noteq> 0 then Inl (BybitRejectedOrder (response_message data) code)
            else rbind (response_order_id data) (\<lambda>order_id.
              Inr \<lparr>er_status = ''accepted'', er_mode = ec_mode cl, er_symbol = no_symbol n,
                   er_side = upper (no_side n), er_quantity = no_quantity n, er_order_id = order_id,
                   er_message = ''Testnet order accepted by Bybit'', er_raw_code = code,
                   er_candidate_id = candidate_id, er_order_link_id = link,
                   er_market_unit = market_unit, er_submitted_quantity = submission_quantity\<rparr>)))"

definition signed_request ::
  "(string \<Rightarrow> string \<Rightarrow> string) \<Rightarrow> execution_client \<Rightarrow> string \<Rightarrow> string \<Rightarrow> string \<Rightarrow> http_request" where
  "signed_request M cl base_url payload timestamp =
     \<lparr>hr_url = base_url @ ''/v5/order/create'', hr_content = payload,
      hr_headers =
        [(''X-BAPI-API-KEY'', ec_api_key cl), (''X-BAPI-TIMESTAMP'', timestamp),
         (''X-BAPI-RECV-WINDOW'', ec_recv_window cl),
         (''X-BAPI-SIGN'', M (ec_api_secret cl) (timestamp @ ec_api_key cl @ ec_recv_window cl @ payload)),
         (''Content-Type'', ''application/json'')]\<rparr>"

text \<open>
  \<open>_send_market_order\<close>: the outcome and the requests it put on the wire (none when it raises
  before the POST). \<open>capability\<close> tells whether the caller passed the module's own object.
\<close>

definition send_market_order ::
  "(string \<Rightarrow> string \<Rightarrow> string) \<Rightarrow> (http_request \<Rightarrow> http_outcome) \<Rightarrow> execution_client \<Rightarrow>
   normalized_order \<Rightarrow> string \<Rightarrow> string \<Rightarrow> bool \<Rightarrow> int \<Rightarrow> execution_result res \<times> http_request list" where
  "send_market_order M post cl n link candidate_id capability now =
     (if \<not> capability then (Inl (RuntimeError ''direct exchange submission is forbidden''), [])
      else case validate_bybit_base_url (ec_base_url cl) ''sandbox'' of Inl e \<Rightarrow> (Inl e, [])
      | Inr base_url \<Rightarrow>
        (case spot_market_submission (no_side n) (float_repr (no_quantity n))
                (float_repr (no_reference_price n)) of Inl e \<Rightarrow> (Inl e, [])
         | Inr (market_unit, submission_quantity) \<Rightarrow>
             (let payload = order_payload n market_unit submission_quantity link;
                  request = signed_request M cl base_url payload (int_str now)
              in (read_response cl n link candidate_id market_unit submission_quantity (post request),
                  [request]))))"

section \<open>Execute\<close>

definition current_ms :: "int option \<Rightarrow> (nat \<Rightarrow> int) \<Rightarrow> int" where
  "current_ms now_ms clk = (case now_ms of None \<Rightarrow> clk 0 | Some n \<Rightarrow> n)"

text \<open>A trip followed by the exception of the caller; an exception of the trip itself wins.\<close>

definition trip_and_raise ::
  "string \<Rightarrow> string \<Rightarrow> string \<Rightarrow> int \<Rightarrow> exec_world \<Rightarrow> 'a res \<times> exec_world" where
  "trip_and_raise reason source message now w =
     (case trip reason ''BybitExecutionClient.execute'' source now [] (ew_kill w) of
        (Inl e, k) \<Rightarrow> (Inl e, w\<lparr>ew_kill := k\<rparr>)
      | (Inr _, k) \<Rightarrow> (Inl (RuntimeError message), w\<lparr>ew_kill := k\<rparr>))"

definition execute_gate ::
  "(string \<Rightarrow> string) \<Rightarrow> execution_client \<Rightarrow> os_env \<Rightarrow> approved_execution_request \<Rightarrow> int \<Rightarrow> int \<Rightarrow>
   exec_world \<Rightarrow> normalized_order res \<times> exec_world" where
  "execute_gate H cl env request now trip_ms w =
     (case validate_execution_request H request now of Inl e \<Rightarrow> (Inl e, w)
      | Inr _ \<Rightarrow>
        (case assert_open env (ew_kill w) of Inl e \<Rightarrow> (Inl e, w)
         | Inr _ \<Rightarrow>
           (case unresolved H ''testnet'' (ew_identity w) of Inl e \<Rightarrow> (Inl e, w)
            | Inr pending \<Rightarrow>
                if pending \<noteq> []
                then trip_and_raise ''unresolved_execution_state_before_submission'' ''idempotency_preflight''
                       ''execution blocked until unresolved reservations are reconciled'' trip_ms w
                else (preflight cl env w (rq_symbol request) (side_value (rq_side request))
                        (rq_quantity request) (rq_reference_price request)
                        (category_value (rq_category request)), w))))"

definition execute_reserve ::
  "(string \<Rightarrow> string) \<Rightarrow> approved_execution_request \<Rightarrow> int \<Rightarrow> int \<Rightarrow> exec_world \<Rightarrow>
   reservation res \<times> exec_world" where
  "execute_reserve H request now clock w =
     (case repo_reserve H ''testnet'' request now clock [] (ew_identity w) of
        (r, db) \<Rightarrow> (r, w\<lparr>ew_identity := db\<rparr>))"

definition execute_mark ::
  "(string \<Rightarrow> string) \<Rightarrow> approved_execution_request \<Rightarrow> int \<Rightarrow> int \<Rightarrow> exec_world \<Rightarrow>
   reservation res \<times> exec_world" where
  "execute_mark H request now clock w =
     (case mark_submitted H ''testnet'' request now clock [] (ew_identity w) of
        (r, db) \<Rightarrow> (r, w\<lparr>ew_identity := db\<rparr>))"

definition execute_send ::
  "(string \<Rightarrow> string \<Rightarrow> string) \<Rightarrow> (http_request \<Rightarrow> http_outcome) \<Rightarrow> execution_client \<Rightarrow>
   approved_execution_request \<Rightarrow> normalized_order \<Rightarrow> int \<Rightarrow> exec_world \<Rightarrow>
   execution_result res \<times> exec_world" where
  "execute_send M post cl request n now w =
     (case send_market_order M post cl n (rq_order_link_id request) (rq_candidate_id request) True now of
        (r, sent) \<Rightarrow> (r, w\<lparr>ew_wire := ew_wire w @ sent\<rparr>))"

definition execute_settle ::
  "(string \<Rightarrow> string) \<Rightarrow> approved_execution_request \<Rightarrow> int \<Rightarrow> (nat \<Rightarrow> int) \<Rightarrow> execution_result res \<Rightarrow>
   exec_world \<Rightarrow> execution_result res \<times> exec_world" where
  "execute_settle H request now clk outcome w =
     (case outcome of
        Inl (BybitRejectedOrder m code) \<Rightarrow>
          (case mark_rejected H ''testnet'' request (max now (clk 4)) (clk 5) [] (ew_identity w) of
             (Inl e, db) \<Rightarrow> (Inl e, w\<lparr>ew_identity := db\<rparr>)
           | (Inr _, db) \<Rightarrow> (Inl (BybitRejectedOrder m code), w\<lparr>ew_identity := db\<rparr>))
      | Inl exc \<Rightarrow>
          trip_and_raise (''ambiguous_exchange_outcome:'' @ error_name exc) ''network_submission''
            (''execution outcome is ambiguous; request remains Submitted, '' @
             ''persistent kill switch is active and reconciliation is required'') (clk 4) w
      | Inr result \<Rightarrow>
          (case er_order_id result of
             None \<Rightarrow> trip_and_raise ''accepted_response_missing_order_id'' ''exchange_response''
               ''exchange accepted response without orderId; kill switch active and reconciliation required''
               (clk 4) w
           | Some order_id \<Rightarrow>
               (case bind_accepted H ''testnet'' request order_id (max now (clk 4)) (clk 5) []
                       (ew_identity w) of
                  (Inl e, db) \<Rightarrow> (Inl e, w\<lparr>ew_identity := db\<rparr>)
                | (Inr _, db) \<Rightarrow> (Inr result, w\<lparr>ew_identity := db\<rparr>))))"

definition execute ::
  "(string \<Rightarrow> string) \<Rightarrow> (string \<Rightarrow> string \<Rightarrow> string) \<Rightarrow> (http_request \<Rightarrow> http_outcome) \<Rightarrow>
   execution_client \<Rightarrow> os_env \<Rightarrow> approved_execution_request \<Rightarrow> int option \<Rightarrow> (nat \<Rightarrow> int) \<Rightarrow>
   exec_world \<Rightarrow> execution_result res \<times> exec_world" where
  "execute H M post cl env request now_ms clk w =
     (let now = current_ms now_ms clk
      in case execute_gate H cl env request now (clk 1) w of (Inl e, w1) \<Rightarrow> (Inl e, w1)
      | (Inr n, w1) \<Rightarrow>
        (case execute_reserve H request now (clk 1) w1 of (Inl e, w2) \<Rightarrow> (Inl e, w2)
         | (Inr _, w2) \<Rightarrow>
           (case execute_mark H request now (clk 2) w2 of (Inl e, w3) \<Rightarrow> (Inl e, w3)
            | (Inr _, w3) \<Rightarrow>
              (case execute_send M post cl request n (clk 3) w3 of
                 (outcome, w4) \<Rightarrow> execute_settle H request now clk outcome w4))))"

end
