(* ===== verification/Execution_Safety.thy ===== *)
theory Execution_Safety
  imports Bybit_Execution
begin

text \<open>
  Safety of submission across processes. Any number of processes run \<open>execute\<close> against the same
  tables; their stages interleave in any order, a process may stop at any point and start again,
  and other clients of the registry and the kill switch write in between. Each stage is atomic, as
  the optimistic writes are (\<open>optimistic_update_linearizes\<close>). The system starts with an empty wire
  and any tables. The invariant gives at-most-once submission and write-ahead reservation.
\<close>

section \<open>The system\<close>

text \<open>
  Where a process stands: before the gate, or with the client, the request, the normalised order
  and the time it carries to the next stage.
\<close>

datatype phase =
    Idle
  | AtReserve execution_client approved_execution_request normalized_order int
  | AtMark execution_client approved_execution_request normalized_order int
  | AtSend execution_client approved_execution_request normalized_order int
  | AtSettle approved_execution_request int "execution_result res"

record exec_system =
  sy_world :: exec_world
  sy_phase :: "nat \<Rightarrow> phase"

definition move :: "exec_system \<Rightarrow> nat \<Rightarrow> exec_world \<Rightarrow> phase \<Rightarrow> exec_system" where
  "move s p w ph = \<lparr>sy_world = w, sy_phase = (sy_phase s)(p := ph)\<rparr>"

definition with_identity :: "exec_system \<Rightarrow> identity_doc kv \<Rightarrow> exec_system" where
  "with_identity s db = s\<lparr>sy_world := (sy_world s)\<lparr>ew_identity := db\<rparr>\<rparr>"

definition with_kill :: "exec_system \<Rightarrow> kill_switch_state kv \<Rightarrow> exec_system" where
  "with_kill s db = s\<lparr>sy_world := (sy_world s)\<lparr>ew_kill := db\<rparr>\<rparr>"

inductive sys_step :: "(string \<Rightarrow> string) \<Rightarrow> (string \<Rightarrow> string \<Rightarrow> string) \<Rightarrow> exec_system \<Rightarrow> exec_system \<Rightarrow> bool"
  for H M where
  gate: "sy_phase s p = Idle \<Longrightarrow> execute_gate H cl env req now t (sy_world s) = (r, w) \<Longrightarrow>
     sys_step H M s (move s p w (case r of Inl e \<Rightarrow> Idle | Inr n \<Rightarrow> AtReserve cl req n now))"
| reserves: "sy_phase s p = AtReserve cl req n now \<Longrightarrow>
     execute_reserve H req now t (sy_world s) = (r, w) \<Longrightarrow>
     sys_step H M s (move s p w (case r of Inl e \<Rightarrow> Idle | Inr _ \<Rightarrow> AtMark cl req n now))"
| marks: "sy_phase s p = AtMark cl req n now \<Longrightarrow> execute_mark H req now t (sy_world s) = (r, w) \<Longrightarrow>
     sys_step H M s (move s p w (case r of Inl e \<Rightarrow> Idle | Inr _ \<Rightarrow> AtSend cl req n now))"
| sends: "sy_phase s p = AtSend cl req n now \<Longrightarrow>
     execute_send M post cl req n t (sy_world s) = (r, w) \<Longrightarrow>
     sys_step H M s (move s p w (AtSettle req now r))"
| settles: "sy_phase s p = AtSettle req now outcome \<Longrightarrow>
     execute_settle H req now clk outcome (sy_world s) = (r, w) \<Longrightarrow> sys_step H M s (move s p w Idle)"
| stops: "sys_step H M s (move s p (sy_world s) Idle)"
| other_status: "update_status H ''testnet'' l status cum now oid t [] (ew_identity (sy_world s)) = (res, db) \<Longrightarrow>
     sys_step H M s (with_identity s db)"
| other_bind: "bind_submission H ''testnet'' l oid now t [] (ew_identity (sy_world s)) = (res, db) \<Longrightarrow>
     sys_step H M s (with_identity s db)"
| other_reserve: "reserve H ''testnet'' intent now t [] (ew_identity (sy_world s)) = (res', db) \<Longrightarrow>
     sys_step H M s (with_identity s db)"
| other_kill: "kill_step (ew_kill (sy_world s)) k \<Longrightarrow> sys_step H M s (with_kill s k)"

inductive sys_reachable :: "(string \<Rightarrow> string) \<Rightarrow> (string \<Rightarrow> string \<Rightarrow> string) \<Rightarrow> exec_system \<Rightarrow> bool"
  for H M where
  start: "ew_wire (sy_world s) = [] \<Longrightarrow> (\<And>p. sy_phase s p = Idle) \<Longrightarrow> sys_reachable H M s"
| step: "sys_reachable H M s \<Longrightarrow> sys_step H M s s' \<Longrightarrow> sys_reachable H M s'"

text \<open>The \<open>orderLinkId\<close> a POST carries: the last member of its body.\<close>

definition wire_link :: "http_request \<Rightarrow> string" where
  "wire_link q = take 36 (drop (length (hr_content q) - 38) (hr_content q))"

definition sent_links :: "exec_world \<Rightarrow> string list" where
  "sent_links w = map wire_link (ew_wire w)"

definition submitted_in :: "exec_world \<Rightarrow> string \<Rightarrow> bool" where
  "submitted_in w l =
     (\<exists>r. lookup_reservation ''testnet'' (ew_identity w) l = Some r \<and> rs_status r \<noteq> ''Reserved'')"

text \<open>The link a process has reserved and not yet sent, and the one it is about to send.\<close>

fun pending :: "phase \<Rightarrow> string option" where
  "pending (AtMark cl req n now) = Some (rq_order_link_id req)"
| "pending (AtSend cl req n now) = Some (rq_order_link_id req)"
| "pending _ = None"

fun sending :: "phase \<Rightarrow> string option" where
  "sending (AtSend cl req n now) = Some (rq_order_link_id req)"
| "sending _ = None"

definition pending_ok :: "exec_world \<Rightarrow> string \<Rightarrow> bool" where
  "pending_ok w l =
     (order_link_pattern l \<and> lookup_reservation ''testnet'' (ew_identity w) l \<noteq> None \<and>
      l \<notin> set (sent_links w))"

definition sys_inv :: "exec_system \<Rightarrow> bool" where
  "sys_inv s =
     (distinct (sent_links (sy_world s)) \<and>
      (\<forall>l \<in> set (sent_links (sy_world s)). submitted_in (sy_world s) l) \<and>
      (\<forall>p l. pending (sy_phase s p) = Some l \<longrightarrow> pending_ok (sy_world s) l) \<and>
      (\<forall>p l. sending (sy_phase s p) = Some l \<longrightarrow> submitted_in (sy_world s) l) \<and>
      (\<forall>p q l. pending (sy_phase s p) = Some l \<longrightarrow> pending (sy_phase s q) = Some l \<longrightarrow> p = q))"

section \<open>The body of a POST\<close>

definition plain_char :: "char \<Rightarrow> bool" where
  "plain_char c = (is_alnum c \<or> c = CHR ''_'')"

lemma json_char_plain: "plain_char c \<Longrightarrow> json_char a c = [c]"
  by (auto simp: json_char_def plain_char_def is_alnum_def is_upper_def is_lower_def is_digit_def ccode_def)

lemma json_string_plain:
  assumes "list_all plain_char s"
  shows "json_string a s = [CHR 34] @ s @ [CHR 34]"
proof -
  have "concat (map (json_char a) s) = s"
    using assms by (induction s) (auto simp: json_char_plain)
  then show ?thesis by (simp add: json_string_def)
qed

lemma order_link_pattern_plain: "order_link_pattern s \<Longrightarrow> list_all plain_char s"
  by (erule order_link_pattern_cases)
    (auto simp: list_all_iff plain_char_def is_alnum_def is_lower_def ccode_def is_upper_def is_digit_def
      dest!: bspec is_hex_alnum)

lemma order_payload_ends:
  "\<exists>pre. order_payload n mu q link = pre @ json_string True link @ ''}''"
  unfolding order_payload_def json_members_def by (simp only: list.map prod.case join.simps append.assoc) simp

lemma wire_link_payload:
  assumes "order_link_pattern link"
  shows "wire_link (signed_request M cl url (order_payload n mu q link) ts) = link"
proof -
  obtain pre where "order_payload n mu q link = pre @ json_string True link @ ''}''"
    using order_payload_ends by blast
  moreover have "json_string True link = [CHR 34] @ link @ [CHR 34]"
    by (rule json_string_plain) (rule order_link_pattern_plain [OF assms])
  ultimately have "order_payload n mu q link = (pre @ [CHR 34]) @ link @ [CHR 34, CHR ''}'']" by simp
  moreover have "length link = 36" using assms by (simp add: order_link_pattern_def)
  ultimately show ?thesis by (simp add: wire_link_def signed_request_def)
qed

section \<open>What the stages change\<close>

definition world_step :: "(string \<Rightarrow> string) \<Rightarrow> exec_world \<Rightarrow> exec_world \<Rightarrow> bool" where
  "world_step H w w' =
     (registry_step H ''testnet'' (ew_identity w) (ew_identity w') \<and> ew_wire w' = ew_wire w)"

lemma world_step_refl [simp]: "world_step H w w"
  by (simp add: world_step_def)

lemma trip_and_raise_cases:
  assumes "trip_and_raise reason source msg now w = (r, w')"
  obtains e k where "r = Inl e" "w' = w\<lparr>ew_kill := k\<rparr>"
  using assms by (auto simp: trip_and_raise_def split: sum.splits prod.splits)

lemma execute_gate_world:
  assumes "execute_gate H cl env req now t w = (r, w')"
  shows "world_step H w w'"
  using assms
  by (auto simp: execute_gate_def world_step_def split: sum.splits if_splits
      elim!: trip_and_raise_cases)

lemma execute_reserve_world:
  assumes "execute_reserve H req now t w = (r, w')"
  shows "world_step H w w'"
proof -
  obtain r0 db where "repo_reserve H ''testnet'' req now t [] (ew_identity w) = (r0, db)" by fastforce
  with assms repo_reserve_step [OF id_cell_testnet this] show ?thesis
    by (auto simp: execute_reserve_def world_step_def)
qed

lemma execute_mark_world:
  assumes "execute_mark H req now t w = (r, w')"
  shows "world_step H w w'"
proof -
  obtain r0 db where "mark_submitted H ''testnet'' req now t [] (ew_identity w) = (r0, db)" by fastforce
  with assms mark_submitted_step [OF id_cell_testnet this] show ?thesis
    by (auto simp: execute_mark_def world_step_def)
qed

lemma execute_settle_rejected:
  assumes "execute_settle H req now clk (Inl (BybitRejectedOrder m c)) w = (r, w')"
  shows "\<exists>e. r = Inl e \<and> world_step H w w' \<and> ew_kill w' = ew_kill w"
proof -
  obtain r0 db where m: "mark_rejected H ''testnet'' req (max now (clk 4)) (clk 5) [] (ew_identity w) = (r0, db)"
    by fastforce
  from mark_rejected_step [OF id_cell_testnet m] assms show ?thesis
    by (cases r0) (auto simp: execute_settle_def world_step_def m)
qed

lemma execute_settle_ambiguous:
  assumes "\<And>m c. e \<noteq> BybitRejectedOrder m c"
  shows "execute_settle H req now clk (Inl e) w =
    trip_and_raise (''ambiguous_exchange_outcome:'' @ error_name e) ''network_submission''
      (''execution outcome is ambiguous; request remains Submitted, '' @
       ''persistent kill switch is active and reconciliation is required'') (clk 4) w"
  using assms by (cases e) (auto simp: execute_settle_def)

lemma execute_settle_world:
  assumes "execute_settle H req now clk outcome w = (r, w')"
  shows "world_step H w w'"
proof (cases outcome)
  case (Inl e)
  show ?thesis
  proof (cases "\<exists>m c. e = BybitRejectedOrder m c")
    case True
    with assms Inl execute_settle_rejected show ?thesis by blast
  next
    case False
    then have amb: "\<And>m c. e \<noteq> BybitRejectedOrder m c" by blast
    from assms Inl show ?thesis
      by (auto simp: execute_settle_ambiguous [OF amb] world_step_def elim!: trip_and_raise_cases)
  qed
next
  case (Inr result)
  show ?thesis
  proof (cases "er_order_id result")
    case None
    with assms Inr show ?thesis
      by (auto simp: execute_settle_def world_step_def elim!: trip_and_raise_cases)
  next
    case (Some oid)
    obtain r0 db where b: "bind_accepted H ''testnet'' req oid (max now (clk 4)) (clk 5) [] (ew_identity w) = (r0, db)"
      by fastforce
    from bind_accepted_step [OF id_cell_testnet b] assms Inr Some show ?thesis
      by (cases r0) (auto simp: execute_settle_def world_step_def b)
  qed
qed

lemma execute_send_cases:
  assumes "execute_send M post cl req n t w = (r, w')"
  obtains (unsent) "w' = w" "\<exists>e. r = Inl e"
  | (sent) mu q url where
      "w' = w\<lparr>ew_wire := ew_wire w @ [signed_request M cl url
                (order_payload n mu q (rq_order_link_id req)) (int_str t)]\<rparr>"
      "validate_bybit_base_url (ec_base_url cl) ''sandbox'' = Inr url"
      "spot_market_submission (no_side n) (float_repr (no_quantity n)) (float_repr (no_reference_price n)) = Inr (mu, q)"
      "r = read_response cl n (rq_order_link_id req) (rq_candidate_id req) mu q
             (post (signed_request M cl url (order_payload n mu q (rq_order_link_id req)) (int_str t)))"
  using assms
  by (auto simp: execute_send_def send_market_order_def Let_def split: sum.splits prod.splits)

section \<open>The invariant\<close>

lemma world_step_submitted:
  assumes "world_step H w w'" "submitted_in w l"
  shows "submitted_in w' l"
proof -
  from assms(2) obtain r where r: "lookup_reservation ''testnet'' (ew_identity w) l = Some r"
    "rs_status r \<noteq> ''Reserved''" by (auto simp: submitted_in_def)
  from assms(1) r(1) obtain r' where "lookup_reservation ''testnet'' (ew_identity w') l = Some r'"
    "r' = r \<or> advances r r'" by (auto simp: world_step_def dest: registry_step_lookup)
  with r(2) advances_not_reserved show ?thesis unfolding submitted_in_def by blast
qed

lemma world_step_pending:
  assumes "world_step H w w'" "pending_ok w l"
  shows "pending_ok w' l"
  using assms registry_step_lookup [of H "''testnet''" "ew_identity w" "ew_identity w'" l]
  by (fastforce simp: pending_ok_def sent_links_def world_step_def)

lemma sys_invD:
  assumes "sys_inv s"
  shows "distinct (sent_links (sy_world s))"
    and "l \<in> set (sent_links (sy_world s)) \<Longrightarrow> submitted_in (sy_world s) l"
    and "pending (sy_phase s p) = Some l \<Longrightarrow> pending_ok (sy_world s) l"
    and "sending (sy_phase s p) = Some l \<Longrightarrow> submitted_in (sy_world s) l"
    and "pending (sy_phase s p) = Some l \<Longrightarrow> pending (sy_phase s q) = Some l \<Longrightarrow> p = q"
  using assms by (simp_all only: sys_inv_def)

lemma sys_invI:
  assumes "distinct (sent_links (sy_world s))"
    and "\<And>l. l \<in> set (sent_links (sy_world s)) \<Longrightarrow> submitted_in (sy_world s) l"
    and "\<And>p l. pending (sy_phase s p) = Some l \<Longrightarrow> pending_ok (sy_world s) l"
    and "\<And>p l. sending (sy_phase s p) = Some l \<Longrightarrow> submitted_in (sy_world s) l"
    and "\<And>p q l. pending (sy_phase s p) = Some l \<Longrightarrow> pending (sy_phase s q) = Some l \<Longrightarrow> p = q"
  shows "sys_inv s"
  unfolding sys_inv_def using assms by blast

text \<open>A step that only advances the registry and starts no new pending link keeps the invariant.\<close>

lemma sys_inv_world_step:
  assumes "sys_inv s" "world_step H (sy_world s) (sy_world s')"
    and "\<And>q. pending (sy_phase s' q) = None \<or> pending (sy_phase s' q) = pending (sy_phase s q)"
    and "\<And>q l. sending (sy_phase s' q) = Some l \<Longrightarrow> sending (sy_phase s q) = Some l \<or> submitted_in (sy_world s') l"
  shows "sys_inv s'"
proof -
  have sent: "sent_links (sy_world s') = sent_links (sy_world s)"
    using assms(2) by (simp add: sent_links_def world_step_def)
  have pend: "\<And>q l. pending (sy_phase s' q) = Some l \<Longrightarrow> pending (sy_phase s q) = Some l"
    using assms(3) by (metis option.distinct(1))
  note D = sys_invD [OF assms(1)]
  show ?thesis
  proof (rule sys_invI)
    show "submitted_in (sy_world s') l" if "l \<in> set (sent_links (sy_world s'))" for l
      using that world_step_submitted [OF assms(2) D(2)] by (simp add: sent)
    show "pending_ok (sy_world s') l" if "pending (sy_phase s' q) = Some l" for q l
      using world_step_pending [OF assms(2) D(3) [OF pend [OF that]]] .
    show "submitted_in (sy_world s') l" if "sending (sy_phase s' q) = Some l" for q l
      using assms(4) [OF that] world_step_submitted [OF assms(2) D(4)] by blast
    show "q = q'" if "pending (sy_phase s' q) = Some l" "pending (sy_phase s' q') = Some l" for q q' l
      using D(5) [OF pend pend] that by blast
  qed (simp add: sent D(1))
qed

lemma sys_inv_move:
  assumes "sys_inv s" "world_step H (sy_world s) w" "pending ph = None"
  shows "sys_inv (move s p w ph)"
  using assms(1)
proof (rule sys_inv_world_step)
  have "sending ph = None" using assms(3) by (cases ph) auto
  then show "sending (sy_phase (move s p w ph) q) = Some l \<Longrightarrow>
      sending (sy_phase s q) = Some l \<or> submitted_in (sy_world (move s p w ph)) l" for q l
    by (auto simp: move_def split: if_splits)
qed (use assms(2,3) in \<open>auto simp: move_def\<close>)

lemma sys_inv_other:
  assumes "sys_inv s" "world_step H (sy_world s) w"
  shows "sys_inv (s\<lparr>sy_world := w\<rparr>)"
  using assms(1) by (rule sys_inv_world_step [where H = H]) (use assms(2) in simp_all)

lemma sys_inv_reserve:
  assumes "sys_inv s" "execute_reserve H req now t (sy_world s) = (Inr r, w)"
  shows "sys_inv (move s p w (AtMark cl req n now))"
proof -
  let ?w = "sy_world s" and ?l = "rq_order_link_id req"
  obtain db where db: "repo_reserve H ''testnet'' req now t [] (ew_identity ?w) = (Inr r, db)"
    and w: "w = ?w\<lparr>ew_identity := db\<rparr>"
    using assms(2) by (auto simp: execute_reserve_def split: prod.splits)
  note new = repo_reserve_Inr [OF id_cell_testnet db]
  have ws: "world_step H ?w w" using assms(2) by (rule execute_reserve_world)
  have base: "sys_inv (move s p w Idle)" using assms(1) ws by (rule sys_inv_move) simp
  have unsent: "?l \<notin> set (sent_links w)"
    using sys_invD(2) [OF assms(1), of ?l] new(1) by (auto simp: w sent_links_def submitted_in_def)
  have unpend: "pending (sy_phase s q) \<noteq> Some ?l" for q
    using sys_invD(3) [OF assms(1), of q ?l] new(1) by (auto simp: pending_ok_def)
  have "pending_ok w ?l" using new unsent by (simp add: pending_ok_def w)
  note D = sys_invD [OF base, unfolded move_def, simplified]
  show ?thesis
  proof (rule sys_invI)
    fix q l
    assume "pending (sy_phase (move s p w (AtMark cl req n now)) q) = Some l"
    with \<open>pending_ok w ?l\<close> D(3) [of q l] show "pending_ok (sy_world (move s p w (AtMark cl req n now))) l"
      by (auto simp: move_def split: if_splits)
  next
    fix q l
    assume "sending (sy_phase (move s p w (AtMark cl req n now)) q) = Some l"
    with D(4) [of q l] show "submitted_in (sy_world (move s p w (AtMark cl req n now))) l"
      by (auto simp: move_def split: if_splits)
  next
    fix q q' l
    assume "pending (sy_phase (move s p w (AtMark cl req n now)) q) = Some l"
      "pending (sy_phase (move s p w (AtMark cl req n now)) q') = Some l"
    with unpend sys_invD(5) [OF assms(1), of q l q'] show "q = q'"
      by (auto simp: move_def split: if_splits)
  qed (use D(1,2) in \<open>simp_all add: move_def\<close>)
qed

lemma sys_inv_mark:
  assumes "sys_inv s" "sy_phase s p = AtMark cl req n now"
    and "execute_mark H req now t (sy_world s) = (Inr r, w)"
  shows "sys_inv (move s p w (AtSend cl req n now))"
proof -
  let ?w = "sy_world s" and ?l = "rq_order_link_id req"
  obtain db where db: "mark_submitted H ''testnet'' req now t [] (ew_identity ?w) = (Inr r, db)"
    and w: "w = ?w\<lparr>ew_identity := db\<rparr>"
    using assms(3) by (auto simp: execute_mark_def split: prod.splits)
  have "pending_ok ?w ?l" using sys_invD(3) [OF assms(1), of p] assms(2) by simp
  then have pat: "order_link_pattern ?l" by (simp add: pending_ok_def)
  have sub: "submitted_in w ?l"
    using mark_submitted_stores [OF id_cell_testnet pat db] by (simp add: submitted_in_def w)
  show ?thesis
    using assms(1)
  proof (rule sys_inv_world_step)
    show "world_step H ?w (sy_world (move s p w (AtSend cl req n now)))"
      using execute_mark_world [OF assms(3)] by (simp add: move_def)
    show "pending (sy_phase (move s p w (AtSend cl req n now)) q) = None \<or>
      pending (sy_phase (move s p w (AtSend cl req n now)) q) = pending (sy_phase s q)" for q
      using assms(2) by (simp add: move_def)
    show "sending (sy_phase (move s p w (AtSend cl req n now)) q) = Some l \<Longrightarrow>
      sending (sy_phase s q) = Some l \<or> submitted_in (sy_world (move s p w (AtSend cl req n now))) l" for q l
      using sub by (auto simp: move_def split: if_splits)
  qed
qed

lemma sys_inv_send:
  assumes "sys_inv s" "sy_phase s p = AtSend cl req n now"
    and "execute_send M post cl req n t (sy_world s) = (r, w)"
  shows "sys_inv (move s p w (AtSettle req now r))"
  using assms(3)
proof (cases rule: execute_send_cases)
  case unsent
  with assms(1) show ?thesis by (auto intro: sys_inv_move [where H = H])
next
  case (sent mu q url)
  let ?l = "rq_order_link_id req"
  have ok: "pending_ok (sy_world s) ?l" using sys_invD(3) [OF assms(1), of p] assms(2) by simp
  have sub: "submitted_in (sy_world s) ?l" using sys_invD(4) [OF assms(1), of p] assms(2) by simp
  have uniq: "\<And>q. pending (sy_phase s q) = Some ?l \<Longrightarrow> q = p"
    using sys_invD(5) [OF assms(1), of _ ?l p] assms(2) by simp
  have links: "sent_links w = sent_links (sy_world s) @ [?l]"
    using ok wire_link_payload by (simp add: sent(1) sent_links_def pending_ok_def)
  have ident: "ew_identity w = ew_identity (sy_world s)" by (simp add: sent(1))
  have "pending_ok w l" if "q \<noteq> p" "pending (sy_phase s q) = Some l" for q l
  proof -
    from that uniq have "l \<noteq> ?l" by blast
    moreover from that(2) have "pending_ok (sy_world s) l" by (rule sys_invD(3) [OF assms(1)])
    ultimately show ?thesis by (simp add: pending_ok_def links ident)
  qed
  with assms(1) ok sub show ?thesis
    by (auto simp: sys_inv_def move_def links submitted_in_def ident pending_ok_def)
qed

lemma sys_step_inv:
  assumes "sys_step H M s s'" "sys_inv s"
  shows "sys_inv s'"
  using assms
proof (induction rule: sys_step.induct)
  case (gate s p cl env req now t r w)
  then show ?case
    by (intro sys_inv_move [where H = H]) (auto intro: execute_gate_world split: sum.split)
next
  case (reserves s p cl req n now t r w)
  show ?case
  proof (cases r)
    case (Inl e)
    with reserves show ?thesis
      by (auto intro!: sys_inv_move [where H = H] execute_reserve_world)
  next
    case (Inr a)
    with reserves show ?thesis by (simp add: sys_inv_reserve)
  qed
next
  case (marks s p cl req n now t r w)
  show ?case
  proof (cases r)
    case (Inl e)
    with marks show ?thesis by (auto intro!: sys_inv_move [where H = H] execute_mark_world)
  next
    case (Inr a)
    with marks show ?thesis by (simp add: sys_inv_mark)
  qed
next
  case (sends s p cl req n now post t r w)
  then show ?case by (simp add: sys_inv_send)
next
  case (settles s p req now outcome clk r w)
  then show ?case by (auto intro!: sys_inv_move [where H = H] execute_settle_world)
next
  case (stops s p)
  then show ?case by (auto intro!: sys_inv_move [where H = H])
next
  case (other_status l status cum now oid t s res db)
  from other_status(2) update_status_step [OF id_cell_testnet other_status(1)] show ?case
    unfolding with_identity_def by (intro sys_inv_other [where H = H]) (simp_all add: world_step_def)
next
  case (other_bind l oid now t s res db)
  from other_bind(2) bind_submission_step [OF id_cell_testnet other_bind(1)] show ?case
    unfolding with_identity_def by (intro sys_inv_other [where H = H]) (simp_all add: world_step_def)
next
  case (other_reserve intent now t s res db)
  from other_reserve(2) reserve_step [OF id_cell_testnet other_reserve(1)] show ?case
    unfolding with_identity_def by (intro sys_inv_other [where H = H]) (simp_all add: world_step_def)
next
  case (other_kill s k)
  then show ?case
    unfolding with_kill_def by (intro sys_inv_other [where H = H]) (simp_all add: world_step_def)
qed

lemma sys_reachable_inv: "sys_reachable H M s \<Longrightarrow> sys_inv s"
proof (induction rule: sys_reachable.induct)
  case (start s)
  then show ?case by (simp add: sys_inv_def sent_links_def)
next
  case (step s s')
  then show ?case by (blast intro: sys_step_inv)
qed

section \<open>One call\<close>

lemma execute_cases:
  assumes "execute H M post cl env req now_ms clk w = (res, w')"
  obtains (gate_fails) e where "res = Inl e"
      "execute_gate H cl env req (current_ms now_ms clk) (clk 1) w = (Inl e, w')"
  | (reserve_fails) n w1 e where "res = Inl e"
      "execute_gate H cl env req (current_ms now_ms clk) (clk 1) w = (Inr n, w1)"
      "execute_reserve H req (current_ms now_ms clk) (clk 1) w1 = (Inl e, w')"
  | (mark_fails) n w1 r1 w2 e where "res = Inl e"
      "execute_gate H cl env req (current_ms now_ms clk) (clk 1) w = (Inr n, w1)"
      "execute_reserve H req (current_ms now_ms clk) (clk 1) w1 = (Inr r1, w2)"
      "execute_mark H req (current_ms now_ms clk) (clk 2) w2 = (Inl e, w')"
  | (settled) n w1 r1 w2 r2 w3 outcome w4 where
      "execute_gate H cl env req (current_ms now_ms clk) (clk 1) w = (Inr n, w1)"
      "execute_reserve H req (current_ms now_ms clk) (clk 1) w1 = (Inr r1, w2)"
      "execute_mark H req (current_ms now_ms clk) (clk 2) w2 = (Inr r2, w3)"
      "execute_send M post cl req n (clk 3) w3 = (outcome, w4)"
      "execute_settle H req (current_ms now_ms clk) clk outcome w4 = (res, w')"
proof -
  let ?now = "current_ms now_ms clk"
  obtain r0 w1 where g: "execute_gate H cl env req ?now (clk 1) w = (r0, w1)" by fastforce
  show ?thesis
  proof (cases r0)
    case (Inl e)
    with assms g show ?thesis by (intro gate_fails) (auto simp: execute_def)
  next
    case n: (Inr n)
    obtain r1 w2 where r: "execute_reserve H req ?now (clk 1) w1 = (r1, w2)" by fastforce
    show ?thesis
    proof (cases r1)
      case (Inl e)
      with assms g n r show ?thesis by (intro reserve_fails) (auto simp: execute_def)
    next
      case r1: (Inr r1')
      obtain r2 w3 where m: "execute_mark H req ?now (clk 2) w2 = (r2, w3)" by fastforce
      show ?thesis
      proof (cases r2)
        case (Inl e)
        with assms g n r r1 m show ?thesis by (intro mark_fails) (auto simp: execute_def)
      next
        case r2: (Inr r2')
        obtain out w4 where "execute_send M post cl req n (clk 3) w3 = (out, w4)" by fastforce
        with assms g n r r1 m r2 show ?thesis by (intro settled) (auto simp: execute_def)
      qed
    qed
  qed
qed

text \<open>The stages of one call are steps of the system with one active process.\<close>

definition solo :: "exec_world \<Rightarrow> phase \<Rightarrow> exec_system" where
  "solo w ph = \<lparr>sy_world = w, sy_phase = (\<lambda>_. Idle)(0 := ph)\<rparr>"

lemma solo_simps [simp]:
  "sy_world (solo w ph) = w" "sy_phase (solo w ph) 0 = ph" "move (solo w ph) 0 w' ph' = solo w' ph'"
  by (simp_all add: solo_def move_def)

lemma solo_gate:
  "execute_gate H cl env req now t w = (r, w') \<Longrightarrow>
     sys_step H M (solo w Idle) (solo w' (case r of Inl e \<Rightarrow> Idle | Inr n \<Rightarrow> AtReserve cl req n now))"
  using sys_step.gate [of "solo w Idle" 0 H cl env req now t r w' M] by simp

lemma solo_reserve:
  "execute_reserve H req now t w = (r, w') \<Longrightarrow>
     sys_step H M (solo w (AtReserve cl req n now)) (solo w' (case r of Inl e \<Rightarrow> Idle | Inr _ \<Rightarrow> AtMark cl req n now))"
  using sys_step.reserves [of "solo w (AtReserve cl req n now)" 0 cl req n now H t r w' M] by simp

lemma solo_mark:
  "execute_mark H req now t w = (r, w') \<Longrightarrow>
     sys_step H M (solo w (AtMark cl req n now)) (solo w' (case r of Inl e \<Rightarrow> Idle | Inr _ \<Rightarrow> AtSend cl req n now))"
  using sys_step.marks [of "solo w (AtMark cl req n now)" 0 cl req n now H t r w' M] by simp

lemma solo_send:
  "execute_send M post cl req n t w = (out, w') \<Longrightarrow>
     sys_step H M (solo w (AtSend cl req n now)) (solo w' (AtSettle req now out))"
  using sys_step.sends [of "solo w (AtSend cl req n now)" 0 cl req n now M post t out w' H] by simp

lemma solo_settle:
  "execute_settle H req now clk out w = (out', w') \<Longrightarrow>
     sys_step H M (solo w (AtSettle req now out)) (solo w' Idle)"
  using sys_step.settles [of "solo w (AtSettle req now out)" 0 req now out H clk out' w' M] by simp

lemmas solo_steps = solo_gate solo_reserve solo_mark solo_send solo_settle

lemma execute_steps:
  assumes "execute H M post cl env req now_ms clk w = (res, w')"
  shows "(sys_step H M)\<^sup>*\<^sup>* (solo w Idle) (solo w' Idle)"
  using assms
proof (cases rule: execute_cases)
  case (gate_fails e)
  from solo_steps(1) [OF gate_fails(2)] show ?thesis by auto
next
  case (reserve_fails n w1 e)
  from solo_steps(1) [OF reserve_fails(2), of M] solo_steps(2) [OF reserve_fails(3), of M cl n] show ?thesis
    by (simp add: converse_rtranclp_into_rtranclp)
next
  case (mark_fails n w1 r1 w2 e)
  from solo_steps(1) [OF mark_fails(2), of M] solo_steps(2) [OF mark_fails(3), of M cl n]
    solo_steps(3) [OF mark_fails(4), of M cl n]
  show ?thesis by simp
next
  case (settled n w1 r1 w2 r2 w3 outcome w4)
  from solo_steps(1) [OF settled(1), of M] solo_steps(2) [OF settled(2), of M cl n]
    solo_steps(3) [OF settled(3), of M cl n] solo_steps(4) [OF settled(4), of H] solo_steps(5) [OF settled(5), of M]
  show ?thesis by simp (meson converse_rtranclp_into_rtranclp rtranclp.rtrancl_refl)
qed

lemma sys_reachable_steps:
  "(sys_step H M)\<^sup>*\<^sup>* s s' \<Longrightarrow> sys_reachable H M s \<Longrightarrow> sys_reachable H M s'"
  by (induction rule: rtranclp_induct) (auto intro: sys_reachable.step)

section \<open>Preconditions of a submission\<close>

lemma execute_gate_Inr:
  assumes "execute_gate H cl env req now t w = (Inr n, w')"
  shows "w' = w" "\<exists>u. validate_execution_request H req now = Inr u"
    "\<not> env_kill_active env" "\<not> latched (ew_kill w)"
    "unresolved H ''testnet'' (ew_identity w) = Inr []"
    "preflight cl env w (rq_symbol req) (side_value (rq_side req)) (rq_quantity req)
       (rq_reference_price req) (category_value (rq_category req)) = Inr n"
proof -
  have "w' = w \<and> (\<exists>u. validate_execution_request H req now = Inr u) \<and>
    (\<exists>st. assert_open env (ew_kill w) = Inr st) \<and>
    unresolved H ''testnet'' (ew_identity w) = Inr [] \<and>
    preflight cl env w (rq_symbol req) (side_value (rq_side req)) (rq_quantity req)
       (rq_reference_price req) (category_value (rq_category req)) = Inr n"
    using assms
    by (auto simp: execute_gate_def split: sum.splits if_splits elim!: trip_and_raise_cases)
  then show "w' = w" "\<exists>u. validate_execution_request H req now = Inr u"
    "\<not> env_kill_active env" "\<not> latched (ew_kill w)"
    "unresolved H ''testnet'' (ew_identity w) = Inr []"
    "preflight cl env w (rq_symbol req) (side_value (rq_side req)) (rq_quantity req)
       (rq_reference_price req) (category_value (rq_category req)) = Inr n"
    by (auto simp: assert_open_iff)
qed

lemma exec_positive_Inr: "exec_positive x name = Inr y \<longleftrightarrow> y = x \<and> (\<exists>v. x = Fin v \<and> 0 < v)"
  by (cases x) (auto simp: exec_positive_def)

lemma preflight_Inr:
  assumes "preflight cl env w symbol side quantity price category = Inr n"
  shows "ec_mode cl = ''sandbox''" "category = ''spot''" "ec_api_key cl \<noteq> []" "ec_api_secret cl \<noteq> []"
    "env_truthy env ''TESTNET_EXECUTION_ENABLED''" "no_quantity n = quantity" "no_reference_price n = price"
    "no_side n = title (strip side)" "no_category n = ''spot''"
    "\<exists>text x. spot_quote_notional (float_repr quantity) (float_repr price) = Inr text \<and>
       float_of_string text = Some x \<and> isfinite x \<and> \<not> flt (ec_max_notional cl) x"
  using assms unfolding preflight_def Let_def
  by (auto simp only: res_simps exec_positive_Inr normalized_order.simps sum.inject)

lemma sandbox_base_url:
  assumes "validate_bybit_base_url v ''sandbox'' = Inr url"
  shows "url = ''https://api-testnet.bybit.com''"
proof -
  have mode: "lower (strip ''sandbox'') = ''sandbox''"
    by (simp add: lower_def strip_def char_lower_def is_space_def is_upper_def ccode_def)
  from assms obtain p where "lower (url_hostname p) \<in> set (allowed_hosts ''sandbox'')"
    "url = ''https://'' @ lower (url_hostname p)"
    unfolding validate_bybit_base_url_def Let_def mode by (auto simp only: res_simps Let_def)
  then show ?thesis by (simp add: allowed_hosts_def testnet_hosts_def)
qed

lemma bounded_positive_env_range:
  assumes "0 < d" "d \<le> m"
  shows "\<exists>x. bounded_positive_env env name (Fin d) (Fin m) = Fin x \<and> 0 < x \<and> x \<le> m"
proof (cases "float_of_string (getenv env name (float_repr (Fin d)))")
  case None
  with assms show ?thesis by (simp add: bounded_positive_env_def)
next
  case (Some v)
  with assms show ?thesis
    by (cases v) (auto simp: bounded_positive_env_def py_min_def)
qed

lemma execute_settle_wire: "execute_settle H req now clk out w = (r, w') \<Longrightarrow> ew_wire w' = ew_wire w"
  by (drule execute_settle_world) (simp add: world_step_def)

text \<open>
  The world after the stages before the POST: nothing sent, the request reserved and marked.
\<close>

lemma execute_prefix:
  assumes "execute_gate H cl env req now t w = (Inr n, w1)"
    and "execute_reserve H req now t w1 = (Inr r1, w2)" "execute_mark H req now t' w2 = (Inr r2, w3)"
  shows "ew_wire w3 = ew_wire w" "ew_kill w3 = ew_kill w" "order_link_pattern (rq_order_link_id req)"
    "lookup_reservation ''testnet'' (ew_identity w) (rq_order_link_id req) = None"
    "lookup_reservation ''testnet'' (ew_identity w3) (rq_order_link_id req) = Some r2"
    "rs_status r2 = ''Submitted''"
proof -
  have w1: "w1 = w" using assms(1) by (rule execute_gate_Inr)
  obtain db where db: "repo_reserve H ''testnet'' req now t [] (ew_identity w) = (Inr r1, db)"
    and w2: "w2 = w\<lparr>ew_identity := db\<rparr>"
    using assms(2) by (auto simp: execute_reserve_def w1 split: prod.splits)
  note new = repo_reserve_Inr [OF id_cell_testnet db]
  obtain db' where db': "mark_submitted H ''testnet'' req now t' [] db = (Inr r2, db')"
    and w3: "w3 = w2\<lparr>ew_identity := db'\<rparr>"
    using assms(3) by (auto simp: execute_mark_def w2 split: prod.splits)
  from mark_submitted_stores [OF id_cell_testnet new(4) db'] new
  show "ew_wire w3 = ew_wire w" "ew_kill w3 = ew_kill w" "order_link_pattern (rq_order_link_id req)"
    "lookup_reservation ''testnet'' (ew_identity w) (rq_order_link_id req) = None"
    "lookup_reservation ''testnet'' (ew_identity w3) (rq_order_link_id req) = Some r2"
    "rs_status r2 = ''Submitted''"
    by (simp_all add: w2 w3)
qed

text \<open>A call either sends nothing or one POST, after all stages before it went through.\<close>

lemma execute_sends:
  assumes "execute H M post cl env req now_ms clk w = (res, w')" "ew_wire w' \<noteq> ew_wire w"
  obtains n r1 w2 r2 w3 mu q url where
    "execute_gate H cl env req (current_ms now_ms clk) (clk 1) w = (Inr n, w)"
    "execute_reserve H req (current_ms now_ms clk) (clk 1) w = (Inr r1, w2)"
    "execute_mark H req (current_ms now_ms clk) (clk 2) w2 = (Inr r2, w3)"
    "spot_market_submission (no_side n) (float_repr (no_quantity n)) (float_repr (no_reference_price n)) = Inr (mu, q)"
    "ew_wire w' = ew_wire w @ [signed_request M cl ''https://api-testnet.bybit.com''
        (order_payload n mu q (rq_order_link_id req)) (int_str (clk 3))]"
    "execute_settle H req (current_ms now_ms clk) clk
       (read_response cl n (rq_order_link_id req) (rq_candidate_id req) mu q (post (last (ew_wire w'))))
       (w3\<lparr>ew_wire := ew_wire w'\<rparr>) = (res, w')"
  using assms(1)
proof (cases rule: execute_cases)
  case (gate_fails e)
  with assms(2) execute_gate_world show ?thesis by (fastforce simp: world_step_def)
next
  case (reserve_fails n w1 e)
  with assms(2) execute_gate_Inr(1) execute_reserve_world show ?thesis by (fastforce simp: world_step_def)
next
  case (mark_fails n w1 r1 w2 e)
  with assms(2) execute_gate_Inr(1) execute_reserve_world execute_mark_world show ?thesis
    by (fastforce simp: world_step_def)
next
  case (settled n w1 r1 w2 r2 w3 outcome w4)
  have w1: "w1 = w" using settled(1) by (rule execute_gate_Inr)
  have wire3: "ew_wire w3 = ew_wire w" using execute_prefix(1) [OF settled(1,2,3)] .
  have wire4: "ew_wire w' = ew_wire w4" using settled(5) by (rule execute_settle_wire)
  from settled(4) show ?thesis
  proof (cases rule: execute_send_cases)
    case unsent
    with assms(2) wire3 wire4 show ?thesis by simp
  next
    case (sent mu q url)
    note url = sandbox_base_url [OF sent(2)]
    have w4: "w4 = w3\<lparr>ew_wire := ew_wire w'\<rparr>" by (simp add: wire4 sent(1))
    have wire: "ew_wire w' = ew_wire w @ [signed_request M cl ''https://api-testnet.bybit.com''
        (order_payload n mu q (rq_order_link_id req)) (int_str (clk 3))]"
      unfolding wire4 sent(1) url by (simp add: wire3)
    then have out: "outcome = read_response cl n (rq_order_link_id req) (rq_candidate_id req) mu q
        (post (last (ew_wire w')))"
      by (simp add: sent(4) url)
    show ?thesis
      using settled(1,2,3) sent(3) wire settled(5) unfolding w1 w4 out by (rule that)
  qed
qed

lemma latched_blocks:
  assumes "env_kill_active env \<or> latched (ew_kill w)"
  shows "\<exists>e. execute H M post cl env req now_ms clk w = (Inl e, w)"
proof -
  from assms obtain e where "assert_open env (ew_kill w) = Inl e" using assert_open_blocked by blast
  then have "\<exists>e. execute_gate H cl env req (current_ms now_ms clk) (clk 1) w = (Inl e, w)"
    by (cases "validate_execution_request H req (current_ms now_ms clk)") (simp_all add: execute_gate_def)
  then show ?thesis by (auto simp: execute_def)
qed

lemma trip_and_raise_latches:
  assumes "trip_and_raise reason source msg now w = (r, w')" "strip reason \<noteq> []" "strip source \<noteq> []"
  shows "r = Inl (RuntimeError msg)" "latched (ew_kill w')" "ew_identity w' = ew_identity w"
    "ew_wire w' = ew_wire w"
proof -
  have actor: "strip ''BybitExecutionClient.execute'' \<noteq> []"
    by (simp add: strip_def is_space_def ccode_def)
  obtain st k where t: "trip reason ''BybitExecutionClient.execute'' source now [] (ew_kill w) = (Inr st, k)"
    using trip_alone [OF assms(2) actor assms(3)] by (metis surj_pair)
  have "latched k" by (rule trip_latches(1) [OF _ t]) (simp add: well_behaved_def)
  with t assms(1) show "r = Inl (RuntimeError msg)" "latched (ew_kill w')"
    "ew_identity w' = ew_identity w" "ew_wire w' = ew_wire w"
    by (auto simp: trip_and_raise_def)
qed

lemma unresolved_gate:
  assumes "lookup_reservation ''testnet'' (ew_identity w) l = Some r" "rs_status r \<notin> set id_terminal"
  shows "\<exists>e w'. execute_gate H cl env req now t w = (Inl e, w') \<and> ew_wire w' = ew_wire w \<and>
           ew_identity w' = ew_identity w"
proof -
  have open_case: "unresolved H ''testnet'' (ew_identity w) \<noteq> Inr []"
    using unresolved_lists [OF assms] by (fastforce simp: unresolved_def res_simps)
  obtain r0 w' where g: "execute_gate H cl env req now t w = (r0, w')" by fastforce
  moreover have "\<exists>e. r0 = Inl e"
    using execute_gate_Inr(5) open_case g by (cases r0) auto
  moreover have "ew_wire w' = ew_wire w \<and> ew_identity w' = ew_identity w"
    using g by (auto simp: execute_gate_def split: sum.splits if_splits elim!: trip_and_raise_cases)
  ultimately show ?thesis by blast
qed

text \<open>What settling leaves behind, by outcome.\<close>

lemma settle_accepted:
  assumes "execute_settle H req now clk outcome w = (Inr result, w')"
    and "order_link_pattern (rq_order_link_id req)"
    and "lookup_reservation ''testnet'' (ew_identity w) (rq_order_link_id req) = Some r" "rs_status r = ''Submitted''"
  shows "\<exists>oid r'. outcome = Inr result \<and> er_order_id result = Some oid \<and> ew_kill w' = ew_kill w \<and>
    lookup_reservation ''testnet'' (ew_identity w') (rq_order_link_id req) = Some r' \<and>
    rs_order_id r' = strip oid \<and> strip oid \<noteq> [] \<and> rs_status r' = ''Submitted''"
proof (cases outcome)
  case (Inl e)
  show ?thesis
  proof (cases "\<exists>m c. e = BybitRejectedOrder m c")
    case True
    with assms(1) Inl execute_settle_rejected show ?thesis by blast
  next
    case False
    then have amb: "\<And>m c. e \<noteq> BybitRejectedOrder m c" by blast
    from assms(1) Inl show ?thesis
      by (auto simp: execute_settle_ambiguous [OF amb] elim!: trip_and_raise_cases)
  qed
next
  case (Inr result')
  show ?thesis
  proof (cases "er_order_id result'")
    case None
    with assms(1) Inr show ?thesis by (auto simp: execute_settle_def elim!: trip_and_raise_cases)
  next
    case (Some oid)
    obtain r0 db where b: "bind_accepted H ''testnet'' req oid (max now (clk 4)) (clk 5) [] (ew_identity w) = (r0, db)"
      by fastforce
    with assms(1) Inr Some obtain r' where r0: "r0 = Inr r'" and eq: "result' = result"
      and w': "w' = w\<lparr>ew_identity := db\<rparr>"
      by (cases r0) (auto simp: execute_settle_def)
    from bind_submission_stores [OF id_cell_testnet b [unfolded r0 bind_accepted_def]]
      order_link_pattern_clean [OF assms(2)] assms(3,4) Inr Some
    show ?thesis by (auto simp: eq w')
  qed
qed

section \<open>Facts about a call that sends\<close>

lemma execute_sends_one:
  assumes "execute H M post cl env req now_ms clk w = (res, w')" "ew_wire w' \<noteq> ew_wire w"
  shows "\<exists>q. ew_wire w' = ew_wire w @ [q] \<and>
    hr_url q = ''https://api-testnet.bybit.com/v5/order/create'' \<and> wire_link q = rq_order_link_id req"
  using assms
proof (rule execute_sends)
  fix n r1 w2 r2 w3 mu q
  let ?q = "signed_request M cl ''https://api-testnet.bybit.com''
        (order_payload n mu q (rq_order_link_id req)) (int_str (clk 3))"
  assume "execute_gate H cl env req (current_ms now_ms clk) (clk 1) w = (Inr n, w)"
    "execute_reserve H req (current_ms now_ms clk) (clk 1) w = (Inr r1, w2)"
    "execute_mark H req (current_ms now_ms clk) (clk 2) w2 = (Inr r2, w3)"
  from execute_prefix(3) [OF this] have "wire_link ?q = rq_order_link_id req" by (rule wire_link_payload)
  moreover have "hr_url ?q = ''https://api-testnet.bybit.com/v5/order/create''"
    by (simp add: signed_request_def)
  moreover assume "ew_wire w' = ew_wire w @ [?q]"
  ultimately show ?thesis by blast
qed

lemma execute_sends_gate:
  assumes "execute H M post cl env req now_ms clk w = (res, w')" "ew_wire w' \<noteq> ew_wire w"
  shows "\<exists>u. validate_execution_request H req (current_ms now_ms clk) = Inr u"
    "\<not> env_kill_active env" "\<not> latched (ew_kill w)"
    "unresolved H ''testnet'' (ew_identity w) = Inr []"
    "lookup_reservation ''testnet'' (ew_identity w) (rq_order_link_id req) = None"
  using assms by (auto elim!: execute_sends dest: execute_gate_Inr execute_prefix)

lemma execute_sends_preflight:
  assumes "execute H M post cl env req now_ms clk w = (res, w')" "ew_wire w' \<noteq> ew_wire w"
  shows "ec_mode cl = ''sandbox''" "env_truthy env ''TESTNET_EXECUTION_ENABLED''"
    "\<exists>text x. spot_quote_notional (float_repr (rq_quantity req)) (float_repr (rq_reference_price req)) = Inr text \<and>
      float_of_string text = Some x \<and> isfinite x \<and> \<not> flt (ec_max_notional cl) x"
  using assms by (auto elim!: execute_sends dest: execute_gate_Inr(6) [THEN preflight_Inr(1)]
      execute_gate_Inr(6) [THEN preflight_Inr(5)] execute_gate_Inr(6) [THEN preflight_Inr(10)])

lemma execute_sends_credentials:
  assumes "execute H M post cl env req now_ms clk w = (res, w')" "ew_wire w' \<noteq> ew_wire w"
  shows "ec_api_key cl \<noteq> []" "ec_api_secret cl \<noteq> []"
  using assms by (auto elim!: execute_sends dest: execute_gate_Inr(6) [THEN preflight_Inr(3)]
      execute_gate_Inr(6) [THEN preflight_Inr(4)])

lemma execute_sends_failure:
  assumes "execute H M post cl env req now_ms clk w = (res, w')" "ew_wire w' \<noteq> ew_wire w"
    and "post (last (ew_wire w')) = HttpFailure name"
  shows "(\<exists>m. res = Inl (RuntimeError m)) \<and> latched (ew_kill w') \<and>
    (\<exists>r. lookup_reservation ''testnet'' (ew_identity w') (rq_order_link_id req) = Some r \<and>
         rs_status r = ''Submitted'')"
  using assms(1,2)
proof (rule execute_sends)
  fix n r1 w2 r2 w3 mu q
  assume "execute_gate H cl env req (current_ms now_ms clk) (clk 1) w = (Inr n, w)"
    "execute_reserve H req (current_ms now_ms clk) (clk 1) w = (Inr r1, w2)"
    "execute_mark H req (current_ms now_ms clk) (clk 2) w2 = (Inr r2, w3)"
  note pre = execute_prefix [OF this]
  assume settle: "execute_settle H req (current_ms now_ms clk) clk
       (read_response cl n (rq_order_link_id req) (rq_candidate_id req) mu q (post (last (ew_wire w'))))
       (w3\<lparr>ew_wire := ew_wire w'\<rparr>) = (res, w')"
  have strips: "strip (''ambiguous_exchange_outcome:'' @ error_name (HttpError name)) \<noteq> []"
    "strip ''network_submission'' \<noteq> []"
    by (simp_all add: strip_not_Nil is_space_def ccode_def)
  from settle have "trip_and_raise (''ambiguous_exchange_outcome:'' @ error_name (HttpError name))
      ''network_submission'' (''execution outcome is ambiguous; request remains Submitted, '' @
       ''persistent kill switch is active and reconciliation is required'') (clk 4)
      (w3\<lparr>ew_wire := ew_wire w'\<rparr>) = (res, w')"
    by (simp only: assms(3) read_response_def http_outcome.case execute_settle_ambiguous
        py_error.distinct not_False_eq_True)
  from trip_and_raise_latches [OF this strips] pre(5,6) show ?thesis by simp
qed

lemma execute_returns:
  assumes "execute H M post cl env req now_ms clk w = (Inr result, w')"
  shows "\<exists>oid r. er_order_id result = Some oid \<and> er_order_link_id result = rq_order_link_id req \<and>
    ew_kill w' = ew_kill w \<and> length (ew_wire w') = Suc (length (ew_wire w)) \<and>
    lookup_reservation ''testnet'' (ew_identity w') (rq_order_link_id req) = Some r \<and>
    rs_order_id r = strip oid \<and> rs_status r = ''Submitted''"
  using assms
proof (cases rule: execute_cases)
  case (settled n w1 r1 w2 r2 w3 outcome w4)
  note pre = execute_prefix [OF settled(1,2,3)]
  from settled(4) show ?thesis
  proof (cases rule: execute_send_cases)
    case unsent
    then obtain e where "outcome = Inl e" by blast
    with settle_accepted [OF settled(5) pre(3), of r2] pre unsent show ?thesis by auto
  next
    case (sent mu q url)
    have "lookup_reservation ''testnet'' (ew_identity w4) (rq_order_link_id req) = Some r2"
      using pre(5) by (simp add: sent(1))
    from settle_accepted [OF settled(5) pre(3) this pre(6)] sent(4) pre(1,2)
      execute_settle_wire [OF settled(5)]
    show ?thesis
      by (auto simp: sent(1) read_response_def res_simps split: http_outcome.splits)
  qed
qed simp_all

text \<open>What a call does to the registry is a sequence of registry operations.\<close>

lemma execute_ops:
  assumes "execute H M post cl env req now_ms clk w = (res, w')"
  shows "(registry_op H ''testnet'')\<^sup>*\<^sup>* (ew_identity w) (ew_identity w')"
proof -
  have gate: "ew_identity w2 = ew_identity w1" if "execute_gate H cl env req now t w1 = (r, w2)" for now t w1 w2 r
    using that by (auto simp: execute_gate_def split: sum.splits if_splits elim!: trip_and_raise_cases)
  have reserves: "(registry_op H ''testnet'')\<^sup>*\<^sup>* (ew_identity w1) (ew_identity w2)"
    if "execute_reserve H req now t w1 = (r, w2)" for now t w1 w2 r
  proof -
    obtain out db where db: "repo_reserve H ''testnet'' req now t [] (ew_identity w1) = (out, db)" by fastforce
    then have "db = ew_identity w1 \<or> (\<exists>i out. to_order_intent req = Inr i \<and> reserve H ''testnet'' i now t [] (ew_identity w1) = (out, db))"
      by (auto simp: repo_reserve_def split: sum.splits if_splits prod.splits)
    moreover have "w2 = w1\<lparr>ew_identity := db\<rparr>" using that db by (simp add: execute_reserve_def)
    ultimately show ?thesis using op_reserve [OF to_order_intent_canonical] by auto
  qed
  have marks: "registry_op H ''testnet'' (ew_identity w1) (ew_identity w2)"
    if "execute_mark H req now t w1 = (r, w2)" for now t w1 w2 r
    using that by (auto simp: execute_mark_def mark_submitted_def split: prod.splits intro: op_status)
  have settles: "(registry_op H ''testnet'')\<^sup>*\<^sup>* (ew_identity w1) (ew_identity w2)"
    if settle: "execute_settle H req now clk out w1 = (r, w2)" for now w1 w2 r out
  proof (cases out)
    case (Inl e)
    show ?thesis
    proof (cases "\<exists>m c. e = BybitRejectedOrder m c")
      case True
      then obtain m c where e: "e = BybitRejectedOrder m c" by blast
      obtain out1 db where db: "mark_rejected H ''testnet'' req (max now (clk 4)) (clk 5) [] (ew_identity w1) = (out1, db)"
        by fastforce
      with settle have "ew_identity w2 = db" by (auto simp: Inl e execute_settle_def split: sum.splits)
      then show ?thesis using op_status [OF db [unfolded mark_rejected_def]] by auto
    next
      case False
      then have "\<And>m c. e \<noteq> BybitRejectedOrder m c" by blast
      with settle show ?thesis by (auto simp: Inl execute_settle_ambiguous elim!: trip_and_raise_cases)
    qed
  next
    case (Inr result)
    show ?thesis
    proof (cases "er_order_id result")
      case None
      with settle Inr show ?thesis by (auto simp: execute_settle_def elim!: trip_and_raise_cases)
    next
      case (Some oid)
      obtain out1 db where db: "bind_accepted H ''testnet'' req oid (max now (clk 4)) (clk 5) [] (ew_identity w1) = (out1, db)"
        by fastforce
      with settle Inr Some have "ew_identity w2 = db" by (auto simp: execute_settle_def split: sum.splits)
      then show ?thesis using op_bind [OF db [unfolded bind_accepted_def]] by auto
    qed
  qed
  have sends: "ew_identity w2 = ew_identity w1" if "execute_send M post cl req n t w1 = (r, w2)" for n t w1 w2 r
    using that by (auto simp: execute_send_def split: prod.splits)
  from assms show ?thesis
  proof (cases rule: execute_cases)
    case (gate_fails e)
    then show ?thesis using gate by (metis rtranclp.rtrancl_refl)
  next
    case (reserve_fails n w1 e)
    then show ?thesis using gate reserves by metis
  next
    case (mark_fails n w1 r1 w2 e)
    then show ?thesis using gate [OF mark_fails(2)] reserves [OF mark_fails(3)] marks [OF mark_fails(4)] by simp
  next
    case (settled n w1 r1 w2 r2 w3 outcome w4)
    then show ?thesis
      using gate [OF settled(1)] reserves [OF settled(2)] marks [OF settled(3)] sends [OF settled(4)] settles [OF settled(5)]
      by simp
  qed
qed

end
