(* ===== verification/Json_Text.thy ===== *)
theory Json_Text
  imports Py_Value
begin

text \<open>
  The text \<open>json.dumps\<close> writes determines the value it was written from, for the flat objects the
  program hashes: strings are escaped by a prefix-free code and end at their closing quote, the
  other scalars contain no delimiter, and the keys are sorted.
\<close>

definition escaped_chars :: "char list" where
  "escaped_chars = map char_of ([0..<32] @ [34, 92, 127::nat])"

lemma json_char_plain_cases:
  "c \<in> set escaped_chars \<or> (json_char a c = [c] \<and> c \<noteq> CHR 34 \<and> c \<noteq> CHR 92)"
proof (cases "ccode c < 32 \<or> ccode c \<in> {34, 92, 127}")
  case True
  have c: "c = char_of (nat (ccode c))" by (simp add: ccode_def)
  have "0 \<le> ccode c" by (simp add: ccode_nat)
  with True have "nat (ccode c) \<in> set ([0..<32] @ [34, 92, 127])" by auto
  then have "char_of (nat (ccode c)) \<in> set escaped_chars" unfolding escaped_chars_def by (metis image_eqI list.set_map)
  with c show ?thesis by simp
next
  case False
  then show ?thesis by (auto simp: json_char_def Let_def ccode_def)
qed

lemma escaped_or_self:
  "list_all (\<lambda>c. (hd (json_char a c) = CHR 92 \<or> json_char a c = [CHR 127] \<and> c = CHR 127) \<and> json_char a c \<noteq> []) escaped_chars"
  by (cases a; simp only:; code_simp)

lemma escaped_prefix_free:
  "list_all (\<lambda>c. list_all (\<lambda>d. c = d \<or> \<not> prefix (json_char a c) (json_char a d)) escaped_chars) escaped_chars"
  by (cases a; simp only:; code_simp)


lemma json_char_cases:
  obtains (plain) "json_char a c = [c]" "c \<noteq> CHR 34" "c \<noteq> CHR 92"
  | (escaped) t where "json_char a c = CHR 92 # t" "c \<in> set escaped_chars"
proof (cases "c \<in> set escaped_chars")
  case True
  then have "hd (json_char a c) = CHR 92 \<or> json_char a c = [CHR 127] \<and> c = CHR 127" "json_char a c \<noteq> []"
    using escaped_or_self [of a] by (simp_all add: list_all_iff)
  then show thesis using True plain escaped [of "tl (json_char a c)"] by (cases "json_char a c") auto
next
  case False
  then show thesis using plain json_char_plain_cases [of c a] by blast
qed

lemma escaped_unique:
  assumes "c \<in> set escaped_chars" "d \<in> set escaped_chars" "json_char a c @ x = json_char a d @ y"
  shows "c = d"
proof -
  have free: "u = v \<or> \<not> prefix (json_char a u) (json_char a v)"
    if "u \<in> set escaped_chars" "v \<in> set escaped_chars" for u v
    using escaped_prefix_free [of a, unfolded list_all_iff, THEN bspec, OF that(1), THEN bspec, OF that(2)] .
  have "prefix (json_char a c) (json_char a d) \<or> prefix (json_char a d) (json_char a c)"
  proof (rule prefix_same_cases)
    show "prefix (json_char a c) (json_char a d @ y)" unfolding assms(3) [symmetric] by simp
    show "prefix (json_char a d) (json_char a d @ y)" by simp
  qed
  then show ?thesis using free [OF assms(1,2)] free [OF assms(2,1)] by argo
qed

lemma json_char_unique:
  assumes "json_char a c @ x = json_char a d @ y"
  shows "c = d"
proof (cases a c rule: json_char_cases)
  case c: plain
  show ?thesis by (cases a d rule: json_char_cases) (use assms c in auto)
next
  case c: (escaped t)
  show ?thesis
  proof (cases a d rule: json_char_cases)
    case plain
    with assms c show ?thesis by simp
  next
    case (escaped u)
    from escaped_unique [OF c(2) escaped(2) assms] show ?thesis .
  qed
qed

lemma json_char_no_quote: "json_char a c @ x \<noteq> CHR 34 # y"
  by (cases a c rule: json_char_cases) auto

lemma json_body_unique:
  "concat (map (json_char a) s) @ CHR 34 # x = concat (map (json_char a) t) @ CHR 34 # y \<Longrightarrow> s = t \<and> x = y"
proof (induction s arbitrary: t)
  case Nil
  then show ?case using json_char_no_quote [of a] by (cases t) (auto, metis append_assoc)
next
  case (Cons c s)
  show ?case
  proof (cases t)
    case Nil
    with Cons.prems show ?thesis using json_char_no_quote [of a c] by simp
  next
    case t: (Cons d u)
    from Cons.prems t have eq: "json_char a c @ (concat (map (json_char a) s) @ CHR 34 # x) =
        json_char a d @ (concat (map (json_char a) u) @ CHR 34 # y)" by simp
    then have "c = d" by (rule json_char_unique)
    with eq Cons.IH t show ?thesis by simp
  qed
qed

lemma json_string_unique: "json_string a s @ x = json_string a t @ y \<Longrightarrow> s = t \<and> x = y"
  using json_body_unique [of a s x t y] by (simp add: json_string_def)

text \<open>Values of a flat object: strings, and texts without delimiters.\<close>

definition delimiter :: "char \<Rightarrow> bool" where
  "delimiter c = (c = CHR '','' \<or> c = CHR ''}'')"

definition json_token :: "bool \<Rightarrow> string \<Rightarrow> bool" where
  "json_token a v = ((\<exists>s. v = json_string a s) \<or> list_all (\<lambda>c. \<not> delimiter c \<and> c \<noteq> CHR 34) v)"

abbreviation plain_text :: "string \<Rightarrow> bool" where
  "plain_text \<equiv> list_all (\<lambda>c. \<not> delimiter c \<and> c \<noteq> CHR 34)"

lemma quoted_not_plain:
  assumes "json_string a s @ x = w @ y" "plain_text w" "y \<noteq> []" "delimiter (hd y)"
  shows False
  using assms by (cases w) (auto simp: json_string_def delimiter_def)

lemma plain_prefix:
  assumes "plain_text v" "x \<noteq> []" "delimiter (hd x)"
  shows "takeWhile (\<lambda>c. \<not> delimiter c) (v @ x) = v"
  using assms by (cases x) (auto simp: takeWhile_append list_all_iff)

lemma json_token_unique:
  assumes "json_token a v" "json_token a w" "v @ x = w @ y" "x \<noteq> []" "y \<noteq> []" "delimiter (hd x)" "delimiter (hd y)"
  shows "v = w \<and> x = y"
proof -
  consider (ss) s t where "v = json_string a s" "w = json_string a t" | (sp) s where "v = json_string a s" "plain_text w"
    | (ps) s where "plain_text v" "w = json_string a s" | (pp) "plain_text v" "plain_text w"
    using assms(1,2) unfolding json_token_def by blast
  then show ?thesis
  proof cases
    case ss
    with assms(3) json_string_unique [of a] show ?thesis by blast
  next
    case sp
    with quoted_not_plain [of a s x w y] assms show ?thesis by simp
  next
    case ps
    with quoted_not_plain [of a s y v x] assms show ?thesis by simp
  next
    case pp
    from plain_prefix [OF pp(1) assms(4,6)] plain_prefix [OF pp(2) assms(5,7)] assms(3) have "v = w" by simp
    with assms(3) show ?thesis by simp
  qed
qed

lemma join_Cons: "join sep (x # xs) = x @ (if xs = [] then [] else sep @ join sep xs)"
  by (cases xs) auto

lemma json_members_unique:
  assumes "json_members kvs = json_members kws" "map fst kvs = map fst kws"
    and "\<forall>(k, v) \<in> set kvs. json_token a v" "\<forall>(k, v) \<in> set kws. json_token a v"
  shows "kvs = kws"
proof -
  let ?body = "\<lambda>l. join '','' (map (\<lambda>(k, v). k @ '':'' @ v) l) @ ''}''"
  have "?body kvs = ?body kws" using assms(1) by (simp add: json_members_def)
  then show ?thesis using assms(2-)
  proof (induction kvs arbitrary: kws)
    case (Cons p kvs)
    obtain k v where p: "p = (k, v)" by (cases p)
    with Cons.prems(2) obtain w kws' where kws: "kws = (k, w) # kws'" "map fst kvs = map fst kws'"
      by (cases kws) auto
    let ?r = "\<lambda>l. (if map (\<lambda>(k, v). k @ '':'' @ v) l = [] then [] else '','' @ join '','' (map (\<lambda>(k, v). k @ '':'' @ v) l)) @ ''}''"
    have "v @ ?r kvs = w @ ?r kws'"
      using Cons.prems(1) by (simp only: p kws(1) list.map join_Cons prod.case append.assoc append_Cons append_Nil append_same_eq same_append_eq list.inject)
    moreover have "?r l \<noteq> []" "delimiter (hd (?r l))" for l :: "(string \<times> string) list"
      by (auto simp: delimiter_def)
    ultimately have "v = w \<and> ?r kvs = ?r kws'"
      using Cons.prems(3,4) by (intro json_token_unique [of a]) (auto simp: p kws(1))
    moreover from this have "?body kvs = ?body kws'"
      using kws(2) by (cases kvs; cases kws') (auto simp: join_Cons)
    ultimately show ?case using Cons.IH [of kws'] Cons.prems(3,4) by (auto simp: p kws)
  qed simp
qed


lemma sorted_members_unique:
  assumes "json_members (map (\<lambda>(k, s). (json_string a k, s)) xs) = json_members (map (\<lambda>(k, s). (json_string a k, s)) ys)"
    and "map fst xs = map fst ys" "\<forall>(k, v) \<in> set xs. json_token a v" "\<forall>(k, v) \<in> set ys. json_token a v"
  shows "xs = ys"
proof -
  let ?f = "\<lambda>(k, s). (json_string a k, s)"
  have "map ?f xs = map ?f ys"
  proof (rule json_members_unique [OF assms(1)])
    have "map fst (map ?f zs) = map (json_string a) (map fst zs)" for zs :: "(string \<times> string) list" by (induction zs) auto
    then show "map fst (map ?f xs) = map fst (map ?f ys)" using assms(2) by metis
  qed (use assms(3,4) in auto)
  then have "map snd xs = map snd ys" by (metis (no_types, lifting) list.map_comp comp_def map_eq_conv prod.case_eq_if snd_conv)
  with assms(2) show ?thesis by (metis zip_map_fst_snd)
qed

lemma json_dict_unique:
  assumes "json_dumps a (PyDict xs) = json_dumps a (PyDict ys)" "map fst xs = map fst ys"
    and "\<forall>(k, v) \<in> set xs. json_token a (json_dumps a v)" "\<forall>(k, v) \<in> set ys. json_token a (json_dumps a v)"
  shows "set (map (\<lambda>(k, v). (k, json_dumps a v)) xs) = set (map (\<lambda>(k, v). (k, json_dumps a v)) ys)"
proof -
  let ?f = "\<lambda>(k, v). (k, json_dumps a v)"
  have "map fst (map ?f zs) = map fst zs" for zs :: "(string \<times> pyval) list" by (induction zs) auto
  then have "sort_key fst (map ?f xs) = sort_key fst (map ?f ys)"
    using assms by (intro sorted_members_unique [of a]) (auto simp: map_fst_sort_key simp del: map_map)
  then show ?thesis by (metis set_sort)
qed


lemma int_str_inject: "int_str i = int_str j \<longleftrightarrow> i = j"
proof
  assume eq: "int_str i = int_str j"
  have neg: "nat_str n \<noteq> CHR ''-'' # t" for n t
    using nat_str_digits [of n] by (cases "nat_str n") (auto simp: is_digit_def ccode_def)
  have nat: "nat_str m = nat_str n \<Longrightarrow> m = n" for m n by (metis nat_of_digits_nat_str)
  show "i = j"
  proof (cases "i < 0"; cases "j < 0")
    assume "i < 0" "j < 0"
    with eq show ?thesis by (auto simp: int_str_def dest!: nat)
  next
    assume "\<not> i < 0" "\<not> j < 0"
    with eq show ?thesis by (auto simp: int_str_def dest!: nat)
  qed (use eq neg neg [symmetric] in \<open>auto simp: int_str_def\<close>)
qed simp

lemma int_str_plain: "plain_text (int_str i)"
proof -
  have "plain_text (nat_str n)" for n
    using nat_str_digits [of n] by (auto simp: list_all_iff is_digit_def delimiter_def ccode_def)
  then show ?thesis by (simp add: int_str_def delimiter_def)
qed

lemma json_tokens [simp]:
  "json_token a (json_string a s)" "json_token a (int_str i)" "json_token a ''true''" "json_token a ''false''"
  using int_str_plain [of i] by (auto simp: json_token_def delimiter_def)

lemma json_string_inject: "json_string a s = json_string a t \<longleftrightarrow> s = t"
  using json_string_unique [of a s "[]" t "[]"] by auto

end
