(* ===== verification/Registry_Theorems.thy ===== *)
theory Registry_Theorems
  imports Order_Identity Json_Text
begin

text \<open>
  The guarantees of the order identity registry for its clients: reservations only move forward,
  the documents the operations leave behind are always readable again, a fresh reservation is
  unique and obeys the retry rule, and the canonical text of an intent is a fixed point of its
  construction.
\<close>

section \<open>Operations\<close>

lemma registry_op_step:
  assumes "registry_op H env db db'" "clean_cell id_namespace env"
  shows "registry_step H env db db'"
  using assms by cases (auto intro: reserve_step bind_submission_step update_status_step)

lemma registry_ops_lookup:
  assumes "(registry_op H env)\<^sup>*\<^sup>* db db'" "clean_cell id_namespace env"
    and "lookup_reservation env db l = Some r"
  shows "\<exists>r'. lookup_reservation env db' l = Some r' \<and> (r' = r \<or> advances r r')"
  using assms(1)
proof (induction rule: rtranclp_induct)
  case base
  with assms(3) show ?case by blast
next
  case (step db1 db2)
  then obtain r1 where r1: "lookup_reservation env db1 l = Some r1" "r1 = r \<or> advances r r1" by blast
  from registry_step_lookup [OF registry_op_step [OF step.hyps(2) assms(2)] r1(1)] r1(2)
  show ?case by (metis advances_trans)
qed

lemma registry_ops_frame:
  assumes "(registry_op H env)\<^sup>*\<^sup>* db db'" "clean_cell id_namespace env" "k \<noteq> (id_namespace, env)"
  shows "db' k = db k"
  using assms(1)
proof (induction rule: rtranclp_induct)
  case (step y z)
  from registry_op_step [OF step.hyps(2) assms(2)] step.IH assms(3) show ?case
    by (auto simp: registry_step_def id_write_def)
qed simp

lemma not_flt_refl: "\<not> flt x x"
  by (cases x) auto

lemma fle_not_flt: "fle x y \<Longrightarrow> \<not> flt y x"
  by (cases x; cases y) (auto simp: fle_def)

section \<open>A fresh reservation\<close>

lemma latest_attempt_in: "latest_attempt b rs \<in> insert b (set rs)"
proof (induction rs arbitrary: b)
  case (Cons r rs)
  from Cons.IH [of "if rs_attempt b < rs_attempt r then r else b"] show ?case by auto
qed simp

lemma latest_attempt_max: "\<forall>q \<in> insert b (set rs). rs_attempt q \<le> rs_attempt (latest_attempt b rs)"
proof (induction rs arbitrary: b)
  case (Cons r rs)
  from Cons.IH [of "if rs_attempt b < rs_attempt r then r else b"] show ?case by (auto split: if_splits)
qed simp

lemma retry_check_Inr:
  assumes "retry_check intent previous = Inr ()"
  shows "(oi_attempt intent = 1 \<and> previous = []) \<or>
    (\<exists>q \<in> set previous. oi_attempt intent = rs_attempt q + 1 \<and> rs_status q \<in> set zero_fill_retryable \<and>
       feq (rs_cum_exec_qty q) (Fin 0) \<and> (\<forall>q' \<in> set previous. rs_attempt q' \<le> rs_attempt q))"
proof (cases previous)
  case Nil
  with assms show ?thesis by (simp add: retry_check_def split: if_splits)
next
  case (Cons p ps)
  let ?q = "latest_attempt p ps"
  from assms Cons have "oi_attempt intent = rs_attempt ?q + 1" "rs_status ?q \<in> set zero_fill_retryable"
    "feq (rs_cum_exec_qty ?q) (Fin 0)"
    by (simp_all add: retry_check_def Let_def split: if_splits)
  moreover have "?q \<in> set previous" "\<forall>q' \<in> set previous. rs_attempt q' \<le> rs_attempt ?q"
    using latest_attempt_in [of p ps] latest_attempt_max [of p ps] by (simp_all add: Cons)
  ultimately show ?thesis by blast
qed

lemma reserve_fresh:
  assumes "clean_cell id_namespace env" "well_behaved others"
    and "reserve H env intent now clock others db = (Inr (r, False), db')"
  obtains db0 d d' where "kv_evolves db db0" "id_read H env db0 = Inr d"
    "reserve_mutate H intent now d = Inr (d', r, False)" "db' = id_write env d' clock db0"
proof -
  from assms(3) obtain v where u: "optimistic_update 5 id_namespace env
      (\<lambda>row. rbind (identity_document H env (map_option kv_doc row)) (reserve_mutate H intent now))
      ''order identity update conflicted repeatedly'' clock others db = (Inr ((r, False), v), db')"
    by (auto simp: reserve_def id_timestamp_def id_update_def split: if_splits sum.splits prod.splits)
  from optimistic_update_linearizes [OF assms(1,2) u]
  obtain db0 d' where "kv_evolves db db0"
    and m: "rbind (identity_document H env (map_option kv_doc (db0 (id_namespace, env)))) (reserve_mutate H intent now) = Inr (d', r, False)"
    and "v = kv_current (db0 (id_namespace, env)) + 1"
    "db' = db0((id_namespace, env) \<mapsto> \<lparr>kv_doc = d', kv_version = v, kv_updated_at_ms = clock\<rparr>)" by blast
  moreover from m obtain d where "id_read H env db0 = Inr d" "reserve_mutate H intent now d = Inr (d', r, False)"
    by (auto simp: res_simps id_read_def)
  ultimately show thesis using that by (simp add: id_write_def)
qed

text \<open>The reservations a reader sees that belong to the same order as an intent, attempts aside.\<close>

definition same_order :: "(string \<Rightarrow> string) \<Rightarrow> string \<Rightarrow> identity_doc kv \<Rightarrow> order_intent \<Rightarrow> reservation set" where
  "same_order H env db intent =
     {q. \<exists>l. lookup_reservation env db l = Some q \<and> rs_root_fingerprint q = root_fingerprint H intent}"

lemma same_order_wf:
  assumes "id_read H env db = Inr d" "distinct (map fst (id_reservations d))"
  shows "set (filter (\<lambda>r. rs_root_fingerprint r = root_fingerprint H intent) (map snd (id_reservations d))) =
    same_order H env db intent"
  using assms by (auto simp: same_order_def id_read_lookup dest: map_of_SomeD) force+

lemma fresh_reservation_rules:
  assumes "id_read H env db0 = Inr d" "distinct (map fst (id_reservations d))"
    and "reserve_mutate H intent now d = Inr (d', r, False)"
  shows "lookup_reservation env db0 (order_link_id H intent) = None"
    "map_of (id_reservations d') (order_link_id H intent) = Some r"
    "rs_status r = ''Reserved''" "rs_intent r = intent"
    "(oi_attempt intent = 1 \<and> same_order H env db0 intent = {}) \<or>
     (\<exists>q \<in> same_order H env db0 intent. oi_attempt intent = rs_attempt q + 1 \<and>
        rs_status q \<in> set zero_fill_retryable \<and> feq (rs_cum_exec_qty q) (Fin 0) \<and>
        (\<forall>q' \<in> same_order H env db0 intent. rs_attempt q' \<le> rs_attempt q))"
proof -
  from assms(3) show l: "lookup_reservation env db0 (order_link_id H intent) = None"
    and "map_of (id_reservations d') (order_link_id H intent) = Some r"
    and "rs_status r = ''Reserved''" "rs_intent r = intent"
    by (cases rule: reserve_mutate_cases, simp, simp add: id_read_lookup [OF assms(1)] update_conv')+
  from assms(3) have "retry_check intent (filter (\<lambda>r. rs_root_fingerprint r = root_fingerprint H intent)
         (map snd (id_reservations d))) = Inr ()"
    by (cases rule: reserve_mutate_cases) simp_all
  from retry_check_Inr [OF this] show "(oi_attempt intent = 1 \<and> same_order H env db0 intent = {}) \<or>
     (\<exists>q \<in> same_order H env db0 intent. oi_attempt intent = rs_attempt q + 1 \<and>
        rs_status q \<in> set zero_fill_retryable \<and> feq (rs_cum_exec_qty q) (Fin 0) \<and>
        (\<forall>q' \<in> same_order H env db0 intent. rs_attempt q' \<le> rs_attempt q))"
    unfolding same_order_wf [OF assms(1,2)] by (metis set_empty same_order_wf [OF assms(1,2)])
qed

section \<open>What is hashed\<close>

text \<open>
  The text that is hashed determines the intent, so two intents share a fingerprint only by a
  collision of the digest.
\<close>

lemma intent_payload_inject:
  assumes "json_dumps False (PyDict (intent_payload i)) = json_dumps False (PyDict (intent_payload j))"
  shows "i = j"
proof -
  let ?text = "\<lambda>i. map (\<lambda>(k, v). (k, json_dumps False v)) (intent_payload i)"
  have keys: "distinct (map fst (?text i))" for i by (simp add: intent_payload_def root_payload_def)
  have "set (?text i) = set (?text j)"
    using assms by (rule json_dict_unique) (simp_all add: intent_payload_def root_payload_def)
  then have "map_of (?text i) = map_of (?text j)" using keys map_of_inject_set by blast
  then have key: "map_of (?text i) k = map_of (?text j) k" for k by (rule fun_cong)
  from key [of "''candidate_id''"] key [of "''environment''"] key [of "''category''"] key [of "''symbol''"]
    key [of "''side''"] key [of "''order_type''"] key [of "''quantity''"] key [of "''price''"]
    key [of "''time_in_force''"] key [of "''reduce_only''"] key [of "''position_idx''"] key [of "''market_unit''"]
    key [of "''attempt''"]
  show ?thesis
    by (intro order_intent.equality)
      (simp_all add: intent_payload_def root_payload_def json_string_inject int_str_inject split: if_splits)
qed

section \<open>Decimals that are rounded to zero\<close>

text \<open>
  The decimal context rounds a positive number below its smallest exponent to zero, which creating
  an intent accepts and creating it again refuses.
\<close>

lemma drop_digits_one:
  assumes "0 < k"
  shows "drop_digits k 1 = 0"
proof -
  obtain m where k: "k = Suc m" using assms by (cases k) auto
  have "(1 :: nat) \<le> 10 ^ m" by simp
  then have "(2 :: nat) < 10 ^ k" unfolding k power_Suc by linarith
  then show ?thesis by (simp add: drop_digits_def Let_def)
qed

lemma tiny_decimal: "decimal_text ''1e-2000000'' name True = Inr ''0''"
proof -
  have t: "remove_char (CHR ''_'') (strip ''1e-2000000'') = ''1e-2000000''" "ungroup ''2000000'' = Some ''2000000''" by code_simp+
  have v: "nat_of_digits ''2000000'' = 2000000" "nat_of_digits ''1'' = 1" "ungroup ''1'' = Some ''1''"
    by (simp_all add: nat_of_digits_def digit_val_def ccode_def is_digit_def)
  have e: "parse_exponent ''e-2000000'' = Some (- 2000000)" by (simp add: parse_exponent_def split_sign_def t(2) v del: ungroup.simps)
  have "parse_number ''1e-2000000'' = Some (False, 1, - 2000000)" by (simp add: parse_number_def split_sign_def e v(2,3) del: ungroup.simps(2,3))
  then have d: "dec_of_string ''1e-2000000'' = Inr (DFin False 1 (- 2000000))" by (simp add: dec_of_string_def Let_def t)
  have n: "ndigits 1 = 1" "ndigits 0 = 1" by code_simp+
  have z: "drop_digits 999974 (Suc 0) = 0" using drop_digits_one [of 999974] by simp
  have m: "max (ndigits 1 + (- 2000000) - dec_prec) dec_etiny = dec_etiny"
    unfolding n dec_prec_def dec_etiny_def by simp
  have "dec_fix False 1 (- 2000000) = Inr (DFin False 0 dec_etiny)"
    unfolding dec_fix_def Let_def m by (simp add: z n [simplified] dec_etop_def dec_prec_def dec_etiny_def)
  then have norm: "dec_normalize (DFin False 1 (- 2000000)) = Inr (DFin False 0 0)" by (simp add: dec_normalize_def)
  have "0 < dec_val (DFin False 1 (- 2000000))" unfolding dec_val_pos_iff by simp
  moreover have "format_f False 0 0 = ''0''" by code_simp
  ultimately show ?thesis unfolding decimal_text_def d by (simp add: norm [simplified] Let_def del: dec_val.simps)
qed

section \<open>Properties\<close>

definition sample_intent :: "int \<Rightarrow> order_intent" where
  "sample_intent attempt =
     \<lparr>oi_candidate_id = ''c1'', oi_environment = ''testnet'', oi_category = ''spot'',
      oi_symbol = ''BTCUSDT'', oi_side = ''Sell'', oi_order_type = ''Market'', oi_quantity = ''0.5'',
      oi_price = [], oi_time_in_force = ''IOC'', oi_reduce_only = False, oi_position_idx = 0,
      oi_market_unit = ''baseCoin'', oi_attempt = attempt\<rparr>"

lemma sample_created:
  "create ''c1'' ''testnet'' ''spot'' '' btcusdt '' ''sell'' ''market'' ''+00.500'' None None False 0 (Some ''baseCoin'') 1 =
     Inr (sample_intent 1)"
  by code_simp

lemma sample_recreated: "recreate (sample_intent 1) = Inr (sample_intent 1)"
  by code_simp

definition sample_registry :: "identity_doc kv" where
  "sample_registry = snd (reserve sha256_hex ''testnet'' (sample_intent 1) 1000 1001 [] (\<lambda>_. None))"

lemma sample_reserve:
  "\<exists>r. reserve sha256_hex ''testnet'' (sample_intent 1) 1000 1001 [] (\<lambda>_. None) = (Inr (r, False), sample_registry) \<and>
       rs_order_link_id r = order_link_id sha256_hex (sample_intent 1) \<and> rs_status r = ''Reserved'' \<and>
       rs_updated_at_ms r = 1000 \<and> rs_cum_exec_qty r = Fin 0 \<and>
       lookup_reservation ''testnet'' sample_registry (order_link_id sha256_hex (sample_intent 1)) = Some r"
  unfolding sample_registry_def
  by (simp add: reserve_def id_timestamp_def id_update_alone id_read_def identity_document_def reserve_mutate_def
      retry_check_def sample_intent_def Let_def)

lemma sample_reachable: "registry_reachable sha256_hex ''testnet'' sample_registry"
  using sample_reserve
  by (blast intro: registry_reachable.op registry_reachable.start op_reserve sample_recreated)

text \<open>
  C19. Reservations only move forward: whatever the registry operations do, a reservation stays in
  the registry under its link with the same intent, attempt, creation time, fingerprint and root
  fingerprint; its time, revision and executed quantity never decrease, a bound order id is never
  replaced, its status never falls back in the order \<open>Reserved\<close>, \<open>Submitted\<close>, \<open>Untriggered\<close>,
  \<open>Triggered\<close>, \<open>New\<close>, \<open>PartiallyFilled\<close>, ended, and a terminal one keeps its status and quantity
  for ever.
\<close>

theorem reservations_only_advance:
  assumes "(registry_op H env)\<^sup>*\<^sup>* db db'" "env \<in> set id_environments"
    and "lookup_reservation env db l = Some r"
  shows "\<exists>r'. lookup_reservation env db' l = Some r' \<and> rs_intent r' = rs_intent r \<and>
    rs_attempt r' = rs_attempt r \<and> rs_fingerprint r' = rs_fingerprint r \<and>
    rs_root_fingerprint r' = rs_root_fingerprint r \<and> rs_order_link_id r' = rs_order_link_id r \<and>
    rs_created_at_ms r' = rs_created_at_ms r \<and>
    rs_updated_at_ms r \<le> rs_updated_at_ms r' \<and> rs_revision r \<le> rs_revision r' \<and>
    \<not> flt (rs_cum_exec_qty r') (rs_cum_exec_qty r) \<and>
    (rs_order_id r \<noteq> [] \<longrightarrow> rs_order_id r' = rs_order_id r) \<and>
    (rs_status r \<noteq> ''Reserved'' \<longrightarrow> rs_status r' \<noteq> ''Reserved'') \<and>
    status_rank (rs_status r) \<le> status_rank (rs_status r') \<and>
    (rs_status r \<in> set id_terminal \<longrightarrow>
       rs_status r' = rs_status r \<and> rs_cum_exec_qty r' = rs_cum_exec_qty r)"
proof -
  obtain r' where "lookup_reservation env db' l = Some r'" "r' = r \<or> advances r r'"
    using registry_ops_lookup [OF assms(1) id_cell [OF assms(2)] assms(3)] by blast
  moreover have "rs_status r \<noteq> ''Reserved'' \<longrightarrow> rs_status r' \<noteq> ''Reserved''"
    using calculation(2) advances_not_reserved by blast
  ultimately show ?thesis by (auto simp: advances_def not_flt_refl dest: fle_not_flt)
qed

theorem reservations_only_advance_witness:
  "\<exists>r r'. lookup_reservation ''testnet'' sample_registry (order_link_id sha256_hex (sample_intent 1)) = Some r \<and>
     lookup_reservation ''testnet''
       (snd (update_status sha256_hex ''testnet'' (order_link_id sha256_hex (sample_intent 1)) ''Submitted'' (Fin 0) 2000
          None 2001 [] sample_registry)) (order_link_id sha256_hex (sample_intent 1)) = Some r' \<and>
     rs_intent r' = rs_intent r"
proof -
  let ?l = "order_link_id sha256_hex (sample_intent 1)"
  let ?u = "update_status sha256_hex ''testnet'' ?l ''Submitted'' (Fin 0) 2000 None 2001 [] sample_registry"
  obtain r where r: "lookup_reservation ''testnet'' sample_registry ?l = Some r" using sample_reserve by blast
  have "registry_op sha256_hex ''testnet'' sample_registry (snd ?u)"
    by (rule op_status [of _ _ _ _ _ _ _ _ _ "fst ?u"]) simp
  then have "(registry_op sha256_hex ''testnet'')\<^sup>*\<^sup>* sample_registry (snd ?u)" by blast
  from reservations_only_advance [OF this _ r] r show ?thesis by (auto simp: id_environments_def)
qed

text \<open>
  The registry can always be read again: after any sequence of operations on an initially
  empty table, with the real digest, \<open>snapshot\<close> accepts the stored document, and lists exactly the
  stored reservations.
\<close>

theorem registry_stays_readable:
  assumes "registry_reachable sha256_hex env db" "env \<in> set id_environments"
  shows "\<exists>s. snapshot sha256_hex env db = Inr s \<and>
    (\<forall>r. r \<in> set (is_reservations s) \<longleftrightarrow> lookup_reservation env db (rs_order_link_id r) = Some r)"
proof -
  have wf: "registry_store_wf sha256_hex env db" using assms by (rule sha256.registry_reachable_wf)
  obtain d where d: "id_read sha256_hex env db = Inr d" "registry_wf sha256_hex env d" using id_read_wf [OF wf] by blast
  with id_cell [OF assms(2)] obtain s where s: "snapshot sha256_hex env db = Inr s"
    "set (is_reservations s) = set (map snd (id_reservations d))"
    by (auto simp: snapshot_def get_json_clean id_read_def Let_def)
  have "r \<in> set (map snd (id_reservations d)) \<longleftrightarrow> map_of (id_reservations d) (rs_order_link_id r) = Some r" for r
    using d(2) by (auto simp: registry_wf_iff dest: map_of_SomeD) force
  with s d(1) show ?thesis by (auto simp: id_read_lookup)
qed

theorem registry_stays_readable_witness:
  "\<exists>s. snapshot sha256_hex ''testnet'' sample_registry = Inr s"
  using registry_stays_readable [OF sample_reachable] by (auto simp: id_environments_def)

text \<open>
  C21. The retry discipline: a reservation that is not a duplicate is stored under a link nobody
  holds, in status \<open>Reserved\<close>; it is the first attempt of an order without reservations, or the
  successor of the latest attempt, and that one ended without a fill.
\<close>

theorem fresh_reservation_is_safe:
  assumes "registry_reachable sha256_hex env db" "env \<in> set id_environments"
    and "reserve sha256_hex env intent now clock [] db = (Inr (r, False), db')"
  shows "lookup_reservation env db (order_link_id sha256_hex intent) = None \<and>
    lookup_reservation env db' (order_link_id sha256_hex intent) = Some r \<and>
    rs_status r = ''Reserved'' \<and> rs_intent r = intent \<and>
    ((oi_attempt intent = 1 \<and> same_order sha256_hex env db intent = {}) \<or>
     (\<exists>q \<in> same_order sha256_hex env db intent. oi_attempt intent = rs_attempt q + 1 \<and>
        rs_status q \<in> set zero_fill_retryable \<and> feq (rs_cum_exec_qty q) (Fin 0) \<and>
        (\<forall>q' \<in> same_order sha256_hex env db intent. rs_attempt q' \<le> rs_attempt q)))"
proof -
  note cell = id_cell [OF assms(2)]
  obtain d where d: "id_read sha256_hex env db = Inr d" "registry_wf sha256_hex env d"
    using id_read_wf [OF sha256.registry_reachable_wf [OF assms(1,2)]] by blast
  from assms(3) have "id_update sha256_hex env (reserve_mutate sha256_hex intent now) clock [] db = (Inr (r, False), db')"
    by (auto simp: reserve_def id_timestamp_def split: if_splits)
  then obtain d' where m: "reserve_mutate sha256_hex intent now d = Inr (d', r, False)"
    and db': "db' = id_write env d' clock db"
    unfolding id_update_alone [OF cell] d(1) by (auto split: sum.splits)
  from d(2) have "distinct (map fst (id_reservations d))" by (simp add: registry_wf_iff)
  from fresh_reservation_rules [OF d(1) this m] show ?thesis unfolding db' lookup_write by blast
qed

theorem fresh_reservation_is_safe_witness:
  "lookup_reservation ''testnet'' (\<lambda>_. None) (order_link_id sha256_hex (sample_intent 1)) = None \<and>
   (\<exists>r. lookup_reservation ''testnet'' sample_registry (order_link_id sha256_hex (sample_intent 1)) = Some r)"
proof -
  obtain r where r: "reserve sha256_hex ''testnet'' (sample_intent 1) 1000 1001 [] (\<lambda>_. None) =
      (Inr (r, False), sample_registry)" using sample_reserve by blast
  from fresh_reservation_is_safe [OF registry_reachable.start _ r] show ?thesis by (auto simp: id_environments_def)
qed

text \<open>
  C22. Round trip of an intent: an intent that was created is reproduced exactly by creating it again
  from its own fields, the check every registry read makes, unless its quantity or its price was
  rounded to \<open>0\<close>, and then it is not (a positive text that small exists: \<open>tiny_decimal\<close>).
\<close>

theorem intent_round_trip:
  assumes "create cid env cat sy sd ot q p tif ro px mu att = Inr i"
  shows "recreate i = Inr i \<longleftrightarrow> oi_quantity i \<noteq> ''0'' \<and> oi_price i \<noteq> ''0''"
  using assms by (rule recreate_iff)

theorem intent_round_trip_witness: "recreate (sample_intent 1) = Inr (sample_intent 1)"
  using intent_round_trip [OF sample_created] by (simp add: sample_intent_def)

text \<open>
  Canonical decimals: the text of a decimal is a fixed point of canonicalisation, so that equal
  quantities written differently give one fingerprint.
\<close>

theorem decimal_text_is_canonical:
  assumes "decimal_text v name pos = Inr t" "t \<noteq> ''0''"
  shows "decimal_text t name' pos = Inr t"
  using assms(1) by (rule decimal_text_fixed) (rule assms(2))

theorem decimal_text_is_canonical_witness:
  "decimal_text ''07.50'' ''quantity'' True = Inr ''7.5'' \<and> decimal_text ''7.5'' ''price'' True = Inr ''7.5''"
proof -
  have d: "decimal_text ''07.50'' ''quantity'' True = Inr ''7.5''" by code_simp
  from decimal_text_is_canonical [OF d] d show ?thesis by simp
qed

text \<open>
  The text hashed into a fingerprint is injective: two intents are written to the same text
  exactly when they are equal, attempt included, so they share a fingerprint or an
  \<open>orderLinkId\<close> only if the digest collides.
\<close>

theorem fingerprint_text_identifies_intent:
  "json_dumps False (PyDict (intent_payload i)) = json_dumps False (PyDict (intent_payload j)) \<longleftrightarrow> i = j"
  using intent_payload_inject by blast

end
