(* ===== verification/Order_State.thy ===== *)
theory Order_State
  imports Order_Identity
begin

text \<open>
  \<open>exchange_connector/bybit_order_state.py\<close>: the private order state. A message of the exchange
  (a dynamic value) is checked and normalised to order states, which are merged into one document
  per environment: orders under a canonical key and the aliases that lead to it. The document is
  re-validated on every read. \<open>reconcile\<close> compares the managed orders with the execution
  journal. Stored documents have the shape the store writes.
\<close>

section \<open>Constants\<close>

definition os_open :: "string list" where
  "os_open = [''Untriggered'', ''New'', ''PartiallyFilled'']"

definition os_closed :: "string list" where
  "os_closed = [''Triggered'', ''Filled'', ''Cancelled'', ''Rejected'', ''Deactivated'',
     ''PartiallyFilledCanceled'']"

definition os_allowed :: "string list" where
  "os_allowed = os_open @ os_closed"

definition os_terminal :: "string list" where
  "os_terminal = [''Filled'', ''Cancelled'', ''Rejected'', ''Deactivated'', ''PartiallyFilledCanceled'']"

definition os_transitions :: "string \<Rightarrow> string list option" where
  "os_transitions = map_of [
     (''Untriggered'', [''Untriggered'', ''Triggered'', ''New'', ''Cancelled'', ''Rejected'', ''Deactivated'']),
     (''Triggered'', [''Triggered'', ''New'', ''PartiallyFilled'', ''Filled'', ''Cancelled'', ''Rejected'', ''Deactivated'']),
     (''New'', [''New'', ''PartiallyFilled'', ''Filled'', ''Cancelled'', ''Rejected'', ''PartiallyFilledCanceled'']),
     (''PartiallyFilled'', [''PartiallyFilled'', ''Filled'', ''Cancelled'', ''PartiallyFilledCanceled''])]"

definition os_categories :: "string list" where
  "os_categories = [''spot'', ''linear'', ''inverse'', ''option'']"

definition os_topics :: "string list" where
  "os_topics = [''order'', ''order.spot'', ''order.linear'', ''order.inverse'', ''order.option'']"

definition tolerance :: pyfloat where
  "tolerance = rnd64 (1 / 10 ^ 12)"

section \<open>Conversions\<close>

definition exchange_environment :: "string \<Rightarrow> string res" where
  "exchange_environment v =
     (let clean = lower (strip v)
      in if clean \<in> set [''sandbox'', ''testnet''] then Inr ''testnet''
         else if clean \<in> set [''live'', ''mainnet'', ''live_read_only''] then Inr ''mainnet''
         else Inl (ValueError ''environment must be testnet or mainnet''))"

definition journal_environment :: "pyval \<Rightarrow> string res" where
  "journal_environment v =
     (let clean = lower (strip (py_str (py_or v (PyStr []))))
      in if clean = [] then Inr [] else exchange_environment clean)"

definition os_finite :: "pyval \<Rightarrow> string \<Rightarrow> bool \<Rightarrow> pyfloat res" where
  "os_finite v name positive =
     rbind (py_float v) (\<lambda>parsed.
       if \<not> isfinite parsed \<or> (positive \<and> fle parsed (Fin 0))
       then Inl (ValueError (name @ '' must be finite'' @ (if positive then '' and positive'' else [])))
       else Inr parsed)"

definition os_positive_int :: "pyval \<Rightarrow> string \<Rightarrow> int res" where
  "os_positive_int v name =
     rbind (py_int v) (\<lambda>parsed.
       if parsed \<le> 0 then Inl (ValueError (name @ '' must be positive'')) else Inr parsed)"

definition os_identifier :: "pyval \<Rightarrow> string \<Rightarrow> string res" where
  "os_identifier v name =
     (let text = strip (py_str v)
      in if text = [] \<or> 128 < length text \<or> \<not> list_all id_char text
         then Inl (ValueError (''invalid '' @ name)) else Inr text)"

definition os_optional_identifier :: "pyval \<Rightarrow> string \<Rightarrow> string res" where
  "os_optional_identifier v name =
     (let text = strip (py_str (py_or v (PyStr [])))
      in if text \<noteq> [] then os_identifier (PyStr text) name else Inr [])"

definition order_alias :: "string \<Rightarrow> string" where
  "order_alias order_id = (if order_id \<noteq> [] then ''order:'' @ order_id else [])"

definition link_alias :: "string \<Rightarrow> string" where
  "link_alias link_id = (if link_id \<noteq> [] then ''link:'' @ link_id else [])"

section \<open>States\<close>

record order_state =
  os_environment :: string
  os_order_id :: string
  os_order_link_id :: string
  os_category :: string
  os_symbol :: string
  os_side :: string
  os_status :: string
  os_qty :: pyfloat
  os_cum_exec_qty :: pyfloat
  os_avg_price :: pyfloat
  os_created_time_ms :: int
  os_updated_time_ms :: int
  os_message_creation_time_ms :: int
  os_message_id :: string
  os_reject_reason :: string

definition os_managed :: "order_state \<Rightarrow> bool" where
  "os_managed s = startswith (os_order_link_id s) ''sai_''"

definition os_is_terminal :: "order_state \<Rightarrow> bool" where
  "os_is_terminal s = (os_status s \<in> set os_terminal)"

record order_doc =
  od_environment :: string
  od_orders :: "order_state dict"
  od_aliases :: "string dict"
  od_last_message_creation_ms :: int
  od_updated_at_ms :: int

record order_store =
  st_environment :: string
  st_max_message_lag_ms :: int
  st_max_future_skew_ms :: int

definition os_namespace :: string where
  "os_namespace = ''bybit_private_orders''"

definition order_store_init ::
  "os_env \<Rightarrow> string option \<Rightarrow> pyfloat option \<Rightarrow> int option \<Rightarrow> order_store res" where
  "order_store_init env environment max_message_lag_seconds max_future_skew_ms =
     rbind (exchange_environment
              (if given environment \<noteq> [] then given environment
               else getenv env ''EXCHANGE_MODE'' ''sandbox'')) (\<lambda>environment_value.
     rbind (case max_message_lag_seconds of Some lag \<Rightarrow> Inr lag
            | None \<Rightarrow> os_finite (PyStr (getenv env ''BYBIT_PRIVATE_EVENT_MAX_LAG_SECONDS'' ''30''))
                        ''max message lag'' False) (\<lambda>configured_lag.
     rbind (int_of_float (fmul (py_min (py_max configured_lag (Fin 1)) (Fin 300)) (Fin 1000))) (\<lambda>lag_ms.
     rbind (case max_future_skew_ms of Some skew \<Rightarrow> Inr skew
            | None \<Rightarrow> py_int (PyStr (getenv env ''BYBIT_PRIVATE_EVENT_MAX_FUTURE_SKEW_MS'' ''1000'')))
           (\<lambda>configured_skew.
       Inr \<lparr>st_environment = environment_value, st_max_message_lag_ms = lag_ms,
            st_max_future_skew_ms = min (max configured_skew 0) 5000\<rparr>))))"

section \<open>Semantics of one state\<close>

definition validate_semantics :: "order_state \<Rightarrow> unit res" where
  "validate_semantics s =
     (let executed = os_cum_exec_qty s; qty = os_qty s; average = os_avg_price s; status = os_status s
      in if flt tolerance executed \<and> fle average (Fin 0)
         then Inl (ValueError ''avgPrice must be positive after execution'')
         else if fle executed tolerance \<and> flt tolerance average
         then Inl (ValueError ''avgPrice must be zero before execution'')
         else if status = ''Filled'' \<and> flt tolerance (fabs (fsub executed qty))
         then Inl (ValueError ''Filled requires cumExecQty equal to qty'')
         else if status \<in> set [''PartiallyFilled'', ''PartiallyFilledCanceled''] \<and>
                 \<not> (flt tolerance executed \<and> flt executed (fsub qty tolerance))
         then Inl (ValueError (status @ '' requires partial execution''))
         else if status = ''PartiallyFilledCanceled'' \<and> os_category s \<noteq> ''spot''
         then Inl (ValueError ''PartiallyFilledCanceled is spot-only'')
         else if status = ''Cancelled'' \<and> fle (fsub qty tolerance) executed
         then Inl (ValueError ''Cancelled cannot be fully executed'')
         else if status = ''Cancelled'' \<and> os_category s = ''spot'' \<and> flt tolerance executed
         then Inl (ValueError ''partial spot cancellation requires PartiallyFilledCanceled'')
         else if status \<in> set [''Untriggered'', ''Triggered'', ''New'', ''Rejected'', ''Deactivated''] \<and>
                 flt tolerance executed
         then Inl (ValueError (status @ '' cannot report execution'')) else Inr ())"

text \<open>\<open>"." in topic and topic.split(".", 1)[1] != category\<close>.\<close>

definition topic_mismatch :: "string \<Rightarrow> string \<Rightarrow> bool" where
  "topic_mismatch topic category =
     (CHR ''.'' \<in> set topic \<and> drop (Suc (length (takeWhile (\<lambda>c. c \<noteq> CHR ''.'') topic))) topic \<noteq> category)"

definition normalize_row ::
  "pyval \<Rightarrow> string \<Rightarrow> string \<Rightarrow> string \<Rightarrow> int \<Rightarrow> int \<Rightarrow> int \<Rightarrow> int \<Rightarrow> order_state res" where
  "normalize_row raw topic environment message_id message_creation_ms received_at_ms
       max_message_lag_ms max_future_skew_ms =
     (case raw of PyDict row \<Rightarrow>
        rbind (os_optional_identifier (py_get row ''orderId'' PyNone) ''orderId'') (\<lambda>order_id.
        rbind (os_optional_identifier (py_get row ''orderLinkId'' PyNone) ''orderLinkId'') (\<lambda>link_id.
          if order_id = [] \<and> link_id = [] then Inl (ValueError ''orderId or orderLinkId is required'') else
          let category = lower (strip (py_str (py_get row ''category'' (PyStr []))));
              symbol = upper (strip (py_str (py_get row ''symbol'' (PyStr []))));
              side = title (strip (py_str (py_get row ''side'' (PyStr []))));
              status = strip (py_str (py_get row ''orderStatus'' (PyStr [])))
          in if category \<notin> set os_categories then Inl (ValueError ''invalid category'')
             else if topic_mismatch topic category then Inl (ValueError ''topic and category mismatch'')
             else if symbol = [] \<or> \<not> isalnum symbol then Inl (ValueError ''invalid symbol'')
             else if side \<notin> set id_sides then Inl (ValueError ''invalid side'')
             else if status \<notin> set os_allowed then Inl (ValueError ''invalid orderStatus'') else
        rbind (os_finite (py_get row ''qty'' PyNone) ''qty'' True) (\<lambda>qty.
        rbind (os_finite (py_get row ''cumExecQty'' (PyInt 0)) ''cumExecQty'' False) (\<lambda>executed.
        rbind (os_finite (py_or (py_get row ''avgPrice'' PyNone) (PyInt 0)) ''avgPrice'' False) (\<lambda>average.
          if flt executed (Fin 0) \<or> flt average (Fin 0) \<or> flt (fadd qty tolerance) executed
          then Inl (ValueError ''invalid execution quantities'') else
        rbind (os_positive_int (py_get row ''createdTime'' PyNone) ''createdTime'') (\<lambda>created.
        rbind (os_positive_int (py_get row ''updatedTime'' PyNone) ''updatedTime'') (\<lambda>updated.
          if updated < created then Inl (ValueError ''updatedTime precedes createdTime'')
          else if received_at_ms + max_future_skew_ms < max created updated
          then Inl (ValueError ''order timestamp is in the future'')
          else if message_creation_ms + max_future_skew_ms < updated
          then Inl (ValueError ''updatedTime is ahead of message creationTime'')
          else if max_message_lag_ms < received_at_ms - updated
          then Inl (ValueError ''order event row is too old or replayed'') else
          let state = \<lparr>os_environment = environment, os_order_id = order_id, os_order_link_id = link_id,
                os_category = category, os_symbol = symbol, os_side = side, os_status = status,
                os_qty = qty, os_cum_exec_qty = executed, os_avg_price = average,
                os_created_time_ms = created, os_updated_time_ms = updated,
                os_message_creation_time_ms = message_creation_ms, os_message_id = message_id,
                os_reject_reason = strip (py_str (py_get row ''rejectReason'' (PyStr [])))\<rparr>
          in rbind (validate_semantics state) (\<lambda>_. Inr state))))))))
      | _ \<Rightarrow> Inl (TypeError ''order event must be an object''))"

section \<open>Merging\<close>

definition float_changed :: "pyfloat \<Rightarrow> pyfloat \<Rightarrow> bool" where
  "float_changed old new = flt tolerance (fabs (fsub old new))"

definition immutable_change :: "order_state \<Rightarrow> order_state \<Rightarrow> string option" where
  "immutable_change old new =
     (if os_environment old \<noteq> os_environment new then Some ''environment''
      else if os_category old \<noteq> os_category new then Some ''category''
      else if os_symbol old \<noteq> os_symbol new then Some ''symbol''
      else if os_side old \<noteq> os_side new then Some ''side''
      else if float_changed (os_qty old) (os_qty new) then Some ''qty''
      else if os_created_time_ms old \<noteq> os_created_time_ms new then Some ''created_time_ms''
      else None)"

definition or_text :: "string \<Rightarrow> string \<Rightarrow> string" where
  "or_text a b = (if a \<noteq> [] then a else b)"

definition merged_state :: "order_state \<Rightarrow> order_state \<Rightarrow> order_state" where
  "merged_state old new =
     new\<lparr>os_order_id := or_text (os_order_id new) (os_order_id old),
         os_order_link_id := or_text (os_order_link_id new) (os_order_link_id old)\<rparr>"

definition same_execution :: "order_state \<Rightarrow> order_state \<Rightarrow> bool" where
  "same_execution merged old =
     (os_status merged = os_status old \<and>
      fle (fabs (fsub (os_cum_exec_qty merged) (os_cum_exec_qty old))) tolerance \<and>
      fle (fabs (fsub (os_avg_price merged) (os_avg_price old))) tolerance)"

definition identity_enriched :: "order_state \<Rightarrow> order_state \<Rightarrow> bool" where
  "identity_enriched merged old =
     ((os_order_id old = [] \<and> os_order_id merged \<noteq> []) \<or>
      (os_order_link_id old = [] \<and> os_order_link_id merged \<noteq> []))"

definition os_transition_allowed :: "string \<Rightarrow> string \<Rightarrow> bool" where
  "os_transition_allowed old new =
     (new \<in> set (case os_transitions old of None \<Rightarrow> [old] | Some ss \<Rightarrow> ss))"

text \<open>The outcome is true for \<open>accepted\<close>, false for \<open>duplicate\<close>.\<close>

definition merge :: "order_state option \<Rightarrow> order_state \<Rightarrow> (bool \<times> order_state) res" where
  "merge existing new =
     (case existing of None \<Rightarrow> Inr (True, new)
      | Some old \<Rightarrow>
        (case immutable_change old new of
           Some field \<Rightarrow> Inl (ValueError (''immutable field changed: '' @ field))
         | None \<Rightarrow>
             if os_order_id old \<noteq> [] \<and> os_order_id new \<noteq> [] \<and> os_order_id old \<noteq> os_order_id new
             then Inl (ValueError ''orderId changed'')
             else if os_order_link_id old \<noteq> [] \<and> os_order_link_id new \<noteq> [] \<and>
                     os_order_link_id old \<noteq> os_order_link_id new
             then Inl (ValueError ''orderLinkId changed'')
             else if os_updated_time_ms new < os_updated_time_ms old
             then Inl (ValueError ''out-of-order updatedTime'')
             else let merged = merged_state old new;
                      same = same_execution merged old;
                      enriched = identity_enriched merged old
                  in if os_is_terminal old
                     then (if \<not> same then Inl (ValueError ''terminal order cannot change'')
                           else if enriched then Inr (True, merged) else Inr (False, old))
                     else if flt (os_cum_exec_qty new) (fsub (os_cum_exec_qty old) tolerance)
                     then Inl (ValueError ''cumExecQty regression'')
                     else if os_updated_time_ms new = os_updated_time_ms old
                     then (if same \<and> enriched then Inr (True, merged)
                           else if same then Inr (False, old)
                           else Inl (ValueError ''conflicting state at identical updatedTime''))
                     else if \<not> os_transition_allowed (os_status old) (os_status merged)
                     then Inl (ValueError (''invalid transition '' @ os_status old @ ''->'' @ os_status merged))
                     else Inr (True, merged)))"

section \<open>The document\<close>

definition state_from_mapping :: "order_state \<Rightarrow> order_state res" where
  "state_from_mapping s =
     rbind (os_finite (PyFloat (os_qty s)) ''persisted qty'' True) (\<lambda>_.
     rbind (os_finite (PyFloat (os_cum_exec_qty s)) ''persisted cum_exec_qty'' False) (\<lambda>_.
     rbind (os_finite (PyFloat (os_avg_price s)) ''persisted avg_price'' False) (\<lambda>_.
     rbind (os_positive_int (PyInt (os_created_time_ms s)) ''persisted created_time_ms'') (\<lambda>_.
     rbind (os_positive_int (PyInt (os_updated_time_ms s)) ''persisted updated_time_ms'') (\<lambda>_.
     rbind (os_positive_int (PyInt (os_message_creation_time_ms s)) ''persisted message_creation_time_ms'') (\<lambda>_.
       if os_status s \<notin> set os_allowed \<or> os_category s \<notin> set os_categories \<or> os_side s \<notin> set id_sides
       then Inl (RuntimeError ''persisted order state contains invalid enums'')
       else if os_symbol s = [] \<or> \<not> isalnum (os_symbol s) \<or> os_symbol s \<noteq> upper (os_symbol s)
       then Inl (RuntimeError ''persisted order symbol is invalid'') else Inr s))))))"

definition aliases_of :: "order_state \<Rightarrow> string list" where
  "aliases_of s = filter (\<lambda>a. a \<noteq> []) [order_alias (os_order_id s), link_alias (os_order_link_id s)]"

definition expect_alias :: "string \<Rightarrow> string dict \<Rightarrow> string \<Rightarrow> string dict res" where
  "expect_alias canonical expected a =
     (if map_of expected a \<notin> {None, Some canonical}
      then Inl (RuntimeError ''persisted order alias collision'')
      else Inr (AList.update a canonical expected))"

definition check_order :: "string \<Rightarrow> string dict \<Rightarrow> string \<times> order_state \<Rightarrow> string dict res" where
  "check_order environment expected entry =
     (case entry of (canonical, raw) \<Rightarrow>
       rbind (state_from_mapping raw) (\<lambda>state.
         if os_environment state \<noteq> environment
         then Inl (RuntimeError ''persisted order environment mismatch'') else
       rbind (validate_semantics state) (\<lambda>_.
         if canonical \<notin> set (aliases_of state)
         then Inl (RuntimeError ''canonical order key does not match identifiers'')
         else rfold (expect_alias canonical) expected (aliases_of state))))"

definition order_document :: "string \<Rightarrow> order_doc option \<Rightarrow> order_doc res" where
  "order_document environment v =
     (case v of
        None \<Rightarrow> Inr \<lparr>od_environment = environment, od_orders = [], od_aliases = [],
                     od_last_message_creation_ms = 0, od_updated_at_ms = 0\<rparr>
      | Some d \<Rightarrow>
          if od_environment d \<noteq> environment
          then Inl (RuntimeError ''private order state document is invalid'')
          else rbind (rfold (check_order environment) [] (od_orders d)) (\<lambda>expected.
                 if \<not> dict_eq (od_aliases d) expected
                 then Inl (RuntimeError ''persisted aliases do not match order records'') else Inr d))"

definition bind_alias :: "string \<Rightarrow> string dict \<Rightarrow> string \<Rightarrow> string dict res" where
  "bind_alias canonical aliases a =
     (case map_of aliases a of
        Some (c # cs) \<Rightarrow> if c # cs \<noteq> canonical then Inl (RuntimeError ''order alias collision'')
                         else Inr (AList.update a canonical aliases)
      | _ \<Rightarrow> Inr (AList.update a canonical aliases))"

definition merge_into_document :: "order_doc \<Rightarrow> order_state \<Rightarrow> (order_doc \<times> bool \<times> string) res" where
  "merge_into_document d state =
     (let candidates = remdups (List.map_filter (map_of (od_aliases d)) (aliases_of state))
      in if 1 < length candidates
         then Inl (RuntimeError ''orderId and orderLinkId resolve to different orders'')
         else let canonical = (case candidates of c # _ \<Rightarrow> c
                               | [] \<Rightarrow> or_text (link_alias (os_order_link_id state))
                                               (order_alias (os_order_id state)))
              in if canonical = [] then Inl (ValueError ''order has no canonical identity'') else
              rbind (case map_of (od_orders d) canonical of None \<Rightarrow> Inr None
                     | Some raw \<Rightarrow> rbind (state_from_mapping raw) (\<lambda>s. Inr (Some s))) (\<lambda>existing.
              rbind (merge existing state) (\<lambda>(outcome, merged).
              rbind (rfold (bind_alias canonical) (od_aliases d) (aliases_of merged)) (\<lambda>aliases.
                Inr (d\<lparr>od_orders := AList.update canonical merged (od_orders d),
                       od_aliases := aliases\<rparr>, outcome, canonical)))))"

text \<open>The loop over the rows: the document and the accepted and duplicate keys, in order.\<close>

definition merge_row ::
  "order_doc \<times> string list \<times> string list \<Rightarrow> order_state \<Rightarrow> (order_doc \<times> string list \<times> string list) res" where
  "merge_row st state =
     (case st of (d, accepted, duplicates) \<Rightarrow>
       rbind (merge_into_document d state) (\<lambda>(d', outcome, canonical).
         Inr (if outcome then (d', accepted @ [canonical], duplicates)
              else (d', accepted, duplicates @ [canonical]))))"

definition ingest_mutate ::
  "string \<Rightarrow> order_state list \<Rightarrow> int \<Rightarrow> int \<Rightarrow> order_doc option \<Rightarrow>
   (order_doc \<times> string list \<times> string list) res" where
  "ingest_mutate environment normalized creation received v =
     rbind (order_document environment v) (\<lambda>d.
     rbind (rfold merge_row (d, [], []) normalized) (\<lambda>(d', accepted, duplicates).
       Inr (d'\<lparr>od_last_message_creation_ms := max (od_last_message_creation_ms d') creation,
               od_updated_at_ms := received\<rparr>, accepted, duplicates)))"

text \<open>The checks of a message; the result is its creation time, the receive time and the states.\<close>

definition read_message ::
  "order_store \<Rightarrow> pyval \<Rightarrow> int \<Rightarrow> (int \<times> int \<times> order_state list) res" where
  "read_message st message received_at_ms =
     (case message of PyDict m \<Rightarrow>
        (let topic = strip (py_str (py_get m ''topic'' (PyStr [])))
         in if topic \<notin> set os_topics then Inl (ValueError ''unsupported private order topic'') else
         rbind (os_positive_int (PyInt received_at_ms) ''received_at_ms'') (\<lambda>received.
         rbind (os_positive_int (py_get m ''creationTime'' PyNone) ''creationTime'') (\<lambda>creation.
           if received + st_max_future_skew_ms st < creation
           then Inl (ValueError ''message creationTime is in the future'')
           else if st_max_message_lag_ms st < received - creation
           then Inl (ValueError ''private order message is too old or replayed'') else
         (case py_get m ''data'' PyNone of
            PyList (r # rs) \<Rightarrow>
              rbind (os_identifier (py_or (py_get m ''id'' PyNone) (PyStr (''msg-'' @ int_str creation)))
                       ''message id'') (\<lambda>message_id.
              rbind (rmapM (\<lambda>row. normalize_row row topic (st_environment st) message_id creation received
                              (st_max_message_lag_ms st) (st_max_future_skew_ms st)) (r # rs)) (\<lambda>normalized.
                Inr (creation, received, normalized)))
          | _ \<Rightarrow> Inl (ValueError ''private order data must be a non-empty list'')))))
      | _ \<Rightarrow> Inl (TypeError ''private order message must be an object''))"

record ingest_result =
  ig_environment :: string
  ig_accepted :: "string list"
  ig_duplicates :: "string list"
  ig_version :: int

definition ingest_message ::
  "order_store \<Rightarrow> pyval \<Rightarrow> int \<Rightarrow> int \<Rightarrow> (order_doc kv \<Rightarrow> order_doc kv) list \<Rightarrow> order_doc kv \<Rightarrow>
   ingest_result res \<times> order_doc kv" where
  "ingest_message st message received_at_ms clock others db =
     (case read_message st message received_at_ms of Inl e \<Rightarrow> (Inl e, db)
      | Inr (creation, received, normalized) \<Rightarrow>
        (case optimistic_update 5 os_namespace (st_environment st)
                (\<lambda>row. ingest_mutate (st_environment st) normalized creation received (map_option kv_doc row))
                ''private order state update conflicted repeatedly'' clock others db of
           (Inl e, db') \<Rightarrow> (Inl e, db')
         | (Inr ((accepted, duplicates), v), db') \<Rightarrow>
             (Inr \<lparr>ig_environment = st_environment st, ig_accepted = accepted,
                   ig_duplicates = duplicates, ig_version = v\<rparr>, db')))"

record order_snapshot =
  sn_environment :: string
  sn_version :: int
  sn_updated_at_ms :: int
  sn_orders :: "order_state list"
  sn_open_orders :: "order_state list"
  sn_managed_orders :: "order_state list"

definition order_snapshot_of :: "order_store \<Rightarrow> order_doc kv \<Rightarrow> order_snapshot res" where
  "order_snapshot_of st db =
     rbind (get_json db os_namespace (st_environment st)) (\<lambda>current.
     rbind (order_document (st_environment st) (map_option kv_doc current)) (\<lambda>d.
     rbind (rmapM state_from_mapping (map snd (od_orders d))) (\<lambda>states.
       let orders = sort_key (\<lambda>s. (os_updated_time_ms s, os_order_link_id s, os_order_id s)) states
       in Inr \<lparr>sn_environment = st_environment st, sn_version = kv_current current,
               sn_updated_at_ms = od_updated_at_ms d, sn_orders = orders,
               sn_open_orders = filter (\<lambda>s. os_status s \<in> set os_open) orders,
               sn_managed_orders = filter os_managed orders\<rparr>)))"

section \<open>Reconciliation with the execution journal\<close>

type_synonym journal_row = "(string \<times> pyval) list"

definition row_text :: "journal_row \<Rightarrow> string \<Rightarrow> string \<Rightarrow> string" where
  "row_text row k1 k2 =
     strip (py_str (py_or (py_get row k1 PyNone) (py_or (py_get row k2 PyNone) (PyStr []))))"

definition index_row ::
  "string \<Rightarrow> string \<Rightarrow> journal_row \<Rightarrow> journal_row dict \<times> string list \<Rightarrow> journal_row dict \<times> string list" where
  "index_row label key row st =
     (case st of (index, errors) \<Rightarrow>
        if key = [] then (index, errors)
        else case map_of index key of
               Some old \<Rightarrow> if \<not> py_eq (PyDict old) (PyDict row)
                            then (index, errors @ [''duplicate journal '' @ label @ '' '' @ key])
                            else (AList.update key row index, errors)
             | None \<Rightarrow> (AList.update key row index, errors))"

fun index_journal ::
  "nat \<Rightarrow> pyval list \<Rightarrow> journal_row dict \<times> journal_row dict \<times> string list \<Rightarrow>
   journal_row dict \<times> journal_row dict \<times> string list" where
  "index_journal i [] st = st"
| "index_journal i (v # vs) (by_link, by_order, errors) =
     (case v of
        PyDict row \<Rightarrow>
          (let (by_link', errors1) =
                 index_row ''orderLinkId'' (row_text row ''order_link_id'' ''orderLinkId'') row (by_link, errors);
               (by_order', errors2) =
                 index_row ''orderId'' (row_text row ''order_id'' ''orderId'') row (by_order, errors1)
           in index_journal (Suc i) vs (by_link', by_order', errors2))
      | _ \<Rightarrow> index_journal (Suc i) vs
               (by_link, by_order, errors @ [''journal row '' @ nat_str i @ '' is not an object'']))"

definition compare_field ::
  "journal_row \<Rightarrow> string \<Rightarrow> string \<Rightarrow> (string \<Rightarrow> string) \<Rightarrow> string \<Rightarrow> string list" where
  "compare_field row link key transform expected =
     (case map_of row key of
        None \<Rightarrow> [''journal field '' @ key @ '' missing for '' @ link]
      | Some v \<Rightarrow> if transform (strip (py_str v)) \<noteq> transform (strip expected)
                  then [key @ '' mismatch for '' @ link] else [])"

definition compare_quantity :: "journal_row \<Rightarrow> string \<Rightarrow> pyfloat \<Rightarrow> string list res" where
  "compare_quantity row link qty =
     (case os_finite (py_get row ''quantity'' (py_get row ''qty'' PyNone)) ''journal quantity'' False of
        Inr q \<Rightarrow> Inr (if flt tolerance (fabs (fsub q qty)) then [''quantity mismatch for '' @ link] else [])
      | Inl (TypeError m) \<Rightarrow> Inr [''journal quantity invalid for '' @ link]
      | Inl (ValueError m) \<Rightarrow> Inr [''journal quantity invalid for '' @ link]
      | Inl e \<Rightarrow> Inl e)"

text \<open>One managed order against the index: the errors and whether the order was matched.\<close>

definition reconcile_order ::
  "journal_row dict \<Rightarrow> journal_row dict \<Rightarrow> order_state \<Rightarrow> (string list \<times> bool) res" where
  "reconcile_order by_link by_order order =
     (let link = os_order_link_id order
      in case map_of by_link link of
           None \<Rightarrow> Inr ([''managed private order '' @ link @ '' is missing from execution journal''], False)
         | Some row \<Rightarrow>
             (let journal_order_id = row_text row ''order_id'' ''orderId'';
                  e1 = (if os_order_id order \<noteq> [] \<and> journal_order_id \<noteq> os_order_id order
                        then [''orderId mismatch for '' @ link] else []);
                  e2 = (if journal_order_id \<noteq> [] \<and>
                           (case map_of by_order journal_order_id of None \<Rightarrow> True
                            | Some r \<Rightarrow> \<not> py_eq (PyDict r) (PyDict row))
                        then [''journal identifiers resolve inconsistently for '' @ link] else [])
              in rbind (journal_environment
                          (py_or (py_get row ''environment'' PyNone) (py_get row ''mode'' PyNone)))
                       (\<lambda>expected_environment.
                 let e3 = (if expected_environment \<noteq> [] \<and> expected_environment \<noteq> os_environment order
                           then [''environment mismatch for '' @ link] else [])
                 in rbind (compare_quantity row link (os_qty order)) (\<lambda>e5.
                    Inr (e1 @ e2 @ e3 @ compare_field row link ''category'' lower (os_category order) @
                         compare_field row link ''symbol'' upper (os_symbol order) @
                         compare_field row link ''side'' title (os_side order) @ e5, True)))))"

record reconcile_result =
  rr_restart_safe :: bool
  rr_environment :: string
  rr_matched :: "string list"
  rr_errors :: "string list"
  rr_private_order_count :: nat
  rr_managed_order_count :: nat
  rr_journal_order_count :: nat

definition reconcile_step ::
  "journal_row dict \<Rightarrow> journal_row dict \<Rightarrow> string list \<times> string list \<Rightarrow> order_state \<Rightarrow>
   (string list \<times> string list) res" where
  "reconcile_step by_link by_order acc order =
     (case acc of (matched, errors) \<Rightarrow>
       rbind (reconcile_order by_link by_order order) (\<lambda>(es, found).
         Inr (if found then matched @ [os_order_link_id order] else matched, errors @ es)))"

definition journal_rows :: "pyval \<Rightarrow> pyval list res" where
  "journal_rows journal =
     (case (case journal of PyDict j \<Rightarrow> py_get j ''orders'' (PyList []) | v \<Rightarrow> v) of
        PyList rows \<Rightarrow> Inr rows
      | _ \<Rightarrow> Inl (RuntimeError ''execution journal must contain an orders list''))"

definition reconcile :: "order_store \<Rightarrow> pyval \<Rightarrow> order_doc kv \<Rightarrow> reconcile_result res" where
  "reconcile st journal db =
     rbind (journal_rows journal) (\<lambda>rows.
     rbind (order_snapshot_of st db) (\<lambda>snap.
       let managed = filter os_managed (sn_orders snap);
           (by_link, by_order, errors) = index_journal 0 rows ([], [], [])
       in rbind (rfold (reconcile_step by_link by_order) ([], errors) managed) (\<lambda>(matched, errors').
            Inr \<lparr>rr_restart_safe = (errors' = []), rr_environment = st_environment st,
                 rr_matched = matched, rr_errors = errors', rr_private_order_count = length (sn_orders snap),
                 rr_managed_order_count = length managed, rr_journal_order_count = length rows\<rparr>)))"

end
