(* ===== verification/Private_Ws_Gate.thy ===== *)
theory Private_Ws_Gate
  imports Versioned_Store
begin

text \<open>
  \<open>exchange_connector/private_ws_gate.py\<close>: the stored health of the private order stream and the
  readiness gate over it. \<open>record_health\<close> stores what the worker reports (a dynamic value) under
  the environment, \<open>health_snapshot\<close> reads it back with a fail-closed default, \<open>evaluate\<close> lists
  the gates that fail. Clock readings are arguments.
\<close>

definition health_namespace :: string where
  "health_namespace = ''bybit_private_ws_health''"

record stream_health =
  sh_environment :: string
  sh_enabled :: bool
  sh_worker_running :: bool
  sh_credentials_configured :: bool
  sh_connected :: bool
  sh_authenticated :: bool
  sh_subscribed :: bool
  sh_last_message_at_ms :: int
  sh_last_heartbeat_at_ms :: int
  sh_ready_at_ms :: int
  sh_last_error :: string
  sh_recorded_at_ms :: int

record stream_gate_report =
  pg_environment :: string
  pg_required :: bool
  pg_ready :: bool
  pg_connected :: bool
  pg_authenticated :: bool
  pg_subscribed :: bool
  pg_worker_running :: bool
  pg_credentials_configured :: bool
  pg_heartbeat_age_ms :: "int option"
  pg_maximum_heartbeat_age_ms :: int
  pg_last_message_at_ms :: int
  pg_last_heartbeat_at_ms :: int
  pg_last_error :: string
  pg_failed_gates :: "string list"

definition ws_finite :: "pyfloat \<Rightarrow> string \<Rightarrow> pyfloat res" where
  "ws_finite x name = (if isfinite x then Inr x else Inl (ValueError (name @ '' must be finite'')))"

text \<open>\<open>max(0, int(value or 0))\<close>, 0 on a \<open>TypeError\<close> or a \<open>ValueError\<close>; an infinity escapes.\<close>

definition nonnegative_int :: "pyval \<Rightarrow> int res" where
  "nonnegative_int v =
     (case py_int (py_or v (PyInt 0)) of
        Inr i \<Rightarrow> Inr (max 0 i)
      | Inl (TypeError m) \<Rightarrow> Inr 0
      | Inl (ValueError m) \<Rightarrow> Inr 0
      | Inl e \<Rightarrow> Inl e)"

definition ws_timestamp :: "int option \<Rightarrow> int \<Rightarrow> int res" where
  "ws_timestamp v clock =
     (let parsed = (case v of None \<Rightarrow> clock | Some t \<Rightarrow> t)
      in if parsed \<le> 0 then Inl (ValueError ''timestamp must be positive'') else Inr parsed)"

definition stream_environment :: "string \<Rightarrow> string res" where
  "stream_environment environment =
     (let clean = lower (strip environment)
      in if clean \<in> {''sandbox'', ''testnet''} then Inr ''testnet''
         else if clean \<in> {''live'', ''mainnet'', ''live_read_only''} then Inr ''mainnet''
         else Inl (ValueError ''private stream environment must be testnet or mainnet''))"

text \<open>The document \<open>record\<close> builds from a reported status.\<close>

definition health_of :: "string \<Rightarrow> pyval \<Rightarrow> int option \<Rightarrow> int \<Rightarrow> stream_health res" where
  "health_of env status recorded_at_ms clock =
     (case status of PyDict s \<Rightarrow>
        rbind (ws_timestamp recorded_at_ms clock) (\<lambda>timestamp.
        rbind (nonnegative_int (py_get s ''last_message_at_ms'' PyNone)) (\<lambda>last_message.
        rbind (nonnegative_int (py_or (py_get s ''last_heartbeat_at_ms'' PyNone)
                                      (py_get s ''last_message_at_ms'' PyNone))) (\<lambda>heartbeat.
        rbind (nonnegative_int (py_get s ''ready_at_ms'' PyNone)) (\<lambda>ready_at.
          let flag = (\<lambda>k. truthy (py_get s k PyNone))
          in Inr \<lparr>sh_environment = env, sh_enabled = flag ''enabled'',
                  sh_worker_running = flag ''worker_running'',
                  sh_credentials_configured = flag ''credentials_configured'',
                  sh_connected = flag ''connected'', sh_authenticated = flag ''authenticated'',
                  sh_subscribed = flag ''subscribed'', sh_last_message_at_ms = last_message,
                  sh_last_heartbeat_at_ms = heartbeat, sh_ready_at_ms = ready_at,
                  sh_last_error = take 500 (py_str (py_or (py_get s ''last_error'' PyNone) (PyStr []))),
                  sh_recorded_at_ms = timestamp\<rparr>))))
      | _ \<Rightarrow> Inl (TypeError ''private stream status must be an object''))"

text \<open>\<open>record\<close>: one read, one versioned write; \<open>other\<close> is what other writers do in between.\<close>

definition record_health ::
  "string \<Rightarrow> pyval \<Rightarrow> int option \<Rightarrow> int \<Rightarrow> (stream_health kv \<Rightarrow> stream_health kv) \<Rightarrow>
   stream_health kv \<Rightarrow> (stream_health \<times> int) res \<times> stream_health kv" where
  "record_health env status recorded_at_ms clock other db =
     (case health_of env status recorded_at_ms clock of Inl e \<Rightarrow> (Inl e, db)
      | Inr document \<Rightarrow>
        (case get_json db health_namespace env of Inl e \<Rightarrow> (Inl e, db)
         | Inr current \<Rightarrow>
           (let db' = other db
            in case put_json db' health_namespace env document (Some (kv_current current)) clock of
                 Inl e \<Rightarrow> (Inl e, db')
               | Inr (v, db'') \<Rightarrow> (Inr (document, v), db''))))"

definition health_default :: "string \<Rightarrow> stream_health" where
  "health_default env =
     \<lparr>sh_environment = env, sh_enabled = False, sh_worker_running = False,
      sh_credentials_configured = False, sh_connected = False, sh_authenticated = False,
      sh_subscribed = False, sh_last_message_at_ms = 0, sh_last_heartbeat_at_ms = 0,
      sh_ready_at_ms = 0, sh_last_error = ''private stream health has not been recorded'',
      sh_recorded_at_ms = 0\<rparr>"

definition health_snapshot :: "string \<Rightarrow> stream_health kv \<Rightarrow> (stream_health \<times> int) res" where
  "health_snapshot env db =
     rbind (get_json db health_namespace env) (\<lambda>current.
       Inr (case current of None \<Rightarrow> (health_default env, 0) | Some row \<Rightarrow> (kv_doc row, kv_version row)))"

definition maximum_age_ms :: "pyfloat \<Rightarrow> int res" where
  "maximum_age_ms seconds =
     rbind (ws_finite seconds ''maximum heartbeat age'') (\<lambda>x.
       int_of_float (fmul (py_min (py_max x (Fin 5)) (Fin 300)) (Fin 1000)))"

definition heartbeat_age :: "int \<Rightarrow> int \<Rightarrow> int option" where
  "heartbeat_age now heartbeat = (if heartbeat \<noteq> 0 then Some (max 0 (now - heartbeat)) else None)"

definition failed_gates :: "string \<Rightarrow> stream_health \<Rightarrow> int option \<Rightarrow> int \<Rightarrow> string list" where
  "failed_gates env s age maximum =
     (if \<not> sh_enabled s then [''private_order_stream_disabled''] else []) @
     (if \<not> sh_worker_running s then [''private_order_stream_worker_not_running''] else []) @
     (if \<not> sh_credentials_configured s then [''private_order_stream_credentials_missing''] else []) @
     (if \<not> sh_connected s then [''private_order_stream_disconnected''] else []) @
     (if \<not> sh_authenticated s then [''private_order_stream_not_authenticated''] else []) @
     (if \<not> sh_subscribed s then [''private_order_topic_not_subscribed''] else []) @
     (case age of None \<Rightarrow> [''private_order_stream_heartbeat_missing'']
      | Some a \<Rightarrow> if maximum < a then [''private_order_stream_heartbeat_stale''] else []) @
     (if sh_environment s \<noteq> env then [''private_order_stream_environment_mismatch''] else [])"

definition evaluate ::
  "string \<Rightarrow> bool \<Rightarrow> int option \<Rightarrow> pyfloat \<Rightarrow> int \<Rightarrow> stream_health kv \<Rightarrow> stream_gate_report res" where
  "evaluate env required now_ms maximum_heartbeat_age_seconds clock db =
     rbind (maximum_age_ms maximum_heartbeat_age_seconds) (\<lambda>maximum.
     rbind (health_snapshot env db) (\<lambda>(s, version).
     rbind (ws_timestamp now_ms clock) (\<lambda>now.
       let heartbeat = max 0 (sh_last_heartbeat_at_ms s);
           age = heartbeat_age now heartbeat;
           failed = (if required then failed_gates env s age maximum else [])
       in Inr \<lparr>pg_environment = env, pg_required = required, pg_ready = (failed = []),
               pg_connected = sh_connected s, pg_authenticated = sh_authenticated s,
               pg_subscribed = sh_subscribed s, pg_worker_running = sh_worker_running s,
               pg_credentials_configured = sh_credentials_configured s,
               pg_heartbeat_age_ms = age, pg_maximum_heartbeat_age_ms = maximum,
               pg_last_message_at_ms = max 0 (sh_last_message_at_ms s),
               pg_last_heartbeat_at_ms = heartbeat, pg_last_error = sh_last_error s,
               pg_failed_gates = failed\<rparr>)))"

section \<open>Lemmas\<close>

text \<open>What a required gate certifies when it is ready.\<close>

definition stream_live :: "string \<Rightarrow> stream_health \<Rightarrow> int \<Rightarrow> int \<Rightarrow> bool" where
  "stream_live env s now maximum =
     (sh_enabled s \<and> sh_worker_running s \<and> sh_credentials_configured s \<and> sh_connected s \<and>
      sh_authenticated s \<and> sh_subscribed s \<and> sh_environment s = env \<and>
      0 < sh_last_heartbeat_at_ms s \<and> now - sh_last_heartbeat_at_ms s \<le> maximum)"

lemma failed_gates_Nil:
  assumes "0 \<le> maximum"
  shows "failed_gates env s (heartbeat_age now (max 0 (sh_last_heartbeat_at_ms s))) maximum = [] \<longleftrightarrow>
         stream_live env s now maximum"
  using assms by (auto simp: failed_gates_def heartbeat_age_def stream_live_def split: if_splits)

lemma py_clamp:
  assumes "lo \<le> hi"
  shows "py_min (py_max (Fin x) (Fin lo)) (Fin hi) = Fin (min (max x lo) hi)"
  using assms by (auto simp: py_min_def py_max_def min_def max_def)

lemma clamp_bounds: "(lo::rat) \<le> hi \<Longrightarrow> lo \<le> min (max x lo) hi \<and> min (max x lo) hi \<le> hi"
  by simp

lemma maximum_age_bounds:
  assumes "maximum_age_ms s = Inr m"
  shows "5000 \<le> m" "m \<le> 300000"
proof -
  from assms obtain x where "s = Fin x" and
    m: "int_of_float (fmul (py_min (py_max (Fin x) (Fin 5)) (Fin 300)) (Fin 1000)) = Inr m"
    by (auto simp: maximum_age_ms_def ws_finite_def isfinite_iff res_simps split: if_splits)
  define z where "z = min (max x 5) 300 * 1000"
  have z: "of_int 5000 \<le> z" "z \<le> of_int 300000" using clamp_bounds [of 5 300 x] by (simp_all add: z_def)
  then obtain y where y: "rnd64 z = Fin y" "of_int 5000 \<le> y" "y \<le> of_int 300000"
    using rnd64_between [OF z] by auto
  from m have "m = \<lfloor>y\<rfloor>" using y by (simp add: py_clamp z_def)
  then show "5000 \<le> m" "m \<le> 300000" using y(2,3) by (simp_all add: le_floor_iff floor_le_iff)
qed

lemma evaluate_Inr:
  assumes "evaluate env required now_ms s clock db = Inr report"
  obtains h v now m where "health_snapshot env db = Inr (h, v)" "ws_timestamp now_ms clock = Inr now"
    "maximum_age_ms s = Inr m" "pg_maximum_heartbeat_age_ms report = m"
    "pg_failed_gates report =
       (if required then failed_gates env h (heartbeat_age now (max 0 (sh_last_heartbeat_at_ms h))) m else [])"
    "pg_ready report \<longleftrightarrow> pg_failed_gates report = []"
  using assms by (auto simp: evaluate_def res_simps Let_def split: if_splits)

text \<open>A required gate is ready exactly when the stream is live; the default health is never ready.\<close>

lemma evaluate_required:
  assumes "evaluate env True now_ms s clock db = Inr report"
  shows "\<exists>h v now. health_snapshot env db = Inr (h, v) \<and> ws_timestamp now_ms clock = Inr now \<and>
           (pg_ready report \<longleftrightarrow> stream_live env h now (pg_maximum_heartbeat_age_ms report))"
  using assms by (rule evaluate_Inr) (metis failed_gates_Nil maximum_age_bounds(1) order_trans zero_le_numeral)

lemma health_default_not_live [simp]: "\<not> stream_live env (health_default e) now m"
  by (simp add: stream_live_def health_default_def)

lemma evaluate_live:
  assumes "evaluate env True None s clock db = Inr rep" "pg_ready rep"
  shows "\<exists>h v m. health_snapshot env db = Inr (h, v) \<and> stream_live env h clock m \<and> m \<le> 300000"
  using assms(1)
proof (rule evaluate_Inr)
  fix h v now m
  assume a: "health_snapshot env db = Inr (h, v)" "ws_timestamp None clock = Inr now" "maximum_age_ms s = Inr m"
    "pg_maximum_heartbeat_age_ms rep = m"
    "pg_failed_gates rep = (if True then failed_gates env h (heartbeat_age now (max 0 (sh_last_heartbeat_at_ms h))) m else [])"
    "pg_ready rep = (pg_failed_gates rep = [])"
  from a(2) have "now = clock" by (simp add: ws_timestamp_def split: if_splits)
  moreover have "stream_live env h now m"
    using a(5,6) assms(2) failed_gates_Nil [of m env h now] maximum_age_bounds(1) [OF a(3)] by simp
  ultimately show ?thesis using a(1) maximum_age_bounds(2) [OF a(3)] by blast
qed

end
