(* ===== verification/Execution_Journal.thy ===== *)
theory Execution_Journal
  imports Versioned_Store "HOL-Library.Multiset"
begin

text \<open>
  \<open>autonomous_trading/execution_journal.py\<close>: the append-only evidence journal. An entry is a
  dynamic value, stored under its event id with expected version 0, so that no entry is ever
  overwritten. \<open>append_entry\<close> returns what the code returns; the outcome of the backup file is an
  argument (\<open>None\<close> when it was written, the text of the exception otherwise), as are the clock, the
  fresh identifier and the scope of the journal. The table of the journal's namespace is an
  association list of rows, \<open>journal_kv\<close> is the store it stands for. The import of the legacy JSON
  file is not modelled.
\<close>

section \<open>UTC timestamps\<close>

text \<open>The proleptic Gregorian date of a day counted from 1970-01-01.\<close>

definition civil_date :: "int \<Rightarrow> int \<times> int \<times> int" where
  "civil_date days =
     (let z = days + 719468;
          era = z div 146097;
          doe = z mod 146097;
          yoe = (doe - doe div 1460 + doe div 36524 - doe div 146096) div 365;
          doy = doe - (365 * yoe + yoe div 4 - yoe div 100);
          mp = (5 * doy + 2) div 153;
          d = doy - (153 * mp + 2) div 5 + 1;
          m = (if mp < 10 then mp + 3 else mp - 9);
          y = yoe + era * 400 + (if m \<le> 2 then 1 else 0)
      in (y, m, d))"

text \<open>A number below \<open>10 ^ n\<close> in \<open>n\<close> digits, as \<open>%0nd\<close> prints it.\<close>

fun pad :: "nat \<Rightarrow> int \<Rightarrow> string" where
  "pad 0 i = []"
| "pad (Suc n) i = pad n (i div 10) @ [digit_char (nat (i mod 10))]"

text \<open>Whole seconds and microseconds of a float, rounded half to even.\<close>

definition split_seconds :: "rat \<Rightarrow> int \<times> int" where
  "split_seconds x =
     (let whole = (if 0 \<le> x then \<lfloor>x\<rfloor> else \<lceil>x\<rceil>);
          us = (case rnd64 ((x - of_int whole) * 1000000) of Fin f \<Rightarrow> rhe f | _ \<Rightarrow> 0)
      in if 1000000 \<le> us then (whole + 1, us - 1000000)
         else if us < 0 then (whole - 1, us + 1000000) else (whole, us))"

text \<open>\<open>datetime.fromtimestamp(now_ms / 1000, UTC).isoformat()\<close>.\<close>

definition utc_isoformat :: "int \<Rightarrow> string res" where
  "utc_isoformat now_ms =
     (case rnd64 (of_int now_ms / 1000) of
        Fin x \<Rightarrow>
          (let (secs, us) = split_seconds x;
               (y, m, d) = civil_date (secs div 86400);
               s = secs mod 86400
           in if y < 1 \<or> 9999 < y then Inl (ValueError ''year is out of range'')
              else Inr (pad 4 y @ ''-'' @ pad 2 m @ ''-'' @ pad 2 d @ ''T'' @ pad 2 (s div 3600) @ '':'' @
                        pad 2 (s mod 3600 div 60) @ '':'' @ pad 2 (s mod 60) @
                        (if us = 0 then [] else ''.'' @ pad 6 us) @ ''+00:00''))
      | _ \<Rightarrow> Inl (OverflowError ''timestamp out of range''))"

section \<open>The journal\<close>

type_synonym journal_entry = "(string \<times> pyval) list"
type_synonym journal_table = "journal_entry kv_row dict"

definition journal_namespace :: "string \<Rightarrow> string" where
  "journal_namespace scope = ''execution_journal:'' @ scope"

definition journal_kv :: "string \<Rightarrow> journal_table \<Rightarrow> journal_entry kv" where
  "journal_kv scope t = (\<lambda>(ns, k). if ns = journal_namespace scope then map_of t k else None)"

definition event_id :: "pyval \<Rightarrow> string res" where
  "event_id v =
     (let text = strip (py_str v)
      in if text = [] \<or> 200 < length text \<or> \<not> list_all (\<lambda>c. is_alnum c \<or> c \<in> set ''._:-'') text
         then Inl (ValueError ''invalid journal_event_id'') else Inr text)"

definition journal_item :: "journal_entry \<Rightarrow> string \<Rightarrow> string \<Rightarrow> int \<Rightarrow> journal_entry" where
  "journal_item entry eid recorded_at now_ms =
     AList.update ''recorded_at_ms'' (PyInt now_ms)
       (AList.update ''recorded_at'' (PyStr recorded_at)
         (AList.update ''journal_event_id'' (PyStr eid) entry))"

definition put_entry ::
  "string \<Rightarrow> string \<Rightarrow> journal_entry \<Rightarrow> int \<Rightarrow> journal_table \<Rightarrow> journal_table res" where
  "put_entry scope eid item clock t =
     (if \<not> json_compliant (PyDict item)
      then Inl (ValueError ''Out of range float values are not JSON compliant'')
      else rbind (put_json (journal_kv scope t) (journal_namespace scope) eid item (Some 0) clock)
             (\<lambda>(v, db). case db (journal_namespace scope, eid) of
                None \<Rightarrow> Inr t | Some row \<Rightarrow> Inr (AList.update eid row t)))"

definition append_entry ::
  "string \<Rightarrow> pyval \<Rightarrow> int \<Rightarrow> string \<Rightarrow> int \<Rightarrow> string option \<Rightarrow> journal_table \<Rightarrow>
   journal_entry res \<times> journal_table" where
  "append_entry scope entry now_ms uuid clock backup t =
     (case entry of PyDict e \<Rightarrow>
        (case rbind (event_id (py_or (py_get e ''journal_event_id'' PyNone) (PyStr uuid))) (\<lambda>eid.
              rbind (utc_isoformat now_ms) (\<lambda>recorded_at.
              let item = journal_item e eid recorded_at now_ms
              in rbind (put_entry scope eid item clock t) (\<lambda>t'. Inr (item, t')))) of
           Inl err \<Rightarrow> (Inl err, t)
         | Inr (item, t') \<Rightarrow>
             (Inr (case backup of
                     None \<Rightarrow> AList.update ''backup_status'' (PyStr ''ok'') item
                   | Some failure \<Rightarrow> AList.update ''backup_error'' (PyStr failure)
                                       (AList.update ''backup_status'' (PyStr ''error'') item)), t'))
      | _ \<Rightarrow> (Inl (TypeError ''execution journal entry must be an object''), t))"

text \<open>\<open>list_json_items\<close> orders by update time and key; \<open>load\<close> sorts by record time and event id.\<close>

definition listed_rows :: "journal_table \<Rightarrow> journal_entry list" where
  "listed_rows t = map (kv_doc \<circ> snd) (sort_key (\<lambda>(k, row). (kv_updated_at_ms row, k)) t)"

definition journal_key :: "journal_entry \<Rightarrow> (int \<times> string) res" where
  "journal_key row =
     rbind (py_int (py_get row ''recorded_at_ms'' (PyInt 0))) (\<lambda>ms.
       Inr (ms, py_str (py_get row ''journal_event_id'' (PyStr []))))"

definition load :: "journal_table \<Rightarrow> journal_entry list res" where
  "load t =
     rbind (rmapM (\<lambda>row. rbind (journal_key row) (\<lambda>k. Inr (k, row))) (listed_rows t)) (\<lambda>keyed.
       Inr (map snd (sort_key fst keyed)))"

section \<open>Summary\<close>

definition jr_environment :: "pyval \<Rightarrow> string" where
  "jr_environment v =
     (let clean = lower (strip (py_str (py_or v (PyStr []))))
      in if clean \<in> {''sandbox'', ''testnet''} then ''testnet''
         else if clean \<in> {''live'', ''mainnet''} then ''mainnet'' else [])"

definition entry_environment :: "journal_entry \<Rightarrow> string" where
  "entry_environment item =
     jr_environment (py_or (py_get item ''environment'' PyNone) (py_get item ''mode'' PyNone))"

text \<open>Membership in a set of strings hashes the value: a list or a dict raises.\<close>

definition in_words :: "pyval \<Rightarrow> string list \<Rightarrow> bool res" where
  "in_words v words =
     (case v of PyStr s \<Rightarrow> Inr (s \<in> set words)
      | PyList _ \<Rightarrow> Inl (TypeError ''unhashable type: list'')
      | PyDict _ \<Rightarrow> Inl (TypeError ''unhashable type: dict'')
      | _ \<Rightarrow> Inr False)"

record journal_summary =
  js_recorded_orders :: nat
  js_accepted_orders :: nat
  js_verified_testnet_orders :: nat
  js_verified_live_orders :: nat
  js_unresolved_orders :: nat
  js_last_order :: "journal_entry option"
  js_scope :: string

definition summary :: "string \<Rightarrow> journal_table \<Rightarrow> journal_summary res" where
  "summary scope t =
     rbind (load t) (\<lambda>orders.
       let accepted = filter (\<lambda>item. py_eq (py_get item ''status'' PyNone) (PyStr ''accepted'')) orders
       in rbind (rmapM (\<lambda>item. in_words (py_get item ''status'' PyNone)
                           [''reserved'', ''submitted'', ''unresolved'']) orders) (\<lambda>open_flags.
          Inr \<lparr>js_recorded_orders = length orders, js_accepted_orders = length accepted,
               js_verified_testnet_orders = length (filter (\<lambda>item. entry_environment item = ''testnet'') accepted),
               js_verified_live_orders = length (filter (\<lambda>item. entry_environment item = ''mainnet'') accepted),
               js_unresolved_orders = length (filter id open_flags),
               js_last_order = (if orders = [] then None else Some (last orders)),
               js_scope = scope\<rparr>))"

section \<open>The table\<close>

text \<open>What the appends keep: distinct ids, each row under its event id with its record time.\<close>

definition journal_wf :: "journal_table \<Rightarrow> bool" where
  "journal_wf t \<longleftrightarrow> distinct (map fst t) \<and>
     (\<forall>(k, row) \<in> set t. 0 < kv_version row \<and> map_of (kv_doc row) ''journal_event_id'' = Some (PyStr k) \<and>
        (\<exists>ms. map_of (kv_doc row) ''recorded_at_ms'' = Some (PyInt ms)))"

definition journal_scope :: "string \<Rightarrow> bool" where
  "journal_scope scope \<longleftrightarrow> length scope = 20 \<and> list_all is_hex scope"

text \<open>The order of a loaded journal: record time, then event id.\<close>

definition journal_order :: "journal_entry \<Rightarrow> int \<times> string" where
  "journal_order row =
     (case map_of row ''recorded_at_ms'' of Some (PyInt ms) \<Rightarrow> ms | _ \<Rightarrow> 0,
      py_str (py_get row ''journal_event_id'' (PyStr [])))"

section \<open>Lemmas\<close>

lemma utc_isoformat_examples:
  "utc_isoformat 0 = Inr ''1970-01-01T00:00:00+00:00''"
  "utc_isoformat 1709164800123 = Inr ''2024-02-29T00:00:00.123000+00:00''"
  "utc_isoformat 1767225599999 = Inr ''2025-12-31T23:59:59.999000+00:00''"
  by code_simp+

lemma event_id_clean:
  assumes "event_id v = Inr eid"
  shows "db_identifier eid ''key'' = Inr eid"
proof -
  from assms have "eid = strip (py_str v)" "eid \<noteq> []" "length eid \<le> 200"
    by (auto simp: event_id_def Let_def split: if_splits)
  then show ?thesis by (simp add: db_identifier_def strip_strip)
qed

lemma put_entry_Inr:
  assumes "put_entry scope eid item clock t = Inr t'" "db_identifier eid ''key'' = Inr eid"
    "db_identifier (journal_namespace scope) ''namespace'' = Inr (journal_namespace scope)"
    "\<And>k row. map_of t k = Some row \<Longrightarrow> 0 < kv_version row"
  shows "map_of t eid = None"
    "t' = AList.update eid \<lparr>kv_doc = item, kv_version = 1, kv_updated_at_ms = clock\<rparr> t"
    "json_compliant (PyDict item)"
proof -
  from assms(1) have "json_compliant (PyDict item)" "kv_current (map_of t eid) = 0 \<and>
     t' = AList.update eid \<lparr>kv_doc = item, kv_version = 1, kv_updated_at_ms = clock\<rparr> t"
    using assms(2,3)
    by (auto simp: put_entry_def put_json_def journal_kv_def Let_def res_simps split: if_splits)
  moreover from this have "map_of t eid = None"
    using assms(4) by (force simp: kv_current_def split: option.splits)
  ultimately show "map_of t eid = None"
    "t' = AList.update eid \<lparr>kv_doc = item, kv_version = 1, kv_updated_at_ms = clock\<rparr> t"
    "json_compliant (PyDict item)" by simp_all
qed


lemma journal_namespace_clean:
  assumes "journal_scope scope"
  shows "db_identifier (journal_namespace scope) ''namespace'' = Inr (journal_namespace scope)"
proof -
  have "list_all (\<lambda>c. \<not> is_space c) (journal_namespace scope)"
    using assms is_alnum_not_space [OF is_hex_alnum]
    by (auto simp: journal_scope_def journal_namespace_def list_all_iff is_space_def ccode_def)
  then have "strip (journal_namespace scope) = journal_namespace scope" by (rule strip_no_space)
  then show ?thesis using assms by (simp add: db_identifier_def journal_namespace_def journal_scope_def)
qed

lemma journal_item_fields:
  "map_of (journal_item e eid ra now_ms) ''journal_event_id'' = Some (PyStr eid)"
  "map_of (journal_item e eid ra now_ms) ''recorded_at_ms'' = Some (PyInt now_ms)"
  by (simp_all add: journal_item_def update_conv')

lemma journal_wf_update:
  assumes "journal_wf t"
  shows "journal_wf (AList.update eid \<lparr>kv_doc = journal_item e eid ra now_ms, kv_version = 1,
           kv_updated_at_ms = clock\<rparr> t)" (is "journal_wf (AList.update eid ?row t)")
  unfolding journal_wf_def
proof (intro conjI ballI)
  show "distinct (map fst (AList.update eid ?row t))" using assms by (simp add: journal_wf_def distinct_update)
next
  fix x assume "x \<in> set (AList.update eid ?row t)"
  then have "x = (eid, ?row) \<or> x \<in> set t" using set_update_subset [of eid ?row t] by blast
  then show "case x of (k, row) \<Rightarrow> 0 < kv_version row \<and>
      map_of (kv_doc row) ''journal_event_id'' = Some (PyStr k) \<and>
      (\<exists>ms. map_of (kv_doc row) ''recorded_at_ms'' = Some (PyInt ms))"
    using assms by (auto simp: journal_wf_def journal_item_fields)
qed

text \<open>A successful append adds one fresh row and keeps every other.\<close>

lemma append_entry_Inr:
  assumes "append_entry scope (PyDict e) now_ms uuid clock backup t = (Inr out, t')"
    and "journal_scope scope" "journal_wf t"
  obtains eid ra where "map_of t eid = None" "utc_isoformat now_ms = Inr ra"
    "map_of t' = (map_of t)(eid \<mapsto> \<lparr>kv_doc = journal_item e eid ra now_ms, kv_version = 1,
                                  kv_updated_at_ms = clock\<rparr>)"
    "journal_wf t'"
proof -
  from assms(1) obtain eid ra where eid: "event_id (py_or (py_get e ''journal_event_id'' PyNone) (PyStr uuid)) = Inr eid"
    and at: "utc_isoformat now_ms = Inr ra"
    and put: "put_entry scope eid (journal_item e eid ra now_ms) clock t = Inr t'"
    by (auto simp: append_entry_def res_simps Let_def split: sum.splits)
  have pos: "0 < kv_version row" if "map_of t k = Some row" for k row
    using assms(3) map_of_SomeD [OF that] by (auto simp: journal_wf_def)
  have p: "map_of t eid = None" "t' = AList.update eid \<lparr>kv_doc = journal_item e eid ra now_ms,
      kv_version = 1, kv_updated_at_ms = clock\<rparr> t"
    using put_entry_Inr [OF put event_id_clean [OF eid] journal_namespace_clean [OF assms(2)]] pos by blast+
  have "journal_wf t'" unfolding p(2) using assms(3) by (rule journal_wf_update)
  then show thesis using p at by (intro that [of eid ra]) (simp_all add: update_conv')
qed


text \<open>A refused append leaves the table as it was; a known event id is always refused.\<close>

lemma append_entry_Inl: "append_entry scope e now_ms uuid clock backup t = (Inl err, t') \<Longrightarrow> t' = t"
  by (auto simp: append_entry_def split: pyval.splits sum.splits)

lemma load_wf:
  assumes "journal_wf t"
  shows "load t = Inr (sort_key journal_order (listed_rows t))"
proof -
  have k: "journal_key row = Inr (journal_order row)" if "row \<in> set (listed_rows t)" for row
    using that assms
    by (fastforce simp: listed_rows_def journal_wf_def journal_key_def journal_order_def py_get_def)
  have "rmapM (\<lambda>row. rbind (journal_key row) (\<lambda>k. Inr (k, row))) (listed_rows t) =
      Inr (map (\<lambda>row. (journal_order row, row)) (listed_rows t))"
    by (rule rmapM_Inr_all) (simp add: k)
  then show ?thesis by (simp add: load_def sort_key_decorate comp_def)
qed

lemma mset_listed_rows: "mset (listed_rows t) = mset (map (kv_doc \<circ> snd) t)"
  by (simp add: listed_rows_def)

end
