(* ===== verification/Startup_Reconciliation.thy ===== *)
theory Startup_Reconciliation
  imports Execution_Idempotency Order_State Kill_Switch Private_Ws_Gate Execution_Journal
begin

text \<open>
  \<open>autonomous_trading/startup_reconciliation.py\<close>: the gate a restarted process passes before it may
  execute. \<open>reconcile_startup\<close> reads the reservations, the private order state, the journal and the
  health of the private stream, moves every reservation along to the state the exchange reported,
  collects every disagreement, and latches the kill switch unless nothing is left open. The four
  stores are the tables of the components; clock readings and the interference of other writers of
  the latch are arguments.
\<close>

definition sr_terminal :: "string list" where
  "sr_terminal = [''Filled'', ''Cancelled'', ''Rejected'', ''Deactivated'', ''PartiallyFilledCanceled'']"

record startup_report =
  sr_status :: string
  sr_restart_safe :: bool
  sr_environment :: string
  sr_reservation_count :: nat
  sr_private_order_count :: nat
  sr_journal_order_count :: nat
  sr_synchronized :: "string list"
  sr_unresolved :: "string list"
  sr_errors :: "string list"
  sr_private_stream_required :: bool
  sr_private_stream_ready :: bool
  sr_private_stream_status :: stream_gate_report

text \<open>The stores the reconciler holds.\<close>

record startup_world =
  sw_identity :: "identity_doc kv"
  sw_orders :: "order_doc kv"
  sw_health :: "stream_health kv"
  sw_journal :: journal_table
  sw_kill :: "kill_switch_state kv"

record startup_reconciler =
  su_environment :: string
  su_registry :: string
  su_orders :: order_store
  su_stream :: string
  su_require_private_stream :: bool

definition testnet_private_stream_required :: "os_env \<Rightarrow> bool" where
  "testnet_private_stream_required env =
     list_ex (\<lambda>name. lower (strip (getenv env name ''0'')) \<in> set true_words)
       [''TESTNET_EXECUTION_ENABLED'', ''AUTONOMOUS_TESTNET_ENABLED'', ''AUTONOMOUS_TESTNET_BRIDGE_ENABLED'']"

definition private_stream_max_age_seconds :: "os_env \<Rightarrow> pyfloat" where
  "private_stream_max_age_seconds env =
     (case float_of_string (getenv env ''BYBIT_PRIVATE_WS_GATE_MAX_AGE_SECONDS'' ''60'') of
        None \<Rightarrow> Fin 60
      | Some v \<Rightarrow> py_min (py_max v (Fin 5)) (Fin 300))"

text \<open>The constructor with its default stores.\<close>

definition startup_init ::
  "os_env \<Rightarrow> bool option \<Rightarrow> string \<Rightarrow> startup_reconciler res" where
  "startup_init env require_private_stream environment =
     rbind (registry_init environment) (\<lambda>registry.
     rbind (order_store_init env (Some environment) None None) (\<lambda>orders.
     rbind (stream_environment environment) (\<lambda>stream.
       Inr \<lparr>su_environment = environment, su_registry = registry, su_orders = orders, su_stream = stream,
            su_require_private_stream =
              (case require_private_stream of None \<Rightarrow> testnet_private_stream_required env
               | Some b \<Rightarrow> b)\<rparr>)))"

section \<open>Indices\<close>

definition recorded_ms :: "journal_entry \<Rightarrow> int res" where
  "recorded_ms raw = py_int (py_or (py_get raw ''recorded_at_ms'' (PyInt 0)) (PyInt 0))"

definition latest_step :: "journal_entry dict \<Rightarrow> journal_entry \<Rightarrow> journal_entry dict res" where
  "latest_step result raw =
     (let link = row_text raw ''order_link_id'' ''orderLinkId''
      in if link = [] then Inr result
         else let current = map_of result link
              in rbind (recorded_ms raw) (\<lambda>timestamp.
                 rbind (case current of None \<Rightarrow> Inr (- 1) | Some c \<Rightarrow> recorded_ms c) (\<lambda>current_timestamp.
                   Inr (if current = None \<or> current_timestamp \<le> timestamp
                        then AList.update link raw result else result))))"

definition latest_journal_by_link :: "journal_entry list \<Rightarrow> journal_entry dict res" where
  "latest_journal_by_link rows = rfold latest_step [] rows"

definition orders_by_link :: "order_state list \<Rightarrow> order_state dict" where
  "orders_by_link rows =
     fold (\<lambda>s. AList.update (os_order_link_id s) s) (filter (\<lambda>s. os_order_link_id s \<noteq> []) rows) []"

definition entry_order_id :: "journal_entry \<Rightarrow> string" where
  "entry_order_id row =
     py_str (py_or (py_get row ''order_id'' PyNone) (py_or (py_get row ''orderId'' PyNone) (PyStr [])))"

section \<open>One reservation\<close>

text \<open>\<open>str(exc)\<close> of the exceptions the stores raise.\<close>

fun error_text :: "py_error \<Rightarrow> string" where
  "error_text (ValueError m) = m"
| "error_text (RuntimeError m) = m"
| "error_text (TypeError m) = m"
| "error_text (KeyError m) = repr_string m"
| "error_text (OverflowError m) = m"
| "error_text (DecimalSignal m) = m"
| "error_text ZeroDivisionError = ''division by zero''"
| "error_text VersionConflict = ''version mismatch''"
| "error_text (DuplicateExecutionBlocked l) =
     ''duplicate execution blocked for orderLinkId '' @ l @ ''; reconciliation required''"
| "error_text (BybitRejectedOrder m c) = m"
| "error_text (AttributeError m) = m"
| "error_text (HttpError n) = n"
| "error_text (CustomError n m) = m"

definition sync_error :: "string \<Rightarrow> py_error \<Rightarrow> string" where
  "sync_error link e =
     ''cannot synchronize private state for '' @ link @ '': '' @ error_name e @ '': '' @ error_text e"

text \<open>
  Carry the private state over to the reservation: the reservation to go on with, the table, the
  errors and the synchronised links.
\<close>

definition sync_reservation ::
  "(string \<Rightarrow> string) \<Rightarrow> string \<Rightarrow> int \<Rightarrow> (identity_doc kv \<Rightarrow> identity_doc kv) list \<Rightarrow> identity_doc kv \<Rightarrow>
   reservation \<Rightarrow> order_state option \<Rightarrow> reservation \<times> identity_doc kv \<times> string list \<times> string list" where
  "sync_reservation H env clock others db r private =
     (let link = rs_order_link_id r
      in case private of
           None \<Rightarrow> (r, db, [], [])
         | Some order \<Rightarrow>
             (case sync_private_state H env link (os_status order) (os_cum_exec_qty order)
                     (os_order_id order) (os_updated_time_ms order) clock others db of
                (Inl e, db') \<Rightarrow> (r, db', [sync_error link e], [])
              | (Inr _, db') \<Rightarrow>
                  (case record_for H env db' link of
                     Inl e \<Rightarrow> (r, db', [sync_error link e], [link])
                   | Inr None \<Rightarrow> (r, db', [], [link])
                   | Inr (Some r') \<Rightarrow> (r', db', [], [link]))))"

definition evidence_errors ::
  "reservation \<Rightarrow> string \<Rightarrow> order_state option \<Rightarrow> journal_entry option \<Rightarrow> string list" where
  "evidence_errors r link private journal =
     (let status = rs_status r
      in (if journal = None \<and> status \<noteq> ''Reserved''
          then [''execution journal evidence is missing for '' @ link] else []) @
         (if private = None \<and> status \<notin> set sr_terminal
          then [''unresolved '' @ or_text status ''unknown'' @
                '' reservation has no private order evidence: '' @ link] else []) @
         (case private of None \<Rightarrow> []
          | Some order \<Rightarrow>
              (if rs_order_id r \<noteq> [] \<and> os_order_id order \<noteq> [] \<and> rs_order_id r \<noteq> os_order_id order
               then [''orderId mismatch for '' @ link] else []) @
              (case journal of None \<Rightarrow> []
               | Some row \<Rightarrow>
                   (if entry_order_id row \<noteq> [] \<and> os_order_id order \<noteq> [] \<and>
                       entry_order_id row \<noteq> os_order_id order
                    then [''journal/private orderId mismatch for '' @ link] else []))))"

record startup_progress =
  sp_identity :: "identity_doc kv"
  sp_errors :: "string list"
  sp_synchronized :: "string list"
  sp_unresolved :: "string list"

definition startup_step ::
  "(string \<Rightarrow> string) \<Rightarrow> string \<Rightarrow> order_state dict \<Rightarrow> journal_entry dict \<Rightarrow> int \<Rightarrow>
   (string \<Rightarrow> (identity_doc kv \<Rightarrow> identity_doc kv) list) \<Rightarrow> reservation \<Rightarrow> startup_progress \<Rightarrow>
   startup_progress" where
  "startup_step H env private_by_link journal_by_link clock others r p =
     (let link = rs_order_link_id r
      in if link = [] then p\<lparr>sp_errors := sp_errors p @ [''idempotency reservation has no orderLinkId'']\<rparr>
         else let private = map_of private_by_link link;
                  journal = map_of journal_by_link link;
                  (r', db', errs, synced) = sync_reservation H env clock (others link) (sp_identity p) r private
              in \<lparr>sp_identity = db',
                  sp_errors = sp_errors p @ errs @ evidence_errors r' link private journal,
                  sp_synchronized = sp_synchronized p @ synced,
                  sp_unresolved = sp_unresolved p @
                    (if private = None \<and> rs_status r' \<notin> set sr_terminal then [link] else [])\<rparr>)"

definition orphan_errors :: "string list \<Rightarrow> order_state list \<Rightarrow> string list" where
  "orphan_errors reservation_links private_rows =
     concat (map (\<lambda>s. let link = os_order_link_id s
                      in if link \<noteq> [] \<and> link \<notin> set reservation_links
                         then [''managed private order has no idempotency reservation: '' @ link] else [])
               private_rows)"

section \<open>The gate\<close>

text \<open>Everything up to the report; the table is what the synchronisation left.\<close>

definition startup_report_of ::
  "(string \<Rightarrow> string) \<Rightarrow> os_env \<Rightarrow> startup_reconciler \<Rightarrow> int \<Rightarrow> int \<Rightarrow>
   (string \<Rightarrow> (identity_doc kv \<Rightarrow> identity_doc kv) list) \<Rightarrow> startup_world \<Rightarrow>
   startup_report res \<times> identity_doc kv" where
  "startup_report_of H env su gate_clock clock others w =
     (case rbind (snapshot H (su_registry su) (sw_identity w)) (\<lambda>identity.
           rbind (order_snapshot_of (su_orders su) (sw_orders w)) (\<lambda>private.
           rbind (load (sw_journal w)) (\<lambda>rows.
           rbind (evaluate (su_stream su) (su_require_private_stream su) None
                    (private_stream_max_age_seconds env) gate_clock (sw_health w)) (\<lambda>stream.
           rbind (latest_journal_by_link rows) (\<lambda>journal_by_link.
             Inr (is_reservations identity, sn_managed_orders private, rows, stream, journal_by_link)))))) of
        Inl e \<Rightarrow> (Inl e, sw_identity w)
      | Inr (reservations, private_rows, rows, stream, journal_by_link) \<Rightarrow>
          (let p0 = \<lparr>sp_identity = sw_identity w,
                     sp_errors = (if su_require_private_stream su \<and> \<not> pg_ready stream
                                  then pg_failed_gates stream else []),
                     sp_synchronized = [], sp_unresolved = []\<rparr>;
               p = fold (startup_step H (su_registry su) (orders_by_link private_rows) journal_by_link
                           clock others) reservations p0;
               errors = sp_errors p @
                        orphan_errors (filter (\<lambda>l. l \<noteq> []) (map rs_order_link_id reservations)) private_rows
           in case snapshot H (su_registry su) (sp_identity p) of
                Inl e \<Rightarrow> (Inl e, sp_identity p)
              | Inr final \<Rightarrow>
                  (let unresolved = sorted_set (sp_unresolved p @
                         filter (\<lambda>l. l \<noteq> []) (map rs_order_link_id (is_unresolved final)));
                       restart_safe = (errors = [] \<and> unresolved = [])
                   in (Inr \<lparr>sr_status = (if restart_safe then ''ok'' else ''blocked''),
                            sr_restart_safe = restart_safe, sr_environment = su_environment su,
                            sr_reservation_count = length reservations,
                            sr_private_order_count = length private_rows,
                            sr_journal_order_count = length rows,
                            sr_synchronized = sorted_set (sp_synchronized p),
                            sr_unresolved = unresolved, sr_errors = errors,
                            sr_private_stream_required = su_require_private_stream su,
                            sr_private_stream_ready = pg_ready stream,
                            sr_private_stream_status = stream\<rparr>, sp_identity p))))"

definition startup_latch ::
  "os_env \<Rightarrow> int \<Rightarrow> (kill_switch_state kv \<Rightarrow> kill_switch_state kv) list \<Rightarrow> kill_switch_state kv \<Rightarrow>
   unit res \<times> kill_switch_state kv" where
  "startup_latch env clock others db =
     (case kill_state env db of Inl e \<Rightarrow> (Inl e, db)
      | Inr switch \<Rightarrow>
          if \<not> ks_active switch \<or> ks_source switch = ''environment''
          then (case trip ''startup_reconciliation_failed'' ''StartupExecutionReconciler''
                       ''startup_reconciliation'' clock others db of
                  (Inl e, db') \<Rightarrow> (Inl e, db')
                | (Inr _, db') \<Rightarrow> (Inr (), db'))
          else (Inr (), db))"

definition reconcile_startup ::
  "(string \<Rightarrow> string) \<Rightarrow> os_env \<Rightarrow> startup_reconciler \<Rightarrow> int \<Rightarrow> int \<Rightarrow> int \<Rightarrow>
   (string \<Rightarrow> (identity_doc kv \<Rightarrow> identity_doc kv) list) \<Rightarrow>
   (kill_switch_state kv \<Rightarrow> kill_switch_state kv) list \<Rightarrow> startup_world \<Rightarrow>
   startup_report res \<times> startup_world" where
  "reconcile_startup H env su gate_clock clock trip_clock others kill_others w =
     (case startup_report_of H env su gate_clock clock others w of
        (Inl e, db) \<Rightarrow> (Inl e, w\<lparr>sw_identity := db\<rparr>)
      | (Inr rep, db) \<Rightarrow>
          if sr_restart_safe rep then (Inr rep, w\<lparr>sw_identity := db\<rparr>)
          else (case startup_latch env trip_clock kill_others (sw_kill w) of
                  (Inl e, kill) \<Rightarrow> (Inl e, w\<lparr>sw_identity := db, sw_kill := kill\<rparr>)
                | (Inr _, kill) \<Rightarrow> (Inr rep, w\<lparr>sw_identity := db, sw_kill := kill\<rparr>)))"

definition assert_restart_safe ::
  "(string \<Rightarrow> string) \<Rightarrow> os_env \<Rightarrow> startup_reconciler \<Rightarrow> int \<Rightarrow> int \<Rightarrow> int \<Rightarrow>
   (string \<Rightarrow> (identity_doc kv \<Rightarrow> identity_doc kv) list) \<Rightarrow>
   (kill_switch_state kv \<Rightarrow> kill_switch_state kv) list \<Rightarrow> startup_world \<Rightarrow>
   startup_report res \<times> startup_world" where
  "assert_restart_safe H env su gate_clock clock trip_clock others kill_others w =
     (case reconcile_startup H env su gate_clock clock trip_clock others kill_others w of
        (Inl e, w') \<Rightarrow> (Inl e, w')
      | (Inr rep, w') \<Rightarrow>
          if sr_restart_safe rep then (Inr rep, w')
          else (Inl (RuntimeError (''startup reconciliation blocked execution: '' @
                  or_text (join ''; '' (sr_errors rep)) ''unresolved execution state'')), w'))"

section \<open>Lemmas\<close>

lemma startup_latch_Inr:
  assumes "startup_latch env clock others db = (Inr u, db')" "well_behaved others"
  shows "latched db' \<or>
    (env_kill_active env \<and> db' = db \<and> (\<exists>row. db (kill_namespace, kill_key) = Some row \<and> \<not> ks_active (kv_doc row)))"
proof (cases "\<exists>st. trip ''startup_reconciliation_failed'' ''StartupExecutionReconciler''
    ''startup_reconciliation'' clock others db = (Inr st, db')")
  case True
  then show ?thesis using trip_latches(1) [OF assms(2)] by blast
next
  case False
  with assms(1) show ?thesis
    by (auto simp: startup_latch_def kill_state_eq latched_def split: option.splits if_splits sum.splits prod.splits)
qed

text \<open>
  A row that was cleared by hand while the environment flag is up reads as
  \<open>environment+persistent\<close>, and the reconciler leaves it open.
\<close>

lemma startup_latch_skips:
  assumes "db (kill_namespace, kill_key) = Some row" "\<not> ks_active (kv_doc row)" "env_kill_active env"
  shows "startup_latch env clock others db = (Inr (), db)"
  using assms by (simp add: startup_latch_def kill_state_eq)


text \<open>The synchronisation is made of registry operations.\<close>

lemma sync_reservation_ops:
  assumes "sync_reservation H env clock [] db r priv = (r', db', errs, synced)"
  shows "(registry_op H env)\<^sup>*\<^sup>* db db'"
proof (cases "priv")
  case None
  with assms show ?thesis by (simp add: sync_reservation_def)
next
  case (Some order)
  obtain q db1 where s: "sync_private_state H env (rs_order_link_id r) (os_status order) (os_cum_exec_qty order)
      (os_order_id order) (os_updated_time_ms order) clock [] db = (q, db1)" by fastforce
  then have "registry_op H env db db1" unfolding sync_private_state_def by (rule op_status)
  moreover from s Some assms have "db' = db1"
    by (auto simp: sync_reservation_def Let_def split: sum.splits option.splits)
  ultimately show ?thesis by simp
qed

lemma startup_step_ops:
  "(registry_op H env)\<^sup>*\<^sup>* (sp_identity p) (sp_identity (startup_step H env by_link journal clock (\<lambda>_. []) r p))"
proof -
  obtain r' db' errs synced where s: "sync_reservation H env clock [] (sp_identity p) r
      (map_of by_link (rs_order_link_id r)) = (r', db', errs, synced)" by (metis prod_cases4)
  from sync_reservation_ops [OF s] show ?thesis by (simp add: startup_step_def Let_def s)
qed

lemma startup_fold_ops:
  "(registry_op H env)\<^sup>*\<^sup>* (sp_identity p)
    (sp_identity (fold (startup_step H env by_link journal clock (\<lambda>_. [])) rs p))"
proof (induction rs arbitrary: p)
  case (Cons r rs)
  show ?case using rtranclp_trans [OF startup_step_ops Cons.IH] by (simp only: fold_Cons o_apply)
qed simp

lemma startup_report_ops:
  assumes "startup_report_of H env su gate_clock clock (\<lambda>_. []) w = (res, db)"
  shows "(registry_op H (su_registry su))\<^sup>*\<^sup>* (sw_identity w) db"
  using assms
    startup_fold_ops [of H "su_registry su" "\<lparr>sp_identity = sw_identity w, sp_errors = errs, sp_synchronized = [], sp_unresolved = []\<rparr>"
      for errs]
  by (auto simp: startup_report_of_def Let_def split: sum.splits)

lemma registry_reachable_ops:
  assumes "(registry_op H env)\<^sup>*\<^sup>* db db'" "registry_reachable H env db"
  shows "registry_reachable H env db'"
  using assms by (induction rule: rtranclp_induct) (auto intro: registry_reachable.op)

lemma startup_errors_grow:
  "\<exists>es. sp_errors (fold (startup_step H env by_link journal clock others) rs p) = sp_errors p @ es"
proof (induction rs arbitrary: p)
  case (Cons r rs)
  have "\<exists>es. sp_errors (startup_step H env by_link journal clock others r p) = sp_errors p @ es"
    by (auto simp: startup_step_def Let_def split: prod.splits)
  then show ?case using Cons.IH [of "startup_step H env by_link journal clock others r p"] by force
qed simp

text \<open>What a safe report certifies.\<close>

lemma startup_report_safe:
  assumes "startup_report_of H env su gate_clock clock others w = (Inr rep, db)" "sr_restart_safe rep"
  shows "\<exists>identity priv stream final.
    snapshot H (su_registry su) (sw_identity w) = Inr identity \<and>
    order_snapshot_of (su_orders su) (sw_orders w) = Inr priv \<and>
    evaluate (su_stream su) (su_require_private_stream su) None (private_stream_max_age_seconds env)
      gate_clock (sw_health w) = Inr stream \<and>
    snapshot H (su_registry su) db = Inr final \<and>
    (su_require_private_stream su \<longrightarrow> pg_ready stream) \<and>
    filter (\<lambda>l. l \<noteq> []) (map rs_order_link_id (is_unresolved final)) = [] \<and>
    orphan_errors (filter (\<lambda>l. l \<noteq> []) (map rs_order_link_id (is_reservations identity)))
      (sn_managed_orders priv) = []"
proof -
  from assms obtain identity priv rows stream journal_by_link errs final p where
    r: "snapshot H (su_registry su) (sw_identity w) = Inr identity"
      "order_snapshot_of (su_orders su) (sw_orders w) = Inr priv"
      "evaluate (su_stream su) (su_require_private_stream su) None (private_stream_max_age_seconds env)
         gate_clock (sw_health w) = Inr stream"
    and e: "errs = (if su_require_private_stream su \<and> \<not> pg_ready stream then pg_failed_gates stream else [])"
    and p: "p = fold (startup_step H (su_registry su) (orders_by_link (sn_managed_orders priv))
          journal_by_link clock others) (is_reservations identity)
          \<lparr>sp_identity = sw_identity w, sp_errors = errs, sp_synchronized = [], sp_unresolved = []\<rparr>"
    and f: "snapshot H (su_registry su) (sp_identity p) = Inr final" "db = sp_identity p"
    and safe: "sp_errors p = []"
      "orphan_errors (filter (\<lambda>l. l \<noteq> []) (map rs_order_link_id (is_reservations identity)))
         (sn_managed_orders priv) = []"
      "sorted_set (sp_unresolved p @ filter (\<lambda>l. l \<noteq> []) (map rs_order_link_id (is_unresolved final))) = []"
    unfolding startup_report_of_def
    by (auto simp: res_simps Let_def split: sum.splits prod.splits)
  have "errs = []" using safe(1) p by (metis startup_errors_grow startup_progress.select_convs(2) append_is_Nil_conv)
  moreover from r(3) have "pg_ready stream \<longleftrightarrow> pg_failed_gates stream = []" by (rule evaluate_Inr)
  moreover from safe(3) have "filter (\<lambda>l. l \<noteq> []) (map rs_order_link_id (is_unresolved final)) = []"
    by simp
  ultimately show ?thesis using r e f safe(2) by auto
qed


lemma order_link_not_Nil: "order_link l = Inr l \<Longrightarrow> l \<noteq> []"
  by (auto simp: order_link_def startswith_def Let_def split: if_splits)

lemma resolved_registry:
  assumes "registry_store_wf H env db" "clean_cell id_namespace env" "snapshot H env db = Inr s"
    and "filter (\<lambda>l. l \<noteq> []) (map rs_order_link_id (is_unresolved s)) = []"
    and "lookup_reservation env db l = Some r"
  shows "rs_status r \<in> set id_terminal"
proof (rule ccontr)
  assume "rs_status r \<notin> set id_terminal"
  then have "r \<in> set (is_unresolved s)" using unresolved_lists [OF assms(5) _ assms(3,2)] by blast
  then have Nil: "rs_order_link_id r = []" using assms(4) by (auto simp: filter_empty_conv)
  from id_read_wf [OF assms(1)] obtain d where d: "id_read H env db = Inr d" "registry_wf H env d" by blast
  with assms(5) have "map_of (id_reservations d) l = Some r" by (simp add: id_read_lookup)
  with d(2) have "reservation_ok H env l r" "rs_order_link_id r = l"
    by (auto simp: registry_wf_iff dest: map_of_SomeD)
  with Nil show False by (auto simp: reservation_ok_def dest: order_link_not_Nil)
qed

lemma orphan_errors_Nil:
  "orphan_errors links rows = [] \<longleftrightarrow>
     (\<forall>s \<in> set rows. os_order_link_id s \<noteq> [] \<longrightarrow> os_order_link_id s \<in> set links)"
  by (auto simp: orphan_errors_def Let_def)

lemma snapshot_lookup:
  assumes "snapshot H env db = Inr s" "clean_cell id_namespace env" "registry_store_wf H env db"
    and "r \<in> set (is_reservations s)"
  shows "lookup_reservation env db (rs_order_link_id r) = Some r"
proof -
  from assms(1,2) obtain d where d: "id_read H env db = Inr d"
    and s: "set (is_reservations s) = set (map snd (id_reservations d))"
    by (auto simp: snapshot_def get_json_clean res_simps Let_def id_read_def)
  from d id_read_wf [OF assms(3)] have wf: "registry_wf H env d" by auto
  from assms(4) s obtain l where l: "(l, r) \<in> set (id_reservations d)" by auto
  with wf have "rs_order_link_id r = l" "map_of (id_reservations d) l = Some r"
    by (auto simp: registry_wf_iff)
  with d show ?thesis by (simp add: id_read_lookup)
qed

text \<open>After a blocked report the latch is set, unless the environment flag hides a cleared row.\<close>

lemma reconcile_startup_blocks:
  assumes "reconcile_startup H env su gate_clock clock trip_clock others kill_others w = (Inr rep, w')"
    and "\<not> sr_restart_safe rep" "well_behaved kill_others"
  shows "latched (sw_kill w') \<or>
    (env_kill_active env \<and> sw_kill w' = sw_kill w \<and>
     (\<exists>row. sw_kill w (kill_namespace, kill_key) = Some row \<and> \<not> ks_active (kv_doc row)))"
proof -
  from assms(1,2) obtain u kill where "startup_latch env trip_clock kill_others (sw_kill w) = (Inr u, kill)"
    "sw_kill w' = kill"
    by (auto simp: reconcile_startup_def split: prod.splits sum.splits if_splits)
  with startup_latch_Inr [OF this(1) assms(3)] show ?thesis by simp
qed

lemma reconcile_startup_safe:
  assumes "reconcile_startup H env su gate_clock clock trip_clock others kill_others w = (Inr rep, w')"
    and "sr_restart_safe rep"
  shows "startup_report_of H env su gate_clock clock others w = (Inr rep, sw_identity w')"
    "w' = w\<lparr>sw_identity := sw_identity w'\<rparr>"
  using assms by (auto simp: reconcile_startup_def split: prod.splits sum.splits if_splits)

lemma assert_restart_safe_Inr:
  assumes "assert_restart_safe H env su gate_clock clock trip_clock others kill_others w = (Inr rep, w')"
  shows "sr_restart_safe rep"
    "reconcile_startup H env su gate_clock clock trip_clock others kill_others w = (Inr rep, w')"
  using assms by (auto simp: assert_restart_safe_def split: prod.splits sum.splits if_splits)

end
