(* ===== verification/Submission_Contract.thy ===== *)
theory Submission_Contract
  imports Execution_Safety Registry_Theorems Startup_Reconciliation
begin

text \<open>
  What one call of \<open>execute\<close> promises, said without its code: \<open>submission\<close> relates what a client sees
  before and after the call (the latch, the status and order id of every link, the links that were
  sent), what the exchange replied, and the answer. \<open>execute_submission\<close> shows that every call meets
  the contract, on every branch: refusals, open orders, a POST that was not sent, and the four ways
  the reply can be settled.
\<close>

section \<open>The contract of a submission\<close>

text \<open>What a client of the adapter sees: links are mapped to the status and the bound order id.\<close>

record submission_view =
  sv_latched :: bool
  sv_orders :: "string \<Rightarrow> (string \<times> string) option"
  sv_sent :: "string list"

text \<open>What the exchange said, and what the caller is told; an unclear reply may or may not be an order.\<close>

datatype exchange_reply = Unclear | Declines | Accepts string

datatype submission_answer = Failed | Accepted string

definition all_ended :: "submission_view \<Rightarrow> bool" where
  "all_ended a = (\<forall>k s x. sv_orders a k = Some (s, x) \<longrightarrow> s \<in> set id_terminal)"

text \<open>The switch is open, every order has ended and the link is new.\<close>

definition may_submit :: "bool \<Rightarrow> string \<Rightarrow> submission_view \<Rightarrow> bool" where
  "may_submit stop l a = (\<not> stop \<and> \<not> sv_latched a \<and> sv_orders a l = None \<and> all_ended a)"

definition with_order :: "submission_view \<Rightarrow> string \<Rightarrow> string \<Rightarrow> string \<Rightarrow> submission_view" where
  "with_order a l s x = a\<lparr>sv_orders := (sv_orders a)(l \<mapsto> (s, x))\<rparr>"

definition with_post :: "submission_view \<Rightarrow> string \<Rightarrow> submission_view" where
  "with_post a l = a\<lparr>sv_sent := sv_sent a @ [l]\<rparr>"

definition with_latch :: "submission_view \<Rightarrow> submission_view" where
  "with_latch a = a\<lparr>sv_latched := True\<rparr>"

text \<open>An order id can be bound when it is well formed and no other link carries it.\<close>

definition bindable :: "string \<Rightarrow> submission_view \<Rightarrow> string \<Rightarrow> bool" where
  "bindable l a x =
     (id_identifier x ''order_id'' = Inr (strip x) \<and> (\<forall>k s. sv_orders a k = Some (s, strip x) \<longrightarrow> k = l))"

text \<open>
  The contract. A request that is not ready may be refused or, when only its host is not approved,
  be marked and not sent; the reply decides the rest.
\<close>

inductive submission ::
  "bool \<Rightarrow> bool \<Rightarrow> exchange_reply \<Rightarrow> string \<Rightarrow> submission_view \<Rightarrow> submission_answer \<Rightarrow> submission_view \<Rightarrow> bool"
  for ready stop reply l a where
  refused: "\<not> ready \<or> stop \<or> sv_latched a \<or> all_ended a \<and> sv_orders a l \<noteq> None \<Longrightarrow>
     submission ready stop reply l a Failed a"
| open_order: "\<not> stop \<Longrightarrow> \<not> sv_latched a \<Longrightarrow> \<not> all_ended a \<Longrightarrow>
     submission ready stop reply l a Failed (with_latch a)"
| not_sent: "\<not> ready \<Longrightarrow> may_submit stop l a \<Longrightarrow>
     submission ready stop reply l a Failed (with_latch (with_order a l ''Submitted'' []))"
| unclear: "may_submit stop l a \<Longrightarrow> reply = Unclear \<Longrightarrow>
     submission ready stop reply l a Failed (with_latch (with_post (with_order a l ''Submitted'' []) l))"
| declined: "may_submit stop l a \<Longrightarrow> reply = Declines \<Longrightarrow>
     submission ready stop reply l a Failed (with_post (with_order a l ''Rejected'' []) l)"
| not_bound: "may_submit stop l a \<Longrightarrow> reply = Accepts x \<Longrightarrow> \<not> bindable l a x \<Longrightarrow>
     submission ready stop reply l a Failed (with_post (with_order a l ''Submitted'' []) l)"
| accepted: "may_submit stop l a \<Longrightarrow> reply = Accepts x \<Longrightarrow> bindable l a x \<Longrightarrow>
     submission ready stop reply l a (Accepted x) (with_post (with_order a l ''Submitted'' (strip x)) l)"

text \<open>For a request that is ready the contract fixes the answer and the view after the call.\<close>

lemma submission_unique:
  assumes "submission True stop reply l a x a1" "submission True stop reply l a y a2"
  shows "x = y \<and> a1 = a2"
  using assms by (elim submission.cases) (simp_all add: may_submit_def)

lemma submission_sends:
  assumes "submission True stop reply l a x a'" "may_submit stop l a"
  shows "sv_sent a' = sv_sent a @ [l]"
  using assms by (elim submission.cases)
    (simp_all add: may_submit_def with_post_def with_order_def with_latch_def)

text \<open>
  When a request is ready: it is valid and passes the checks before the reservation, its host is
  approved, and its attempt is the first of its order or follows one that ended without a fill.
\<close>

definition retry_allowed :: "(string \<Rightarrow> string) \<Rightarrow> order_intent \<Rightarrow> identity_doc kv \<Rightarrow> bool" where
  "retry_allowed H i db =
     (if oi_attempt i = 1 then same_order H ''testnet'' db i = {}
      else same_order H ''testnet'' db i \<noteq> {} \<and>
        (\<forall>q \<in> same_order H ''testnet'' db i. (\<forall>q' \<in> same_order H ''testnet'' db i. rs_attempt q' \<le> rs_attempt q) \<longrightarrow>
           oi_attempt i = rs_attempt q + 1 \<and> rs_status q \<in> set zero_fill_retryable \<and>
           feq (rs_cum_exec_qty q) (Fin 0)))"

definition submission_ready ::
  "(string \<Rightarrow> string) \<Rightarrow> execution_client \<Rightarrow> os_env \<Rightarrow> approved_execution_request \<Rightarrow> int \<Rightarrow> exec_world \<Rightarrow> bool" where
  "submission_ready H cl env req now w =
     (validate_execution_request H req now = Inr () \<and>
      (\<exists>n. preflight cl env w (rq_symbol req) (side_value (rq_side req)) (rq_quantity req)
             (rq_reference_price req) (category_value (rq_category req)) = Inr n) \<and>
      (\<exists>url. validate_bybit_base_url (ec_base_url cl) ''sandbox'' = Inr url) \<and>
      (\<forall>i. to_order_intent req = Inr i \<longrightarrow> retry_allowed H i (ew_identity w)))"

text \<open>What the code's world and values look like to the contract.\<close>

definition view_of :: "exec_world \<Rightarrow> submission_view" where
  "view_of w = \<lparr>sv_latched = latched (ew_kill w),
     sv_orders = (\<lambda>l. map_option (\<lambda>r. (rs_status r, rs_order_id r)) (lookup_reservation ''testnet'' (ew_identity w) l)),
     sv_sent = sent_links w\<rparr>"

fun answer_of :: "execution_result res \<Rightarrow> submission_answer" where
  "answer_of (Inl e) = Failed"
| "answer_of (Inr r) = Accepted (given (er_order_id r))"

definition reply_of :: "http_outcome \<Rightarrow> exchange_reply" where
  "reply_of outcome =
     (case outcome of HttpFailure name \<Rightarrow> Unclear
      | HttpJson data \<Rightarrow>
          (case response_code data of Inl e \<Rightarrow> Unclear
           | Inr code \<Rightarrow>
               if code \<noteq> 0 then Declines
               else (case response_order_id data of Inr (Some x) \<Rightarrow> Accepts x | _ \<Rightarrow> Unclear)))"

section \<open>Errors that are not a rejection\<close>

definition no_rejection :: "'a res \<Rightarrow> bool" where
  "no_rejection r = (\<forall>m c. r \<noteq> Inl (BybitRejectedOrder m c))"

lemma no_rejection_simps:
  "no_rejection (Inr x)" "no_rejection (Inl e) \<longleftrightarrow> (\<forall>m c. e \<noteq> BybitRejectedOrder m c)"
  by (simp_all add: no_rejection_def)

lemma no_rejection_rbind: "no_rejection m \<Longrightarrow> (\<And>x. m = Inr x \<Longrightarrow> no_rejection (f x)) \<Longrightarrow> no_rejection (rbind m f)"
  by (cases m) (simp_all add: no_rejection_def)

lemma no_rejection_if: "(b \<Longrightarrow> no_rejection x) \<Longrightarrow> (\<not> b \<Longrightarrow> no_rejection y) \<Longrightarrow> no_rejection (if b then x else y)"
  by simp

lemmas no_rejections = no_rejection_rbind no_rejection_if

lemma dec_fix_rejects: "no_rejection (dec_fix s c e)"
  by (simp add: dec_fix_def no_rejection_simps Let_def split: prod.splits)

lemma dec_rejects:
  "no_rejection (dec_of_string t)" "no_rejection (dec_mul x y)" "no_rejection (dec_normalize x)"
proof -
  show "no_rejection (dec_of_string t)"
    by (auto simp: dec_of_string_def Let_def no_rejection_simps split: option.split prod.split)
  show "no_rejection (dec_mul x y)"
    by (cases x; cases y) (auto simp: no_rejection_simps dec_fix_rejects)
  show "no_rejection (dec_normalize x)"
    unfolding dec_normalize_def
    by (auto simp: no_rejection_simps split: pydec.split prod.split intro!: no_rejections dec_fix_rejects)
qed

lemma decimal_text_rejects: "no_rejection (decimal_text v name pos)"
  unfolding decimal_text_def Let_def
  by (auto simp: no_rejection_simps split: sum.split intro!: no_rejections dec_rejects)

lemma spot_rejects:
  "no_rejection (spot_market_submission side q p)" "no_rejection (validate_bybit_base_url v m)"
proof -
  have "no_rejection (choice title side ''side'' id_sides)"
    by (simp add: choice_def Let_def no_rejection_simps)
  then show "no_rejection (spot_market_submission side q p)"
    unfolding spot_market_submission_def spot_quote_notional_def
    by (intro no_rejections decimal_text_rejects dec_rejects) (simp_all add: no_rejection_simps)
  have "no_rejection (urlparse u)" for u
    by (simp add: urlparse_def Let_def no_rejection_simps split: prod.split)
  moreover have "no_rejection (url_port p)" for p
    by (simp add: url_port_def no_rejection_simps split: list.split)
  ultimately show "no_rejection (validate_bybit_base_url v m)"
    unfolding validate_bybit_base_url_def Let_def
    by (intro no_rejections) (simp_all add: no_rejection_simps)
qed

lemma response_rejects: "no_rejection (response_code d)" "no_rejection (response_order_id d)"
proof -
  have "no_rejection (py_int v)" for v
  proof (cases v)
    case (PyFloat x)
    then show ?thesis by (cases x) (simp_all add: no_rejection_simps)
  qed (auto simp: no_rejection_simps split: option.split)
  then show "no_rejection (response_code d)"
    by (cases d) (simp_all add: response_code_def no_rejection_simps)
  show "no_rejection (response_order_id d)"
    by (auto simp: response_order_id_def no_rejection_simps Let_def split: pyval.split)
qed

section \<open>What the registry operations leave alone\<close>

lemma repo_reserve_frame:
  assumes "clean_cell id_namespace env" "repo_reserve H env req now clock [] db = (res, db')"
  shows "case res of Inl e \<Rightarrow> lookup_reservation env db' = lookup_reservation env db
    | Inr r \<Rightarrow> lookup_reservation env db' = (lookup_reservation env db)(rq_order_link_id req \<mapsto> r) \<and>
        rs_status r = ''Reserved'' \<and> rs_order_id r = [] \<and> rs_updated_at_ms r = now \<and> rs_cum_exec_qty r = Fin 0"
proof -
  consider (same) "db' = db" "\<exists>e. res = Inl e"
    | (reserved) i out where "order_link_id H i = rq_order_link_id req"
        "id_update H env (reserve_mutate H i now) clock [] db = (out, db')"
        "res = (case out of Inl e \<Rightarrow> Inl e | Inr (r, dup) \<Rightarrow>
           if dup then Inl (DuplicateExecutionBlocked (rs_order_link_id r)) else Inr r)"
    using assms(2)
    by (auto simp: repo_reserve_def reserve_def id_timestamp_def split: sum.splits if_splits prod.splits)
  then show ?thesis
  proof cases
    case same
    then show ?thesis by auto
  next
    case reserved
    from assms(1) reserved(2) show ?thesis
    proof (cases rule: id_update_cases)
      case (fails e)
      then show ?thesis using reserved(3) by simp
    next
      case (writes d d' q)
      obtain r dup where q: "q = (r, dup)" by fastforce
      from writes(2) [unfolded q] show ?thesis
      proof (cases rule: reserve_mutate_cases)
        case (duplicate link)
        then show ?thesis using reserved(3) writes q by (simp add: id_read_lookup)
      next
        case fresh
        then show ?thesis using reserved(1,3) writes q by (simp add: id_read_lookup update_conv')
      qed
    qed
  qed
qed

lemma update_status_frame:
  assumes "clean_cell id_namespace env" "order_link l = Inr l"
    and "update_status H env l status cum now None clock [] db = (res, db')"
  shows "case res of Inl e \<Rightarrow> db' = db
    | Inr r' \<Rightarrow> lookup_reservation env db' = (lookup_reservation env db)(l \<mapsto> r') \<and> rs_status r' = strip status \<and>
        (\<exists>r. lookup_reservation env db l = Some r \<and> rs_order_id r' = rs_order_id r)"
proof (cases "status_arguments l status cum now None")
  case (Inl e)
  with assms(3) show ?thesis by (auto simp: update_status_eq)
next
  case (Inr p)
  obtain link executed n xid where p: "p = (link, executed, n, xid)" by (cases p)
  with Inr assms(2) have args: "link = l" "xid = []" by (auto simp: status_arguments_Inr given_def)
  from p Inr assms(3)
  have "id_update H env (status_mutate link (strip status) executed n xid) clock [] db = (res, db')"
    by (simp add: update_status_eq)
  from assms(1) this show ?thesis
  proof (cases rule: id_update_cases)
    case (writes d d' r')
    from writes(2) show ?thesis
    proof (cases rule: status_mutate_cases)
      case (1 r)
      with writes args show ?thesis by (simp add: id_read_lookup update_conv')
    qed
  qed simp
qed

lemma bind_submission_frame:
  assumes "clean_cell id_namespace env" "order_link l = Inr l"
    and "bind_submission H env l oid now clock [] db = (res, db')"
  shows "case res of Inl e \<Rightarrow> db' = db
    | Inr r' \<Rightarrow> lookup_reservation env db' = (lookup_reservation env db)(l \<mapsto> r')"
proof (cases "rbind (order_link l) (\<lambda>link. rbind (id_identifier oid ''order_id'') (\<lambda>x.
                rbind (id_timestamp now) (\<lambda>n. Inr (link, x, n))))")
  case (Inl e)
  with assms(3) show ?thesis by (auto simp: bind_submission_def)
next
  case (Inr p)
  obtain link x n where p: "p = (link, x, n)" by (cases p)
  with Inr assms(2) have link: "link = l" by (auto simp: res_simps)
  from p Inr assms(3) have "id_update H env (bind_mutate link x n) clock [] db = (res, db')"
    by (simp add: bind_submission_def)
  from assms(1) this show ?thesis
  proof (cases rule: id_update_cases)
    case (writes d d' q)
    from writes(2) show ?thesis
    proof (cases rule: bind_mutate_cases)
      case (1 r)
      with writes link show ?thesis by (simp add: id_read_lookup update_conv')
    qed
  qed simp
qed

section \<open>Updates that cannot fail\<close>

lemma id_update_succeeds:
  assumes "clean_cell id_namespace env" "id_read H env db = Inr d" "m d = Inr (d', r)"
  shows "id_update H env m clock [] db = (Inr r, id_write env d' clock db)"
  using assms by (simp add: id_update_alone)

lemma update_status_succeeds:
  assumes "clean_cell id_namespace env" "registry_store_wf H env db" "lookup_reservation env db l = Some r"
    and "order_link l = Inr l" "strip status = status" "status \<in> set id_statuses" "0 < now" "rs_updated_at_ms r \<le> now"
    and "rs_cum_exec_qty r = Fin 0" "rs_status r \<notin> set id_terminal" "allowed_transition (rs_status r) status"
  shows "\<exists>db'. update_status H env l status (Fin 0) now None clock [] db =
     (Inr (r\<lparr>rs_status := status, rs_updated_at_ms := now, rs_revision := rs_revision r + 1\<rparr>), db')"
proof -
  obtain d where d: "id_read H env db = Inr d" using id_read_wf [OF assms(2)] by blast
  have args: "status_arguments l status (Fin 0) now None = Inr (l, Fin 0, now, [])"
    using assms(4-7) by (simp add: status_arguments_Inr given_def)
  have "map_of (id_reservations d) l = Some r" using assms(3) d by (simp add: id_read_lookup)
  then obtain d' where "status_mutate l status (Fin 0) now [] d =
      Inr (d', r\<lparr>rs_status := status, rs_updated_at_ms := now, rs_revision := rs_revision r + 1\<rparr>)"
    using assms(8-11) by (simp add: status_mutate_def record_of_def Let_def not_less)
  from id_update_succeeds [where m = "status_mutate l status (Fin 0) now []", OF assms(1) d this] show ?thesis
    using assms(5) by (auto simp: update_status_eq args)
qed

lemma bind_submission_answer:
  assumes "clean_cell id_namespace env" "registry_store_wf H env db" "lookup_reservation env db l = Some r"
    and "order_link l = Inr l" "0 < now" "rs_updated_at_ms r \<le> now" "rs_order_id r = []"
  shows "(\<exists>r' db'. bind_submission H env l oid now clock [] db = (Inr r', db')) \<longleftrightarrow>
    id_identifier oid ''order_id'' = Inr (strip oid) \<and>
    (\<forall>k q. lookup_reservation env db k = Some q \<and> rs_order_id q = strip oid \<longrightarrow> k = l)"
proof (cases "id_identifier oid ''order_id'' = Inr (strip oid)")
  case False
  then obtain e where "id_identifier oid ''order_id'' = Inl e"
    by (cases "id_identifier oid ''order_id''") (auto dest: id_identifier_Inr)
  with False assms(4) show ?thesis by (simp add: bind_submission_def)
next
  case True
  obtain d where d: "id_read H env db = Inr d" "registry_wf H env d" using id_read_wf [OF assms(2)] by blast
  have r: "map_of (id_reservations d) l = Some r" using assms(3) d(1) by (simp add: id_read_lookup)
  have elsewhere: "bound_elsewhere (id_reservations d) l x \<longleftrightarrow>
      \<not> (\<forall>k q. lookup_reservation env db k = Some q \<and> rs_order_id q = x \<longrightarrow> k = l)" for x
  proof -
    have "(k, q) \<in> set (id_reservations d) \<longleftrightarrow> lookup_reservation env db k = Some q" for k q
      using d by (auto simp: id_read_lookup registry_wf_iff dest: map_of_SomeD)
    then show ?thesis unfolding bound_elsewhere_def list_ex_iff by auto
  qed
  have run: "bind_submission H env l oid now clock [] db = id_update H env (bind_mutate l (strip oid) now) clock [] db"
    using assms(4,5) True by (simp add: bind_submission_def id_timestamp_def)
  show ?thesis
  proof (cases "bound_elsewhere (id_reservations d) l (strip oid)")
    case bound: True
    then have "\<exists>e. bind_mutate l (strip oid) now d = Inl e" by (simp add: bind_mutate_def record_of_def r)
    then show ?thesis using bound d(1) elsewhere [of "strip oid"] by (auto simp: run id_update_alone [OF assms(1)])
  next
    case False
    then obtain d' r' where "bind_mutate l (strip oid) now d = Inr (d', r')"
      using assms(6,7) by (simp add: bind_mutate_def record_of_def r Let_def not_less)
    from id_update_succeeds [where m = "bind_mutate l (strip oid) now", OF assms(1) d(1) this]
    show ?thesis using False True elsewhere [of "strip oid"] by (auto simp: run)
  qed
qed

lemma retry_check_passes:
  assumes "set previous = same_order H ''testnet'' db i" "retry_allowed H i db"
  shows "retry_check i previous = Inr ()"
proof (cases previous)
  case Nil
  with assms show ?thesis by (simp add: retry_check_def retry_allowed_def split: if_splits)
next
  case (Cons p ps)
  let ?q = "latest_attempt p ps"
  have "?q \<in> same_order H ''testnet'' db i" "\<forall>q' \<in> same_order H ''testnet'' db i. rs_attempt q' \<le> rs_attempt ?q"
    using latest_attempt_in [of p ps] latest_attempt_max [of p ps] by (simp_all add: assms(1) [symmetric] Cons)
  with assms(2) show ?thesis by (auto simp: retry_check_def retry_allowed_def Cons Let_def split: if_splits)
qed

lemma fingerprint_index_lookup:
  "map_of (fingerprint_index acc rs) f = Some k \<Longrightarrow>
     map_of acc f = Some k \<or> (\<exists>r. (k, r) \<in> set rs \<and> rs_fingerprint r = f)"
proof (induction rs arbitrary: acc)
  case (Cons p rs)
  obtain l r where p: "p = (l, r)" by (cases p)
  from Cons.prems have "map_of (fingerprint_index (AList.update (rs_fingerprint r) l acc) rs) f = Some k"
    by (simp add: fingerprint_index_def p)
  from Cons.IH [OF this] show ?case by (auto simp: p update_conv' split: if_splits)
qed (simp add: fingerprint_index_def)

lemma unknown_fingerprint:
  assumes "registry_wf H env d" "map_of (id_reservations d) (order_link_id H i) = None"
  shows "map_of (id_fingerprints d) (fingerprint H i) = None"
proof (rule ccontr)
  assume "map_of (id_fingerprints d) (fingerprint H i) \<noteq> None"
  then obtain k where "map_of (id_fingerprints d) (fingerprint H i) = Some k" by blast
  then have "map_of (fingerprint_index [] (id_reservations d)) (fingerprint H i) = Some k"
    using assms(1) by (simp add: registry_wf_iff)
  then obtain r where r: "(k, r) \<in> set (id_reservations d)" "rs_fingerprint r = fingerprint H i"
    using fingerprint_index_lookup by fastforce
  with assms(1) have "reservation_ok H env k r" by (auto simp: registry_wf_iff)
  with r(2) have "k = order_link_id H i" by (auto simp: reservation_ok_def order_link_id_def split: sum.splits)
  with r(1) assms(2) show False by (auto simp: map_of_eq_None_iff image_iff)
qed

lemma testnet_intent:
  assumes "to_order_intent req = Inr i" "rq_environment req = TESTNET"
  shows "oi_environment i = ''testnet''"
proof -
  have env: "lower (strip ''testnet'') = ''testnet''" by code_simp
  from assms obtain mu q where "create (rq_candidate_id req) ''testnet'' (category_value (rq_category req))
      (rq_symbol req) (side_value (rq_side req)) ''Market'' q None (Some ''IOC'') False 0 (Some mu) (rq_attempt req) = Inr i"
    unfolding to_order_intent_def by (auto simp: res_simps split_paired_Ex)
  with env show ?thesis unfolding create_def Let_def
    by (auto simp only: res_simps choice_Inr check_simps order_intent.simps sum.inject)
qed

lemma repo_reserve_succeeds:
  assumes "registry_store_wf H ''testnet'' db" "validate_execution_request H req now = Inr u"
    and "lookup_reservation ''testnet'' db (rq_order_link_id req) = None"
    and "\<forall>i. to_order_intent req = Inr i \<longrightarrow> retry_allowed H i db"
  shows "\<exists>r db'. repo_reserve H ''testnet'' req now clock [] db = (Inr r, db')"
proof -
  note v = validate_execution_request_Inr [OF assms(2)]
  obtain i where i: "to_order_intent req = Inr i" "order_link_id H i = rq_order_link_id req" using v(14) by blast
  note env = testnet_intent [OF i(1) v(2)]
  obtain d where d: "id_read H ''testnet'' db = Inr d" "registry_wf H ''testnet'' d" using id_read_wf [OF assms(1)] by blast
  have none: "map_of (id_reservations d) (order_link_id H i) = None" using assms(3) d(1) by (simp add: i(2) id_read_lookup)
  have "distinct (map fst (id_reservations d))" using d(2) by (simp add: registry_wf_iff)
  from retry_check_passes [OF same_order_wf [OF d(1) this]] assms(4) i(1)
  have "retry_check i (filter (\<lambda>r. rs_root_fingerprint r = root_fingerprint H i) (map snd (id_reservations d))) = Inr ()"
    by blast
  then obtain d' r where "reserve_mutate H i now d = Inr (d', r, False)"
    by (simp add: reserve_mutate_def Let_def none unknown_fingerprint [OF d(2) none])
  from id_update_succeeds [where m = "reserve_mutate H i now", OF id_cell_testnet d(1) this]
  show ?thesis using assms(2) i env v(1) by (simp add: repo_reserve_def reserve_def id_timestamp_def)
qed

lemma registry_testnet_wf:
  assumes "hex_digest H" "registry_store_wf H ''testnet'' db" "registry_op H ''testnet'' db db'"
  shows "registry_store_wf H ''testnet'' db'"
  by (rule hex_digest.registry_op_wf [OF assms(1) _ assms(3,2)]) (simp add: id_environments_def)

lemma repo_reserve_wf:
  assumes "hex_digest H" "registry_store_wf H ''testnet'' db"
    and "repo_reserve H ''testnet'' req now clock [] db = (res, db')"
  shows "registry_store_wf H ''testnet'' db'"
proof -
  have "db' = db \<or> (\<exists>i out. to_order_intent req = Inr i \<and> reserve H ''testnet'' i now clock [] db = (out, db'))"
    using assms(3) by (auto simp: repo_reserve_def split: sum.splits if_splits prod.splits)
  then show ?thesis
    using assms(2) registry_testnet_wf [OF assms(1,2) op_reserve [OF to_order_intent_canonical]] by blast
qed

section \<open>One call keeps the contract\<close>

lemma view_simps:
  "sv_latched (view_of w) = latched (ew_kill w)" "sv_sent (view_of w) = sent_links w"
  "sv_orders (view_of w) l = map_option (\<lambda>r. (rs_status r, rs_order_id r)) (lookup_reservation ''testnet'' (ew_identity w) l)"
  by (simp_all add: view_of_def)

lemma unresolved_readable:
  assumes "registry_store_wf H ''testnet'' db"
  shows "\<exists>p. unresolved H ''testnet'' db = Inr p"
proof -
  obtain d where "id_read H ''testnet'' db = Inr d" using id_read_wf [OF assms] by blast
  with id_cell_testnet show ?thesis by (auto simp: unresolved_def snapshot_def get_json_clean id_read_def Let_def)
qed

lemma gate_view:
  assumes "execute_gate H cl env req now t w = (Inl e, w')" "registry_store_wf H ''testnet'' (ew_identity w)"
  shows "submission (submission_ready H cl env req now w) (env_kill_active env) reply l (view_of w) Failed (view_of w')"
proof -
  consider (same) "w' = w" "\<not> submission_ready H cl env req now w \<or> env_kill_active env \<or> latched (ew_kill w)"
    | (tripped) p where "\<not> env_kill_active env" "\<not> latched (ew_kill w)" "unresolved H ''testnet'' (ew_identity w) = Inr p" "p \<noteq> []"
      "trip_and_raise ''unresolved_execution_state_before_submission'' ''idempotency_preflight''
         ''execution blocked until unresolved reservations are reconciled'' t w = (Inl e :: normalized_order res, w')"
  proof (cases "assert_open env (ew_kill w)")
    case (Inl e')
    then have "env_kill_active env \<or> latched (ew_kill w)" using assert_open_iff by (metis Inl_Inr_False)
    with assms(1) Inl show ?thesis by (intro same) (auto simp: execute_gate_def split: sum.splits)
  next
    case (Inr st)
    then have "\<not> env_kill_active env" "\<not> latched (ew_kill w)" using assert_open_iff by blast+
    then show ?thesis
      using assms(1) Inr unresolved_readable [OF assms(2)]
      by (auto simp: execute_gate_def submission_ready_def split: sum.splits if_splits intro: same tripped)
  qed
  then show ?thesis
  proof cases
    case same
    then show ?thesis by (auto simp: view_simps intro: refused)
  next
    case (tripped p)
    have strips: "strip ''unresolved_execution_state_before_submission'' \<noteq> []" "strip ''idempotency_preflight'' \<noteq> []"
      by (simp_all add: strip_not_Nil is_space_def ccode_def)
    from trip_and_raise_latches [OF tripped(5) strips] have view: "view_of w' = with_latch (view_of w)"
      by (simp add: view_of_def with_latch_def sent_links_def)
    obtain r where r: "r \<in> set p" using tripped(4) by (cases p) auto
    from tripped(3) obtain sn where sn: "snapshot H ''testnet'' (ew_identity w) = Inr sn" "is_unresolved sn = p"
      by (auto simp: unresolved_def res_simps)
    then have "p = filter (\<lambda>r. rs_status r \<notin> set id_terminal) (is_reservations sn)"
      by (auto simp: snapshot_def res_simps Let_def)
    with r have "r \<in> set (is_reservations sn)" "rs_status r \<notin> set id_terminal" by auto
    with snapshot_lookup [OF sn(1) id_cell_testnet assms(2)] have "\<not> all_ended (view_of w)"
      unfolding all_ended_def view_simps by fastforce
    with tripped(1,2) show ?thesis unfolding view by (intro open_order) (simp_all add: view_simps)
  qed
qed

lemma gate_all_ended:
  assumes "execute_gate H cl env req now t w = (Inr n, w')"
  shows "all_ended (view_of w)"
  unfolding all_ended_def view_simps
proof (intro allI impI, rule ccontr)
  fix k s x
  assume "map_option (\<lambda>r. (rs_status r, rs_order_id r)) (lookup_reservation ''testnet'' (ew_identity w) k) = Some (s, x)"
    "s \<notin> set id_terminal"
  then obtain r where r: "lookup_reservation ''testnet'' (ew_identity w) k = Some r" "rs_status r \<notin> set id_terminal" by auto
  from unresolved_lists [OF r _ id_cell_testnet] execute_gate_Inr(5) [OF assms] show False
    by (fastforce simp: unresolved_def res_simps)
qed

text \<open>After the stages before the POST the call may submit and its order is marked.\<close>

lemma prefix_view:
  assumes "hex_digest H" "registry_store_wf H ''testnet'' (ew_identity w)"
    and "execute_gate H cl env req now t w = (Inr n, w1)" "execute_reserve H req now t w1 = (Inr r1, w2)"
  obtains r2 w3 where "execute_mark H req now t' w2 = (Inr r2, w3)"
    "may_submit (env_kill_active env) (rq_order_link_id req) (view_of w)"
    "view_of w3 = with_order (view_of w) (rq_order_link_id req) ''Submitted'' []"
    "registry_store_wf H ''testnet'' (ew_identity w3)" "rs_updated_at_ms r2 = now" "rs_order_id r2 = []"
    "rs_cum_exec_qty r2 = Fin 0" "rs_status r2 = ''Submitted''" "order_link (rq_order_link_id req) = Inr (rq_order_link_id req)"
    "lookup_reservation ''testnet'' (ew_identity w3) (rq_order_link_id req) = Some r2" "0 < now"
proof -
  let ?l = "rq_order_link_id req"
  note g = execute_gate_Inr [OF assms(3)]
  obtain db where db: "repo_reserve H ''testnet'' req now t [] (ew_identity w) = (Inr r1, db)"
    and w2: "w2 = w\<lparr>ew_identity := db\<rparr>"
    using assms(4) by (auto simp: execute_reserve_def g(1) split: prod.splits)
  note new = repo_reserve_Inr [OF id_cell_testnet db]
  have frame: "lookup_reservation ''testnet'' db = (lookup_reservation ''testnet'' (ew_identity w))(?l \<mapsto> r1)"
    "rs_status r1 = ''Reserved''" "rs_order_id r1 = []" "rs_updated_at_ms r1 = now" "rs_cum_exec_qty r1 = Fin 0"
    using repo_reserve_frame [OF id_cell_testnet db] by simp_all
  note wf = repo_reserve_wf [OF assms(1,2) db]
  note link = order_link_pattern_clean [OF new(4)]
  have now: "0 < now" using g(2) validate_execution_request_Inr(1) by blast
  have "strip ''Submitted'' = ''Submitted''" "''Submitted'' \<in> set id_statuses"
    "rs_status r1 \<notin> set id_terminal" "allowed_transition (rs_status r1) ''Submitted''"
    unfolding frame(2) by code_simp+
  from update_status_succeeds [OF id_cell_testnet wf _ link this(1,2) now _ frame(5) this(3,4), of t'] frame(1,4)
  obtain db' where db': "update_status H ''testnet'' ?l ''Submitted'' (Fin 0) now None t' [] db =
     (Inr (r1\<lparr>rs_status := ''Submitted'', rs_updated_at_ms := now, rs_revision := rs_revision r1 + 1\<rparr>), db')"
    by auto
  let ?r2 = "r1\<lparr>rs_status := ''Submitted'', rs_updated_at_ms := now, rs_revision := rs_revision r1 + 1\<rparr>"
  have frame': "lookup_reservation ''testnet'' db' = (lookup_reservation ''testnet'' db)(?l \<mapsto> ?r2)"
    using update_status_frame [OF id_cell_testnet link db'] by simp
  show thesis
  proof (rule that)
    show "execute_mark H req now t' w2 = (Inr ?r2, w\<lparr>ew_identity := db'\<rparr>)"
      using db' by (simp add: execute_mark_def mark_submitted_def w2)
    show "may_submit (env_kill_active env) ?l (view_of w)"
      using g(3,4) new(1) gate_all_ended [OF assms(3)] by (simp add: may_submit_def view_simps)
    show "view_of (w\<lparr>ew_identity := db'\<rparr>) = with_order (view_of w) ?l ''Submitted'' []"
      by (simp add: view_of_def with_order_def frame' frame fun_eq_iff sent_links_def)
    show "registry_store_wf H ''testnet'' (ew_identity (w\<lparr>ew_identity := db'\<rparr>))"
      using registry_testnet_wf [OF assms(1) wf op_status [OF db']] by simp
    show "lookup_reservation ''testnet'' (ew_identity (w\<lparr>ew_identity := db'\<rparr>)) ?l = Some ?r2" by (simp add: frame')
  qed (simp_all add: frame link now)
qed

text \<open>What settling takes an outcome of the POST for.\<close>

definition reading :: "execution_result res \<Rightarrow> exchange_reply" where
  "reading outcome =
     (case outcome of Inl (BybitRejectedOrder m c) \<Rightarrow> Declines | Inl e \<Rightarrow> Unclear
      | Inr r \<Rightarrow> (case er_order_id r of None \<Rightarrow> Unclear | Some x \<Rightarrow> Accepts x))"

lemma reading_error: "no_rejection (Inl e :: execution_result res) \<Longrightarrow> reading (Inl e) = Unclear"
  by (cases e) (simp_all add: reading_def no_rejection_def)

lemma reading_response: "reading (read_response cl n link cid mu q out) = reply_of out"
proof (cases out)
  case (HttpFailure name)
  then show ?thesis by (simp add: read_response_def reading_def reply_of_def)
next
  case (HttpJson data)
  show ?thesis
  proof (cases "response_code data")
    case (Inl e)
    with response_rejects(1) [of data] have "no_rejection (Inl e :: execution_result res)" by (simp add: no_rejection_def)
    then show ?thesis by (simp add: HttpJson read_response_def reply_of_def Inl reading_error)
  next
    case code: (Inr code)
    show ?thesis
    proof (cases "response_order_id data")
      case (Inl e)
      with response_rejects(2) [of data] have "no_rejection (Inl e :: execution_result res)" by (simp add: no_rejection_def)
      then show ?thesis by (simp add: HttpJson read_response_def reply_of_def code Inl reading_error) (simp add: reading_def)
    next
      case (Inr oid)
      then show ?thesis
        by (simp add: HttpJson read_response_def reply_of_def code reading_def split: option.split)
    qed
  qed
qed

lemma execute_send_reading:
  assumes "execute_send M post cl req n t w = (r, w')"
  obtains (unsent) "w' = w" "reading r = Unclear"
      "\<forall>url x. validate_bybit_base_url (ec_base_url cl) ''sandbox'' = Inr url \<longrightarrow>
         spot_market_submission (no_side n) (float_repr (no_quantity n)) (float_repr (no_reference_price n)) \<noteq> Inr x"
    | (sent) "reading r = reply_of (post (last (ew_wire w')))"
    "\<exists>mu q url. w' = w\<lparr>ew_wire := ew_wire w @ [signed_request M cl url
                (order_payload n mu q (rq_order_link_id req)) (int_str t)]\<rparr>"
  using assms
proof (cases rule: execute_send_cases)
  case unsent
  then obtain e where e: "r = Inl e" by blast
  have "no_rejection (fst (send_market_order M post cl n (rq_order_link_id req) (rq_candidate_id req) True t))
      \<or> snd (send_market_order M post cl n (rq_order_link_id req) (rq_candidate_id req) True t) \<noteq> []"
    using spot_rejects(2) [of "ec_base_url cl" "''sandbox''"]
      spot_rejects(1) [of "no_side n" "float_repr (no_quantity n)" "float_repr (no_reference_price n)"]
    by (auto simp: send_market_order_def no_rejection_simps Let_def split: sum.split)
  moreover have "snd (send_market_order M post cl n (rq_order_link_id req) (rq_candidate_id req) True t) = []"
    using arg_cong [OF assms, of "\<lambda>p. ew_wire (snd p)"] unsent(1) by (simp add: execute_send_def split: prod.splits)
  ultimately have "no_rejection r" using arg_cong [OF assms, of fst] by (simp add: execute_send_def split: prod.splits)
  then have "reading r = Unclear" using reading_error e by blast
  moreover have "\<forall>url x. validate_bybit_base_url (ec_base_url cl) ''sandbox'' = Inr url \<longrightarrow>
      spot_market_submission (no_side n) (float_repr (no_quantity n)) (float_repr (no_reference_price n)) \<noteq> Inr x"
    using arg_cong [OF assms, of "\<lambda>p. ew_wire (snd p)"] unsent(1)
    by (auto simp: execute_send_def send_market_order_def Let_def split: sum.splits prod.splits)
  ultimately show thesis using unsent(1) that(1) by blast
next
  case (sent mu q url)
  then show thesis by (intro that(2)) (auto simp: reading_response)
qed

lemma ready_submission:
  assumes "validate_execution_request H req now = Inr u"
    and "preflight cl env w (rq_symbol req) (side_value (rq_side req)) (rq_quantity req)
       (rq_reference_price req) (category_value (rq_category req)) = Inr n"
  shows "\<exists>x. spot_market_submission (no_side n) (float_repr (no_quantity n)) (float_repr (no_reference_price n)) = Inr x"
proof -
  obtain i where "to_order_intent req = Inr i" using validate_execution_request_Inr(14) [OF assms(1)] by blast
  then have "\<exists>x. spot_market_submission (side_value (rq_side req)) (float_repr (rq_quantity req))
      (float_repr (rq_reference_price req)) = Inr x"
    by (auto simp: to_order_intent_def res_simps)
  moreover have "choice title (title (strip (side_value s))) ''side'' id_sides = choice title (side_value s) ''side'' id_sides" for s
  proof (cases s)
    case BUY
    show ?thesis unfolding BUY by code_simp
  next
    case SELL
    show ?thesis unfolding SELL by code_simp
  qed
  ultimately show ?thesis by (simp add: preflight_Inr(6-8) [OF assms(2)] spot_market_submission_def)
qed

lemma bindable_other: "bindable l (with_order a l s y) x = bindable l a x" "bindable l (with_post a k) x = bindable l a x"
  by (auto simp: bindable_def with_order_def with_post_def)

lemma settle_view:
  assumes "registry_store_wf H ''testnet'' (ew_identity w)" "execute_settle H req now clk outcome w = (res, w')"
    and "lookup_reservation ''testnet'' (ew_identity w) (rq_order_link_id req) = Some r"
    and "rs_status r = ''Submitted''" "rs_order_id r = []" "rs_cum_exec_qty r = Fin 0" "rs_updated_at_ms r = now"
    and "order_link (rq_order_link_id req) = Inr (rq_order_link_id req)" "0 < now"
  shows "case reading outcome of
      Unclear \<Rightarrow> answer_of res = Failed \<and> view_of w' = with_latch (view_of w)
    | Declines \<Rightarrow> answer_of res = Failed \<and> view_of w' = with_order (view_of w) (rq_order_link_id req) ''Rejected'' []
    | Accepts x \<Rightarrow>
        if bindable (rq_order_link_id req) (view_of w) x
        then answer_of res = Accepted x \<and>
             view_of w' = with_order (view_of w) (rq_order_link_id req) ''Submitted'' (strip x)
        else answer_of res = Failed \<and> view_of w' = view_of w"
proof -
  let ?l = "rq_order_link_id req" and ?now = "max now (clk 4)"
  have latch: "answer_of res = Failed \<and> view_of w' = with_latch (view_of w)"
    if "trip_and_raise reason source msg t w = (res, w')" "strip reason \<noteq> []" "strip source \<noteq> []" for reason source msg t
    using trip_and_raise_latches [OF that] by (simp add: view_of_def with_latch_def sent_links_def)
  have strips: "strip (''ambiguous_exchange_outcome:'' @ n) \<noteq> []" "strip ''network_submission'' \<noteq> []"
    "strip ''accepted_response_missing_order_id'' \<noteq> []" "strip ''exchange_response'' \<noteq> []" for n
    by (simp_all add: strip_not_Nil is_space_def ccode_def)
  show ?thesis
  proof (cases outcome)
    case (Inl e)
    show ?thesis
    proof (cases "\<exists>m c. e = BybitRejectedOrder m c")
      case True
      then obtain m c where e: "e = BybitRejectedOrder m c" by blast
      have st: "strip ''Rejected'' = ''Rejected''" "''Rejected'' \<in> set id_statuses"
        "rs_status r \<notin> set id_terminal" "allowed_transition (rs_status r) ''Rejected''"
        unfolding assms(4) by code_simp+
      have now: "0 < ?now" "rs_updated_at_ms r \<le> ?now" using assms(7,9) by simp_all
      from update_status_succeeds [OF id_cell_testnet assms(1,3,8) st(1,2) now assms(6) st(3,4)]
      obtain db' where db': "update_status H ''testnet'' ?l ''Rejected'' (Fin 0) ?now None (clk 5) [] (ew_identity w) =
         (Inr (r\<lparr>rs_status := ''Rejected'', rs_updated_at_ms := ?now, rs_revision := rs_revision r + 1\<rparr>), db')" by blast
      from update_status_frame [OF id_cell_testnet assms(8) db'] have frame: "lookup_reservation ''testnet'' db' =
          (lookup_reservation ''testnet'' (ew_identity w))(?l \<mapsto>
            r\<lparr>rs_status := ''Rejected'', rs_updated_at_ms := ?now, rs_revision := rs_revision r + 1\<rparr>)" by simp
      have "res = Inl (BybitRejectedOrder m c)" "w' = w\<lparr>ew_identity := db'\<rparr>"
        using assms(2) db' by (auto simp: Inl e execute_settle_def mark_rejected_def)
      then show ?thesis
        by (simp add: Inl e reading_def view_of_def with_order_def frame assms(5) fun_eq_iff sent_links_def)
    next
      case False
      then have amb: "\<And>m c. e \<noteq> BybitRejectedOrder m c" by blast
      then have "reading outcome = Unclear" by (simp add: Inl reading_error no_rejection_simps)
      with latch [OF assms(2) [unfolded Inl execute_settle_ambiguous [OF amb]] strips(1,2)] show ?thesis by simp
    qed
  next
    case (Inr result)
    show ?thesis
    proof (cases "er_order_id result")
      case None
      from assms(2) Inr None have "trip_and_raise ''accepted_response_missing_order_id'' ''exchange_response''
               ''exchange accepted response without orderId; kill switch active and reconciliation required''
               (clk 4) w = (res, w')" by (simp add: execute_settle_def)
      from latch [OF this strips(3,4)] show ?thesis by (simp add: Inr None reading_def)
    next
      case (Some oid)
      obtain out db' where b: "bind_submission H ''testnet'' ?l oid ?now (clk 5) [] (ew_identity w) = (out, db')" by fastforce
      have now: "0 < ?now" "rs_updated_at_ms r \<le> ?now" using assms(7,9) by simp_all
      from bind_submission_answer [OF id_cell_testnet assms(1,3,8) now assms(5), of oid "clk 5"]
      have ok: "(\<exists>r'. out = Inr r') \<longleftrightarrow> bindable ?l (view_of w) oid"
        unfolding b by (auto simp: bindable_def view_simps)
      note frame = bind_submission_frame [OF id_cell_testnet assms(8) b]
      show ?thesis
      proof (cases out)
        case (Inl e)
        then have "res = Inl e" "w' = w"
          using assms(2) b Inr Some frame by (auto simp: execute_settle_def bind_accepted_def)
        then show ?thesis using ok Inl by (simp add: Inr Some reading_def)
      next
        case bound: (Inr r')
        then have "res = Inr result" "w' = w\<lparr>ew_identity := db'\<rparr>"
          using assms(2) b Inr Some by (auto simp: execute_settle_def bind_accepted_def)
        moreover have "rs_order_id r' = strip oid" "rs_status r' = ''Submitted''"
          using bind_submission_stores [OF id_cell_testnet b [unfolded bound]] assms(3,4,8) by auto
        ultimately show ?thesis
          using ok bound frame
          by (simp add: Inr Some reading_def given_def view_of_def with_order_def fun_eq_iff sent_links_def)
      qed
    qed
  qed
qed

theorem execute_submission:
  assumes "hex_digest H" "registry_reachable H ''testnet'' (ew_identity w)"
    and "execute H M post cl env req now_ms clk w = (res, w')"
  shows "submission (submission_ready H cl env req (current_ms now_ms clk) w) (env_kill_active env) (reply_of (post (last (ew_wire w')))) (rq_order_link_id req)
           (view_of w) (answer_of res) (view_of w')"
proof -
  have wf: "registry_store_wf H ''testnet'' (ew_identity w)"
    by (rule hex_digest.registry_reachable_wf [OF assms(1,2)]) (simp add: id_environments_def)
  let ?l = "rq_order_link_id req" and ?stop = "env_kill_active env"
  let ?ready = "submission_ready H cl env req (current_ms now_ms clk) w"
  let ?reply = "reply_of (post (last (ew_wire w')))"
  from assms(3) show ?thesis
  proof (cases rule: execute_cases)
    case (gate_fails e)
    then show ?thesis using gate_view [OF gate_fails(2) wf] by simp
  next
    case (reserve_fails n w1 e)
    note gate = execute_gate_Inr [OF reserve_fails(2)]
    obtain db where db: "repo_reserve H ''testnet'' req (current_ms now_ms clk) (clk 1) [] (ew_identity w) = (Inl e, db)"
      and w': "w' = w\<lparr>ew_identity := db\<rparr>"
      using reserve_fails(3) gate(1) by (auto simp: execute_reserve_def split: prod.splits)
    have view: "view_of w' = view_of w"
      using repo_reserve_frame [OF id_cell_testnet db] by (simp add: w' view_of_def sent_links_def)
    have "\<not> ?ready \<or> lookup_reservation ''testnet'' (ew_identity w) ?l \<noteq> None"
      using repo_reserve_succeeds [OF wf, of req "current_ms now_ms clk" "()" "clk 1"] db
      by (auto simp: submission_ready_def)
    then have "\<not> ?ready \<or> all_ended (view_of w) \<and> sv_orders (view_of w) ?l \<noteq> None"
      using gate_all_ended [OF reserve_fails(2)] by (auto simp: view_simps)
    then show ?thesis unfolding view using reserve_fails(1) by (auto intro: refused)
  next
    case (mark_fails n w1 r1 w2 e)
    obtain r3 w3 where "execute_mark H req (current_ms now_ms clk) (clk 2) w2 = (Inr r3, w3)"
      by (rule prefix_view [OF assms(1) wf mark_fails(2,3)])
    with mark_fails(4) show ?thesis by simp
  next
    case (settled n w1 r1 w2 r2 w3 outcome w4)
    obtain r3 w5 where m: "execute_mark H req (current_ms now_ms clk) (clk 2) w2 = (Inr r3, w5)"
      and may: "may_submit ?stop ?l (view_of w)" and v: "view_of w5 = with_order (view_of w) ?l ''Submitted'' []"
      and wf5: "registry_store_wf H ''testnet'' (ew_identity w5)" and r: "rs_updated_at_ms r3 = current_ms now_ms clk"
        "rs_order_id r3 = []" "rs_cum_exec_qty r3 = Fin 0" "rs_status r3 = ''Submitted''" "order_link ?l = Inr ?l"
        "lookup_reservation ''testnet'' (ew_identity w5) ?l = Some r3" "0 < current_ms now_ms clk"
      by (rule prefix_view [OF assms(1) wf settled(1,2)])
    have w5: "w5 = w3" using m settled(3) by simp
    have pat: "order_link_pattern ?l" using execute_prefix(3) [OF settled(1,2,3)] .
    have ident: "ew_identity w4 = ew_identity w3" "ew_kill w4 = ew_kill w3"
      using settled(4) by (auto simp: execute_send_def split: prod.splits)
    note s = settle_view [OF _ settled(5), unfolded ident(1), OF wf5 [unfolded w5] r(6) [unfolded w5] r(4,2,3,1,5,7)]
    from settled(4) show ?thesis
    proof (cases rule: execute_send_reading)
      case unsent
      have "\<not> ?ready"
        using unsent(3) ready_submission [OF _ execute_gate_Inr(6) [OF settled(1)]] by (auto simp: submission_ready_def)
      with unsent s v w5 not_sent [OF _ may] show ?thesis by simp
    next
      case sent
      have "last (ew_wire w') = last (ew_wire w4)" using execute_settle_wire [OF settled(5)] by simp
      then have reply: "reading outcome = ?reply" using sent(1) by simp
      have v4: "view_of w4 = with_post (with_order (view_of w) ?l ''Submitted'' []) ?l"
        using sent(2) v wire_link_payload [OF pat]
        by (auto simp: w5 with_post_def with_order_def view_of_def sent_links_def)
      have again: "with_order (with_post (with_order a l s y) l) l s' y' = with_post (with_order a l s' y') l" for a l s y s' y'
        by (simp add: with_order_def with_post_def)
      show ?thesis
      proof (cases ?reply)
        case Unclear
        with s unclear [OF may Unclear] show ?thesis by (simp add: reply v4)
      next
        case Declines
        with s declined [OF may Declines] show ?thesis by (simp add: reply v4 again)
      next
        case (Accepts x)
        with s accepted [OF may Accepts] not_bound [OF may Accepts] show ?thesis
          by (simp add: reply v4 again bindable_other split: if_splits)
      qed
    qed
  qed
qed


end
