(* ===== verification/Execution_State.thy ===== *)
theory Execution_State
  imports Order_State
begin

text \<open>
  \<open>exchange_connector/bybit_execution_state.py\<close>: the ledger of execution fills. Each \<open>execId\<close> is
  written once; an exact replay is counted, a different fill under a known id raises before
  anything is stored. \<open>aggregates\<close> sums the fills of each managed order, \<open>fill_reconcile\<close> compares
  the sums with the private order state.
\<close>

section \<open>Constants and conversions\<close>

definition fill_topics :: "string list" where
  "fill_topics = [''execution'', ''execution.spot'', ''execution.linear'', ''execution.inverse'',
     ''execution.option'']"

definition fill_categories :: "string list" where
  "fill_categories = [''spot'', ''linear'', ''inverse'', ''option'']"

definition fill_environment_of :: "string \<Rightarrow> string res" where
  "fill_environment_of v =
     (let clean = lower (strip v)
      in if clean \<in> set [''sandbox'', ''testnet''] then Inr ''testnet''
         else if clean \<in> set [''live'', ''mainnet'', ''live_read_only''] then Inr ''mainnet''
         else Inl (ValueError ''environment must be testnet or mainnet''))"

definition fill_finite :: "pyval \<Rightarrow> string \<Rightarrow> pyfloat res" where
  "fill_finite v name =
     rbind (py_float v) (\<lambda>parsed.
       if \<not> isfinite parsed then Inl (ValueError (name @ '' must be finite'')) else Inr parsed)"

definition fill_positive :: "pyval \<Rightarrow> string \<Rightarrow> pyfloat res" where
  "fill_positive v name =
     rbind (fill_finite v name) (\<lambda>parsed.
       if fle parsed (Fin 0) then Inl (ValueError (name @ '' must be positive'')) else Inr parsed)"

definition fill_nonnegative :: "pyval \<Rightarrow> string \<Rightarrow> pyfloat res" where
  "fill_nonnegative v name =
     rbind (fill_finite (py_or v (PyInt 0)) name) (\<lambda>parsed.
       if flt parsed (Fin 0) then Inl (ValueError (name @ '' must be non-negative'')) else Inr parsed)"

definition fill_positive_int :: "pyval \<Rightarrow> string \<Rightarrow> int res" where
  "fill_positive_int v name =
     rbind (py_int v) (\<lambda>parsed.
       if parsed \<le> 0 then Inl (ValueError (name @ '' must be positive'')) else Inr parsed)"

definition fill_identifier :: "pyval \<Rightarrow> string \<Rightarrow> string res" where
  "fill_identifier v name =
     (let text = strip (py_str (py_or v (PyStr [])))
      in if text = [] \<or> 160 < length text \<or> \<not> list_all id_char text
         then Inl (ValueError (''invalid '' @ name)) else Inr text)"

definition fill_optional_identifier :: "pyval \<Rightarrow> string \<Rightarrow> string res" where
  "fill_optional_identifier v name =
     (let text = strip (py_str (py_or v (PyStr [])))
      in if text \<noteq> [] then fill_identifier (PyStr text) name else Inr [])"

section \<open>Fills\<close>

record execution_fill =
  ef_environment :: string
  ef_exec_id :: string
  ef_order_id :: string
  ef_order_link_id :: string
  ef_category :: string
  ef_symbol :: string
  ef_side :: string
  ef_exec_price :: pyfloat
  ef_exec_quantity :: pyfloat
  ef_exec_value :: pyfloat
  ef_exec_fee :: pyfloat
  ef_fee_rate :: pyfloat
  ef_fee_currency :: string
  ef_is_maker :: bool
  ef_exec_time_ms :: int
  ef_sequence :: int
  ef_message_creation_time_ms :: int
  ef_message_id :: string

definition fill_managed :: "execution_fill \<Rightarrow> bool" where
  "fill_managed f = startswith (ef_order_link_id f) ''sai_''"

record fill_doc =
  fd_environment :: string
  fd_fills :: "execution_fill dict"
  fd_deduplicated_replay_count :: int
  fd_conflicting_duplicate_count :: int
  fd_last_message_creation_ms :: int
  fd_updated_at_ms :: int

record fill_store =
  fs_environment :: string
  fs_max_message_lag_ms :: int
  fs_max_future_skew_ms :: int

definition fill_namespace :: string where
  "fill_namespace = ''bybit_private_executions''"

definition fill_store_init ::
  "os_env \<Rightarrow> string option \<Rightarrow> pyfloat option \<Rightarrow> int option \<Rightarrow> fill_store res" where
  "fill_store_init env environment max_message_lag_seconds max_future_skew_ms =
     rbind (fill_environment_of
              (if given environment \<noteq> [] then given environment
               else getenv env ''EXCHANGE_MODE'' ''sandbox'')) (\<lambda>environment_value.
     rbind (case max_message_lag_seconds of Some lag \<Rightarrow> Inr lag
            | None \<Rightarrow> fill_finite (PyStr (getenv env ''BYBIT_PRIVATE_EVENT_MAX_LAG_SECONDS'' ''30''))
                        ''max message lag'') (\<lambda>lag.
     rbind (int_of_float (fmul (py_min (py_max lag (Fin 1)) (Fin 300)) (Fin 1000))) (\<lambda>lag_ms.
     rbind (case max_future_skew_ms of Some skew \<Rightarrow> Inr skew
            | None \<Rightarrow> py_int (PyStr (getenv env ''BYBIT_PRIVATE_EVENT_MAX_FUTURE_SKEW_MS'' ''1000'')))
           (\<lambda>skew.
       Inr \<lparr>fs_environment = environment_value, fs_max_message_lag_ms = lag_ms,
            fs_max_future_skew_ms = min (max skew 0) 5000\<rparr>))))"

definition normalize_fill ::
  "pyval \<Rightarrow> string \<Rightarrow> string \<Rightarrow> string \<Rightarrow> int \<Rightarrow> int \<Rightarrow> int \<Rightarrow> int \<Rightarrow> execution_fill res" where
  "normalize_fill raw topic environment message_id message_creation_ms received_at_ms
       max_message_lag_ms max_future_skew_ms =
     (case raw of PyDict row \<Rightarrow>
        (let category = lower (strip (py_str (py_get row ''category'' (PyStr []))))
         in if category \<notin> set fill_categories then Inl (ValueError ''invalid execution category'')
            else if topic_mismatch topic category
            then Inl (ValueError ''execution topic and category mismatch'') else
         rbind (fill_identifier (py_get row ''execId'' PyNone) ''execId'') (\<lambda>exec_id.
         rbind (fill_identifier (py_get row ''orderId'' PyNone) ''orderId'') (\<lambda>order_id.
         rbind (fill_optional_identifier (py_get row ''orderLinkId'' PyNone) ''orderLinkId'') (\<lambda>order_link_id.
           let symbol = upper (strip (py_str (py_get row ''symbol'' (PyStr []))));
               side = title (strip (py_str (py_get row ''side'' (PyStr []))))
           in if symbol = [] \<or> \<not> isalnum symbol then Inl (ValueError ''invalid execution symbol'')
              else if side \<notin> set id_sides then Inl (ValueError ''invalid execution side'') else
         rbind (fill_positive (py_get row ''execPrice'' PyNone) ''execPrice'') (\<lambda>price.
         rbind (fill_positive (py_get row ''execQty'' PyNone) ''execQty'') (\<lambda>quantity.
         rbind (fill_nonnegative (py_get row ''execValue'' PyNone) ''execValue'') (\<lambda>reported.
           let exec_value = (if fle reported tolerance then fmul price quantity else reported)
           in
         rbind (fill_nonnegative (py_get row ''execFee'' PyNone) ''execFee'') (\<lambda>fee.
         rbind (fill_finite (py_get row ''feeRate'' (PyInt 0)) ''feeRate'') (\<lambda>fee_rate.
           if flt (rnd64 (5 / 100)) (fabs fee_rate)
           then Inl (ValueError ''feeRate is outside supported bounds'') else
         rbind (fill_positive_int (py_get row ''execTime'' PyNone) ''execTime'') (\<lambda>exec_time.
           if received_at_ms + max_future_skew_ms < exec_time
           then Inl (ValueError ''execution timestamp is in the future'')
           else if message_creation_ms + max_future_skew_ms < exec_time
           then Inl (ValueError ''execTime is ahead of creationTime'')
           else if max_message_lag_ms < received_at_ms - exec_time
           then Inl (ValueError ''execution row is too old or replayed'') else
         rbind (py_int (py_or (py_get row ''seq'' PyNone) (PyInt 0))) (\<lambda>seq_number.
           if seq_number < 0 then Inl (ValueError ''execution sequence cannot be negative'')
           else Inr \<lparr>ef_environment = environment, ef_exec_id = exec_id, ef_order_id = order_id,
                ef_order_link_id = order_link_id, ef_category = category, ef_symbol = symbol,
                ef_side = side, ef_exec_price = price, ef_exec_quantity = quantity,
                ef_exec_value = exec_value, ef_exec_fee = fee, ef_fee_rate = fee_rate,
                ef_fee_currency = upper (strip (py_str (py_or (py_get row ''feeCurrency'' PyNone) (PyStr [])))),
                ef_is_maker = truthy (py_get row ''isMaker'' (PyBool False)),
                ef_exec_time_ms = exec_time, ef_sequence = seq_number,
                ef_message_creation_time_ms = message_creation_ms,
                ef_message_id = message_id\<rparr>)))))))))))
      | _ \<Rightarrow> Inl (TypeError ''execution event must be an object''))"

section \<open>The document\<close>

definition fill_from_mapping :: "execution_fill \<Rightarrow> execution_fill res" where
  "fill_from_mapping f =
     (if ef_category f \<notin> set fill_categories \<or> ef_side f \<notin> set id_sides
      then Inl (RuntimeError ''persisted execution fill contains invalid enums'') else
      rbind (fill_identifier (PyStr (ef_exec_id f)) ''persisted execId'') (\<lambda>_.
      rbind (fill_identifier (PyStr (ef_order_id f)) ''persisted orderId'') (\<lambda>_.
      rbind (fill_positive (PyFloat (ef_exec_price f)) ''persisted execPrice'') (\<lambda>_.
      rbind (fill_positive (PyFloat (ef_exec_quantity f)) ''persisted execQty'') (\<lambda>_.
      rbind (fill_nonnegative (PyFloat (ef_exec_value f)) ''persisted execValue'') (\<lambda>_.
      rbind (fill_nonnegative (PyFloat (ef_exec_fee f)) ''persisted execFee'') (\<lambda>_.
      rbind (fill_positive_int (PyInt (ef_exec_time_ms f)) ''persisted execTime'') (\<lambda>_. Inr f))))))))"

definition check_fill :: "string \<Rightarrow> execution_fill dict \<Rightarrow> string \<times> execution_fill \<Rightarrow> execution_fill dict res" where
  "check_fill environment acc entry =
     (case entry of (key, raw) \<Rightarrow>
       rbind (fill_from_mapping raw) (\<lambda>fill.
         if ef_exec_id fill \<noteq> key \<or> ef_environment fill \<noteq> environment
         then Inl (RuntimeError ''persisted execution identity mismatch'')
         else Inr (AList.update key fill acc)))"

definition fill_document :: "string \<Rightarrow> fill_doc option \<Rightarrow> fill_doc res" where
  "fill_document environment v =
     (case v of
        None \<Rightarrow> Inr \<lparr>fd_environment = environment, fd_fills = [], fd_deduplicated_replay_count = 0,
                     fd_conflicting_duplicate_count = 0, fd_last_message_creation_ms = 0,
                     fd_updated_at_ms = 0\<rparr>
      | Some d \<Rightarrow>
          if fd_environment d \<noteq> environment
          then Inl (RuntimeError ''private execution state document is invalid'')
          else rbind (rfold (check_fill environment) [] (fd_fills d)) (\<lambda>normalized.
                 Inr (d\<lparr>fd_fills := normalized\<rparr>)))"

text \<open>\<open>fill == existing\<close> of two frozen dataclasses: tuple equality, floats by value.\<close>

definition fill_eq :: "execution_fill \<Rightarrow> execution_fill \<Rightarrow> bool" where
  "fill_eq a b =
     (ef_environment a = ef_environment b \<and> ef_exec_id a = ef_exec_id b \<and>
      ef_order_id a = ef_order_id b \<and> ef_order_link_id a = ef_order_link_id b \<and>
      ef_category a = ef_category b \<and> ef_symbol a = ef_symbol b \<and> ef_side a = ef_side b \<and>
      feq (ef_exec_price a) (ef_exec_price b) \<and> feq (ef_exec_quantity a) (ef_exec_quantity b) \<and>
      feq (ef_exec_value a) (ef_exec_value b) \<and> feq (ef_exec_fee a) (ef_exec_fee b) \<and>
      feq (ef_fee_rate a) (ef_fee_rate b) \<and> ef_fee_currency a = ef_fee_currency b \<and>
      ef_is_maker a = ef_is_maker b \<and> ef_exec_time_ms a = ef_exec_time_ms b \<and>
      ef_sequence a = ef_sequence b \<and>
      ef_message_creation_time_ms a = ef_message_creation_time_ms b \<and>
      ef_message_id a = ef_message_id b)"

text \<open>
  One fill of a message: the document with the accepted and the replayed ids. The counter the code
  raises on a conflict belongs to a document that the exception discards.
\<close>

definition add_fill ::
  "fill_doc \<times> string list \<times> string list \<Rightarrow> execution_fill \<Rightarrow>
   (fill_doc \<times> string list \<times> string list) res" where
  "add_fill st fill =
     (case st of (d, accepted, replays) \<Rightarrow>
       case map_of (fd_fills d) (ef_exec_id fill) of
         None \<Rightarrow> Inr (d\<lparr>fd_fills := AList.update (ef_exec_id fill) fill (fd_fills d)\<rparr>,
                      accepted @ [ef_exec_id fill], replays)
       | Some existing \<Rightarrow>
           rbind (fill_from_mapping existing) (\<lambda>old.
             if fill_eq old fill then Inr (d, accepted, replays @ [ef_exec_id fill])
             else Inl (ValueError (''conflicting private execution identity: '' @ ef_exec_id fill))))"

definition fill_mutate ::
  "string \<Rightarrow> execution_fill list \<Rightarrow> int \<Rightarrow> int \<Rightarrow> fill_doc option \<Rightarrow>
   (fill_doc \<times> string list \<times> string list) res" where
  "fill_mutate environment fills creation received v =
     rbind (fill_document environment v) (\<lambda>d.
     rbind (rfold add_fill (d, [], []) fills) (\<lambda>(d', accepted, replays).
       Inr (d'\<lparr>fd_deduplicated_replay_count := fd_deduplicated_replay_count d' + int (length replays),
               fd_last_message_creation_ms := max (fd_last_message_creation_ms d') creation,
               fd_updated_at_ms := received\<rparr>, accepted, replays)))"

text \<open>
  The store encodes a document with \<open>allow_nan=False\<close>, so a float that is not finite raises; the
  computed value of a fill is the only one the checks above leave open.
\<close>

definition fill_encode :: "fill_doc \<times> 'r \<Rightarrow> (fill_doc \<times> 'r) res" where
  "fill_encode p =
     (if list_all (\<lambda>(k, f). isfinite (ef_exec_value f)) (fd_fills (fst p)) then Inr p
      else Inl (ValueError ''Out of range float values are not JSON compliant''))"

definition read_fill_message ::
  "fill_store \<Rightarrow> pyval \<Rightarrow> int \<Rightarrow> (int \<times> int \<times> execution_fill list) res" where
  "read_fill_message st message received_at_ms =
     (case message of PyDict m \<Rightarrow>
        (let topic = strip (py_str (py_get m ''topic'' (PyStr [])))
         in if topic \<notin> set fill_topics then Inl (ValueError ''unsupported private execution topic'') else
         rbind (fill_positive_int (PyInt received_at_ms) ''received_at_ms'') (\<lambda>received.
         rbind (fill_positive_int (py_get m ''creationTime'' PyNone) ''creationTime'') (\<lambda>creation.
           if received + fs_max_future_skew_ms st < creation
           then Inl (ValueError ''execution message creationTime is in the future'')
           else if fs_max_message_lag_ms st < received - creation
           then Inl (ValueError ''private execution message is too old or replayed'') else
         (case py_get m ''data'' PyNone of
            PyList (r # rs) \<Rightarrow>
              rbind (fill_identifier
                       (py_or (py_get m ''id'' PyNone) (PyStr (''exec-msg-'' @ int_str creation)))
                       ''message id'') (\<lambda>message_id.
              rbind (rmapM (\<lambda>row. normalize_fill row topic (fs_environment st) message_id creation received
                              (fs_max_message_lag_ms st) (fs_max_future_skew_ms st)) (r # rs)) (\<lambda>fills.
                Inr (creation, received, fills)))
          | _ \<Rightarrow> Inl (ValueError ''private execution data must be a non-empty list'')))))
      | _ \<Rightarrow> Inl (TypeError ''private execution message must be an object''))"

record fill_ingest_result =
  fi_environment :: string
  fi_accepted_exec_ids :: "string list"
  fi_deduplicated_replays :: "string list"
  fi_version :: int

definition fill_ingest_message ::
  "fill_store \<Rightarrow> pyval \<Rightarrow> int \<Rightarrow> int \<Rightarrow> (fill_doc kv \<Rightarrow> fill_doc kv) list \<Rightarrow> fill_doc kv \<Rightarrow>
   fill_ingest_result res \<times> fill_doc kv" where
  "fill_ingest_message st message received_at_ms clock others db =
     (case read_fill_message st message received_at_ms of Inl e \<Rightarrow> (Inl e, db)
      | Inr (creation, received, fills) \<Rightarrow>
        (case optimistic_update 5 fill_namespace (fs_environment st)
                (\<lambda>row. rbind (fill_mutate (fs_environment st) fills creation received (map_option kv_doc row))
                   fill_encode)
                ''private execution state update conflicted repeatedly'' clock others db of
           (Inl e, db') \<Rightarrow> (Inl e, db')
         | (Inr ((accepted, replays), v), db') \<Rightarrow>
             (Inr \<lparr>fi_environment = fs_environment st, fi_accepted_exec_ids = accepted,
                   fi_deduplicated_replays = replays, fi_version = v\<rparr>, db')))"

section \<open>Aggregates\<close>

record fill_aggregate =
  ag_order_link_id :: string
  ag_order_id :: string
  ag_symbol :: string
  ag_category :: string
  ag_side :: string
  ag_execution_count :: int
  ag_filled_quantity :: pyfloat
  ag_executed_value :: pyfloat
  ag_actual_fee :: pyfloat
  ag_fee_currencies :: "string list"
  ag_maker_execution_count :: int
  ag_taker_execution_count :: int
  ag_first_exec_time_ms :: int
  ag_last_exec_time_ms :: int
  ag_exec_ids :: "string list"
  ag_average_fill_price :: pyfloat

definition new_aggregate :: "execution_fill \<Rightarrow> fill_aggregate" where
  "new_aggregate f =
     \<lparr>ag_order_link_id = ef_order_link_id f, ag_order_id = ef_order_id f, ag_symbol = ef_symbol f,
      ag_category = ef_category f, ag_side = ef_side f, ag_execution_count = 0,
      ag_filled_quantity = Fin 0, ag_executed_value = Fin 0, ag_actual_fee = Fin 0,
      ag_fee_currencies = [], ag_maker_execution_count = 0, ag_taker_execution_count = 0,
      ag_first_exec_time_ms = ef_exec_time_ms f, ag_last_exec_time_ms = ef_exec_time_ms f,
      ag_exec_ids = [], ag_average_fill_price = Fin 0\<rparr>"

definition accumulate :: "fill_aggregate \<Rightarrow> execution_fill \<Rightarrow> fill_aggregate" where
  "accumulate a f =
     a\<lparr>ag_execution_count := ag_execution_count a + 1,
       ag_filled_quantity := fadd (ag_filled_quantity a) (ef_exec_quantity f),
       ag_executed_value := fadd (ag_executed_value a) (ef_exec_value f),
       ag_actual_fee := fadd (ag_actual_fee a) (ef_exec_fee f),
       ag_maker_execution_count := ag_maker_execution_count a + (if ef_is_maker f then 1 else 0),
       ag_taker_execution_count := ag_taker_execution_count a + (if ef_is_maker f then 0 else 1),
       ag_first_exec_time_ms := min (ag_first_exec_time_ms a) (ef_exec_time_ms f),
       ag_last_exec_time_ms := max (ag_last_exec_time_ms a) (ef_exec_time_ms f),
       ag_exec_ids := ag_exec_ids a @ [ef_exec_id f],
       ag_fee_currencies :=
         (if ef_fee_currency f \<noteq> [] \<and> ef_fee_currency f \<notin> set (ag_fee_currencies a)
          then ag_fee_currencies a @ [ef_fee_currency f] else ag_fee_currencies a)\<rparr>"

definition aggregate_fill :: "fill_aggregate dict \<Rightarrow> execution_fill \<Rightarrow> fill_aggregate dict res" where
  "aggregate_fill acc f =
     (let link = ef_order_link_id f;
          current = (case map_of acc link of Some a \<Rightarrow> a | None \<Rightarrow> new_aggregate f)
      in if ag_order_id current \<noteq> [] \<and> ef_order_id f \<noteq> [] \<and> ag_order_id current \<noteq> ef_order_id f
         then Inl (RuntimeError (''orderLinkId '' @ link @ '' maps to multiple orderIds''))
         else Inr (AList.update link (accumulate current f) acc))"

definition finish_aggregate :: "fill_aggregate \<Rightarrow> fill_aggregate res" where
  "finish_aggregate a =
     rbind (if flt tolerance (ag_filled_quantity a)
            then fdiv (ag_executed_value a) (ag_filled_quantity a) else Inr (Fin 0)) (\<lambda>price.
       Inr (a\<lparr>ag_average_fill_price := round_to 12 price,
              ag_filled_quantity := round_to 12 (ag_filled_quantity a),
              ag_executed_value := round_to 12 (ag_executed_value a),
              ag_actual_fee := round_to 12 (ag_actual_fee a),
              ag_exec_ids := sort (ag_exec_ids a), ag_fee_currencies := sort (ag_fee_currencies a)\<rparr>))"

definition aggregates :: "execution_fill list \<Rightarrow> fill_aggregate list res" where
  "aggregates fills =
     rbind (rfold aggregate_fill [] fills) (\<lambda>acc. rmapM (\<lambda>(k, a). finish_aggregate a) acc)"

record fill_snapshot =
  fn_environment :: string
  fn_version :: int
  fn_updated_at_ms :: int
  fn_fills :: "execution_fill list"
  fn_managed_fills :: "execution_fill list"
  fn_managed_orders :: "fill_aggregate list"
  fn_deduplicated_replay_count :: int
  fn_conflicting_duplicate_count :: int

definition fill_snapshot_of :: "fill_store \<Rightarrow> fill_doc kv \<Rightarrow> fill_snapshot res" where
  "fill_snapshot_of st db =
     rbind (get_json db fill_namespace (fs_environment st)) (\<lambda>current.
     rbind (fill_document (fs_environment st) (map_option kv_doc current)) (\<lambda>d.
     rbind (rmapM fill_from_mapping (map snd (fd_fills d))) (\<lambda>unsorted.
       let fills = sort_key (\<lambda>f. (ef_exec_time_ms f, ef_exec_id f)) unsorted;
           managed = filter fill_managed fills
       in rbind (aggregates managed) (\<lambda>ags.
            Inr \<lparr>fn_environment = fs_environment st, fn_version = kv_current current,
                 fn_updated_at_ms = fd_updated_at_ms d, fn_fills = fills, fn_managed_fills = managed,
                 fn_managed_orders = ags,
                 fn_deduplicated_replay_count = fd_deduplicated_replay_count d,
                 fn_conflicting_duplicate_count = fd_conflicting_duplicate_count d\<rparr>))))"

definition fill_aggregate_of :: "fill_store \<Rightarrow> fill_doc kv \<Rightarrow> pyval \<Rightarrow> fill_aggregate option res" where
  "fill_aggregate_of st db order_link_id_arg =
     rbind (fill_identifier order_link_id_arg ''orderLinkId'') (\<lambda>clean.
     rbind (fill_snapshot_of st db) (\<lambda>snap.
       Inr (find (\<lambda>a. ag_order_link_id a = clean) (fn_managed_orders snap))))"

section \<open>Reconciliation with the private orders\<close>

definition fill_orders_by_link :: "pyval list \<Rightarrow> journal_row dict" where
  "fill_orders_by_link orders =
     foldl (\<lambda>acc v. case v of
              PyDict row \<Rightarrow>
                (let link = py_str (py_or (py_get row ''order_link_id'' PyNone) (PyStr []))
                 in if link \<noteq> [] then AList.update link row acc else acc)
            | _ \<Rightarrow> acc) [] orders"

record fill_reconcile_result =
  fr_restart_safe :: bool
  fr_environment :: string
  fr_errors :: "string list"
  fr_orphan_execution_links :: "string list"
  fr_missing_execution_links :: "string list"
  fr_quantity_mismatch_links :: "string list"
  fr_conflicting_duplicate_count :: int
  fr_deduplicated_replay_count :: int

definition fill_compare ::
  "fill_aggregate dict \<Rightarrow> string list \<times> string list \<times> string list \<Rightarrow> string \<times> journal_row \<Rightarrow>
   (string list \<times> string list \<times> string list) res" where
  "fill_compare ags st entry =
     (case (st, entry) of ((errors, missing, mismatched), (link, order)) \<Rightarrow>
       rbind (fill_nonnegative (py_get order ''cum_exec_qty'' PyNone) ''cum_exec_qty'') (\<lambda>cumulative.
         case map_of ags link of
           None \<Rightarrow>
             if flt tolerance cumulative
             then Inr (errors @ [''executed private order '' @ link @ '' has no execution fills''],
                       missing @ [link], mismatched)
             else Inr (errors, missing, mismatched)
         | Some a \<Rightarrow>
             if flt tolerance (fabs (fsub (ag_filled_quantity a) cumulative))
             then Inr (errors @ [''execution quantity mismatch for '' @ link], missing, mismatched @ [link])
             else Inr (errors, missing, mismatched)))"

definition fill_reconcile :: "fill_store \<Rightarrow> pyval \<Rightarrow> fill_doc kv \<Rightarrow> fill_reconcile_result res" where
  "fill_reconcile st order_snap db =
     (case (case order_snap of PyDict d \<Rightarrow> py_get d ''managed_orders'' PyNone | _ \<Rightarrow> PyNone) of
        PyList orders \<Rightarrow>
          (let by_link = fill_orders_by_link orders
           in rbind (fill_snapshot_of st db) (\<lambda>snap.
              let ags = map (\<lambda>a. (ag_order_link_id a, a)) (fn_managed_orders snap);
                  orphans = sorted_set (filter (\<lambda>l. map_of by_link l = None) (map fst ags));
                  errors = map (\<lambda>l. ''managed execution '' @ l @ '' has no private order state'') orphans
              in rbind (rfold (fill_compare ags) (errors, [], []) by_link) (\<lambda>(errors', missing, mismatched).
                   Inr \<lparr>fr_restart_safe = (errors' = []), fr_environment = fs_environment st,
                        fr_errors = errors', fr_orphan_execution_links = orphans,
                        fr_missing_execution_links = missing, fr_quantity_mismatch_links = mismatched,
                        fr_conflicting_duplicate_count = fn_conflicting_duplicate_count snap,
                        fr_deduplicated_replay_count = fn_deduplicated_replay_count snap\<rparr>)))
      | _ \<Rightarrow> Inl (RuntimeError ''private order snapshot must contain managed_orders''))"

end
