(* ===== verification/Execution_Contract_V2.thy ===== *)
theory Execution_Contract_V2
  imports General_Controller
begin

text \<open>
  \<open>autonomous_trading/execution_contract_v2.py\<close>: the transport-neutral execution intent. The
  dataclasses' \<open>__post_init__\<close> are smart constructors that take the raw fields (decimals as the
  text \<open>str(value)\<close>) and return the normalised record or the exception. Step alignment and the
  notional are decimal arithmetic of the default context.
\<close>

datatype execution_environment = ENV_PAPER | ENV_TESTNET | ENV_MAINNET

datatype order_type = ORDER_MARKET | ORDER_LIMIT

datatype time_in_force = TIF_GTC | TIF_IOC | TIF_FOK

fun environment_text :: "execution_environment \<Rightarrow> string" where
  "environment_text ENV_PAPER = ''paper''"
| "environment_text ENV_TESTNET = ''testnet''"
| "environment_text ENV_MAINNET = ''mainnet''"

fun order_type_text :: "order_type \<Rightarrow> string" where
  "order_type_text ORDER_MARKET = ''market''"
| "order_type_text ORDER_LIMIT = ''limit''"

fun time_in_force_text :: "time_in_force \<Rightarrow> string" where
  "time_in_force_text TIF_GTC = ''GTC''"
| "time_in_force_text TIF_IOC = ''IOC''"
| "time_in_force_text TIF_FOK = ''FOK''"

definition v2_decimal :: "string \<Rightarrow> string \<Rightarrow> pydec res" where
  "v2_decimal v field =
     (case dec_of_string v of Inl e \<Rightarrow> Inl (ValueError (field @ '' must be a decimal value''))
      | Inr result \<Rightarrow> if \<not> dec_is_finite result then Inl (ValueError (field @ '' must be finite''))
                       else Inr result)"

definition v2_positive :: "string \<Rightarrow> string \<Rightarrow> pydec res" where
  "v2_positive v field =
     rbind (v2_decimal v field) (\<lambda>result.
       if dec_val result \<le> 0 then Inl (ValueError (field @ '' must be positive'')) else Inr result)"

definition v2_non_negative :: "string \<Rightarrow> string \<Rightarrow> pydec res" where
  "v2_non_negative v field =
     rbind (v2_decimal v field) (\<lambda>result.
       if dec_val result < 0 then Inl (ValueError (field @ '' must be non-negative'')) else Inr result)"

definition is_step_aligned :: "pydec \<Rightarrow> pydec \<Rightarrow> bool res" where
  "is_step_aligned v step =
     rbind (dec_rem v step) (\<lambda>r. Inr (dec_is_finite r \<and> dec_val r = 0))"

section \<open>Constraints and costs\<close>

record instrument_constraints =
  ic_tick_size :: pydec
  ic_qty_step :: pydec
  ic_min_qty :: pydec
  ic_min_notional :: pydec
  ic_evidence_id :: string

definition make_constraints ::
  "string \<Rightarrow> string \<Rightarrow> string \<Rightarrow> string \<Rightarrow> string \<Rightarrow> instrument_constraints res" where
  "make_constraints tick_size qty_step min_qty min_notional evidence_id =
     rbind (v2_positive tick_size ''tick_size'') (\<lambda>tick.
     rbind (v2_positive qty_step ''qty_step'') (\<lambda>step.
     rbind (v2_positive min_qty ''min_qty'') (\<lambda>mq.
     rbind (v2_positive min_notional ''min_notional'') (\<lambda>mn.
       if strip evidence_id = [] then Inl (ValueError ''constraints evidence_id must not be empty'')
       else Inr \<lparr>ic_tick_size = tick, ic_qty_step = step, ic_min_qty = mq, ic_min_notional = mn,
                 ic_evidence_id = evidence_id\<rparr>))))"

record cost_snapshot =
  co_fee_rate :: pydec
  co_expected_slippage_rate :: pydec
  co_worst_case_slippage_rate :: pydec
  co_evidence_id :: string

definition make_costs :: "string \<Rightarrow> string \<Rightarrow> string \<Rightarrow> string \<Rightarrow> cost_snapshot res" where
  "make_costs fee_rate expected worst evidence_id =
     rbind (v2_non_negative fee_rate ''fee_rate'') (\<lambda>fee.
     rbind (v2_non_negative expected ''expected_slippage_rate'') (\<lambda>ex.
     rbind (v2_non_negative worst ''worst_case_slippage_rate'') (\<lambda>wo.
       if dec_less wo ex
       then Inl (ValueError ''worst_case_slippage_rate must be >= expected_slippage_rate'')
       else if strip evidence_id = [] then Inl (ValueError ''cost evidence_id must not be empty'')
       else Inr \<lparr>co_fee_rate = fee, co_expected_slippage_rate = ex, co_worst_case_slippage_rate = wo,
                 co_evidence_id = evidence_id\<rparr>)))"

section \<open>The intent\<close>

record raw_intent =
  ri_candidate_id :: string
  ri_symbol :: string
  ri_category :: string
  ri_intent :: trading_intent
  ri_environment :: execution_environment
  ri_quantity :: string
  ri_reference_price :: string
  ri_order_type :: order_type
  ri_time_in_force :: time_in_force
  ri_constraints :: instrument_constraints
  ri_costs :: cost_snapshot
  ri_portfolio_snapshot_id :: string
  ri_risk_evidence_id :: string
  ri_security_evidence_id :: string
  ri_decision_evidence_id :: string
  ri_expires_at_ms :: int
  ri_limit_price :: "string option"
  ri_reduce_only :: bool
  ri_paper_authoritative :: bool
  ri_execution_authority :: bool

record canonical_intent =
  ci_candidate_id :: string
  ci_symbol :: string
  ci_category :: string
  ci_intent :: trading_intent
  ci_environment :: execution_environment
  ci_quantity :: pydec
  ci_reference_price :: pydec
  ci_order_type :: order_type
  ci_time_in_force :: time_in_force
  ci_constraints :: instrument_constraints
  ci_costs :: cost_snapshot
  ci_portfolio_snapshot_id :: string
  ci_risk_evidence_id :: string
  ci_security_evidence_id :: string
  ci_decision_evidence_id :: string
  ci_expires_at_ms :: int
  ci_limit_price :: "pydec option"
  ci_reduce_only :: bool
  ci_paper_authoritative :: bool
  ci_execution_authority :: bool

text \<open>\<open>^[A-Z0-9]{3,32}$\<close>, matched in full.\<close>

definition symbol_re :: "string \<Rightarrow> bool" where
  "symbol_re s = (3 \<le> length s \<and> length s \<le> 32 \<and> list_all (\<lambda>c. is_upper c \<or> is_digit c) s)"

definition optional_positive :: "string option \<Rightarrow> string \<Rightarrow> pydec option res" where
  "optional_positive v field =
     (case v of None \<Rightarrow> Inr None | Some t \<Rightarrow> rbind (v2_positive t field) (\<lambda>d. Inr (Some d)))"

definition tick_aligned :: "pydec option \<Rightarrow> pydec \<Rightarrow> bool res" where
  "tick_aligned limit_price tick =
     (case limit_price of None \<Rightarrow> Inr True | Some p \<Rightarrow> is_step_aligned p tick)"

definition make_intent :: "raw_intent \<Rightarrow> canonical_intent res" where
  "make_intent r =
     (let candidate_id = strip (ri_candidate_id r);
          symbol = upper (strip (ri_symbol r));
          category = lower (strip (ri_category r))
      in if candidate_id = [] then Inl (ValueError ''candidate_id must not be empty'')
         else if \<not> symbol_re symbol
         then Inl (ValueError ''symbol must be 3..32 uppercase alphanumeric characters'')
         else if category \<notin> set [''spot'', ''linear''] then Inl (ValueError ''category must be spot or linear'')
         else if ri_intent r = INTENT_WAIT then Inl (ValueError ''WAIT cannot produce an execution intent'')
         else if ri_expires_at_ms r \<le> 0 then Inl (ValueError ''expires_at_ms must be positive'')
         else if \<not> ri_paper_authoritative r
         then Inl (ValueError ''paper_authoritative must remain true in this migration phase'')
         else if ri_execution_authority r
         then Inl (ValueError ''execution_authority must remain false in this migration phase'') else
      rbind (v2_positive (ri_quantity r) ''quantity'') (\<lambda>quantity.
      rbind (v2_positive (ri_reference_price r) ''reference_price'') (\<lambda>reference_price.
      rbind (optional_positive (ri_limit_price r) ''limit_price'') (\<lambda>limit_price.
        if ri_order_type r = ORDER_LIMIT \<and> limit_price = None
        then Inl (ValueError ''limit orders require limit_price'')
        else if ri_order_type r = ORDER_MARKET \<and> limit_price \<noteq> None
        then Inl (ValueError ''market orders must not define limit_price'') else
      rbind (is_step_aligned quantity (ic_qty_step (ri_constraints r))) (\<lambda>aligned.
        if \<not> aligned then Inl (ValueError ''quantity is not aligned to qty_step'')
        else if dec_less quantity (ic_min_qty (ri_constraints r))
        then Inl (ValueError ''quantity is below min_qty'') else
      rbind (tick_aligned limit_price (ic_tick_size (ri_constraints r))) (\<lambda>on_tick.
        if \<not> on_tick then Inl (ValueError ''limit_price is not aligned to tick_size'') else
      rbind (dec_mul quantity (case limit_price of Some p \<Rightarrow> p | None \<Rightarrow> reference_price)) (\<lambda>notional.
        if dec_less notional (ic_min_notional (ri_constraints r))
        then Inl (ValueError ''order notional is below min_notional'')
        else if strip (ri_portfolio_snapshot_id r) = []
        then Inl (ValueError ''portfolio_snapshot_id must not be empty'')
        else if strip (ri_risk_evidence_id r) = []
        then Inl (ValueError ''risk_evidence_id must not be empty'')
        else if strip (ri_security_evidence_id r) = []
        then Inl (ValueError ''security_evidence_id must not be empty'')
        else if strip (ri_decision_evidence_id r) = []
        then Inl (ValueError ''decision_evidence_id must not be empty'')
        else Inr \<lparr>ci_candidate_id = candidate_id, ci_symbol = symbol, ci_category = category,
                  ci_intent = ri_intent r, ci_environment = ri_environment r, ci_quantity = quantity,
                  ci_reference_price = reference_price, ci_order_type = ri_order_type r,
                  ci_time_in_force = ri_time_in_force r, ci_constraints = ri_constraints r,
                  ci_costs = ri_costs r, ci_portfolio_snapshot_id = ri_portfolio_snapshot_id r,
                  ci_risk_evidence_id = ri_risk_evidence_id r,
                  ci_security_evidence_id = ri_security_evidence_id r,
                  ci_decision_evidence_id = ri_decision_evidence_id r,
                  ci_expires_at_ms = ri_expires_at_ms r, ci_limit_price = limit_price,
                  ci_reduce_only = ri_reduce_only r,
                  ci_paper_authoritative = ri_paper_authoritative r,
                  ci_execution_authority = ri_execution_authority r\<rparr>)))))))"

definition limit_text :: "pydec option \<Rightarrow> pyval" where
  "limit_text p = (case p of None \<Rightarrow> PyNone | Some d \<Rightarrow> PyStr (dec_str d))"

definition stable_payload :: "canonical_intent \<Rightarrow> (string \<times> pyval) list" where
  "stable_payload i =
     [(''candidate_id'', PyStr (ci_candidate_id i)), (''symbol'', PyStr (ci_symbol i)),
      (''category'', PyStr (ci_category i)), (''intent'', PyStr (intent_value (ci_intent i))),
      (''environment'', PyStr (environment_text (ci_environment i))),
      (''quantity'', PyStr (dec_str (ci_quantity i))),
      (''reference_price'', PyStr (dec_str (ci_reference_price i))),
      (''limit_price'', limit_text (ci_limit_price i)),
      (''order_type'', PyStr (order_type_text (ci_order_type i))),
      (''time_in_force'', PyStr (time_in_force_text (ci_time_in_force i))),
      (''reduce_only'', PyBool (ci_reduce_only i)),
      (''portfolio_snapshot_id'', PyStr (ci_portfolio_snapshot_id i)),
      (''risk_evidence_id'', PyStr (ci_risk_evidence_id i)),
      (''security_evidence_id'', PyStr (ci_security_evidence_id i)),
      (''decision_evidence_id'', PyStr (ci_decision_evidence_id i)),
      (''constraints_evidence_id'', PyStr (ic_evidence_id (ci_constraints i))),
      (''cost_evidence_id'', PyStr (co_evidence_id (ci_costs i))),
      (''expires_at_ms'', PyInt (ci_expires_at_ms i))]"

definition idempotency_key :: "(string \<Rightarrow> string) \<Rightarrow> canonical_intent \<Rightarrow> string" where
  "idempotency_key H i = ''v2-'' @ take 32 (H (json_dumps True (PyDict (stable_payload i))))"

definition intent_to_dict :: "(string \<Rightarrow> string) \<Rightarrow> canonical_intent \<Rightarrow> (string \<times> pyval) list" where
  "intent_to_dict H i =
     [(''candidate_id'', PyStr (ci_candidate_id i)), (''symbol'', PyStr (ci_symbol i)),
      (''category'', PyStr (ci_category i)), (''intent'', PyStr (intent_value (ci_intent i))),
      (''environment'', PyStr (environment_text (ci_environment i))),
      (''quantity'', PyStr (dec_str (ci_quantity i))),
      (''reference_price'', PyStr (dec_str (ci_reference_price i))),
      (''order_type'', PyStr (order_type_text (ci_order_type i))),
      (''time_in_force'', PyStr (time_in_force_text (ci_time_in_force i))),
      (''constraints'', PyDict
         [(''tick_size'', PyStr (dec_str (ic_tick_size (ci_constraints i)))),
          (''qty_step'', PyStr (dec_str (ic_qty_step (ci_constraints i)))),
          (''min_qty'', PyStr (dec_str (ic_min_qty (ci_constraints i)))),
          (''min_notional'', PyStr (dec_str (ic_min_notional (ci_constraints i)))),
          (''evidence_id'', PyStr (ic_evidence_id (ci_constraints i)))]),
      (''costs'', PyDict
         [(''fee_rate'', PyStr (dec_str (co_fee_rate (ci_costs i)))),
          (''expected_slippage_rate'', PyStr (dec_str (co_expected_slippage_rate (ci_costs i)))),
          (''worst_case_slippage_rate'', PyStr (dec_str (co_worst_case_slippage_rate (ci_costs i)))),
          (''evidence_id'', PyStr (co_evidence_id (ci_costs i)))]),
      (''portfolio_snapshot_id'', PyStr (ci_portfolio_snapshot_id i)),
      (''risk_evidence_id'', PyStr (ci_risk_evidence_id i)),
      (''security_evidence_id'', PyStr (ci_security_evidence_id i)),
      (''decision_evidence_id'', PyStr (ci_decision_evidence_id i)),
      (''expires_at_ms'', PyInt (ci_expires_at_ms i)), (''limit_price'', limit_text (ci_limit_price i)),
      (''reduce_only'', PyBool (ci_reduce_only i)),
      (''paper_authoritative'', PyBool (ci_paper_authoritative i)),
      (''execution_authority'', PyBool (ci_execution_authority i)),
      (''idempotency_key'', PyStr (idempotency_key H i)),
      (''order_link_id'', PyStr (idempotency_key H i))]"

record adapter_preview =
  av_adapter_id :: string
  av_environment :: execution_environment
  av_normalized_symbol :: string
  av_normalized_quantity :: pydec
  av_normalized_price :: "pydec option"
  av_idempotency_key :: string
  av_warnings :: "string list"
  av_write_permitted :: bool

definition preview_post_init :: "adapter_preview \<Rightarrow> unit res" where
  "preview_post_init p =
     (if strip (av_adapter_id p) = [] then Inl (ValueError ''adapter_id must not be empty'')
      else if av_write_permitted p then Inl (ValueError ''adapter previews cannot permit writes'')
      else Inr ())"

end
