(* ===== verification/Private_Orders.thy ===== *)
theory Private_Orders
  imports Order_State
begin

text \<open>
  What the private order state guarantees: merging only moves an order forward, and the document an
  ingested message leaves behind always passes the validation of the next read. A document is
  described by the relation between its aliases and the keys of its orders; the two loops of the
  code, over the stored orders and over the aliases of a merged one, are shown to keep it.
\<close>

section \<open>Specification\<close>

text \<open>An order state that passes the checks of a read.\<close>

definition state_ok :: "string \<Rightarrow> order_state \<Rightarrow> bool" where
  "state_ok env s \<longleftrightarrow> state_from_mapping s = Inr s \<and> os_environment s = env \<and>
     validate_semantics s = Inr () \<and> aliases_of s \<noteq> []"

text \<open>The alias \<open>a\<close> belongs to the order stored under \<open>c\<close>.\<close>

definition alias_of :: "order_state dict \<Rightarrow> string \<Rightarrow> string \<Rightarrow> bool" where
  "alias_of orders a c \<longleftrightarrow> (\<exists>s. (c, s) \<in> set orders \<and> a \<in> set (aliases_of s))"

definition order_doc_wf :: "string \<Rightarrow> order_doc \<Rightarrow> bool" where
  "order_doc_wf env d \<longleftrightarrow> od_environment d = env \<and> distinct (map fst (od_orders d)) \<and>
     (\<forall>(c, s) \<in> set (od_orders d). state_ok env s \<and> c \<in> set (aliases_of s)) \<and>
     (\<forall>a c. map_of (od_aliases d) a = Some c \<longleftrightarrow> alias_of (od_orders d) a c)"

text \<open>What a merge may change of an order.\<close>

definition order_advances :: "order_state \<Rightarrow> order_state \<Rightarrow> bool" where
  "order_advances old s \<longleftrightarrow>
     os_environment s = os_environment old \<and> os_category s = os_category old \<and>
     os_symbol s = os_symbol old \<and> os_side s = os_side old \<and>
     os_created_time_ms s = os_created_time_ms old \<and> os_updated_time_ms old \<le> os_updated_time_ms s \<and>
     (os_order_id old \<noteq> [] \<longrightarrow> os_order_id s = os_order_id old) \<and>
     (os_order_link_id old \<noteq> [] \<longrightarrow> os_order_link_id s = os_order_link_id old) \<and>
     (os_status old \<in> set os_terminal \<longrightarrow> os_status s = os_status old)"

text \<open>The order a reader finds under a key.\<close>

definition stored_order :: "order_store \<Rightarrow> order_doc kv \<Rightarrow> string \<Rightarrow> order_state option" where
  "stored_order st db c =
     (case db (os_namespace, st_environment st) of None \<Rightarrow> None
      | Some row \<Rightarrow> map_of (od_orders (kv_doc row)) c)"

section \<open>Merging\<close>

lemma aliases_of_not_Nil: "a \<in> set (aliases_of s) \<Longrightarrow> a \<noteq> []"
  by (auto simp: aliases_of_def split: if_splits)

lemma merge_Some_cases:
  assumes "merge (Some old) new = Inr (b, s)"
  obtains (kept) "s = old" "\<not> b"
  | (merged) "s = merged_state old new" "b"
      "os_order_id old = [] \<or> os_order_id new = [] \<or> os_order_id old = os_order_id new"
      "os_order_link_id old = [] \<or> os_order_link_id new = [] \<or> os_order_link_id old = os_order_link_id new"
      "immutable_change old new = None" "os_updated_time_ms old \<le> os_updated_time_ms new"
      "os_status new = os_status old \<or>
       \<not> os_is_terminal old \<and> os_transition_allowed (os_status old) (os_status new)"
  using assms
  by (auto simp: merge_def Let_def same_execution_def merged_state_def split: option.splits if_splits)

lemma merge_advances:
  assumes "merge (Some old) new = Inr (b, s)"
  shows "order_advances old s"
  using assms
proof (cases rule: merge_Some_cases)
  case kept
  then show ?thesis by (simp add: order_advances_def)
next
  case merged
  then show ?thesis
    by (auto simp: order_advances_def merged_state_def or_text_def immutable_change_def os_is_terminal_def
        split: if_splits)
qed

lemma merge_transition:
  assumes "merge (Some old) new = Inr (b, s)"
  shows "os_status s = os_status old \<or> os_transition_allowed (os_status old) (os_status s)"
  using assms by (cases rule: merge_Some_cases) (auto simp: merged_state_def)

lemma order_advances_refl [simp]: "order_advances s s"
  by (simp add: order_advances_def)

lemma order_advances_trans: "order_advances a b \<Longrightarrow> order_advances b c \<Longrightarrow> order_advances a c"
  unfolding order_advances_def by auto

lemma merge_ok:
  assumes "merge (Some old) new = Inr (b, s)" "state_ok env old" "state_ok env new"
  shows "state_ok env s" "set (aliases_of old) \<subseteq> set (aliases_of s)"
proof -
  have "state_ok env s \<and> set (aliases_of old) \<subseteq> set (aliases_of s)"
    using assms(1)
  proof (cases rule: merge_Some_cases)
    case kept
    with assms(2) show ?thesis by simp
  next
    case merged
    have sem: "state_from_mapping s = Inr s" "validate_semantics s = Inr ()" "os_environment s = env"
      using assms(3) unfolding merged(1)
      by (auto simp: state_ok_def state_from_mapping_def validate_semantics_def merged_state_def Let_def res_simps
          split: if_splits)
    have "set (aliases_of old) \<subseteq> set (aliases_of s)"
      using merged(3,4) by (auto simp: merged(1) aliases_of_def merged_state_def or_text_def order_alias_def link_alias_def)
    moreover have "aliases_of old \<noteq> []" using assms(2) by (simp add: state_ok_def)
    ultimately show ?thesis using sem by (auto simp: state_ok_def)
  qed
  then show "state_ok env s" "set (aliases_of old) \<subseteq> set (aliases_of s)" by simp_all
qed

section \<open>Reading a document\<close>

lemma rfold_expect:
  assumes "\<forall>a \<in> set as. map_of e a \<in> {None, Some c}"
  shows "\<exists>e'. rfold (expect_alias c) e as = Inr e' \<and>
    map_of e' = (\<lambda>a. if a \<in> set as then Some c else map_of e a)"
  using assms
proof (induction as arbitrary: e)
  case (Cons a as)
  then have "expect_alias c e a = Inr (AList.update a c e)" by (simp add: expect_alias_def)
  moreover have "\<forall>x \<in> set as. map_of (AList.update a c e) x \<in> {None, Some c}"
    using Cons.prems by (auto simp: update_conv')
  ultimately show ?case using Cons.IH [of "AList.update a c e"] by (auto simp: update_conv' fun_eq_iff)
qed simp

lemma rfold_check:
  assumes "\<forall>(c, s) \<in> set orders. state_ok env s \<and> c \<in> set (aliases_of s)"
    and "\<And>a c c'. alias_of orders a c \<Longrightarrow> alias_of orders a c' \<Longrightarrow> c = c'"
    and "\<And>a c. alias_of orders a c \<Longrightarrow> map_of e a \<in> {None, Some c}"
  shows "\<exists>e'. rfold (check_order env) e orders = Inr e' \<and>
    (\<forall>a c. map_of e' a = Some c \<longleftrightarrow> alias_of orders a c \<or> map_of e a = Some c)"
  using assms
proof (induction orders arbitrary: e)
  case Nil
  then show ?case by (simp add: alias_of_def)
next
  case (Cons p orders)
  obtain c s where p: "p = (c, s)" by (cases p)
  have al: "alias_of (p # orders) a c' \<longleftrightarrow> (c' = c \<and> a \<in> set (aliases_of s)) \<or> alias_of orders a c'" for a c'
    by (auto simp: alias_of_def p)
  have ok: "state_ok env s" "c \<in> set (aliases_of s)" using Cons.prems(1) by (auto simp: p)
  have "\<forall>a \<in> set (aliases_of s). map_of e a \<in> {None, Some c}" using Cons.prems(3) al by blast
  then obtain e1 where e1: "rfold (expect_alias c) e (aliases_of s) = Inr e1"
    "map_of e1 = (\<lambda>a. if a \<in> set (aliases_of s) then Some c else map_of e a)" using rfold_expect by blast
  have step: "check_order env e p = Inr e1" using ok e1(1) by (simp add: check_order_def p state_ok_def)
  have "\<exists>e'. rfold (check_order env) e1 orders = Inr e' \<and>
    (\<forall>a c. map_of e' a = Some c \<longleftrightarrow> alias_of orders a c \<or> map_of e1 a = Some c)"
  proof (rule Cons.IH)
    show "map_of e1 a \<in> {None, Some c'}" if "alias_of orders a c'" for a c'
      using that Cons.prems(2) [of a c' c] Cons.prems(3) [of a c'] al by (auto simp: e1(2))
  qed (use Cons.prems al in \<open>auto simp: p\<close>)
  then obtain e' where e': "rfold (check_order env) e1 orders = Inr e'"
    "\<forall>a c. map_of e' a = Some c \<longleftrightarrow> alias_of orders a c \<or> map_of e1 a = Some c" by blast
  have "map_of e' a = Some c' \<longleftrightarrow> alias_of (p # orders) a c' \<or> map_of e a = Some c'" for a c'
    using e'(2) e1(2) Cons.prems(3) [of a c] by (auto simp: al split: if_splits)
  then show ?case using step e'(1) by simp
qed

lemma order_document_wf:
  assumes "order_doc_wf env d"
  shows "order_document env (Some d) = Inr d"
proof -
  have "\<exists>e'. rfold (check_order env) [] (od_orders d) = Inr e' \<and>
    (\<forall>a c. map_of e' a = Some c \<longleftrightarrow> alias_of (od_orders d) a c \<or> map_of [] a = Some c)"
    using assms by (intro rfold_check) (auto simp: order_doc_wf_def, metis option.inject)
  then obtain e where e: "rfold (check_order env) [] (od_orders d) = Inr e"
    "\<forall>a c. map_of e a = Some c \<longleftrightarrow> alias_of (od_orders d) a c" by auto
  then have "map_of (od_aliases d) = map_of e"
    using assms by (intro ext) (metis option.exhaust order_doc_wf_def)
  with e(1) assms show ?thesis by (simp add: order_document_def order_doc_wf_def dict_eq_iff)
qed

section \<open>Merging into a document\<close>

lemma rfold_bind:
  assumes "rfold (bind_alias c) e as = Inr e'" "c \<noteq> []" "\<And>a. map_of e a \<noteq> Some []"
  shows "map_of e' = (\<lambda>a. if a \<in> set as then Some c else map_of e a)"
    "\<forall>a \<in> set as. map_of e a \<in> {None, Some c}"
proof -
  have "map_of e' = (\<lambda>a. if a \<in> set as then Some c else map_of e a) \<and> (\<forall>a \<in> set as. map_of e a \<in> {None, Some c})"
    using assms(1,3)
  proof (induction as arbitrary: e)
    case (Cons a as)
    from Cons.prems(1) obtain e1 where e1: "bind_alias c e a = Inr e1" "rfold (bind_alias c) e1 as = Inr e'"
      by (auto simp: res_simps)
    from e1(1) Cons.prems(2) have b: "e1 = AList.update a c e" "map_of e a \<in> {None, Some c}"
      by (auto simp: bind_alias_def split: option.splits list.splits if_splits)
    have f: "rfold (bind_alias c) (AList.update a c e) as = Inr e'" using e1(2) by (simp only: b(1))
    have "map_of (AList.update a c e) x \<noteq> Some []" for x using Cons.prems(2) assms(2) by (simp add: update_conv')
    from Cons.IH [OF f this] b(2) show ?case by (auto simp: update_conv' fun_eq_iff split: if_splits)
  qed simp
  then show "map_of e' = (\<lambda>a. if a \<in> set as then Some c else map_of e a)"
    "\<forall>a \<in> set as. map_of e a \<in> {None, Some c}" by simp_all
qed

lemma order_doc_wf_stored:
  assumes "order_doc_wf env d" "map_of (od_orders d) c = Some old"
  shows "state_ok env old" "c \<in> set (aliases_of old)" "alias_of (od_orders d) a c \<longleftrightarrow> a \<in> set (aliases_of old)"
proof -
  have m: "(c, old) \<in> set (od_orders d)" using assms(2) by (rule map_of_SomeD)
  then show "state_ok env old" "c \<in> set (aliases_of old)" using assms(1) by (auto simp: order_doc_wf_def)
  have "s = old" if "(c, s) \<in> set (od_orders d)" for s
    using eq_key_imp_eq_value [OF _ that m] assms(1) by (simp add: order_doc_wf_def)
  then show "alias_of (od_orders d) a c \<longleftrightarrow> a \<in> set (aliases_of old)"
    using m unfolding alias_of_def by blast
qed

text \<open>Storing a merged order under its key and binding its aliases keeps the document well formed.\<close>

lemma order_doc_wf_update:
  assumes wf: "order_doc_wf env d" and ok: "state_ok env s" "c \<in> set (aliases_of s)"
    and keep: "\<And>a. alias_of (od_orders d) a c \<Longrightarrow> a \<in> set (aliases_of s)"
    and bind: "rfold (bind_alias c) (od_aliases d) (aliases_of s) = Inr aliases"
  shows "order_doc_wf env (d\<lparr>od_orders := AList.update c s (od_orders d), od_aliases := aliases\<rparr>)"
proof -
  have dist: "distinct (map fst (od_orders d))" using wf by (simp add: order_doc_wf_def)
  have c: "c \<noteq> []" using ok(2) by (rule aliases_of_not_Nil)
  have "map_of (od_aliases d) a \<noteq> Some []" for a
    using wf by (force simp: order_doc_wf_def alias_of_def dest: aliases_of_not_Nil)
  note m = rfold_bind [OF bind c this]
  have set: "(c', s') \<in> set (AList.update c s (od_orders d)) \<longleftrightarrow>
      (c' = c \<and> s' = s) \<or> (c' \<noteq> c \<and> (c', s') \<in> set (od_orders d))" for c' s'
    using dist by (metis map_of_eq_Some_iff distinct_update update_conv' fun_upd_apply option.inject)
  have al: "alias_of (AList.update c s (od_orders d)) a c' \<longleftrightarrow>
      (c' = c \<and> a \<in> set (aliases_of s)) \<or> (c' \<noteq> c \<and> alias_of (od_orders d) a c')" for a c'
    unfolding alias_of_def set by blast
  have old: "map_of (od_aliases d) a = Some c' \<longleftrightarrow> alias_of (od_orders d) a c'" for a c'
    using wf by (simp add: order_doc_wf_def)
  have "map_of aliases a = Some c' \<longleftrightarrow> alias_of (AList.update c s (od_orders d)) a c'" for a c'
    using m(2) keep [of a] old [of a c'] by (auto simp: m(1) al)
  moreover have "\<forall>(c', s') \<in> set (AList.update c s (od_orders d)). state_ok env s' \<and> c' \<in> set (aliases_of s')"
    using wf ok unfolding order_doc_wf_def by (auto simp: set)
  ultimately show ?thesis using wf dist by (simp add: order_doc_wf_def distinct_update)
qed

definition alias_candidates :: "order_doc \<Rightarrow> order_state \<Rightarrow> string list" where
  "alias_candidates d s = remdups (List.map_filter (map_of (od_aliases d)) (aliases_of s))"

lemma merge_into_document_Inr:
  assumes "merge_into_document d s = Inr (d', b, c)"
  obtains existing t aliases where
    "c = (case alias_candidates d s of c # _ \<Rightarrow> c
         | [] \<Rightarrow> or_text (link_alias (os_order_link_id s)) (order_alias (os_order_id s)))"
    "c \<noteq> []"
    "(case map_of (od_orders d) c of None \<Rightarrow> Inr None
         | Some raw \<Rightarrow> rbind (state_from_mapping raw) (\<lambda>s. Inr (Some s))) = Inr existing"
    "merge existing s = Inr (b, t)"
    "rfold (bind_alias c) (od_aliases d) (aliases_of t) = Inr aliases"
    "d' = d\<lparr>od_orders := AList.update c t (od_orders d), od_aliases := aliases\<rparr>"
  using assms unfolding merge_into_document_def Let_def alias_candidates_def [symmetric]
  by (auto simp only: res_simps split_paired_Ex prod.inject prod.case)

lemma merge_into_document_wf:
  assumes "order_doc_wf env d" "state_ok env s" "merge_into_document d s = Inr (d', b, c)"
  shows "order_doc_wf env d'"
proof -
  have cand: "x \<in> set (alias_candidates d s) \<longleftrightarrow> (\<exists>a \<in> set (aliases_of s). alias_of (od_orders d) a x)" for x
  proof -
    have "x \<in> set (List.map_filter f xs) \<longleftrightarrow> (\<exists>a \<in> set xs. f a = Some x)" for f :: "string \<Rightarrow> string option" and xs
      by (induction xs) (auto simp: List.map_filter_simps split: option.splits)
    then show ?thesis using assms(1) by (simp add: alias_candidates_def order_doc_wf_def)
  qed
  from assms(3) obtain existing t aliases where
    c: "c = (case alias_candidates d s of c # _ \<Rightarrow> c
         | [] \<Rightarrow> or_text (link_alias (os_order_link_id s)) (order_alias (os_order_id s)))"
    and cn: "c \<noteq> []"
    and ex: "(case map_of (od_orders d) c of None \<Rightarrow> Inr None
         | Some raw \<Rightarrow> rbind (state_from_mapping raw) (\<lambda>s. Inr (Some s))) = Inr existing"
    and m: "merge existing s = Inr (b, t)"
    and bind: "rfold (bind_alias c) (od_aliases d) (aliases_of t) = Inr aliases"
    and d': "d' = d\<lparr>od_orders := AList.update c t (od_orders d), od_aliases := aliases\<rparr>"
    by (rule merge_into_document_Inr)
  show ?thesis
  proof (cases "map_of (od_orders d) c")
    case None
    have "alias_candidates d s = []"
    proof (cases "alias_candidates d s")
      case (Cons x xs)
      with c cand [of x] have "\<exists>a. alias_of (od_orders d) a c" by auto
      with None show ?thesis by (auto simp: alias_of_def map_of_eq_None_iff image_iff)
    qed
    with c cn have "c \<in> set (aliases_of s)" by (auto simp: or_text_def aliases_of_def split: if_splits)
    moreover from None ex m have "t = s" by (auto simp: merge_def)
    moreover have "\<not> alias_of (od_orders d) a c" for a using None by (auto simp: alias_of_def map_of_eq_None_iff image_iff)
    ultimately show ?thesis unfolding d' using assms(1,2) bind by (intro order_doc_wf_update) auto
  next
    case (Some old)
    note st = order_doc_wf_stored [OF assms(1) Some]
    from Some ex st(1) have "existing = Some old" by (auto simp: state_ok_def)
    with m have "state_ok env t" "set (aliases_of old) \<subseteq> set (aliases_of t)"
      using merge_ok [of old s b t env] st(1) assms(2) by blast+
    with st(2,3) show ?thesis unfolding d' using assms(1) bind by (intro order_doc_wf_update) auto
  qed
qed

section \<open>Ingestion\<close>

lemma merge_rows_wf:
  assumes "rfold merge_row (d, acc, dup) states = Inr (d', acc', dup')"
    and "order_doc_wf env d" "\<forall>s \<in> set states. state_ok env s"
  shows "order_doc_wf env d'"
  using assms
proof (induction states arbitrary: d acc dup)
  case (Cons s states)
  from Cons.prems(1) obtain st1 where st1: "merge_row (d, acc, dup) s = Inr st1"
    "rfold merge_row st1 states = Inr (d', acc', dup')" by (auto simp: res_simps)
  obtain d1 acc1 dup1 where st: "st1 = (d1, acc1, dup1)" by (cases st1)
  from st1(1) obtain b c where "merge_into_document d s = Inr (d1, b, c)"
    by (auto simp: merge_row_def st res_simps split: if_splits)
  with Cons.prems have "order_doc_wf env d1" by (auto intro: merge_into_document_wf)
  with Cons.IH st1(2) Cons.prems(3) show ?case by (simp add: st)
qed simp

lemma order_document_empty: "order_doc_wf env \<lparr>od_environment = env, od_orders = [], od_aliases = [],
    od_last_message_creation_ms = m, od_updated_at_ms = u\<rparr>"
  by (simp add: order_doc_wf_def alias_of_def)

lemma order_doc_wf_times:
  "order_doc_wf env (d\<lparr>od_last_message_creation_ms := m, od_updated_at_ms := u\<rparr>) = order_doc_wf env d"
  by (simp add: order_doc_wf_def)

lemma ingest_mutate_wf:
  assumes "ingest_mutate env states creation received v = Inr (d', r)"
    and "\<And>d. v = Some d \<Longrightarrow> order_doc_wf env d" "\<forall>s \<in> set states. state_ok env s"
  shows "order_doc_wf env d'"
proof -
  from assms(1) obtain d d1 acc dup where d: "order_document env v = Inr d"
    and f: "rfold merge_row (d, [], []) states = Inr (d1, acc, dup)"
    and d': "d' = d1\<lparr>od_last_message_creation_ms := max (od_last_message_creation_ms d1) creation, od_updated_at_ms := received\<rparr>"
    by (auto simp: ingest_mutate_def res_simps)
  have "order_doc_wf env d"
  proof (cases v)
    case None
    with d show ?thesis using order_document_empty by (auto simp: order_document_def)
  next
    case (Some w)
    with d order_document_wf [OF assms(2) [OF Some]] assms(2) show ?thesis by simp
  qed
  from merge_rows_wf [OF f this assms(3)] show ?thesis by (simp add: d' order_doc_wf_times)
qed

lemma os_finite_Inr:
  "os_finite v name pos = Inr x \<longleftrightarrow> py_float v = Inr x \<and> isfinite x \<and> (pos \<longrightarrow> \<not> fle x (Fin 0))"
  by (auto simp: os_finite_def res_simps)

lemma os_positive_int_Inr: "os_positive_int v name = Inr i \<longleftrightarrow> py_int v = Inr i \<and> 0 < i"
  by (auto simp: os_positive_int_def res_simps)

lemma upper_upper: "upper (upper t) = upper t"
  by (simp add: upper_def char_upper_idem)

lemma state_from_mapping_iff:
  "state_from_mapping s = Inr t \<longleftrightarrow> t = s \<and> isfinite (os_qty s) \<and> \<not> fle (os_qty s) (Fin 0) \<and>
     isfinite (os_cum_exec_qty s) \<and> isfinite (os_avg_price s) \<and> 0 < os_created_time_ms s \<and>
     0 < os_updated_time_ms s \<and> 0 < os_message_creation_time_ms s \<and> os_status s \<in> set os_allowed \<and>
     os_category s \<in> set os_categories \<and> os_side s \<in> set id_sides \<and> os_symbol s \<noteq> [] \<and>
     isalnum (os_symbol s) \<and> os_symbol s = upper (os_symbol s)"
  unfolding state_from_mapping_def
  by (simp only: res_simps os_finite_Inr os_positive_int_Inr py_float.simps py_int.simps sum.inject) auto

lemma normalize_row_ok:
  assumes "normalize_row raw topic env mid creation received lag skew = Inr s" "0 < creation"
  shows "state_ok env s"
proof -
  from assms(1) obtain row where raw: "raw = PyDict row" by (cases raw) (simp_all add: normalize_row_def)
  have all: "validate_semantics s = Inr () \<and> os_environment s = env \<and> isfinite (os_qty s) \<and>
    \<not> fle (os_qty s) (Fin 0) \<and> isfinite (os_cum_exec_qty s) \<and> isfinite (os_avg_price s) \<and>
    0 < os_created_time_ms s \<and> 0 < os_updated_time_ms s \<and> os_message_creation_time_ms s = creation \<and>
    os_status s \<in> set os_allowed \<and> os_category s \<in> set os_categories \<and> os_side s \<in> set id_sides \<and>
    os_symbol s \<noteq> [] \<and> isalnum (os_symbol s) \<and> (\<exists>t. os_symbol s = upper t) \<and>
    (os_order_id s \<noteq> [] \<or> os_order_link_id s \<noteq> [])"
    using assms(1) unfolding raw normalize_row_def pyval.case Let_def
    apply (simp only: res_simps os_finite_Inr os_positive_int_Inr sum.inject de_Morgan_conj de_Morgan_disj not_not)
    apply (elim exE conjE)
    apply hypsubst
    apply (simp only: order_state.simps simp_thms)
    apply (intro conjI; (assumption | (simp; fail) | blast))
    done
  then have "os_symbol s = upper (os_symbol s)" by (metis upper_upper)
  with all show ?thesis unfolding state_ok_def state_from_mapping_iff aliases_of_def order_alias_def link_alias_def
    using assms(2) by simp
qed

lemma read_message_ok:
  assumes "read_message st message received_at = Inr (creation, received, states)"
  shows "\<forall>s \<in> set states. state_ok (st_environment st) s"
proof -
  from assms obtain m where message: "message = PyDict m" by (cases message) (simp_all add: read_message_def)
  obtain r rs where data: "py_get m ''data'' PyNone = PyList (r # rs)"
    using assms unfolding message read_message_def
    by (cases "py_get m ''data'' PyNone") (auto simp: res_simps Let_def neq_Nil_conv split: list.splits)
  obtain topic mid where pos: "0 < creation" and rows:
    "rmapM (\<lambda>row. normalize_row row topic (st_environment st) mid creation received
       (st_max_message_lag_ms st) (st_max_future_skew_ms st)) (r # rs) = Inr states"
    using assms unfolding message read_message_def pyval.case data list.case Let_def
    by (auto simp only: res_simps os_positive_int_Inr sum.inject prod.inject)
  from rmapM_Inr_set [OF rows] show ?thesis using normalize_row_ok [OF _ pos] by blast
qed

section \<open>Reachable stores\<close>

text \<open>The messages of one store, in any order and number; each is stored, refused or both.\<close>

inductive orders_reachable :: "order_store \<Rightarrow> order_doc kv \<Rightarrow> bool" for st where
  start: "orders_reachable st (\<lambda>_. None)"
| ingest: "orders_reachable st db \<Longrightarrow> ingest_message st message received clock [] db = (res, db') \<Longrightarrow>
    orders_reachable st db'"

definition orders_wf :: "order_store \<Rightarrow> order_doc kv \<Rightarrow> bool" where
  "orders_wf st db \<longleftrightarrow> (\<forall>row. db (os_namespace, st_environment st) = Some row \<longrightarrow>
     order_doc_wf (st_environment st) (kv_doc row))"

lemma os_cell: "st_environment st \<in> {''testnet'', ''mainnet''} \<Longrightarrow> clean_cell os_namespace (st_environment st)"
  by (auto simp: os_namespace_def db_identifier_def strip_def is_space_def ccode_def)

lemma ingest_message_cases:
  assumes "st_environment st \<in> {''testnet'', ''mainnet''}" "ingest_message st message received clock [] db = (res, db')"
  obtains (refused) e where "res = Inl e" "db' = db"
  | (stored) creation recv states d acc dup r where "read_message st message received = Inr (creation, recv, states)"
      "ingest_mutate (st_environment st) states creation recv
         (map_option kv_doc (db (os_namespace, st_environment st))) = Inr (d, acc, dup)"
      "db' = db((os_namespace, st_environment st) \<mapsto> \<lparr>kv_doc = d,
         kv_version = kv_current (db (os_namespace, st_environment st)) + 1, kv_updated_at_ms = clock\<rparr>)"
      "res = Inr r" "ig_accepted r = acc" "ig_duplicates r = dup"
proof (cases "read_message st message received")
  case (Inl e)
  with assms(2) refused show ?thesis by (auto simp: ingest_message_def)
next
  case (Inr p)
  obtain creation recv states where p: "p = (creation, recv, states)" by (cases p)
  note alone = optimistic_update_alone [OF os_cell [OF assms(1)], of 5, simplified]
  let ?m = "ingest_mutate (st_environment st) states creation recv (map_option kv_doc (db (os_namespace, st_environment st)))"
  show ?thesis
  proof (cases ?m)
    case (Inl e)
    with assms(2) refused show ?thesis unfolding ingest_message_def Inr p sum.case prod.case alone by auto
  next
    case m: (Inr q)
    obtain d acc dup where q: "q = (d, acc, dup)" by (cases q)
    show ?thesis
      using assms(2) stored [OF Inr [unfolded p] m [unfolded q]]
      unfolding ingest_message_def Inr p sum.case prod.case alone m q by auto
  qed
qed

lemma ingest_message_wf:
  assumes "st_environment st \<in> {''testnet'', ''mainnet''}" "orders_wf st db"
    and "ingest_message st message received clock [] db = (res, db')"
  shows "orders_wf st db'"
  using assms(1,3)
proof (cases rule: ingest_message_cases)
  case (refused e)
  with assms(2) show ?thesis by simp
next
  case (stored creation recv states d acc dup r)
  have "order_doc_wf (st_environment st) d"
  proof (rule ingest_mutate_wf [OF stored(2)])
    show "order_doc_wf (st_environment st) x"
      if "map_option kv_doc (db (os_namespace, st_environment st)) = Some x" for x
      using that assms(2) by (auto simp: orders_wf_def)
  qed (rule read_message_ok [OF stored(1)])
  then show ?thesis by (auto simp: orders_wf_def stored(3))
qed

lemma orders_reachable_wf:
  assumes "orders_reachable st db" "st_environment st \<in> {''testnet'', ''mainnet''}"
  shows "orders_wf st db"
  using assms(1)
proof (induction rule: orders_reachable.induct)
  case start
  show ?case by (simp add: orders_wf_def)
next
  case (ingest db message received clock res db')
  from ingest_message_wf [OF assms(2) ingest.IH ingest(2)] show ?case .
qed

lemma order_snapshot_wf:
  assumes "orders_wf st db" "st_environment st \<in> {''testnet'', ''mainnet''}"
  shows "\<exists>snap. order_snapshot_of st db = Inr snap \<and>
    set (sn_orders snap) = (case db (os_namespace, st_environment st) of None \<Rightarrow> {}
                            | Some row \<Rightarrow> snd ` set (od_orders (kv_doc row)))"
proof (cases "db (os_namespace, st_environment st)")
  case None
  then show ?thesis by (simp add: order_snapshot_of_def get_json_clean os_cell [OF assms(2)] order_document_def Let_def)
next
  case (Some row)
  with assms(1) have wf: "order_doc_wf (st_environment st) (kv_doc row)" by (simp add: orders_wf_def)
  then have "\<forall>s \<in> set (map snd (od_orders (kv_doc row))). state_from_mapping s = Inr s"
    by (auto simp: order_doc_wf_def state_ok_def)
  then have "rmapM state_from_mapping (map snd (od_orders (kv_doc row))) = Inr (map (\<lambda>s. s) (map snd (od_orders (kv_doc row))))"
    by (intro rmapM_Inr_all) blast
  then show ?thesis
    by (simp add: Some order_snapshot_of_def get_json_clean os_cell [OF assms(2)] order_document_wf [OF wf] Let_def)
qed

section \<open>Orders move forward\<close>

lemma merge_into_document_advances:
  assumes "merge_into_document d s = Inr (d', b, c)" "map_of (od_orders d) k = Some old"
  shows "\<exists>t. map_of (od_orders d') k = Some t \<and> order_advances old t"
proof -
  from assms(1) obtain existing t where
    ex: "(case map_of (od_orders d) c of None \<Rightarrow> Inr None
         | Some raw \<Rightarrow> rbind (state_from_mapping raw) (\<lambda>s. Inr (Some s))) = Inr existing"
    and m: "merge existing s = Inr (b, t)" and d': "od_orders d' = AList.update c t (od_orders d)"
    by (rule merge_into_document_Inr) simp
  show ?thesis
  proof (cases "k = c")
    case True
    with ex assms(2) have "existing = Some old" by (auto simp: res_simps state_from_mapping_iff)
    with m True show ?thesis by (auto simp: d' update_conv' dest: merge_advances)
  next
    case False
    with assms(2) show ?thesis by (simp add: d' update_conv')
  qed
qed

lemma merge_rows_advances:
  assumes "rfold merge_row (d, acc, dup) states = Inr (d', acc', dup')" "map_of (od_orders d) k = Some old"
  shows "\<exists>t. map_of (od_orders d') k = Some t \<and> order_advances old t"
  using assms
proof (induction states arbitrary: d acc dup old)
  case Nil
  then show ?case by auto
next
  case (Cons s states)
  from Cons.prems(1) obtain st1 where st1: "merge_row (d, acc, dup) s = Inr st1"
    "rfold merge_row st1 states = Inr (d', acc', dup')" by (auto simp: res_simps)
  obtain d1 acc1 dup1 where st: "st1 = (d1, acc1, dup1)" by (cases st1)
  from st1(1) obtain b c where "merge_into_document d s = Inr (d1, b, c)"
    by (auto simp: merge_row_def st res_simps split: if_splits)
  from merge_into_document_advances [OF this Cons.prems(2)] obtain t where
    "map_of (od_orders d1) k = Some t" "order_advances old t" by blast
  with Cons.IH st1(2) show ?case unfolding st by (meson order_advances_trans)
qed

lemma ingest_message_advances:
  assumes "st_environment st \<in> {''testnet'', ''mainnet''}" "ingest_message st message received clock [] db = (res, db')"
    and "stored_order st db c = Some old"
  shows "\<exists>t. stored_order st db' c = Some t \<and> order_advances old t"
  using assms(1,2)
proof (cases rule: ingest_message_cases)
  case (refused e)
  with assms(3) show ?thesis by auto
next
  case (stored creation recv states d acc dup r)
  from assms(3) obtain row where row: "db (os_namespace, st_environment st) = Some row"
    "map_of (od_orders (kv_doc row)) c = Some old" by (auto simp: stored_order_def split: option.splits)
  from stored(2) row(1) obtain d0 where f: "rfold merge_row (kv_doc row, [], []) states = Inr (d0, acc, dup)"
    "od_orders d = od_orders d0"
    by (auto simp: ingest_mutate_def order_document_def res_simps split: if_splits)
  from merge_rows_advances [OF f(1) row(2)] f(2) show ?thesis by (simp add: stored_order_def stored(3))
qed

section \<open>Properties\<close>

definition sample_store :: order_store where
  "sample_store = \<lparr>st_environment = ''testnet'', st_max_message_lag_ms = 30000, st_max_future_skew_ms = 1000\<rparr>"

definition sample_message :: "string \<Rightarrow> string \<Rightarrow> string \<Rightarrow> int \<Rightarrow> pyval" where
  "sample_message status executed price now = PyDict [(''topic'', PyStr ''order''), (''creationTime'', PyInt now),
     (''data'', PyList [PyDict [(''orderId'', PyStr ''o1''), (''orderLinkId'', PyStr ''sai_1''),
        (''category'', PyStr ''spot''), (''symbol'', PyStr ''BTCUSDT''), (''side'', PyStr ''Buy''),
        (''orderStatus'', PyStr status), (''qty'', PyStr ''2''), (''cumExecQty'', PyStr executed),
        (''avgPrice'', PyStr price), (''createdTime'', PyInt 1000), (''updatedTime'', PyInt now)]])]"

definition sample_orders :: "order_doc kv" where
  "sample_orders = snd (ingest_message sample_store (sample_message ''New'' ''0'' ''0'' 2000) 2000 2001 [] (\<lambda>_. None))"

lemma sample_orders_reachable: "orders_reachable sample_store sample_orders"
  unfolding sample_orders_def
  by (rule orders_reachable.ingest [OF orders_reachable.start, of _ _ _ _ "fst (ingest_message sample_store
      (sample_message ''New'' ''0'' ''0'' 2000) 2000 2001 [] (\<lambda>_. None))"]) simp

lemma sample_order_stored: "map_option os_status (stored_order sample_store sample_orders ''link:sai_1'') = Some ''New''"
  by code_simp

text \<open>
  C29. Private orders only move forward: whatever message is ingested, an order that is stored stays
  stored under its key with the same environment, category, symbol, side and creation time; its
  update time never decreases, an order id or link it has is never replaced, and a terminal status
  never changes.
\<close>

theorem private_orders_only_advance:
  assumes "st_environment st \<in> {''testnet'', ''mainnet''}"
    and "ingest_message st message received clock [] db = (res, db')" "stored_order st db c = Some old"
  shows "\<exists>s. stored_order st db' c = Some s \<and> os_environment s = os_environment old \<and>
    os_category s = os_category old \<and> os_symbol s = os_symbol old \<and> os_side s = os_side old \<and>
    os_created_time_ms s = os_created_time_ms old \<and> os_updated_time_ms old \<le> os_updated_time_ms s \<and>
    (os_order_id old \<noteq> [] \<longrightarrow> os_order_id s = os_order_id old) \<and>
    (os_order_link_id old \<noteq> [] \<longrightarrow> os_order_link_id s = os_order_link_id old) \<and>
    (os_status old \<in> set os_terminal \<longrightarrow> os_status s = os_status old)"
  using ingest_message_advances [OF assms] unfolding order_advances_def by blast

theorem private_orders_only_advance_witness:
  "\<exists>s. stored_order sample_store
     (snd (ingest_message sample_store (sample_message ''Filled'' ''2'' ''10'' 3000) 3000 3001 [] sample_orders)) ''link:sai_1'' = Some s"
proof -
  obtain old where "stored_order sample_store sample_orders ''link:sai_1'' = Some old"
    using sample_order_stored by (cases "stored_order sample_store sample_orders ''link:sai_1''") auto
  from private_orders_only_advance [OF _ _ this,
      of "sample_message ''Filled'' ''2'' ''10'' 3000" 3000 3001
        "fst (ingest_message sample_store (sample_message ''Filled'' ''2'' ''10'' 3000) 3000 3001 [] sample_orders)"
        "snd (ingest_message sample_store (sample_message ''Filled'' ''2'' ''10'' 3000) 3000 3001 [] sample_orders)"]
  show ?thesis by (auto simp: sample_store_def)
qed

text \<open>
  The stored order document always reads back: after any sequence of messages, \<open>snapshot\<close>
  accepts the document (aliases, identifiers, enumerations and execution semantics are checked again)
  and returns exactly the stored orders.
\<close>

theorem private_orders_stay_readable:
  assumes "orders_reachable st db" "st_environment st \<in> {''testnet'', ''mainnet''}"
  shows "\<exists>snap. order_snapshot_of st db = Inr snap \<and>
    set (sn_orders snap) = (case db (os_namespace, st_environment st) of None \<Rightarrow> {}
                            | Some row \<Rightarrow> snd ` set (od_orders (kv_doc row)))"
  using order_snapshot_wf [OF orders_reachable_wf [OF assms] assms(2)] .

theorem private_orders_stay_readable_witness: "\<exists>snap. order_snapshot_of sample_store sample_orders = Inr snap"
  using private_orders_stay_readable [OF sample_orders_reachable] by (auto simp: sample_store_def)

end
