(* ===== verification/Spec2Isabelle.thy ===== *)
theory Spec2Isabelle
  imports Risk_Engine Canonical_Risk Paper_Runtime Order_Preview Learning_Evidence Backtest_Runs Paper_Ledger Execution_Safety Submission_Contract Execution_State Execution_Contract_V2 Startup_Reconciliation Registry_Theorems Private_Orders
begin

text \<open>
  \<^bold>\<open>SharipovAI: the execution path, the paper account and the risk gates.\<close>

  SharipovAI is an autonomous trading system written in Python. A council of agents produces evidence,
  a controller turns it into a direction, gates and risk limits may veto it, and a single adapter may
  submit an order to the test network of an exchange. All durable state lives in one SQL table of
  versioned JSON rows. This development models the parts that decide whether an order may be sent,
  that it is sent at most once, and what is known about it afterwards; and the simulated account with
  its costs, which runs on the same table, and the simulated runs a strategy is judged by. File names below are relative to \<open>src/\<close>.

  \<^bold>\<open>How the parts interact.\<close> \<open>general_controller_v2\<close> decides a direction from recommendations and gate
  verdicts. A \<open>trading_candidate\<close> is the evidence packet of one trade; its validation forces BLOCK.
  \<open>execution_contract\<close> turns an allowed candidate into a short-lived request and derives the order
  intent, whose digest is the \<open>orderLinkId\<close>. \<open>bybit_execution\<close> checks the request, the kill switch and
  the registry, reserves the intent, marks it submitted, posts it, and binds the order id of the
  response or, when the outcome is unknown, trips the kill switch. \<open>bybit_order_identity\<close> stores the
  reservations, \<open>execution_idempotency\<close> is its client for requests, \<open>execution_kill_switch\<close> the durable
  latch. The private stream reports orders (\<open>bybit_order_state\<close>) and fills (\<open>bybit_execution_state\<close>);
  its health is judged by \<open>private_ws_gate\<close>. After a restart \<open>startup_reconciliation\<close> compares
  registry, journal, orders and stream, and latches the kill switch unless everything agrees.
  \<open>trading_core/backtest\<close> replays market events through a strategy: \<open>capital_allocation\<close> sizes each
  entry, \<open>trading_core/costs\<close> prices each fill, and the walk-forward evaluators run it on test windows
  that follow their training windows. \<open>canonical_service\<close> is the risk policy of every decision path;
  \<open>order_preview\<close> shows what an order would cost and risk under the verified rules of its instrument,
  without sending it. \<open>canonical_runtime\<close> is the gateway of paper entries: the payloads of the council and
  the stored evidence of risk and portfolio decide a direction, the candidate of that direction is
  validated and stored, and the authorization is consumed once. A settled position becomes a review (\<open>settlement_posttrade_v2\<close>), a review may
  implicate roles, and what a role learns is a lesson that passes replay and shadow gates, a bounded
  reputation and a calibration; none of these has execution authority.

  \<^bold>\<open>Theories.\<close>

  \<^item> \<open>Py_Base\<close>, \<open>Py_Float\<close>, \<open>Py_Decimal\<close>, \<open>Py_Value\<close>, \<open>Json_Text\<close>, \<open>Sha256\<close>: the prelude. What the
    modules use of Python: exceptions as values of \<open>py_error\<close> in the sum type \<open>'a res\<close>, ASCII strings
    with \<open>strip\<close>, \<open>upper\<close>, number texts and dictionaries as association lists in insertion order; floats
    as binary64 with round-half-even (\<open>rnd64\<close>, its monotonicity and nearness lemmas), \<open>round\<close> and the
    compensated \<open>sum\<close>; decimals of the default context with \<open>normalize\<close> and \<open>format\<close>; dynamically
    typed JSON values; the text of \<open>json.dumps\<close> and its injectivity; SHA-256, whose constants are
    computed from the roots of primes. The locale \<open>hex_digest\<close> is the law the clients of the digest
    use, interpreted on the concrete \<open>sha256_hex\<close>.
  \<^item> \<open>Versioned_Store\<close>: \<open>storage/project_database.py\<close> (\<open>put_json\<close>, \<open>get_json\<close>,
    \<open>put_immutable_json_batch\<close>) and the retry loop \<open>optimistic_update\<close> of its clients. The locales
    \<open>versioned_cell\<close> and \<open>live_cell\<close> state what a client relies on; they are interpreted on the table
    and, in \<open>Kill_Switch\<close>, on its row. A loop that returns is one atomic update (C16), and it
    returns when fewer writes interfere than it has attempts (\<open>optimistic_update_returns\<close>).
  \<^item> \<open>Kill_Switch\<close>: \<open>exchange_connector/execution_kill_switch.py\<close> (C12 to C14).
  \<^item> \<open>Order_Identity\<close> and \<open>Registry_Theorems\<close>: \<open>exchange_connector/bybit_order_identity.py\<close>; intents,
    fingerprints, the registry document and its validation (C19, C21, C22).
  \<^item> \<open>Trading_Candidate\<close>: \<open>trading_candidate.py\<close> (C25).
  \<^item> \<open>Execution_Contract\<close>, \<open>Execution_Idempotency\<close>: \<open>exchange_connector/execution_contract.py\<close> and
    \<open>execution_idempotency.py\<close> (C27).
  \<^item> \<open>Bybit_Execution\<close>: \<open>exchange_connector/bybit_execution.py\<close>, \<open>bybit_hosts.py\<close>, \<open>bybit_credentials.py\<close>;
    the whole client from its construction to the settlement of a response (C4, C5, C8, C28).
  \<^item> \<open>Execution_Safety\<close>: the concurrent system. Processes run the stages of \<open>execute\<close> as a step relation
    over shared tables, with stops after every stage and other writers between them (C1, C2).
    \<open>Submission_Contract\<close>: what one call promises, as a relation on what its caller can see (the latch,
    the orders by link, the links sent), the reply of the exchange and the answer; for a request that
    is ready it fixes the outcome (\<open>submission_unique\<close>), and \<open>execute\<close> meets it on every branch (C3).
  \<^item> \<open>Order_State\<close> and \<open>Private_Orders\<close>: \<open>exchange_connector/bybit_order_state.py\<close> (C29).
  \<^item> \<open>Execution_State\<close>: \<open>exchange_connector/bybit_execution_state.py\<close>, the write-once ledger of fills.
  \<^item> \<open>Private_Ws_Gate\<close>, \<open>Execution_Journal\<close>, \<open>Startup_Reconciliation\<close>: \<open>exchange_connector/private_ws_gate.py\<close>,
    \<open>autonomous_trading/execution_journal.py\<close> with the listing of \<open>storage/collections.py\<close>, and
    \<open>autonomous_trading/startup_reconciliation.py\<close> (C9, C10).
  \<^item> \<open>General_Controller\<close>, \<open>Execution_Contract_V2\<close>: \<open>autonomous_trading/general_controller_v2.py\<close> (C31)
    and \<open>autonomous_trading/execution_contract_v2.py\<close>.
  \<^item> \<open>Risk_Engine\<close>: \<open>risk_engine/risk_engine.py\<close>, \<open>models.py\<close>, \<open>paper_reentry.py\<close> (C33, C34).
  \<^item> \<open>Trading_Costs\<close>: \<open>trading_core/models.py\<close> (market events), \<open>trading_core/costs.py\<close> (C35).
  \<^item> \<open>Paper_Broker\<close>, \<open>Paper_Accounts\<close> and \<open>Paper_Ledger\<close>: \<open>trading_core/paper_broker.py\<close> (C36, C38, C39);
    the stored fills are the last \<open>maximum_fills\<close> of a history of operations, and a fill id is
    recognised as long as its fill is one of them (C37).
  \<^item> \<open>Capital_Allocation\<close>: \<open>capital_allocation.py\<close>; the policy, the plan of one position and its limits
    (C40), the exposure summary.
  \<^item> \<open>Backtest\<close>, \<open>Walk_Windows\<close>, \<open>Walk_Forward\<close>: \<open>trading_core/backtest.py\<close> with the records of \<open>models.py\<close>
    and \<open>trading_core/purged_walk_forward.py\<close>; the window generator ends and never leaks (C23).
    \<open>Backtest_Runs\<close>: a run never looks ahead (C15) and trades in round trips (C32).
  \<^item> \<open>Canonical_Risk\<close>: \<open>risk_engine/canonical_service.py\<close>; what is allowed rests on what the payload
    states (C6).
  \<^item> \<open>Controller_Runtime\<close>: \<open>meta_ai_adapter.py\<close> (\<open>opinions_from_payloads\<close>),
    \<open>autonomous_trading/runtime_decision_v2.py\<close> and \<open>runtime_gate_provider_v2.py\<close>. \<open>Paper_Runtime\<close>:
    \<open>decision_quality/candidate_bridge.py\<close> and \<open>autonomous_trading/canonical_runtime.py\<close>; an authorized
    entry rests on stored evidence (C11), is used once (C20), and recovery is the consumption (C30).
  \<^item> \<open>Decimal_Arithmetic\<close>: sums, quotients and rounding of \<open>decimal.Decimal\<close>, part of the prelude.
    \<open>Instrument_Rules\<close> and \<open>Order_Preview\<close>: \<open>exchange_connector/bybit_instrument_rules.py\<close> and
    \<open>order_preview.py\<close> (C7).
  \<^item> \<open>Settlement_Review\<close>: \<open>autonomous_trading/settlement_posttrade_v2.py\<close>. \<open>Learning_Lifecycle\<close>:
    \<open>role_aware_learning_v2.py\<close>, \<open>learning_observation_v2.py\<close> (C17). \<open>Learning_Evidence\<close>:
    \<open>learning_reputation_v2.py\<close> (C26), \<open>learning_calibration_v2.py\<close> (C24) and
    \<open>learning_advisory_evidence_v2.py\<close>.

  This theory holds the properties that span components, with the run on which they are exercised.

  \<^bold>\<open>Conventions.\<close> Every raise of the source is a value of \<open>py_error\<close> with the message of the source.
  A document of the store is typed, and a component whose documents can hold a float that is not
  finite refuses to store it, as \<open>json.dumps\<close> does; the \<open>isinstance\<close> checks that only a foreign writer could fail have
  no counterpart, while messages of the exchange, journal entries and environment texts are untyped
  and checked as in the source. Stored JSON lists the keys of an object in sorted order. Negative
  zero is zero. Clock readings, the environment and the outcome of a backup file are arguments. Code
  that is not part of the repository is a parameter: the digest \<open>H\<close> with the law of \<open>hex_digest\<close>, the
  HMAC \<open>M\<close>, and the transport \<open>post\<close>, which either raises or returns a JSON value. A trading strategy and
  the factory that builds it are arguments of the simulated run, as in the source: the strategy is a
  function from its own state, the event and the account to the next state and a signal. Writers that
  interfere between a read and its write are a list of functions on the table (\<open>others\<close>), restricted
  to the operations of the modelled components where a property needs it (\<open>well_behaved\<close>,
  \<open>paper_writer\<close>). Strings are ASCII; a bracketed host in a base URL ends in the error that an
  unapproved host gives. The square root is correctly rounded; its integer root takes 56 steps, one
  per bit of a scaled significand. Messages for people that are not ASCII are represented by the codes they come
  with. The outcome of a public GET is an argument: it raised, or it returned a JSON value.

  \<^bold>\<open>Loops and bounds.\<close> The retry loops of the source have three or five attempts and are recursion on
  that number; C13 and \<open>optimistic_update_returns\<close> state when they return. The window generator has one step of fuel per
  event, which C23 proves to be enough. Every other loop is a fold over its input, so that all
  definitions are total. The stages of \<open>execute\<close> are atomic in the
  step relation; C16 is the reason why a stage that is a retry loop may be taken as one step.

  \<^bold>\<open>Not modelled.\<close> SQL and connections, the event, metric and lease tables; the import of the legacy
  journal file; WebSocket and HTTP workers, which only move messages into the modelled handlers;
  market-data readers, dashboards, bots, language-model calls and deployment, whose behaviour is that of
  external services; the older Decision Quality service, the settlement of a paper exit, the runtime loops, campaigns, shadow runs, alpha research and the portfolio engine,
  which use the modelled parts and are not on the path of an order.
\<close>

section \<open>A concrete run\<close>

text \<open>The inputs on which the properties below are exercised.\<close>

definition demo_digest :: "string \<Rightarrow> string" where
  "demo_digest s = replicate 64 (CHR ''a'')"

definition demo_hmac :: "string \<Rightarrow> string \<Rightarrow> string" where
  "demo_hmac key message = key"

definition demo_link :: string where
  "demo_link = ''sai_'' @ replicate 32 (CHR ''a'')"

definition demo_request :: approved_execution_request where
  "demo_request = \<lparr>rq_candidate_id = ''c1'', rq_candidate_hash = replicate 64 (CHR ''b''),
     rq_symbol = ''BTCUSDT'', rq_category = SPOT, rq_side = SELL, rq_environment = TESTNET,
     rq_quantity = Fin (1 / 2), rq_reference_price = Fin 20, rq_order_link_id = demo_link,
     rq_created_at_ms = 1000, rq_expires_at_ms = 5000, rq_portfolio_snapshot_id = ''p1'',
     rq_cost_snapshot_id = ''k1'', rq_security_approval_id = ''s1'', rq_attempt = 1\<rparr>"

definition demo_client :: execution_client where
  "demo_client = \<lparr>ec_mode = ''sandbox'', ec_base_url = ''https://api-testnet.bybit.com'',
     ec_api_key = ''key'', ec_api_secret = ''secret'', ec_credential_profile = ''testnet_execution'',
     ec_recv_window = ''5000'', ec_max_notional = Fin 25\<rparr>"

definition demo_env :: os_env where
  "demo_env = map_of [(''EXECUTION_KILL_SWITCH'', ''0''), (''TESTNET_EXECUTION_ENABLED'', ''1'')]"

definition demo_world :: exec_world where
  "demo_world = \<lparr>ew_identity = \<lambda>_. None, ew_kill = \<lambda>_. None, ew_wire = []\<rparr>"

definition demo_accept :: "http_request \<Rightarrow> http_outcome" where
  "demo_accept q = HttpJson (PyDict [(''retCode'', PyInt 0), (''result'', PyDict [(''orderId'', PyStr ''o-1'')])])"

definition demo_timeout :: "http_request \<Rightarrow> http_outcome" where
  "demo_timeout q = HttpFailure ''ReadTimeout''"

definition demo_clock :: "nat \<Rightarrow> int" where
  "demo_clock i = 2000"

definition demo_call :: "(http_request \<Rightarrow> http_outcome) \<Rightarrow> execution_result res \<times> exec_world" where
  "demo_call post =
     execute demo_digest demo_hmac post demo_client demo_env demo_request (Some 2000) demo_clock demo_world"

lemma demo_accepts:
  "(case demo_call demo_accept of (r, w) \<Rightarrow>
      (map wire_link (ew_wire w), case r of Inl e \<Rightarrow> None | Inr q \<Rightarrow> er_order_id q)) =
   ([demo_link], Some ''o-1'')"
  by code_simp

lemma demo_times_out:
  "map wire_link (ew_wire (snd (demo_call demo_timeout))) = [demo_link]"
  by code_simp

lemma demo_accept_links: "sent_links (snd (demo_call demo_accept)) = [demo_link]"
  using demo_accepts by (cases "demo_call demo_accept") (simp add: sent_links_def)

lemma demo_accept_result:
  "\<exists>q. fst (demo_call demo_accept) = Inr q \<and> er_order_id q = Some ''o-1''"
  using demo_accepts by (cases "demo_call demo_accept") (auto split: sum.splits)

lemma demo_timeout_links: "sent_links (snd (demo_call demo_timeout)) = [demo_link]"
  using demo_times_out by (simp add: sent_links_def)

lemma demo_wire_changes:
  "ew_wire (snd (demo_call demo_accept)) \<noteq> ew_wire demo_world"
  "ew_wire (snd (demo_call demo_timeout)) \<noteq> ew_wire demo_world"
  using demo_accept_links demo_timeout_links by (auto simp: sent_links_def demo_world_def)

lemma demo_execute:
  "execute demo_digest demo_hmac post demo_client demo_env demo_request (Some 2000) demo_clock demo_world =
     (fst (demo_call post), snd (demo_call post))"
  by (simp add: demo_call_def)

lemma demo_reachable:
  "sys_reachable demo_digest demo_hmac (solo (snd (demo_call demo_accept)) Idle)"
proof (rule sys_reachable_steps [OF execute_steps [OF demo_execute]])
  show "sys_reachable demo_digest demo_hmac (solo demo_world Idle)"
    by (rule sys_reachable.start) (simp_all add: demo_world_def solo_def)
qed

section \<open>Submission\<close>

text \<open>
  C1. At most once: whatever the interleaving of the stages of concurrent \<open>execute\<close> calls, of
  process stops and restarts and of other registry and kill-switch writers, no two POSTs on the
  wire carry the same \<open>orderLinkId\<close>.
\<close>

theorem at_most_once_submission:
  assumes "sys_reachable H M s"
  shows "distinct (sent_links (sy_world s))"
  using sys_reachable_inv [OF assms] by (rule sys_invD)

theorem at_most_once_submission_witness:
  "sent_links (snd (demo_call demo_accept)) = [demo_link] \<and>
   distinct (sent_links (snd (demo_call demo_accept)))"
  using at_most_once_submission [OF demo_reachable] demo_accept_links by simp

text \<open>
  C2. Write-ahead: every \<open>orderLinkId\<close> on the wire has a durable reservation that left the
  \<open>Reserved\<close> status before the POST, and it stays in the registry in every later state.
\<close>

theorem write_ahead_reservation:
  assumes "sys_reachable H M s" "q \<in> set (ew_wire (sy_world s))"
  shows "\<exists>r. lookup_reservation ''testnet'' (ew_identity (sy_world s)) (wire_link q) = Some r \<and>
             rs_status r \<noteq> ''Reserved''"
  using sys_invD(2) [OF sys_reachable_inv [OF assms(1)], of "wire_link q"] assms(2)
  by (auto simp: sent_links_def submitted_in_def)

theorem write_ahead_reservation_witness:
  "\<exists>r. lookup_reservation ''testnet'' (ew_identity (snd (demo_call demo_accept))) demo_link = Some r \<and>
       rs_status r \<noteq> ''Reserved''"
proof -
  obtain q where "q \<in> set (ew_wire (snd (demo_call demo_accept)))" "wire_link q = demo_link"
    using demo_accept_links by (auto simp: sent_links_def map_eq_Cons_conv)
  then show ?thesis using write_ahead_reservation [OF demo_reachable, of q] by simp
qed


lemma demo_hex: "hex_digest demo_digest"
proof
  have "is_hex (CHR ''a'')" by code_simp
  then show "list_all is_hex (demo_digest s)" "length (demo_digest s) = 64" for s
    by (auto simp: demo_digest_def list_all_iff)
qed



text \<open>
  C4. A call puts at most one POST on the wire, and only to the testnet order endpoint, with the
  link of its request, when the request is valid, the kill switch open in the environment and in
  the store, no reservation unresolved, the link unreserved, the client in sandbox mode with
  credentials and testnet execution enabled and the quote notional within the cap of the client.
\<close>

theorem submission_preconditions:
  assumes "execute H M post cl env req now_ms clk w = (res, w')" "ew_wire w' \<noteq> ew_wire w"
  shows "(\<exists>q. ew_wire w' = ew_wire w @ [q] \<and>
      hr_url q = ''https://api-testnet.bybit.com/v5/order/create'' \<and> wire_link q = rq_order_link_id req) \<and>
    (\<exists>u. validate_execution_request H req (current_ms now_ms clk) = Inr u) \<and>
    \<not> env_kill_active env \<and> \<not> latched (ew_kill w) \<and>
    unresolved H ''testnet'' (ew_identity w) = Inr [] \<and>
    lookup_reservation ''testnet'' (ew_identity w) (rq_order_link_id req) = None \<and>
    ec_mode cl = ''sandbox'' \<and> ec_api_key cl \<noteq> [] \<and> ec_api_secret cl \<noteq> [] \<and>
    env_truthy env ''TESTNET_EXECUTION_ENABLED'' \<and>
    (\<exists>text x. spot_quote_notional (float_repr (rq_quantity req)) (float_repr (rq_reference_price req)) = Inr text \<and>
      float_of_string text = Some x \<and> isfinite x \<and> \<not> flt (ec_max_notional cl) x)"
  using execute_sends_one [OF assms] execute_sends_gate [OF assms] execute_sends_preflight [OF assms]
    execute_sends_credentials [OF assms] by simp

theorem submission_preconditions_witness:
  "unresolved demo_digest ''testnet'' (ew_identity demo_world) = Inr [] \<and>
   \<not> env_kill_active demo_env \<and> \<not> latched (ew_kill demo_world)"
  using submission_preconditions [OF demo_execute demo_wire_changes(1)] by simp

text \<open>
  C5. An ambiguous outcome fails closed: when the transport raises after the POST, the call raises,
  the persistent kill switch is latched and the reservation stays \<open>Submitted\<close>.
\<close>

theorem ambiguous_outcome_latches:
  assumes "execute H M post cl env req now_ms clk w = (res, w')" "ew_wire w' \<noteq> ew_wire w"
    and "post (last (ew_wire w')) = HttpFailure name"
  shows "(\<exists>m. res = Inl (RuntimeError m)) \<and> latched (ew_kill w') \<and>
    (\<exists>r. lookup_reservation ''testnet'' (ew_identity w') (rq_order_link_id req) = Some r \<and>
         rs_status r = ''Submitted'')"
  using execute_sends_failure [OF assms] by simp

theorem ambiguous_outcome_latches_witness:
  "latched (ew_kill (snd (demo_call demo_timeout)))"
  using ambiguous_outcome_latches [OF demo_execute demo_wire_changes(2), of "''ReadTimeout''"]
  by (simp add: demo_timeout_def)

text \<open>
  While the kill switch is on, in the environment or latched in the store, every call of
  \<open>execute\<close> raises and leaves the whole world as it was.
\<close>

theorem kill_switch_blocks:
  assumes "env_kill_active env \<or> latched (ew_kill w)"
  shows "\<exists>e. execute H M post cl env req now_ms clk w = (Inl e, w)"
  using assms by (rule latched_blocks)

theorem kill_switch_blocks_witness:
  "\<exists>e. execute demo_digest demo_hmac demo_accept demo_client demo_env demo_request (Some 3000) demo_clock
         (snd (demo_call demo_timeout)) = (Inl e, snd (demo_call demo_timeout))"
  by (rule kill_switch_blocks)
    (use execute_sends_failure [OF demo_execute demo_wire_changes(2), of "''ReadTimeout''"] in
      \<open>simp add: demo_timeout_def\<close>)

text \<open>
  While any reservation of the registry is not terminal, \<open>execute\<close> raises for every request,
  sends nothing and leaves the registry unchanged.
\<close>

theorem unresolved_blocks:
  assumes "lookup_reservation ''testnet'' (ew_identity w) l = Some r" "rs_status r \<notin> set id_terminal"
  shows "\<exists>e w'. execute H M post cl env req now_ms clk w = (Inl e, w') \<and> ew_wire w' = ew_wire w \<and>
           ew_identity w' = ew_identity w"
  using unresolved_gate [OF assms, of H cl env req "current_ms now_ms clk" "clk 1"]
  by (auto simp: execute_def Let_def)

theorem unresolved_blocks_witness:
  "\<exists>e w'. execute demo_digest demo_hmac demo_accept demo_client demo_env demo_request (Some 3000) demo_clock
         (snd (demo_call demo_timeout)) = (Inl e, w') \<and>
     ew_wire w' = ew_wire (snd (demo_call demo_timeout)) \<and>
     ew_identity w' = ew_identity (snd (demo_call demo_timeout))"
proof -
  obtain r where "lookup_reservation ''testnet'' (ew_identity (snd (demo_call demo_timeout))) demo_link = Some r"
    "rs_status r = ''Submitted''"
    using execute_sends_failure [OF demo_execute demo_wire_changes(2), of "''ReadTimeout''"]
    by (auto simp: demo_timeout_def demo_request_def)
  then show ?thesis by (intro unresolved_blocks) (auto simp: id_terminal_def)
qed

text \<open>
  C8. A call that returns has sent one POST and bound the order id of the response: the
  reservation of the request carries it, is \<open>Submitted\<close>, and the kill switch is untouched.
\<close>

theorem accepted_order_is_bound:
  assumes "execute H M post cl env req now_ms clk w = (Inr result, w')"
  shows "\<exists>oid r. er_order_id result = Some oid \<and> er_order_link_id result = rq_order_link_id req \<and>
    ew_kill w' = ew_kill w \<and> length (ew_wire w') = Suc (length (ew_wire w)) \<and>
    lookup_reservation ''testnet'' (ew_identity w') (rq_order_link_id req) = Some r \<and>
    rs_order_id r = strip oid \<and> rs_status r = ''Submitted''"
  using execute_returns [OF assms] by blast

theorem accepted_order_is_bound_witness:
  "\<exists>r. lookup_reservation ''testnet'' (ew_identity (snd (demo_call demo_accept))) demo_link = Some r \<and>
       rs_status r = ''Submitted''"
proof -
  obtain q where "fst (demo_call demo_accept) = Inr q" using demo_accept_result by blast
  with demo_execute [of demo_accept] have "execute demo_digest demo_hmac demo_accept demo_client demo_env
      demo_request (Some 2000) demo_clock demo_world = (Inr q, snd (demo_call demo_accept))" by simp
  from accepted_order_is_bound [OF this] show ?thesis by (auto simp: demo_request_def)
qed

section \<open>Restart\<close>

text \<open>
  C9. A blocked restart stops execution: when the startup reconciliation reports that it is not
  safe to restart, a call of \<open>execute\<close> under the same environment raises and leaves the world as it
  was, however often the switch was tripped or a clear was refused in between; only a clear that
  goes through ends this.
\<close>

theorem blocked_restart_stops_execution:
  assumes "reconcile_startup H env su gate_clock clock trip_clock others kill_others sw = (Inr rep, sw')"
    and "\<not> sr_restart_safe rep" "well_behaved kill_others" "uncleared_step\<^sup>*\<^sup>* (sw_kill sw') (ew_kill w)"
  shows "\<exists>e. execute H M post cl env req now_ms clk w = (Inl e, w)"
proof (rule latched_blocks)
  show "env_kill_active env \<or> latched (ew_kill w)"
    using reconcile_startup_blocks [OF assms(1-3)] uncleared_keeps_latch [OF assms(4)] by blast
qed

definition demo_reconciler :: startup_reconciler where
  "demo_reconciler = \<lparr>su_environment = ''testnet'', su_registry = ''testnet'',
     su_orders = \<lparr>st_environment = ''testnet'', st_max_message_lag_ms = 30000, st_max_future_skew_ms = 1000\<rparr>,
     su_stream = ''testnet'', su_require_private_stream = True\<rparr>"

definition demo_startup :: "kill_switch_state kv \<Rightarrow> startup_world" where
  "demo_startup kill = \<lparr>sw_identity = \<lambda>_. None, sw_orders = \<lambda>_. None, sw_health = \<lambda>_. None,
     sw_journal = [], sw_kill = kill\<rparr>"

definition demo_restart :: "os_env \<Rightarrow> kill_switch_state kv \<Rightarrow> startup_report res \<times> startup_world" where
  "demo_restart env kill =
     reconcile_startup demo_digest env demo_reconciler 4000 4000 4000 (\<lambda>_. []) [] (demo_startup kill)"

lemma demo_restart_blocked:
  assumes "case demo_restart env kill of (Inl e, sw') \<Rightarrow> False | (Inr rep, sw') \<Rightarrow> \<not> sr_restart_safe rep"
  obtains rep where "reconcile_startup demo_digest env demo_reconciler 4000 4000 4000 (\<lambda>_. []) []
     (demo_startup kill) = (Inr rep, snd (demo_restart env kill))" "\<not> sr_restart_safe rep"
  using assms unfolding demo_restart_def by (auto split: prod.splits sum.splits)

definition demo_tripped :: "kill_switch_state kv" where
  "demo_tripped = snd (trip ''drawdown'' ''RiskGuard'' ''risk'' 5000 [] (sw_kill (snd (demo_restart demo_env (\<lambda>_. None)))))"

theorem blocked_restart_stops_execution_witness:
  "\<exists>e. execute demo_digest demo_hmac demo_accept demo_client demo_env demo_request (Some 2000) demo_clock
     (demo_world\<lparr>ew_kill := demo_tripped\<rparr>) = (Inl e, demo_world\<lparr>ew_kill := demo_tripped\<rparr>)"
proof -
  have "case demo_restart demo_env (\<lambda>_. None) of (Inl e, sw') \<Rightarrow> False | (Inr rep, sw') \<Rightarrow> \<not> sr_restart_safe rep"
    by code_simp
  then obtain rep where r: "reconcile_startup demo_digest demo_env demo_reconciler 4000 4000 4000 (\<lambda>_. []) []
     (demo_startup (\<lambda>_. None)) = (Inr rep, snd (demo_restart demo_env (\<lambda>_. None)))" "\<not> sr_restart_safe rep"
    by (rule demo_restart_blocked)
  have "uncleared_step (sw_kill (snd (demo_restart demo_env (\<lambda>_. None)))) demo_tripped"
    unfolding demo_tripped_def by (rule trip_again [OF prod.collapse [symmetric]])
  then have "uncleared_step\<^sup>*\<^sup>* (sw_kill (snd (demo_restart demo_env (\<lambda>_. None)))) demo_tripped" by blast
  then show ?thesis by (intro blocked_restart_stops_execution [OF r]) (simp_all add: well_behaved_def)
qed

text \<open>
  C10. What a restart certifies: when \<open>assert_restart_safe\<close> returns on a registry built by its own
  operations, and nobody else wrote the registry during the check, every reservation is terminal,
  every managed private order has a reservation, the private stream is live if it is required, no
  reservation was lost or turned back on the way, and the other stores are untouched.
\<close>

theorem restart_safe_certifies:
  assumes "hex_digest H"
    and "assert_restart_safe H env su gate_clock clock trip_clock (\<lambda>_. []) kill_others w = (Inr rep, w')"
    and "registry_reachable H (su_registry su) (sw_identity w)" "su_registry su \<in> set id_environments"
  shows "(\<forall>l r. lookup_reservation (su_registry su) (sw_identity w') l = Some r \<longrightarrow> rs_status r \<in> set id_terminal) \<and>
    (\<exists>priv. order_snapshot_of (su_orders su) (sw_orders w) = Inr priv \<and>
       (\<forall>s \<in> set (sn_managed_orders priv). os_order_link_id s \<noteq> [] \<longrightarrow>
          (\<exists>r. lookup_reservation (su_registry su) (sw_identity w') (os_order_link_id s) = Some r))) \<and>
    (su_require_private_stream su \<longrightarrow> (\<exists>h v m. health_snapshot (su_stream su) (sw_health w) = Inr (h, v) \<and>
       stream_live (su_stream su) h gate_clock m \<and> m \<le> 300000)) \<and>
    (registry_op H (su_registry su))\<^sup>*\<^sup>* (sw_identity w) (sw_identity w') \<and>
    w' = w\<lparr>sw_identity := sw_identity w'\<rparr>"
proof -
  note cell = id_cell [OF assms(4)]
  have safe: "sr_restart_safe rep"
    and r: "startup_report_of H env su gate_clock clock (\<lambda>_. []) w = (Inr rep, sw_identity w')"
    using assert_restart_safe_Inr [OF assms(2)] reconcile_startup_safe(1) by blast+
  have w': "w' = w\<lparr>sw_identity := sw_identity w'\<rparr>"
    using assert_restart_safe_Inr(2,1) [OF assms(2)] by (rule reconcile_startup_safe(2))
  have ops: "(registry_op H (su_registry su))\<^sup>*\<^sup>* (sw_identity w) (sw_identity w')"
    using r by (rule startup_report_ops)
  have wf: "registry_store_wf H (su_registry su) (sw_identity w)"
    "registry_store_wf H (su_registry su) (sw_identity w')"
    using hex_digest.registry_reachable_wf [OF assms(1)] assms(3,4) registry_reachable_ops [OF ops assms(3)] by blast+
  obtain identity priv stream final where s:
    "snapshot H (su_registry su) (sw_identity w) = Inr identity"
    "order_snapshot_of (su_orders su) (sw_orders w) = Inr priv"
    "evaluate (su_stream su) (su_require_private_stream su) None (private_stream_max_age_seconds env)
      gate_clock (sw_health w) = Inr stream"
    "snapshot H (su_registry su) (sw_identity w') = Inr final"
    "su_require_private_stream su \<longrightarrow> pg_ready stream"
    "filter (\<lambda>l. l \<noteq> []) (map rs_order_link_id (is_unresolved final)) = []"
    "orphan_errors (filter (\<lambda>l. l \<noteq> []) (map rs_order_link_id (is_reservations identity))) (sn_managed_orders priv) = []"
    using startup_report_safe [OF r safe] by blast
  have terminal: "\<forall>l q. lookup_reservation (su_registry su) (sw_identity w') l = Some q \<longrightarrow> rs_status q \<in> set id_terminal"
    using resolved_registry [OF wf(2) cell s(4,6)] by blast
  have managed: "\<exists>q. lookup_reservation (su_registry su) (sw_identity w') (os_order_link_id o1) = Some q"
    if "o1 \<in> set (sn_managed_orders priv)" "os_order_link_id o1 \<noteq> []" for o1
  proof -
    from that s(7) obtain q where q: "q \<in> set (is_reservations identity)" "rs_order_link_id q = os_order_link_id o1"
      by (auto simp: orphan_errors_Nil)
    from snapshot_lookup [OF s(1) cell wf(1) q(1)] registry_ops_lookup [OF ops cell] q(2) show ?thesis by fastforce
  qed
  have live: "\<exists>h v m. health_snapshot (su_stream su) (sw_health w) = Inr (h, v) \<and>
       stream_live (su_stream su) h gate_clock m \<and> m \<le> 300000" if req: "su_require_private_stream su"
  proof (rule evaluate_live)
    show "evaluate (su_stream su) True None (private_stream_max_age_seconds env) gate_clock (sw_health w) = Inr stream"
      using s(3) req by simp
    show "pg_ready stream" using s(5) req by simp
  qed
  from terminal managed live s(2) ops w' show ?thesis by blast
qed

lemma demo_registry_reachable: "registry_reachable demo_digest ''testnet'' (ew_identity (snd (demo_call demo_accept)))"
proof -
  have "registry_reachable demo_digest ''testnet'' (ew_identity demo_world)"
    by (simp add: demo_world_def registry_reachable.start)
  with execute_ops [OF demo_execute, of demo_accept] show ?thesis using registry_reachable_ops by blast
qed

text \<open>The tables a restart finds after the accepted order of the run, once the exchange reported its fill.\<close>

definition demo_hash :: string where
  "demo_hash = replicate 64 (CHR ''a'')"

definition demo_submitted :: "identity_doc kv_row" where
  "demo_submitted = \<lparr>kv_doc = \<lparr>id_environment = ''testnet'',
       id_reservations = [(demo_link, \<lparr>rs_order_link_id = demo_link, rs_order_id = ''o-1'', rs_fingerprint = demo_hash,
          rs_root_fingerprint = demo_hash, rs_intent = \<lparr>oi_candidate_id = ''c1'', oi_environment = ''testnet'',
            oi_category = ''spot'', oi_symbol = ''BTCUSDT'', oi_side = ''Sell'', oi_order_type = ''Market'',
            oi_quantity = ''0.5'', oi_price = [], oi_time_in_force = ''IOC'', oi_reduce_only = False,
            oi_position_idx = 0, oi_market_unit = ''baseCoin'', oi_attempt = 1\<rparr>,
          rs_attempt = 1, rs_status = ''Submitted'', rs_cum_exec_qty = Fin 0, rs_created_at_ms = 2000,
          rs_updated_at_ms = 2000, rs_revision = 3\<rparr>)],
       id_fingerprints = [(demo_hash, demo_link)], id_updated_at_ms = 2000\<rparr>,
     kv_version = 3, kv_updated_at_ms = 2000\<rparr>"

definition demo_filled_order :: order_state where
  "demo_filled_order = \<lparr>os_environment = ''testnet'', os_order_id = ''o-1'', os_order_link_id = demo_link,
     os_category = ''spot'', os_symbol = ''BTCUSDT'', os_side = ''Sell'', os_status = ''Filled'', os_qty = Fin (1 / 2),
     os_cum_exec_qty = Fin (1 / 2), os_avg_price = Fin 20, os_created_time_ms = 2500, os_updated_time_ms = 3000,
     os_message_creation_time_ms = 3000, os_message_id = ''msg-3000'', os_reject_reason = []\<rparr>"

definition demo_orders :: "order_doc kv_row" where
  "demo_orders = \<lparr>kv_doc = \<lparr>od_environment = ''testnet'', od_orders = [(''link:'' @ demo_link, demo_filled_order)],
       od_aliases = [(''order:o-1'', ''link:'' @ demo_link), (''link:'' @ demo_link, ''link:'' @ demo_link)],
       od_last_message_creation_ms = 3000, od_updated_at_ms = 3000\<rparr>,
     kv_version = 1, kv_updated_at_ms = 3001\<rparr>"

definition demo_health :: "stream_health kv_row" where
  "demo_health = \<lparr>kv_doc = \<lparr>sh_environment = ''testnet'', sh_enabled = True, sh_worker_running = True,
       sh_credentials_configured = True, sh_connected = True, sh_authenticated = True, sh_subscribed = True,
       sh_last_message_at_ms = 3400, sh_last_heartbeat_at_ms = 3500, sh_ready_at_ms = 3000, sh_last_error = [],
       sh_recorded_at_ms = 3500\<rparr>, kv_version = 1, kv_updated_at_ms = 3500\<rparr>"

definition demo_journal :: journal_table where
  "demo_journal = [(''e1'', \<lparr>kv_doc = [(''order_link_id'', PyStr demo_link), (''order_id'', PyStr ''o-1''),
       (''journal_event_id'', PyStr ''e1''), (''recorded_at_ms'', PyInt 2600)], kv_version = 1, kv_updated_at_ms = 2601\<rparr>)]"

definition demo_after :: startup_world where
  "demo_after = \<lparr>sw_identity = (\<lambda>_. None)((id_namespace, ''testnet'') \<mapsto> demo_submitted),
     sw_orders = (\<lambda>_. None)((os_namespace, ''testnet'') \<mapsto> demo_orders),
     sw_health = (\<lambda>_. None)((health_namespace, ''testnet'') \<mapsto> demo_health),
     sw_journal = demo_journal, sw_kill = (\<lambda>_. None)\<rparr>"

definition demo_checked :: "startup_report res \<times> startup_world" where
  "demo_checked = assert_restart_safe demo_digest demo_env demo_reconciler 4000 4000 4000 (\<lambda>_. []) [] demo_after"

lemma demo_submitted_row: "ew_identity (snd (demo_call demo_accept)) (id_namespace, ''testnet'') = Some demo_submitted"
  by code_simp

lemma demo_after_managed:
  "(case order_snapshot_of (su_orders demo_reconciler) (sw_orders demo_after) of Inl e \<Rightarrow> [] | Inr p \<Rightarrow> map os_order_link_id (sn_managed_orders p)) = [demo_link]"
  by code_simp

lemma demo_checked_safe: "case demo_checked of (Inl e, sw') \<Rightarrow> False | (Inr rep, sw') \<Rightarrow> True"
  by code_simp

lemma demo_after_reachable: "registry_reachable demo_digest ''testnet'' (sw_identity demo_after)"
proof -
  have "ew_identity (snd (demo_call demo_accept)) k = sw_identity demo_after k" for k
    using demo_submitted_row registry_ops_frame [OF execute_ops [OF demo_execute, of demo_accept] id_cell_testnet, of k]
    by (cases "k = (id_namespace, ''testnet'')") (simp_all add: demo_after_def demo_world_def)
  with demo_registry_reachable show ?thesis by (metis ext)
qed

theorem restart_safe_certifies_witness:
  "(\<exists>r. lookup_reservation ''testnet'' (sw_identity (snd demo_checked)) demo_link = Some r \<and>
      rs_status r \<in> set id_terminal) \<and>
   map_option rs_status (lookup_reservation ''testnet'' (sw_identity demo_after) demo_link) = Some ''Submitted'' \<and>
   (\<exists>h v m. health_snapshot ''testnet'' (sw_health demo_after) = Inr (h, v) \<and> stream_live ''testnet'' h 4000 m)"
proof -
  obtain rep where run: "assert_restart_safe demo_digest demo_env demo_reconciler 4000 4000 4000 (\<lambda>_. []) [] demo_after =
      (Inr rep, snd demo_checked)"
    using demo_checked_safe by (auto simp: demo_checked_def split: prod.splits sum.splits)
  have su: "su_registry demo_reconciler = ''testnet''" "su_stream demo_reconciler = ''testnet''"
    "su_require_private_stream demo_reconciler" by (simp_all add: demo_reconciler_def)
  have "registry_reachable demo_digest (su_registry demo_reconciler) (sw_identity demo_after)"
    "su_registry demo_reconciler \<in> set id_environments"
    using demo_after_reachable by (simp_all add: su id_environments_def)
  note certified = restart_safe_certifies [OF demo_hex run this, unfolded su]
  obtain priv s where "order_snapshot_of (su_orders demo_reconciler) (sw_orders demo_after) = Inr priv"
    "s \<in> set (sn_managed_orders priv)" "os_order_link_id s = demo_link"
    using demo_after_managed by (auto split: sum.splits)
  moreover have "demo_link \<noteq> []" by (simp add: demo_link_def)
  ultimately obtain r where "lookup_reservation ''testnet'' (sw_identity (snd demo_checked)) demo_link = Some r"
    using certified by (metis sum.inject(2))
  moreover from this certified have "rs_status r \<in> set id_terminal" by blast
  moreover have "\<exists>h v m. health_snapshot ''testnet'' (sw_health demo_after) = Inr (h, v) \<and> stream_live ''testnet'' h 4000 m"
    using certified su(3) by blast
  moreover have "map_option rs_status (lookup_reservation ''testnet'' (sw_identity demo_after) demo_link) = Some ''Submitted''"
    by (simp add: lookup_reservation_def demo_after_def demo_submitted_def)
  ultimately show ?thesis by blast
qed

text \<open>
  The latch that is not set: while the environment flag is up and the stored row was cleared by
  hand, the state of the switch reads \<open>environment+persistent\<close>, and a reconciliation that fails
  leaves the row open; lowering the flag afterwards re-enables execution without a new
  reconciliation.
\<close>

theorem failed_restart_may_leave_latch_open:
  assumes "reconcile_startup H env su gate_clock clock trip_clock others kill_others sw = (Inr rep, sw')"
    and "\<not> sr_restart_safe rep" "env_kill_active env"
    and "sw_kill sw (kill_namespace, kill_key) = Some row" "\<not> ks_active (kv_doc row)"
  shows "sw_kill sw' = sw_kill sw \<and> \<not> latched (sw_kill sw')"
proof -
  have "startup_latch env trip_clock kill_others (sw_kill sw) = (Inr (), sw_kill sw)"
    using assms(3-5) by (simp add: startup_latch_skips)
  with assms(1,2) have "sw_kill sw' = sw_kill sw"
    by (auto simp: reconcile_startup_def split: prod.splits sum.splits if_splits)
  then show ?thesis using assms(4,5) by (simp add: latched_def)
qed

definition demo_cleared :: "kill_switch_state kv" where
  "demo_cleared = (\<lambda>_. None)((kill_namespace, kill_key) \<mapsto>
     \<lparr>kv_doc = \<lparr>ks_active = False, ks_generation = 2, ks_reason = ''manually_cleared_after_reconciliation'',
        ks_actor = ''operator'', ks_updated_at_ms = 3000, ks_source = ''manual_reconciliation_gate''\<rparr>,
      kv_version = 2, kv_updated_at_ms = 3000\<rparr>)"

theorem failed_restart_may_leave_latch_open_witness:
  "\<not> latched (sw_kill (snd (demo_restart (\<lambda>_. None) demo_cleared)))"
proof -
  have "case demo_restart (\<lambda>_. None) demo_cleared of (Inl e, sw') \<Rightarrow> False | (Inr rep, sw') \<Rightarrow> \<not> sr_restart_safe rep"
    by code_simp
  then obtain rep where r: "reconcile_startup demo_digest (\<lambda>_. None) demo_reconciler 4000 4000 4000 (\<lambda>_. []) []
     (demo_startup demo_cleared) = (Inr rep, snd (demo_restart (\<lambda>_. None) demo_cleared))" "\<not> sr_restart_safe rep"
    by (rule demo_restart_blocked)
  have "env_kill_active (\<lambda>_. None)" by code_simp
  moreover obtain row where "sw_kill (demo_startup demo_cleared) (kill_namespace, kill_key) = Some row" "\<not> ks_active (kv_doc row)"
    by (simp add: demo_startup_def demo_cleared_def)
  ultimately show ?thesis using failed_restart_may_leave_latch_open [OF r] by blast
qed

section \<open>The safety cap\<close>




end
